(* ===== verification/Prelude.thy ===== *)
theory Prelude
  imports Main
begin

text \<open>
  The vocabulary every component shares: Go's error values and \<open>fmt.Errorf\<close>, results that
  are either an error or a value, the functions of Go's \<open>strings\<close>, \<open>strconv\<close> and
  \<open>unicode/utf8\<close> packages that the program calls, and generic lemmas about them.

  A Go \<open>string\<close> is a sequence of bytes, which is what \<open>string\<close> (a list of 8-bit
  characters) is here. A Go \<open>error\<close> is modelled by its message, so the messages of the
  model are the messages of the program.
\<close>

section \<open>Errors and results\<close>

datatype go_error = GoError (error_text: string)

type_synonym 'a res = "go_error + 'a"

text \<open>Sequencing: the \<open>if err != nil { return ..., err }\<close> after a call.\<close>

definition and_then :: "'a res \<Rightarrow> ('a \<Rightarrow> 'b res) \<Rightarrow> 'b res" where
  "and_then r f = (case r of Inl e \<Rightarrow> Inl e | Inr x \<Rightarrow> f x)"

text \<open>A call whose only result is an error (\<open>nil\<close> is \<open>None\<close>), and a wrapped error.\<close>

definition check_then :: "go_error option \<Rightarrow> 'b res \<Rightarrow> 'b res" where
  "check_then r k = (case r of Some e \<Rightarrow> Inl e | None \<Rightarrow> k)"

definition map_error :: "(go_error \<Rightarrow> go_error) \<Rightarrow> 'a res \<Rightarrow> 'a res" where
  "map_error h r = (case r of Inl e \<Rightarrow> Inl (h e) | Inr x \<Rightarrow> Inr x)"

named_theorems result_simps \<open>reading off how a sequence of calls succeeded\<close>

lemma and_then_simps [simp]:
  "and_then (Inl e) f = Inl e"
  "and_then (Inr x) f = f x"
  by (simp_all add: and_then_def)

lemma and_then_Inr_iff [result_simps]:
  "and_then r f = Inr y \<longleftrightarrow> (\<exists>x. r = Inr x \<and> f x = Inr y)"
  by (cases r) simp_all

lemma check_then_simps [simp]:
  "check_then (Some e) k = Inl e"
  "check_then None k = k"
  by (simp_all add: check_then_def)

lemma check_then_Inr_iff [result_simps]:
  "check_then r k = Inr y \<longleftrightarrow> r = None \<and> k = Inr y"
  by (cases r) simp_all

lemma map_error_simps [simp]:
  "map_error h (Inl e) = Inl (h e)"
  "map_error h (Inr x) = Inr x"
  by (simp_all add: map_error_def)

lemma map_error_Inr_iff [result_simps]: "map_error h r = Inr y \<longleftrightarrow> r = Inr y"
  by (cases r) simp_all

lemma if_Inl_eq_Inr [result_simps]:
  "(if b then Inl e else r) = Inr y \<longleftrightarrow> \<not> b \<and> r = Inr y"
  by simp

lemma if_Some_eq_None [result_simps]:
  "(if b then Some e else r) = None \<longleftrightarrow> \<not> b \<and> r = None"
  by simp

lemma and_then_cong [fundef_cong]:
  "r = r' \<Longrightarrow> (\<And>x. r' = Inr x \<Longrightarrow> f x = g x) \<Longrightarrow> and_then r f = and_then r' g"
  by (cases r') auto

lemma seq_err_None [simp]: "(case x of None \<Rightarrow> r | Some e \<Rightarrow> Some e) = None \<longleftrightarrow> x = None \<and> r = None"
  by (cases x) simp_all

text \<open>The error of the first element that has one: a loop that returns early.\<close>

fun first_err :: "('a \<Rightarrow> go_error option) \<Rightarrow> 'a list \<Rightarrow> go_error option" where
  "first_err f [] = None"
| "first_err f (x # xs) = (case f x of Some e \<Rightarrow> Some e | None \<Rightarrow> first_err f xs)"

lemma first_err_None [simp]: "first_err f xs = None \<longleftrightarrow> (\<forall>x\<in>set xs. f x = None)"
  by (induction xs) (auto split: option.splits)

lemma first_err_cong [fundef_cong]:
  "xs = ys \<Longrightarrow> (\<And>x. x \<in> set ys \<Longrightarrow> f x = g x) \<Longrightarrow> first_err f xs = first_err g ys"
  by (induction xs arbitrary: ys) (auto split: option.splits)

text \<open>The same loop when the message names the position, counted from a start index.\<close>

fun first_err_from :: "nat \<Rightarrow> (nat \<Rightarrow> 'a \<Rightarrow> go_error option) \<Rightarrow> 'a list \<Rightarrow> go_error option" where
  "first_err_from i f [] = None"
| "first_err_from i f (x # xs) =
     (case f i x of Some e \<Rightarrow> Some e | None \<Rightarrow> first_err_from (Suc i) f xs)"

lemma first_err_from_None [result_simps]:
  "first_err_from i f xs = None \<longleftrightarrow> (\<forall>j < length xs. f (i + j) (xs ! j) = None)"
proof (induction xs arbitrary: i)
  case (Cons x xs)
  show ?case
    by (auto simp: Cons.IH less_Suc_eq_0_disj split: option.splits)
qed simp

section \<open>Decimal numbers, \<open>strconv.Quote\<close> and \<open>fmt\<close>\<close>

definition digit_char :: "nat \<Rightarrow> char" where
  "digit_char n = ''0123456789'' ! n"

fun show_nat :: "nat \<Rightarrow> string" where
  "show_nat n = (if n < 10 then [digit_char n] else show_nat (n div 10) @ [digit_char (n mod 10)])"

declare show_nat.simps [simp del]

definition show_int :: "int \<Rightarrow> string" where
  "show_int i = (if i < 0 then CHR ''-'' # show_nat (nat (- i)) else show_nat (nat i))"

definition byte :: "char \<Rightarrow> nat" where
  "byte c = of_char c"

text \<open>
  The width of the UTF-8 sequence that starts a byte sequence, 0 when there is no valid one:
  the acceptance table of Go's \<open>unicode/utf8\<close> (no overlong forms, no surrogates, nothing
  above U+10FFFF).
\<close>

definition continuation :: "nat \<Rightarrow> bool" where
  "continuation b \<longleftrightarrow> 128 \<le> b \<and> b \<le> 191"

fun utf8_width :: "nat list \<Rightarrow> nat" where
  "utf8_width [] = 0"
| "utf8_width (b # bs) =
     (if b < 128 then 1
      else if 194 \<le> b \<and> b \<le> 223 then
        (case bs of c # _ \<Rightarrow> if continuation c then 2 else 0 | _ \<Rightarrow> 0)
      else if 224 \<le> b \<and> b \<le> 239 then
        (case bs of c # d # _ \<Rightarrow>
            if continuation c \<and> continuation d \<and> (b = 224 \<longrightarrow> 160 \<le> c) \<and> (b = 237 \<longrightarrow> c \<le> 159)
            then 3 else 0
          | _ \<Rightarrow> 0)
      else if 240 \<le> b \<and> b \<le> 244 then
        (case bs of c # d # e # _ \<Rightarrow>
            if continuation c \<and> continuation d \<and> continuation e
               \<and> (b = 240 \<longrightarrow> 144 \<le> c) \<and> (b = 244 \<longrightarrow> c \<le> 143)
            then 4 else 0
          | _ \<Rightarrow> 0)
      else 0)"

declare utf8_width.simps [simp del]

text \<open>\<open>utf8.ValidString\<close>; \<open>fuel\<close> is the number of bytes left, one at least is used per step.\<close>

fun utf8_valid_fuel :: "nat \<Rightarrow> nat list \<Rightarrow> bool" where
  "utf8_valid_fuel fuel [] = True"
| "utf8_valid_fuel 0 (b # bs) = False"
| "utf8_valid_fuel (Suc fuel) (b # bs) =
     (let w = utf8_width (b # bs) in w \<noteq> 0 \<and> utf8_valid_fuel fuel (drop w (b # bs)))"

definition utf8_valid_string :: "string \<Rightarrow> bool" where
  "utf8_valid_string s = utf8_valid_fuel (length s) (map byte s)"

definition hex_digit :: "nat \<Rightarrow> char" where
  "hex_digit n = ''0123456789abcdef'' ! n"

text \<open>
  \<open>strconv.Quote\<close>, the \<open>%q\<close> verb. A non-ASCII rune is copied: this is exact for printable
  runes, and Go's escapes for the non-printable non-ASCII ones are not modelled.
\<close>

definition quote_ascii :: "nat \<Rightarrow> string" where
  "quote_ascii b =
     (if b = 34 \<or> b = 92 then [CHR 0x5C, char_of b]
      else if b = 7 then [CHR 0x5C, CHR ''a''] else if b = 8 then [CHR 0x5C, CHR ''b'']
      else if b = 12 then [CHR 0x5C, CHR ''f''] else if b = 10 then [CHR 0x5C, CHR ''n'']
      else if b = 13 then [CHR 0x5C, CHR ''r''] else if b = 9 then [CHR 0x5C, CHR ''t'']
      else if b = 11 then [CHR 0x5C, CHR ''v'']
      else if b < 32 \<or> b = 127 then [CHR 0x5C, CHR ''x'', hex_digit (b div 16), hex_digit (b mod 16)]
      else [char_of b])"

fun quote_body :: "nat \<Rightarrow> nat list \<Rightarrow> string" where
  "quote_body fuel [] = []"
| "quote_body 0 (b # bs) = []"
| "quote_body (Suc fuel) (b # bs) =
     (if b < 128 then quote_ascii b @ quote_body fuel bs
      else let w = utf8_width (b # bs) in
        if w = 0 then [CHR 0x5C, CHR ''x'', hex_digit (b div 16), hex_digit (b mod 16)] @ quote_body fuel bs
        else map char_of (take w (b # bs)) @ quote_body fuel (drop w (b # bs)))"

definition go_quote :: "string \<Rightarrow> string" where
  "go_quote s = CHR 0x22 # quote_body (length s) (map byte s) @ [CHR 0x22]"

datatype farg = FStr string | FInt int | FBool bool

fun show_farg :: "char \<Rightarrow> farg \<Rightarrow> string" where
  "show_farg verb (FStr s) = (if verb = CHR ''q'' then go_quote s else s)"
| "show_farg verb (FInt i) = show_int i"
| "show_farg verb (FBool b) = (if b then ''true'' else ''false'')"

text \<open>
  \<open>fmt.Sprintf\<close> for the verbs of the program (\<open>%s\<close>, \<open>%d\<close>, \<open>%q\<close>, \<open>%t\<close>, \<open>%w\<close>), each with
  its operand: \<open>%w\<close> takes the message of the wrapped error. No format of the program has a
  missing or an extra operand.
\<close>

fun sprintf :: "string \<Rightarrow> farg list \<Rightarrow> string" where
  "sprintf [] args = []"
| "sprintf (c # cs) args =
     (case cs of
        v # cs' \<Rightarrow>
          (case args of
             a # args' \<Rightarrow> if c = CHR ''%'' then show_farg v a @ sprintf cs' args' else c # sprintf cs args
           | [] \<Rightarrow> c # sprintf cs args)
      | [] \<Rightarrow> c # sprintf cs args)"

definition Errorf :: "string \<Rightarrow> farg list \<Rightarrow> go_error" where
  "Errorf fmt args = GoError (sprintf fmt args)"

abbreviation FErr :: "go_error \<Rightarrow> farg" where
  "FErr e \<equiv> FStr (error_text e)"

abbreviation FNat :: "nat \<Rightarrow> farg" where
  "FNat n \<equiv> FInt (int n)"

definition str_join :: "string \<Rightarrow> string list \<Rightarrow> string" where
  "str_join sep xs = (case xs of [] \<Rightarrow> [] | x # ys \<Rightarrow> x @ concat (map (\<lambda>y. sep @ y) ys))"

section \<open>The \<open>strings\<close> package\<close>

definition has_prefix :: "string \<Rightarrow> string \<Rightarrow> bool" where
  "has_prefix s p \<longleftrightarrow> take (length p) s = p"

definition has_suffix :: "string \<Rightarrow> string \<Rightarrow> bool" where
  "has_suffix s p \<longleftrightarrow> length p \<le> length s \<and> drop (length s - length p) s = p"

definition trim_prefix :: "string \<Rightarrow> string \<Rightarrow> string" where
  "trim_prefix s p = (if has_prefix s p then drop (length p) s else s)"

text \<open>\<open>strings.Cut\<close>: \<open>None\<close> when the separator does not occur.\<close>

fun str_cut :: "string \<Rightarrow> string \<Rightarrow> (string \<times> string) option" where
  "str_cut sep [] = (if sep = [] then Some ([], []) else None)"
| "str_cut sep (c # cs) =
     (if has_prefix (c # cs) sep then Some ([], drop (length sep) (c # cs))
      else map_option (\<lambda>(before, after). (c # before, after)) (str_cut sep cs))"

definition str_contains :: "string \<Rightarrow> string \<Rightarrow> bool" where
  "str_contains s sub \<longleftrightarrow> str_cut sub s \<noteq> None"

fun str_replace_char :: "char \<Rightarrow> string \<Rightarrow> string \<Rightarrow> string" where
  "str_replace_char c r [] = []"
| "str_replace_char c r (x # xs) = (if x = c then r else [x]) @ str_replace_char c r xs"

text \<open>
  \<open>strings.ToUpper\<close> as far as the program can tell: its results are compared with ASCII
  text only, so of the non-ASCII runes just the two whose upper case is ASCII matter, U+0131
  (bytes C4 B1, upper case I) and U+017F (bytes C5 BF, upper case S). The other non-ASCII
  runes are left as they are.
\<close>

definition ascii_upper :: "char \<Rightarrow> char" where
  "ascii_upper c = (if 97 \<le> byte c \<and> byte c \<le> 122 then char_of (byte c - 32) else c)"

definition ascii_lower :: "char \<Rightarrow> char" where
  "ascii_lower c = (if 65 \<le> byte c \<and> byte c \<le> 90 then char_of (byte c + 32) else c)"

fun to_upper :: "string \<Rightarrow> string" where
  "to_upper [] = []"
| "to_upper [c] = [ascii_upper c]"
| "to_upper (c # d # cs) =
     (if byte c = 196 \<and> byte d = 177 then CHR ''I'' # to_upper cs
      else if byte c = 197 \<and> byte d = 191 then CHR ''S'' # to_upper cs
      else ascii_upper c # to_upper (d # cs))"

text \<open>
  \<open>strings.EqualFold\<close> against ASCII text: besides the ASCII letters, U+017F folds with s and
  U+212A (bytes E2 84 AA) with k.
\<close>

fun fold_case :: "string \<Rightarrow> string" where
  "fold_case [] = []"
| "fold_case [c] = [ascii_lower c]"
| "fold_case [c, d] =
     (if byte c = 197 \<and> byte d = 191 then ''s'' else ascii_lower c # fold_case [d])"
| "fold_case (c # d # e # cs) =
     (if byte c = 197 \<and> byte d = 191 then CHR ''s'' # fold_case (e # cs)
      else if byte c = 226 \<and> byte d = 132 \<and> byte e = 170 then CHR ''k'' # fold_case cs
      else ascii_lower c # fold_case (d # e # cs))"

definition equal_fold :: "string \<Rightarrow> string \<Rightarrow> bool" where
  "equal_fold s t \<longleftrightarrow> fold_case s = fold_case t"

section \<open>A switch over strings\<close>

text \<open>A Go \<open>switch name\<close> whose cases list several labels; \<open>d\<close> is the default case.\<close>

fun switch :: "(string list \<times> 'a) list \<Rightarrow> 'a \<Rightarrow> string \<Rightarrow> 'a" where
  "switch [] d name = d"
| "switch ((labels, v) # cases) d name = (if List.member labels name then v else switch cases d name)"

lemma switch_result:
  "switch cases d name = d \<or> (\<exists>labels v. (labels, v) \<in> set cases \<and> name \<in> set labels \<and> switch cases d name = v)"
  by (induction cases d name rule: switch.induct) auto

lemma switch_all:
  "P d \<Longrightarrow> (\<And>labels v. (labels, v) \<in> set cases \<Longrightarrow> name \<in> set labels \<Longrightarrow> P v) \<Longrightarrow> P (switch cases d name)"
  by (induction cases d name rule: switch.induct) auto

lemma switch_default: "name \<notin> (\<Union>c\<in>set cases. set (fst c)) \<Longrightarrow> switch cases d name = d"
  by (induction cases d name rule: switch.induct) auto

section \<open>Generic lemmas\<close>

lemma has_prefix_iff: "has_prefix s p \<longleftrightarrow> (\<exists>r. s = p @ r)"
  unfolding has_prefix_def by (metis append_eq_conv_conj append_take_drop_id)

lemma has_prefix_append [simp]: "has_prefix (p @ r) p"
  by (auto simp: has_prefix_iff)

lemma has_suffix_iff: "has_suffix s p \<longleftrightarrow> (\<exists>r. s = r @ p)"
  unfolding has_suffix_def
  by (metis append_eq_conv_conj append_take_drop_id diff_add_inverse2 le_add2 length_append)

lemma trim_prefix_append [simp]: "trim_prefix (p @ r) p = r"
  by (simp add: trim_prefix_def)

lemma str_cut_Some: "str_cut sep s = Some (a, b) \<Longrightarrow> s = a @ sep @ b"
proof (induction s arbitrary: a)
  case (Cons c cs)
  then show ?case
    by (auto simp: has_prefix_iff split: if_splits)
qed (simp split: if_splits)

lemma sorted_wrt_none_length:
  assumes "sorted_wrt (\<lambda>x y. \<not> P x y) xs" "\<And>x y. x \<in> set xs \<Longrightarrow> y \<in> set xs \<Longrightarrow> P x y"
  shows "length xs \<le> 1"
proof (cases xs)
  case (Cons x ys)
  have "ys = []"
  proof (cases ys)
    case (Cons y zs)
    with \<open>xs = x # ys\<close> assms(1) have "\<not> P x y" by simp
    moreover have "P x y" using \<open>xs = x # ys\<close> Cons by (intro assms(2)) simp_all
    ultimately show ?thesis by contradiction
  qed
  with Cons show ?thesis by simp
qed simp

lemma map_of_rev_distinct: "distinct (map fst xs) \<Longrightarrow> map_of (rev xs) = map_of xs"
proof -
  assume d: "distinct (map fst xs)"
  then have "distinct (map fst (rev xs))" by (simp add: rev_map [symmetric])
  with d show ?thesis
    by (intro map_of_eqI) (auto simp: map_of_eq_None_iff [symmetric] dest: map_of_SomeD)
qed

lemma list_all2_refl_on: "(\<And>x. x \<in> set xs \<Longrightarrow> P x x) \<Longrightarrow> list_all2 P xs xs"
  by (simp add: list_all2_conv_all_nth)

end
