(* ===== verification/GoTypes.thy ===== *)
theory GoTypes
  imports Prelude
begin

text \<open>
  The resolved YQL types of \<open>internal/model/model.go\<close>: the struct \<open>model.Type\<close> with its
  pointer fields as options, \<open>Optional\<close>, \<open>IsOptional\<close>, \<open>UnwrapOptional\<close>, structural
  equality \<open>Equal\<close> and the canonical spelling \<open>String\<close>. The lemmas give the induction
  over types, the recursion measure the later components use, and that \<open>Equal\<close> is an
  equivalence on types whose struct members have distinct names.
\<close>

section \<open>The type structure\<close>

text \<open>
  \<open>Kind\<close> is a string in the code, and the resolver looks at its characters (the
  \<open>Resource<...>\<close> kinds), so it is a string here. A struct member is a name and a type.
\<close>

datatype ty = Ty
  (Kind: string)
  (Elem: "ty option")
  (Key: "ty option")
  (Items: "ty list")
  (Fields: "(string \<times> ty) list")
  (Tag: string)
  (Precision: int)
  (Scale: int)

text \<open>The composite literals of the code: every field not written is the zero value.\<close>

abbreviation mk_kind :: "string \<Rightarrow> ty" where
  "mk_kind k \<equiv> Ty k None None [] [] [] 0 0"

abbreviation mk_list :: "ty \<Rightarrow> ty" where
  "mk_list t \<equiv> Ty ''List'' (Some t) None [] [] [] 0 0"

abbreviation mk_dict :: "ty \<Rightarrow> ty \<Rightarrow> ty" where
  "mk_dict k v \<equiv> Ty ''Dict'' (Some v) (Some k) [] [] [] 0 0"

abbreviation mk_tuple :: "ty list \<Rightarrow> ty" where
  "mk_tuple ts \<equiv> Ty ''Tuple'' None None ts [] [] 0 0"

abbreviation mk_struct :: "(string \<times> ty) list \<Rightarrow> ty" where
  "mk_struct fs \<equiv> Ty ''Struct'' None None [] fs [] 0 0"

abbreviation mk_tagged :: "ty \<Rightarrow> string \<Rightarrow> ty" where
  "mk_tagged t tag \<equiv> Ty ''Tagged'' (Some t) None [] [] tag 0 0"

abbreviation mk_callable :: "ty list \<Rightarrow> ty \<Rightarrow> ty" where
  "mk_callable args r \<equiv> Ty ''Callable'' (Some r) None args [] [] 0 0"

definition Optional :: "ty \<Rightarrow> ty" where
  "Optional t = Ty ''Optional'' (Some t) None [] [] [] 0 0"

definition IsOptional :: "ty \<Rightarrow> bool" where
  "IsOptional t \<longleftrightarrow> Kind t = ''Optional''"

definition UnwrapOptional :: "ty \<Rightarrow> ty" where
  "UnwrapOptional t =
     (if IsOptional t then (case Elem t of Some e \<Rightarrow> e | None \<Rightarrow> t) else t)"

lemma Optional_sel [simp]:
  "Kind (Optional t) = ''Optional''" "Elem (Optional t) = Some t" "Key (Optional t) = None"
  "Items (Optional t) = []" "Fields (Optional t) = []" "Tag (Optional t) = []"
  "Precision (Optional t) = 0" "Scale (Optional t) = 0"
  by (simp_all add: Optional_def)

lemma Optional_inject [simp]: "Optional t = Optional u \<longleftrightarrow> t = u"
  by (simp add: Optional_def)

lemma IsOptional_simps [simp]:
  "IsOptional (Optional t)"
  "IsOptional (Ty k e ke xs fs tg p s) \<longleftrightarrow> k = ''Optional''"
  by (simp_all add: IsOptional_def)

lemma UnwrapOptional_Optional [simp]: "UnwrapOptional (Optional t) = t"
  by (simp add: UnwrapOptional_def)

lemma UnwrapOptional_id [simp]: "Kind t \<noteq> ''Optional'' \<Longrightarrow> UnwrapOptional t = t"
  by (simp add: UnwrapOptional_def IsOptional_def)

section \<open>Recursion over types\<close>

text \<open>Components are smaller than the type: the termination measure of every recursion on types.\<close>

lemma size_Elem [simp]: "Elem t = Some e \<Longrightarrow> size e < size t"
  by (cases t) auto

lemma size_Key [simp]: "Key t = Some k \<Longrightarrow> size k < size t"
  by (cases t) auto

lemma size_Items [simp]: "x \<in> set (Items t) \<Longrightarrow> size x < size t"
proof (cases t)
  case (Ty k e ke xs fs tg p s)
  assume "x \<in> set (Items t)"
  with Ty have "size x \<le> size_list size xs"
    by (intro size_list_estimation' [OF _ order_refl]) simp
  with Ty show ?thesis by simp
qed

lemma size_Fields [simp]: "(n, f) \<in> set (Fields t) \<Longrightarrow> size f < size t"
proof (cases t)
  case (Ty k e ke xs fs tg p s)
  assume "(n, f) \<in> set (Fields t)"
  with Ty have "size_prod (\<lambda>_. 0) size (n, f) \<le> size_list (size_prod (\<lambda>_. 0) size) fs"
    by (intro size_list_estimation' [OF _ order_refl]) simp
  with Ty show ?thesis by simp
qed

lemma ty_measure_induct [case_names Type]:
  assumes step: "\<And>t. (\<And>e. Elem t = Some e \<Longrightarrow> P e) \<Longrightarrow> (\<And>k. Key t = Some k \<Longrightarrow> P k)
      \<Longrightarrow> (\<And>x. x \<in> set (Items t) \<Longrightarrow> P x) \<Longrightarrow> (\<And>n f. (n, f) \<in> set (Fields t) \<Longrightarrow> P f) \<Longrightarrow> P t"
  shows "P t"
proof (induction t rule: measure_induct_rule [where f = size])
  case (less t)
  show ?case
    by (rule step) (auto intro: less)
qed

section \<open>Equal\<close>

text \<open>
  \<open>fields\<close> of the code maps each member name of \<open>other\<close> to its type; a later member of the
  same name overwrites an earlier one, which is \<open>map_of\<close> of the reversed list.
\<close>

definition field_map :: "(string \<times> ty) list \<Rightarrow> string \<Rightarrow> ty option" where
  "field_map fs = map_of (rev fs)"

function Equal :: "ty \<Rightarrow> ty \<Rightarrow> bool" where
  "Equal t other \<longleftrightarrow>
     Kind t = Kind other \<and> Tag t = Tag other \<and> Precision t = Precision other \<and> Scale t = Scale other
   \<and> (Elem t = None) = (Elem other = None) \<and> (Key t = None) = (Key other = None)
   \<and> length (Items t) = length (Items other) \<and> length (Fields t) = length (Fields other)
   \<and> (case Elem t of None \<Rightarrow> True
      | Some a \<Rightarrow> (case Elem other of None \<Rightarrow> True | Some b \<Rightarrow> Equal a b))
   \<and> (case Key t of None \<Rightarrow> True
      | Some a \<Rightarrow> (case Key other of None \<Rightarrow> True | Some b \<Rightarrow> Equal a b))
   \<and> list_all2 Equal (Items t) (Items other)
   \<and> list_all (\<lambda>(name, typ). case field_map (Fields other) name of
        None \<Rightarrow> False | Some otherType \<Rightarrow> Equal typ otherType) (Fields t)"
  by pat_completeness auto
termination
  by (relation "measure (\<lambda>(t, other). size t)") auto

declare Equal.simps [simp del]

text \<open>Types whose structs, at every depth, have members with distinct names.\<close>

function distinct_members :: "ty \<Rightarrow> bool" where
  "distinct_members t \<longleftrightarrow>
     distinct (map fst (Fields t))
   \<and> (case Elem t of None \<Rightarrow> True | Some e \<Rightarrow> distinct_members e)
   \<and> (case Key t of None \<Rightarrow> True | Some k \<Rightarrow> distinct_members k)
   \<and> list_all distinct_members (Items t)
   \<and> list_all (\<lambda>(name, typ). distinct_members typ) (Fields t)"
  by pat_completeness auto
termination
  by (relation "measure size") auto

declare distinct_members.simps [simp del]

lemma distinct_membersD:
  assumes "distinct_members t"
  shows "distinct (map fst (Fields t))"
    and "Elem t = Some e \<Longrightarrow> distinct_members e"
    and "Key t = Some k \<Longrightarrow> distinct_members k"
    and "x \<in> set (Items t) \<Longrightarrow> distinct_members x"
    and "(n, f) \<in> set (Fields t) \<Longrightarrow> distinct_members f"
  using assms by (subst (asm) distinct_members.simps; force simp: list_all_iff)+

lemma field_map_distinct: "distinct (map fst fs) \<Longrightarrow> field_map fs = map_of fs"
  by (simp add: field_map_def map_of_rev_distinct)

lemma field_map_mem: "field_map fs n = Some f \<Longrightarrow> (n, f) \<in> set fs"
  by (auto simp: field_map_def dest: map_of_SomeD)

text \<open>\<open>Equal\<close> part by part, the options compared as one relation.\<close>

lemma Equal_iff:
  "Equal t u \<longleftrightarrow>
     Kind t = Kind u \<and> Tag t = Tag u \<and> Precision t = Precision u \<and> Scale t = Scale u
   \<and> rel_option Equal (Elem t) (Elem u) \<and> rel_option Equal (Key t) (Key u)
   \<and> list_all2 Equal (Items t) (Items u) \<and> length (Fields t) = length (Fields u)
   \<and> (\<forall>(n, f) \<in> set (Fields t). \<exists>g. field_map (Fields u) n = Some g \<and> Equal f g)"
proof -
  have fields: "list_all (\<lambda>(n, f). case field_map (Fields u) n of None \<Rightarrow> False | Some g \<Rightarrow> Equal f g) fs
      \<longleftrightarrow> (\<forall>(n, f) \<in> set fs. \<exists>g. field_map (Fields u) n = Some g \<and> Equal f g)" for fs
    by (auto simp: list_all_iff split: option.splits; force)
  have opt: "rel_option Equal x y \<longleftrightarrow> (x = None) = (y = None) \<and>
      (case x of None \<Rightarrow> True | Some a \<Rightarrow> (case y of None \<Rightarrow> True | Some b \<Rightarrow> Equal a b))" for x y
    by (cases x; cases y) simp_all
  have len: "list_all2 Equal xs ys \<longleftrightarrow> length xs = length ys \<and> list_all2 Equal xs ys" for xs ys
    by (auto dest: list_all2_lengthD)
  show ?thesis
    apply (subst len)
    apply (subst opt)+
    apply (subst fields [symmetric])
    apply (subst Equal.simps)
    apply (rule iffI; elim conjE; intro conjI; assumption)
    done
qed

lemma EqualD:
  assumes "Equal t u"
  shows "Kind t = Kind u" "Tag t = Tag u" "Precision t = Precision u" "Scale t = Scale u"
    and "rel_option Equal (Elem t) (Elem u)" "rel_option Equal (Key t) (Key u)"
    and "list_all2 Equal (Items t) (Items u)" "length (Fields t) = length (Fields u)"
    and "(n, f) \<in> set (Fields t) \<Longrightarrow> \<exists>g. field_map (Fields u) n = Some g \<and> Equal f g"
  using assms by (subst (asm) Equal_iff; blast)+

lemma EqualI:
  assumes "Kind t = Kind u" "Tag t = Tag u" "Precision t = Precision u" "Scale t = Scale u"
    and "rel_option Equal (Elem t) (Elem u)" "rel_option Equal (Key t) (Key u)"
    and "list_all2 Equal (Items t) (Items u)" "length (Fields t) = length (Fields u)"
    and "\<And>n f. (n, f) \<in> set (Fields t) \<Longrightarrow> \<exists>g. field_map (Fields u) n = Some g \<and> Equal f g"
  shows "Equal t u"
  using assms by (subst Equal_iff) blast

lemma Equal_refl: "distinct_members t \<Longrightarrow> Equal t t"
proof (induction t rule: ty_measure_induct)
  case (Type t)
  note d = distinct_membersD [OF Type.prems]
  show ?case
  proof (rule EqualI)
    show "rel_option Equal (Elem t) (Elem t)" "rel_option Equal (Key t) (Key t)"
      using Type.IH(1,2) d by (cases "Elem t", auto, cases "Key t", auto)
    show "list_all2 Equal (Items t) (Items t)"
      using Type.IH(3) d by (auto intro: list_all2_refl_on)
    show "\<exists>g. field_map (Fields t) n = Some g \<and> Equal f g" if "(n, f) \<in> set (Fields t)" for n f
      using that d Type.IH(4) by (auto simp: field_map_distinct)
  qed simp_all
qed

lemma Equal_sym: "Equal t u \<Longrightarrow> distinct_members t \<Longrightarrow> distinct_members u \<Longrightarrow> Equal u t"
proof (induction t arbitrary: u rule: ty_measure_induct)
  case (Type t)
  note e = EqualD [OF Type.prems(1)]
  note d = distinct_membersD [OF Type.prems(2)]
  note d' = distinct_membersD [OF Type.prems(3)]
  have names: "fst ` set (Fields t) = fst ` set (Fields u)"
  proof (rule card_subset_eq)
    show "fst ` set (Fields t) \<subseteq> fst ` set (Fields u)"
      using e(9) by (force dest: field_map_mem)
    show "card (fst ` set (Fields t)) = card (fst ` set (Fields u))"
      using d(1) d'(1) e(8) by (metis distinct_card length_map list.set_map)
  qed simp
  show ?case
  proof (rule EqualI)
    show "rel_option Equal (Elem u) (Elem t)"
      using e(5) d(2) d'(2) Type.IH(1) by (auto simp: option.rel_sel split: option.splits)
    show "rel_option Equal (Key u) (Key t)"
      using e(6) d(3) d'(3) Type.IH(2) by (auto simp: option.rel_sel split: option.splits)
    show "list_all2 Equal (Items u) (Items t)"
      using e(7) d(4) d'(4) Type.IH(3) by (simp add: list_all2_conv_all_nth)
    show "\<exists>g. field_map (Fields t) n = Some g \<and> Equal f g" if m: "(n, f) \<in> set (Fields u)" for n f
    proof -
      from m have "fst (n, f) \<in> fst ` set (Fields u)" by (rule imageI)
      with names have "n \<in> fst ` set (Fields t)" by simp
      then obtain g where g: "(n, g) \<in> set (Fields t)" by auto
      from e(9) [OF g] m d'(1) have "Equal g f"
        by (auto simp: field_map_distinct)
      then have "Equal f g" using Type.IH(4) g d(5) d'(5) m by blast
      with g d(1) show ?thesis by (auto simp: field_map_distinct)
    qed
  qed (use e in simp_all)
qed

lemma Equal_trans: "Equal t u \<Longrightarrow> Equal u v \<Longrightarrow> Equal t v"
proof (induction t arbitrary: u v rule: ty_measure_induct)
  case (Type t)
  note e = EqualD [OF Type.prems(1)]
  note e' = EqualD [OF Type.prems(2)]
  show ?case
  proof (rule EqualI)
    show "rel_option Equal (Elem t) (Elem v)"
      using e(5) e'(5)
      by (cases "Elem t"; cases "Elem u"; cases "Elem v"; simp) (rule Type.IH(1))
    show "rel_option Equal (Key t) (Key v)"
      using e(6) e'(6)
      by (cases "Key t"; cases "Key u"; cases "Key v"; simp) (rule Type.IH(2))
    show "list_all2 Equal (Items t) (Items v)"
      using e(7) e'(7) unfolding list_all2_conv_all_nth by (metis Type.IH(3) nth_mem)
    show "\<exists>g. field_map (Fields v) n = Some g \<and> Equal f g" if m: "(n, f) \<in> set (Fields t)" for n f
      using e(9) [OF m] e'(9) Type.IH(4) [OF m] by (meson field_map_mem)
  qed (use e e' in simp_all)
qed


section \<open>String\<close>

text \<open>
  The canonical YQL spelling. A kind whose pointer fields are not set falls through to the
  bare kind, as the \<open>switch\<close> of the code does.
\<close>

definition quote_member :: "string \<Rightarrow> string" where
  "quote_member n = CHR 0x60 # str_replace_char (CHR 0x60) [CHR 0x60, CHR 0x60] n @ [CHR 0x60, CHR '':'']"

function type_String :: "ty \<Rightarrow> string" where
  "type_String t =
     (if Kind t \<in> {''Optional'', ''List'', ''Stream'', ''Flow'', ''Set''} \<and> Elem t \<noteq> None then
        (case Elem t of Some e \<Rightarrow> Kind t @ ''<'' @ type_String e @ ''>'' | None \<Rightarrow> Kind t)
      else if Kind t = ''Dict'' \<and> Key t \<noteq> None \<and> Elem t \<noteq> None then
        (case Key t of None \<Rightarrow> Kind t
         | Some k \<Rightarrow> (case Elem t of None \<Rightarrow> Kind t
             | Some e \<Rightarrow> ''Dict<'' @ type_String k @ '','' @ type_String e @ ''>''))
      else if Kind t = ''Struct'' then
        ''Struct<'' @ str_join '','' (map (\<lambda>(n, f). quote_member n @ type_String f) (Fields t)) @ ''>''
      else if Kind t = ''Tuple'' then
        ''Tuple<'' @ str_join '','' (map type_String (Items t)) @ ''>''
      else if Kind t = ''Tagged'' \<and> Elem t \<noteq> None then
        (case Elem t of None \<Rightarrow> Kind t
         | Some e \<Rightarrow> ''Tagged<'' @ type_String e @ '','' @ go_quote (Tag t) @ ''>'')
      else if Kind t = ''Callable'' \<and> Elem t \<noteq> None then
        (case Elem t of None \<Rightarrow> Kind t
         | Some e \<Rightarrow> ''Callable<('' @ str_join '','' (map type_String (Items t)) @ '')->'' @ type_String e @ ''>'')
      else if Kind t = ''Decimal'' then
        sprintf ''Decimal(%d,%d)'' [FInt (Precision t), FInt (Scale t)]
      else Kind t)"
  by pat_completeness auto
termination
  by (relation "measure size") auto

declare type_String.simps [simp del]

abbreviation FType :: "ty \<Rightarrow> farg" where
  "FType t \<equiv> FStr (type_String t)"

end
