(* ===== verification/CommonTypes.thy ===== *)
theory CommonTypes
  imports GoTypes
begin

text \<open>
  \<open>internal/yql/builtins/common.go\<close>: which types may take part in resolution
  (\<open>validateConcreteOrNull\<close>), the split of a type into base and nullability (\<open>baseType\<close>),
  the integer kinds, and the YQL common type of branches and values (\<open>CommonType\<close>).

  The lemmas read validity off a type's shape, so that the results of the resolvers are
  checked by rewriting.
\<close>

section \<open>Scalar kinds\<close>

definition supportedScalarKinds :: "string list" where
  "supportedScalarKinds =
    [''Bool'', ''Int8'', ''Int16'', ''Int32'', ''Int64'',
     ''Uint8'', ''Uint16'', ''Uint32'', ''Uint64'',
     ''Float'', ''Double'', ''String'', ''Utf8'',
     ''Yson'', ''Json'', ''JsonDocument'', ''Uuid'', ''DyNumber'',
     ''Date'', ''Datetime'', ''Timestamp'', ''Interval'',
     ''Date32'', ''Datetime64'', ''Timestamp64'', ''Interval64'',
     ''TzDate'', ''TzDatetime'', ''TzTimestamp'',
     ''TzDate32'', ''TzDatetime64'', ''TzTimestamp64'',
     ''Null'', ''Void'']"

definition is_scalar_kind :: "string \<Rightarrow> bool" where
  "is_scalar_kind k \<longleftrightarrow> List.member supportedScalarKinds k"

definition integerInfo :: "string \<Rightarrow> bool \<times> nat" where
  "integerInfo kind =
     (if kind = ''Int8'' then (True, 8)
      else if kind = ''Int16'' then (True, 16)
      else if kind = ''Int32'' then (True, 32)
      else if kind = ''Int64'' then (True, 64)
      else if kind = ''Uint8'' then (False, 8)
      else if kind = ''Uint16'' then (False, 16)
      else if kind = ''Uint32'' then (False, 32)
      else if kind = ''Uint64'' then (False, 64)
      else (False, 0))"

definition isInteger :: "string \<Rightarrow> bool" where
  "isInteger kind \<longleftrightarrow> snd (integerInfo kind) \<noteq> 0"

definition isPrimitiveNumber :: "string \<Rightarrow> bool" where
  "isPrimitiveNumber kind \<longleftrightarrow>
     isInteger kind \<or> kind = ''Float'' \<or> kind = ''Double'' \<or> kind = ''Decimal''"

definition optional :: "ty \<Rightarrow> ty" where
  "optional value = (if Kind value = ''Optional'' then value else Optional value)"

section \<open>Concrete types\<close>

text \<open>The struct members in order: the first member with a bad or repeated name or a bad type.\<close>

fun member_err :: "(ty \<Rightarrow> go_error option) \<Rightarrow> string list \<Rightarrow> (string \<times> ty) list \<Rightarrow> go_error option" where
  "member_err check seen [] = None"
| "member_err check seen ((name, typ) # fields) =
     (if name = [] then Some (Errorf ''Struct field name must not be empty'' [])
      else if List.member seen name then Some (Errorf ''duplicate Struct field %q'' [FStr name])
      else (case check typ of
          Some err \<Rightarrow> Some (Errorf ''Struct field %q: %w'' [FStr name, FErr err])
        | None \<Rightarrow> member_err check (name # seen) fields))"

lemma member_err_cong [fundef_cong]:
  "fields = fields' \<Longrightarrow> seen = seen' \<Longrightarrow>
   (\<And>n f. (n, f) \<in> set fields' \<Longrightarrow> check f = check' f) \<Longrightarrow>
   member_err check seen fields = member_err check' seen' fields'"
proof (induction fields arbitrary: fields' seen seen')
  case (Cons m fields)
  obtain n f where m: "m = (n, f)" by (cases m)
  have ch: "check f = check' f" if "(n, f) \<in> set (m # fields)" for n f
    using that Cons.prems by blast
  have "member_err check (n # seen) fields = member_err check' (n # seen) fields"
  proof (rule Cons.IH [OF refl refl])
    fix n' f'
    assume "(n', f') \<in> set fields"
    then show "check f' = check' f'" using ch [of n' f'] by simp
  qed
  with ch [of n f] show ?case using Cons.prems(1,2) m by (auto split: option.splits)
qed simp

abbreviation bad_precision :: "ty \<Rightarrow> bool" where
  "bad_precision value \<equiv> Precision value \<noteq> 0 \<or> Scale value \<noteq> 0"

function validateConcreteOrNull :: "ty \<Rightarrow> go_error option" where
  "validateConcreteOrNull value =
     (if Kind value = '''' \<or> Kind value = ''Any'' then
        Some (Errorf ''unsupported type %q cannot participate in resolution'' [FStr (Kind value)])
      else if Kind value \<noteq> ''Struct'' \<and> Fields value \<noteq> [] then
        Some (Errorf ''%s has unexpected Struct fields'' [FStr (Kind value)])
      else if Kind value \<noteq> ''Tagged'' \<and> Tag value \<noteq> '''' then
        Some (Errorf ''%s has unexpected tag'' [FStr (Kind value)])
      else if Kind value = ''Tagged'' then
        (case Elem value of
           None \<Rightarrow> Some (Errorf ''Tagged type requires an element type and tag'' [])
         | Some e \<Rightarrow>
             if Tag value = '''' \<or> Key value \<noteq> None \<or> Items value \<noteq> [] \<or> bad_precision value then
               Some (Errorf ''Tagged type requires an element type and tag'' [])
             else validateConcreteOrNull e)
      else if Kind value = ''Callable'' then
        (case Elem value of
           None \<Rightarrow> Some (Errorf ''Callable type requires a return type'' [])
         | Some e \<Rightarrow>
             if Key value \<noteq> None \<or> bad_precision value then
               Some (Errorf ''Callable type requires a return type'' [])
             else (case first_err validateConcreteOrNull (Items value) of
                 Some err \<Rightarrow> Some err
               | None \<Rightarrow> validateConcreteOrNull e))
      else if Kind value \<in> {''Optional'', ''List'', ''Stream'', ''Flow'', ''Set''} then
        (case Elem value of
           None \<Rightarrow> Some (Errorf ''%s type has no element type'' [FStr (Kind value)])
         | Some e \<Rightarrow>
             if Key value \<noteq> None \<or> Items value \<noteq> [] \<or> bad_precision value then
               Some (Errorf ''%s has unexpected type parameters'' [FStr (Kind value)])
             else validateConcreteOrNull e)
      else if Kind value = ''Dict'' then
        (case Key value of
           None \<Rightarrow> Some (Errorf ''Dict type requires key and element types'' [])
         | Some k \<Rightarrow>
           (case Elem value of
              None \<Rightarrow> Some (Errorf ''Dict type requires key and element types'' [])
            | Some e \<Rightarrow>
                if Items value \<noteq> [] \<or> bad_precision value then
                  Some (Errorf ''Dict has unexpected type parameters'' [])
                else (case validateConcreteOrNull k of
                    Some err \<Rightarrow> Some err
                  | None \<Rightarrow> validateConcreteOrNull e)))
      else if Kind value = ''Tuple'' then
        (if Items value = [] then Some (Errorf ''Tuple type requires at least one item type'' [])
         else if Key value \<noteq> None \<or> Elem value \<noteq> None \<or> bad_precision value then
           Some (Errorf ''Tuple has unexpected type parameters'' [])
         else first_err validateConcreteOrNull (Items value))
      else if Kind value = ''Struct'' then
        (if Fields value = [] then Some (Errorf ''Struct type requires at least one field'' [])
         else if Key value \<noteq> None \<or> Elem value \<noteq> None \<or> Items value \<noteq> [] \<or> bad_precision value then
           Some (Errorf ''Struct has unexpected type parameters'' [])
         else member_err validateConcreteOrNull [] (Fields value))
      else if Kind value = ''Decimal'' then
        (if Precision value < 1 \<or> Precision value > 35 \<or> Scale value < 0 \<or> Scale value > Precision value then
           Some (Errorf ''invalid Decimal(%d,%d): precision must be 1..35 and scale 0..precision''
             [FInt (Precision value), FInt (Scale value)])
         else if Key value \<noteq> None \<or> Elem value \<noteq> None \<or> Items value \<noteq> [] then
           Some (Errorf ''Decimal has unexpected type parameters'' [])
         else None)
      else if has_prefix (Kind value) ''Resource<'' \<and> has_suffix (Kind value) ''>''
          \<and> Elem value = None \<and> Key value = None \<and> Items value = [] \<and> \<not> bad_precision value then None
      else if \<not> is_scalar_kind (Kind value) then
        Some (Errorf ''unsupported type %q cannot participate in resolution'' [FStr (Kind value)])
      else if Key value \<noteq> None \<or> Elem value \<noteq> None \<or> Items value \<noteq> [] \<or> bad_precision value then
        Some (Errorf ''%s has unexpected type parameters'' [FStr (Kind value)])
      else None)"
  by pat_completeness auto
termination
  by (relation "measure size") auto

declare validateConcreteOrNull.simps [simp del]

text \<open>\<open>valid t\<close>: \<open>t\<close> may take part in resolution.\<close>

abbreviation valid :: "ty \<Rightarrow> bool" where
  "valid t \<equiv> validateConcreteOrNull t = None"

definition baseType :: "ty \<Rightarrow> (ty \<times> bool) res" where
  "baseType value =
     (if Kind value = ''Optional'' then
        (case Elem value of
           None \<Rightarrow> Inl (Errorf ''Optional type has no element type'' [])
         | Some e \<Rightarrow>
             if Kind e = ''Optional'' then
               Inl (Errorf ''nested Optional types are not supported by the resolver'' [])
             else check_then (validateConcreteOrNull e) (Inr (e, True)))
      else check_then (validateConcreteOrNull value) (Inr (value, False)))"

section \<open>Common types\<close>

definition commonInteger :: "string \<Rightarrow> string \<Rightarrow> ty" where
  "commonInteger left right =
     (let (leftSigned, leftBits) = integerInfo left; (rightSigned, rightBits) = integerInfo right in
      if leftSigned = rightSigned then
        (if rightBits > leftBits then mk_kind right else mk_kind left)
      else
        (let (signedBits, unsignedBits) =
           (if \<not> leftSigned then (rightBits, leftBits) else (leftBits, rightBits)) in
         if signedBits \<ge> unsignedBits then mk_kind (sprintf ''Int%d'' [FNat signedBits])
         else mk_kind (sprintf ''Uint%d'' [FNat unsignedBits])))"

definition commonConcreteType :: "ty \<Rightarrow> ty \<Rightarrow> ty res" where
  "commonConcreteType left right =
     (if Equal left right then Inr left
      else if isInteger (Kind left) \<and> isInteger (Kind right) then
        Inr (commonInteger (Kind left) (Kind right))
      else if isPrimitiveNumber (Kind left) \<and> isPrimitiveNumber (Kind right)
          \<and> Kind left \<noteq> ''Decimal'' \<and> Kind right \<noteq> ''Decimal''
          \<and> (Kind left = ''Double'' \<or> Kind right = ''Double'') then Inr (mk_kind ''Double'')
      else if isPrimitiveNumber (Kind left) \<and> isPrimitiveNumber (Kind right)
          \<and> Kind left \<noteq> ''Decimal'' \<and> Kind right \<noteq> ''Decimal''
          \<and> (Kind left = ''Float'' \<or> Kind right = ''Float'') then Inr (mk_kind ''Float'')
      else Inl (Errorf ''types %s and %s have no common type in the supported YQL subset''
        [FType left, FType right]))"

text \<open>
  The loop of \<open>CommonType\<close>: \<open>common\<close> is the zero \<open>model.Type\<close> until the first type that is
  not \<open>Null\<close>.
\<close>

fun CommonType_loop :: "ty \<Rightarrow> bool \<Rightarrow> ty list \<Rightarrow> (ty \<times> bool) res" where
  "CommonType_loop common nullable [] = Inr (common, nullable)"
| "CommonType_loop common nullable (value # types) =
     and_then (baseType value) (\<lambda>(base, opt).
       if Kind base = ''Null'' then CommonType_loop common True types
       else if Kind common = '''' then CommonType_loop base (nullable \<or> opt) types
       else and_then (commonConcreteType common base)
         (\<lambda>common'. CommonType_loop common' (nullable \<or> opt) types))"

definition CommonType :: "ty list \<Rightarrow> ty res" where
  "CommonType types =
     (if types = [] then Inl (Errorf ''common type requires at least one type'' [])
      else and_then (CommonType_loop (mk_kind '''') False types) (\<lambda>(common, nullable).
        if Kind common = '''' then
          Inl (Errorf ''cannot infer a concrete common type from only Null values'' [])
        else if nullable then Inr (optional common)
        else Inr common))"

section \<open>Validity by shape\<close>

lemma member_err_None:
  "member_err check seen fields = None \<longleftrightarrow>
     distinct (map fst fields)
   \<and> (\<forall>(n, f) \<in> set fields. n \<noteq> [] \<and> n \<notin> set seen \<and> check f = None)"
proof (induction fields arbitrary: seen)
  case (Cons m fields)
  obtain n f where m: "m = (n, f)" by (cases m)
  have "n \<in> fst ` set fields \<longleftrightarrow> (\<exists>g. (n, g) \<in> set fields)" by force
  then show ?case
    by (cases "check f") (auto simp: m Cons.IH)
qed simp

named_theorems valid_simps \<open>validity of the shapes the resolvers build\<close>

lemma valid_Optional [valid_simps, simp]: "validateConcreteOrNull (Optional t) = validateConcreteOrNull t"
  by (subst validateConcreteOrNull.simps) (simp add: Optional_def)

lemma valid_mk_list [valid_simps, simp]: "validateConcreteOrNull (mk_list t) = validateConcreteOrNull t"
  by (subst validateConcreteOrNull.simps) simp

lemma valid_mk_dict [valid_simps, simp]: "valid (mk_dict k v) \<longleftrightarrow> valid k \<and> valid v"
  by (subst validateConcreteOrNull.simps) (simp split: option.splits)

lemma valid_mk_tuple [valid_simps, simp]: "valid (mk_tuple ts) \<longleftrightarrow> ts \<noteq> [] \<and> (\<forall>t\<in>set ts. valid t)"
  by (subst validateConcreteOrNull.simps) simp

lemma valid_mk_struct [valid_simps, simp]:
  "valid (mk_struct fs) \<longleftrightarrow>
     fs \<noteq> [] \<and> distinct (map fst fs) \<and> (\<forall>(n, f) \<in> set fs. n \<noteq> [] \<and> valid f)"
  by (subst validateConcreteOrNull.simps) (simp add: member_err_None)

lemma valid_mk_tagged [valid_simps, simp]: "valid (mk_tagged t tag) \<longleftrightarrow> tag \<noteq> [] \<and> valid t"
  by (subst validateConcreteOrNull.simps) simp

lemma valid_mk_callable [valid_simps, simp]:
  "valid (mk_callable args r) \<longleftrightarrow> (\<forall>t\<in>set args. valid t) \<and> valid r"
  by (subst validateConcreteOrNull.simps) simp

text \<open>A bare kind: a supported scalar, or a resource.\<close>

definition resource_kind :: "string \<Rightarrow> bool" where
  "resource_kind k \<longleftrightarrow> has_prefix k ''Resource<'' \<and> has_suffix k ''>''"

abbreviation special_kinds :: "string set" where
  "special_kinds \<equiv> {[], ''Any'', ''Tagged'', ''Callable'', ''Optional'', ''List'', ''Stream'',
     ''Flow'', ''Set'', ''Dict'', ''Tuple'', ''Struct'', ''Decimal''}"

lemma scalar_kinds_not_special: "is_scalar_kind k \<Longrightarrow> k \<notin> special_kinds"
  by (auto simp: is_scalar_kind_def supportedScalarKinds_def)

lemma resource_kinds_not_special: "resource_kind k \<Longrightarrow> k \<notin> special_kinds"
  by (auto simp: resource_kind_def has_prefix_def)

lemma valid_mk_kind: "is_scalar_kind k \<or> resource_kind k \<Longrightarrow> valid (mk_kind k)"
  using scalar_kinds_not_special [of k] resource_kinds_not_special [of k]
  by (subst validateConcreteOrNull.simps) (auto simp: resource_kind_def)

lemma valid_mk_kind_iff: "valid (mk_kind k) \<longleftrightarrow> is_scalar_kind k \<or> resource_kind k"
proof
  assume "valid (mk_kind k)"
  then show "is_scalar_kind k \<or> resource_kind k"
    by (subst (asm) validateConcreteOrNull.simps) (auto simp: resource_kind_def split: if_splits)
qed (rule valid_mk_kind)

text \<open>The inverse reading: what a valid type looks like.\<close>

lemma valid_cases:
  assumes "valid t"
  obtains (wrapper) k e where "t = Ty k (Some e) None [] [] [] 0 0" "valid e"
      "k \<in> {''Optional'', ''List'', ''Stream'', ''Flow'', ''Set''}"
  | (dict) k v where "t = mk_dict k v" "valid k" "valid v"
  | (tuple) ts where "t = mk_tuple ts" "ts \<noteq> []" "\<forall>x\<in>set ts. valid x"
  | (struct) fs where "t = mk_struct fs" "fs \<noteq> []" "distinct (map fst fs)"
      "\<forall>(n, f) \<in> set fs. n \<noteq> [] \<and> valid f"
  | (tagged) e tag where "t = mk_tagged e tag" "tag \<noteq> []" "valid e"
  | (callable) args r where "t = mk_callable args r" "\<forall>x\<in>set args. valid x" "valid r"
  | (decimal) p s where "t = Ty ''Decimal'' None None [] [] [] p s" "1 \<le> p" "p \<le> 35" "0 \<le> s" "s \<le> p"
  | (kind) k where "t = mk_kind k" "is_scalar_kind k \<or> resource_kind k"
proof (cases t)
  case (Ty k e ke xs fs tg p s)
  have "valid (Ty k e ke xs fs tg p s)" using assms Ty by simp
  note v = this [unfolded validateConcreteOrNull.simps [of "Ty k e ke xs fs tg p s"]]
  consider "k \<in> {''Optional'', ''List'', ''Stream'', ''Flow'', ''Set''}" | "k = ''Dict''" | "k = ''Tuple''"
    | "k = ''Struct''" | "k = ''Tagged''" | "k = ''Callable''" | "k = ''Decimal''"
    | "k \<notin> special_kinds" | "k = [] \<or> k = ''Any''"
    by (cases "k \<in> special_kinds"; (elim insertE emptyE)?; simp)
  then show thesis
  proof cases
    case 1
    then have "ke = None \<and> xs = [] \<and> fs = [] \<and> tg = [] \<and> p = 0 \<and> s = 0 \<and> (\<exists>x. e = Some x \<and> valid x)"
      using v by (elim insertE emptyE; simp split: if_splits option.splits)
    with 1 Ty that(1) show thesis by blast
  next
    case 2
    with v Ty that(2) show thesis by (simp split: if_splits option.splits)
  next
    case 3
    with v Ty that(3) show thesis by (simp split: if_splits)
  next
    case 4
    with v Ty that(4) show thesis by (simp add: member_err_None split: if_splits)
  next
    case 5
    with v Ty that(5) show thesis by (simp split: if_splits option.splits)
  next
    case 6
    with v Ty that(6) show thesis by (cases e) (simp_all split: if_splits)
  next
    case 7
    with v Ty that(7) show thesis by (simp split: if_splits)
  next
    case 8
    with v Ty that(8) show thesis by (simp add: resource_kind_def split: if_splits)
  next
    case 9
    with v show thesis by auto
  qed
qed

lemma valid_scalars [simp]:
  "valid (mk_kind ''Bool'')" "valid (mk_kind ''Int8'')" "valid (mk_kind ''Int16'')"
  "valid (mk_kind ''Int32'')" "valid (mk_kind ''Int64'')" "valid (mk_kind ''Uint8'')"
  "valid (mk_kind ''Uint16'')" "valid (mk_kind ''Uint32'')" "valid (mk_kind ''Uint64'')"
  "valid (mk_kind ''Float'')" "valid (mk_kind ''Double'')" "valid (mk_kind ''String'')"
  "valid (mk_kind ''Utf8'')" "valid (mk_kind ''Yson'')" "valid (mk_kind ''Json'')"
  "valid (mk_kind ''Uuid'')" "valid (mk_kind ''Void'')" "valid (mk_kind ''Null'')"
  "valid (mk_kind ''Date'')" "valid (mk_kind ''Datetime'')" "valid (mk_kind ''Timestamp'')"
  "valid (mk_kind ''Interval'')" "valid (mk_kind ''Interval64'')" "valid (mk_kind ''Timestamp64'')"
  "valid (mk_kind ''TzDate'')" "valid (mk_kind ''TzDatetime'')" "valid (mk_kind ''TzTimestamp'')"
  by (simp_all add: valid_mk_kind_iff is_scalar_kind_def supportedScalarKinds_def)

text \<open>Struct members of a valid type have distinct names at every depth, so \<open>Equal\<close> is an
  equivalence on valid types.\<close>

lemma valid_distinct: "valid t \<Longrightarrow> distinct_members t"
proof (induction t rule: ty_measure_induct)
  case (Type t)
  from Type.prems show ?case
    using Type.IH
    by (cases rule: valid_cases) (subst distinct_members.simps; force simp: list_all_iff)+
qed

lemma valid_Equal_refl: "valid t \<Longrightarrow> Equal t t"
  by (simp add: Equal_refl valid_distinct)

lemma valid_Equal_sym: "valid t \<Longrightarrow> valid u \<Longrightarrow> Equal t u \<Longrightarrow> Equal u t"
  by (simp add: Equal_sym valid_distinct)

section \<open>The base of a type\<close>

lemma baseType_Inr:
  assumes "baseType t = Inr (b, n)"
  shows "valid b" "Kind b \<noteq> ''Optional''" "UnwrapOptional t = b" "IsOptional t = n"
    and "\<not> n \<Longrightarrow> t = b" "n \<Longrightarrow> Elem t = Some b"
  using assms
  by (auto simp: baseType_def UnwrapOptional_def IsOptional_def result_simps split: if_splits option.splits)

lemma baseType_Optional [simp]:
  "baseType (Optional t) =
     (if Kind t = ''Optional'' then Inl (Errorf ''nested Optional types are not supported by the resolver'' [])
      else check_then (validateConcreteOrNull t) (Inr (t, True)))"
  by (simp add: baseType_def)

lemma baseType_base: "valid t \<Longrightarrow> Kind t \<noteq> ''Optional'' \<Longrightarrow> baseType t = Inr (t, False)"
  by (simp add: baseType_def)

lemma baseType_base_Optional:
  "valid t \<Longrightarrow> Kind t \<noteq> ''Optional'' \<Longrightarrow> baseType (Optional t) = Inr (t, True)"
  by simp

lemma valid_OptionalE:
  assumes "valid t" "Kind t = ''Optional''"
  obtains u where "t = Optional u" "valid u"
  using assms(1)
proof (cases rule: valid_cases)
  case (kind k)
  with assms(2) show thesis
    using scalar_kinds_not_special [of k] resource_kinds_not_special [of k] by auto
qed (use assms(2) that in \<open>auto simp: Optional_def\<close>)

text \<open>A valid type fails \<open>baseType\<close> only when it is a nested optional.\<close>

lemma baseType_valid_Inl:
  assumes "valid t" "baseType t = Inl e"
  shows "\<exists>u. t = Optional u \<and> Kind u = ''Optional''"
proof (cases "Kind t = ''Optional''")
  case True
  with assms(1) obtain u where "t = Optional u" "valid u" by (rule valid_OptionalE)
  with assms(2) show ?thesis by (auto split: if_splits)
next
  case False
  with assms show ?thesis by (simp add: baseType_base)
qed

lemma Kind_optional [simp]: "Kind (optional t) = ''Optional''"
  by (simp add: optional_def)

lemma valid_optional [simp]: "valid (optional t) \<longleftrightarrow> valid t"
  by (simp add: optional_def)

lemma optional_base: "Kind t \<noteq> ''Optional'' \<Longrightarrow> optional t = Optional t"
  by (simp add: optional_def)

section \<open>The integer kinds\<close>

lemma show_nat_widths [simp]:
  "show_nat 8 = ''8''" "show_nat 16 = ''16''" "show_nat 32 = ''32''" "show_nat 64 = ''64''"
  by (simp_all add: show_nat.simps digit_char_def)

text \<open>The integer kinds are the names of a sign and one of four widths.\<close>

definition int_kind :: "bool \<Rightarrow> nat \<Rightarrow> string" where
  "int_kind signed bits = (if signed then ''Int'' else ''Uint'') @ show_nat bits"

abbreviation int_width :: "nat \<Rightarrow> bool" where
  "int_width bits \<equiv> bits \<in> {8, 16, 32, 64}"

lemma integerInfo_int_kind [simp]: "int_width b \<Longrightarrow> integerInfo (int_kind s b) = (s, b)"
  by (cases s) (elim insertE emptyE; simp add: int_kind_def integerInfo_def)+

lemma isInteger_int_kind [simp]: "int_width b \<Longrightarrow> isInteger (int_kind s b)"
  by (auto simp: isInteger_def)

lemma isIntegerE:
  assumes "isInteger k"
  obtains s b where "int_width b" "k = int_kind s b"
proof -
  have "k \<in> {int_kind True 8, int_kind True 16, int_kind True 32, int_kind True 64,
      int_kind False 8, int_kind False 16, int_kind False 32, int_kind False 64}"
    using assms by (simp add: isInteger_def integerInfo_def int_kind_def split: if_splits)
  then consider (1) s where "k = int_kind s 8" | (2) s where "k = int_kind s 16"
    | (3) s where "k = int_kind s 32" | (4) s where "k = int_kind s 64" by blast
  then show thesis by cases (rule that; simp)+
qed

lemma int_kind_inject:
  assumes "int_width b" "int_width c"
  shows "int_kind s b = int_kind r c \<longleftrightarrow> s = r \<and> b = c"
proof
  assume "int_kind s b = int_kind r c"
  then have "integerInfo (int_kind s b) = integerInfo (int_kind r c)" by (rule arg_cong)
  then show "s = r \<and> b = c"
    by (simp only: integerInfo_int_kind [OF assms(1)] integerInfo_int_kind [OF assms(2)] prod.inject)
qed simp

lemma integer_valid: "isInteger k \<Longrightarrow> valid (mk_kind k)"
proof (erule isIntegerE)
  fix s b
  assume "int_width b" "k = int_kind s b"
  then show ?thesis by (cases s) (elim insertE emptyE; simp add: int_kind_def)+
qed

lemma integer_not_special: "isInteger k \<Longrightarrow> k \<notin> special_kinds \<and> k \<noteq> ''Null'' \<and> k \<noteq> ''Void''"
  by (auto simp: isInteger_def integerInfo_def)

text \<open>
  The common integer has the larger width; of two kinds of the same width the signed one wins.
\<close>

lemma sprintf_Int [simp]: "int_width b \<Longrightarrow> sprintf ''Int%d'' [FNat b] = int_kind True b"
  by (elim insertE emptyE; simp add: int_kind_def show_int_def)

lemma sprintf_Uint [simp]: "int_width b \<Longrightarrow> sprintf ''Uint%d'' [FNat b] = int_kind False b"
  by (elim insertE emptyE; simp add: int_kind_def show_int_def)

lemma commonInteger_int_kind:
  assumes "int_width b" "int_width c"
  shows "commonInteger (int_kind s b) (int_kind r c) =
    mk_kind (if b = c then int_kind (s \<or> r) b else if b < c then int_kind r c else int_kind s b)"
  using assms
  by (cases s; cases r) (simp_all only: commonInteger_def integerInfo_int_kind, simp_all add: Let_def int_kind_def show_int_def)

section \<open>What CommonType returns\<close>

lemma commonConcreteType_valid:
  assumes "commonConcreteType l r = Inr t" "valid l" "valid r"
  shows "valid t"
proof -
  have "valid (commonInteger (Kind l) (Kind r))" if i: "isInteger (Kind l)" "isInteger (Kind r)"
  proof -
    from i obtain s b s' b' where k: "int_width b" "int_width b'" "Kind l = int_kind s b" "Kind r = int_kind s' b'"
      by (elim isIntegerE)
    then have "\<exists>m. isInteger m \<and> commonInteger (Kind l) (Kind r) = mk_kind m"
      by (simp only: commonInteger_int_kind) (auto intro: isInteger_int_kind)
    then show ?thesis by (auto intro: integer_valid)
  qed
  then show ?thesis
    using assms by (auto simp: commonConcreteType_def split: if_splits)
qed

lemma commonConcreteType_Kind:
  assumes "commonConcreteType l r = Inr t"
  shows "Kind t = Kind l \<or> isPrimitiveNumber (Kind t)"
proof -
  have "isInteger (Kind (commonInteger (Kind l) (Kind r)))" if i: "isInteger (Kind l)" "isInteger (Kind r)"
  proof -
    from i obtain s b s' b' where "int_width b" "int_width b'" "Kind l = int_kind s b" "Kind r = int_kind s' b'"
      by (elim isIntegerE)
    then show ?thesis by (simp only: commonInteger_int_kind) (auto intro: isInteger_int_kind)
  qed
  then show ?thesis
    using assms by (auto simp: commonConcreteType_def isPrimitiveNumber_def split: if_splits)
qed

lemma isPrimitiveNumber_not_special:
  "isPrimitiveNumber k \<Longrightarrow> k \<notin> {[], ''Null'', ''Void'', ''Optional''}"
  by (auto simp: isPrimitiveNumber_def isInteger_def integerInfo_def)

text \<open>The invariant of the loop: \<open>common\<close> is the zero type or a valid base type.\<close>

definition base_type :: "ty \<Rightarrow> bool" where
  "base_type t \<longleftrightarrow> valid t \<and> Kind t \<notin> {''Optional'', ''Null''}"

lemma valid_Kind_nonempty: "valid t \<Longrightarrow> Kind t \<noteq> []"
  by (subst (asm) validateConcreteOrNull.simps) auto

lemma commonConcreteType_base:
  assumes "commonConcreteType l r = Inr t" "base_type l" "base_type r"
  shows "base_type t"
proof -
  from assms(2,3) have "valid l" "valid r" by (simp_all add: base_type_def)
  with assms(1) have "valid t" by (rule commonConcreteType_valid)
  moreover from commonConcreteType_Kind [OF assms(1)] have "Kind t \<notin> {''Optional'', ''Null''}"
  proof
    assume "Kind t = Kind l"
    with assms(2) show ?thesis by (simp add: base_type_def)
  qed (drule isPrimitiveNumber_not_special, simp)
  ultimately show ?thesis by (simp add: base_type_def)
qed

lemma CommonType_loop_base:
  "CommonType_loop c n ts = Inr (t, m) \<Longrightarrow> Kind c = [] \<or> base_type c \<Longrightarrow> Kind t = [] \<or> base_type t"
proof (induction c n ts rule: CommonType_loop.induct)
  case (2 c n v ts)
  then obtain b opt where b: "baseType v = Inr (b, opt)" by (auto simp: result_simps)
  note base = baseType_Inr [OF b]
  have nb: "Kind b \<noteq> ''Null'' \<Longrightarrow> base_type b" using base by (simp add: base_type_def)
  show ?case
  proof (cases "Kind b = ''Null''")
    case True
    with 2 b show ?thesis by simp
  next
    case False
    show ?thesis
    proof (cases "Kind c = []")
      case True
      with 2 b nb False show ?thesis by simp
    next
      case nz: False
      with "2.prems" b False obtain c' where c': "commonConcreteType c b = Inr c'"
          "CommonType_loop c' (n \<or> opt) ts = Inr (t, m)"
        by (auto simp: result_simps)
      with nz "2.prems"(2) nb False have "base_type c'" by (blast intro: commonConcreteType_base)
      with "2.IH"(3) [OF b refl False nz c'(1)] c'(2) show ?thesis by simp
    qed
  qed
qed simp

lemma CommonType_result:
  assumes "CommonType ts = Inr t"
  shows "valid t" "Kind (UnwrapOptional t) \<noteq> ''Null''" "Kind (UnwrapOptional t) \<noteq> ''Optional''"
proof -
  from assms obtain c n where l: "CommonType_loop (mk_kind []) False ts = Inr (c, n)"
    and c: "Kind c \<noteq> []" and t: "t = optional c \<or> t = c"
    by (auto simp: CommonType_def result_simps split: if_splits)
  from CommonType_loop_base [OF l] c have "base_type c" by simp
  with t show "valid t" "Kind (UnwrapOptional t) \<noteq> ''Null''" "Kind (UnwrapOptional t) \<noteq> ''Optional''"
    by (auto simp: base_type_def optional_base)
qed

section \<open>Components of a valid type\<close>

lemma valid_parts:
  assumes "valid t"
  shows "Elem t = Some e \<Longrightarrow> valid e" "Key t = Some k \<Longrightarrow> valid k"
    and "x \<in> set (Items t) \<Longrightarrow> valid x" "(n, f) \<in> set (Fields t) \<Longrightarrow> valid f"
  using assms by (cases rule: valid_cases; auto)+

lemma valid_UnwrapOptional: "valid t \<Longrightarrow> valid (UnwrapOptional t)"
  by (auto simp: UnwrapOptional_def dest: valid_parts(1) split: option.splits)

section \<open>Properties\<close>

text \<open>
  Structural equality is an equivalence on the types that may take part in resolution.
\<close>

theorem equal_equivalence:
  assumes "valid t" "valid u"
  shows "Equal t t \<and> (Equal t u \<longleftrightarrow> Equal u t) \<and> (Equal t u \<and> Equal u v \<longrightarrow> Equal t v)"
  using assms by (blast intro: valid_Equal_refl valid_Equal_sym Equal_trans)

lemma equal_equivalence_witness: "Equal (mk_list (mk_kind ''Utf8'')) (mk_list (mk_kind ''Utf8''))"
  using equal_equivalence [of "mk_list (mk_kind ''Utf8'')" "mk_kind ''Json''" "mk_kind ''Json''"] by simp

end
