(* ===== verification/NumericTypes.thy ===== *)
theory NumericTypes
  imports CommonTypes "HOL-Library.Word"
begin

text \<open>
  Integer and numeric conversions: \<open>internal/yql/builtins/arithmetic.go\<close> (\<open>Arithmetic\<close>,
  \<open>CanWidenInteger\<close>), \<open>cast.go\<close> (\<open>Cast\<close>) and \<open>integerLiteralFits\<close> of
  \<open>coalesce.go\<close>. The rules speak about names and widths; the lemmas relate them to the sets of
  values of the integer kinds, which are the values of machine words of that width.
\<close>

section \<open>Operations\<close>

definition withOptional :: "ty \<Rightarrow> bool \<Rightarrow> ty" where
  "withOptional value nullable = (if nullable then optional value else value)"

text \<open>\<open>big.Int.BitLen\<close>: the length of the absolute value in bits, 0 for 0.\<close>

fun bit_len :: "nat \<Rightarrow> nat" where
  "bit_len n = (if n = 0 then 0 else Suc (bit_len (n div 2)))"

declare bit_len.simps [simp del]

definition integerLiteralFits :: "int option \<Rightarrow> string \<Rightarrow> bool" where
  "integerLiteralFits value kind =
     (case value of
        None \<Rightarrow> False
      | Some v \<Rightarrow>
          (let (signed, bits) = integerInfo kind in
           if \<not> signed then 0 \<le> v \<and> bit_len (nat \<bar>v\<bar>) \<le> bits
           else (let limit = 2 ^ (bits - 1) in - limit \<le> v \<and> v < limit)))"

definition arithmetic_operand :: "ty \<Rightarrow> bool" where
  "arithmetic_operand operand \<longleftrightarrow>
     (let base = UnwrapOptional operand in
      isInteger (Kind base) \<or> Kind base = ''Float'' \<or> Kind base = ''Double'')"

definition Arithmetic :: "string \<Rightarrow> ty \<Rightarrow> ty \<Rightarrow> ty res" where
  "Arithmetic operator left right =
     (if operator \<noteq> ''+'' \<and> operator \<noteq> ''-'' \<and> operator \<noteq> ''*'' then
        Inl (Errorf ''unsupported arithmetic operator %q; supported operators are +, -, and *'' [FStr operator])
      else check_then
        (first_err (\<lambda>operand. if \<not> arithmetic_operand operand then
             Some (Errorf ''arithmetic %s requires primitive numeric operands, got %s'' [FStr operator, FType operand])
           else None) [left, right])
        (CommonType [left, right]))"

definition CanWidenInteger :: "ty \<Rightarrow> ty \<Rightarrow> bool" where
  "CanWidenInteger source target =
     (if IsOptional source \<and> \<not> IsOptional target then False
      else
        (let (sourceSigned, sourceBits) = integerInfo (Kind (UnwrapOptional source));
             (targetSigned, targetBits) = integerInfo (Kind (UnwrapOptional target)) in
         if sourceBits = 0 \<or> targetBits = 0 then False
         else (sourceSigned = targetSigned \<and> sourceBits \<le> targetBits)
            \<or> (\<not> sourceSigned \<and> targetSigned \<and> sourceBits < targetBits)))"

definition totalIntegerCast :: "string \<Rightarrow> string \<Rightarrow> bool" where
  "totalIntegerCast source target =
     (let (sourceSigned, sourceBits) = integerInfo source;
          (targetSigned, targetBits) = integerInfo target in
      if sourceSigned = targetSigned then targetBits \<ge> sourceBits
      else if sourceSigned then False
      else targetSigned \<and> targetBits > sourceBits)"

text \<open>\<open>castRule\<close>: (may fail, is supported).\<close>

definition castRule :: "ty \<Rightarrow> ty \<Rightarrow> bool \<times> bool" where
  "castRule source target =
     (let s = Kind source; t = Kind target in
      if Equal source target then (False, True)
      else if (isInteger s \<and> t = ''Bool'') \<or> (s = ''Bool'' \<and> isInteger t) then (False, True)
      else if (s = ''Date'' \<or> s = ''Datetime'' \<or> s = ''Timestamp'') \<and> t = ''String'' then (False, True)
      else if s = ''Timestamp'' \<and> t = ''Uint64'' then (False, True)
      else if s = ''Uint64'' \<and> t = ''Timestamp'' then (True, True)
      else if (s = ''String'' \<or> s = ''Utf8'') \<and> t = ''Json'' then (True, True)
      else if isInteger s \<and> isInteger t then (\<not> totalIntegerCast s t, True)
      else if isPrimitiveNumber s \<and> isPrimitiveNumber t \<and> s \<noteq> ''Decimal'' \<and> t \<noteq> ''Decimal'' then
        (if (s = ''Float'' \<or> s = ''Double'') \<and> isInteger t then (True, True) else (False, True))
      else if (s = ''String'' \<or> s = ''Utf8'') \<and> isPrimitiveNumber t then (True, True)
      else if isPrimitiveNumber s \<and> t = ''String'' then (False, True)
      else if s = ''Utf8'' \<and> t = ''String'' then (False, True)
      else if s = ''String'' \<and> t = ''Utf8'' then (True, True)
      else (False, False))"

definition Cast :: "ty \<Rightarrow> ty \<Rightarrow> ty res" where
  "Cast source target =
     and_then (map_error (\<lambda>err. Errorf ''CAST source: %w'' [FErr err]) (baseType source))
       (\<lambda>(sourceBase, sourceOptional).
     and_then (map_error (\<lambda>err. Errorf ''CAST target: %w'' [FErr err]) (baseType target))
       (\<lambda>(targetBase, targetOptional).
     if Kind targetBase = ''Null'' then Inl (Errorf ''CAST target cannot be Null'' [])
     else if Kind sourceBase = ''Null'' then Inr (optional targetBase)
     else (let (mayFail, supported) = castRule sourceBase targetBase in
       if \<not> supported then
         Inl (Errorf ''unsupported CAST from %s to %s'' [FType source, FType target])
       else Inr (withOptional targetBase (sourceOptional \<or> targetOptional \<or> mayFail)))))"

section \<open>The values of the integer kinds\<close>

definition kind_values :: "string \<Rightarrow> int set" where
  "kind_values kind =
     (let (signed, bits) = integerInfo kind in
      if bits = 0 then {}
      else if signed then {- (2 ^ (bits - 1)) ..< 2 ^ (bits - 1)}
      else {0 ..< 2 ^ bits})"

lemma kind_values_int_kind:
  assumes "int_width b"
  shows "kind_values (int_kind s b) =
    (if s then {- (2 ^ (b - 1)) ..< 2 ^ (b - 1)} else {0 ..< 2 ^ b})"
  using assms by (simp only: kind_values_def integerInfo_int_kind) auto

text \<open>These are the values of the machine words of that sign and width.\<close>

lemma kind_values_Uint: "LENGTH('a::len) = b \<Longrightarrow> int_width b \<Longrightarrow>
    kind_values (int_kind False b) = range (uint :: 'a word \<Rightarrow> int)"
proof -
  assume b: "LENGTH('a) = b" "int_width b"
  have "i \<in> range (uint :: 'a word \<Rightarrow> int)" if "0 \<le> i" "i < 2 ^ b" for i
    using that b(1) by (intro range_eqI [of _ _ "word_of_int i"]) (simp add: uint_word_of_int)
  moreover have "uint w < 2 ^ b" for w :: "'a word"
    using uint_lt2p [of w] b(1) by simp
  ultimately show ?thesis
    unfolding kind_values_int_kind [OF b(2)] by auto
qed

lemma kind_values_Int: "LENGTH('a::len) = b \<Longrightarrow> int_width b \<Longrightarrow>
    kind_values (int_kind True b) = range (sint :: 'a word \<Rightarrow> int)"
proof -
  assume b: "LENGTH('a) = b" "int_width b"
  have "i \<in> range (sint :: 'a word \<Rightarrow> int)" if "- (2 ^ (b - 1)) \<le> i" "i < 2 ^ (b - 1)" for i
    using that b(1) by (intro range_eqI [of _ _ "word_of_int i"]) (simp add: sint_sbintrunc' signed_take_bit_int_eq_self)
  moreover have "- (2 ^ (b - 1)) \<le> sint w" "sint w < 2 ^ (b - 1)" for w :: "'a word"
    using sint_ge [of w] sint_lt [of w] b(1) by simp_all
  ultimately show ?thesis
    unfolding kind_values_int_kind [OF b(2)] by auto
qed

section \<open>Literals, casts and widening against the values\<close>

lemma bit_len_le_iff: "bit_len n \<le> b \<longleftrightarrow> n < 2 ^ b"
proof (induction n arbitrary: b rule: bit_len.induct)
  case (1 n)
  show ?case
  proof (cases "n = 0")
    case True
    then show ?thesis by (simp add: bit_len.simps [of 0])
  next
    case False
    show ?thesis
    proof (cases b)
      case 0
      with False show ?thesis by (simp add: bit_len.simps [of n])
    next
      case (Suc c)
      have "bit_len (n div 2) \<le> c \<longleftrightarrow> n div 2 < 2 ^ c" using 1 [OF False] .
      moreover have "n div 2 < 2 ^ c \<longleftrightarrow> n < 2 ^ Suc c" by auto
      ultimately show ?thesis using False Suc by (simp add: bit_len.simps [of n])
    qed
  qed
qed

lemma literal_fits_values:
  assumes "isInteger kind"
  shows "integerLiteralFits (Some v) kind \<longleftrightarrow> v \<in> kind_values kind"
proof -
  from assms obtain s b where k: "int_width b" "kind = int_kind s b" by (rule isIntegerE)
  have "0 \<le> v \<Longrightarrow> nat \<bar>v\<bar> < 2 ^ b \<longleftrightarrow> v < 2 ^ b"
    by (simp add: nat_less_iff)
  with k show ?thesis
    by (simp only: integerLiteralFits_def kind_values_int_kind integerInfo_int_kind bit_len_le_iff)
       (auto simp: Let_def)
qed

text \<open>A power of two that bounds: the interval of one kind inside the interval of another.\<close>

lemma interval_subset: "(a::int) < b \<Longrightarrow> {a..<b} \<subseteq> {c..<d} \<longleftrightarrow> c \<le> a \<and> b \<le> d"
  by auto

lemma kind_values_subset:
  assumes "int_width b" "int_width c"
  shows "kind_values (int_kind s b) \<subseteq> kind_values (int_kind r c) \<longleftrightarrow>
    (if s = r then b \<le> c else \<not> s \<and> b < c)"
proof -
  have pow: "(2::int) ^ m \<le> 2 ^ n \<longleftrightarrow> m \<le> n" for m n by simp
  have "int_width b \<Longrightarrow> 0 < b" "int_width c \<Longrightarrow> 0 < c" by auto
  with assms have pos: "0 < b" "0 < c" by simp_all
  have neg: "- (2 ^ (b - 1)) < (2::int) ^ (b - 1)" and "0 < (2::int) ^ b" "0 < (2::int) ^ (b - 1)"
    by (simp_all add: less_le_trans [of _ 0])
  then show ?thesis
    using pos
    by (cases s; cases r)
       (auto simp: kind_values_int_kind [OF assms(1)] kind_values_int_kind [OF assms(2)] interval_subset pow not_le)
qed

lemma totalIntegerCast_values:
  assumes "isInteger s" "isInteger t"
  shows "totalIntegerCast s t \<longleftrightarrow> kind_values s \<subseteq> kind_values t"
proof -
  from assms obtain p b q c where k: "int_width b" "int_width c" "s = int_kind p b" "t = int_kind q c"
    by (elim isIntegerE)
  show ?thesis
    unfolding k(3,4) kind_values_subset [OF k(1,2)] totalIntegerCast_def
      integerInfo_int_kind [OF k(1)] integerInfo_int_kind [OF k(2)]
    by auto
qed

lemma CanWidenInteger_values:
  "CanWidenInteger source target \<longleftrightarrow>
     (IsOptional source \<longrightarrow> IsOptional target)
   \<and> isInteger (Kind (UnwrapOptional source)) \<and> isInteger (Kind (UnwrapOptional target))
   \<and> kind_values (Kind (UnwrapOptional source)) \<subseteq> kind_values (Kind (UnwrapOptional target))"
proof (cases "isInteger (Kind (UnwrapOptional source)) \<and> isInteger (Kind (UnwrapOptional target))")
  case True
  then obtain p b q c where k: "int_width b" "int_width c" "Kind (UnwrapOptional source) = int_kind p b"
      "Kind (UnwrapOptional target) = int_kind q c"
    by (elim conjE isIntegerE)
  show ?thesis
    using k(1,2)
    unfolding CanWidenInteger_def k(3,4) kind_values_subset [OF k(1,2)]
      integerInfo_int_kind [OF k(1)] integerInfo_int_kind [OF k(2)]
    by auto
next
  case False
  then show ?thesis by (auto simp: CanWidenInteger_def isInteger_def split: prod.splits)
qed

section \<open>What Cast and Arithmetic return\<close>

lemma withOptional_base [simp]: "Kind t \<noteq> ''Optional'' \<Longrightarrow> UnwrapOptional (withOptional t n) = t"
  by (simp add: withOptional_def optional_base)

lemma valid_withOptional [simp]: "valid (withOptional t n) \<longleftrightarrow> valid t"
  by (simp add: withOptional_def)

lemma IsOptional_withOptional [simp]: "IsOptional (withOptional t n) \<longleftrightarrow> n \<or> IsOptional t"
  by (auto simp: withOptional_def optional_def IsOptional_def)

lemma baseType_withOptional [simp]:
  "valid t \<Longrightarrow> Kind t \<noteq> ''Optional'' \<Longrightarrow> baseType (withOptional t n) = Inr (t, n)"
  by (simp add: withOptional_def optional_base baseType_base)

lemma Equal_mk_kind [simp]: "Equal (mk_kind s) (mk_kind t) \<longleftrightarrow> s = t"
  by (subst Equal.simps) auto

lemma Cast_InrD:
  assumes "Cast source target = Inr t"
  obtains s so b tb where "baseType source = Inr (s, so)" "baseType target = Inr (b, tb)"
    "Kind b \<noteq> ''Null''" "t = withOptional b (IsOptional t)"
    "Kind s = ''Null'' \<Longrightarrow> IsOptional t"
    "Kind s \<noteq> ''Null'' \<Longrightarrow> snd (castRule s b) \<and> (IsOptional t \<longleftrightarrow> so \<or> tb \<or> fst (castRule s b))"
proof -
  from assms obtain s so b tb where b: "baseType source = Inr (s, so)" "baseType target = Inr (b, tb)"
    "Kind b \<noteq> ''Null''"
    and t: "(if Kind s = ''Null'' then Inr (optional b)
       else (let (mayFail, supported) = castRule s b in
         if \<not> supported then Inl (Errorf ''unsupported CAST from %s to %s'' [FType source, FType target])
         else Inr (withOptional b (so \<or> tb \<or> mayFail)))) = Inr t"
    by (auto simp: Cast_def result_simps split: if_splits)
  from baseType_Inr(2) [OF b(2)] have nb: "\<not> IsOptional b" by (simp add: IsOptional_def)
  show thesis
  proof (rule that [OF b])
    show "t = withOptional b (IsOptional t)"
      using t nb by (auto simp: withOptional_def IsOptional_def optional_def split: if_splits prod.splits)
    show "Kind s = ''Null'' \<Longrightarrow> IsOptional t"
      using t by (auto simp: IsOptional_def)
    show "Kind s \<noteq> ''Null'' \<Longrightarrow> snd (castRule s b) \<and> (IsOptional t \<longleftrightarrow> so \<or> tb \<or> fst (castRule s b))"
      using t nb by (auto split: if_splits prod.splits)
  qed
qed

lemma Cast_valid: "Cast source target = Inr t \<Longrightarrow> valid t"
proof (erule Cast_InrD)
  fix s so b tb
  assume "baseType target = Inr (b, tb)" and t: "t = withOptional b (IsOptional t)"
  then have "valid b" by (blast dest: baseType_Inr(1))
  then show "valid t" by (subst t) simp
qed

lemma castRule_integers:
  assumes "isInteger s" "isInteger t"
  shows "castRule (mk_kind s) (mk_kind t) = (\<not> kind_values s \<subseteq> kind_values t, True)"
proof -
  have "s \<notin> {''Bool'', ''Date'', ''Datetime'', ''Timestamp'', ''String'', ''Utf8''}"
       "t \<notin> {''Bool'', ''Date'', ''Datetime'', ''Timestamp'', ''String'', ''Utf8'', ''Json''}"
    using assms by (auto simp: isInteger_def integerInfo_def)
  with assms show ?thesis
    by (cases "s = t") (auto simp: castRule_def Let_def totalIntegerCast_values)
qed

text \<open>A cast between integer types is required exactly when no value can be lost.\<close>

lemma Cast_integers:
  assumes "isInteger s" "isInteger t"
  shows "Cast (withOptional (mk_kind s) so) (withOptional (mk_kind t) tb) =
    Inr (withOptional (mk_kind t) (so \<or> tb \<or> \<not> kind_values s \<subseteq> kind_values t))"
proof -
  have "s \<noteq> ''Optional'' \<and> s \<noteq> ''Null''" "t \<noteq> ''Optional'' \<and> t \<noteq> ''Null''"
    using integer_not_special [OF assms(1)] integer_not_special [OF assms(2)] by simp_all
  with assms show ?thesis
    by (simp add: Cast_def integer_valid castRule_integers)
qed

lemma castRule_refl: "Equal t t \<Longrightarrow> castRule t t = (False, True)"
  by (simp add: castRule_def Let_def)

text \<open>Casting a cast's result to the same target again changes nothing.\<close>

lemma Cast_idem:
  assumes "Cast source target = Inr t"
  shows "Cast t target = Inr t"
  using assms
proof (rule Cast_InrD)
  fix s so b tb
  assume c: "baseType source = Inr (s, so)" "baseType target = Inr (b, tb)" "Kind b \<noteq> ''Null''"
    "t = withOptional b (IsOptional t)" "Kind s = ''Null'' \<Longrightarrow> IsOptional t"
    "Kind s \<noteq> ''Null'' \<Longrightarrow> snd (castRule s b) \<and> (IsOptional t \<longleftrightarrow> so \<or> tb \<or> fst (castRule s b))"
  note b = baseType_Inr [OF c(2)]
  have "baseType t = Inr (b, IsOptional t)"
    by (subst c(4), rule baseType_withOptional) (use b in auto)
  moreover have "castRule b b = (False, True)"
    using b(1) by (simp add: castRule_refl valid_Equal_refl)
  moreover have "tb \<longrightarrow> IsOptional t"
    using c(5,6) by blast
  ultimately show ?thesis
    using c(2,3,4) by (auto simp: Cast_def)
qed

text \<open>Arithmetic succeeds on primitive operands only.\<close>

lemma Arithmetic_InrD:
  assumes "Arithmetic op l r = Inr t"
  shows "op \<in> {''+'', ''-'', ''*''}" "arithmetic_operand l" "arithmetic_operand r" "CommonType [l, r] = Inr t"
  using assms by (auto simp: Arithmetic_def result_simps split: if_splits)

section \<open>Properties\<close>

lemma literal_fits_Uint:
  "LENGTH('a::len) = b \<Longrightarrow> int_width b \<Longrightarrow>
   integerLiteralFits (Some v) (int_kind False b) \<longleftrightarrow> v \<in> range (uint :: 'a word \<Rightarrow> int)"
  by (subst kind_values_Uint [symmetric]) (auto simp: literal_fits_values)

lemma literal_fits_Int:
  "LENGTH('a::len) = b \<Longrightarrow> int_width b \<Longrightarrow>
   integerLiteralFits (Some v) (int_kind True b) \<longleftrightarrow> v \<in> range (sint :: 'a word \<Rightarrow> int)"
  by (subst kind_values_Int [symmetric]) (auto simp: literal_fits_values)

text \<open>
  C22: an untyped integer literal fits an integer kind exactly when it is the value of a machine
  word of that width, read signed or unsigned as the kind says.
\<close>

theorem literal_fits_word:
  "(integerLiteralFits (Some v) ''Uint8'' \<longleftrightarrow> v \<in> range (uint :: 8 word \<Rightarrow> int))
 \<and> (integerLiteralFits (Some v) ''Uint16'' \<longleftrightarrow> v \<in> range (uint :: 16 word \<Rightarrow> int))
 \<and> (integerLiteralFits (Some v) ''Uint32'' \<longleftrightarrow> v \<in> range (uint :: 32 word \<Rightarrow> int))
 \<and> (integerLiteralFits (Some v) ''Uint64'' \<longleftrightarrow> v \<in> range (uint :: 64 word \<Rightarrow> int))
 \<and> (integerLiteralFits (Some v) ''Int8'' \<longleftrightarrow> v \<in> range (sint :: 8 word \<Rightarrow> int))
 \<and> (integerLiteralFits (Some v) ''Int16'' \<longleftrightarrow> v \<in> range (sint :: 16 word \<Rightarrow> int))
 \<and> (integerLiteralFits (Some v) ''Int32'' \<longleftrightarrow> v \<in> range (sint :: 32 word \<Rightarrow> int))
 \<and> (integerLiteralFits (Some v) ''Int64'' \<longleftrightarrow> v \<in> range (sint :: 64 word \<Rightarrow> int))"
  using literal_fits_Uint [where 'a = 8] literal_fits_Uint [where 'a = 16]
    literal_fits_Uint [where 'a = 32] literal_fits_Uint [where 'a = 64]
    literal_fits_Int [where 'a = 8] literal_fits_Int [where 'a = 16]
    literal_fits_Int [where 'a = 32] literal_fits_Int [where 'a = 64]
  by (simp add: int_kind_def)

text \<open>
  C23: CAST between integer types, nullable or not, always resolves to the target kind; the result
  is optional exactly when a side is, or when some value of the source is not a value of the target.
\<close>

theorem cast_integers_lossless:
  assumes "isInteger s" "isInteger t"
  shows "Cast (withOptional (mk_kind s) so) (withOptional (mk_kind t) tb) =
    Inr (withOptional (mk_kind t) (so \<or> tb \<or> \<not> kind_values s \<subseteq> kind_values t))"
  by (rule Cast_integers [OF assms])

lemma cast_integers_lossless_witness:
  "Cast (withOptional (mk_kind ''Int8'') False) (withOptional (mk_kind ''Int16'') False) =
    Inr (withOptional (mk_kind ''Int16'') (False \<or> False \<or> \<not> kind_values ''Int8'' \<subseteq> kind_values ''Int16''))"
  by (rule cast_integers_lossless) code_simp+

text \<open>
  C24: an integer assignment is widened exactly when it loses nothing: both sides are integers,
  an optional source has an optional target, and every source value is a target value.
\<close>

theorem widening_lossless:
  "CanWidenInteger source target \<longleftrightarrow>
     (IsOptional source \<longrightarrow> IsOptional target)
   \<and> isInteger (Kind (UnwrapOptional source)) \<and> isInteger (Kind (UnwrapOptional target))
   \<and> kind_values (Kind (UnwrapOptional source)) \<subseteq> kind_values (Kind (UnwrapOptional target))"
  by (rule CanWidenInteger_values)

lemma widening_lossless_witness: "kind_values ''Uint32'' \<subseteq> kind_values ''Int64''"
proof -
  have "CanWidenInteger (mk_kind ''Uint32'') (Optional (mk_kind ''Int64''))" by code_simp
  then show ?thesis unfolding widening_lossless by simp
qed

text \<open>
  The common type of two integer kinds holds every value of both exactly when the kinds have
  one sign or the signed one is wider; otherwise (as for Int64 and Uint64) YQL's common type
  loses values.
\<close>

theorem common_integer_values:
  assumes "isInteger l" "isInteger r"
  shows "kind_values l \<union> kind_values r \<subseteq> kind_values (Kind (commonInteger l r)) \<longleftrightarrow>
    (case (integerInfo l, integerInfo r) of ((ls, lb), (rs, rb)) \<Rightarrow>
       ls = rs \<or> (if ls then rb < lb else lb < rb))"
proof -
  from assms obtain s b p c where k: "int_width b" "int_width c" "l = int_kind s b" "r = int_kind p c"
    by (elim isIntegerE)
  let ?k = "if b = c then int_kind (s \<or> p) b else if b < c then int_kind p c else int_kind s b"
  have "Kind (commonInteger l r) = ?k" unfolding k(3,4) commonInteger_int_kind [OF k(1,2)] by simp
  moreover have "kind_values l \<subseteq> kind_values ?k \<and> kind_values r \<subseteq> kind_values ?k \<longleftrightarrow>
      s = p \<or> (if s then c < b else b < c)"
    unfolding k(3,4) using k(1,2) by (cases s; cases p) (auto simp: kind_values_subset)
  ultimately show ?thesis
    by (simp only: Un_subset_iff k(3,4) integerInfo_int_kind [OF k(1)] integerInfo_int_kind [OF k(2)] prod.case)
qed

lemma common_integer_values_witness:
  "\<not> kind_values ''Int64'' \<union> kind_values ''Uint64'' \<subseteq> kind_values (Kind (commonInteger ''Int64'' ''Uint64''))"
proof -
  have "isInteger ''Int64''" "isInteger ''Uint64''" by code_simp+
  from common_integer_values [OF this] show ?thesis by (simp add: integerInfo_def)
qed

end
