(* ===== verification/CommonOrder.thy ===== *)
theory CommonOrder
  imports NumericTypes "HOL-Library.Multiset"
begin

text \<open>
  The abstract meaning of \<open>CommonType\<close>. The primitive numeric kinds form a linear order, and
  the common type of a list is declarative: every element must have a base type, the bases
  that are not \<open>Null\<close> must be compatible with each other, and the result is the largest
  numeric base (or, outside the numbers, the first base), made optional when an element is
  nullable. The loop of \<open>CommonTypes\<close> is shown to compute this, and from it that the order of
  the arguments does not matter.
\<close>

section \<open>The numeric order\<close>

definition num_kind :: "string \<Rightarrow> bool" where
  "num_kind k \<longleftrightarrow> isPrimitiveNumber k \<and> k \<noteq> ''Decimal''"

definition num_rank :: "string \<Rightarrow> nat" where
  "num_rank k =
     (if k = ''Double'' then 201 else if k = ''Float'' then 200
      else (let (signed, bits) = integerInfo k in 2 * bits + (if signed then 1 else 0)))"

lemma num_kind_cases [consumes 1, case_names Double Float Int]:
  assumes "num_kind k"
  obtains "k = ''Double''" | "k = ''Float''" | s b where "int_width b" "k = int_kind s b"
proof -
  from assms consider "isInteger k" | "k = ''Double''" | "k = ''Float''"
    by (auto simp: num_kind_def isPrimitiveNumber_def)
  then show thesis by cases (erule isIntegerE, erule (1) that, (erule that)+)
qed

lemma int_kind_not_float [simp]: "int_width b \<Longrightarrow> int_kind s b \<noteq> ''Double'' \<and> int_kind s b \<noteq> ''Float'' \<and> int_kind s b \<noteq> ''Decimal''"
  by (cases s) (auto simp: int_kind_def)

lemma num_rank_int_kind [simp]: "int_width b \<Longrightarrow> num_rank (int_kind s b) = 2 * b + (if s then 1 else 0)"
  by (simp only: num_rank_def integerInfo_int_kind int_kind_not_float) simp

lemma num_rank_float [simp]: "num_rank ''Double'' = 201" "num_rank ''Float'' = 200"
  by (simp_all add: num_rank_def)

lemma num_rank_int_less: "int_width b \<Longrightarrow> num_rank (int_kind s b) < 200"
  by (subst num_rank_int_kind) auto

lemma num_rank_inject:
  assumes "num_kind j" "num_kind k"
  shows "num_rank j = num_rank k \<longleftrightarrow> j = k"
proof
  assume eq: "num_rank j = num_rank k"
  note less = num_rank_int_less
  from assms(1) show "j = k"
  proof (cases j rule: num_kind_cases)
    case (Int s b)
    note j = this
    from assms(2) show ?thesis
    proof (cases k rule: num_kind_cases)
      case (Int r c)
      with j eq have "2 * b + (if s then 1 else 0) = 2 * c + (if r then 1 else 0)"
        by (simp only: num_rank_int_kind)
      then have "s = r \<and> b = c" by (cases s; cases r) (simp_all, arith+)
      with j Int show ?thesis by simp
    qed (use j eq less [of b s] in simp_all)
  next
    case Double
    from assms(2) show ?thesis
    proof (cases k rule: num_kind_cases)
      case (Int r c)
      then show ?thesis using eq Double less [of c r] by simp
    qed (use eq Double in simp_all)
  next
    case Float
    from assms(2) show ?thesis
    proof (cases k rule: num_kind_cases)
      case (Int r c)
      then show ?thesis using eq Float less [of c r] by simp
    qed (use eq Float in simp_all)
  qed
qed simp

lemma num_kindI [simp]: "num_kind ''Double''" "num_kind ''Float''" "int_width b \<Longrightarrow> num_kind (int_kind s b)"
  using int_kind_not_float [of b s]
  by (simp_all add: num_kind_def isPrimitiveNumber_def del: int_kind_not_float)

lemma isInteger_float [simp]: "\<not> isInteger ''Double''" "\<not> isInteger ''Float''"
  by (simp_all add: isInteger_def integerInfo_def)

text \<open>On numeric scalars \<open>commonConcreteType\<close> is the maximum of that order.\<close>

lemma commonConcreteType_num:
  assumes "num_kind j" "num_kind k"
  shows "commonConcreteType (mk_kind j) (mk_kind k) =
    Inr (mk_kind (if num_rank j < num_rank k then k else j))"
proof -
  have p: "isPrimitiveNumber j" "isPrimitiveNumber k" "j \<noteq> ''Decimal''" "k \<noteq> ''Decimal''"
    using assms by (simp_all add: num_kind_def)
  show ?thesis
    using assms(1)
  proof (cases j rule: num_kind_cases)
    case Double
    from assms(2) Double p show ?thesis
      by (cases k rule: num_kind_cases) (auto simp: commonConcreteType_def)
  next
    case Float
    from assms(2) Float p show ?thesis
      by (cases k rule: num_kind_cases) (auto simp: commonConcreteType_def)
  next
    case j: (Int s b)
    from assms(2) show ?thesis
    proof (cases k rule: num_kind_cases)
      case (Int r c)
      then have "isInteger j" "isInteger k" using j by simp_all
      then have "commonConcreteType (mk_kind j) (mk_kind k) = (if j = k then Inr (mk_kind j) else Inr (commonInteger j k))"
        by (simp add: commonConcreteType_def)
      moreover have "commonInteger j k = mk_kind (if num_rank j < num_rank k then k else j)"
        unfolding j(2) Int(2) commonInteger_int_kind [OF j(1) Int(1)]
          num_rank_int_kind [OF j(1)] num_rank_int_kind [OF Int(1)]
        by auto
      ultimately show ?thesis by auto
    next
      case Double
      with j p num_rank_int_less [OF j(1), of s] show ?thesis
        by (auto simp: commonConcreteType_def)
    next
      case Float
      with j p num_rank_int_less [OF j(1), of s] show ?thesis
        by (auto simp: commonConcreteType_def)
    qed
  qed
qed

text \<open>Bases of the numeric kinds are bare kinds.\<close>

lemma num_kind_not_special: "num_kind k \<Longrightarrow> k \<notin> special_kinds"
  by (auto simp: num_kind_def isPrimitiveNumber_def isInteger_def integerInfo_def)

lemma valid_num_mk_kind:
  assumes "valid t" "num_kind (Kind t)"
  shows "t = mk_kind (Kind t)"
  using assms(1)
proof (cases rule: valid_cases)
  case (wrapper k e)
  then show ?thesis using num_kind_not_special [OF assms(2)] by simp
qed (use num_kind_not_special [OF assms(2)] in simp_all)

section \<open>The declarative common type\<close>

definition compatible :: "ty \<Rightarrow> ty \<Rightarrow> bool" where
  "compatible l r \<longleftrightarrow> Equal l r \<or> (num_kind (Kind l) \<and> num_kind (Kind r))"

definition join_type :: "ty \<Rightarrow> ty \<Rightarrow> ty" where
  "join_type l r =
     (if num_kind (Kind l) \<and> num_kind (Kind r) \<and> num_rank (Kind l) < num_rank (Kind r) then r else l)"

text \<open>The bases of a list of types that are not \<open>Null\<close>, and whether an element is nullable.\<close>

fun bases :: "ty list \<Rightarrow> ty list" where
  "bases [] = []"
| "bases (v # vs) =
     (case baseType v of Inl e \<Rightarrow> bases vs
      | Inr (b, opt) \<Rightarrow> if Kind b = ''Null'' then bases vs else b # bases vs)"

definition has_base :: "ty \<Rightarrow> bool" where
  "has_base v \<longleftrightarrow> (\<exists>b opt. baseType v = Inr (b, opt))"

definition nullable_type :: "ty \<Rightarrow> bool" where
  "nullable_type v \<longleftrightarrow> (\<exists>b opt. baseType v = Inr (b, opt) \<and> (opt \<or> Kind b = ''Null''))"

lemma bases_base: "b \<in> set (bases vs) \<Longrightarrow> base_type b"
  by (induction vs) (auto simp: base_type_def dest: baseType_Inr(1,2) split: sum.splits if_splits)

lemma num_Equal: "Equal l r \<Longrightarrow> num_kind (Kind l) \<longleftrightarrow> num_kind (Kind r)"
  by (simp add: EqualD(1))

lemma commonConcreteType_compatible:
  assumes "base_type l" "base_type r"
  shows "commonConcreteType l r = (if compatible l r then Inr (join_type l r) else commonConcreteType l r)"
    and "\<not> compatible l r \<Longrightarrow> \<exists>e. commonConcreteType l r = Inl e"
proof -
  have v: "valid l" "valid r" using assms by (simp_all add: base_type_def)
  show "commonConcreteType l r = (if compatible l r then Inr (join_type l r) else commonConcreteType l r)"
  proof (cases "num_kind (Kind l) \<and> num_kind (Kind r)")
    case True
    then obtain j k where "l = mk_kind j" "r = mk_kind k" "num_kind j" "num_kind k"
      using valid_num_mk_kind v by metis
    then show ?thesis by (simp add: commonConcreteType_num compatible_def join_type_def)
  next
    case False
    then show ?thesis by (auto simp: compatible_def join_type_def commonConcreteType_def)
  qed
  show "\<exists>e. commonConcreteType l r = Inl e" if "\<not> compatible l r"
  proof -
    from that have "\<not> Equal l r" "\<not> (num_kind (Kind l) \<and> num_kind (Kind r))"
      by (auto simp: compatible_def)
    moreover have "isInteger k \<Longrightarrow> num_kind k" for k
      by (auto simp: num_kind_def isPrimitiveNumber_def isInteger_def integerInfo_def)
    ultimately show ?thesis
      by (auto simp: commonConcreteType_def num_kind_def)
  qed
qed

lemma compatible_refl: "valid t \<Longrightarrow> compatible t t"
  by (simp add: compatible_def valid_Equal_refl)

lemma compatible_sym: "valid t \<Longrightarrow> valid u \<Longrightarrow> compatible t u \<Longrightarrow> compatible u t"
  by (auto simp: compatible_def valid_Equal_sym)

lemma compatible_trans: "compatible t u \<Longrightarrow> compatible u v \<Longrightarrow> compatible t v"
  by (auto simp: compatible_def dest: num_Equal intro: Equal_trans)

lemma join_compatible:
  assumes "base_type l" "base_type r" "compatible l r"
  shows "base_type (join_type l r)" "compatible (join_type l r) x \<longleftrightarrow> compatible l x"
proof -
  show "base_type (join_type l r)" using assms by (simp add: join_type_def)
  have "compatible (join_type l r) l" "compatible l (join_type l r)"
    using assms by (auto simp: join_type_def base_type_def intro: compatible_refl compatible_sym)
  then show "compatible (join_type l r) x \<longleftrightarrow> compatible l x"
    by (blast intro: compatible_trans)
qed

text \<open>The loop, started from a base type.\<close>

lemma CommonType_loop_spec:
  "base_type c \<Longrightarrow> CommonType_loop c n vs = Inr (t, m) \<longleftrightarrow>
     (\<forall>v\<in>set vs. has_base v) \<and> (\<forall>b\<in>set (bases vs). compatible c b)
   \<and> t = foldl join_type c (bases vs) \<and> m = (n \<or> (\<exists>v\<in>set vs. nullable_type v))"
proof (induction vs arbitrary: c n)
  case (Cons v vs)
  have nz: "Kind c \<noteq> []" using Cons.prems by (simp add: base_type_def valid_Kind_nonempty)
  show ?case
  proof (cases "baseType v")
    case (Inl e)
    then show ?thesis by (auto simp: has_base_def)
  next
    case (Inr p)
    obtain b opt where p: "baseType v = Inr (b, opt)" using Inr by (cases p) auto
    then have v: "has_base v" "nullable_type v \<longleftrightarrow> opt \<or> Kind b = ''Null''"
      by (auto simp: has_base_def nullable_type_def)
    show ?thesis
    proof (cases "Kind b = ''Null''")
      case True
      with p v Cons.IH [OF Cons.prems, of True] show ?thesis by simp
    next
      case False
      with baseType_Inr [OF p] have bb: "base_type b" by (simp add: base_type_def)
      note cc = commonConcreteType_compatible [OF Cons.prems bb]
      show ?thesis
      proof (cases "compatible c b")
        case True
        note j = join_compatible [OF Cons.prems bb True]
        from True cc(1) have "commonConcreteType c b = Inr (join_type c b)" by simp
        with p v False nz True j Cons.IH [OF j(1), of "n \<or> opt"] show ?thesis by auto
      next
        case nc: False
        then obtain e where "commonConcreteType c b = Inl e" using cc(2) by blast
        with p v False nz nc show ?thesis by simp
      qed
    qed
  qed
qed auto

lemma base_type_nonempty: "base_type t \<Longrightarrow> Kind t \<noteq> []"
  by (simp add: base_type_def valid_Kind_nonempty)

lemma foldl_join_base:
  "base_type b \<Longrightarrow> (\<And>x. x \<in> set bs \<Longrightarrow> base_type x) \<Longrightarrow> base_type (foldl join_type b bs)"
  by (induction bs arbitrary: b) (auto simp: join_type_def)

text \<open>The loop from the zero type: the first base that is not \<open>Null\<close> starts it.\<close>

lemma CommonType_loop_zero:
  "CommonType_loop (mk_kind []) n vs = Inr (t, m) \<and> Kind t \<noteq> [] \<longleftrightarrow>
     (\<forall>v\<in>set vs. has_base v)
   \<and> (\<exists>b bs. bases vs = b # bs \<and> (\<forall>x\<in>set bs. compatible b x) \<and> t = foldl join_type b bs)
   \<and> m = (n \<or> (\<exists>v\<in>set vs. nullable_type v))"
proof (induction vs arbitrary: n)
  case (Cons v vs)
  show ?case
  proof (cases "baseType v")
    case (Inl e)
    then show ?thesis by (auto simp: has_base_def)
  next
    case (Inr p)
    obtain b opt where p: "baseType v = Inr (b, opt)" using Inr by (cases p) auto
    then have v: "has_base v" "nullable_type v \<longleftrightarrow> opt \<or> Kind b = ''Null''"
      by (auto simp: has_base_def nullable_type_def)
    show ?thesis
    proof (cases "Kind b = ''Null''")
      case True
      with p v Cons.IH [of True] show ?thesis by simp
    next
      case False
      with baseType_Inr [OF p] have bb: "base_type b" by (simp add: base_type_def)
      have "Kind t \<noteq> []" if "CommonType_loop b (n \<or> opt) vs = Inr (t, m)"
      proof -
        from that have "t = foldl join_type b (bases vs)"
          unfolding CommonType_loop_spec [OF bb] by blast
        moreover have "base_type (foldl join_type b (bases vs))"
          by (rule foldl_join_base [OF bb bases_base])
        ultimately show ?thesis by (simp add: base_type_nonempty)
      qed
      with p v False CommonType_loop_spec [OF bb] show ?thesis by auto
    qed
  qed
qed auto

lemma CommonType_spec:
  "CommonType vs = Inr t \<longleftrightarrow>
     (\<forall>v\<in>set vs. has_base v)
   \<and> (\<exists>b bs. bases vs = b # bs \<and> (\<forall>x\<in>set bs. compatible b x)
        \<and> t = withOptional (foldl join_type b bs) (\<exists>v\<in>set vs. nullable_type v))"
proof -
  have "CommonType vs = Inr t \<longleftrightarrow>
    (\<exists>c m. (CommonType_loop (mk_kind []) False vs = Inr (c, m) \<and> Kind c \<noteq> []) \<and> t = withOptional c m)"
    by (cases "vs = []") (auto simp: CommonType_def result_simps withOptional_def split: if_splits)
  then show ?thesis
    unfolding CommonType_loop_zero by auto
qed

text \<open>Folding \<open>join_type\<close> over compatible bases: the largest number, or the first base.\<close>

lemma foldl_join_num:
  "num_kind (Kind b) \<Longrightarrow> \<forall>x\<in>set bs. num_kind (Kind x) \<Longrightarrow>
   foldl join_type b bs \<in> set (b # bs)
   \<and> (\<forall>x\<in>set (b # bs). num_rank (Kind x) \<le> num_rank (Kind (foldl join_type b bs)))"
proof (induction bs arbitrary: b)
  case (Cons x bs)
  have j: "num_kind (Kind (join_type b x))" "join_type b x \<in> {b, x}"
    "num_rank (Kind b) \<le> num_rank (Kind (join_type b x))" "num_rank (Kind x) \<le> num_rank (Kind (join_type b x))"
    using Cons.prems by (auto simp: join_type_def)
  from Cons.prems have bs: "\<forall>x\<in>set bs. num_kind (Kind x)" by simp
  from Cons.IH [OF j(1) bs] j show ?case
    by (auto intro: order_trans)
qed simp

lemma foldl_join_other: "\<not> num_kind (Kind b) \<Longrightarrow> foldl join_type b bs = b"
  by (induction bs) (simp_all add: join_type_def)

lemma bases_mset: "mset us = mset vs \<Longrightarrow> mset (bases us) = mset (bases vs)"
proof -
  have b: "bases vs = concat (map (\<lambda>v. bases [v]) vs)" for vs
    by (induction vs) (auto split: sum.splits)
  have "mset (bases vs) = sum_mset (image_mset (\<lambda>v. mset (bases [v])) (mset vs))" for vs
    by (subst b) (induction vs; simp)
  then show "mset us = mset vs \<Longrightarrow> ?thesis" by simp
qed

lemma Equal_withOptional: "Equal t u \<Longrightarrow> Kind t \<noteq> ''Optional'' \<Longrightarrow> Equal (withOptional t n) (withOptional u n)"
  by (auto simp: withOptional_def optional_def Equal_iff [of "Optional t"] dest: EqualD(1))

lemma CommonType_permute:
  assumes "CommonType vs = Inr t" "mset us = mset vs"
  shows "\<exists>u. CommonType us = Inr u \<and> Equal t u"
proof -
  have set: "set us = set vs" using assms(2) by (rule mset_eq_setD)
  from assms(1) obtain b bs where vs: "\<forall>v\<in>set vs. has_base v" "bases vs = b # bs"
      "\<forall>x\<in>set bs. compatible b x"
    and t: "t = withOptional (foldl join_type b bs) (\<exists>v\<in>set vs. nullable_type v)"
    unfolding CommonType_spec by blast
  have m: "mset (bases us) = mset (b # bs)" using bases_mset [OF assms(2)] vs(2) by simp
  then obtain b' bs' where us: "bases us = b' # bs'" by (cases "bases us") auto
  have sets: "set (b' # bs') = set (b # bs)" using m us by (metis mset_eq_setD)
  have base: "base_type x" if "x \<in> set (b # bs)" for x
    using that vs(2) bases_base by metis
  have comp: "compatible b x" if "x \<in> set (b # bs)" for x
    using that vs(3) base [of b] by (auto simp: base_type_def compatible_refl)
  have b': "b' \<in> set (b # bs)" using sets by auto
  have comp': "compatible b' x" if "x \<in> set bs'" for x
  proof -
    have "x \<in> set (b # bs)" using that sets by auto
    then have "compatible b x" by (rule comp)
    moreover have "compatible b' b"
      using comp [OF b'] base [OF b'] base [of b] by (auto simp: base_type_def intro: compatible_sym)
    ultimately show ?thesis by (rule compatible_trans [rotated])
  qed
  let ?r = "foldl join_type b bs" and ?r' = "foldl join_type b' bs'"
  have "Equal ?r ?r'"
  proof (cases "num_kind (Kind b)")
    case True
    have num: "num_kind (Kind x)" if "x \<in> set (b # bs)" for x
      using comp [OF that] True by (auto simp: compatible_def num_Equal)
    have n': "num_kind (Kind b')" "\<forall>x\<in>set bs'. num_kind (Kind x)" using num sets by auto
    have "\<forall>x\<in>set bs. num_kind (Kind x)" using num by simp
    note r = foldl_join_num [OF True this] and r' = foldl_join_num [OF n']
    have "num_rank (Kind ?r) = num_rank (Kind ?r')"
      using r r' sets by (intro order_antisym) blast+
    then have "Kind ?r = Kind ?r'"
      using num r r' sets by (metis num_rank_inject)
    moreover have "base_type ?r" "base_type ?r'" using base r r' sets by blast+
    moreover have "num_kind (Kind ?r)" "num_kind (Kind ?r')" using num r r' sets by blast+
    ultimately have "?r = ?r'" using valid_num_mk_kind by (metis base_type_def)
    with \<open>base_type ?r\<close> show ?thesis by (simp add: base_type_def valid_Equal_refl)
  next
    case False
    with comp [OF b'] have "Equal b b'" by (simp add: compatible_def)
    moreover from this False have "\<not> num_kind (Kind b')" by (simp add: num_Equal)
    ultimately show ?thesis using False by (simp add: foldl_join_other)
  qed
  moreover have "base_type ?r" using base by (intro foldl_join_base) auto
  ultimately have "Equal t (withOptional ?r' (\<exists>v\<in>set vs. nullable_type v))"
    unfolding t by (intro Equal_withOptional) (simp_all add: base_type_def)
  moreover have "CommonType us = Inr (withOptional ?r' (\<exists>v\<in>set vs. nullable_type v))"
    unfolding CommonType_spec set using vs(1) us comp' by blast
  ultimately show ?thesis by blast
qed

section \<open>Properties\<close>

text \<open>
  C17: what CommonType computes, declaratively: it succeeds when every type has a base type, some
  base is not Null and all of them are compatible (equal, or both numeric); the result is the
  largest numeric base, or else the first base, optional when some type is nullable or Null.
\<close>

theorem common_type_declarative:
  "CommonType vs = Inr t \<longleftrightarrow>
     list_all has_base vs
   \<and> (\<exists>b bs. bases vs = b # bs \<and> list_all (compatible b) bs
        \<and> t = withOptional (foldl join_type b bs) (list_ex nullable_type vs))"
  by (simp add: CommonType_spec list_all_iff list_ex_iff)

text \<open>
  C18: the order of branches or values does not matter to CommonType: a permutation of the types
  succeeds as well, with an equal result.
\<close>

theorem common_type_order:
  assumes "CommonType vs = Inr t" "mset us = mset vs"
  shows "\<exists>u. CommonType us = Inr u \<and> Equal t u"
  by (rule CommonType_permute [OF assms])

lemma common_type_order_witness:
  "\<exists>u. CommonType [mk_kind ''Null'', mk_kind ''Double'', mk_kind ''Int8''] = Inr u
     \<and> Equal (Optional (mk_kind ''Double'')) u"
  by (rule common_type_order [of "[mk_kind ''Int8'', mk_kind ''Null'', mk_kind ''Double'']"]) code_simp+

text \<open>
  Arithmetic on two primitive numbers has the larger of their kinds in the numeric order and is
  optional when an operand is.
\<close>

theorem arithmetic_result:
  assumes "op \<in> {''+'', ''-'', ''*''}" "num_kind j" "num_kind k"
  shows "Arithmetic op (withOptional (mk_kind j) m) (withOptional (mk_kind k) n) =
    Inr (withOptional (mk_kind (if num_rank j < num_rank k then k else j)) (m \<or> n))"
proof -
  have v: "valid (mk_kind i) \<and> i \<noteq> ''Optional'' \<and> i \<noteq> ''Null'' \<and> i \<noteq> []" if "num_kind i" for i
    using that isPrimitiveNumber_not_special [of i]
    by (cases rule: num_kind_cases) (auto simp: num_kind_def isPrimitiveNumber_def integer_valid)
  have "arithmetic_operand (withOptional (mk_kind i) o')" if "num_kind i" for i o'
    using that v [OF that] by (auto simp: arithmetic_operand_def Let_def num_kind_def isPrimitiveNumber_def)
  moreover have "CommonType [withOptional (mk_kind j) m, withOptional (mk_kind k) n] =
      Inr (withOptional (mk_kind (if num_rank j < num_rank k then k else j)) (m \<or> n))"
    unfolding CommonType_spec using v [OF assms(2)] v [OF assms(3)] assms(2,3)
    by (simp add: has_base_def compatible_def join_type_def nullable_type_def)
  ultimately show ?thesis using assms by (auto simp: Arithmetic_def)
qed

lemma arithmetic_result_witness:
  "Arithmetic ''*'' (withOptional (mk_kind ''Int32'') True) (withOptional (mk_kind ''Uint64'') False) =
    Inr (withOptional (mk_kind (if num_rank ''Int32'' < num_rank ''Uint64'' then ''Uint64'' else ''Int32'')) (True \<or> False))"
  by (rule arithmetic_result) (simp, code_simp+)

text \<open>
  Structural equality does not depend on the order in which a struct's members are declared.
\<close>

lemma equal_member_order:
  assumes "valid (mk_struct fs)" "mset gs = mset fs"
  shows "Equal (mk_struct fs) (mk_struct gs)"
proof -
  from assms(1) have d: "distinct (map fst fs)" and v: "\<forall>(n, f)\<in>set fs. valid f" by auto
  have dg: "distinct (map fst gs)" using d assms(2) by (metis mset_eq_imp_distinct_iff mset_map)
  have s: "set gs = set fs" using assms(2) by (metis set_mset_mset)
  show ?thesis
  proof (rule EqualI)
    fix n f
    assume "(n, f) \<in> set (Fields (mk_struct fs))"
    then have "(n, f) \<in> set gs" "valid f" using s v by auto
    then have "field_map gs n = Some f" by (simp add: field_map_distinct [OF dg] dg)
    then show "\<exists>g. field_map (Fields (mk_struct gs)) n = Some g \<and> Equal f g"
      using \<open>valid f\<close> by (auto intro: valid_Equal_refl)
  qed (use mset_eq_length [OF assms(2)] in simp_all)
qed

lemma equal_member_order_witness:
  "Equal (mk_struct [(''a'', mk_kind ''Bool''), (''b'', mk_kind ''Utf8'')])
     (mk_struct [(''b'', mk_kind ''Utf8''), (''a'', mk_kind ''Bool'')])"
  by (rule equal_member_order) simp_all

end
