(* ===== verification/Calls.thy ===== *)
theory Calls
  imports NumericTypes
begin

text \<open>
  What a call is: the structs \<open>CallArgument\<close>, \<open>Parameter\<close> and \<open>Signature\<close> of
  \<open>internal/yql/builtins/signatures.go\<close>, and the argument checks shared by the resolvers
  (\<open>arity\<close>, \<open>requireExact\<close>, \<open>requireOptionalScalar\<close> and the string argument checks of
  \<open>resolve.go\<close> and \<open>libraries.go\<close>). The locale \<open>resolver_table\<close> is the contract of a table
  of resolvers; every table of the package is shown to satisfy it.
\<close>

section \<open>Calls and signatures\<close>

record CallArgument =
  arg_Name :: string
  arg_Type :: ty
  arg_EmptyList :: bool
  arg_IntegerLiteral :: "int option"
  arg_StringLiteral :: "string option"
  arg_TypeArgument :: "ty option"

record Parameter =
  par_Name :: string
  par_Type :: ty
  par_Optional :: bool
  par_AutoMap :: bool

record Signature =
  sig_Name :: string
  sig_Arguments :: "Parameter list"
  sig_Returns :: ty

text \<open>A positional argument of which only the type is known: \<open>CallArgument{Type: t}\<close>.\<close>

definition plain_argument :: "ty \<Rightarrow> CallArgument" where
  "plain_argument t = \<lparr>arg_Name = [], arg_Type = t, arg_EmptyList = False,
     arg_IntegerLiteral = None, arg_StringLiteral = None, arg_TypeArgument = None\<rparr>"

lemma plain_argument_sel [simp]:
  "arg_Name (plain_argument t) = []" "arg_Type (plain_argument t) = t"
  "arg_EmptyList (plain_argument t) = False" "arg_IntegerLiteral (plain_argument t) = None"
  "arg_StringLiteral (plain_argument t) = None" "arg_TypeArgument (plain_argument t) = None"
  by (simp_all add: plain_argument_def)

type_synonym functionResolver = "ty list \<Rightarrow> ty res"

section \<open>Argument checks\<close>

definition plural :: "int \<Rightarrow> string" where
  "plural count = (if count = 1 then [] else ''s'')"

definition arity :: "string \<Rightarrow> 'a list \<Rightarrow> nat \<Rightarrow> go_error option" where
  "arity name args want =
     (if length args \<noteq> want then
        Some (Errorf ''%s expects %d argument%s, got %d''
          [FStr name, FNat want, FStr (plural (int want)), FNat (length args)])
      else None)"

definition stringOrNullArgument :: "string \<Rightarrow> ty list \<Rightarrow> nat \<Rightarrow> (ty \<times> bool) res" where
  "stringOrNullArgument name args index =
     (let failure = Inl (Errorf ''%s argument %d must be String, Utf8, an Optional string, or Null''
            [FStr name, FNat (index + 1)]) in
      case baseType (args ! index) of
        Inl err \<Rightarrow> failure
      | Inr (base, nullable) \<Rightarrow>
          if Kind base \<noteq> ''String'' \<and> Kind base \<noteq> ''Utf8'' \<and> Kind base \<noteq> ''Null'' then failure
          else Inr (base, nullable \<or> Kind base = ''Null''))"

text \<open>
  The message after the position is one literal of the code.
\<close>

definition coreStringPositionArgument :: "string \<Rightarrow> ty list \<Rightarrow> nat \<Rightarrow> go_error option" where
  "coreStringPositionArgument name args index =
     (let failure = Some (Errorf ''%s argument %d must be Null, Uint8, Uint16, Uint32, or an Optional of one of those types; use CAST(... AS Uint32) for other integer types''
            [FStr name, FNat (index + 1)]) in
      case baseType (args ! index) of
        Inl err \<Rightarrow> failure
      | Inr (base, nullable) \<Rightarrow>
          if Kind base \<noteq> ''Null'' \<and> Kind base \<noteq> ''Uint8'' \<and> Kind base \<noteq> ''Uint16'' \<and> Kind base \<noteq> ''Uint32''
          then failure else None)"

definition requireExact :: "string \<Rightarrow> ty list \<Rightarrow> nat \<Rightarrow> string \<Rightarrow> go_error option" where
  "requireExact name args index kind =
     (let failure = Some (Errorf ''%s argument %d must be non-optional %s''
            [FStr name, FNat (index + 1), FStr kind]) in
      case baseType (args ! index) of
        Inl err \<Rightarrow> failure
      | Inr (base, nullable) \<Rightarrow> if nullable \<or> Kind base \<noteq> kind then failure else None)"

definition requireOptionalScalar :: "string \<Rightarrow> ty list \<Rightarrow> nat \<Rightarrow> string \<Rightarrow> go_error option" where
  "requireOptionalScalar name args index kind =
     (let failure = Some (Errorf ''%s argument %d must be %s, Optional<%s>, or Null''
            [FStr name, FNat (index + 1), FStr kind, FStr kind]) in
      case baseType (args ! index) of
        Inl err \<Rightarrow> failure
      | Inr (base, nullable) \<Rightarrow> if Kind base \<noteq> kind \<and> Kind base \<noteq> ''Null'' then failure else None)"

definition isBasicDateTime :: "string \<Rightarrow> bool" where
  "isBasicDateTime kind \<longleftrightarrow>
     kind \<in> {''Date'', ''Datetime'', ''Timestamp'', ''TzDate'', ''TzDatetime'', ''TzTimestamp''}"

definition isExtendedDateTime :: "string \<Rightarrow> bool" where
  "isExtendedDateTime kind \<longleftrightarrow>
     kind \<in> {''Date32'', ''Datetime64'', ''Timestamp64'', ''TzDate32'', ''TzDatetime64'', ''TzTimestamp64''}"

text \<open>
  The common shape \<open>base, nullable, err := baseType(arg); if err != nil || bad { return failure }\<close>:
  any error of \<open>baseType\<close> is replaced by the resolver's own message.
\<close>

definition base_or :: "go_error \<Rightarrow> ty \<Rightarrow> (ty \<Rightarrow> bool \<Rightarrow> bool) \<Rightarrow> (ty \<Rightarrow> bool \<Rightarrow> 'a res) \<Rightarrow> 'a res" where
  "base_or failure arg bad k =
     (case baseType arg of
        Inl err \<Rightarrow> Inl failure
      | Inr (base, nullable) \<Rightarrow> if bad base nullable then Inl failure else k base nullable)"

lemma base_or_Inr [result_simps]:
  "base_or failure arg bad k = Inr t \<longleftrightarrow>
     (\<exists>b n. baseType arg = Inr (b, n) \<and> \<not> bad b n \<and> k b n = Inr t)"
  by (auto simp: base_or_def split: sum.splits)

lemma arity_None [result_simps]: "arity name args n = None \<longleftrightarrow> length args = n"
  by (simp add: arity_def)

lemma valid_base: "baseType t = Inr (b, n) \<Longrightarrow> valid b"
  by (rule baseType_Inr(1))

section \<open>Tables of resolvers\<close>

text \<open>
  What a result has to be: a type that may itself take part in resolution, and not \<open>Null\<close>.
  The one way to \<open>Null\<close> is an argument \<open>Optional<Null>\<close> (that \<open>UNWRAP\<close> takes apart).
\<close>

definition sound_result :: "ty list \<Rightarrow> ty \<Rightarrow> bool" where
  "sound_result args t \<longleftrightarrow> valid t \<and> (Kind t = ''Null'' \<longrightarrow> Optional (mk_kind ''Null'') \<in> set args)"

lemma sound_resultI: "valid t \<Longrightarrow> Kind t \<noteq> ''Null'' \<Longrightarrow> sound_result args t"
  by (simp add: sound_result_def)

lemma sound_result_valid: "sound_result args t \<Longrightarrow> valid t"
  by (simp add: sound_result_def)

lemma sound_result_mono: "sound_result args t \<Longrightarrow> set args \<subseteq> set args' \<Longrightarrow> sound_result args' t"
  by (auto simp: sound_result_def)

lemma Kind_withOptional [simp]:
  "Kind (withOptional t n) = ''Null'' \<longleftrightarrow> \<not> n \<and> Kind t = ''Null''"
  "Kind (withOptional t n) = ''Optional'' \<longleftrightarrow> n \<or> Kind t = ''Optional''"
  by (simp_all add: withOptional_def)

lemma sound_withOptional [simp]:
  "Kind t \<noteq> ''Null'' \<Longrightarrow> sound_result args (withOptional t n) \<longleftrightarrow> valid t"
  by (simp add: sound_result_def)

lemma sound_optional [simp]: "sound_result args (optional t) \<longleftrightarrow> valid t"
  by (simp add: sound_result_def)

lemma sound_Optional [simp]: "sound_result args (Optional t) \<longleftrightarrow> valid t"
  by (simp add: sound_result_def)

lemma sound_Ty [simp]:
  "k \<noteq> ''Null'' \<Longrightarrow> sound_result args (Ty k e ke xs fs tg p s) \<longleftrightarrow> valid (Ty k e ke xs fs tg p s)"
  by (simp add: sound_result_def)

lemma sound_base: "baseType a = Inr (b, n) \<Longrightarrow> Kind b \<noteq> ''Null'' \<Longrightarrow> sound_result args b"
  by (simp add: sound_result_def valid_base)

lemma sound_CommonType: "CommonType ts = Inr t \<Longrightarrow> sound_result args t"
proof -
  assume c: "CommonType ts = Inr t"
  from CommonType_result(2) [OF c] have "Kind t \<noteq> ''Null''"
    by (cases "Kind t = ''Optional''") auto
  with CommonType_result(1) [OF c] show ?thesis by (rule sound_resultI)
qed

text \<open>The same of an outcome, with one rule per construct a resolver is made of.\<close>

definition sound_res :: "ty list \<Rightarrow> ty res \<Rightarrow> bool" where
  "sound_res args r \<longleftrightarrow> (\<forall>t. r = Inr t \<longrightarrow> sound_result args t)"

named_theorems sound_intros \<open>soundness of an outcome, by the form of the resolver\<close>

lemma sound_res_Inl [sound_intros]: "sound_res args (Inl e)"
  by (simp add: sound_res_def)

lemma sound_res_Inr [sound_intros]: "sound_result args t \<Longrightarrow> sound_res args (Inr t)"
  by (simp add: sound_res_def)

lemma sound_res_check [sound_intros]:
  "(c = None \<Longrightarrow> sound_res args k) \<Longrightarrow> sound_res args (check_then c k)"
  by (cases c) (simp_all add: sound_res_def)

lemma sound_res_and [sound_intros]:
  "(\<And>x. r = Inr x \<Longrightarrow> sound_res args (f x)) \<Longrightarrow> sound_res args (and_then r f)"
  by (cases r) (simp_all add: sound_res_def)

lemma sound_res_if [sound_intros]:
  "(b \<Longrightarrow> sound_res args x) \<Longrightarrow> (\<not> b \<Longrightarrow> sound_res args y) \<Longrightarrow> sound_res args (if b then x else y)"
  by simp

lemma sound_res_prod [sound_intros]:
  "(\<And>a b. p = (a, b) \<Longrightarrow> sound_res args (f a b)) \<Longrightarrow> sound_res args (case p of (a, b) \<Rightarrow> f a b)"
  by (cases p) simp

lemma sound_res_option [sound_intros]:
  "(x = None \<Longrightarrow> sound_res args n) \<Longrightarrow> (\<And>a. x = Some a \<Longrightarrow> sound_res args (s a)) \<Longrightarrow>
   sound_res args (case x of None \<Rightarrow> n | Some a \<Rightarrow> s a)"
  by (cases x) simp_all

lemma sound_res_sum [sound_intros]:
  "(\<And>e. x = Inl e \<Longrightarrow> sound_res args (l e)) \<Longrightarrow> (\<And>a. x = Inr a \<Longrightarrow> sound_res args (r a)) \<Longrightarrow>
   sound_res args (case x of Inl e \<Rightarrow> l e | Inr a \<Rightarrow> r a)"
  by (cases x) simp_all

lemma sound_res_list [sound_intros]:
  "(xs = [] \<Longrightarrow> sound_res args n) \<Longrightarrow> (\<And>a as. xs = a # as \<Longrightarrow> sound_res args (c a as)) \<Longrightarrow>
   sound_res args (case xs of [] \<Rightarrow> n | a # as \<Rightarrow> c a as)"
  by (cases xs) simp_all

lemma sound_res_base [sound_intros]:
  "(\<And>b n. baseType arg = Inr (b, n) \<Longrightarrow> \<not> bad b n \<Longrightarrow> sound_res ts (k b n)) \<Longrightarrow> sound_res ts (base_or failure arg bad k)"
  by (auto simp: base_or_def sound_res_def split: sum.splits if_splits)

lemma sound_resD: "sound_res args r \<Longrightarrow> r = Inr t \<Longrightarrow> sound_result args t"
  by (simp add: sound_res_def)

text \<open>
  A table maps a function name to a resolver; its contract is that every result is sound. Two
  tables consulted one after the other satisfy the contract again.
\<close>

locale resolver_table =
  fixes lookup :: "string \<Rightarrow> functionResolver option"
  assumes lookup_sound:
    "lookup name = Some resolve \<Longrightarrow> \<forall>a\<in>set args. valid a \<Longrightarrow> resolve args = Inr t \<Longrightarrow> sound_result args t"
begin

lemma lookup_valid:
  "lookup name = Some resolve \<Longrightarrow> \<forall>a\<in>set args. valid a \<Longrightarrow> resolve args = Inr t \<Longrightarrow> valid t"
  by (rule sound_result_valid) (rule lookup_sound)

lemma lookup_not_Null:
  "lookup name = Some resolve \<Longrightarrow> \<forall>a\<in>set args. valid a \<Longrightarrow> Optional (mk_kind ''Null'') \<notin> set args \<Longrightarrow>
   resolve args = Inr t \<Longrightarrow> Kind t \<noteq> ''Null''"
  using lookup_sound [of name resolve args t] by (auto simp: sound_result_def)

end

text \<open>The contract of one resolver, and the table of them from the contract of each case.\<close>

definition sound_resolver :: "functionResolver \<Rightarrow> bool" where
  "sound_resolver resolve \<longleftrightarrow>
     (\<forall>args t. (\<forall>a\<in>set args. valid a) \<longrightarrow> resolve args = Inr t \<longrightarrow> sound_result args t)"

lemma sound_resolverI:
  "(\<And>args t. \<forall>a\<in>set args. valid a \<Longrightarrow> resolve args = Inr t \<Longrightarrow> sound_result args t) \<Longrightarrow> sound_resolver resolve"
  by (simp add: sound_resolver_def)

lemma resolver_tableI:
  "(\<And>name resolve. lookup name = Some resolve \<Longrightarrow> sound_resolver resolve) \<Longrightarrow> resolver_table lookup"
  by unfold_locales (auto simp: sound_resolver_def)

definition first_table :: "(string \<Rightarrow> functionResolver option) \<Rightarrow> (string \<Rightarrow> functionResolver option)
    \<Rightarrow> string \<Rightarrow> functionResolver option" where
  "first_table l r name = (case l name of Some f \<Rightarrow> Some f | None \<Rightarrow> r name)"

locale resolver_tables = left: resolver_table l + right: resolver_table r for l r
begin

sublocale both: resolver_table "first_table l r"
  by unfold_locales (auto simp: first_table_def split: option.splits intro: left.lookup_sound right.lookup_sound)

end

end
