(* ===== verification/Collections.thy ===== *)
theory Collections
  imports Calls
begin

text \<open>
  \<open>internal/yql/builtins/collection.go\<close>: the list, dictionary, set, tuple and struct
  functions, and the rule for dictionary keys. The lemmas show that each result may take part
  in resolution again, and what the dictionary-key rule admits.
\<close>

section \<open>Dictionary keys\<close>

definition collectionBase :: "ty \<Rightarrow> (ty \<times> bool) res" where
  "collectionBase value =
     (if Kind value \<noteq> ''Optional'' then Inr (value, False)
      else (case Elem value of
          None \<Rightarrow> Inl (Errorf ''malformed or nested Optional collection'' [])
        | Some e \<Rightarrow>
            if Kind e = ''Optional'' then Inl (Errorf ''malformed or nested Optional collection'' [])
            else Inr (e, True)))"

function validateDictionaryKey :: "ty \<Rightarrow> go_error option" where
  "validateDictionaryKey key =
     (if Kind key = ''Optional'' then
        (case Elem key of
           None \<Rightarrow> Some (Errorf ''dictionary key Optional has no element type'' [])
         | Some e \<Rightarrow>
             if Kind e = ''Optional'' then
               Some (Errorf ''nested Optional dictionary key is not supported'' [])
             else validateDictionaryKey e)
      else if Kind key = ''Tuple'' then
        (if length (Items key) < 2 then
           Some (Errorf ''dictionary key Tuple requires at least two items'' [])
         else first_err validateDictionaryKey (Items key))
      else if (\<not> is_scalar_kind (Kind key) \<and> Kind key \<noteq> ''Decimal'')
          \<or> Kind key \<in> {''Json'', ''JsonDocument'', ''Yson'', ''Null'', ''Void''} then
        Some (Errorf ''unsupported dictionary key type %s'' [FType key])
      else map_option (\<lambda>err. Errorf ''invalid dictionary key: %w'' [FErr err]) (validateConcreteOrNull key))"
  by pat_completeness auto
termination
  by (relation "measure size") auto

declare validateDictionaryKey.simps [simp del]

section \<open>Constructors\<close>

definition resolveAsTuple :: functionResolver where
  "resolveAsTuple args =
     (if args = [] then
        Inl (Errorf ''AsTuple produces an empty Tuple that cannot be represented by the offline resolver'' [])
      else check_then
        (first_err_from 0 (\<lambda>i arg. map_option (\<lambda>err. Errorf ''AsTuple argument %d: %w'' [FNat (i + 1), FErr err])
            (validateConcreteOrNull arg)) args)
        (Inr (mk_tuple args)))"

fun asStruct_fields :: "nat \<Rightarrow> string list \<Rightarrow> CallArgument list \<Rightarrow> (string \<times> ty) list res" where
  "asStruct_fields i seen [] = Inr []"
| "asStruct_fields i seen (arg # args) =
     (if arg_Name arg = [] then
        Inl (Errorf ''AsStruct argument %d requires a field name with AS'' [FNat (i + 1)])
      else if List.member seen (arg_Name arg) then
        Inl (Errorf ''AsStruct has duplicate field name %q'' [FStr (arg_Name arg)])
      else check_then
        (map_option (\<lambda>err. Errorf ''AsStruct field %q: %w'' [FStr (arg_Name arg), FErr err])
           (validateConcreteOrNull (arg_Type arg)))
        (and_then (asStruct_fields (i + 1) (arg_Name arg # seen) args)
           (\<lambda>fields. Inr ((arg_Name arg, arg_Type arg) # fields))))"

definition resolveAsStruct :: "CallArgument list \<Rightarrow> ty res" where
  "resolveAsStruct args =
     (if args = [] then
        Inl (Errorf ''AsStruct produces an empty Struct that cannot be represented by the offline resolver'' [])
      else and_then (asStruct_fields 0 [] args) (\<lambda>fields. Inr (mk_struct fields)))"

definition resolveAsList :: functionResolver where
  "resolveAsList args =
     (if args = [] then
        Inl (Errorf ''AsList produces an empty List with no element type; use ListCreate'' [])
      else and_then
        (map_error (\<lambda>err. Errorf ''AsList element common type: %w'' [FErr err]) (CommonType args))
        (\<lambda>elem. Inr (mk_list elem)))"

section \<open>Lists\<close>

definition listArgument :: "string \<Rightarrow> ty \<Rightarrow> (ty \<times> bool) res" where
  "listArgument name arg =
     (let failure = Inl (Errorf ''%s argument 1 must be List<T> or Optional<List<T>>'' [FStr name]) in
      case collectionBase arg of
        Inl err \<Rightarrow> failure
      | Inr (list, nullable) \<Rightarrow>
          if Kind list \<noteq> ''List'' then failure
          else (case Elem list of
              None \<Rightarrow> failure
            | Some e \<Rightarrow> check_then
                (map_option (\<lambda>err. Errorf ''%s argument 1: %w'' [FStr name, FErr err]) (validateConcreteOrNull e))
                (Inr (e, nullable))))"

definition exactCollectionValue :: "ty \<Rightarrow> ty \<Rightarrow> go_error option" where
  "exactCollectionValue expected actual =
     (case validateConcreteOrNull actual of
        Some err \<Rightarrow> Some err
      | None \<Rightarrow>
          if Kind expected = ''Optional'' \<and> Kind actual = ''Null'' then None
          else (let expectedBase = UnwrapOptional expected; actualBase = UnwrapOptional actual in
            if Equal expectedBase actualBase
               \<or> ((Kind expectedBase = ''String'' \<or> Kind expectedBase = ''Utf8'')
                  \<and> (Kind actualBase = ''String'' \<or> Kind actualBase = ''Utf8''))
            then None
            else Some (Errorf ''got %s'' [FType actual])))"

definition resolveListLength :: functionResolver where
  "resolveListLength args =
     check_then (arity ''ListLength'' args 1)
     (and_then (listArgument ''ListLength'' (args ! 0))
       (\<lambda>(_, nullable). Inr (withOptional (mk_kind ''Uint64'') nullable)))"

definition resolveListHas :: functionResolver where
  "resolveListHas args =
     check_then (arity ''ListHas'' args 2)
     (and_then (listArgument ''ListHas'' (args ! 0)) (\<lambda>(elem, _).
       if Kind (UnwrapOptional elem) \<in> {''Json'', ''JsonDocument'', ''Yson''} then
         Inl (Errorf ''ListHas requires an equatable element type, got %s'' [FType elem])
       else check_then
         (map_option (\<lambda>err. Errorf ''ListHas argument 2 must match element type %s: %w'' [FType elem, FErr err])
            (exactCollectionValue elem (args ! 1)))
         (Inr (mk_kind ''Bool''))))"

definition resolveListTransform :: "string \<Rightarrow> functionResolver" where
  "resolveListTransform name args =
     check_then (arity name args 2)
     (and_then (listArgument name (args ! 0)) (\<lambda>(elem, nullable).
       let callback = args ! 1;
           not_callable = Inl (Errorf ''%s argument 2 must be a one-argument Callable'' [FStr name]) in
       if Kind callback \<noteq> ''Callable'' \<or> length (Items callback) \<noteq> 1 then not_callable
       else (case Elem callback of
           None \<Rightarrow> not_callable
         | Some result \<Rightarrow>
             if \<not> Equal (Items callback ! 0) elem then
               Inl (Errorf ''%s callback argument must be %s, got %s''
                 [FStr name, FType elem, FType (Items callback ! 0)])
             else check_then
               (map_option (\<lambda>err. Errorf ''%s callback result: %w'' [FStr name, FErr err])
                 (validateConcreteOrNull result))
               (if name = ''ListFilter'' then
                  base_or (Errorf ''ListFilter callback must return Bool or Optional<Bool>'' []) result
                    (\<lambda>predicate _. Kind predicate \<noteq> ''Bool'')
                    (\<lambda>_ _. Inr (withOptional (UnwrapOptional (args ! 0)) nullable))
                else if Kind result = ''Null'' \<or> Kind result = ''Void'' then
                  Inl (Errorf ''ListMap callback must return a concrete value type'' [])
                else Inr (withOptional (mk_list result) nullable)))))"

definition resolveListCreate :: functionResolver where
  "resolveListCreate args =
     check_then (arity ''ListCreate'' args 1)
     (if validateConcreteOrNull (args ! 0) \<noteq> None \<or> Kind (args ! 0) = ''Null'' \<or> Kind (args ! 0) = ''Void''
      then Inl (Errorf ''ListCreate requires a concrete element type'' [])
      else Inr (mk_list (args ! 0)))"

section \<open>Dictionaries and sets\<close>

definition resolveToDict :: functionResolver where
  "resolveToDict args =
     check_then (arity ''ToDict'' args 1)
     (and_then (listArgument ''ToDict'' (args ! 0)) (\<lambda>(pair, nullable).
       if Kind pair \<noteq> ''Tuple'' \<or> length (Items pair) \<noteq> 2 then
         Inl (Errorf ''ToDict argument 1 must be List<Tuple<K,V>>'' [])
       else check_then
         (map_option (\<lambda>err. Errorf ''ToDict argument 1: %w'' [FErr err]) (validateDictionaryKey (Items pair ! 0)))
         (Inr (withOptional (mk_dict (Items pair ! 0) (Items pair ! 1)) nullable))))"

definition resolveDictAccess :: "string \<Rightarrow> functionResolver" where
  "resolveDictAccess name args =
     check_then (arity name args 2)
     (let failure = Inl (Errorf ''%s argument 1 must be Dict<K,V> or Optional<Dict<K,V>>'' [FStr name]) in
      case collectionBase (args ! 0) of
        Inl err \<Rightarrow> failure
      | Inr (dict, _) \<Rightarrow>
          if Kind dict \<noteq> ''Dict'' then failure
          else (case Key dict of
              None \<Rightarrow> failure
            | Some key \<Rightarrow>
              (case Elem dict of
                 None \<Rightarrow> failure
               | Some elem \<Rightarrow>
                   check_then (map_option (\<lambda>err. Errorf ''%s argument 1: %w'' [FStr name, FErr err])
                     (validateDictionaryKey key))
                   (check_then (map_option (\<lambda>err. Errorf ''%s argument 1: %w'' [FStr name, FErr err])
                     (validateConcreteOrNull elem))
                   (check_then (map_option (\<lambda>err. Errorf ''%s argument 2 must match key type %s: %w''
                       [FStr name, FType key, FErr err])
                     (exactCollectionValue key (args ! 1)))
                   (if name = ''DictContains'' then Inr (mk_kind ''Bool'') else Inr (Optional elem)))))))"

definition resolveToSet :: functionResolver where
  "resolveToSet args =
     check_then (arity ''ToSet'' args 1)
     (let failure = Inl (Errorf ''ToSet argument 1 must be List<K> or Optional<List<K>>'' []) in
      case collectionBase (args ! 0) of
        Inl err \<Rightarrow> failure
      | Inr (list, nullable) \<Rightarrow>
          if Kind list \<noteq> ''List'' then failure
          else (case Elem list of
              None \<Rightarrow> failure
            | Some key \<Rightarrow>
                check_then (map_option (\<lambda>err. Errorf ''ToSet argument 1: %w'' [FErr err])
                  (validateDictionaryKey key))
                (Inr (withOptional (mk_dict key (mk_kind ''Void'')) nullable))))"

text \<open>The key type of the second argument of \<open>SetIsDisjoint\<close>: a list's or a dictionary's.\<close>

definition disjoint_right_key :: "ty \<Rightarrow> ty res" where
  "disjoint_right_key right =
     (if Kind right = ''List'' then
        (case Elem right of
           None \<Rightarrow> Inl (Errorf ''SetIsDisjoint argument 2 List has no element type'' [])
         | Some e \<Rightarrow> Inr e)
      else if Kind right = ''Dict'' then
        (case Key right of
           None \<Rightarrow> Inl (Errorf ''SetIsDisjoint argument 2 Dict requires key and value types'' [])
         | Some k \<Rightarrow>
             if Elem right = None then
               Inl (Errorf ''SetIsDisjoint argument 2 Dict requires key and value types'' [])
             else Inr k)
      else Inl (Errorf ''SetIsDisjoint argument 2 must be List<K>, Dict<K,V>, or an Optional form'' []))"

definition resolveSetIsDisjoint :: functionResolver where
  "resolveSetIsDisjoint args =
     check_then (arity ''SetIsDisjoint'' args 2)
     (let failure = Inl (Errorf ''SetIsDisjoint argument 1 must be Dict<K,V> or Optional<Dict<K,V>>'' []) in
      case collectionBase (args ! 0) of
        Inl err \<Rightarrow> failure
      | Inr (left, leftNullable) \<Rightarrow>
          if Kind left \<noteq> ''Dict'' \<or> Elem left = None then failure
          else (case Key left of
              None \<Rightarrow> failure
            | Some leftKey \<Rightarrow>
                check_then (map_option (\<lambda>err. Errorf ''SetIsDisjoint argument 1: %w'' [FErr err])
                  (validateDictionaryKey leftKey))
                (and_then (map_error (\<lambda>err. Errorf ''SetIsDisjoint argument 2: %w'' [FErr err])
                  (collectionBase (args ! 1))) (\<lambda>(right, rightNullable).
                 and_then (disjoint_right_key right) (\<lambda>rightKey.
                 check_then (map_option (\<lambda>err. Errorf ''SetIsDisjoint argument 2: %w'' [FErr err])
                   (validateDictionaryKey rightKey))
                 (if \<not> Equal leftKey rightKey then
                    Inl (Errorf ''SetIsDisjoint arguments must have the same key type, got %s and %s''
                      [FType leftKey, FType rightKey])
                  else Inr (withOptional (mk_kind ''Bool'') (leftNullable \<or> rightNullable))))))))"

section \<open>Results are valid\<close>

lemma collectionBase_Inr:
  assumes "collectionBase t = Inr (b, n)"
  shows "b = UnwrapOptional t" "n = IsOptional t" "Kind b \<noteq> ''Optional''"
  using assms
  by (auto simp: collectionBase_def UnwrapOptional_def IsOptional_def split: if_splits option.splits)

lemma listArgument_Inr [result_simps]:
  "listArgument name arg = Inr (e, n) \<longleftrightarrow>
     (\<exists>l. collectionBase arg = Inr (l, n) \<and> Kind l = ''List'' \<and> Elem l = Some e \<and> valid e)"
  by (auto simp: listArgument_def Let_def result_simps split: sum.splits option.splits if_splits)

lemma asStruct_fields_Inr:
  "asStruct_fields i seen args = Inr fs \<Longrightarrow>
     fs = map (\<lambda>a. (arg_Name a, arg_Type a)) args
   \<and> distinct (map arg_Name args) \<and> (\<forall>a\<in>set args. arg_Name a \<noteq> [] \<and> arg_Name a \<notin> set seen \<and> valid (arg_Type a))"
proof (induction i seen args arbitrary: fs rule: asStruct_fields.induct)
  case (2 i seen arg args)
  then obtain gs where "asStruct_fields (i + 1) (arg_Name arg # seen) args = Inr gs"
      "fs = (arg_Name arg, arg_Type arg) # gs" "arg_Name arg \<noteq> []" "arg_Name arg \<notin> set seen"
      "valid (arg_Type arg)"
    by (auto simp: result_simps split: if_splits)
  with "2.IH" [OF _ _ _ ] show ?case by (auto simp: result_simps)
qed simp

lemma resolveAsTuple_result:
  "resolveAsTuple args = Inr t \<longleftrightarrow> t = mk_tuple args \<and> args \<noteq> [] \<and> (\<forall>a\<in>set args. valid a)"
  by (auto simp: resolveAsTuple_def result_simps set_conv_nth)

lemma resolveAsStruct_result:
  "resolveAsStruct args = Inr t \<Longrightarrow>
    t = mk_struct (map (\<lambda>a. (arg_Name a, arg_Type a)) args) \<and> valid t"
  by (auto simp: resolveAsStruct_def result_simps comp_def dest!: asStruct_fields_Inr split: if_splits)

lemma resolveAsList_sound: "resolveAsList args = Inr t \<Longrightarrow> sound_result args t"
  by (auto simp: resolveAsList_def result_simps dest: CommonType_result(1) intro: sound_resultI split: if_splits)

lemma resolveListLength_sound: "resolveListLength args = Inr t \<Longrightarrow> sound_result args t"
  by (auto simp: resolveListLength_def result_simps)

lemma resolveListHas_sound: "resolveListHas args = Inr t \<Longrightarrow> sound_result args t"
  by (auto simp: resolveListHas_def result_simps split: if_splits)

lemma resolveListTransform_sound:
  assumes "resolveListTransform name args = Inr t" "\<forall>a\<in>set args. valid a"
  shows "sound_result args t"
proof -
  from assms(1) obtain e l n where l: "length args = 2" "collectionBase (args ! 0) = Inr (l, n)"
      "Kind l = ''List''" and t: "t = withOptional (UnwrapOptional (args ! 0)) n
        \<or> (\<exists>r. valid r \<and> t = withOptional (mk_list r) n)"
    by (auto simp: resolveListTransform_def result_simps Let_def split: if_splits option.splits) blast+
  from l(1) assms(2) have "valid (args ! 0)" by simp
  then have "valid (UnwrapOptional (args ! 0))" by (rule valid_UnwrapOptional)
  moreover from collectionBase_Inr(1) [OF l(2)] l(3) have "Kind (UnwrapOptional (args ! 0)) \<noteq> ''Null''"
    by simp
  ultimately show ?thesis using t by auto
qed

lemma resolveListCreate_sound: "resolveListCreate args = Inr t \<Longrightarrow> sound_result args t"
  by (auto simp: resolveListCreate_def result_simps split: if_splits)

lemma collectionBase_valid: "valid a \<Longrightarrow> collectionBase a = Inr (b, n) \<Longrightarrow> valid b"
  by (auto dest: collectionBase_Inr(1) intro: valid_UnwrapOptional)

lemma resolveToDict_sound:
  assumes "resolveToDict args = Inr t"
  shows "sound_result args t"
proof -
  from assms obtain pair n where p: "valid pair" "length (Items pair) = 2"
      "t = withOptional (mk_dict (Items pair ! 0) (Items pair ! 1)) n"
    by (auto simp: resolveToDict_def result_simps split: if_splits)
  from p(2) have "Items pair ! 0 \<in> set (Items pair)" "Items pair ! 1 \<in> set (Items pair)"
    by simp_all
  with p(1,3) show ?thesis by (simp add: valid_parts(3))
qed

lemma resolveDictAccess_sound: "resolveDictAccess name args = Inr t \<Longrightarrow> sound_result args t"
  by (auto simp: resolveDictAccess_def result_simps Let_def split: if_splits option.splits sum.splits)

lemma resolveToSet_sound:
  assumes "resolveToSet args = Inr t" "\<forall>a\<in>set args. valid a"
  shows "sound_result args t"
proof -
  from assms(1) obtain l key n where r: "length args = 1" "collectionBase (args ! 0) = Inr (l, n)"
      "Elem l = Some key" "t = withOptional (mk_dict key (mk_kind ''Void'')) n"
    by (auto simp: resolveToSet_def result_simps Let_def split: if_splits option.splits sum.splits)
  with assms(2) have "valid (args ! 0)" by simp
  then have "valid l" by (rule collectionBase_valid) (rule r(2))
  then have "valid key" by (rule valid_parts(1)) (rule r(3))
  with r(4) show ?thesis by simp
qed

lemma resolveSetIsDisjoint_sound: "resolveSetIsDisjoint args = Inr t \<Longrightarrow> sound_result args t"
  by (auto simp: resolveSetIsDisjoint_def result_simps Let_def split: if_splits option.splits sum.splits)

section \<open>Dictionary keys, declaratively\<close>

inductive dict_key :: "ty \<Rightarrow> bool" where
  key_scalar: "is_scalar_kind k \<Longrightarrow> k \<notin> {''Json'', ''JsonDocument'', ''Yson'', ''Null'', ''Void''} \<Longrightarrow> dict_key (mk_kind k)"
| key_decimal: "dict_key (Ty ''Decimal'' None None [] [] [] p s)"
| key_optional: "dict_key t \<Longrightarrow> Kind t \<noteq> ''Optional'' \<Longrightarrow> dict_key (Optional t)"
| key_tuple: "2 \<le> length ts \<Longrightarrow> (\<And>t. t \<in> set ts \<Longrightarrow> dict_key t) \<Longrightarrow> dict_key (mk_tuple ts)"

inductive_cases dict_key_kindE: "dict_key (mk_kind k)"
inductive_cases dict_key_OptionalE: "dict_key (Optional t)"
inductive_cases dict_key_tupleE: "dict_key (mk_tuple ts)"
inductive_simps dict_key_Ty: "dict_key (Ty k e ke xs fs tg p s)"

lemma scalar_kind_not_special: "is_scalar_kind k \<Longrightarrow> k \<noteq> ''Optional'' \<and> k \<noteq> ''Tuple'' \<and> k \<noteq> ''Decimal''"
  using scalar_kinds_not_special [of k] by simp

lemma dict_key_accepted: "dict_key t \<Longrightarrow> valid t \<Longrightarrow> validateDictionaryKey t = None"
proof (induction rule: dict_key.induct)
  case (key_scalar k)
  with scalar_kind_not_special [of k] show ?case by (subst validateDictionaryKey.simps) auto
next
  case (key_decimal p s)
  then show ?case by (subst validateDictionaryKey.simps) simp
next
  case (key_optional t)
  then show ?case by (subst validateDictionaryKey.simps) simp
next
  case (key_tuple ts)
  then show ?case by (subst validateDictionaryKey.simps) simp
qed

lemma accepted_dict_key: "validateDictionaryKey t = None \<Longrightarrow> valid t \<Longrightarrow> dict_key t"
proof (induction t rule: ty_measure_induct)
  case (Type t)
  note a = Type.prems(1) [unfolded validateDictionaryKey.simps [of t]]
  consider (opt) "Kind t = ''Optional''" | (tup) "Kind t = ''Tuple''" | (other) "Kind t \<noteq> ''Optional''" "Kind t \<noteq> ''Tuple''" by blast
  then show ?case
  proof cases
    case opt
    with Type.prems(2) obtain u where u: "t = Optional u" "valid u" by (rule valid_OptionalE)
    with a have "Kind u \<noteq> ''Optional''" "validateDictionaryKey u = None" by (simp_all split: if_splits)
    with u Type.IH(1) [of u] show ?thesis by (simp add: key_optional)
  next
    case tup
    with a have "2 \<le> length (Items t)" "\<forall>x\<in>set (Items t). validateDictionaryKey x = None"
      by (simp_all split: if_splits)
    moreover from Type.prems(2) tup have "t = mk_tuple (Items t)"
    proof (cases rule: valid_cases)
      case (kind k)
      with tup show ?thesis using scalar_kinds_not_special [of k] resource_kinds_not_special [of k] by auto
    qed auto
    ultimately show ?thesis
      using Type.IH(3) valid_parts(3) [OF Type.prems(2)] by (metis key_tuple)
  next
    case other
    with a have k: "is_scalar_kind (Kind t) \<or> Kind t = ''Decimal''"
      "Kind t \<notin> {''Json'', ''JsonDocument'', ''Yson'', ''Null'', ''Void''}" by (simp_all split: if_splits)
    from k(1) have ns: "Kind t = ''Decimal'' \<or> Kind t \<notin> special_kinds"
      using scalar_kinds_not_special [of "Kind t"] by blast
    from Type.prems(2) show ?thesis
    proof (cases rule: valid_cases)
      case (wrapper k e)
      from wrapper(3) ns show ?thesis unfolding wrapper(1) ty.sel by (elim insertE emptyE; simp)
    next
      case (decimal p s)
      then show ?thesis by (simp add: key_decimal)
    next
      case (kind k)
      have "\<not> is_scalar_kind ''Decimal''" "\<not> resource_kind ''Decimal''"
        by (simp_all add: is_scalar_kind_def supportedScalarKinds_def resource_kind_def has_prefix_def)
      with k(1) kind have "is_scalar_kind k" by (metis ty.sel(1))
      with kind k(2) show ?thesis by (simp add: key_scalar)
    qed (use ns in simp_all)
  qed
qed

lemma exact_self: "valid t \<Longrightarrow> exactCollectionValue t t = None"
  by (simp add: exactCollectionValue_def Let_def valid_Equal_refl valid_UnwrapOptional)

lemma collectionBase_id [simp]: "Kind t \<noteq> ''Optional'' \<Longrightarrow> collectionBase t = Inr (t, False)"
  by (simp add: collectionBase_def)

section \<open>Properties\<close>

text \<open>
  C25: a well formed type may be a dictionary key exactly when it is built from the hashable scalars and Decimal
  by a single Optional and by tuples of at least two keys.
\<close>

theorem dictionary_keys:
  assumes "valid t"
  shows "validateDictionaryKey t = None \<longleftrightarrow> dict_key t"
  using dict_key_accepted accepted_dict_key assms by blast

lemma dictionary_keys_witness: "dict_key (mk_tuple [mk_kind ''Utf8'', Optional (mk_kind ''Date'')])"
proof -
  have "validateDictionaryKey (mk_tuple [mk_kind ''Utf8'', Optional (mk_kind ''Date'')]) = None" by code_simp
  then show ?thesis by (subst dictionary_keys [symmetric]) simp_all
qed

text \<open>
  A dictionary built by ToDict from a list of pairs accepts its own keys, and DictLookup gives
  the optional value type of the pairs.
\<close>

theorem to_dict_lookup:
  assumes "resolveToDict [mk_list (mk_tuple [k, v])] = Inr d"
  shows "resolveDictAccess ''DictLookup'' [d, k] = Inr (Optional v) \<and>
    resolveDictAccess ''DictContains'' [d, k] = Inr (mk_kind ''Bool'')"
proof -
  from assms have "validateDictionaryKey k = None" "valid k" "valid v" "d = mk_dict k v"
    by (auto simp: resolveToDict_def result_simps withOptional_def)
  then show ?thesis by (simp add: resolveDictAccess_def exact_self arity_def)
qed

lemma to_dict_lookup_witness:
  "resolveDictAccess ''DictLookup'' [mk_dict (mk_kind ''Uuid'') (mk_kind ''Json''), mk_kind ''Uuid''] =
      Inr (Optional (mk_kind ''Json'')) \<and>
   resolveDictAccess ''DictContains'' [mk_dict (mk_kind ''Uuid'') (mk_kind ''Json''), mk_kind ''Uuid''] =
      Inr (mk_kind ''Bool'')"
  by (rule to_dict_lookup) code_simp

lemma asStruct_fields_accepts:
  "distinct (map arg_Name args) \<Longrightarrow>
   \<forall>a\<in>set args. arg_Name a \<noteq> [] \<and> arg_Name a \<notin> set seen \<and> valid (arg_Type a) \<Longrightarrow>
   asStruct_fields i seen args = Inr (map (\<lambda>a. (arg_Name a, arg_Type a)) args)"
proof (induction args arbitrary: i seen)
  case (Cons a args)
  from Cons.prems have "\<forall>b\<in>set args. arg_Name b \<noteq> [] \<and> arg_Name b \<notin> set (arg_Name a # seen) \<and> valid (arg_Type b)"
    by (auto simp: image_iff)
  with Cons.prems(1) have "asStruct_fields (i + 1) (arg_Name a # seen) args = Inr (map (\<lambda>a. (arg_Name a, arg_Type a)) args)"
    by (intro Cons.IH) simp_all
  with Cons.prems(2) show ?case by (simp add: List.member_iff)
qed simp

text \<open>
  AsStruct succeeds exactly on named arguments of valid types whose names are not empty and
  differ, and returns the struct of them in the order given.
\<close>

lemma as_struct_result:
  "resolveAsStruct args = Inr t \<longleftrightarrow>
     args \<noteq> [] \<and> distinct (map arg_Name args)
   \<and> list_all (\<lambda>a. arg_Name a \<noteq> [] \<and> valid (arg_Type a)) args
   \<and> t = mk_struct (map (\<lambda>a. (arg_Name a, arg_Type a)) args)" (is "?l \<longleftrightarrow> ?r")
proof
  assume ?l
  then show ?r
    by (auto simp: resolveAsStruct_def result_simps list_all_iff dest!: asStruct_fields_Inr split: if_splits)
next
  assume ?r
  then show ?l by (simp add: resolveAsStruct_def asStruct_fields_accepts list_all_iff)
qed

text \<open>
  ListMap with a callback from the element type to R turns a list into the list of R, and
  ListFilter with a Bool predicate keeps the list; both keep the list's nullability.
\<close>

lemma list_transform_result:
  assumes "valid e" "valid r" "Kind r \<notin> {''Null'', ''Void''}"
  shows "resolveListTransform ''ListMap'' [withOptional (mk_list e) n, mk_callable [e] r] =
      Inr (withOptional (mk_list r) n) \<and>
    resolveListTransform ''ListFilter'' [withOptional (mk_list e) n, mk_callable [e] (mk_kind ''Bool'')] =
      Inr (withOptional (mk_list e) n)"
  using assms
  by (simp add: resolveListTransform_def arity_def listArgument_def Let_def withOptional_def optional_def
      collectionBase_def valid_Equal_refl base_or_def baseType_base)

lemma list_transform_result_witness:
  "resolveListTransform ''ListMap'' [withOptional (mk_list (mk_kind ''Int8'')) True,
     mk_callable [mk_kind ''Int8''] (mk_kind ''Utf8'')] = Inr (withOptional (mk_list (mk_kind ''Utf8'')) True) \<and>
   resolveListTransform ''ListFilter'' [withOptional (mk_list (mk_kind ''Int8'')) True,
     mk_callable [mk_kind ''Int8''] (mk_kind ''Bool'')] = Inr (withOptional (mk_list (mk_kind ''Int8'')) True)"
  by (rule list_transform_result) simp_all

end
