(* ===== verification/CoreFunctions.thy ===== *)
theory CoreFunctions
  imports Collections
begin

text \<open>
  \<open>internal/yql/builtins/resolve.go\<close>: the SQL built-ins (conditions, strings, clock and random
  functions, aggregates) and \<open>lookupCore\<close>, the case-insensitive table of them. The lemmas give
  the result of the aggregates and that every entry of the table keeps the contract of
  \<open>resolver_table\<close>.
\<close>

section \<open>Conditions, values and strings\<close>

text \<open>\<open>*args[0].Elem\<close> of a validated optional: the \<open>None\<close> case is a nil dereference, not reached.\<close>

definition resolveUnwrap :: functionResolver where
  "resolveUnwrap args =
     (if length args \<noteq> 1 \<and> length args \<noteq> 2 then
        Inl (Errorf ''UNWRAP expects 1 or 2 arguments, got %d'' [FNat (length args)])
      else check_then (map_option (\<lambda>err. Errorf ''UNWRAP argument 1: %w'' [FErr err]) (validateConcreteOrNull (args ! 0)))
       (if Kind (args ! 0) = ''Null'' then
          Inl (Errorf ''UNWRAP argument 1 requires a concrete type; bare NULL has no type'' [])
        else if length args = 2 \<and> \<not> Equal (args ! 1) (mk_kind ''String'') \<and> \<not> Equal (args ! 1) (mk_kind ''Utf8'') then
          Inl (Errorf ''UNWRAP argument 2 must be String or Utf8, got %s'' [FType (args ! 1)])
        else if Kind (args ! 0) = ''Optional'' then
          (case Elem (args ! 0) of Some e \<Rightarrow> Inr e | None \<Rightarrow> Inl (GoError ''nil pointer dereference''))
        else Inr (args ! 0)))"

definition resolveDependencyValue :: "string \<Rightarrow> string \<Rightarrow> nat \<Rightarrow> functionResolver" where
  "resolveDependencyValue name kind minimum args =
     (if length args < minimum then
        Inl (Errorf ''%s requires at least %d dependency argument'' [FStr name, FNat minimum])
      else check_then (first_err validateConcreteOrNull args) (Inr (mk_kind kind)))"

definition resolveCurrentTimezone :: "string \<Rightarrow> string \<Rightarrow> functionResolver" where
  "resolveCurrentTimezone name kind args =
     (if length args = 0 then Inl (Errorf ''%s requires a String timezone argument'' [FStr name])
      else base_or (Errorf ''%s timezone must be String or Optional<String>'' [FStr name]) (args ! 0)
        (\<lambda>zone _. Kind zone \<noteq> ''String'' \<and> Kind zone \<noteq> ''Null'')
        (\<lambda>_ _. and_then (resolveDependencyValue name kind 0 (drop 1 args)) (\<lambda>result. Inr (Optional result))))"

definition resolveVersion :: "string \<Rightarrow> functionResolver" where
  "resolveVersion name args = check_then (arity name args 0) (Inr (mk_kind ''String''))"

definition resolveNanvl :: functionResolver where
  "resolveNanvl args =
     check_then (arity ''NANVL'' args 2)
     (check_then (first_err (\<lambda>arg.
          let failure = Some (Errorf ''NANVL arguments must be Float or Double, including Optional forms'' []) in
          case baseType arg of
            Inl err \<Rightarrow> failure
          | Inr (base, _) \<Rightarrow> if Kind base \<noteq> ''Float'' \<and> Kind base \<noteq> ''Double'' then failure else None) args)
       (CommonType args))"

definition resolveIf :: functionResolver where
  "resolveIf args =
     (if length args \<noteq> 2 \<and> length args \<noteq> 3 then
        Inl (Errorf ''IF expects 2 or 3 arguments, got %d'' [FNat (length args)])
      else base_or (Errorf ''IF condition must be Bool or Optional<Bool>'' []) (args ! 0)
        (\<lambda>condition _. Kind condition \<noteq> ''Bool'')
        (\<lambda>_ _. let branches = (if length args = 2 then [args ! 1, mk_kind ''Null''] else drop 1 args) in
           map_error (\<lambda>err. Errorf ''IF branches: %w'' [FErr err]) (CommonType branches)))"

definition resolveLength :: "string \<Rightarrow> functionResolver" where
  "resolveLength name args =
     check_then (arity name args 1)
     (base_or (Errorf ''%s argument 1 must be String or Utf8'' [FStr name]) (args ! 0)
       (\<lambda>base _. Kind base \<noteq> ''String'' \<and> Kind base \<noteq> ''Utf8'')
       (\<lambda>_ nullable. Inr (withOptional (mk_kind ''Uint32'') nullable)))"

text \<open>The loop over the position arguments \<open>1 .. len(args)-1\<close>.\<close>

definition resolveSubstring :: "string \<Rightarrow> functionResolver" where
  "resolveSubstring name args =
     (if length args \<noteq> 2 \<and> length args \<noteq> 3 then
        Inl (Errorf ''%s expects 2 or 3 arguments, got %d'' [FStr name, FNat (length args)])
      else base_or (Errorf ''%s argument 1 must be String or Optional<String>; use Unicode::Substring for Utf8'' [FStr name])
        (args ! 0) (\<lambda>source _. Kind source \<noteq> ''String'')
        (\<lambda>source nullable. check_then (first_err (coreStringPositionArgument name args) [1..<length args])
          (Inr (withOptional source nullable))))"

text \<open>The checks \<open>resolveFind\<close> and \<open>resolveAffix\<close> make of their two string arguments.\<close>

definition string_pair :: "string \<Rightarrow> ty list \<Rightarrow> (bool \<times> bool) res" where
  "string_pair name args =
     and_then (stringOrNullArgument name args 0) (\<lambda>(left, leftNullable).
     and_then (stringOrNullArgument name args 1) (\<lambda>(right, rightNullable).
       if Kind left = ''Null'' \<and> Kind right = ''Null'' then
         Inl (Errorf ''%s cannot infer String or Utf8 from two Null arguments'' [FStr name])
       else if Kind left \<noteq> ''Null'' \<and> Kind right \<noteq> ''Null'' \<and> Kind left \<noteq> Kind right then
         Inl (Errorf ''%s arguments 1 and 2 must have the same string type'' [FStr name])
       else Inr (leftNullable, rightNullable)))"

definition resolveFind :: "string \<Rightarrow> functionResolver" where
  "resolveFind name args =
     (if length args \<noteq> 2 \<and> length args \<noteq> 3 then
        Inl (Errorf ''%s expects 2 or 3 arguments, got %d'' [FStr name, FNat (length args)])
      else and_then (string_pair name args) (\<lambda>_.
        check_then (if length args = 3 then coreStringPositionArgument name args 2 else None)
          (Inr (optional (mk_kind ''Uint32'')))))"

definition resolveAffix :: "string \<Rightarrow> functionResolver" where
  "resolveAffix name args =
     check_then (arity name args 2)
     (and_then (string_pair name args) (\<lambda>(leftNullable, rightNullable).
        Inr (withOptional (mk_kind ''Bool'') (leftNullable \<or> rightNullable))))"

definition resolveAbs :: functionResolver where
  "resolveAbs args =
     check_then (arity ''ABS'' args 1)
     (base_or (Errorf ''ABS argument 1 must be numeric'' []) (args ! 0)
       (\<lambda>base _. \<not> isPrimitiveNumber (Kind base))
       (\<lambda>base nullable. Inr (withOptional base nullable)))"

section \<open>Aggregates\<close>

definition resolveCount :: functionResolver where
  "resolveCount args =
     (if length args > 1 then Inl (Errorf ''COUNT expects 0 or 1 argument, got %d'' [FNat (length args)])
      else if length args = 1 then
        and_then (map_error (\<lambda>err. Errorf ''COUNT: %w'' [FErr err]) (baseType (args ! 0)))
          (\<lambda>_. Inr (mk_kind ''Uint64''))
      else Inr (mk_kind ''Uint64''))"

definition resolveCountIf :: functionResolver where
  "resolveCountIf args =
     check_then (arity ''COUNT_IF'' args 1)
     (base_or (Errorf ''COUNT_IF argument must be Bool or Optional<Bool>'' []) (args ! 0)
       (\<lambda>base _. Kind base \<noteq> ''Bool'' \<and> Kind base \<noteq> ''Null'')
       (\<lambda>_ _. Inr (mk_kind ''Uint64'')))"

definition resolveMinMax :: "string \<Rightarrow> functionResolver" where
  "resolveMinMax name args =
     check_then (arity name args 1)
     (base_or (Errorf ''%s argument 1 must be a supported comparable scalar'' [FStr name]) (args ! 0)
       (\<lambda>base _. \<not> isPrimitiveNumber (Kind base) \<and> Kind base \<noteq> ''String'' \<and> Kind base \<noteq> ''Utf8'')
       (\<lambda>base _. Inr (optional base)))"

definition resolveSum :: "string \<Rightarrow> functionResolver" where
  "resolveSum name args =
     check_then (arity name args 1)
     (base_or (Errorf ''%s argument 1 must be numeric'' [FStr name]) (args ! 0)
       (\<lambda>base _. \<not> isPrimitiveNumber (Kind base))
       (\<lambda>base _.
          let (signed, bits) = integerInfo (Kind base) in
          Inr (optional
            (if bits \<noteq> 0 then (if signed then mk_kind ''Int64'' else mk_kind ''Uint64'')
             else if Kind base = ''Decimal'' then
               Ty (Kind base) (Elem base) (Key base) (Items base) (Fields base) (Tag base) 35 (Scale base)
             else base))))"

definition resolveAvg :: "string \<Rightarrow> functionResolver" where
  "resolveAvg name args =
     check_then (arity name args 1)
     (base_or (Errorf ''%s argument 1 must be numeric or Interval'' [FStr name]) (args ! 0)
       (\<lambda>base _. \<not> isPrimitiveNumber (Kind base) \<and> Kind base \<noteq> ''Interval'' \<and> Kind base \<noteq> ''Interval64'')
       (\<lambda>base _. Inr (optional
          (if isInteger (Kind base) \<or> Kind base = ''Float'' \<or> Kind base = ''Interval'' \<or> Kind base = ''Interval64''
           then mk_kind ''Double'' else base))))"

definition resolveConditionalAggregate :: "string \<Rightarrow> functionResolver" where
  "resolveConditionalAggregate name0 args =
     (let name = to_upper name0 in
      check_then (arity name args 2)
      (and_then (map_error (\<lambda>err. Errorf ''%s argument 2: %w'' [FStr name, FErr err]) (baseType (args ! 1)))
        (\<lambda>(predicate, _).
          if Kind predicate \<noteq> ''Bool'' \<and> Kind predicate \<noteq> ''Null'' then
            Inl (Errorf ''%s argument 2 must be Bool or Optional<Bool>'' [FStr name])
          else if name = ''SUM_IF'' then resolveSum name (take 1 args)
          else resolveAvg name (take 1 args))))"

definition resolveAggregateList :: functionResolver where
  "resolveAggregateList args =
     (if length args < 1 \<or> length args > 2 then
        Inl (Errorf ''AGGREGATE_LIST expects 1 or 2 arguments, got %d'' [FNat (length args)])
      else base_or (Errorf ''AGGREGATE_LIST argument 1 needs a concrete value type'' []) (args ! 0)
        (\<lambda>item _. Kind item = ''Null'' \<or> Kind item = ''Void'')
        (\<lambda>item _.
          if length args = 2 then
            base_or (Errorf ''AGGREGATE_LIST limit must be a non-optional integer convertible to Uint64'' [])
              (args ! 1)
              (\<lambda>limit nullable. nullable
                 \<or> Kind limit \<notin> {''Int8'', ''Int16'', ''Int32'', ''Uint8'', ''Uint16'', ''Uint32'', ''Uint64''})
              (\<lambda>_ _. Inr (mk_list item))
          else Inr (mk_list item)))"

section \<open>The table\<close>

text \<open>
  The \<open>switch strings.ToUpper(name)\<close> of \<open>lookupCore\<close>, label by label; the resolvers that
  mention the called name close over it.
\<close>

definition core_functions :: "string \<Rightarrow> (string \<times> functionResolver) list" where
  "core_functions name =
    [(''IF'', resolveIf), (''NANVL'', resolveNanvl),
     (''CURRENTUTCDATE'', resolveDependencyValue name ''Date'' 0),
     (''CURRENTUTCDATETIME'', resolveDependencyValue name ''Datetime'' 0),
     (''CURRENTUTCTIMESTAMP'', resolveDependencyValue name ''Timestamp'' 0),
     (''CURRENTTZDATE'', resolveCurrentTimezone name ''TzDate''),
     (''CURRENTTZDATETIME'', resolveCurrentTimezone name ''TzDatetime''),
     (''CURRENTTZTIMESTAMP'', resolveCurrentTimezone name ''TzTimestamp''),
     (''RANDOM'', resolveDependencyValue name ''Double'' 1),
     (''RANDOMNUMBER'', resolveDependencyValue name ''Uint64'' 1),
     (''RANDOMUUID'', resolveDependencyValue name ''Uuid'' 1),
     (''VERSION'', resolveVersion name),
     (''LENGTH'', resolveLength name), (''LEN'', resolveLength name),
     (''SUBSTRING'', resolveSubstring name),
     (''FIND'', resolveFind name), (''RFIND'', resolveFind name),
     (''STARTSWITH'', resolveAffix name), (''ENDSWITH'', resolveAffix name),
     (''ABS'', resolveAbs), (''UNWRAP'', resolveUnwrap), (''TOSET'', resolveToSet),
     (''ASLIST'', resolveAsList), (''ASTUPLE'', resolveAsTuple),
     (''ASSTRUCT'', \<lambda>args. Inl (Errorf ''AsStruct requires named fields with AS'' [])),
     (''LISTLENGTH'', resolveListLength), (''LISTHAS'', resolveListHas),
     (''LISTMAP'', resolveListTransform ''ListMap''), (''LISTFILTER'', resolveListTransform ''ListFilter''),
     (''TODICT'', resolveToDict),
     (''DICTCONTAINS'', resolveDictAccess ''DictContains''), (''DICTLOOKUP'', resolveDictAccess ''DictLookup''),
     (''LISTCREATE'', resolveListCreate), (''SETISDISJOINT'', resolveSetIsDisjoint),
     (''COUNT'', resolveCount), (''COUNT_IF'', resolveCountIf),
     (''MIN'', resolveMinMax name), (''MAX'', resolveMinMax name),
     (''SUM'', resolveSum ''SUM''),
     (''SUM_IF'', resolveConditionalAggregate name), (''AVG_IF'', resolveConditionalAggregate name),
     (''AVG'', resolveAvg ''AVG''),
     (''AGGREGATE_LIST'', resolveAggregateList), (''AGG_LIST'', resolveAggregateList),
     (''AGGREGATE_LIST_DISTINCT'', resolveAggregateList), (''AGG_LIST_DISTINCT'', resolveAggregateList)]"

definition lookupCore :: "string \<Rightarrow> functionResolver option" where
  "lookupCore name = map_of (core_functions name) (to_upper name)"

section \<open>Results of the SQL built-ins\<close>

lemma nth_valid [simp]: "\<forall>a\<in>set args. valid a \<Longrightarrow> i < length args \<Longrightarrow> valid (args ! i)"
  by simp

lemma primitive_not_Null [simp]: "\<not> isPrimitiveNumber ''Null''"
  by (auto dest: isPrimitiveNumber_not_special)

lemma resolveUnwrap_sound:
  assumes "resolveUnwrap args = Inr t"
  shows "sound_result args t"
proof -
  from assms have a: "valid (args ! 0)" "args ! 0 \<in> set args" "Kind (args ! 0) \<noteq> ''Null''"
    and t: "Kind (args ! 0) \<noteq> ''Optional'' \<and> t = args ! 0 \<or> Kind (args ! 0) = ''Optional'' \<and> Elem (args ! 0) = Some t"
    by (auto simp: resolveUnwrap_def result_simps split: if_splits option.splits)
  show ?thesis
  proof (cases "Kind (args ! 0) = ''Optional''")
    case True
    with a(1) obtain u where u: "args ! 0 = Optional u" "valid u" by (rule valid_OptionalE)
    have "u = mk_kind ''Null''" if "Kind u = ''Null''"
      using u(2)
    proof (cases rule: valid_cases)
      case (kind k)
      with that show ?thesis by simp
    qed (use that in auto)
    with u t a(2) True show ?thesis by (auto simp: sound_result_def)
  next
    case False
    with t a show ?thesis by (auto intro: sound_resultI)
  qed
qed

lemma resolveDependencyValue_sound:
  "resolveDependencyValue name kind n args = Inr t \<Longrightarrow> valid (mk_kind kind) \<Longrightarrow> kind \<noteq> ''Null'' \<Longrightarrow> sound_result args' t"
  by (auto simp: resolveDependencyValue_def result_simps split: if_splits)

lemma resolveCurrentTimezone_sound:
  "resolveCurrentTimezone name kind args = Inr t \<Longrightarrow> valid (mk_kind kind) \<Longrightarrow> sound_result args t"
  by (auto simp: resolveCurrentTimezone_def resolveDependencyValue_def result_simps split: if_splits)

lemma resolveVersion_sound: "resolveVersion name args = Inr t \<Longrightarrow> sound_result args t"
  by (auto simp: resolveVersion_def result_simps)

lemma resolveNanvl_sound: "resolveNanvl args = Inr t \<Longrightarrow> sound_result args t"
  by (auto simp: resolveNanvl_def result_simps dest: sound_CommonType)

lemma resolveIf_sound: "resolveIf args = Inr t \<Longrightarrow> sound_result args t"
  by (auto simp: resolveIf_def result_simps Let_def dest: sound_CommonType split: if_splits)

lemma resolveLength_sound: "resolveLength name args = Inr t \<Longrightarrow> sound_result args t"
  by (auto simp: resolveLength_def result_simps)

lemma resolveSubstring_sound: "resolveSubstring name args = Inr t \<Longrightarrow> sound_result args t"
  by (auto simp: resolveSubstring_def result_simps valid_base split: if_splits)

lemma resolveFind_sound: "resolveFind name args = Inr t \<Longrightarrow> sound_result args t"
  by (auto simp: resolveFind_def result_simps split: if_splits)

lemma resolveAffix_sound: "resolveAffix name args = Inr t \<Longrightarrow> sound_result args t"
  by (auto simp: resolveAffix_def result_simps)

lemma resolveAbs_sound: "resolveAbs args = Inr t \<Longrightarrow> sound_result args t"
  by (auto simp: resolveAbs_def result_simps valid_base intro!: iffD2 [OF sound_withOptional])

lemma resolveCount_sound: "resolveCount args = Inr t \<Longrightarrow> sound_result args t"
  by (auto simp: resolveCount_def result_simps split: if_splits)

lemma resolveCountIf_sound: "resolveCountIf args = Inr t \<Longrightarrow> sound_result args t"
  by (auto simp: resolveCountIf_def result_simps)

lemma resolveMinMax_sound: "resolveMinMax name args = Inr t \<Longrightarrow> sound_result args t"
  by (auto simp: resolveMinMax_def result_simps valid_base)

lemma valid_Decimal:
  "valid t \<Longrightarrow> Kind t = ''Decimal'' \<Longrightarrow> \<exists>p s. t = Ty ''Decimal'' None None [] [] [] p s \<and> 1 \<le> p \<and> p \<le> 35 \<and> 0 \<le> s \<and> s \<le> p"
  by (subst (asm) validateConcreteOrNull.simps) (cases t; simp split: if_splits)

lemma valid_widest_Decimal:
  "valid t \<Longrightarrow> Kind t = ''Decimal'' \<Longrightarrow>
   valid (Ty ''Decimal'' (Elem t) (Key t) (Items t) (Fields t) (Tag t) 35 (Scale t))"
  using valid_Decimal [of t] by (subst validateConcreteOrNull.simps) auto

lemma resolveSum_sound: "resolveSum name args = Inr t \<Longrightarrow> sound_result args' t"
  by (auto simp: resolveSum_def result_simps valid_base valid_widest_Decimal case_prod_beta split: if_splits)

lemma resolveAvg_sound: "resolveAvg name args = Inr t \<Longrightarrow> sound_result args' t"
  by (auto simp: resolveAvg_def result_simps valid_base split: if_splits)

lemma resolveConditionalAggregate_sound: "resolveConditionalAggregate name args = Inr t \<Longrightarrow> sound_result args t"
  by (auto simp: resolveConditionalAggregate_def result_simps Let_def
      dest: resolveSum_sound resolveAvg_sound split: if_splits)

lemma resolveAggregateList_sound: "resolveAggregateList args = Inr t \<Longrightarrow> sound_result args t"
  by (auto simp: resolveAggregateList_def result_simps valid_base split: if_splits)

lemmas core_sound = resolveUnwrap_sound resolveDependencyValue_sound resolveCurrentTimezone_sound
  resolveVersion_sound resolveNanvl_sound resolveIf_sound resolveLength_sound resolveSubstring_sound
  resolveFind_sound resolveAffix_sound resolveAbs_sound resolveCount_sound resolveCountIf_sound
  resolveMinMax_sound resolveSum_sound resolveAvg_sound resolveConditionalAggregate_sound
  resolveAggregateList_sound resolveToSet_sound resolveAsList_sound
  resolveListLength_sound resolveListHas_sound resolveListTransform_sound resolveToDict_sound
  resolveDictAccess_sound resolveListCreate_sound resolveSetIsDisjoint_sound

interpretation core: resolver_table lookupCore
proof
  fix name resolve args t
  assume "lookupCore name = Some resolve" and v: "\<forall>a\<in>set args. valid a" and r: "resolve args = Inr t"
  then have "resolve \<in> snd ` set (core_functions name)"
    by (auto simp: lookupCore_def dest!: map_of_SomeD intro: rev_image_eqI)
  then show "sound_result args t"
    unfolding core_functions_def
    by (simp, elim disjE) (use v r in \<open>simp_all add: core_sound resolveAsTuple_result\<close>)
qed

section \<open>Properties\<close>

lemma aggregate_results:
  "resolveMinMax n args = Inr t \<Longrightarrow> IsOptional t" "resolveSum n args = Inr t \<Longrightarrow> IsOptional t"
  "resolveAvg n args = Inr t \<Longrightarrow> IsOptional t" "resolveConditionalAggregate n args = Inr t \<Longrightarrow> IsOptional t"
  "resolveCount args = Inr t \<Longrightarrow> t = mk_kind ''Uint64''" "resolveCountIf args = Inr t \<Longrightarrow> t = mk_kind ''Uint64''"
  "resolveAggregateList args = Inr t \<Longrightarrow> Kind t = ''List''"
proof -
  show m: "resolveMinMax n args = Inr t \<Longrightarrow> IsOptional t" for n args
    by (auto simp: resolveMinMax_def result_simps IsOptional_def)
  show s: "resolveSum n args = Inr t \<Longrightarrow> IsOptional t" for n args
    by (auto simp: resolveSum_def result_simps IsOptional_def case_prod_beta)
  show a: "resolveAvg n args = Inr t \<Longrightarrow> IsOptional t" for n args
    by (auto simp: resolveAvg_def result_simps IsOptional_def)
  show "resolveConditionalAggregate n args = Inr t \<Longrightarrow> IsOptional t"
    by (auto simp: resolveConditionalAggregate_def result_simps Let_def intro: s a split: if_splits)
  show "resolveCount args = Inr t \<Longrightarrow> t = mk_kind ''Uint64''"
    by (auto simp: resolveCount_def result_simps split: if_splits)
  show "resolveCountIf args = Inr t \<Longrightarrow> t = mk_kind ''Uint64''"
    by (auto simp: resolveCountIf_def result_simps)
  show "resolveAggregateList args = Inr t \<Longrightarrow> Kind t = ''List''"
    by (auto simp: resolveAggregateList_def result_simps split: if_splits)
qed

text \<open>
  Aggregates over possibly no rows are optional whatever their argument (MIN, MAX, SUM, AVG and
  the conditional ones), counts are a plain Uint64, and collected lists are never optional.
\<close>

theorem aggregate_nullability:
  assumes "lookupCore name = Some f" "f args = Inr t"
  shows "(to_upper name \<in> {''MIN'', ''MAX'', ''SUM'', ''AVG'', ''SUM_IF'', ''AVG_IF''} \<longrightarrow> IsOptional t)
    \<and> (to_upper name \<in> {''COUNT'', ''COUNT_IF''} \<longrightarrow> t = mk_kind ''Uint64'')
    \<and> (to_upper name \<in> {''AGGREGATE_LIST'', ''AGG_LIST'', ''AGGREGATE_LIST_DISTINCT'', ''AGG_LIST_DISTINCT''}
        \<longrightarrow> Kind t = ''List'')"
proof -
  have look: "to_upper name = l \<Longrightarrow> map_of (core_functions name) l = Some f" for l
    using assms(1) by (simp add: lookupCore_def)
  show ?thesis
    by (intro conjI impI; elim insertE emptyE; drule look; simp add: core_functions_def)
      (use assms(2) in \<open>auto dest: aggregate_results\<close>)
qed

lemma aggregate_nullability_witness: "IsOptional (Optional (mk_kind ''Double''))"
proof -
  have u: "to_upper ''avg'' = ''AVG''" by code_simp
  then have "lookupCore ''avg'' = Some (resolveAvg ''AVG'')" by (simp add: lookupCore_def core_functions_def)
  moreover have "resolveAvg ''AVG'' [mk_kind ''Int8''] = Inr (Optional (mk_kind ''Double''))" by code_simp
  ultimately show ?thesis using aggregate_nullability u by blast
qed

text \<open>
  SUM of an integer column is the 64-bit integer of the same sign, so its type holds every value
  of the column's type.
\<close>

theorem sum_widens:
  assumes "resolveSum name [c] = Inr t" "isInteger (Kind (UnwrapOptional c))"
  shows "Kind (UnwrapOptional t) = (if fst (integerInfo (Kind (UnwrapOptional c))) then ''Int64'' else ''Uint64'')
    \<and> kind_values (Kind (UnwrapOptional c)) \<subseteq> kind_values (Kind (UnwrapOptional t))"
proof -
  from assms(2) obtain s b where k: "int_width b" "Kind (UnwrapOptional c) = int_kind s b" by (rule isIntegerE)
  have "t = optional (if s then mk_kind ''Int64'' else mk_kind ''Uint64'')"
    using assms(1) k by (auto simp: resolveSum_def result_simps dest!: baseType_Inr(3))
  then have "Kind (UnwrapOptional t) = int_kind s 64" by (simp add: optional_def int_kind_def)
  moreover have "b \<le> 64" using k(1) by auto
  ultimately show ?thesis
    unfolding k(2) by (simp add: kind_values_subset [OF k(1)] integerInfo_int_kind [OF k(1)]) (simp add: int_kind_def)
qed

lemma sum_widens_witness: "kind_values ''Uint16'' \<subseteq> kind_values ''Uint64''"
proof -
  have "resolveSum ''SUM'' [Optional (mk_kind ''Uint16'')] = Inr (Optional (mk_kind ''Uint64''))" by code_simp
  from sum_widens [OF this] show ?thesis by (simp add: isInteger_def integerInfo_def)
qed

end
