(* ===== verification/Signatures.thy ===== *)
theory Signatures
  imports Collections
begin

text \<open>
  \<open>internal/yql/builtins/signatures.go\<close>: overload resolution against signatures (matching the
  arguments of a call, named and positional, to the parameters; choosing the overload), the
  validation of user signatures, and the test whether two overloads can match one call. The
  lemmas characterise a successful match and show that the overlap test is complete for calls
  whose argument types alone decide.
\<close>

section \<open>Identifiers\<close>

text \<open>
  The two regular expressions of the file, anchored at both ends, as matchers:
  \<open>[A-Za-z_][A-Za-z0-9_]*\<close>, and such identifiers joined by \<open>::\<close>.
\<close>

definition ident_start :: "char \<Rightarrow> bool" where
  "ident_start c \<longleftrightarrow> 65 \<le> byte c \<and> byte c \<le> 90 \<or> 97 \<le> byte c \<and> byte c \<le> 122 \<or> c = CHR ''_''"

definition ident_char :: "char \<Rightarrow> bool" where
  "ident_char c \<longleftrightarrow> ident_start c \<or> 48 \<le> byte c \<and> byte c \<le> 57"

definition IsParameterIdentifier :: "string \<Rightarrow> bool" where
  "IsParameterIdentifier s = (case s of [] \<Rightarrow> False | c # cs \<Rightarrow> ident_start c \<and> list_all ident_char cs)"

datatype ident_state = Ident_Start | Ident_In | Ident_Colon

fun ident_run :: "ident_state \<Rightarrow> string \<Rightarrow> bool" where
  "ident_run st [] = (st = Ident_In)"
| "ident_run Ident_Start (c # cs) = (ident_start c \<and> ident_run Ident_In cs)"
| "ident_run Ident_In (c # cs) =
     (if ident_char c then ident_run Ident_In cs else c = CHR '':'' \<and> ident_run Ident_Colon cs)"
| "ident_run Ident_Colon (c # cs) = (c = CHR '':'' \<and> ident_run Ident_Start cs)"

definition IsFunctionIdentifier :: "string \<Rightarrow> bool" where
  "IsFunctionIdentifier s = ident_run Ident_Start s"

section \<open>Matching a call to a signature\<close>

text \<open>The first parameter of the name; the code's \<open>-1\<close> is \<open>None\<close>.\<close>

fun parameterIndex :: "Parameter list \<Rightarrow> string \<Rightarrow> nat option" where
  "parameterIndex [] name = None"
| "parameterIndex (p # ps) name = (if par_Name p = name then Some 0 else map_option Suc (parameterIndex ps name))"

definition parameterLabel :: "Parameter \<Rightarrow> string" where
  "parameterLabel parameter =
     (if par_Name parameter = [] then [] else '' ('' @ par_Name parameter @ '')'')"

definition parameter_mismatch :: "Parameter \<Rightarrow> ty \<Rightarrow> go_error" where
  "parameter_mismatch parameter actual =
     Errorf ''must be %s, got %s'' [FType (par_Type parameter), FType actual]"

definition matchParameter :: "CallArgument \<Rightarrow> Parameter \<Rightarrow> bool res" where
  "matchParameter argument parameter =
     and_then (baseType (par_Type parameter)) (\<lambda>(expectedBase, expectedOptional).
     and_then (baseType (arg_Type argument)) (\<lambda>(actualBase, actualOptional).
       if Kind actualBase = ''Null'' \<and> (par_AutoMap parameter \<or> expectedOptional) then
         Inr (par_AutoMap parameter)
       else if \<not> Equal actualBase expectedBase
           \<and> \<not> (isInteger (Kind actualBase) \<and> isInteger (Kind expectedBase)
                \<and> integerLiteralFits (arg_IntegerLiteral argument) (Kind expectedBase))
           \<and> \<not> (Kind actualBase = ''String'' \<and> Kind expectedBase = ''Utf8''
                \<and> (case arg_StringLiteral argument of None \<Rightarrow> False | Some s \<Rightarrow> utf8_valid_string s)) then
         Inl (parameter_mismatch parameter (arg_Type argument))
       else if actualOptional \<and> \<not> par_AutoMap parameter \<and> \<not> expectedOptional then
         Inl (parameter_mismatch parameter (arg_Type argument))
       else Inr (par_AutoMap parameter \<and> actualOptional)))"

text \<open>
  The first loop of \<open>matchSignature\<close>: \<open>bound\<close> holds the argument of each parameter (a pointer in
  the code, \<open>nil\<close> is \<open>None\<close>), \<open>i\<close> is the argument's index and \<open>nargs\<close> the number of arguments.
\<close>

fun bind_arguments :: "Signature \<Rightarrow> nat \<Rightarrow> nat \<Rightarrow> nat \<Rightarrow> bool \<Rightarrow> CallArgument option list
    \<Rightarrow> CallArgument list \<Rightarrow> CallArgument option list res" where
  "bind_arguments signature nargs i positional namedSeen bound [] = Inr bound"
| "bind_arguments signature nargs i positional namedSeen bound (argument # args) =
     (if arg_Name argument = [] then
        (if namedSeen then Inl (Errorf ''positional argument %d follows a named argument'' [FNat (i + 1)])
         else if positional \<ge> length bound then
           Inl (Errorf ''expects at most %d arguments, got %d'' [FNat (length bound), FNat nargs])
         else bind_arguments signature nargs (i + 1) (positional + 1) namedSeen
           (bound[positional := Some argument]) args)
      else (case parameterIndex (sig_Arguments signature) (arg_Name argument) of
          None \<Rightarrow> Inl (Errorf ''unknown named argument %q'' [FStr (arg_Name argument)])
        | Some index \<Rightarrow>
            if bound ! index \<noteq> None then
              Inl (Errorf ''argument %q is specified more than once'' [FStr (arg_Name argument)])
            else bind_arguments signature nargs (i + 1) positional True
              (bound[index := Some argument]) args))"

text \<open>The second loop: each parameter with its bound argument.\<close>

fun match_parameters :: "nat \<Rightarrow> bool \<Rightarrow> (Parameter \<times> CallArgument option) list \<Rightarrow> bool res" where
  "match_parameters i nullable [] = Inr nullable"
| "match_parameters i nullable ((parameter, bound) # rest) =
     (case bound of
        None \<Rightarrow>
          if \<not> par_Optional parameter then
            Inl (Errorf ''expects required argument %d%s'' [FNat (i + 1), FStr (parameterLabel parameter)])
          else match_parameters (i + 1) nullable rest
      | Some argument \<Rightarrow>
          and_then (map_error (\<lambda>err. Errorf ''argument %d%s: %w''
              [FNat (i + 1), FStr (parameterLabel parameter), FErr err])
            (matchParameter argument parameter))
          (\<lambda>propagate. match_parameters (i + 1) (nullable \<or> propagate) rest))"

definition matchSignature :: "CallArgument list \<Rightarrow> Signature \<Rightarrow> ty res" where
  "matchSignature args signature =
     and_then (bind_arguments signature (length args) 0 0 False
       (replicate (length (sig_Arguments signature)) None) args) (\<lambda>bound.
     and_then (match_parameters 0 False (zip (sig_Arguments signature) bound)) (\<lambda>nullable.
       if nullable \<and> \<not> IsOptional (sig_Returns signature) then Inr (Optional (sig_Returns signature))
       else Inr (sig_Returns signature)))"

text \<open>The results of the overloads that match, and the messages of those that do not.\<close>

fun match_overloads :: "CallArgument list \<Rightarrow> Signature list \<Rightarrow> ty list \<times> string list" where
  "match_overloads args [] = ([], [])"
| "match_overloads args (signature # signatures) =
     (let (matches, failures) = match_overloads args signatures in
      case matchSignature args signature of
        Inr result \<Rightarrow> (result # matches, failures)
      | Inl err \<Rightarrow> (matches, error_text err # failures))"

definition resolveSignatures :: "string \<Rightarrow> CallArgument list \<Rightarrow> Signature list \<Rightarrow> ty res" where
  "resolveSignatures name args signatures =
     (let (matches, failures) = match_overloads args signatures in
      if length matches = 1 then Inr (matches ! 0)
      else if length matches > 1 then
        Inl (Errorf ''%s call is ambiguous between %d configured overloads'' [FStr name, FNat (length matches)])
      else if length failures = 1 then Inl (Errorf ''%s: %s'' [FStr name, FStr (failures ! 0)])
      else Inl (Errorf ''%s has no matching overload: %s'' [FStr name, FStr (str_join ''; '' failures)]))"

section \<open>Validation of a user signature\<close>

function validateSignatureType :: "ty \<Rightarrow> bool \<Rightarrow> go_error option" where
  "validateSignatureType value parentOptional =
     (if Kind value = ''Null'' then
        Some (Errorf ''Null is not allowed in a configured signature'' [])
      else if Kind value = ''Optional'' then
        (if parentOptional then
           Some (Errorf ''nested Optional is not allowed in a configured signature'' [])
         else (case Elem value of
             None \<Rightarrow> Some (Errorf ''Optional type has no element type'' [])
           | Some e \<Rightarrow>
               (case validateSignatureType e True of
                  Some err \<Rightarrow> Some err
                | None \<Rightarrow> validateConcreteOrNull value)))
      else (case (case Key value of
                    None \<Rightarrow> None
                  | Some k \<Rightarrow> if Kind value = ''Dict'' then validateDictionaryKey k else None) of
        Some err \<Rightarrow> Some err
      | None \<Rightarrow>
      (case (case Key value of None \<Rightarrow> None | Some k \<Rightarrow> validateSignatureType k False) of
        Some err \<Rightarrow> Some err
      | None \<Rightarrow>
      (case (case Elem value of None \<Rightarrow> None | Some e \<Rightarrow> validateSignatureType e False) of
        Some err \<Rightarrow> Some err
      | None \<Rightarrow>
      (case first_err (\<lambda>item. validateSignatureType item False) (Items value) of
        Some err \<Rightarrow> Some err
      | None \<Rightarrow>
      (case first_err (\<lambda>(_, f). validateSignatureType f False) (Fields value) of
        Some err \<Rightarrow> Some err
      | None \<Rightarrow> validateConcreteOrNull value))))))"
  by pat_completeness auto
termination
  by (relation "measure (\<lambda>(t, _). size t)") auto

declare validateSignatureType.simps [simp del]

text \<open>The loop over the parameters, with the names seen so far.\<close>

fun validate_parameters :: "nat \<Rightarrow> string list \<Rightarrow> bool \<Rightarrow> Parameter list \<Rightarrow> go_error option" where
  "validate_parameters i seenNames optionalSeen [] = None"
| "validate_parameters i seenNames optionalSeen (parameter # parameters) =
     (case validateSignatureType (par_Type parameter) False of
        Some err \<Rightarrow> Some (Errorf ''argument %d has invalid type %s: %w''
          [FNat (i + 1), FType (par_Type parameter), FErr err])
      | None \<Rightarrow>
          if par_Name parameter \<noteq> [] \<and> \<not> IsParameterIdentifier (par_Name parameter) then
            Some (Errorf ''argument %d name must be a YQL identifier'' [FNat (i + 1)])
          else if par_Name parameter \<noteq> [] \<and> List.member seenNames (par_Name parameter) then
            Some (Errorf ''duplicate argument name %q'' [FStr (par_Name parameter)])
          else if par_AutoMap parameter \<and> IsOptional (par_Type parameter) then
            Some (Errorf ''argument %d cannot combine AutoMap with an Optional parameter type; declare the base type''
              [FNat (i + 1)])
          else if optionalSeen \<and> \<not> par_Optional parameter then
            Some (Errorf ''required argument %d follows an optional argument'' [FNat (i + 1)])
          else validate_parameters (i + 1)
            (if par_Name parameter \<noteq> [] then par_Name parameter # seenNames else seenNames)
            (optionalSeen \<or> par_Optional parameter) parameters)"

definition validateSignature :: "Signature \<Rightarrow> go_error option" where
  "validateSignature signature =
     (if \<not> IsFunctionIdentifier (sig_Name signature) then
        Some (Errorf ''function name must be a non-empty YQL identifier'' [])
      else (case validateSignatureType (sig_Returns signature) False of
          Some err \<Rightarrow> Some (Errorf ''invalid return type %s: %w'' [FType (sig_Returns signature), FErr err])
        | None \<Rightarrow> validate_parameters 0 [] False (sig_Arguments signature)))"

section \<open>Overlapping overloads\<close>

text \<open>\<open>base, _, _ := baseType(t)\<close>: on an error the base is the zero type.\<close>

definition base_or_zero :: "ty \<Rightarrow> ty" where
  "base_or_zero t = (case baseType t of Inl _ \<Rightarrow> mk_kind [] | Inr (b, _) \<Rightarrow> b)"

definition parametersOverlap :: "Parameter \<Rightarrow> Parameter \<Rightarrow> bool" where
  "parametersOverlap left right = Equal (base_or_zero (par_Type left)) (base_or_zero (par_Type right))"

definition requiredNamesOverlap :: "Parameter list \<Rightarrow> Parameter list \<Rightarrow> nat \<Rightarrow> bool" where
  "requiredNamesOverlap left right prefix =
     list_all (\<lambda>parameter. par_Optional parameter \<or>
        par_Name parameter \<noteq> [] \<and>
        (case parameterIndex right (par_Name parameter) of
           None \<Rightarrow> False
         | Some index \<Rightarrow> prefix \<le> index \<and> parametersOverlap parameter (right ! index)))
       (drop prefix left)"

function overlap_from :: "Signature \<Rightarrow> Signature \<Rightarrow> nat \<Rightarrow> nat \<Rightarrow> bool" where
  "overlap_from left right maximum prefix =
     (if prefix \<le> maximum then
        (if prefix > 0 \<and> \<not> parametersOverlap (sig_Arguments left ! (prefix - 1)) (sig_Arguments right ! (prefix - 1))
         then False
         else if requiredNamesOverlap (sig_Arguments left) (sig_Arguments right) prefix
               \<and> requiredNamesOverlap (sig_Arguments right) (sig_Arguments left) prefix
         then True
         else overlap_from left right maximum (prefix + 1))
      else False)"
  by pat_completeness auto
termination
  by (relation "measure (\<lambda>(l, r, m, p). Suc m - p)") auto

declare overlap_from.simps [simp del]

definition signaturesOverlap :: "Signature \<Rightarrow> Signature \<Rightarrow> bool" where
  "signaturesOverlap left right =
     overlap_from left right (min (length (sig_Arguments left)) (length (sig_Arguments right))) 0"

definition parameter_shape :: "Parameter \<Rightarrow> string" where
  "parameter_shape p = sprintf ''|%s:%s:%t:%t''
     [FStr (par_Name p), FType (par_Type p), FBool (par_Optional p), FBool (par_AutoMap p)]"

definition signatureShape :: "Signature \<Rightarrow> string" where
  "signatureShape signature = sig_Name signature @ concat (map parameter_shape (sig_Arguments signature))"

section \<open>Identifiers, declaratively\<close>

lemma ident_colon [simp]: "\<not> ident_char (CHR '':'')"
  by (simp add: ident_char_def ident_start_def byte_def)

lemma str_join_Cons [simp]: "str_join sep (x # xs) = x @ concat (map (\<lambda>y. sep @ y) xs)"
  by (simp add: str_join_def)

lemma IsParameterIdentifier_simps [simp]:
  "\<not> IsParameterIdentifier []"
  "IsParameterIdentifier (c # cs) \<longleftrightarrow> ident_start c \<and> list_all ident_char cs"
  by (simp_all add: IsParameterIdentifier_def)

text \<open>What the rest of the input looks like in each state of the matcher.\<close>

fun ident_rest :: "ident_state \<Rightarrow> string \<Rightarrow> string list \<Rightarrow> string" where
  "ident_rest Ident_Start p ps = str_join ''::'' (p # ps)"
| "ident_rest Ident_Colon p ps = CHR '':'' # str_join ''::'' (p # ps)"
| "ident_rest Ident_In w ps = str_join ''::'' (w # ps)"

lemma ident_run_rest:
  "ident_run st s \<Longrightarrow>
   \<exists>p ps. s = ident_rest st p ps \<and> list_all IsParameterIdentifier ps
     \<and> (if st = Ident_In then list_all ident_char p else IsParameterIdentifier p)"
proof (induction st s rule: ident_run.induct)
  case (1 st)
  then show ?case by (intro exI [of _ "[]"]) simp
next
  case (2 c cs)
  then obtain w ps where "cs = str_join ''::'' (w # ps)" "list_all IsParameterIdentifier ps"
      "list_all ident_char w" "ident_start c" by auto
  then show ?case
    by (intro exI [of _ "c # w"] exI [of _ ps]) simp
next
  case (3 c cs)
  show ?case
  proof (cases "ident_char c")
    case True
    with 3 obtain w ps where "cs = str_join ''::'' (w # ps)" "list_all IsParameterIdentifier ps"
      "list_all ident_char w" by auto
    with True show ?thesis by (intro exI [of _ "c # w"] exI [of _ ps]) simp
  next
    case False
    with 3 obtain p ps where "c = CHR '':''" "cs = CHR '':'' # str_join ''::'' (p # ps)"
      "list_all IsParameterIdentifier (p # ps)" by auto
    then show ?thesis by (intro exI [of _ "[]"] exI [of _ "p # ps"]) simp
  qed
next
  case (4 c cs)
  then obtain p ps where "cs = str_join ''::'' (p # ps)" "IsParameterIdentifier p"
    "list_all IsParameterIdentifier ps" "c = CHR '':''" by auto
  then show ?case by (intro exI [of _ p] exI [of _ ps]) simp
qed

lemma ident_run_word: "list_all ident_char w \<Longrightarrow> ident_run Ident_In (w @ r) = ident_run Ident_In r"
  by (induction w) simp_all

lemma ident_run_joined:
  "list_all ident_char w \<Longrightarrow> list_all IsParameterIdentifier ps \<Longrightarrow>
   ident_run Ident_In (w @ concat (map (\<lambda>y. ''::'' @ y) ps))"
proof (induction ps arbitrary: w)
  case (Cons p ps)
  then obtain c v where "p = c # v" "ident_start c" "list_all ident_char v"
    by (cases p) simp_all
  with Cons show ?case by (simp add: ident_run_word)
qed (simp add: ident_run_word [of _ "[]", simplified])

lemma IsFunctionIdentifier_iff:
  "IsFunctionIdentifier s \<longleftrightarrow>
     (\<exists>parts. parts \<noteq> [] \<and> list_all IsParameterIdentifier parts \<and> s = str_join ''::'' parts)"
proof
  assume "IsFunctionIdentifier s"
  from ident_run_rest [OF this [unfolded IsFunctionIdentifier_def]] obtain p ps where
    "s = str_join ''::'' (p # ps)" "list_all IsParameterIdentifier (p # ps)" by auto
  then show "\<exists>parts. parts \<noteq> [] \<and> list_all IsParameterIdentifier parts \<and> s = str_join ''::'' parts"
    by blast
next
  assume "\<exists>parts. parts \<noteq> [] \<and> list_all IsParameterIdentifier parts \<and> s = str_join ''::'' parts"
  then obtain p ps where s: "s = str_join ''::'' (p # ps)" and ok: "IsParameterIdentifier p"
      "list_all IsParameterIdentifier ps"
    by (metis list.exhaust list.pred_inject(2))
  from ok(1) obtain c v where "p = c # v" "ident_start c" "list_all ident_char v"
    by (cases p) simp_all
  with s ok(2) show "IsFunctionIdentifier s"
    by (simp add: IsFunctionIdentifier_def ident_run_joined [simplified])
qed

section \<open>What a match is\<close>

lemma parameterIndex_Some:
  "parameterIndex ps name = Some i \<Longrightarrow> i < length ps \<and> par_Name (ps ! i) = name
     \<and> (\<forall>j < i. par_Name (ps ! j) \<noteq> name)"
proof (induction ps arbitrary: i)
  case (Cons p ps)
  show ?case
  proof (cases "par_Name p = name")
    case False
    with Cons obtain k where "i = Suc k" "parameterIndex ps name = Some k" by auto
    with Cons.IH [of k] False show ?thesis by (auto simp: less_Suc_eq_0_disj)
  qed (use Cons.prems in auto)
qed simp

lemma parameterIndex_None: "parameterIndex ps name = None \<longleftrightarrow> name \<notin> par_Name ` set ps"
  by (induction ps) auto

lemma matchParameter_Inr:
  assumes "matchParameter a p = Inr propagate"
  obtains eb eo ab ao where "baseType (par_Type p) = Inr (eb, eo)" "baseType (arg_Type a) = Inr (ab, ao)"
    "propagate = (par_AutoMap p \<and> (ao \<or> Kind ab = ''Null''))"
    "Kind ab = ''Null'' \<and> (par_AutoMap p \<or> eo) \<or> (ao \<longrightarrow> par_AutoMap p \<or> eo) \<and>
       (Equal ab eb
        \<or> isInteger (Kind ab) \<and> isInteger (Kind eb) \<and> integerLiteralFits (arg_IntegerLiteral a) (Kind eb)
        \<or> Kind ab = ''String'' \<and> Kind eb = ''Utf8'' \<and> (\<exists>s. arg_StringLiteral a = Some s \<and> utf8_valid_string s))"
proof -
  from assms obtain eb eo ab ao where b: "baseType (par_Type p) = Inr (eb, eo)" "baseType (arg_Type a) = Inr (ab, ao)"
    by (auto simp: matchParameter_def result_simps)
  with assms show thesis
    by (intro that [OF b]) (auto simp: matchParameter_def split: if_splits option.splits)
qed

lemma match_parameters_Inr:
  "match_parameters i n ps = Inr m \<longleftrightarrow>
     (\<forall>(p, b) \<in> set ps. case b of None \<Rightarrow> par_Optional p | Some a \<Rightarrow> isl (matchParameter a p) = False)
   \<and> m = (n \<or> (\<exists>(p, b) \<in> set ps. \<exists>a. b = Some a \<and> matchParameter a p = Inr True))"
proof (induction i n ps arbitrary: m rule: match_parameters.induct)
  case (2 i nullable parameter bound rest)
  show ?case
  proof (cases bound)
    case None
    with 2 show ?thesis by auto
  next
    case (Some argument)
    show ?thesis
    proof (cases "matchParameter argument parameter")
      case (Inl e)
      with Some show ?thesis by auto
    next
      case (Inr propagate)
      with Some 2(2) [OF Some, of propagate] show ?thesis by auto
    qed
  qed
qed auto

text \<open>A call is a prefix of positional arguments followed by named ones.\<close>

lemma bind_named_rest:
  "bind_arguments s n i pos True bound args = Inr bound' \<Longrightarrow> \<forall>a\<in>set args. arg_Name a \<noteq> []"
  by (induction args arbitrary: i pos bound) (auto split: if_splits option.splits)

lemma bind_named:
  "bind_arguments s n i pos ns bound args = Inr bound' \<Longrightarrow> \<forall>a\<in>set args. arg_Name a \<noteq> [] \<Longrightarrow>
   length bound = length (sig_Arguments s) \<Longrightarrow>
   length bound' = length bound
   \<and> (\<forall>j < length bound. bound ! j \<noteq> None \<longrightarrow> bound' ! j = bound ! j)
   \<and> (\<forall>a\<in>set args. \<exists>j < length bound. parameterIndex (sig_Arguments s) (arg_Name a) = Some j
        \<and> bound ! j = None \<and> bound' ! j = Some a)
   \<and> (\<forall>j < length bound. bound ! j = None \<longrightarrow> bound' ! j = None \<or>
        (\<exists>a\<in>set args. bound' ! j = Some a \<and> parameterIndex (sig_Arguments s) (arg_Name a) = Some j))"
proof (induction args arbitrary: i ns bound)
  case (Cons a args)
  then obtain j where j: "parameterIndex (sig_Arguments s) (arg_Name a) = Some j" "bound ! j = None"
      "bind_arguments s n (i + 1) pos True (bound[j := Some a]) args = Inr bound'"
    by (auto split: option.splits if_splits)
  from parameterIndex_Some [OF j(1)] Cons.prems(3) have jl: "j < length bound" by simp
  note ih = Cons.IH [OF j(3)]
  from ih Cons.prems have len: "length bound' = length bound" by simp
  from ih Cons.prems have keep: "bound' ! k = (bound[j := Some a]) ! k"
    if "k < length bound" "(bound[j := Some a]) ! k \<noteq> None" for k using that by simp
  from ih Cons.prems have args: "\<exists>k < length bound. parameterIndex (sig_Arguments s) (arg_Name b) = Some k
      \<and> (bound[j := Some a]) ! k = None \<and> bound' ! k = Some b" if "b \<in> set args" for b using that by simp
  from ih Cons.prems have new: "bound' ! k = None \<or>
      (\<exists>b\<in>set args. bound' ! k = Some b \<and> parameterIndex (sig_Arguments s) (arg_Name b) = Some k)"
    if "k < length bound" "(bound[j := Some a]) ! k = None" for k using that by simp
  have aj: "bound' ! j = Some a" using keep [of j] jl by simp
  have "\<exists>k < length bound. parameterIndex (sig_Arguments s) (arg_Name b) = Some k
      \<and> bound ! k = None \<and> bound' ! k = Some b" if "b \<in> set args" for b
    using args [OF that] jl j(2) by (metis nth_list_update_neq)
  moreover have "bound' ! k = bound ! k" if "k < length bound" "bound ! k \<noteq> None" for k
    using keep [of k] that j(2) by (cases "k = j") auto
  moreover have "bound' ! k = None \<or> (\<exists>b\<in>set (a # args). bound' ! k = Some b
      \<and> parameterIndex (sig_Arguments s) (arg_Name b) = Some k)" if "k < length bound" "bound ! k = None" for k
    using new [of k] that aj j(1) by (cases "k = j") auto
  ultimately show ?case using len jl j(1,2) aj by auto
qed auto

lemma bind_positional:
  "bind_arguments s n i (length pre) False (map Some pre @ replicate m None) args = Inr bound' \<Longrightarrow>
   \<exists>pos named j. args = pos @ named \<and> (\<forall>a\<in>set pos. arg_Name a = []) \<and> (\<forall>a\<in>set named. arg_Name a \<noteq> [])
     \<and> length pos \<le> m
     \<and> bind_arguments s n j (length pre + length pos) False
         (map Some (pre @ pos) @ replicate (m - length pos) None) named = Inr bound'"
proof (induction args arbitrary: i pre m)
  case Nil
  then show ?case by (intro exI [of _ "[]"] exI [of _ i]) simp
next
  case (Cons a args)
  show ?case
  proof (cases "arg_Name a = []")
    case True
    with Cons.prems obtain m' where m: "m = Suc m'"
      by (cases m) (auto split: if_splits)
    have "(map Some pre @ replicate m None)[length pre := Some a] = map Some (pre @ [a]) @ replicate m' None"
      by (simp add: m list_update_append)
    with Cons.prems True m have "bind_arguments s n (i + 1) (length (pre @ [a])) False
        (map Some (pre @ [a]) @ replicate m' None) args = Inr bound'" by simp
    from Cons.IH [OF this] obtain pos named j where "args = pos @ named" "\<forall>a\<in>set pos. arg_Name a = []"
      "\<forall>a\<in>set named. arg_Name a \<noteq> []" "length pos \<le> m'"
      "bind_arguments s n j (length (pre @ [a]) + length pos) False
         (map Some ((pre @ [a]) @ pos) @ replicate (m' - length pos) None) named = Inr bound'" by blast
    with True m show ?thesis
      by (intro exI [of _ "a # pos"] exI [of _ named] exI [of _ j]) simp
  next
    case False
    with Cons.prems have "\<forall>b\<in>set args. arg_Name b \<noteq> []"
      by (auto split: option.splits if_splits dest: bind_named_rest)
    with False Cons.prems show ?thesis
      by (intro exI [of _ "[]"] exI [of _ "a # args"] exI [of _ i]) simp
  qed
qed

text \<open>The argument each parameter gets.\<close>

lemma bind_result:
  assumes "bind_arguments s n 0 0 False (replicate (length (sig_Arguments s)) None) args = Inr bound"
  obtains pos named where "args = pos @ named" "\<forall>a\<in>set pos. arg_Name a = []"
    "\<forall>a\<in>set named. arg_Name a \<noteq> []" "length pos \<le> length (sig_Arguments s)"
    "length bound = length (sig_Arguments s)" "\<And>j. j < length pos \<Longrightarrow> bound ! j = Some (pos ! j)"
    "\<And>a. a \<in> set named \<Longrightarrow> \<exists>j < length bound. length pos \<le> j
        \<and> parameterIndex (sig_Arguments s) (arg_Name a) = Some j \<and> bound ! j = Some a"
    "\<And>j. length pos \<le> j \<Longrightarrow> j < length bound \<Longrightarrow> bound ! j = None \<or>
        (\<exists>a\<in>set named. bound ! j = Some a \<and> parameterIndex (sig_Arguments s) (arg_Name a) = Some j)"
proof -
  let ?L = "length (sig_Arguments s)"
  from assms have "bind_arguments s n 0 (length ([] :: CallArgument list)) False
      (map Some [] @ replicate ?L None) args = Inr bound" by simp
  from bind_positional [OF this] obtain pos named j where p: "args = pos @ named"
      "\<forall>a\<in>set pos. arg_Name a = []" "\<forall>a\<in>set named. arg_Name a \<noteq> []" "length pos \<le> ?L"
      "bind_arguments s n j (length pos) False (map Some pos @ replicate (?L - length pos) None) named = Inr bound"
    by auto
  let ?b = "map Some pos @ replicate (?L - length pos) None"
  have b: "?b ! j = (if j < length pos then Some (pos ! j) else None)" if "j < ?L" for j
    using that by (simp add: nth_append)
  have lb: "length ?b = ?L" using p(4) by simp
  note named = bind_named [OF p(5) p(3) lb]
  show thesis
  proof (rule that [OF p(1-4)])
    show "length bound = ?L" using named lb by simp
    show "bound ! j = Some (pos ! j)" if "j < length pos" for j
      using named lb b [of j] that p(4) by auto
    show "\<exists>j < length bound. length pos \<le> j \<and> parameterIndex (sig_Arguments s) (arg_Name a) = Some j
        \<and> bound ! j = Some a" if a: "a \<in> set named" for a
    proof -
      from named a obtain j where j: "j < length ?b" "?b ! j = None" "bound ! j = Some a"
        "parameterIndex (sig_Arguments s) (arg_Name a) = Some j" "length bound = length ?b" by blast
      with b [of j] lb have "length pos \<le> j" by (auto split: if_splits)
      with j show ?thesis by auto
    qed
    show "bound ! j = None \<or> (\<exists>a\<in>set named. bound ! j = Some a
        \<and> parameterIndex (sig_Arguments s) (arg_Name a) = Some j)" if "length pos \<le> j" "j < length bound" for j
    proof -
      from that named lb have "j < length ?b" "?b ! j = None" using b [of j] by auto
      with named show ?thesis by blast
    qed
  qed
qed

lemma matchSignature_Inr:
  assumes "matchSignature args s = Inr t"
  obtains bound where
    "bind_arguments s (length args) 0 0 False (replicate (length (sig_Arguments s)) None) args = Inr bound"
    "\<forall>(p, b) \<in> set (zip (sig_Arguments s) bound).
       case b of None \<Rightarrow> par_Optional p | Some a \<Rightarrow> isl (matchParameter a p) = False"
    "t = sig_Returns s \<or> t = Optional (sig_Returns s) \<and> \<not> IsOptional (sig_Returns s)"
  using assms that
  by (auto simp: matchSignature_def result_simps match_parameters_Inr split: if_splits)

section \<open>Two overloads that match one call overlap\<close>

text \<open>
  A call is decided by its types when no argument carries a literal that could be converted
  and none is \<open>Null\<close>.
\<close>

definition decided_argument :: "CallArgument \<Rightarrow> bool" where
  "decided_argument a \<longleftrightarrow> arg_IntegerLiteral a = None \<and> arg_StringLiteral a = None
     \<and> Kind (base_or_zero (arg_Type a)) \<noteq> ''Null''"

lemma matches_parametersOverlap:
  assumes "matchParameter a p = Inr x" "matchParameter a q = Inr y" "decided_argument a"
  shows "parametersOverlap p q"
proof -
  have *: "\<exists>ab eb ao eo. baseType (arg_Type a) = Inr (ab, ao) \<and> baseType (par_Type r) = Inr (eb, eo) \<and> Equal ab eb"
    if "matchParameter a r = Inr z" for r z
    using that assms(3)
    by (elim matchParameter_Inr) (auto simp: decided_argument_def base_or_zero_def integerLiteralFits_def)
  from * [OF assms(1)] * [OF assms(2)] obtain ab pb qb n m k where
    "baseType (arg_Type a) = Inr (ab, n)" "baseType (par_Type p) = Inr (pb, m)" "baseType (par_Type q) = Inr (qb, k)"
    "Equal ab pb" "Equal ab qb" by auto
  moreover from this have "Equal pb qb"
    by (meson Equal_trans valid_Equal_sym valid_base)
  ultimately show ?thesis by (simp add: parametersOverlap_def base_or_zero_def)
qed

text \<open>
  The loop of \<open>signaturesOverlap\<close> finds the length of a positional prefix that both accept
  such that the names both still require are parameters of the other.
\<close>

definition overlap_at :: "Signature \<Rightarrow> Signature \<Rightarrow> nat \<Rightarrow> bool" where
  "overlap_at l r q \<longleftrightarrow> requiredNamesOverlap (sig_Arguments l) (sig_Arguments r) q
     \<and> requiredNamesOverlap (sig_Arguments r) (sig_Arguments l) q"

lemma overlap_from_iff:
  "overlap_from l r m p \<longleftrightarrow>
     (\<exists>q. p \<le> q \<and> q \<le> m \<and> overlap_at l r q
        \<and> (\<forall>i. p \<le> Suc i \<and> i < q \<longrightarrow> parametersOverlap (sig_Arguments l ! i) (sig_Arguments r ! i)))"
proof (induction l r m p rule: overlap_from.induct)
  case (1 l r m p)
  let ?ok = "\<lambda>i. parametersOverlap (sig_Arguments l ! i) (sig_Arguments r ! i)"
  consider (stop) "\<not> p \<le> m" | (bad) "p \<le> m" "0 < p" "\<not> ?ok (p - 1)"
    | (found) "p \<le> m" "p = 0 \<or> ?ok (p - 1)" "overlap_at l r p"
    | (go) "p \<le> m" "p = 0 \<or> ?ok (p - 1)" "\<not> overlap_at l r p" by auto
  then show ?case
  proof cases
    case stop
    then show ?thesis by (subst overlap_from.simps) auto
  next
    case bad
    then have "\<not> ?ok i" if "Suc i = p" for i using that by auto
    then have "\<not> (\<forall>i. p \<le> Suc i \<and> i < q \<longrightarrow> ?ok i)" if "p \<le> q" for q
      using bad that by (metis Suc_pred less_eq_Suc_le order_refl)
    with bad show ?thesis by (subst overlap_from.simps) auto
  next
    case found
    then have "overlap_from l r m p" by (subst overlap_from.simps) (auto simp: overlap_at_def)
    moreover have "?ok i" if "p \<le> Suc i \<and> i < p" for i
      using that found(2) by (metis Suc_leI diff_Suc_1 less_nat_zero_code order_antisym)
    ultimately show ?thesis using found(1,3) by blast
  next
    case go
    have "overlap_from l r m p = overlap_from l r m (p + 1)"
      using go by (subst overlap_from.simps) (auto simp: overlap_at_def)
    also have "\<dots> \<longleftrightarrow> (\<exists>q. p + 1 \<le> q \<and> q \<le> m \<and> overlap_at l r q
        \<and> (\<forall>i. p + 1 \<le> Suc i \<and> i < q \<longrightarrow> ?ok i))"
      using go 1 by (auto simp: overlap_at_def)
    also have "\<dots> \<longleftrightarrow> (\<exists>q. p \<le> q \<and> q \<le> m \<and> overlap_at l r q \<and> (\<forall>i. p \<le> Suc i \<and> i < q \<longrightarrow> ?ok i))"
    proof -
      have "?ok i" if "p = Suc i" for i using go(2) that by auto
      moreover have "p \<le> Suc i \<longleftrightarrow> p = Suc i \<or> p + 1 \<le> Suc i" for i by auto
      ultimately have "(\<forall>i. p \<le> Suc i \<and> i < q \<longrightarrow> ?ok i) \<longleftrightarrow> (\<forall>i. p + 1 \<le> Suc i \<and> i < q \<longrightarrow> ?ok i)" for q
        by blast
      moreover have "p \<le> q \<and> overlap_at l r q \<longleftrightarrow> p + 1 \<le> q \<and> overlap_at l r q" for q
        using go(3) by (auto simp: le_eq_less_or_eq)
      ultimately show ?thesis by blast
    qed
    finally show ?thesis .
  qed
qed

lemma signaturesOverlap_iff:
  "signaturesOverlap l r \<longleftrightarrow>
     (\<exists>q \<le> min (length (sig_Arguments l)) (length (sig_Arguments r)). overlap_at l r q
        \<and> (\<forall>i < q. parametersOverlap (sig_Arguments l ! i) (sig_Arguments r ! i)))"
  by (auto simp: signaturesOverlap_def overlap_from_iff)

lemma matched_requiredNames:
  assumes l: "bind_arguments l n 0 0 False (replicate (length (sig_Arguments l)) None) (pos @ named) = Inr lb"
      "\<forall>(p, b) \<in> set (zip (sig_Arguments l) lb).
         case b of None \<Rightarrow> par_Optional p | Some a \<Rightarrow> isl (matchParameter a p) = False"
    and r: "\<And>a. a \<in> set named \<Longrightarrow> \<exists>j < length (sig_Arguments r). length pos \<le> j
        \<and> parameterIndex (sig_Arguments r) (arg_Name a) = Some j \<and> isl (matchParameter a (sig_Arguments r ! j)) = False"
    and named: "\<forall>a\<in>set named. arg_Name a \<noteq> [] \<and> decided_argument a"
    and lnamed: "length lb = length (sig_Arguments l)" "\<And>j. length pos \<le> j \<Longrightarrow> j < length lb \<Longrightarrow> lb ! j = None \<or>
        (\<exists>a\<in>set named. lb ! j = Some a \<and> parameterIndex (sig_Arguments l) (arg_Name a) = Some j)"
  shows "requiredNamesOverlap (sig_Arguments l) (sig_Arguments r) (length pos)"
  unfolding requiredNamesOverlap_def list_all_iff
proof (intro ballI)
  fix p
  assume "p \<in> set (drop (length pos) (sig_Arguments l))"
  then obtain k where "k < length (drop (length pos) (sig_Arguments l))"
      "drop (length pos) (sig_Arguments l) ! k = p" by (auto simp: in_set_conv_nth)
  then obtain j where j: "length pos \<le> j" "j < length (sig_Arguments l)" "sig_Arguments l ! j = p"
    by (intro that [of "length pos + k"]) auto
  then have "(p, lb ! j) \<in> set (zip (sig_Arguments l) lb)"
    using lnamed(1) by (auto simp: in_set_conv_nth)
  with l(2) have m: "case lb ! j of None \<Rightarrow> par_Optional p | Some a \<Rightarrow> isl (matchParameter a p) = False" by auto
  from lnamed(2) [of j] j lnamed(1) consider "lb ! j = None"
    | a where "a \<in> set named" "lb ! j = Some a" "parameterIndex (sig_Arguments l) (arg_Name a) = Some j" by auto
  then show "par_Optional p \<or> par_Name p \<noteq> [] \<and>
      (case parameterIndex (sig_Arguments r) (par_Name p) of None \<Rightarrow> False
       | Some i \<Rightarrow> length pos \<le> i \<and> parametersOverlap p (sig_Arguments r ! i))"
  proof cases
    case 1
    with m show ?thesis by simp
  next
    case 2
    from 2(3) j have "par_Name p = arg_Name a" by (auto dest: parameterIndex_Some)
    moreover from r [OF 2(1)] obtain i where i: "length pos \<le> i"
      "parameterIndex (sig_Arguments r) (arg_Name a) = Some i"
      "isl (matchParameter a (sig_Arguments r ! i)) = False" by auto
    moreover from m 2(2) have "isl (matchParameter a p) = False" by simp
    with i(3) obtain x y where "matchParameter a p = Inr x" "matchParameter a (sig_Arguments r ! i) = Inr y"
      by (metis isl_def sum.exhaust_sel)
    then have "parametersOverlap p (sig_Arguments r ! i)"
      using named 2(1) by (auto intro: matches_parametersOverlap)
    ultimately show ?thesis using named 2(1) by auto
  qed
qed

text \<open>Both matches split the call at the same place, so the second's data fits the first.\<close>

lemma split_unique:
  fixes pos named pos' named' :: "CallArgument list"
  assumes "pos @ named = pos' @ named'" "\<forall>a\<in>set pos. arg_Name a = []" "\<forall>a\<in>set named. arg_Name a \<noteq> []"
    "\<forall>a\<in>set pos'. arg_Name a = []" "\<forall>a\<in>set named'. arg_Name a \<noteq> []"
  shows "pos = pos' \<and> named = named'"
proof -
  have *: "takeWhile (\<lambda>a. arg_Name a = []) (xs @ ys) = xs" if "\<forall>a\<in>set xs. arg_Name a = []"
    "\<forall>a\<in>set ys. arg_Name a \<noteq> []" for xs ys :: "CallArgument list"
    using that by (cases ys) (auto simp: takeWhile_append)
  from * [OF assms(2,3)] * [OF assms(4,5)] assms(1) have "pos = pos'" by simp
  with assms(1) show ?thesis by simp
qed

lemma bound_matches:
  assumes "\<forall>(p, b) \<in> set (zip ps bound). case b of None \<Rightarrow> par_Optional p | Some a \<Rightarrow> isl (matchParameter a p) = False"
    "j < length ps" "length bound = length ps" "bound ! j = Some a"
  shows "isl (matchParameter a (ps ! j)) = False"
proof -
  have "(ps ! j, bound ! j) \<in> set (zip ps bound)" using assms(2,3) by (auto simp: in_set_conv_nth)
  with assms(1,4) show ?thesis by auto
qed

lemma matches_overlap:
  assumes "matchSignature args l = Inr t" "matchSignature args r = Inr u" "\<forall>a\<in>set args. decided_argument a"
  shows "signaturesOverlap l r"
proof -
  from assms(1) obtain lb where lb:
      "bind_arguments l (length args) 0 0 False (replicate (length (sig_Arguments l)) None) args = Inr lb"
      "\<forall>(p, b) \<in> set (zip (sig_Arguments l) lb). case b of None \<Rightarrow> par_Optional p | Some a \<Rightarrow> isl (matchParameter a p) = False"
    by (rule matchSignature_Inr)
  from assms(2) obtain rb where rb:
      "bind_arguments r (length args) 0 0 False (replicate (length (sig_Arguments r)) None) args = Inr rb"
      "\<forall>(p, b) \<in> set (zip (sig_Arguments r) rb). case b of None \<Rightarrow> par_Optional p | Some a \<Rightarrow> isl (matchParameter a p) = False"
    by (rule matchSignature_Inr)
  obtain pos named where L: "args = pos @ named" "\<forall>a\<in>set pos. arg_Name a = []"
    "\<forall>a\<in>set named. arg_Name a \<noteq> []" "length pos \<le> length (sig_Arguments l)"
    "length lb = length (sig_Arguments l)" "\<And>j. j < length pos \<Longrightarrow> lb ! j = Some (pos ! j)"
    "\<And>a. a \<in> set named \<Longrightarrow> \<exists>j < length lb. length pos \<le> j
        \<and> parameterIndex (sig_Arguments l) (arg_Name a) = Some j \<and> lb ! j = Some a"
    "\<And>j. length pos \<le> j \<Longrightarrow> j < length lb \<Longrightarrow> lb ! j = None \<or>
        (\<exists>a\<in>set named. lb ! j = Some a \<and> parameterIndex (sig_Arguments l) (arg_Name a) = Some j)"
    by (rule bind_result [OF lb(1)]) blast
  obtain pos' named' where R': "args = pos' @ named'" "\<forall>a\<in>set pos'. arg_Name a = []"
    "\<forall>a\<in>set named'. arg_Name a \<noteq> []" "length pos' \<le> length (sig_Arguments r)"
    "length rb = length (sig_Arguments r)" "\<And>j. j < length pos' \<Longrightarrow> rb ! j = Some (pos' ! j)"
    "\<And>a. a \<in> set named' \<Longrightarrow> \<exists>j < length rb. length pos' \<le> j
        \<and> parameterIndex (sig_Arguments r) (arg_Name a) = Some j \<and> rb ! j = Some a"
    "\<And>j. length pos' \<le> j \<Longrightarrow> j < length rb \<Longrightarrow> rb ! j = None \<or>
        (\<exists>a\<in>set named'. rb ! j = Some a \<and> parameterIndex (sig_Arguments r) (arg_Name a) = Some j)"
    by (rule bind_result [OF rb(1)]) blast
  have eq: "pos' = pos \<and> named' = named"
    using split_unique [of pos' named' pos named] L(1-3) R'(1-3) by auto
  note R = R' [unfolded eq [THEN conjunct1] eq [THEN conjunct2]]
  have dec: "\<forall>a\<in>set named. arg_Name a \<noteq> [] \<and> decided_argument a" "\<And>j. j < length pos \<Longrightarrow> decided_argument (pos ! j)"
    using assms(3) L(1,3) by auto
  have "requiredNamesOverlap (sig_Arguments l) (sig_Arguments r) (length pos)"
  proof (rule matched_requiredNames [OF lb(1) [unfolded L(1)] lb(2) _ dec(1) L(5) L(8)])
    fix a assume "a \<in> set named"
    from R(7) [OF this] R(5) bound_matches [OF rb(2)] show "\<exists>j < length (sig_Arguments r). length pos \<le> j
        \<and> parameterIndex (sig_Arguments r) (arg_Name a) = Some j \<and> isl (matchParameter a (sig_Arguments r ! j)) = False"
      by metis
  qed
  moreover have "requiredNamesOverlap (sig_Arguments r) (sig_Arguments l) (length pos)"
  proof (rule matched_requiredNames [OF rb(1) [unfolded L(1)] rb(2) _ dec(1) R(5) R(8)])
    fix a assume "a \<in> set named"
    from L(7) [OF this] L(5) bound_matches [OF lb(2)] show "\<exists>j < length (sig_Arguments l). length pos \<le> j
        \<and> parameterIndex (sig_Arguments l) (arg_Name a) = Some j \<and> isl (matchParameter a (sig_Arguments l ! j)) = False"
      by metis
  qed
  moreover have "parametersOverlap (sig_Arguments l ! j) (sig_Arguments r ! j)" if j: "j < length pos" for j
  proof -
    from bound_matches [OF lb(2) _ L(5) L(6) [OF j]] j L(4)
    have "isl (matchParameter (pos ! j) (sig_Arguments l ! j)) = False" by simp
    moreover from bound_matches [OF rb(2) _ R(5) R(6) [OF j]] j R(4)
    have "isl (matchParameter (pos ! j) (sig_Arguments r ! j)) = False" by simp
    ultimately obtain x y where "matchParameter (pos ! j) (sig_Arguments l ! j) = Inr x"
        "matchParameter (pos ! j) (sig_Arguments r ! j) = Inr y"
      by (metis isl_def sum.exhaust_sel)
    then show ?thesis by (rule matches_parametersOverlap) (rule dec(2) [OF j])
  qed
  ultimately show ?thesis
    using L(4) R(4) by (auto simp: signaturesOverlap_iff overlap_at_def)
qed

section \<open>Choosing the overload\<close>

lemma match_overloads_fst:
  "fst (match_overloads args ss) = map (\<lambda>s. projr (matchSignature args s)) (filter (\<lambda>s. \<not> isl (matchSignature args s)) ss)"
  by (induction ss) (auto simp: case_prod_beta Let_def split: sum.splits)

lemma resolveSignatures_Inr:
  "resolveSignatures name args ss = Inr t \<longleftrightarrow> fst (match_overloads args ss) = [t]"
  by (cases "match_overloads args ss"; cases "fst (match_overloads args ss)")
    (auto simp: resolveSignatures_def length_Suc_conv split: if_splits)

lemma resolveSignatures_match:
  assumes "resolveSignatures name args ss = Inr t"
  obtains s where "s \<in> set ss" "matchSignature args s = Inr t"
proof -
  from assms have "t \<in> set (fst (match_overloads args ss))" by (simp add: resolveSignatures_Inr)
  then obtain s where "s \<in> set ss" "\<not> isl (matchSignature args s)" "t = projr (matchSignature args s)"
    by (auto simp: match_overloads_fst)
  with that show thesis by (cases "matchSignature args s") auto
qed

text \<open>
  The contract of a catalog of signatures: every declared result is a valid type other than
  \<open>Null\<close> and \<open>Optional<Null>\<close>. Then so is every resolved one.
\<close>

definition proper_type :: "ty \<Rightarrow> bool" where
  "proper_type t \<longleftrightarrow> valid t \<and> Kind (UnwrapOptional t) \<noteq> ''Null''"

lemma proper_mk_kind [simp]: "proper_type (mk_kind k) \<longleftrightarrow> valid (mk_kind k) \<and> k \<noteq> ''Null''"
  by (auto simp: proper_type_def UnwrapOptional_def IsOptional_def)

lemma proper_Optional [simp]: "proper_type (Optional t) \<longleftrightarrow> valid t \<and> Kind t \<noteq> ''Null''"
  by (auto simp: proper_type_def)

lemma proper_Ty [simp]:
  "k \<noteq> ''Optional'' \<Longrightarrow> proper_type (Ty k e ke xs fs tg p s) \<longleftrightarrow> valid (Ty k e ke xs fs tg p s) \<and> k \<noteq> ''Null''"
  by (auto simp: proper_type_def)

lemma proper_sound: "proper_type t \<Longrightarrow> sound_result args t"
  by (cases "Kind t = ''Optional''") (auto simp: proper_type_def sound_result_def)

lemma matchSignature_proper:
  "matchSignature args s = Inr t \<Longrightarrow> proper_type (sig_Returns s) \<Longrightarrow> proper_type t"
  by (elim matchSignature_Inr) (auto simp: IsOptional_def proper_type_def)

locale signature_table =
  fixes table :: "string \<Rightarrow> Signature list"
  assumes returns_proper: "s \<in> set (table name) \<Longrightarrow> proper_type (sig_Returns s)"
begin

lemma resolved_proper: "resolveSignatures n args (table name) = Inr t \<Longrightarrow> proper_type t"
  by (elim resolveSignatures_match) (auto intro: matchSignature_proper returns_proper)

lemma resolved_sound: "resolveSignatures n args (table name) = Inr t \<Longrightarrow> sound_result as t"
  by (rule proper_sound) (rule resolved_proper)

end

text \<open>\<open>standardSignatures\<close>: the digests with a string input and an optional seed.\<close>

definition plain_parameter :: "ty \<Rightarrow> Parameter" where
  "plain_parameter t = \<lparr>par_Name = [], par_Type = t, par_Optional = False, par_AutoMap = False\<rparr>"

definition automap_parameter :: "ty \<Rightarrow> Parameter" where
  "automap_parameter t = (plain_parameter t)\<lparr>par_AutoMap := True\<rparr>"

definition optional_parameter :: "string \<Rightarrow> ty \<Rightarrow> Parameter" where
  "optional_parameter n t = \<lparr>par_Name = n, par_Type = t, par_Optional = True, par_AutoMap = False\<rparr>"

definition mk_signature :: "string \<Rightarrow> Parameter list \<Rightarrow> ty \<Rightarrow> Signature" where
  "mk_signature n ps r = \<lparr>sig_Name = n, sig_Arguments = ps, sig_Returns = r\<rparr>"

text \<open>The parameters of a kind: required, propagating an optional, and optional.\<close>

abbreviation req_p :: "string \<Rightarrow> Parameter" where "req_p k \<equiv> plain_parameter (mk_kind k)"

abbreviation auto_p :: "string \<Rightarrow> Parameter" where "auto_p k \<equiv> automap_parameter (mk_kind k)"

abbreviation opt_p :: "string \<Rightarrow> Parameter" where "opt_p k \<equiv> optional_parameter [] (Optional (mk_kind k))"

abbreviation named_p :: "string \<Rightarrow> string \<Rightarrow> Parameter" where
  "named_p n k \<equiv> optional_parameter n (Optional (mk_kind k))"

lemma mk_signature_sel [simp]:
  "sig_Name (mk_signature n ps r) = n" "sig_Arguments (mk_signature n ps r) = ps"
  "sig_Returns (mk_signature n ps r) = r"
  by (simp_all add: mk_signature_def)

definition standardSignatures :: "string \<Rightarrow> Signature list" where
  "standardSignatures name =
     (let stringAutoMap = (\<lambda>result. [mk_signature name [auto_p ''String''] (mk_kind result)]);
          seeded = (\<lambda>seed result. [mk_signature name [auto_p ''String'', named_p ''Init'' seed] (mk_kind result)]) in
      switch
       [([''Digest::CityHash'', ''Digest::Crc64'', ''Digest::Fnv64'', ''Digest::MurMurHash'', ''Digest::MurMurHash2A''],
         seeded ''Uint64'' ''Uint64''),
        ([''Digest::Fnv32'', ''Digest::MurMurHash32'', ''Digest::MurMurHash2A32''],
         seeded ''Uint32'' ''Uint32''),
        ([''Digest::Crc32c'', ''Digest::FarmHashFingerprint32'', ''Digest::SuperFastHash''],
         stringAutoMap ''Uint32''),
        ([''Digest::Md5Hex'', ''Digest::Md5Raw'', ''Digest::Sha1'', ''Digest::Sha256''],
         stringAutoMap ''String''),
        ([''Digest::Md5HalfMix'', ''Digest::FarmHashFingerprint64'', ''Digest::XXH3''],
         stringAutoMap ''Uint64''),
        ([''Digest::NumericHash'', ''Digest::FarmHashFingerprint'', ''Digest::IntHash64''],
         [mk_signature name [auto_p ''Uint64''] (mk_kind ''Uint64'')])]
       [] name)"

text \<open>A switch of signature lists keeps the contract when each of its cases does.\<close>

definition proper_signatures :: "Signature list \<Rightarrow> bool" where
  "proper_signatures ss \<longleftrightarrow> list_all (\<lambda>s. proper_type (sig_Returns s)) ss"

lemma proper_signatures_simps [simp]:
  "proper_signatures []"
  "proper_signatures (s # ss) \<longleftrightarrow> proper_type (sig_Returns s) \<and> proper_signatures ss"
  by (simp_all add: proper_signatures_def)

lemma signature_tableI: "(\<And>name. proper_signatures (table name)) \<Longrightarrow> signature_table table"
  by unfold_locales (auto simp: proper_signatures_def list_all_iff)

lemma switch_proper:
  "list_all (\<lambda>(labels, ss). proper_signatures ss) cases \<Longrightarrow> proper_signatures d \<Longrightarrow>
   proper_signatures (switch cases d name)"
  by (rule switch_all) (auto simp: list_all_iff)

interpretation standard: signature_table standardSignatures
  by (rule signature_tableI) (simp add: standardSignatures_def Let_def switch_proper)

section \<open>Validated signatures\<close>

text \<open>A type and the types it is made of.\<close>

inductive part_of :: "ty \<Rightarrow> ty \<Rightarrow> bool" where
  part_self: "part_of t t"
| part_Elem: "part_of u e \<Longrightarrow> Elem t = Some e \<Longrightarrow> part_of u t"
| part_Key: "part_of u k \<Longrightarrow> Key t = Some k \<Longrightarrow> part_of u t"
| part_Items: "part_of u x \<Longrightarrow> x \<in> set (Items t) \<Longrightarrow> part_of u t"
| part_Fields: "part_of u f \<Longrightarrow> (n, f) \<in> set (Fields t) \<Longrightarrow> part_of u t"

inductive_cases part_ofE: "part_of u t"

text \<open>What the declared types of a user signature must avoid, at any depth.\<close>

definition signature_part :: "ty \<Rightarrow> bool" where
  "signature_part u \<longleftrightarrow> Kind u \<noteq> ''Null''
     \<and> (Kind u = ''Optional'' \<longrightarrow> (\<exists>e. Elem u = Some e \<and> Kind e \<noteq> ''Optional''))
     \<and> (Kind u = ''Dict'' \<longrightarrow> (\<exists>k. Key u = Some k \<and> validateDictionaryKey k = None))"

lemma part_of_iff:
  "part_of u t \<longleftrightarrow> u = t \<or> (\<exists>e. Elem t = Some e \<and> part_of u e) \<or> (\<exists>k. Key t = Some k \<and> part_of u k)
     \<or> (\<exists>x\<in>set (Items t). part_of u x) \<or> (\<exists>(n, f) \<in> set (Fields t). part_of u f)"
proof
  assume "part_of u t"
  then show "u = t \<or> (\<exists>e. Elem t = Some e \<and> part_of u e) \<or> (\<exists>k. Key t = Some k \<and> part_of u k)
     \<or> (\<exists>x\<in>set (Items t). part_of u x) \<or> (\<exists>(n, f) \<in> set (Fields t). part_of u f)"
    by (rule part_ofE) auto
qed (auto intro: part_self part_Elem part_Key part_Items part_Fields)

lemma valid_Optional_shape:
  assumes "valid t" "Kind t = ''Optional''"
  shows "Key t = None \<and> Items t = [] \<and> Fields t = []"
proof -
  from assms obtain u where "t = Optional u" by (rule valid_OptionalE)
  then show ?thesis by simp
qed

lemma valid_Dict_shape: "valid t \<Longrightarrow> Kind t = ''Dict'' \<Longrightarrow> \<exists>k e. t = mk_dict k e"
  by (cases rule: valid_cases, assumption) (auto simp: is_scalar_kind_def supportedScalarKinds_def resource_kind_def has_prefix_def)

lemma validateSignatureType_None:
  "validateSignatureType t po = None \<longleftrightarrow>
     valid t \<and> (\<forall>u. part_of u t \<longrightarrow> signature_part u) \<and> (po \<longrightarrow> Kind t \<noteq> ''Optional'')"
proof (induction t arbitrary: po rule: ty_measure_induct)
  case (Type t)
  consider (null) "Kind t = ''Null''" | (opt) "Kind t = ''Optional''" | (other) "Kind t \<noteq> ''Null''" "Kind t \<noteq> ''Optional''"
    by blast
  then show ?case
  proof cases
    case null
    then show ?thesis
      by (subst validateSignatureType.simps) (auto simp: signature_part_def intro: part_self)
  next
    case opt
    show ?thesis
    proof (cases "Elem t")
      case None
      with opt show ?thesis
        by (subst validateSignatureType.simps) (auto simp: signature_part_def intro: part_self)
    next
      case (Some e)
      have v: "valid t \<Longrightarrow> valid e" using Some valid_parts(1) by blast
      have "(\<forall>u. part_of u t \<longrightarrow> signature_part u) \<longleftrightarrow> Kind e \<noteq> ''Optional'' \<and> (\<forall>u. part_of u e \<longrightarrow> signature_part u)"
        if "valid t" using valid_Optional_shape [OF that opt] Some opt
        by (subst part_of_iff) (auto simp: signature_part_def)
      then show ?thesis using opt Some Type.IH(1) [OF Some, of True] v
        by (subst validateSignatureType.simps) (auto split: option.splits)
    qed
  next
    case other
    have self: "signature_part t \<longleftrightarrow> (Kind t = ''Dict'' \<longrightarrow> (\<exists>k. Key t = Some k \<and> validateDictionaryKey k = None))"
      using other by (simp add: signature_part_def)
    have parts: "(\<forall>u. part_of u t \<longrightarrow> signature_part u) \<longleftrightarrow> signature_part t
      \<and> (\<forall>e. Elem t = Some e \<longrightarrow> (\<forall>u. part_of u e \<longrightarrow> signature_part u))
      \<and> (\<forall>k. Key t = Some k \<longrightarrow> (\<forall>u. part_of u k \<longrightarrow> signature_part u))
      \<and> (\<forall>x\<in>set (Items t). \<forall>u. part_of u x \<longrightarrow> signature_part u)
      \<and> (\<forall>(n, f)\<in>set (Fields t). \<forall>u. part_of u f \<longrightarrow> signature_part u)"
      by (subst part_of_iff) blast
    have E: "Elem t = Some e \<Longrightarrow> validateSignatureType e False = None \<longleftrightarrow> valid e \<and> (\<forall>u. part_of u e \<longrightarrow> signature_part u)" for e
      using Type.IH(1) [of e False] by simp
    have K: "Key t = Some k \<Longrightarrow> validateSignatureType k False = None \<longleftrightarrow> valid k \<and> (\<forall>u. part_of u k \<longrightarrow> signature_part u)" for k
      using Type.IH(2) [of k False] by simp
    have I: "(\<forall>x\<in>set (Items t). validateSignatureType x False = None) \<longleftrightarrow>
        (\<forall>x\<in>set (Items t). valid x \<and> (\<forall>u. part_of u x \<longrightarrow> signature_part u))"
      using Type.IH(3) [of _ False] by simp
    have F: "(\<forall>(n, f)\<in>set (Fields t). validateSignatureType f False = None) \<longleftrightarrow>
        (\<forall>(n, f)\<in>set (Fields t). valid f \<and> (\<forall>u. part_of u f \<longrightarrow> signature_part u))"
      using Type.IH(4) [of _ _ False] by fastforce
    have "validateSignatureType t po = None \<longleftrightarrow>
       valid t \<and> (\<forall>k. Key t = Some k \<longrightarrow> (Kind t = ''Dict'' \<longrightarrow> validateDictionaryKey k = None) \<and> validateSignatureType k False = None)
       \<and> (\<forall>e. Elem t = Some e \<longrightarrow> validateSignatureType e False = None)
       \<and> (\<forall>x\<in>set (Items t). validateSignatureType x False = None)
       \<and> (\<forall>(n, f)\<in>set (Fields t). validateSignatureType f False = None)"
      using other by (subst validateSignatureType.simps) (auto split: option.splits prod.splits if_splits)
    also have "\<dots> \<longleftrightarrow> valid t \<and> (\<forall>u. part_of u t \<longrightarrow> signature_part u)"
    proof (cases "valid t")
      case True
      note vp = valid_parts [OF True]
      have E': "(\<forall>e. Elem t = Some e \<longrightarrow> validateSignatureType e False = None) \<longleftrightarrow>
          (\<forall>e. Elem t = Some e \<longrightarrow> (\<forall>u. part_of u e \<longrightarrow> signature_part u))"
        using E vp(1) by blast
      have K': "(\<forall>k. Key t = Some k \<longrightarrow> (Kind t = ''Dict'' \<longrightarrow> validateDictionaryKey k = None)
             \<and> validateSignatureType k False = None) \<longleftrightarrow>
          signature_part t \<and> (\<forall>k. Key t = Some k \<longrightarrow> (\<forall>u. part_of u k \<longrightarrow> signature_part u))"
        using K vp(2) self valid_Dict_shape [OF True] by (cases "Key t") auto
      have I': "(\<forall>x\<in>set (Items t). validateSignatureType x False = None) \<longleftrightarrow>
          (\<forall>x\<in>set (Items t). \<forall>u. part_of u x \<longrightarrow> signature_part u)"
        using I vp(3) by blast
      have F': "(\<forall>(n, f)\<in>set (Fields t). validateSignatureType f False = None) \<longleftrightarrow>
          (\<forall>(n, f)\<in>set (Fields t). \<forall>u. part_of u f \<longrightarrow> signature_part u)"
        using F vp(4) by blast
      show ?thesis unfolding E' K' I' F' parts using True by blast
    qed blast
    finally show ?thesis using other by simp
  qed
qed

definition parameter_ok :: "Parameter \<Rightarrow> bool" where
  "parameter_ok p \<longleftrightarrow> validateSignatureType (par_Type p) False = None
     \<and> (par_Name p \<noteq> [] \<longrightarrow> IsParameterIdentifier (par_Name p))
     \<and> (par_AutoMap p \<longrightarrow> \<not> IsOptional (par_Type p))"

definition parameter_names :: "Parameter list \<Rightarrow> string list" where
  "parameter_names ps = filter (\<lambda>n. n \<noteq> []) (map par_Name ps)"

lemma parameter_names_simps [simp]:
  "parameter_names [] = []"
  "parameter_names (p # ps) = (if par_Name p \<noteq> [] then par_Name p # parameter_names ps else parameter_names ps)"
  by (simp_all add: parameter_names_def)

lemma validate_parameters_Cons:
  "validate_parameters i seen os (p # ps) = None \<longleftrightarrow>
     parameter_ok p \<and> (par_Name p \<noteq> [] \<longrightarrow> par_Name p \<notin> set seen) \<and> (os \<longrightarrow> par_Optional p)
     \<and> validate_parameters (i + 1) (if par_Name p \<noteq> [] then par_Name p # seen else seen) (os \<or> par_Optional p) ps = None"
  by (auto simp: parameter_ok_def split: option.splits)

lemma validate_parameters_None:
  "validate_parameters i seen os ps = None \<longleftrightarrow>
     list_all parameter_ok ps \<and> distinct (parameter_names ps) \<and> set (parameter_names ps) \<inter> set seen = {}
     \<and> (os \<longrightarrow> list_all par_Optional ps)
     \<and> sorted_wrt (\<lambda>p q. par_Optional p \<longrightarrow> par_Optional q) ps"
proof (induction ps arbitrary: i seen os)
  case (Cons p ps)
  have "sorted_wrt (\<lambda>p q. par_Optional p \<longrightarrow> par_Optional q) (p # ps) \<longleftrightarrow>
      (par_Optional p \<longrightarrow> list_all par_Optional ps) \<and> sorted_wrt (\<lambda>p q. par_Optional p \<longrightarrow> par_Optional q) ps"
    by (auto simp: list_all_iff)
  then show ?case
    unfolding validate_parameters_Cons Cons.IH by (simp only: list.pred_inject parameter_names_simps) auto
qed simp

text \<open>A signature that passes validation, as the overload rules use it.\<close>

lemma validateSignature_None:
  assumes "validateSignature s = None"
  shows "IsFunctionIdentifier (sig_Name s)" "proper_type (sig_Returns s)"
    and "p \<in> set (sig_Arguments s) \<Longrightarrow> proper_type (par_Type p)"
    and "distinct (parameter_names (sig_Arguments s))"
proof -
  have *: "proper_type t" if "validateSignatureType t False = None" for t
  proof -
    from that have v: "valid t" and p: "\<And>u. part_of u t \<Longrightarrow> signature_part u"
      by (simp_all add: validateSignatureType_None)
    have "Kind (UnwrapOptional t) \<noteq> ''Null''"
    proof (cases "Kind t = ''Optional''")
      case True
      with v obtain u where t: "t = Optional u" by (rule valid_OptionalE)
      then have "part_of u t" by (auto intro: part_Elem part_self)
      with p t show ?thesis by (auto simp: signature_part_def)
    next
      case False
      with p [OF part_self] show ?thesis by (simp add: signature_part_def)
    qed
    with v show ?thesis by (simp add: proper_type_def)
  qed
  from assms have "validateSignatureType (sig_Returns s) False = None"
      "validate_parameters 0 [] False (sig_Arguments s) = None" "IsFunctionIdentifier (sig_Name s)"
    by (auto simp: validateSignature_def split: option.splits if_splits)
  then show "IsFunctionIdentifier (sig_Name s)" "proper_type (sig_Returns s)"
    "p \<in> set (sig_Arguments s) \<Longrightarrow> proper_type (par_Type p)"
    "distinct (parameter_names (sig_Arguments s))"
    using * by (auto simp: validate_parameters_None parameter_ok_def list_all_iff)
qed

end
