(* ===== verification/StringUdf.thy ===== *)
theory StringUdf
  imports Signatures
begin

text \<open>
  \<open>internal/yql/builtins/udf_string_unicode_url.go\<close>: the catalog of the \<open>String::\<close>,
  \<open>Unicode::\<close> and \<open>Url::\<close> functions that are described by signatures. The catalog is shown to
  keep the contract of \<open>signature_table\<close>.
\<close>

definition url_parse_fields :: "(string \<times> ty) list" where
  "url_parse_fields = map (\<lambda>field. (field, Optional (mk_kind ''String'')))
     [''Frag'', ''Host'', ''ParseError'', ''Pass'', ''Path'', ''Port'', ''Query'', ''Scheme'', ''User'']"

text \<open>The overloads of \<open>Url::BuildQueryString\<close> differ in their first parameter.\<close>

definition build_query_inputs :: "ty list" where
  "build_query_inputs =
     (let t = mk_kind ''String''; listStrings = mk_list (Optional t) in
      [mk_dict t (mk_list t), mk_dict t listStrings, mk_dict t t, mk_dict t (Optional t),
       mk_list (mk_tuple [t, t]), mk_list (mk_tuple [t, Optional t])])"

definition stringUnicodeUrlSignatures :: "string \<Rightarrow> Signature list" where
  "stringUnicodeUrlSignatures name =
     (let t = mk_kind;
          opt_req = (\<lambda>ty. plain_parameter (Optional ty));
          sig = (\<lambda>result args. [mk_signature name args result]) in
      switch
       [([''String::Base32Encode'', ''String::BinText'', ''String::HexText''],
          sig (t ''String'') [auto_p ''String'']),
        ([''String::Base32Decode'', ''String::Base32StrictDecode''],
          sig (Optional (t ''String'')) [req_p ''String'']),
        ([''String::IsAscii'', ''String::IsAsciiSpace'', ''String::IsAsciiUpper'', ''String::IsAsciiLower'',
          ''String::IsAsciiAlpha'', ''String::IsAsciiAlnum'', ''String::IsAsciiHex''],
          sig (t ''Bool'') [auto_p ''String'']),
        ([''String::Hex'', ''String::Bin'', ''String::HumanReadableDuration'',
          ''String::HumanReadableQuantity'', ''String::HumanReadableBytes''],
          sig (t ''String'') [auto_p ''Uint64'']),
        ([''String::SHex'', ''String::SBin''],
          sig (t ''String'') [auto_p ''Int64'']),
        ([''String::Contains'', ''String::HasPrefix'', ''String::HasPrefixIgnoreCase'',
          ''String::StartsWith'', ''String::StartsWithIgnoreCase'', ''String::HasSuffix'',
          ''String::HasSuffixIgnoreCase'', ''String::EndsWith'', ''String::EndsWithIgnoreCase''],
          sig (t ''Bool'') [opt_req (t ''String''), req_p ''String'']),
        ([''String::Reverse''],
          sig (Optional (t ''String'')) [opt_req (t ''String'')]),
        ([''String::CollapseText'', ''String::RightPad'', ''String::LeftPad''],
          sig (t ''String'') ([auto_p ''String'', req_p ''Uint64''] @ (if name \<noteq>
           ''String::CollapseText'' then [opt_p ''String''] else []))),
        ([''String::Prec''],
          sig (t ''String'') [auto_p ''Double'', req_p ''Uint64'']),
        ([''String::RemoveAll'', ''String::RemoveFirst'', ''String::RemoveLast''],
          sig (t ''String'') [auto_p ''String'', req_p ''String'']),
        ([''String::LevensteinDistance''],
          sig (t ''Uint64'') [auto_p ''String'', auto_p ''String'']),
        ([''String::JoinFromList''],
          sig (t ''String'') [automap_parameter (mk_list (t ''String'')), req_p ''String'']),
        ([''String::ToByteList''],
          sig (mk_list (t ''Uint8'')) [req_p ''String'']),
        ([''String::FromByteList''],
          sig (t ''String'') [plain_parameter (mk_list (t ''Uint8''))]),
        ([''String::SplitToList''],
          sig (mk_list (t ''String'')) [opt_req (t ''String''), req_p ''String'', named_p ''DelimeterString''
           ''Bool'', named_p ''SkipEmpty'' ''Bool'', named_p ''Limit'' ''Uint64'']),
        ([''Unicode::IsAscii'', ''Unicode::IsSpace'', ''Unicode::IsUpper'', ''Unicode::IsLower'',
          ''Unicode::IsAlpha'', ''Unicode::IsAlnum'', ''Unicode::IsHex''],
          sig (t ''Bool'') [auto_p ''Utf8'']),
        ([''Unicode::IsUnicodeSet''],
          sig (t ''Bool'') [auto_p ''Utf8'', req_p ''Utf8'']),
        ([''Unicode::Strip'', ''Unicode::Reverse''],
          sig (t ''Utf8'') [auto_p ''Utf8'']),
        ([''Unicode::RemoveAll'', ''Unicode::RemoveFirst'', ''Unicode::RemoveLast''],
          sig (t ''Utf8'') [auto_p ''Utf8'', req_p ''Utf8'']),
        ([''Unicode::ReplaceAll'', ''Unicode::ReplaceFirst'', ''Unicode::ReplaceLast''],
          sig (t ''Utf8'') [auto_p ''Utf8'', req_p ''Utf8'', req_p ''Utf8'']),
        ([''Unicode::LevensteinDistance''],
          sig (t ''Uint64'') [auto_p ''Utf8'', auto_p ''Utf8'']),
        ([''Unicode::ToCodePointList''],
          sig (mk_list (t ''Uint32'')) [auto_p ''Utf8'']),
        ([''Unicode::FromCodePointList''],
          sig (t ''Utf8'') [automap_parameter (mk_list (t ''Uint32''))]),
        ([''Unicode::JoinFromList''],
          sig (t ''Utf8'') [automap_parameter (mk_list (t ''Utf8'')), req_p ''Utf8'']),
        ([''Unicode::Translit''],
          sig (t ''Utf8'') [auto_p ''Utf8'', named_p ''lang'' ''String'']),
        ([''Unicode::ToUint64''],
          sig (t ''Uint64'') [auto_p ''Utf8'', named_p ''prefix'' ''Uint16'']),
        ([''Unicode::TryToUint64''],
          sig (Optional (t ''Uint64'')) [auto_p ''Utf8'', named_p ''prefix'' ''Uint16'']),
        ([''Unicode::Fold''],
          sig (t ''Utf8'') [auto_p ''Utf8'', named_p ''Language'' ''String'', named_p ''DoLowerCase''
           ''Bool'', named_p ''DoRenyxa'' ''Bool'', named_p ''DoSimpleCyr'' ''Bool'', named_p ''FillOffset''
           ''Bool'']),
        ([''Unicode::SplitToList''],
          sig (mk_list (t ''Utf8'')) [opt_req (t ''Utf8''), req_p ''Utf8'', named_p ''DelimeterString''
           ''Bool'', named_p ''SkipEmpty'' ''Bool'', named_p ''Limit'' ''Uint64'']),
        ([''Url::GetScheme'', ''Url::GetTLD'', ''Url::GetOwner'', ''Url::CutQueryStringAndFragment'',
          ''Url::ForceHostNameToPunycode'', ''Url::ForcePunycodeToHostName''],
          sig (t ''String'') [auto_p ''String'']),
        ([''Url::IsKnownTLD'', ''Url::IsWellKnownTLD'', ''Url::CanBePunycodeHostName''],
          sig (t ''Bool'') [auto_p ''String'']),
        ([''Url::GetDomainLevel''],
          sig (t ''Uint64'') [auto_p ''String'']),
        ([''Url::HostNameToPunycode'', ''Url::PunycodeToHostName''],
          sig (Optional (t ''String'')) [auto_p ''String'']),
        ([''Url::Encode'', ''Url::Decode'', ''Url::NormalizeWithDefaultHttpScheme'', ''Url::GetHost'',
          ''Url::GetHostPort'', ''Url::GetSchemeHost'', ''Url::GetSchemeHostPort'', ''Url::GetPort'',
          ''Url::GetTail'', ''Url::GetPath'', ''Url::GetFragment'', ''Url::CutScheme'', ''Url::CutWWW'',
          ''Url::CutWWW2''],
          sig (Optional (t ''String'')) [opt_req (t ''String'')]),
        ([''Url::Normalize''],
          sig (Optional (t ''String'')) [req_p ''String'']),
        ([''Url::GetCGIParam''],
          sig (Optional (t ''String'')) [opt_req (t ''String''), req_p ''String'']),
        ([''Url::GetDomain''],
          sig (Optional (t ''String'')) [opt_req (t ''String''), req_p ''Uint8'']),
        ([''Url::GetSignificantDomain''],
          sig (t ''String'') [auto_p ''String'', optional_parameter [] (Optional (mk_list (t ''String'')))]),
        ([''Url::Parse''],
          sig (mk_struct url_parse_fields) [auto_p ''String'']),
        ([''Url::QueryStringToList'', ''Url::QueryStringToDict''],
          sig (if name = ''Url::QueryStringToDict'' then mk_dict (t ''String'') (mk_list (t ''String''))
            else mk_list (mk_tuple [t ''String'', t ''String'']))
          [auto_p ''String'', named_p ''KeepBlankValues'' ''Bool'', named_p ''Strict'' ''Bool'',
           named_p ''MaxFields'' ''Uint32'', named_p ''Separator'' ''String'']),
        ([''Url::BuildQueryString''],
          map (\<lambda>input. mk_signature name [automap_parameter input, named_p ''Separator'' ''String''] (t ''String''))
          build_query_inputs)]
       [] name)"

interpretation string_udf: signature_table stringUnicodeUrlSignatures
proof (rule signature_tableI)
  fix name
  show "proper_signatures (stringUnicodeUrlSignatures name)"
    unfolding stringUnicodeUrlSignatures_def Let_def
    by (rule switch_proper) (simp_all add: url_parse_fields_def build_query_inputs_def Let_def)
qed

end
