(* ===== verification/DateTimeUdf.thy ===== *)
theory DateTimeUdf
  imports Signatures
begin

text \<open>
  \<open>internal/yql/builtins/udf_datetime_digest_ip_math.go\<close>: the \<open>DateTime::\<close>, \<open>Digest::\<close>,
  \<open>Ip::\<close> and \<open>Math::\<close> modules. Each lookup is shown to keep the contract of
  \<open>resolver_table\<close>, and the chain of them by the locale \<open>resolver_tables\<close>.
\<close>

section \<open>Resolvers from signatures\<close>

definition dateTimeTM :: string where "dateTimeTM = ''Resource<'DateTime2.TM'>''"

definition dateTimeTM64 :: string where "dateTimeTM64 = ''Resource<'DateTime2.TM64'>''"

definition udfResolver :: "string \<Rightarrow> Signature list \<Rightarrow> functionResolver" where
  "udfResolver name signatures args = resolveSignatures name (map plain_argument args) signatures"

section \<open>DateTime\<close>

definition dateTimeResourceArgument :: "string \<Rightarrow> ty list \<Rightarrow> (string \<times> bool) res" where
  "dateTimeResourceArgument name args =
     check_then (arity name args 1)
     (and_then (baseType (args ! 0)) (\<lambda>(base, nullable).
        if Kind base = dateTimeTM \<or> isBasicDateTime (Kind base) then Inr (dateTimeTM, nullable)
        else if Kind base = dateTimeTM64 \<or> isExtendedDateTime (Kind base) then Inr (dateTimeTM64, nullable)
        else Inl (Errorf ''%s argument 1 must be a DateTime resource or primitive date/time value'' [FStr name])))"

definition resolveDateTimeSplit :: "string \<Rightarrow> functionResolver" where
  "resolveDateTimeSplit name args =
     check_then (arity name args 1)
     (and_then (baseType (args ! 0)) (\<lambda>(base, nullable).
        if isBasicDateTime (Kind base) then Inr (withOptional (mk_kind dateTimeTM) nullable)
        else if isExtendedDateTime (Kind base) then Inr (withOptional (mk_kind dateTimeTM64) nullable)
        else Inl (Errorf ''%s argument 1 must be a primitive date/time value'' [FStr name])))"

definition resolveDateTimeGet :: "string \<Rightarrow> functionResolver" where
  "resolveDateTimeGet name args =
     and_then (dateTimeResourceArgument name args) (\<lambda>(resource, nullable).
       let result = switch
         [([''DateTime::GetYear''], if resource = dateTimeTM64 then ''Int32'' else ''Uint16''),
          ([''DateTime::GetDayOfYear'', ''DateTime::GetTimezoneId''], ''Uint16''),
          ([''DateTime::GetMillisecondOfSecond'', ''DateTime::GetMicrosecondOfSecond''], ''Uint32''),
          ([''DateTime::GetMonthName'', ''DateTime::GetDayOfWeekName'', ''DateTime::GetTimezoneName''], ''String'')]
         ''Uint8'' name in
       Inr (withOptional (mk_kind result) nullable))"

text \<open>The result kind is the rest of the name after \<open>DateTime::Make\<close> (14 characters).\<close>

definition resolveDateTimeMake :: "string \<Rightarrow> functionResolver" where
  "resolveDateTimeMake name args =
     and_then (dateTimeResourceArgument name args) (\<lambda>(resource, nullable).
       let result = drop (length ''DateTime::Make'') name;
           wantsWide = result \<in> {''Date32'', ''TzDate32'', ''Datetime64'', ''TzDatetime64'', ''Timestamp64'', ''TzTimestamp64''};
           required = (if wantsWide then dateTimeTM64 else dateTimeTM) in
       if resource \<noteq> required then Inl (Errorf ''%s argument 1 requires %s'' [FStr name, FStr required])
       else Inr (withOptional (mk_kind result) nullable))"

definition date_time_from :: "string \<Rightarrow> string \<times> string" where
  "date_time_from name = switch
     [([''DateTime::FromSeconds''], (''Uint32'', ''Timestamp'')),
      ([''DateTime::FromMilliseconds'', ''DateTime::FromMicroseconds''], (''Uint64'', ''Timestamp'')),
      ([''DateTime::FromSeconds64'', ''DateTime::FromMilliseconds64'', ''DateTime::FromMicroseconds64''],
        (''Int64'', ''Timestamp64'')),
      ([''DateTime::IntervalFromDays'', ''DateTime::IntervalFromHours'', ''DateTime::IntervalFromMinutes''],
        (''Int32'', ''Interval'')),
      ([''DateTime::IntervalFromSeconds'', ''DateTime::IntervalFromMilliseconds'', ''DateTime::IntervalFromMicroseconds''],
        (''Int64'', ''Interval'')),
      ([''DateTime::Interval64FromDays''], (''Int32'', ''Interval64'')),
      ([''DateTime::Interval64FromHours'', ''DateTime::Interval64FromMinutes'', ''DateTime::Interval64FromSeconds'',
        ''DateTime::Interval64FromMilliseconds'', ''DateTime::Interval64FromMicroseconds''], (''Int64'', ''Interval64''))]
     ([], []) name"

definition resolveDateTimeFrom :: "string \<Rightarrow> functionResolver" where
  "resolveDateTimeFrom name args =
     (let (input, output) = date_time_from name in
      udfResolver name [mk_signature name [auto_p input] (Optional (mk_kind output))] args)"

definition resolveDateTimeTo :: "string \<Rightarrow> functionResolver" where
  "resolveDateTimeTo name args =
     check_then (arity name args 1)
     (and_then (baseType (args ! 0)) (\<lambda>(base, nullable).
       let coarse = (name = ''DateTime::ToDays'' \<or> name = ''DateTime::ToHours'' \<or> name = ''DateTime::ToMinutes'');
           result = switch
             [([''Interval'', ''Interval64''],
                if name = ''DateTime::ToDays'' then ''Int32''
                else if name = ''DateTime::ToHours'' \<or> name = ''DateTime::ToMinutes'' then
                  (if Kind base = ''Interval64'' then ''Int64'' else ''Int32'')
                else ''Int64''),
              ([''Date'', ''Datetime'', ''Timestamp'', ''TzDate'', ''TzDatetime'', ''TzTimestamp''],
                if name = ''DateTime::ToSeconds'' then ''Uint32'' else if \<not> coarse then ''Uint64'' else []),
              ([''Date32'', ''Datetime64'', ''Timestamp64'', ''TzDate32'', ''TzDatetime64'', ''TzTimestamp64''],
                if \<not> coarse then ''Int64'' else [])]
             [] (Kind base) in
       if result = [] then Inl (Errorf ''%s argument 1 does not accept %s'' [FStr name, FType (args ! 0)])
       else Inr (withOptional (mk_kind result) nullable)))"

text \<open>One overload per accepted input, each with the same named optional parts.\<close>

definition dateTimeUpdateSignatures :: "Signature list" where
  "dateTimeUpdateSignatures =
     map (\<lambda>input.
       let wide = (input = dateTimeTM64 \<or> isExtendedDateTime input);
           resource = (if wide then dateTimeTM64 else dateTimeTM);
           year = (if wide then ''Int32'' else ''Uint16'');
           parameters = auto_p input # map (\<lambda>(n, k). named_p n k)
             [(''Year'', year), (''Month'', ''Uint8''), (''Day'', ''Uint8''), (''Hour'', ''Uint8''),
              (''Minute'', ''Uint8''), (''Second'', ''Uint8''), (''Microsecond'', ''Uint32''), (''TimezoneId'', ''Uint16'')] in
       mk_signature ''DateTime::Update'' parameters (Optional (mk_kind resource)))
     [dateTimeTM, ''Date'', ''TzDate'', ''Datetime'', ''TzDatetime'', ''Timestamp'', ''TzTimestamp'',
      dateTimeTM64, ''Date32'', ''TzDate32'', ''Datetime64'', ''TzDatetime64'', ''Timestamp64'', ''TzTimestamp64'']"

definition resolveDateTimeBoundary :: "string \<Rightarrow> functionResolver" where
  "resolveDateTimeBoundary name args =
     and_then (dateTimeResourceArgument name args) (\<lambda>(resource, nullable).
       if name = ''DateTime::TimeOfDay'' then
         (if resource = dateTimeTM64 then Inr (withOptional (mk_kind ''Interval64'') nullable)
          else Inr (withOptional (mk_kind ''Interval'') nullable))
       else Inr (Optional (mk_kind resource)))"

definition resolveDateTimeBoundaryInterval :: "string \<Rightarrow> functionResolver" where
  "resolveDateTimeBoundaryInterval name args =
     (if length args \<noteq> 2 then
        Inl (Errorf ''%s expects 2 arguments, got %d'' [FStr name, FNat (length args)])
      else and_then (dateTimeResourceArgument name (take 1 args)) (\<lambda>(resource, _).
        check_then (requireOptionalScalar name args 1
            (if resource = dateTimeTM64 then ''Interval64'' else ''Interval''))
          (Inr (Optional (mk_kind resource)))))"

definition resolveDateTimeShift :: "string \<Rightarrow> functionResolver" where
  "resolveDateTimeShift name args =
     (if length args \<noteq> 2 then
        Inl (Errorf ''%s expects 2 arguments, got %d'' [FStr name, FNat (length args)])
      else and_then (dateTimeResourceArgument name (take 1 args)) (\<lambda>(resource, _).
        check_then (requireExact name args 1 ''Int32'') (Inr (Optional (mk_kind resource)))))"

definition dateTimeFormatSignature :: "string \<Rightarrow> Signature" where
  "dateTimeFormatSignature name = mk_signature name
     [req_p ''String'', named_p ''AlwaysWriteFractionalSeconds'' ''Bool'', named_p ''WriteOffsetWithColon'' ''Bool'']
     (mk_callable [mk_kind dateTimeTM64] (mk_kind ''String''))"

definition lookupDateTimeUDF :: "string \<Rightarrow> functionResolver option" where
  "lookupDateTimeUDF name = switch
     [([''DateTime::Split''], Some (resolveDateTimeSplit name)),
      ([''DateTime::GetYear'', ''DateTime::GetDayOfYear'', ''DateTime::GetMonth'', ''DateTime::GetMonthName'',
        ''DateTime::GetWeekOfYear'', ''DateTime::GetWeekOfYearIso8601'', ''DateTime::GetDayOfMonth'',
        ''DateTime::GetDayOfWeek'', ''DateTime::GetDayOfWeekName'', ''DateTime::GetHour'',
        ''DateTime::GetMinute'', ''DateTime::GetSecond'', ''DateTime::GetMillisecondOfSecond'',
        ''DateTime::GetMicrosecondOfSecond'', ''DateTime::GetTimezoneId'', ''DateTime::GetTimezoneName''],
        Some (resolveDateTimeGet name)),
      ([''DateTime::MakeDate'', ''DateTime::MakeTzDate'', ''DateTime::MakeDate32'', ''DateTime::MakeTzDate32'',
        ''DateTime::MakeDatetime'', ''DateTime::MakeTzDatetime'', ''DateTime::MakeDatetime64'',
        ''DateTime::MakeTzDatetime64'', ''DateTime::MakeTimestamp'', ''DateTime::MakeTzTimestamp'',
        ''DateTime::MakeTimestamp64'', ''DateTime::MakeTzTimestamp64''], Some (resolveDateTimeMake name)),
      ([''DateTime::FromSeconds'', ''DateTime::FromSeconds64'', ''DateTime::FromMilliseconds'',
        ''DateTime::FromMilliseconds64'', ''DateTime::FromMicroseconds'', ''DateTime::FromMicroseconds64'',
        ''DateTime::IntervalFromDays'', ''DateTime::Interval64FromDays'', ''DateTime::IntervalFromHours'',
        ''DateTime::Interval64FromHours'', ''DateTime::IntervalFromMinutes'', ''DateTime::Interval64FromMinutes'',
        ''DateTime::IntervalFromSeconds'', ''DateTime::Interval64FromSeconds'',
        ''DateTime::IntervalFromMilliseconds'', ''DateTime::Interval64FromMilliseconds'',
        ''DateTime::IntervalFromMicroseconds'', ''DateTime::Interval64FromMicroseconds''],
        Some (resolveDateTimeFrom name)),
      ([''DateTime::ToDays'', ''DateTime::ToHours'', ''DateTime::ToMinutes'', ''DateTime::ToSeconds'',
        ''DateTime::ToMilliseconds'', ''DateTime::ToMicroseconds''], Some (resolveDateTimeTo name)),
      ([''DateTime::Update''], Some (udfResolver name dateTimeUpdateSignatures)),
      ([''DateTime::StartOfYear'', ''DateTime::EndOfYear'', ''DateTime::StartOfQuarter'', ''DateTime::EndOfQuarter'',
        ''DateTime::StartOfMonth'', ''DateTime::EndOfMonth'', ''DateTime::StartOfWeek'', ''DateTime::EndOfWeek'',
        ''DateTime::StartOfDay'', ''DateTime::EndOfDay'', ''DateTime::TimeOfDay''],
        Some (resolveDateTimeBoundary name)),
      ([''DateTime::StartOf'', ''DateTime::EndOf''], Some (resolveDateTimeBoundaryInterval name)),
      ([''DateTime::ShiftYears'', ''DateTime::ShiftQuarters'', ''DateTime::ShiftMonths''],
        Some (resolveDateTimeShift name)),
      ([''DateTime::Format''], Some (udfResolver name [dateTimeFormatSignature name])),
      ([''DateTime::Parse'', ''DateTime::Parse64''],
        Some (udfResolver name [mk_signature name [req_p ''String'']
          (mk_callable [mk_kind ''String'']
            (Optional (mk_kind (if name = ''DateTime::Parse64'' then dateTimeTM64 else dateTimeTM))))])),
      ([''DateTime::ParseRfc822'', ''DateTime::ParseIso8601'', ''DateTime::ParseHttp'', ''DateTime::ParseX509''],
        Some (udfResolver name [mk_signature name [auto_p ''String''] (Optional (mk_kind dateTimeTM))]))]
     None name"

section \<open>Digest and Ip\<close>

definition lookupDigestUDF :: "string \<Rightarrow> functionResolver option" where
  "lookupDigestUDF name =
     (let udf = (\<lambda>result parameters. Some (udfResolver name [mk_signature name parameters result]));
          stringAuto = auto_p ''String''; u64 = mk_kind ''Uint64'' in
      switch
     [([''Digest::CityHash128'', ''Digest::FarmHashFingerprint128'', ''Digest::XXH3_128''],
        udf (mk_tuple [u64, u64]) [stringAuto]),
      ([''Digest::Argon2''], udf (mk_kind ''String'') [stringAuto, stringAuto]),
      ([''Digest::Blake2B''], udf (mk_kind ''String'') [stringAuto, opt_p ''String'']),
      ([''Digest::SipHash''], udf u64 [req_p ''Uint64'', req_p ''Uint64'', stringAuto]),
      ([''Digest::HighwayHash''],
        udf u64 [req_p ''Uint64'', req_p ''Uint64'', req_p ''Uint64'', req_p ''Uint64'', stringAuto]),
      ([''Digest::FarmHashFingerprint2''], udf u64 [auto_p ''Uint64'', auto_p ''Uint64''])]
     None name)"

definition lookupIpUDF :: "string \<Rightarrow> functionResolver option" where
  "lookupIpUDF name =
     (let udf = (\<lambda>result parameters. Some (udfResolver name [mk_signature name parameters result]));
          stringAuto = auto_p ''String'' in
      switch
     [([''Ip::FromString'', ''Ip::SubnetFromString''], udf (Optional (mk_kind ''String'')) [stringAuto]),
      ([''Ip::ToString'', ''Ip::SubnetToString'', ''Ip::ConvertToIPv6''], udf (mk_kind ''String'') [stringAuto]),
      ([''Ip::IsIPv4'', ''Ip::IsIPv6'', ''Ip::IsEmbeddedIPv4''],
        udf (mk_kind ''Bool'') [plain_parameter (Optional (mk_kind ''String''))]),
      ([''Ip::GetSubnet''], udf (mk_kind ''String'') [stringAuto, opt_p ''Uint8'']),
      ([''Ip::GetSubnetByMask''], udf (mk_kind ''String'') [stringAuto, stringAuto]),
      ([''Ip::SubnetMatch''], udf (mk_kind ''Bool'') [stringAuto, stringAuto])]
     None name)"

section \<open>Math\<close>

definition mathNumericInput :: "string \<Rightarrow> bool" where
  "mathNumericInput kind \<longleftrightarrow> kind \<in> {''Uint8'', ''Int8'', ''Uint16'', ''Int16'', ''Uint32'', ''Int32'',
     ''Uint64'', ''Int64'', ''Float'', ''Double''}"

definition mathRoundingMode :: ty where
  "mathRoundingMode = mk_tagged (mk_kind ''Uint32'') ''MathRoundingMode''"

text \<open>The loop of \<open>mathResolver\<close>: a number given for a \<open>Double\<close> parameter becomes a \<open>Double\<close>.\<close>

definition math_convert :: "Parameter \<Rightarrow> ty \<Rightarrow> ty" where
  "math_convert parameter arg =
     (case baseType (par_Type parameter) of
        Inl err \<Rightarrow> arg
      | Inr (expected, _) \<Rightarrow>
          if Kind expected \<noteq> ''Double'' then arg
          else (case baseType arg of
              Inl err \<Rightarrow> arg
            | Inr (actual, nullable) \<Rightarrow>
                if \<not> mathNumericInput (Kind actual) then arg
                else withOptional (mk_kind ''Double'') nullable))"

fun math_convert_all :: "Parameter list \<Rightarrow> ty list \<Rightarrow> ty list" where
  "math_convert_all (p # ps) (a # args) = math_convert p a # math_convert_all ps args"
| "math_convert_all [] args = args"
| "math_convert_all ps [] = []"

definition mathResolver :: "string \<Rightarrow> Signature \<Rightarrow> functionResolver" where
  "mathResolver name signature args =
     udfResolver name [signature] (math_convert_all (sig_Arguments signature) args)"

definition lookupMathUDF :: "string \<Rightarrow> functionResolver option" where
  "lookupMathUDF name =
     (let udf = (\<lambda>result parameters. Some (udfResolver name [mk_signature name parameters result]));
          math = (\<lambda>result parameters. Some (mathResolver name (mk_signature name parameters result)));
          doubleAuto = auto_p ''Double''; double = mk_kind ''Double'' in
      switch
     [([''Math::Pi'', ''Math::E'', ''Math::Eps''], udf double []),
      ([''Math::IsInf'', ''Math::IsNaN'', ''Math::IsFinite''], math (mk_kind ''Bool'') [doubleAuto]),
      ([''Math::Abs'', ''Math::Acos'', ''Math::Asin'', ''Math::Asinh'', ''Math::Atan'', ''Math::Cbrt'',
        ''Math::Ceil'', ''Math::Cos'', ''Math::Cosh'', ''Math::Erf'', ''Math::ErfInv'', ''Math::ErfcInv'',
        ''Math::Exp'', ''Math::Exp2'', ''Math::Fabs'', ''Math::Floor'', ''Math::Lgamma'', ''Math::Rint'',
        ''Math::Sigmoid'', ''Math::Sin'', ''Math::Sinh'', ''Math::Sqrt'', ''Math::Tan'', ''Math::Tanh'',
        ''Math::Tgamma'', ''Math::Trunc'', ''Math::Log'', ''Math::Log2'', ''Math::Log10''],
        math double [doubleAuto]),
      ([''Math::Atan2'', ''Math::Fmod'', ''Math::Hypot'', ''Math::Pow'', ''Math::Remainder''],
        math double [doubleAuto, doubleAuto]),
      ([''Math::Ldexp''], math double [doubleAuto, auto_p ''Int32'']),
      ([''Math::Round''], math double [doubleAuto, opt_p ''Int32'']),
      ([''Math::FuzzyEquals''], math (mk_kind ''Bool'') [doubleAuto, doubleAuto, opt_p ''Double'']),
      ([''Math::Mod'', ''Math::Rem''], udf (Optional (mk_kind ''Int64'')) [auto_p ''Int64'', req_p ''Int64'']),
      ([''Math::RoundDownward'', ''Math::RoundToNearest'', ''Math::RoundTowardZero'', ''Math::RoundUpward''],
        udf mathRoundingMode []),
      ([''Math::NearbyInt''],
        math (Optional (mk_kind ''Int64'')) [doubleAuto, plain_parameter mathRoundingMode])]
     None name)"

definition lookupDateTimeDigestIpMath :: "string \<Rightarrow> functionResolver option" where
  "lookupDateTimeDigestIpMath =
     first_table (first_table lookupDateTimeUDF lookupDigestUDF) (first_table lookupIpUDF lookupMathUDF)"

section \<open>Every module keeps the contract\<close>

lemma valid_dateTime [simp]: "valid (mk_kind dateTimeTM)" "valid (mk_kind dateTimeTM64)"
  by (simp_all add: valid_mk_kind_iff resource_kind_def has_prefix_def has_suffix_def dateTimeTM_def dateTimeTM64_def)

lemma dateTime_not_Null [simp]: "dateTimeTM \<noteq> ''Null''" "dateTimeTM64 \<noteq> ''Null''"
  "dateTimeTM \<noteq> ''Optional''" "dateTimeTM64 \<noteq> ''Optional''"
  by (simp_all add: dateTimeTM_def dateTimeTM64_def)

lemma udfResolver_sound: "proper_signatures ss \<Longrightarrow> udfResolver name ss args = Inr t \<Longrightarrow> sound_result args' t"
  unfolding udfResolver_def proper_signatures_def list_all_iff
  by (elim resolveSignatures_match) (auto intro!: proper_sound elim: matchSignature_proper)

lemma udfResolver_sound_resolver [simp]: "proper_signatures ss \<Longrightarrow> sound_resolver (udfResolver name ss)"
  by (rule sound_resolverI) (rule udfResolver_sound)

lemma mathResolver_sound_resolver [simp]:
  "proper_type (sig_Returns s) \<Longrightarrow> sound_resolver (mathResolver name s)"
  by (rule sound_resolverI) (auto simp: mathResolver_def elim: udfResolver_sound [rotated])

lemma dateTimeResourceArgument_Inr:
  "dateTimeResourceArgument name args = Inr (r, n) \<Longrightarrow> length args = 1 \<and> (r = dateTimeTM \<or> r = dateTimeTM64)"
  by (auto simp: dateTimeResourceArgument_def result_simps split: if_splits)

lemma sound_resource [simp]:
  "r = dateTimeTM \<or> r = dateTimeTM64 \<Longrightarrow> valid (mk_kind r)"
  by auto

lemma resolveDateTimeSplit_sound: "resolveDateTimeSplit name args = Inr t \<Longrightarrow> sound_result args t"
  by (auto simp: resolveDateTimeSplit_def result_simps split: if_splits)

lemma get_kinds: "switch
         [([''DateTime::GetYear''], if wide then ''Int32'' else ''Uint16''),
          ([''DateTime::GetDayOfYear'', ''DateTime::GetTimezoneId''], ''Uint16''),
          ([''DateTime::GetMillisecondOfSecond'', ''DateTime::GetMicrosecondOfSecond''], ''Uint32''),
          ([''DateTime::GetMonthName'', ''DateTime::GetDayOfWeekName'', ''DateTime::GetTimezoneName''], ''String'')]
         ''Uint8'' name \<in> {''Int32'', ''Uint16'', ''Uint32'', ''String'', ''Uint8''}"
  by (rule switch_all) auto

lemma resolveDateTimeGet_sound: "resolveDateTimeGet name args = Inr t \<Longrightarrow> sound_result args t"
proof -
  assume "resolveDateTimeGet name args = Inr t"
  then obtain r n where "t = withOptional (mk_kind (switch
         [([''DateTime::GetYear''], if r = dateTimeTM64 then ''Int32'' else ''Uint16''),
          ([''DateTime::GetDayOfYear'', ''DateTime::GetTimezoneId''], ''Uint16''),
          ([''DateTime::GetMillisecondOfSecond'', ''DateTime::GetMicrosecondOfSecond''], ''Uint32''),
          ([''DateTime::GetMonthName'', ''DateTime::GetDayOfWeekName'', ''DateTime::GetTimezoneName''], ''String'')]
         ''Uint8'' name)) n"
    unfolding resolveDateTimeGet_def Let_def by (auto simp only: and_then_Inr_iff prod.case split: prod.splits)
  with get_kinds [of "r = dateTimeTM64" name] show ?thesis
    by (elim insertE emptyE) (simp_all only: sound_withOptional valid_scalars, simp_all)
qed

lemma resolveDateTimeMake_sound:
  assumes "name \<in> set [''DateTime::MakeDate'', ''DateTime::MakeTzDate'', ''DateTime::MakeDate32'', ''DateTime::MakeTzDate32'',
        ''DateTime::MakeDatetime'', ''DateTime::MakeTzDatetime'', ''DateTime::MakeDatetime64'',
        ''DateTime::MakeTzDatetime64'', ''DateTime::MakeTimestamp'', ''DateTime::MakeTzTimestamp'',
        ''DateTime::MakeTimestamp64'', ''DateTime::MakeTzTimestamp64'']"
    "resolveDateTimeMake name args = Inr t"
  shows "sound_result args t"
proof -
  let ?k = "drop (length ''DateTime::Make'') name"
  from assms(1) have "?k \<in> {''Date'', ''TzDate'', ''Date32'', ''TzDate32'', ''Datetime'', ''TzDatetime'', ''Datetime64'',
      ''TzDatetime64'', ''Timestamp'', ''TzTimestamp'', ''Timestamp64'', ''TzTimestamp64''}"
    by (simp only: list.set insert_iff empty_iff) (elim disjE; simp)
  then have "is_scalar_kind ?k" "?k \<noteq> ''Null''"
    by (auto simp: is_scalar_kind_def supportedScalarKinds_def)
  moreover from assms(2) obtain n where "t = withOptional (mk_kind ?k) n"
    unfolding resolveDateTimeMake_def Let_def
    by (auto simp only: and_then_Inr_iff prod.case if_Inl_eq_Inr split: prod.splits)
  ultimately show ?thesis by (simp add: valid_mk_kind)
qed

lemma date_time_from_kinds:
  "snd (date_time_from name) \<in> {''Timestamp'', ''Timestamp64'', ''Interval'', ''Interval64'', []}"
  unfolding date_time_from_def by (rule switch_all) auto

text \<open>The names of \<open>DateTime::From\<close> functions get their output kind from the switch.\<close>

lemma resolveDateTimeFrom_sound: "resolveDateTimeFrom name args = Inr t \<Longrightarrow> snd (date_time_from name) \<noteq> [] \<Longrightarrow> sound_result args t"
proof -
  assume r: "resolveDateTimeFrom name args = Inr t" and n: "snd (date_time_from name) \<noteq> []"
  from n date_time_from_kinds [of name]
  have "is_scalar_kind (snd (date_time_from name))" "snd (date_time_from name) \<noteq> ''Null''"
    by (auto simp: is_scalar_kind_def supportedScalarKinds_def)
  then have "proper_signatures [mk_signature name [auto_p (fst (date_time_from name))] (Optional (mk_kind (snd (date_time_from name))))]"
    by (simp add: valid_mk_kind)
  with r show ?thesis
    unfolding resolveDateTimeFrom_def case_prod_beta Let_def by (elim udfResolver_sound [rotated])
qed

lemma date_time_from_known:
  assumes "name \<in> set [''DateTime::FromSeconds'', ''DateTime::FromSeconds64'', ''DateTime::FromMilliseconds'',
        ''DateTime::FromMilliseconds64'', ''DateTime::FromMicroseconds'', ''DateTime::FromMicroseconds64'',
        ''DateTime::IntervalFromDays'', ''DateTime::Interval64FromDays'', ''DateTime::IntervalFromHours'',
        ''DateTime::Interval64FromHours'', ''DateTime::IntervalFromMinutes'', ''DateTime::Interval64FromMinutes'',
        ''DateTime::IntervalFromSeconds'', ''DateTime::Interval64FromSeconds'',
        ''DateTime::IntervalFromMilliseconds'', ''DateTime::Interval64FromMilliseconds'',
        ''DateTime::IntervalFromMicroseconds'', ''DateTime::Interval64FromMicroseconds'']"
  shows "snd (date_time_from name) \<noteq> []"
  using assms by (simp only: list.set insert_iff empty_iff) (elim disjE; simp add: date_time_from_def)

lemma resolveDateTimeTo_sound:
  assumes "resolveDateTimeTo name args = Inr t"
  shows "sound_result args t"
proof -
  let ?coarse = "name = ''DateTime::ToDays'' \<or> name = ''DateTime::ToHours'' \<or> name = ''DateTime::ToMinutes''"
  let ?k = "\<lambda>base. switch
             [([''Interval'', ''Interval64''],
                if name = ''DateTime::ToDays'' then ''Int32''
                else if name = ''DateTime::ToHours'' \<or> name = ''DateTime::ToMinutes'' then
                  (if Kind base = ''Interval64'' then ''Int64'' else ''Int32'')
                else ''Int64''),
              ([''Date'', ''Datetime'', ''Timestamp'', ''TzDate'', ''TzDatetime'', ''TzTimestamp''],
                if name = ''DateTime::ToSeconds'' then ''Uint32'' else if \<not> ?coarse then ''Uint64'' else []),
              ([''Date32'', ''Datetime64'', ''Timestamp64'', ''TzDate32'', ''TzDatetime64'', ''TzTimestamp64''],
                if \<not> ?coarse then ''Int64'' else [])]
             [] (Kind base)"
  from assms obtain b n where "?k b \<noteq> []" "t = withOptional (mk_kind (?k b)) n"
    unfolding resolveDateTimeTo_def Let_def
    by (auto simp only: and_then_Inr_iff check_then_Inr_iff prod.case if_Inl_eq_Inr sum.inject split: prod.splits)
  moreover have "?k b \<in> {''Int32'', ''Int64'', ''Uint32'', ''Uint64'', []}"
    by (rule switch_all) (auto split: if_splits)
  ultimately show ?thesis by (elim insertE emptyE) (simp_all only: sound_withOptional valid_scalars, simp_all)
qed

lemma resolveDateTimeBoundary_sound: "resolveDateTimeBoundary name args = Inr t \<Longrightarrow> sound_result args t"
  by (auto simp: resolveDateTimeBoundary_def result_simps dest!: dateTimeResourceArgument_Inr split: if_splits)

lemma resolveDateTimeBoundaryInterval_sound:
  "resolveDateTimeBoundaryInterval name args = Inr t \<Longrightarrow> sound_result args t"
  by (auto simp: resolveDateTimeBoundaryInterval_def result_simps dest!: dateTimeResourceArgument_Inr split: if_splits)

lemma resolveDateTimeShift_sound: "resolveDateTimeShift name args = Inr t \<Longrightarrow> sound_result args t"
  by (auto simp: resolveDateTimeShift_def result_simps dest!: dateTimeResourceArgument_Inr split: if_splits)

lemma proper_signatures_map:
  "(\<And>x. proper_type (sig_Returns (f x))) \<Longrightarrow> proper_signatures (map f xs)"
  by (simp add: proper_signatures_def list_all_iff)

lemma proper_dateTimeUpdate [simp]: "proper_signatures dateTimeUpdateSignatures"
  unfolding dateTimeUpdateSignatures_def by (rule proper_signatures_map) (simp add: Let_def)

lemma proper_dateTimeFormat [simp]: "proper_type (sig_Returns (dateTimeFormatSignature name))"
  by (simp add: dateTimeFormatSignature_def)

lemma date_time_resolvers:
  "sound_resolver (resolveDateTimeSplit name)" "sound_resolver (resolveDateTimeGet name)"
  "sound_resolver (resolveDateTimeTo name)" "sound_resolver (resolveDateTimeBoundary name)"
  "sound_resolver (resolveDateTimeBoundaryInterval name)" "sound_resolver (resolveDateTimeShift name)"
  by (rule sound_resolverI,
      erule resolveDateTimeSplit_sound resolveDateTimeGet_sound resolveDateTimeTo_sound
        resolveDateTimeBoundary_sound resolveDateTimeBoundaryInterval_sound resolveDateTimeShift_sound)+

lemma resolveDateTimeMake_sound_resolver:
  "name \<in> set [''DateTime::MakeDate'', ''DateTime::MakeTzDate'', ''DateTime::MakeDate32'', ''DateTime::MakeTzDate32'',
        ''DateTime::MakeDatetime'', ''DateTime::MakeTzDatetime'', ''DateTime::MakeDatetime64'',
        ''DateTime::MakeTzDatetime64'', ''DateTime::MakeTimestamp'', ''DateTime::MakeTzTimestamp'',
        ''DateTime::MakeTimestamp64'', ''DateTime::MakeTzTimestamp64''] \<Longrightarrow> sound_resolver (resolveDateTimeMake name)"
  by (rule sound_resolverI) (rule resolveDateTimeMake_sound)

lemma resolveDateTimeFrom_sound_resolver:
  "name \<in> set [''DateTime::FromSeconds'', ''DateTime::FromSeconds64'', ''DateTime::FromMilliseconds'',
        ''DateTime::FromMilliseconds64'', ''DateTime::FromMicroseconds'', ''DateTime::FromMicroseconds64'',
        ''DateTime::IntervalFromDays'', ''DateTime::Interval64FromDays'', ''DateTime::IntervalFromHours'',
        ''DateTime::Interval64FromHours'', ''DateTime::IntervalFromMinutes'', ''DateTime::Interval64FromMinutes'',
        ''DateTime::IntervalFromSeconds'', ''DateTime::Interval64FromSeconds'',
        ''DateTime::IntervalFromMilliseconds'', ''DateTime::Interval64FromMilliseconds'',
        ''DateTime::IntervalFromMicroseconds'', ''DateTime::Interval64FromMicroseconds''] \<Longrightarrow>
   sound_resolver (resolveDateTimeFrom name)"
  by (rule sound_resolverI) (rule resolveDateTimeFrom_sound [OF _ date_time_from_known])

text \<open>The contract of a switch of resolvers from the contract of each case.\<close>

definition sound_cases :: "(string list \<times> functionResolver option) list \<Rightarrow> string \<Rightarrow> bool" where
  "sound_cases cases name \<longleftrightarrow>
     list_all (\<lambda>(labels, r). name \<in> set labels \<longrightarrow> (\<forall>f. r = Some f \<longrightarrow> sound_resolver f)) cases"

lemma sound_cases_Nil: "sound_cases [] name"
  by (simp add: sound_cases_def)

lemma sound_cases_Cons:
  "(name \<in> set labels \<Longrightarrow> sound_resolver f) \<Longrightarrow> sound_cases cases name \<Longrightarrow>
   sound_cases ((labels, Some f) # cases) name"
  by (simp add: sound_cases_def)

lemma sound_switch:
  assumes "sound_cases cases name" "switch cases None name = Some resolve"
  shows "sound_resolver resolve"
  using switch_result [of cases None name] assms by (auto simp: sound_cases_def list_all_iff)

interpretation date_time: resolver_table lookupDateTimeUDF
proof (rule resolver_tableI)
  fix name resolve
  assume "lookupDateTimeUDF name = Some resolve"
  then show "sound_resolver resolve"
    unfolding lookupDateTimeUDF_def
    by (rule sound_switch [rotated])
      (intro sound_cases_Cons sound_cases_Nil;
       (rule resolveDateTimeMake_sound_resolver resolveDateTimeFrom_sound_resolver, assumption |
        rule date_time_resolvers | simp))
qed

interpretation digest: resolver_table lookupDigestUDF
proof (rule resolver_tableI)
  fix name resolve
  assume "lookupDigestUDF name = Some resolve"
  then show "sound_resolver resolve"
    unfolding lookupDigestUDF_def Let_def
    by (rule sound_switch [rotated]) (intro sound_cases_Cons sound_cases_Nil; simp)
qed

interpretation ip: resolver_table lookupIpUDF
proof (rule resolver_tableI)
  fix name resolve
  assume "lookupIpUDF name = Some resolve"
  then show "sound_resolver resolve"
    unfolding lookupIpUDF_def Let_def
    by (rule sound_switch [rotated]) (intro sound_cases_Cons sound_cases_Nil; simp)
qed

interpretation math: resolver_table lookupMathUDF
proof (rule resolver_tableI)
  fix name resolve
  assume "lookupMathUDF name = Some resolve"
  then show "sound_resolver resolve"
    unfolding lookupMathUDF_def Let_def
    by (rule sound_switch [rotated])
      (intro sound_cases_Cons sound_cases_Nil; simp add: mathRoundingMode_def)
qed

interpretation date_time_digest: resolver_tables lookupDateTimeUDF lookupDigestUDF ..

interpretation ip_math: resolver_tables lookupIpUDF lookupMathUDF ..

interpretation date_time_digest_ip_math:
  resolver_tables "first_table lookupDateTimeUDF lookupDigestUDF" "first_table lookupIpUDF lookupMathUDF" ..

text \<open>The overloads of \<open>DateTime::Update\<close> as a table with one entry.\<close>

interpretation date_time_update: signature_table "\<lambda>name. dateTimeUpdateSignatures"
  by (rule signature_tableI) simp

section \<open>Properties\<close>


lemma date_time_kinds:
  assumes "isBasicDateTime k \<or> isExtendedDateTime k"
  shows "valid (mk_kind k) \<and> k \<noteq> ''Optional''"
  using assms unfolding isBasicDateTime_def isExtendedDateTime_def
  by (elim disjE insertE emptyE) (simp_all add: valid_mk_kind_iff is_scalar_kind_def supportedScalarKinds_def)

lemma resolveDateTimeSplit_kind:
  assumes "isBasicDateTime k \<or> isExtendedDateTime k"
  shows "resolveDateTimeSplit name [withOptional (mk_kind k) n] =
    Inr (withOptional (mk_kind (if isBasicDateTime k then dateTimeTM else dateTimeTM64)) n)"
  using assms date_time_kinds [OF assms] by (cases "isBasicDateTime k") (simp_all add: resolveDateTimeSplit_def arity_def)

lemma resolveDateTimeMake_kind:
  assumes "isBasicDateTime k \<or> isExtendedDateTime k"
  shows "resolveDateTimeMake (''DateTime::Make'' @ k)
     [withOptional (mk_kind (if isBasicDateTime k then dateTimeTM else dateTimeTM64)) n] = Inr (withOptional (mk_kind k) n)"
proof -
  have ne: "dateTimeTM64 \<noteq> dateTimeTM" "\<not> isBasicDateTime dateTimeTM64"
    by (simp_all add: dateTimeTM_def dateTimeTM64_def isBasicDateTime_def)
  have "isBasicDateTime k \<longleftrightarrow> k \<notin> {''Date32'', ''TzDate32'', ''Datetime64'', ''TzDatetime64'', ''Timestamp64'', ''TzTimestamp64''}"
    using assms unfolding isBasicDateTime_def isExtendedDateTime_def by auto
  then show ?thesis
    by (simp add: resolveDateTimeMake_def dateTimeResourceArgument_def arity_def Let_def ne)
qed

text \<open>
  DateTime::Split and the DateTime::Make of the same kind are inverse on types: splitting a
  value of any of the twelve date and time kinds and making that kind again gives back its type.
\<close>

theorem date_time_split_make:
  assumes "isBasicDateTime k \<or> isExtendedDateTime k"
  shows "\<exists>split make r. lookupDateTimeUDF ''DateTime::Split'' = Some split
    \<and> lookupDateTimeUDF (''DateTime::Make'' @ k) = Some make
    \<and> split [withOptional (mk_kind k) n] = Inr r \<and> make [r] = Inr (withOptional (mk_kind k) n)"
proof -
  have "lookupDateTimeUDF ''DateTime::Split'' = Some (resolveDateTimeSplit ''DateTime::Split'')"
    by (simp add: lookupDateTimeUDF_def)
  moreover have "lookupDateTimeUDF (''DateTime::Make'' @ k) = Some (resolveDateTimeMake (''DateTime::Make'' @ k))"
    using assms unfolding isBasicDateTime_def isExtendedDateTime_def
    by (elim disjE insertE emptyE) (simp_all add: lookupDateTimeUDF_def)
  ultimately show ?thesis
    using resolveDateTimeSplit_kind [OF assms] resolveDateTimeMake_kind [OF assms] by blast
qed

lemma date_time_split_make_witness:
  "\<exists>split make r. lookupDateTimeUDF ''DateTime::Split'' = Some split
    \<and> lookupDateTimeUDF (''DateTime::Make'' @ ''TzDate32'') = Some make
    \<and> split [withOptional (mk_kind ''TzDate32'') True] = Inr r \<and> make [r] = Inr (withOptional (mk_kind ''TzDate32'') True)"
  by (rule date_time_split_make) (simp add: isExtendedDateTime_def)

end
