(* ===== verification/Specialized.thy ===== *)
theory Specialized
  imports DateTimeUdf "HOL-Library.List_Lexorder" "HOL-Library.Char_ord"
begin

text \<open>
  \<open>internal/yql/builtins/udf_specialized.go\<close>: the \<open>Knn::\<close>, \<open>Roaring::\<close>, \<open>Histogram::\<close> and
  regular expression modules, and the histogram aggregates. Go's \<open>regexp\<close> package is outside
  the repository: \<open>regexp.Compile(p).SubexpNames()\<close> is the parameter \<open>rx\<close>, from a pattern to
  an error or the list of group names (the whole match first, so never empty).
\<close>

section \<open>Arguments\<close>

definition roaringBitmapResource :: string where "roaringBitmapResource = ''Resource<roaring_bitmap>''"

definition specializedArgument :: "string \<Rightarrow> ty list \<Rightarrow> nat \<Rightarrow> ty \<Rightarrow> bool res" where
  "specializedArgument name args index want =
     (let got = args ! index; invalid = Inl (Errorf ''%s argument %d has invalid Optional type'' [FStr name, FNat (index + 1)]);
          check = (\<lambda>got opt. if \<not> Equal got want then
            Inl (Errorf ''%s argument %d must be %s or Optional<%s>, got %s''
              [FStr name, FNat (index + 1), FType want, FType want, FType (args ! index)])
            else Inr opt) in
      if IsOptional got then
        (case Elem got of
           None \<Rightarrow> invalid
         | Some e \<Rightarrow> if IsOptional e then invalid else check e True)
      else check got False)"

definition specializedRequiredArgument :: "string \<Rightarrow> ty list \<Rightarrow> nat \<Rightarrow> ty \<Rightarrow> go_error option" where
  "specializedRequiredArgument name args index want =
     (case specializedArgument name args index want of
        Inl err \<Rightarrow> Some err
      | Inr opt \<Rightarrow>
          if opt then Some (Errorf ''%s argument %d must be non-optional %s'' [FStr name, FNat (index + 1), FType want])
          else None)"

section \<open>Histograms\<close>

definition histogramStructType :: ty where
  "histogramStructType =
     (let double = mk_kind ''Double'';
          bin = mk_struct [(''Frequency'', double), (''Position'', double)] in
      mk_struct [(''Bins'', mk_list bin), (''Kind'', mk_kind ''String''), (''Max'', double), (''Min'', double),
        (''WeightsSum'', double)])"

text \<open>The parameters after the histogram and the result, of each function.\<close>

definition histogramSignatures :: "string \<Rightarrow> Signature list" where
  "histogramSignatures name =
     (let input = automap_parameter histogramStructType; double = mk_kind ''Double'';
          sig = (\<lambda>extra output. [mk_signature name (input # extra) output]) in
      switch
       [([''Histogram::Print''], sig [opt_p ''Uint8''] (mk_kind ''String'')),
        ([''Histogram::Normalize''], sig [opt_p ''Double'', opt_p ''Bool''] histogramStructType),
        ([''Histogram::ToCumulativeDistributionFunction''], sig [] histogramStructType),
        ([''Histogram::GetSumAboveBound'', ''Histogram::GetSumBelowBound'', ''Histogram::CalcUpperBound'',
          ''Histogram::CalcLowerBound'', ''Histogram::CalcUpperBoundSafe'', ''Histogram::CalcLowerBoundSafe''],
          sig [req_p ''Double''] double),
        ([''Histogram::GetSumInRange''], sig [req_p ''Double'', req_p ''Double''] double)]
       [] name)"

definition IsHistogramAggregate :: "string \<Rightarrow> bool" where
  "IsHistogramAggregate name \<longleftrightarrow>
     List.member [''HISTOGRAM'', ''HIST'', ''HISTOGRAMCDF'', ''ADAPTIVEWARDHISTOGRAM'', ''ADAPTIVEWARDHISTOGRAMCDF'',
       ''ADAPTIVEWEIGHTHISTOGRAM'', ''ADAPTIVEWEIGHTHISTOGRAMCDF'', ''ADAPTIVEDISTANCEHISTOGRAM'',
       ''ADAPTIVEDISTANCEHISTOGRAMCDF'', ''BLOCKWARDHISTOGRAM'', ''BLOCKWARDHISTOGRAMCDF'',
       ''BLOCKWEIGHTHISTOGRAM'', ''BLOCKWEIGHTHISTOGRAMCDF'', ''LINEARHISTOGRAM'', ''LINEARHISTOGRAMCDF'',
       ''LOGARITHMICHISTOGRAM'', ''LOGARITHMICHISTOGRAMCDF'', ''LOGHISTOGRAM'', ''LOGHISTOGRAMCDF''] (to_upper name)"

text \<open>\<open>None\<close>: not a histogram aggregate (the code's \<open>false\<close>).\<close>

definition resolveHistogramAggregate :: "string \<Rightarrow> ty list \<Rightarrow> ty res option" where
  "resolveHistogramAggregate name args =
     (if \<not> IsHistogramAggregate name then None
      else
        (let upper = to_upper name;
             isLinear = (has_prefix upper ''LINEAR'' \<or> has_prefix upper ''LOG'');
             maximum = (if isLinear then 4 else 3) in
         Some
          (if length args < 1 \<or> length args > maximum then
             Inl (Errorf ''%s expects 1 to %d arguments, got %d'' [FStr name, FNat maximum, FNat (length args)])
           else check_then
             (first_err_from 0 (\<lambda>i argument.
                let failure = Some (Errorf ''%s argument %d must be numeric, got %s''
                      [FStr name, FNat (i + 1), FType argument]) in
                case baseType argument of
                  Inl err \<Rightarrow> failure
                | Inr (base, _) \<Rightarrow> if \<not> isPrimitiveNumber (Kind base) then failure else None) args)
             (if \<not> isLinear \<and> length args = 3 \<and> \<not> isInteger (Kind (UnwrapOptional (args ! 2))) then
                Inl (Errorf ''%s argument 3 must be an integer bucket count'' [FStr name])
              else Inr (Optional histogramStructType)))))"

section \<open>Regular expressions\<close>

definition isMultiRegex :: "string \<Rightarrow> bool" where
  "isMultiRegex name \<longleftrightarrow>
     List.member [''Hyperscan::MultiGrep'', ''Hyperscan::MultiMatch'', ''Pcre::MultiGrep'', ''Pcre::MultiMatch'',
       ''Pire::MultiGrep'', ''Pire::MultiMatch''] name"

text \<open>\<open>strings.Count(s, "\n")\<close>.\<close>

definition count_newlines :: "string \<Rightarrow> nat" where
  "count_newlines s = length (filter (\<lambda>c. c = CHR 0x0A) s)"

definition resolveMultiRegex :: "string \<Rightarrow> CallArgument list \<Rightarrow> ty res" where
  "resolveMultiRegex name args =
     (case args of
        [arg] \<Rightarrow>
          if arg_Name arg \<noteq> [] then
            Inl (Errorf ''%s does not support named argument %q'' [FStr name, FStr (arg_Name arg)])
          else check_then (specializedRequiredArgument name [arg_Type arg] 0 (mk_kind ''String''))
            (case arg_StringLiteral arg of
               None \<Rightarrow> Inl (Errorf ''%s requires a string literal pattern to determine the result tuple type'' [FStr name])
             | Some pattern \<Rightarrow>
                 Inr (mk_callable [Optional (mk_kind ''String'')]
                   (mk_tuple (replicate (count_newlines pattern + 1) (mk_kind ''Bool'')))))
      | _ \<Rightarrow> Inl (Errorf ''%s expects 1 argument, got %d'' [FStr name, FNat (length args)]))"

definition re2OptionsType :: ty where
  "re2OptionsType = mk_struct
     (map (\<lambda>n. (n, mk_kind (if n = ''MaxMem'' then ''Uint64'' else ''Bool'')))
       [''CaseSensitive'', ''DotNl'', ''Literal'', ''LogErrors'', ''LongestMatch'', ''MaxMem'', ''NeverCapture'',
        ''NeverNl'', ''OneLine'', ''PerlClasses'', ''PosixSyntax'', ''Utf8'', ''WordBoundary''])"

definition re2OptionsSignatures :: "string \<Rightarrow> Signature list" where
  "re2OptionsSignatures name =
     (if name \<noteq> ''Re2::Options'' then []
      else [mk_signature name
        (map (\<lambda>(n, t). optional_parameter n (Optional t)) (Fields re2OptionsType)) re2OptionsType])"

text \<open>The field names of the capturing groups: unnamed groups are numbered, names must differ.\<close>

fun capture_fields :: "string \<Rightarrow> nat \<Rightarrow> string list \<Rightarrow> string list \<Rightarrow> (string \<times> ty) list res" where
  "capture_fields name unnamed seen [] = Inr []"
| "capture_fields name unnamed seen (grp # grps) =
     (let groupName = (if grp = [] then sprintf ''_%d'' [FNat unnamed] else grp);
          unnamed' = (if grp = [] then unnamed + 1 else unnamed) in
      if List.member seen groupName then
        Inl (Errorf ''%s pattern contains duplicate capturing group name %q'' [FStr name, FStr groupName])
      else and_then (capture_fields name unnamed' (groupName # seen) grps)
        (\<lambda>rest. Inr ((groupName, Optional (mk_kind ''String'')) # rest)))"

definition resolveRe2Capture :: "(string \<Rightarrow> string list res) \<Rightarrow> CallArgument list \<Rightarrow> ty res" where
  "resolveRe2Capture rx args =
     (let name = ''Re2::Capture''; types = map arg_Type args in
      if length args < 1 \<or> length args > 2 then
        Inl (Errorf ''%s expects 1 or 2 arguments, got %d'' [FStr name, FNat (length args)])
      else check_then
        (first_err (\<lambda>argument. if arg_Name argument \<noteq> [] then
             Some (Errorf ''%s does not support named argument %q'' [FStr name, FStr (arg_Name argument)]) else None) args)
       (check_then (specializedRequiredArgument name types 0 (mk_kind ''String''))
       (and_then (if length args = 2 then specializedArgument name types 1 re2OptionsType else Inr False) (\<lambda>_.
        case arg_StringLiteral (args ! 0) of
          None \<Rightarrow> Inl (Errorf ''%s requires a string literal pattern to determine capturing group fields'' [FStr name])
        | Some pattern \<Rightarrow>
            and_then (map_error (\<lambda>err. Errorf ''%s invalid pattern: %w'' [FStr name, FErr err]) (rx pattern)) (\<lambda>names.
            and_then (capture_fields name 0 [] names) (\<lambda>fs.
              Inr (mk_callable [Optional (mk_kind ''String'')] (mk_struct (sort_key fst fs)))))))))"

definition regexResult :: "string \<Rightarrow> ty" where
  "regexResult name =
     (case str_cut ''::'' name of
        None \<Rightarrow> mk_kind []
      | Some (module, function) \<Rightarrow>
          if module \<noteq> ''Hyperscan'' \<and> module \<noteq> ''Pcre'' \<and> module \<noteq> ''Pire'' \<and> module \<noteq> ''Re2'' then mk_kind []
          else if function = ''Grep'' \<or> function = ''Match'' then mk_kind ''Bool''
          else if (function = ''BacktrackingGrep'' \<or> function = ''BacktrackingMatch'')
              \<and> (module = ''Hyperscan'' \<or> module = ''Pcre'') then mk_kind ''Bool''
          else if function = ''Capture'' \<and> module \<noteq> ''Re2'' then Optional (mk_kind ''String'')
          else if function = ''Replace'' then Optional (mk_kind ''String'')
          else if function = ''Count'' \<and> module = ''Re2'' then mk_kind ''Uint32''
          else if function = ''FindAndConsume'' \<and> module = ''Re2'' then mk_list (mk_kind ''String'')
          else mk_kind [])"

text \<open>\<open>strings.Cut\<close> on a name without separator gives the whole name and an empty rest.\<close>

definition resolveRegexConstructor :: "string \<Rightarrow> functionResolver" where
  "resolveRegexConstructor name args =
     (let (module, function) = (case str_cut ''::'' name of Some p \<Rightarrow> p | None \<Rightarrow> (name, [])) in
      check_then
       (if module = ''Re2'' then
          (if length args < 1 \<or> length args > 2 then
             Some (Errorf ''%s expects 1 or 2 arguments, got %d'' [FStr name, FNat (length args)]) else None)
        else arity name args 1)
      (check_then (specializedRequiredArgument name args 0 (mk_kind ''String''))
      (and_then (if length args = 2 then specializedArgument name args 1 re2OptionsType else Inr False) (\<lambda>_.
         Inr (mk_callable
           ([Optional (mk_kind ''String'')] @ (if function = ''Replace'' then [mk_kind ''String''] else []))
           (regexResult name))))))"

section \<open>Knn and Roaring\<close>

text \<open>The tag of a vector with elements of that kind, empty when the function does not take them.\<close>

definition knn_tag :: "string \<Rightarrow> string \<Rightarrow> string" where
  "knn_tag name elem = switch
     [([''Knn::ToBinaryStringFloat''], if elem = ''Float'' then ''FloatVector'' else []),
      ([''Knn::ToBinaryStringUint8''], if elem = ''Uint8'' then ''Uint8Vector'' else []),
      ([''Knn::ToBinaryStringInt8''], if elem = ''Int8'' then ''Int8Vector'' else []),
      ([''Knn::ToBinaryStringBit''],
        if elem \<in> {''Double'', ''Float'', ''Uint8'', ''Int8''} then ''BitVector'' else [])]
     [] name"

definition resolveKnnToBinaryString :: "string \<Rightarrow> functionResolver" where
  "resolveKnnToBinaryString name args =
     check_then (arity name args 1)
     (check_then (map_option (\<lambda>err. Errorf ''%s argument 1: %w'' [FStr name, FErr err]) (validateConcreteOrNull (args ! 0)))
      (let nullable = IsOptional (args ! 0); value = (if nullable then UnwrapOptional (args ! 0) else args ! 0);
           not_list = Inl (Errorf ''%s argument 1 must be a supported numeric List'' [FStr name]) in
       if Kind value \<noteq> ''List'' then not_list
       else (case Elem value of
           None \<Rightarrow> not_list
         | Some e \<Rightarrow>
             let tag = knn_tag name (Kind e) in
             if tag = [] then Inl (Errorf ''%s argument 1 has unsupported element type %s'' [FStr name, FType e])
             else Inr (withOptional (mk_tagged (mk_kind ''String'') tag) nullable))))"

definition vector_tag :: "string \<Rightarrow> bool" where
  "vector_tag tag \<longleftrightarrow> tag \<in> {''FloatVector'', ''Int8Vector'', ''Uint8Vector'', ''BitVector''}"

definition resolveKnnFloatFromBinaryString :: "string \<Rightarrow> functionResolver" where
  "resolveKnnFloatFromBinaryString name args =
     check_then (arity name args 1)
     (and_then (map_error (\<lambda>err. Errorf ''%s argument 1: %w'' [FStr name, FErr err]) (baseType (args ! 0)))
       (\<lambda>(input, nullable).
          if Kind input = ''String'' \<or> Kind input = ''Null'' then Inr (Optional (mk_list (mk_kind ''Float'')))
          else if Kind input = ''Tagged'' \<and> (case Elem input of None \<Rightarrow> False | Some e \<Rightarrow> Kind e = ''String'')
              \<and> vector_tag (Tag input) then
            Inr (withOptional (mk_list (mk_kind ''Float'')) nullable)
          else Inl (Errorf ''%s argument 1 must be String or a supported Tagged<String, vector tag>, got %s''
            [FStr name, FType (args ! 0)])))"

definition knnSimilarityArgument :: "string \<Rightarrow> ty list \<Rightarrow> nat \<Rightarrow> string res" where
  "knnSimilarityArgument name args index =
     (let value = UnwrapOptional (args ! index) in
      if Kind value = ''String'' \<or> Kind value = ''Null'' then Inr []
      else if Kind value = ''Tagged''
          \<and> (case Elem value of None \<Rightarrow> False | Some e \<Rightarrow> Equal e (mk_kind ''String'')) \<and> vector_tag (Tag value) then
        Inr (Tag value)
      else Inl (Errorf ''%s argument %d must be String or a supported Tagged<String, vector tag>, got %s''
        [FStr name, FNat (index + 1), FType (args ! index)]))"

definition resolveKnn :: "string \<Rightarrow> functionResolver" where
  "resolveKnn name args =
     (if has_prefix name ''Knn::ToBinaryString'' then resolveKnnToBinaryString name args
      else if name = ''Knn::FloatFromBinaryString'' then resolveKnnFloatFromBinaryString name args
      else check_then (arity name args 2)
       (and_then (knnSimilarityArgument name args 0) (\<lambda>tag0.
        and_then (knnSimilarityArgument name args 1) (\<lambda>tag1.
          if tag0 \<noteq> [] \<and> tag1 \<noteq> [] \<and> tag0 \<noteq> tag1 then
            Inl (Errorf ''%s arguments have different vector tags %q and %q'' [FStr name, FStr tag0, FStr tag1])
          else Inr (Optional (mk_kind ''Float''))))))"

text \<open>The inputs and the output of each \<open>Roaring::\<close> function.\<close>

definition roaring_function :: "string \<Rightarrow> ty list \<times> ty" where
  "roaring_function name =
     (let resource = mk_kind roaringBitmapResource; string = mk_kind ''String''; uint32 = mk_kind ''Uint32'';
          list = mk_list uint32 in
      switch
       [([''Roaring::And'', ''Roaring::AndNot'', ''Roaring::Or''], ([resource, resource], resource)),
        ([''Roaring::AndNotWithBinary'', ''Roaring::AndWithBinary'', ''Roaring::OrWithBinary''],
          ([resource, string], resource)),
        ([''Roaring::Cardinality''], ([resource], uint32)),
        ([''Roaring::Deserialize''], ([string], resource)),
        ([''Roaring::FromUint32List''], ([list], resource)),
        ([''Roaring::RunOptimize''], ([resource], resource)),
        ([''Roaring::Serialize''], ([resource], string)),
        ([''Roaring::Uint32List''], ([resource], list))]
       ([], mk_kind []) name)"

fun any_optional :: "string \<Rightarrow> ty list \<Rightarrow> nat \<Rightarrow> ty list \<Rightarrow> bool res" where
  "any_optional name args i [] = Inr False"
| "any_optional name args i (input # inputs) =
     and_then (specializedArgument name args i input) (\<lambda>opt.
     and_then (any_optional name args (i + 1) inputs) (\<lambda>rest. Inr (opt \<or> rest)))"

definition resolveRoaring :: "string \<Rightarrow> functionResolver" where
  "resolveRoaring name args =
     (let (inputs, output) = roaring_function name in
      check_then (arity name args (length inputs))
      (and_then (any_optional name args 0 inputs) (\<lambda>nullable. Inr (withOptional output nullable))))"

section \<open>Lookup\<close>

definition lookupSpecializedUDF :: "string \<Rightarrow> functionResolver option" where
  "lookupSpecializedUDF name =
     switch
       [([''Knn::ToBinaryStringFloat'', ''Knn::ToBinaryStringUint8'', ''Knn::ToBinaryStringInt8'',
          ''Knn::ToBinaryStringBit'', ''Knn::FloatFromBinaryString'', ''Knn::InnerProductSimilarity'',
          ''Knn::CosineSimilarity'', ''Knn::CosineDistance'', ''Knn::ManhattanDistance'', ''Knn::EuclideanDistance''],
          Some (resolveKnn name)),
        ([''Roaring::And'', ''Roaring::AndNot'', ''Roaring::AndNotWithBinary'', ''Roaring::AndWithBinary'',
          ''Roaring::Cardinality'', ''Roaring::Deserialize'', ''Roaring::FromUint32List'', ''Roaring::Or'',
          ''Roaring::OrWithBinary'', ''Roaring::RunOptimize'', ''Roaring::Serialize'', ''Roaring::Uint32List''],
          Some (resolveRoaring name))]
       (if histogramSignatures name \<noteq> [] then Some (udfResolver name (histogramSignatures name))
        else if Kind (regexResult name) \<noteq> [] then Some (resolveRegexConstructor name)
        else None)
       name"

definition resolveSpecializedCall ::
  "(string \<Rightarrow> string list res) \<Rightarrow> string \<Rightarrow> CallArgument list \<Rightarrow> ty res option" where
  "resolveSpecializedCall rx name args =
     (if histogramSignatures name \<noteq> [] then Some (resolveSignatures name args (histogramSignatures name))
      else if name = ''Re2::Options'' then Some (resolveSignatures name args (re2OptionsSignatures name))
      else if isMultiRegex name then Some (resolveMultiRegex name args)
      else if name = ''Re2::Capture'' then Some (resolveRe2Capture rx args)
      else None)"

definition isSpecializedCallName :: "string \<Rightarrow> bool" where
  "isSpecializedCallName name \<longleftrightarrow>
     name = ''Re2::Options'' \<or> name = ''Re2::Capture'' \<or> isMultiRegex name \<or> histogramSignatures name \<noteq> []"

section \<open>Results are sound\<close>

lemma valid_roaring [simp]: "valid (mk_kind roaringBitmapResource)"
  by (simp add: valid_mk_kind_iff resource_kind_def has_prefix_def has_suffix_def roaringBitmapResource_def)

lemma roaring_not_Null [simp]: "roaringBitmapResource \<noteq> ''Null''" "roaringBitmapResource \<noteq> ''Optional''"
  by (simp_all add: roaringBitmapResource_def)

lemma valid_histogramStructType [simp]: "valid histogramStructType"
  by (simp add: histogramStructType_def Let_def)

lemma proper_histogramStructType [simp]: "proper_type histogramStructType"
  by (simp add: histogramStructType_def Let_def)

lemma valid_re2OptionsType [simp]: "valid re2OptionsType"
  by (simp add: re2OptionsType_def)

interpretation histogram: signature_table histogramSignatures
proof (rule signature_tableI)
  fix name
  show "proper_signatures (histogramSignatures name)"
    unfolding histogramSignatures_def Let_def by (rule switch_proper) simp_all
qed

interpretation re2_options: signature_table re2OptionsSignatures
  by (rule signature_tableI) (simp add: re2OptionsSignatures_def proper_type_def re2OptionsType_def)

lemma resolveHistogramAggregate_sound: "resolveHistogramAggregate name args = Some r \<Longrightarrow> sound_res ts r"
  by (auto simp: resolveHistogramAggregate_def Let_def intro!: sound_intros split: if_splits)

lemma resolveMultiRegex_sound: "sound_res ts (resolveMultiRegex name args)"
  unfolding resolveMultiRegex_def by (intro sound_intros) simp_all

text \<open>The group names of a pattern become distinct, non-empty field names.\<close>

lemma unnamed_group [simp]: "sprintf ''_%d'' [FInt i] = CHR ''_'' # show_int i"
  by simp

lemma capture_fields_Inr:
  "capture_fields name n seen gs = Inr fs \<Longrightarrow>
     length fs = length gs \<and> distinct (map fst fs) \<and> set (map fst fs) \<inter> set seen = {}
     \<and> (\<forall>f\<in>set fs. fst f \<noteq> [] \<and> snd f = Optional (mk_kind ''String''))"
proof (induction gs arbitrary: n seen fs)
  case (Cons g gs)
  let ?g = "if g = [] then sprintf ''_%d'' [FNat n] else g"
  from Cons.prems obtain rest where "?g \<notin> set seen"
      "capture_fields name (if g = [] then n + 1 else n) (?g # seen) gs = Inr rest"
      "fs = (?g, Optional (mk_kind ''String'')) # rest"
    by (auto simp: Let_def result_simps split: if_splits)
  moreover have "?g \<noteq> []" by simp
  ultimately show ?case using Cons.IH [of "if g = [] then n + 1 else n" "?g # seen" rest] by auto
qed simp

definition group_names_ok :: "(string \<Rightarrow> string list res) \<Rightarrow> bool" where
  "group_names_ok rx \<longleftrightarrow> (\<forall>p. rx p \<noteq> Inr [])"

lemma distinct_fst_sort: "distinct (map fst fs) \<Longrightarrow> distinct (map fst (sort_key fst fs))"
  by (metis distinct_map distinct_sort set_sort)

lemma resolveRe2Capture_sound:
  assumes "group_names_ok rx"
  shows "sound_res ts (resolveRe2Capture rx args)"
proof -
  have "sound_result ts (mk_callable [Optional (mk_kind ''String'')] (mk_struct (sort_key fst fs)))"
    if "map_error h (rx p) = Inr names" "capture_fields n 0 [] names = Inr fs" for h p names fs n
  proof -
    from that(1) assms have "names \<noteq> []" by (auto simp: group_names_ok_def map_error_Inr_iff)
    with capture_fields_Inr [OF that(2)] have "fs \<noteq> []" "distinct (map fst fs)"
      "\<forall>f\<in>set fs. fst f \<noteq> [] \<and> snd f = Optional (mk_kind ''String'')" by auto
    then show ?thesis
      by (auto simp: distinct_fst_sort dest: arg_cong [where f = set])
  qed
  then show ?thesis
    unfolding resolveRe2Capture_def Let_def by (intro sound_intros)
qed

definition empty_or_valid :: "ty \<Rightarrow> bool" where
  "empty_or_valid t \<longleftrightarrow> Kind t = [] \<or> valid t"

lemma empty_or_valid_if: "empty_or_valid x \<Longrightarrow> empty_or_valid y \<Longrightarrow> empty_or_valid (if b then x else y)"
  by simp

lemma regexResult_valid: "Kind (regexResult name) \<noteq> [] \<Longrightarrow> valid (regexResult name)"
proof -
  have "empty_or_valid (regexResult name)"
  proof (cases "str_cut ''::'' name")
    case None
    then show ?thesis by (simp add: regexResult_def empty_or_valid_def)
  next
    case (Some p)
    show ?thesis
      unfolding regexResult_def Some option.case
      by (cases p, simp only: prod.case) (intro empty_or_valid_if; simp add: empty_or_valid_def)
  qed
  then show "Kind (regexResult name) \<noteq> [] \<Longrightarrow> valid (regexResult name)" by (simp add: empty_or_valid_def)
qed

lemma resolveRegexConstructor_sound: "Kind (regexResult name) \<noteq> [] \<Longrightarrow> sound_resolver (resolveRegexConstructor name)"
  by (rule sound_resolverI, erule sound_resD [rotated])
    (unfold resolveRegexConstructor_def Let_def, intro sound_intros, simp add: regexResult_valid)

lemma sound_vector: "tag \<noteq> [] \<Longrightarrow> sound_result ts (withOptional (mk_tagged (mk_kind ''String'') tag) n)"
  by simp

lemma resolveKnnToBinaryString_sound: "sound_res ts (resolveKnnToBinaryString name args)"
  unfolding resolveKnnToBinaryString_def Let_def
  by (intro sound_intros) (rule sound_vector)

lemma resolveKnnFloatFromBinaryString_sound: "sound_res ts (resolveKnnFloatFromBinaryString name args)"
  unfolding resolveKnnFloatFromBinaryString_def by (intro sound_intros) simp_all

lemma resolveKnn_sound: "sound_res args (resolveKnn name args)"
  unfolding resolveKnn_def
  by (intro sound_intros resolveKnnToBinaryString_sound resolveKnnFloatFromBinaryString_sound) simp

lemma roaring_output:
  assumes "name \<in> set [''Roaring::And'', ''Roaring::AndNot'', ''Roaring::AndNotWithBinary'', ''Roaring::AndWithBinary'',
          ''Roaring::Cardinality'', ''Roaring::Deserialize'', ''Roaring::FromUint32List'', ''Roaring::Or'',
          ''Roaring::OrWithBinary'', ''Roaring::RunOptimize'', ''Roaring::Serialize'', ''Roaring::Uint32List'']"
  shows "valid (snd (roaring_function name)) \<and> Kind (snd (roaring_function name)) \<noteq> ''Null''"
  using assms
  by (simp only: list.set insert_iff empty_iff) (elim disjE; simp add: roaring_function_def Let_def)

lemma resolveRoaring_sound:
  "name \<in> set [''Roaring::And'', ''Roaring::AndNot'', ''Roaring::AndNotWithBinary'', ''Roaring::AndWithBinary'',
          ''Roaring::Cardinality'', ''Roaring::Deserialize'', ''Roaring::FromUint32List'', ''Roaring::Or'',
          ''Roaring::OrWithBinary'', ''Roaring::RunOptimize'', ''Roaring::Serialize'', ''Roaring::Uint32List''] \<Longrightarrow>
   sound_resolver (resolveRoaring name)"
  by (rule sound_resolverI) (drule roaring_output, auto simp: resolveRoaring_def result_simps case_prod_beta)

interpretation specialized: resolver_table lookupSpecializedUDF
proof (rule resolver_tableI)
  fix name resolve
  assume l: "lookupSpecializedUDF name = Some resolve"
  let ?knn = "[''Knn::ToBinaryStringFloat'', ''Knn::ToBinaryStringUint8'', ''Knn::ToBinaryStringInt8'',
          ''Knn::ToBinaryStringBit'', ''Knn::FloatFromBinaryString'', ''Knn::InnerProductSimilarity'',
          ''Knn::CosineSimilarity'', ''Knn::CosineDistance'', ''Knn::ManhattanDistance'', ''Knn::EuclideanDistance'']"
  let ?roaring = "[''Roaring::And'', ''Roaring::AndNot'', ''Roaring::AndNotWithBinary'', ''Roaring::AndWithBinary'',
          ''Roaring::Cardinality'', ''Roaring::Deserialize'', ''Roaring::FromUint32List'', ''Roaring::Or'',
          ''Roaring::OrWithBinary'', ''Roaring::RunOptimize'', ''Roaring::Serialize'', ''Roaring::Uint32List'']"
  from l consider "resolve = resolveKnn name" | "name \<in> set ?roaring" "resolve = resolveRoaring name"
    | "resolve = udfResolver name (histogramSignatures name)"
    | "Kind (regexResult name) \<noteq> []" "resolve = resolveRegexConstructor name"
    unfolding lookupSpecializedUDF_def switch.simps
    by (simp only: option.inject option.distinct List.member_iff split: if_splits) blast+
  then show "sound_resolver resolve"
  proof cases
    case 1
    then show ?thesis using resolveKnn_sound by (auto simp: sound_resolver_def sound_res_def)
  next
    case 3
    have "proper_signatures (histogramSignatures name)"
      using histogram.returns_proper by (auto simp: proper_signatures_def list_all_iff)
    with 3 show ?thesis by simp
  next
    case 2
    then show ?thesis by (simp only: resolveRoaring_sound)
  next
    case 4
    from resolveRegexConstructor_sound [OF 4(1)] 4(2) show ?thesis by simp
  qed
qed

lemma resolveSpecializedCall_sound:
  "group_names_ok rx \<Longrightarrow> resolveSpecializedCall rx name args = Some r \<Longrightarrow> sound_res ts r"
proof -
  assume rx: "group_names_ok rx" and c: "resolveSpecializedCall rx name args = Some r"
  from c consider "r = resolveSignatures name args (histogramSignatures name)"
    | "r = resolveSignatures name args (re2OptionsSignatures name)" | "r = resolveMultiRegex name args"
    | "r = resolveRe2Capture rx args"
    unfolding resolveSpecializedCall_def by (simp only: option.inject option.distinct split: if_splits)
  then show ?thesis
    using rx by cases (auto simp: sound_res_def histogram.resolved_sound re2_options.resolved_sound
      dest: sound_resD [OF resolveMultiRegex_sound] sound_resD [OF resolveRe2Capture_sound])
qed

section \<open>Properties\<close>

lemma resolveKnnToBinaryString_tag:
  assumes "resolveKnnToBinaryString name [v] = Inr t"
  obtains tag where "t = withOptional (mk_tagged (mk_kind ''String'') tag) (IsOptional v)" "vector_tag tag"
proof -
  define x where "x = (if IsOptional v then UnwrapOptional v else v)"
  have "\<exists>e. knn_tag name (Kind e) \<noteq> [] \<and>
      withOptional (mk_tagged (mk_kind ''String'') (knn_tag name (Kind e))) (IsOptional v) = t"
    using assms unfolding resolveKnnToBinaryString_def Let_def nth_Cons_0 check_then_Inr_iff x_def [symmetric]
    by (simp only: Inl_Inr_False sum.inject split: if_split_asm option.split_asm)
      (elim conjE, (erule FalseE | rule exI, rule conjI, assumption, assumption))+
  then obtain e where "knn_tag name (Kind e) \<noteq> []"
      "t = withOptional (mk_tagged (mk_kind ''String'') (knn_tag name (Kind e))) (IsOptional v)"
    by blast
  moreover have "knn_tag name k = [] \<or> vector_tag (knn_tag name k)" for k
    unfolding knn_tag_def by (rule switch_all [where P = "\<lambda>tag. tag = [] \<or> vector_tag tag"]) (auto simp: vector_tag_def split: if_split_asm)
  ultimately show thesis using that by blast
qed

text \<open>
  Knn: every vector that a ToBinaryString function makes is accepted by FloatFromBinaryString,
  with the nullability of the vector, and by the distance functions against itself.
\<close>

theorem knn_roundtrip:
  assumes "resolveKnn (''Knn::ToBinaryString'' @ suffix) [v] = Inr t"
  shows "resolveKnn ''Knn::FloatFromBinaryString'' [t] = Inr (withOptional (mk_list (mk_kind ''Float'')) (IsOptional v))
    \<and> resolveKnn ''Knn::CosineDistance'' [t, t] = Inr (Optional (mk_kind ''Float''))"
proof -
  from assms obtain tag where t: "t = withOptional (mk_tagged (mk_kind ''String'') tag) (IsOptional v)" "vector_tag tag"
    by (auto simp: resolveKnn_def has_prefix_def elim: resolveKnnToBinaryString_tag)
  have "tag \<noteq> []" using t(2) by (auto simp: vector_tag_def)
  then have b: "baseType t = Inr (mk_tagged (mk_kind ''String'') tag, IsOptional v)" "UnwrapOptional t = mk_tagged (mk_kind ''String'') tag"
    unfolding t(1) by simp_all
  have "resolveKnnFloatFromBinaryString ''Knn::FloatFromBinaryString'' [t] = Inr (withOptional (mk_list (mk_kind ''Float'')) (IsOptional v))"
    using t(2) by (simp add: resolveKnnFloatFromBinaryString_def arity_def b(1))
  moreover have "knnSimilarityArgument name [t, t] i = Inr tag" if "i < 2" for name i
    using that t(2) b(2) by (auto simp: knnSimilarityArgument_def less_2_cases_iff Let_def)
  ultimately show ?thesis by (simp add: resolveKnn_def has_prefix_def arity_def)
qed

lemma knn_roundtrip_witness:
  "resolveKnn ''Knn::FloatFromBinaryString'' [mk_tagged (mk_kind ''String'') ''BitVector'']
      = Inr (withOptional (mk_list (mk_kind ''Float'')) (IsOptional (mk_list (mk_kind ''Double''))))
    \<and> resolveKnn ''Knn::CosineDistance'' [mk_tagged (mk_kind ''String'') ''BitVector'', mk_tagged (mk_kind ''String'') ''BitVector'']
      = Inr (Optional (mk_kind ''Float''))"
  by (rule knn_roundtrip [of "''Bit''"]) code_simp

end
