(* ===== verification/Yson.thy ===== *)
theory Yson
  imports Signatures
begin

text \<open>
  \<open>internal/yql/builtins/udf_yson.go\<close> and \<open>yson_json.go\<close>: the \<open>Yson::\<close> functions, which
  types can be converted to and from YSON, and \<open>Json::From\<close>. The lemmas show that each result
  may take part in resolution again.
\<close>

definition ysonOptionsResource :: string where "ysonOptionsResource = ''Resource<'Yson2.Options'>''"

definition ysonNodeResource :: string where "ysonNodeResource = ''Resource<'Yson2.Node'>''"

section \<open>Arguments\<close>

definition ysonNodeArgument :: "string \<Rightarrow> ty \<Rightarrow> nat \<Rightarrow> (ty \<times> bool) res" where
  "ysonNodeArgument name value index =
     and_then (map_error (\<lambda>err. Errorf ''%s argument %d: %w'' [FStr name, FNat index, FErr err]) (baseType value))
       (\<lambda>(base, nullable).
          if Kind base = ''Null'' then Inr (base, True)
          else if Kind base \<noteq> ysonNodeResource \<and> Kind base \<noteq> ''Yson'' \<and> Kind base \<noteq> ''Json'' then
            Inl (Errorf ''%s argument %d must be a Yson node Resource, Yson, or Json, including Optional forms''
              [FStr name, FNat index])
          else Inr (base, nullable))"

definition ysonOptionArgument :: "string \<Rightarrow> ty \<Rightarrow> nat \<Rightarrow> go_error option" where
  "ysonOptionArgument name value index =
     (let failure = Some (Errorf ''%s argument %d must be Yson::Options resource or Null'' [FStr name, FNat index]) in
      case baseType value of
        Inl err \<Rightarrow> failure
      | Inr (base, _) \<Rightarrow> if Kind base \<noteq> ysonOptionsResource \<and> Kind base \<noteq> ''Null'' then failure else None)"

text \<open>
  The types a YSON value can be made from (\<open>source\<close>) or converted to. After the validity check
  the dereferences \<open>*value.Elem\<close> are of non-nil pointers; their \<open>None\<close> case is not reached.
\<close>

definition nil_deref :: go_error where "nil_deref = GoError ''nil pointer dereference''"

fun yson_member_err :: "(ty \<Rightarrow> go_error option) \<Rightarrow> (string \<times> ty) list \<Rightarrow> go_error option" where
  "yson_member_err check [] = None"
| "yson_member_err check ((n, f) # ms) =
     (case check f of
        Some err \<Rightarrow> Some (Errorf ''field %q: %w'' [FStr n, FErr err])
      | None \<Rightarrow> yson_member_err check ms)"

lemma yson_member_err_cong [fundef_cong]:
  assumes "ms = ms'" "\<And>n f. (n, f) \<in> set ms' \<Longrightarrow> check f = check' f"
  shows "yson_member_err check ms = yson_member_err check' ms'"
  unfolding assms(1) using assms(2)
proof (induction ms')
  case (Cons m ms')
  have "yson_member_err check ms' = yson_member_err check' ms'"
    by (rule Cons.IH, rule Cons.prems, rule list.set_intros(2))
  moreover have "check (snd m) = check' (snd m)" by (rule Cons.prems [of "fst m"]) simp
  ultimately show ?case by (cases m) (simp split: option.splits)
qed simp

function validateYsonCompatible :: "ty \<Rightarrow> bool \<Rightarrow> go_error option" where
  "validateYsonCompatible value source =
     (if source \<and> Kind value = ''EmptyList'' then None
      else (case validateConcreteOrNull value of
        Some err \<Rightarrow> Some err
      | None \<Rightarrow>
        (let unsupported = Some (Errorf ''type %s is not supported by Yson::From/ConvertTo'' [FType value]) in
        if Kind value = ''Optional'' \<or> Kind value = ''List'' then
          (case Elem value of Some e \<Rightarrow> validateYsonCompatible e source | None \<Rightarrow> Some nil_deref)
        else if Kind value = ''Dict'' then
          (case Key value of
             None \<Rightarrow> Some (Errorf ''YSON dictionary key must be non-optional String or Utf8'' [])
           | Some k \<Rightarrow>
               if IsOptional k \<or> Kind k \<noteq> ''String'' \<and> Kind k \<noteq> ''Utf8'' then
                 Some (Errorf ''YSON dictionary key must be non-optional String or Utf8'' [])
               else (case Elem value of Some e \<Rightarrow> validateYsonCompatible e source | None \<Rightarrow> Some nil_deref))
        else if Kind value = ''Tuple'' then
          first_err (\<lambda>item. validateYsonCompatible item source) (Items value)
        else if Kind value = ''Struct'' then
          yson_member_err (\<lambda>f. validateYsonCompatible f source) (Fields value)
        else if Kind value = ''Null'' \<or> Kind value = ''Void'' then
          (if source then None else unsupported)
        else if Kind value \<in> {''String'', ''Utf8'', ''Bool'', ''Int8'', ''Int16'', ''Int32'', ''Int64'', ''Uint8'',
            ''Uint16'', ''Uint32'', ''Uint64'', ''Float'', ''Double'', ''Yson'', ''Json'', ysonNodeResource} then None
        else unsupported)))"
  by pat_completeness auto
termination
  by (relation "measure (\<lambda>(t, _). size t)") auto

declare validateYsonCompatible.simps [simp del]

section \<open>The catalog\<close>

fun yson_convert_kind :: "string \<Rightarrow> string list \<Rightarrow> ty option" where
  "yson_convert_kind suffix [] = None"
| "yson_convert_kind suffix (kind # kinds) =
     (if suffix = kind then Some (Optional (mk_kind kind))
      else if suffix = kind @ ''List'' then Some (mk_list (mk_kind kind))
      else if suffix = kind @ ''Dict'' then Some (mk_dict (mk_kind ''String'') (mk_kind kind))
      else yson_convert_kind suffix kinds)"

definition yson_convert_result :: "string \<Rightarrow> ty option" where
  "yson_convert_result name =
     (if has_prefix name ''Yson::ConvertTo'' then
        (let suffix = trim_prefix name ''Yson::ConvertTo''; node = mk_kind ysonNodeResource in
         if suffix = ''List'' then Some (mk_list node)
         else if suffix = ''Dict'' then Some (mk_dict (mk_kind ''String'') node)
         else yson_convert_kind suffix [''Bool'', ''Int64'', ''Uint64'', ''Double'', ''String''])
      else None)"

definition yson_lookup_result :: "string \<Rightarrow> ty option" where
  "yson_lookup_result name =
     (if has_prefix name ''Yson::Lookup'' \<or> has_prefix name ''Yson::YPath'' then
        (let suffix = (if has_prefix name ''Yson::YPath'' then trim_prefix name ''Yson::YPath''
                       else trim_prefix name ''Yson::Lookup'');
             node = mk_kind ysonNodeResource in
         switch [([[]], Some (Optional node)), ([''List''], Some (Optional (mk_list node))),
             ([''Dict''], Some (Optional (mk_dict (mk_kind ''String'') node))),
             ([''Bool'', ''Int64'', ''Uint64'', ''Double'', ''String''], Some (Optional (mk_kind suffix)))]
           None suffix)
      else None)"

definition yson_other_result :: "string \<Rightarrow> ty option" where
  "yson_other_result name =
     (let node = mk_kind ysonNodeResource in
      switch
       [([''Yson::WithAttributes''], Some (Optional node)),
        ([''Yson::Equals'', ''Yson::IsEntity'', ''Yson::IsString'', ''Yson::IsDouble'', ''Yson::IsUint64'',
          ''Yson::IsInt64'', ''Yson::IsBool'', ''Yson::IsList'', ''Yson::IsDict''], Some (mk_kind ''Bool'')),
        ([''Yson::GetHash''], Some (mk_kind ''Uint64'')),
        ([''Yson::GetLength''], Some (Optional (mk_kind ''Uint64''))),
        ([''Yson::Contains''], Some (Optional (mk_kind ''Bool''))),
        ([''Yson::Attributes''], Some (mk_dict (mk_kind ''String'') node)),
        ([''Yson::Serialize'', ''Yson::SerializeText'', ''Yson::SerializePretty''], Some (mk_kind ''Yson''))]
       None name)"

definition ysonDocumentedResult :: "string \<Rightarrow> ty option" where
  "ysonDocumentedResult name =
     (case yson_convert_result name of
        Some r \<Rightarrow> Some r
      | None \<Rightarrow> (case yson_lookup_result name of Some r \<Rightarrow> Some r | None \<Rightarrow> yson_other_result name))"

definition isDocumentedYson :: "string \<Rightarrow> bool" where
  "isDocumentedYson name \<longleftrightarrow>
     List.member [''Yson::Options'', ''Yson::From'', ''Yson::ConvertTo'', ''Yson::Parse'', ''Yson::ParseJson'',
       ''Yson::ParseJsonDecodeUtf8'', ''Yson::SerializeJson''] name
     \<or> ysonDocumentedResult name \<noteq> None"

definition ysonNamedSignatures :: "string \<Rightarrow> Signature list" where
  "ysonNamedSignatures name =
     (let boolean = (\<lambda>n. named_p n ''Bool'') in
      if name = ''Yson::Options'' then
        [mk_signature name [boolean ''AutoConvert'', boolean ''Strict''] (mk_kind ysonOptionsResource)]
      else if name = ''Yson::SerializeJson'' then
        [mk_signature name [automap_parameter (mk_kind ysonNodeResource),
           optional_parameter [] (Optional (mk_kind ysonOptionsResource)),
           boolean ''SkipMapEntity'', boolean ''EncodeUtf8'', boolean ''WriteNanAsString'']
           (Optional (mk_kind ''Json''))]
      else [])"

section \<open>Calls\<close>

definition resolveYsonSerializeJson :: "string \<Rightarrow> CallArgument list \<Rightarrow> ty res" where
  "resolveYsonSerializeJson name args =
     (case args of
        [] \<Rightarrow> Inl (Errorf ''%s expects 1 to 5 arguments, got 0'' [FStr name])
      | arg # rest \<Rightarrow>
          and_then (ysonNodeArgument name (arg_Type arg) 1) (\<lambda>(_, nullable).
            resolveSignatures name
              (arg\<lparr>arg_Type := withOptional (mk_kind ysonNodeResource) nullable\<rparr> # rest)
              (ysonNamedSignatures name)))"

definition resolveYsonFrom :: "string \<Rightarrow> functionResolver" where
  "resolveYsonFrom name plain =
     check_then (arity name plain 1)
     (check_then (map_option (\<lambda>err. Errorf ''%s argument 1: %w'' [FStr name, FErr err])
         (validateYsonCompatible (plain ! 0) True))
       (Inr (mk_kind ysonNodeResource)))"

definition resolveYsonConvertTo :: "string \<Rightarrow> CallArgument list \<Rightarrow> ty res" where
  "resolveYsonConvertTo name args =
     (let plain = map arg_Type args in
      if length args < 2 \<or> length args > 3 then
        Inl (Errorf ''%s expects 2 or 3 arguments, got %d'' [FStr name, FNat (length args)])
      else and_then (ysonNodeArgument name (plain ! 0) 1) (\<lambda>(_, nullable).
        case arg_TypeArgument (args ! 1) of
          None \<Rightarrow> Inl (Errorf ''%s argument 2 must be a YQL type expression'' [FStr name])
        | Some target \<Rightarrow>
            check_then (map_option (\<lambda>err. Errorf ''%s target type: %w'' [FStr name, FErr err])
              (validateYsonCompatible target False))
            (check_then (if length args = 3 then ysonOptionArgument name (plain ! 2) 3 else None)
              (Inr (withOptional target nullable)))))"

definition resolveYsonParse :: "string \<Rightarrow> functionResolver" where
  "resolveYsonParse name plain =
     (if length plain < 1 \<or> length plain > 2 then
        Inl (Errorf ''%s expects 1 or 2 arguments, got %d'' [FStr name, FNat (length plain)])
      else and_then (map_error (\<lambda>err. Errorf ''%s argument 1: %w'' [FStr name, FErr err]) (baseType (plain ! 0)))
       (\<lambda>(base, nullable).
          let typed = (if name \<noteq> ''Yson::Parse'' then ''Json'' else ''Yson'') in
          if Kind base \<noteq> typed \<and> Kind base \<noteq> ''String'' \<and> Kind base \<noteq> ''Utf8''
             \<and> Kind base \<noteq> ysonNodeResource \<and> Kind base \<noteq> ''Null'' then
            Inl (Errorf ''%s argument 1 must be %s or String or Utf8 or Null, including Optional forms''
              [FStr name, FStr typed])
          else check_then (if length plain = 2 then ysonOptionArgument name (plain ! 1) 2 else None)
            (Inr (withOptional (mk_kind ysonNodeResource)
              (nullable \<or> Kind base = ''String'' \<or> Kind base = ''Utf8'' \<or> Kind base = ysonNodeResource
               \<or> Kind base = ''Null'')))))"

text \<open>Whether any of the node arguments is nullable; the loop stops at the first bad one.\<close>

fun yson_nodes_nullable :: "string \<Rightarrow> nat \<Rightarrow> ty list \<Rightarrow> bool res" where
  "yson_nodes_nullable name i [] = Inr False"
| "yson_nodes_nullable name i (t # ts) =
     and_then (ysonNodeArgument name t (i + 1)) (\<lambda>(_, opt).
     and_then (yson_nodes_nullable name (i + 1) ts) (\<lambda>rest. Inr (opt \<or> rest)))"

definition resolveYsonDocumented :: "string \<Rightarrow> functionResolver" where
  "resolveYsonDocumented name plain =
     (let result = (case ysonDocumentedResult name of Some r \<Rightarrow> r | None \<Rightarrow> mk_kind []) in
      if name = ''Yson::WithAttributes'' \<or> name = ''Yson::Equals'' then
        check_then (arity name plain 2)
        (and_then (yson_nodes_nullable name 0 plain) (\<lambda>nullable. Inr (withOptional result nullable)))
      else if name = ''Yson::Contains'' \<or> has_prefix name ''Yson::Lookup'' \<or> has_prefix name ''Yson::YPath'' then
        (if length plain < 2 \<or> length plain > 3 then
           Inl (Errorf ''%s expects 2 or 3 arguments, got %d'' [FStr name, FNat (length plain)])
         else and_then (ysonNodeArgument name (plain ! 0) 1) (\<lambda>_.
           check_then (requireExact name plain 1 ''String'')
           (check_then (if length plain = 3 then ysonOptionArgument name (plain ! 2) 3 else None)
             (Inr result))))
      else if name = ''Yson::GetLength'' \<or> has_prefix name ''Yson::ConvertTo'' \<and> name \<noteq> ''Yson::ConvertTo'' then
        (if length plain < 1 \<or> length plain > 2 then
           Inl (Errorf ''%s expects 1 or 2 arguments, got %d'' [FStr name, FNat (length plain)])
         else and_then (ysonNodeArgument name (plain ! 0) 1) (\<lambda>_.
           check_then (if length plain = 2 then ysonOptionArgument name (plain ! 1) 2 else None) (Inr result)))
      else if name = ''Yson::Attributes'' \<or> name = ''Yson::GetHash'' \<or> has_prefix name ''Yson::Is''
          \<or> has_prefix name ''Yson::Serialize'' then
        check_then (arity name plain 1)
        (and_then (ysonNodeArgument name (plain ! 0) 1) (\<lambda>(_, nullable). Inr (withOptional result nullable)))
      else Inl (Errorf ''unsupported YQL function %q'' [FStr name]))"

text \<open>\<open>None\<close>: the call is not handled here (the code's \<open>false\<close>).\<close>

definition resolveYsonCall :: "string \<Rightarrow> CallArgument list \<Rightarrow> ty res option" where
  "resolveYsonCall name args =
     (if \<not> isDocumentedYson name then None
      else Some
       (if name = ''Yson::Options'' then resolveSignatures name args (ysonNamedSignatures name)
        else if name = ''Yson::SerializeJson'' then resolveYsonSerializeJson name args
        else check_then
          (first_err_from 0 (\<lambda>i arg.
             if arg_Name arg \<noteq> [] then
               Some (Errorf ''%s does not support named argument %q at position %d''
                 [FStr name, FStr (arg_Name arg), FNat (i + 1)])
             else None) args)
          (let plain = map arg_Type args in
           if name = ''Yson::From'' then resolveYsonFrom name plain
           else if name = ''Yson::ConvertTo'' then resolveYsonConvertTo name args
           else if name = ''Yson::Parse'' \<or> name = ''Yson::ParseJson'' \<or> name = ''Yson::ParseJsonDecodeUtf8'' then
             resolveYsonParse name plain
           else resolveYsonDocumented name plain)))"

text \<open>\<open>Json::From\<close> of \<open>yson_json.go\<close>.\<close>

definition resolveJsonFrom :: "string \<Rightarrow> functionResolver" where
  "resolveJsonFrom name args =
     check_then (arity name args 1)
     (check_then (map_option (\<lambda>err. Errorf ''%s argument 1: %w'' [FStr name, FErr err])
         (validateYsonCompatible (args ! 0) True))
       (Inr (mk_kind ysonNodeResource)))"

section \<open>Results are valid\<close>

lemma valid_yson [simp]: "valid (mk_kind ysonNodeResource)" "valid (mk_kind ysonOptionsResource)"
  by (simp_all add: valid_mk_kind_iff resource_kind_def has_prefix_def has_suffix_def
      ysonNodeResource_def ysonOptionsResource_def)

lemma yson_not_Null [simp]: "ysonNodeResource \<noteq> ''Null''" "ysonOptionsResource \<noteq> ''Null''"
  "ysonNodeResource \<noteq> ''Optional''" "ysonOptionsResource \<noteq> ''Optional''"
  by (simp_all add: ysonNodeResource_def ysonOptionsResource_def)

text \<open>The results of the catalog: valid, and no bare \<open>Null\<close>.\<close>

definition sound_type :: "ty \<Rightarrow> bool" where
  "sound_type t \<longleftrightarrow> valid t \<and> Kind t \<noteq> ''Null''"

lemma sound_type_sound: "sound_type t \<Longrightarrow> sound_result args (withOptional t n)" "sound_type t \<Longrightarrow> sound_result args t"
  by (simp_all add: sound_type_def sound_result_def)

lemma sound_type_simps [simp]:
  "sound_type (Optional t) \<longleftrightarrow> valid t"
  "k \<noteq> ''Null'' \<Longrightarrow> sound_type (Ty k e ke xs fs tg p s) \<longleftrightarrow> valid (Ty k e ke xs fs tg p s)"
  by (simp_all add: sound_type_def)

lemma yson_convert_kind_sound:
  "yson_convert_kind suffix kinds = Some r \<Longrightarrow> \<forall>k\<in>set kinds. valid (mk_kind k) \<Longrightarrow> sound_type r"
  by (induction kinds) (auto split: if_splits)

lemma yson_convert_result_sound: "yson_convert_result name = Some r \<Longrightarrow> sound_type r"
  by (auto simp: yson_convert_result_def Let_def dest!: yson_convert_kind_sound simp del: yson_convert_kind.simps split: if_splits)

lemma switch_option:
  "switch cases None name = Some r \<Longrightarrow>
   list_all (\<lambda>(labels, v). name \<in> set labels \<longrightarrow> (\<forall>x. v = Some x \<longrightarrow> P x)) cases \<Longrightarrow> P r"
  using switch_result [of cases None name] by (auto simp: list_all_iff)

lemma yson_lookup_result_sound:
  assumes "yson_lookup_result name = Some r"
  shows "sound_type r"
proof -
  define suffix where "suffix = (if has_prefix name ''Yson::YPath'' then trim_prefix name ''Yson::YPath''
      else trim_prefix name ''Yson::Lookup'')"
  let ?node = "mk_kind ysonNodeResource"
  from assms have "switch [([[]], Some (Optional ?node)), ([''List''], Some (Optional (mk_list ?node))),
      ([''Dict''], Some (Optional (mk_dict (mk_kind ''String'') ?node))),
      ([''Bool'', ''Int64'', ''Uint64'', ''Double'', ''String''], Some (Optional (mk_kind suffix)))]
      None suffix = Some r"
    unfolding yson_lookup_result_def Let_def suffix_def [symmetric] by (simp only: option.distinct split: if_splits)
  then show ?thesis
    by (rule switch_option [where P = sound_type]) auto
qed

lemma yson_other_result_sound: "yson_other_result name = Some r \<Longrightarrow> sound_type r"
  unfolding yson_other_result_def Let_def by (erule switch_option [where P = sound_type]) simp

lemma ysonDocumentedResult_sound: "ysonDocumentedResult name = Some r \<Longrightarrow> sound_type r"
  by (auto simp: ysonDocumentedResult_def split: option.splits
      dest: yson_convert_result_sound yson_lookup_result_sound yson_other_result_sound)

lemma validateYsonCompatible_target: "validateYsonCompatible t False = None \<Longrightarrow> sound_type t"
  by (subst (asm) validateYsonCompatible.simps) (auto simp: sound_type_def Let_def split: option.splits if_splits)

interpretation yson_named: signature_table ysonNamedSignatures
  by (rule signature_tableI) (simp add: ysonNamedSignatures_def Let_def)

lemma resolveYsonSerializeJson_sound: "resolveYsonSerializeJson name args = Inr t \<Longrightarrow> sound_result ts t"
  by (auto simp: resolveYsonSerializeJson_def result_simps split: list.splits dest: yson_named.resolved_sound)

lemma resolveYsonFrom_sound: "resolveYsonFrom name args = Inr t \<Longrightarrow> sound_result ts t"
  by (auto simp: resolveYsonFrom_def result_simps)

lemma resolveJsonFrom_sound: "resolveJsonFrom name args = Inr t \<Longrightarrow> sound_result ts t"
  by (auto simp: resolveJsonFrom_def result_simps)

lemma resolveYsonConvertTo_sound: "resolveYsonConvertTo name args = Inr t \<Longrightarrow> sound_result ts t"
  by (auto simp: resolveYsonConvertTo_def result_simps Let_def sound_type_sound
      dest!: validateYsonCompatible_target split: if_splits option.splits)

lemma resolveYsonParse_sound: "resolveYsonParse name args = Inr t \<Longrightarrow> sound_result ts t"
  by (auto simp: resolveYsonParse_def result_simps Let_def split: if_splits)

lemma resolveYsonDocumented_sound:
  assumes "ysonDocumentedResult name \<noteq> None"
  shows "sound_res ts (resolveYsonDocumented name args)"
proof -
  from assms obtain r where r: "ysonDocumentedResult name = Some r" by auto
  note sound = sound_type_sound [OF ysonDocumentedResult_sound [OF r]]
  show ?thesis
    unfolding resolveYsonDocumented_def Let_def r option.case by (intro sound_intros sound)
qed

lemma resolveYsonCall_sound:
  assumes "resolveYsonCall name args = Some r"
  shows "sound_res ts r"
proof -
  let ?special = "[''Yson::Options'', ''Yson::From'', ''Yson::ConvertTo'', ''Yson::Parse'', ''Yson::ParseJson'',
       ''Yson::ParseJsonDecodeUtf8'', ''Yson::SerializeJson'']"
  have documented: "ysonDocumentedResult name \<noteq> None" if "isDocumentedYson name" "name \<noteq> ''Yson::Options''"
    "name \<noteq> ''Yson::SerializeJson''" "name \<noteq> ''Yson::From''" "name \<noteq> ''Yson::ConvertTo''"
    "\<not> (name = ''Yson::Parse'' \<or> name = ''Yson::ParseJson'' \<or> name = ''Yson::ParseJsonDecodeUtf8'')"
    using that unfolding isDocumentedYson_def by simp
  have named: "sound_res ts (resolveSignatures name args (ysonNamedSignatures name))"
    by (simp add: sound_res_def yson_named.resolved_sound)
  have special: "sound_res ts (resolveYsonSerializeJson name args)" "sound_res ts (resolveYsonFrom name as)"
    "sound_res ts (resolveYsonConvertTo name args)" "sound_res ts (resolveYsonParse name as)" for as
    unfolding sound_res_def
    using resolveYsonSerializeJson_sound resolveYsonFrom_sound resolveYsonConvertTo_sound resolveYsonParse_sound
    by blast+
  from assms show ?thesis
    unfolding resolveYsonCall_def Let_def
    by (cases "isDocumentedYson name"; simp only: if_True if_False simp_thms option.inject option.distinct)
      (erule subst, intro sound_intros named special resolveYsonDocumented_sound documented)
qed

section \<open>Properties\<close>


lemma yson_member_err_None:
  "yson_member_err check ms = None \<longleftrightarrow> (\<forall>(n, f)\<in>set ms. check f = None)"
  by (induction check ms rule: yson_member_err.induct) (auto split: option.splits)

lemma validateYsonCompatible_source:
  "validateYsonCompatible t False = None \<Longrightarrow> validateYsonCompatible t True = None"
proof (induction t rule: ty_measure_induct)
  case (Type t)
  note a = Type.prems [unfolded validateYsonCompatible.simps [of t False] Let_def]
  from a have v: "valid t" by (simp split: option.splits)
  note b = a [unfolded v option.case]
  consider "Kind t = ''Optional'' \<or> Kind t = ''List''" | "Kind t = ''Dict''" | "Kind t = ''Tuple''" | "Kind t = ''Struct''"
    | "Kind t \<notin> {''Optional'', ''List'', ''Dict'', ''Tuple'', ''Struct''}" by blast
  then show ?case
  proof cases
    case 1
    with b Type.IH(1) show ?thesis by (subst validateYsonCompatible.simps) (auto simp: v split: option.splits)
  next
    case 2
    with b Type.IH(1) show ?thesis
      by (subst validateYsonCompatible.simps) (auto simp: v split: option.splits if_splits)
  next
    case 3
    with b Type.IH(3) show ?thesis by (subst validateYsonCompatible.simps) (auto simp: v)
  next
    case 4
    with b Type.IH(4) show ?thesis
      by (subst validateYsonCompatible.simps) (fastforce simp: v yson_member_err_None)
  next
    case 5
    with b show ?thesis by (subst validateYsonCompatible.simps) (auto simp: v split: if_splits)
  qed
qed

text \<open>
  A value converted from YSON can be converted back: Yson::From accepts every type that
  Yson::ConvertTo returns.
\<close>

lemma yson_convert_back:
  assumes "resolveYsonConvertTo name args = Inr t"
  shows "resolveYsonFrom ''Yson::From'' [t] = Inr (mk_kind ysonNodeResource)"
proof -
  from assms obtain target n where t: "validateYsonCompatible target False = None" "t = withOptional target n"
    by (auto simp: resolveYsonConvertTo_def Let_def result_simps split: if_splits option.splits)
  have s: "validateYsonCompatible target True = None" by (rule validateYsonCompatible_source [OF t(1)])
  have "valid target" using validateYsonCompatible_target [OF t(1)] by (simp add: sound_type_def)
  with s have "validateYsonCompatible (Optional target) True = None"
    by (subst validateYsonCompatible.simps) simp
  with s t(2) have "validateYsonCompatible t True = None" by (simp add: withOptional_def optional_def)
  then show ?thesis by (simp add: resolveYsonFrom_def arity_def)
qed

lemma yson_convert_back_witness:
  "resolveYsonFrom ''Yson::From'' [Optional (mk_list (mk_kind ''Int64''))] = Inr (mk_kind ysonNodeResource)"
proof -
  let ?target = "(plain_argument (mk_kind ''Utf8''))\<lparr>arg_TypeArgument := Some (mk_list (mk_kind ''Int64''))\<rparr>"
  have "resolveYsonConvertTo ''Yson::ConvertTo'' [plain_argument (Optional (mk_kind ''Yson'')), ?target]
      = Inr (Optional (mk_list (mk_kind ''Int64'')))" by code_simp
  then show ?thesis by (rule yson_convert_back)
qed

end
