(* ===== verification/Libraries.thy ===== *)
theory Libraries
  imports Specialized Yson
begin

text \<open>
  \<open>internal/yql/builtins/libraries.go\<close>: the older \<open>String::\<close>, \<open>Unicode::\<close> and \<open>Json::\<close>
  functions and \<open>lookupLibrary\<close>, the chain of all library tables. The chain keeps the contract
  of \<open>resolver_table\<close> because each table does.
\<close>

definition autoMapUnary :: "string \<Rightarrow> ty list \<Rightarrow> string \<Rightarrow> string \<Rightarrow> ty res" where
  "autoMapUnary name args input output =
     check_then (arity name args 1)
     (base_or (Errorf ''%s argument 1 must be %s or Optional<%s>'' [FStr name, FStr input, FStr input]) (args ! 0)
       (\<lambda>base _. Kind base \<noteq> input \<and> Kind base \<noteq> ''Null'')
       (\<lambda>base nullable. Inr (withOptional (mk_kind output) (nullable \<or> Kind base = ''Null''))))"

definition exactUnary :: "string \<Rightarrow> ty list \<Rightarrow> string \<Rightarrow> string \<Rightarrow> ty res" where
  "exactUnary name args input output =
     check_then (arity name args 1)
     (base_or (Errorf ''%s argument 1 must be non-optional %s'' [FStr name, FStr input]) (args ! 0)
       (\<lambda>base nullable. nullable \<or> Kind base \<noteq> input)
       (\<lambda>_ _. Inr (mk_kind output)))"

definition nullableStringDecoder :: "string \<Rightarrow> functionResolver" where
  "nullableStringDecoder name args =
     check_then (arity name args 1)
     (base_or (Errorf ''%s argument 1 must be non-optional String'' [FStr name]) (args ! 0)
       (\<lambda>base nullable. nullable \<or> Kind base \<noteq> ''String'')
       (\<lambda>_ _. Inr (optional (mk_kind ''String''))))"

definition two_or_three :: "string \<Rightarrow> ty list \<Rightarrow> go_error option" where
  "two_or_three name args =
     (if length args \<noteq> 2 \<and> length args \<noteq> 3 then
        Some (Errorf ''%s expects 2 or 3 arguments, got %d'' [FStr name, FNat (length args)])
      else None)"

definition resolveStringFind :: "string \<Rightarrow> functionResolver" where
  "resolveStringFind name args =
     check_then (two_or_three name args)
     (base_or (Errorf ''%s argument 1 must be String or Optional<String>'' [FStr name]) (args ! 0)
       (\<lambda>base _. Kind base \<noteq> ''String'')
       (\<lambda>_ nullable. check_then (requireExact name args 1 ''String'')
         (check_then (if length args = 3 then requireOptionalScalar name args 2 ''Uint64'' else None)
           (Inr (withOptional (mk_kind ''Int64'') nullable)))))"

definition resolveUnicodeFind :: "string \<Rightarrow> functionResolver" where
  "resolveUnicodeFind name args =
     check_then (two_or_three name args)
     (base_or (Errorf ''%s argument 1 must be Utf8 or Optional<Utf8>'' [FStr name]) (args ! 0)
       (\<lambda>base _. Kind base \<noteq> ''Utf8'')
       (\<lambda>_ _. check_then (requireExact name args 1 ''Utf8'')
         (check_then (if length args = 3 then requireOptionalScalar name args 2 ''Uint64'' else None)
           (Inr (optional (mk_kind ''Uint64''))))))"

definition resolveLibrarySubstring :: "string \<Rightarrow> ty list \<Rightarrow> string \<Rightarrow> ty res" where
  "resolveLibrarySubstring name args stringKind =
     check_then (two_or_three name args)
     (base_or (Errorf ''%s argument 1 must be %s or Optional<%s>'' [FStr name, FStr stringKind, FStr stringKind]) (args ! 0)
       (\<lambda>base _. Kind base \<noteq> stringKind \<and> Kind base \<noteq> ''Null'')
       (\<lambda>base nullable. check_then (first_err (\<lambda>i. requireOptionalScalar name args i ''Uint64'') [1..<length args])
         (Inr (withOptional (mk_kind stringKind) (nullable \<or> Kind base = ''Null'')))))"

definition resolveStringReplace :: "string \<Rightarrow> functionResolver" where
  "resolveStringReplace name args =
     check_then (arity name args 3)
     (base_or (Errorf ''%s argument 1 must be String or Optional<String>'' [FStr name]) (args ! 0)
       (\<lambda>base _. Kind base \<noteq> ''String'')
       (\<lambda>_ nullable. check_then (first_err (\<lambda>i. requireExact name args i ''String'') [1, 2])
         (Inr (withOptional (mk_kind ''String'') nullable))))"

text \<open>The switch of \<open>lookupLibrary\<close>; its first and its default case are the tables around it.\<close>

definition library_functions :: "string \<Rightarrow> functionResolver option" where
  "library_functions name = switch
     [([''Json::From''], Some (resolveJsonFrom name)),
      ([''String::Base64Encode'', ''String::EscapeC'', ''String::UnescapeC'', ''String::HexEncode'',
        ''String::EncodeHtml'', ''String::DecodeHtml'', ''String::CgiEscape'', ''String::CgiUnescape'',
        ''String::Strip'', ''String::Collapse'', ''String::AsciiToLower'', ''String::AsciiToUpper'', ''String::AsciiToTitle''],
        Some (\<lambda>args. autoMapUnary name args ''String'' ''String'')),
      ([''String::Base64Decode'', ''String::Base64StrictDecode'', ''String::HexDecode''],
        Some (nullableStringDecoder name)),
      ([''String::Find'', ''String::ReverseFind''], Some (resolveStringFind name)),
      ([''String::Substring''], Some (\<lambda>args. resolveLibrarySubstring name args ''String'')),
      ([''String::ReplaceAll'', ''String::ReplaceFirst'', ''String::ReplaceLast''], Some (resolveStringReplace name)),
      ([''Unicode::IsUtf''], Some (\<lambda>args. exactUnary name args ''String'' ''Bool'')),
      ([''Unicode::GetLength''], Some (\<lambda>args. autoMapUnary name args ''Utf8'' ''Uint64'')),
      ([''Unicode::Find'', ''Unicode::RFind''], Some (resolveUnicodeFind name)),
      ([''Unicode::Substring''], Some (\<lambda>args. resolveLibrarySubstring name args ''Utf8'')),
      ([''Unicode::ToLower'', ''Unicode::ToUpper'', ''Unicode::ToTitle'', ''Unicode::Normalize'',
        ''Unicode::NormalizeNFC'', ''Unicode::NormalizeNFD'', ''Unicode::NormalizeNFKC'', ''Unicode::NormalizeNFKD''],
        Some (\<lambda>args. autoMapUnary name args ''Utf8'' ''Utf8''))]
     None name"

definition lookupLibrary :: "string \<Rightarrow> functionResolver option" where
  "lookupLibrary =
     first_table lookupDateTimeDigestIpMath (first_table library_functions lookupSpecializedUDF)"

definition resolveLibrary :: "string \<Rightarrow> functionResolver" where
  "resolveLibrary name args =
     (case lookupLibrary name of
        Some resolve \<Rightarrow> resolve args
      | None \<Rightarrow> Inl (Errorf ''unsupported YQL function %q'' [FStr name]))"

section \<open>The contract\<close>

lemma sound_resolver_res: "(\<And>args. sound_res args (resolve args)) \<Longrightarrow> sound_resolver resolve"
  by (simp add: sound_resolver_def sound_res_def)

lemma library_resolvers:
  "sound_resolver (resolveJsonFrom name)" "sound_resolver (nullableStringDecoder name)"
  "sound_resolver (resolveStringFind name)" "sound_resolver (resolveStringReplace name)"
  "sound_resolver (resolveUnicodeFind name)"
  "sound_resolver (\<lambda>args. autoMapUnary name args i ''String'')" "sound_resolver (\<lambda>args. autoMapUnary name args i ''Uint64'')"
  "sound_resolver (\<lambda>args. autoMapUnary name args i ''Utf8'')" "sound_resolver (\<lambda>args. exactUnary name args i ''Bool'')"
  "sound_resolver (\<lambda>args. resolveLibrarySubstring name args ''String'')"
  "sound_resolver (\<lambda>args. resolveLibrarySubstring name args ''Utf8'')"
  unfolding resolveJsonFrom_def nullableStringDecoder_def resolveStringFind_def resolveStringReplace_def
    resolveUnicodeFind_def autoMapUnary_def exactUnary_def resolveLibrarySubstring_def
  by (rule sound_resolver_res, intro sound_intros, simp)+

interpretation library: resolver_table library_functions
proof (rule resolver_tableI)
  fix name resolve
  assume "library_functions name = Some resolve"
  then show "sound_resolver resolve"
    unfolding library_functions_def
    by (rule sound_switch [rotated]) (intro sound_cases_Cons sound_cases_Nil library_resolvers)
qed

interpretation library_specialized: resolver_tables library_functions lookupSpecializedUDF ..

interpretation modules: resolver_table lookupDateTimeDigestIpMath
  unfolding lookupDateTimeDigestIpMath_def by (rule date_time_digest_ip_math.both.resolver_table_axioms)

interpretation all_libraries: resolver_tables lookupDateTimeDigestIpMath "first_table library_functions lookupSpecializedUDF" ..

end
