(* ===== verification/Coalesce.thy ===== *)
theory Coalesce
  imports CommonOrder Calls
begin

text \<open>
  \<open>internal/yql/builtins/coalesce.go\<close>: \<open>COALESCE\<close> and \<open>NVL\<close>, reconciled from left to right
  with an accumulated result. The lemmas give the invariant of the loop and when the result is
  optional.
\<close>

definition isCoalesce :: "string \<Rightarrow> bool" where
  "isCoalesce name \<longleftrightarrow> equal_fold name ''COALESCE'' \<or> equal_fold name ''NVL''"

text \<open>The body of the loop, from the result so far to the next one.\<close>

definition coalesce_step :: "string \<Rightarrow> ty \<Rightarrow> CallArgument \<Rightarrow> ty res" where
  "coalesce_step name result argument =
     (let left = UnwrapOptional result; leftOptional = IsOptional result in
      and_then (map_error (\<lambda>err. Errorf ''%s: %w'' [FStr name, FErr err]) (baseType (arg_Type argument)))
       (\<lambda>(right, rightOptional).
        if Kind left = ''Null'' then Inr (arg_Type argument)
        else if Kind right = ''Null'' then Inr result
        else
          (let (right, rightOptional) =
             (if arg_EmptyList argument \<and> Kind (arg_Type argument) = ''List'' \<and> Kind left = ''List''
              then (left, False) else (right, rightOptional));
             right =
             (if \<not> rightOptional \<and> isInteger (Kind left) \<and> isInteger (Kind right)
                 \<and> integerLiteralFits (arg_IntegerLiteral argument) (Kind left)
              then left else right);
             (left, right) =
             (if (Kind left = ''String'' \<and> Kind right = ''Utf8'') \<or> (Kind left = ''Utf8'' \<and> Kind right = ''String'')
              then (mk_kind ''String'', mk_kind ''String'') else (left, right)) in
           and_then (map_error (\<lambda>err. Errorf ''%s arguments have incompatible types: %w; use CAST to convert them to the same YQL type''
               [FStr name, FErr err]) (commonConcreteType left right))
             (\<lambda>common. Inr (withOptional common (leftOptional \<and> rightOptional))))))"

fun coalesce_loop :: "string \<Rightarrow> ty \<Rightarrow> CallArgument list \<Rightarrow> ty res" where
  "coalesce_loop name result [] = Inr result"
| "coalesce_loop name result (argument # args) =
     and_then (coalesce_step name result argument) (\<lambda>result'. coalesce_loop name result' args)"

definition resolveCoalesceArguments :: "string \<Rightarrow> CallArgument list \<Rightarrow> ty res" where
  "resolveCoalesceArguments name args =
     (if args = [] then Inl (Errorf ''%s expects at least 1 argument'' [FStr name])
      else and_then (coalesce_loop name (mk_kind ''Null'') args) (\<lambda>result.
        if Kind result = ''Null'' then
          Inl (Errorf ''%s cannot infer a concrete type from only Null arguments'' [FStr name])
        else Inr result))"

section \<open>What COALESCE returns\<close>

definition flat_type :: "ty \<Rightarrow> bool" where
  "flat_type t \<longleftrightarrow> valid t \<and> Kind (UnwrapOptional t) \<noteq> ''Optional''"

lemma flat_base: "flat_type t \<Longrightarrow> valid (UnwrapOptional t) \<and> Kind (UnwrapOptional t) \<noteq> ''Optional''"
  by (simp add: flat_type_def valid_UnwrapOptional)

lemma flat_baseType: "valid t \<Longrightarrow> baseType t = Inr (b, n) \<Longrightarrow> flat_type t \<and> UnwrapOptional t = b \<and> IsOptional t = n"
  using baseType_Inr [of t b n] by (auto simp: flat_type_def)

lemma flat_withOptional: "base_type t \<Longrightarrow> flat_type (withOptional t n)"
  by (simp add: flat_type_def base_type_def)

text \<open>A step either keeps the result, takes the argument's type, or joins two base types.\<close>

lemma coalesce_step_cases:
  assumes "coalesce_step name result argument = Inr t" "flat_type result" "valid (arg_Type argument)"
  obtains (first) "Kind (UnwrapOptional result) = ''Null''" "t = arg_Type argument" "flat_type (arg_Type argument)"
  | (skip) "Kind (UnwrapOptional result) \<noteq> ''Null''" "Kind (UnwrapOptional (arg_Type argument)) = ''Null''" "t = result"
  | (join) common where "Kind (UnwrapOptional result) \<noteq> ''Null''" "Kind (UnwrapOptional (arg_Type argument)) \<noteq> ''Null''"
      "base_type common" "t = withOptional common (IsOptional result \<and> IsOptional (arg_Type argument))"
proof -
  from assms(1) obtain right n where b: "baseType (arg_Type argument) = Inr (right, n)"
    by (auto simp: coalesce_step_def Let_def result_simps)
  note fl = flat_baseType [OF assms(3) b]
  let ?left = "UnwrapOptional result"
  have lb: "Kind ?left \<noteq> ''Null'' \<Longrightarrow> base_type ?left" using flat_base [OF assms(2)] by (simp add: base_type_def)
  have rb: "Kind right \<noteq> ''Null'' \<Longrightarrow> base_type right"
    using flat_base [of "arg_Type argument"] fl by (simp add: base_type_def)
  show thesis
  proof (cases "Kind ?left = ''Null'' \<or> Kind right = ''Null''")
    case True
    with assms(1) b fl first skip show thesis
      by (cases "Kind ?left = ''Null''") (simp_all add: coalesce_step_def Let_def)
  next
    case False
    define e where "e \<longleftrightarrow> arg_EmptyList argument \<and> Kind (arg_Type argument) = ''List'' \<and> Kind ?left = ''List''"
    have n: "e \<Longrightarrow> \<not> n" using fl by (auto simp: e_def IsOptional_def)
    define r1 where "r1 = (if e then ?left else right)"
    define r2 where "r2 = (if \<not> n \<and> isInteger (Kind ?left) \<and> isInteger (Kind r1)
                 \<and> integerLiteralFits (arg_IntegerLiteral argument) (Kind ?left) then ?left else r1)"
    define str where "str \<longleftrightarrow> (Kind ?left = ''String'' \<and> Kind r2 = ''Utf8'') \<or> (Kind ?left = ''Utf8'' \<and> Kind r2 = ''String'')"
    have pair: "(if e then (?left, False) else (right, n)) = (r1, n)" using n by (simp add: r1_def)
    have "\<exists>c. commonConcreteType (if str then mk_kind ''String'' else ?left) (if str then mk_kind ''String'' else r2) = Inr c
        \<and> t = withOptional c (IsOptional result \<and> n)"
      using assms(1) b False
      by (simp add: coalesce_step_def Let_def e_def [symmetric] pair r2_def [symmetric] str_def [symmetric] result_simps
          split: prod.splits if_splits)
    then obtain c where c: "commonConcreteType (if str then mk_kind ''String'' else ?left) (if str then mk_kind ''String'' else r2) = Inr c"
        "t = withOptional c (IsOptional result \<and> n)" by blast
    have "base_type (mk_kind ''String'')" by (simp add: base_type_def)
    moreover from False lb rb have "base_type ?left" "base_type r2" by (simp_all add: r1_def r2_def)
    ultimately have "base_type c" using commonConcreteType_base [OF c(1)] by (cases str) simp_all
    with c(2) False fl join show thesis by simp
  qed
qed

lemma coalesce_step_flat:
  "coalesce_step name result argument = Inr t \<Longrightarrow> flat_type result \<Longrightarrow> valid (arg_Type argument) \<Longrightarrow> flat_type t"
  by (erule coalesce_step_cases) (auto simp: flat_withOptional)

lemma coalesce_loop_flat:
  "coalesce_loop name result args = Inr t \<Longrightarrow> flat_type result \<Longrightarrow> \<forall>a\<in>set args. valid (arg_Type a) \<Longrightarrow> flat_type t"
  by (induction name result args rule: coalesce_loop.induct) (auto simp: result_simps intro: coalesce_step_flat)

lemma resolveCoalesceArguments_sound:
  assumes "\<forall>a\<in>set args. valid (arg_Type a)"
  shows "sound_res ts (resolveCoalesceArguments name args)"
proof -
  have "flat_type (mk_kind ''Null'')" by (simp add: flat_type_def)
  with assms have "coalesce_loop name (mk_kind ''Null'') args = Inr t \<Longrightarrow> valid t" for t
    using coalesce_loop_flat [of name "mk_kind ''Null''" args t] by (simp add: flat_type_def)
  then show ?thesis
    unfolding resolveCoalesceArguments_def by (intro sound_intros sound_resultI) simp_all
qed

text \<open>The result is optional when every argument that is not \<open>Null\<close> is.\<close>

abbreviation null_argument :: "CallArgument \<Rightarrow> bool" where
  "null_argument a \<equiv> Kind (UnwrapOptional (arg_Type a)) = ''Null''"

lemma coalesce_loop_optional:
  "coalesce_loop name result args = Inr t \<Longrightarrow> flat_type result \<Longrightarrow> \<forall>a\<in>set args. valid (arg_Type a) \<Longrightarrow>
   Kind (UnwrapOptional result) \<noteq> ''Null'' \<or> (\<exists>a\<in>set args. \<not> null_argument a) \<Longrightarrow>
   IsOptional t \<longleftrightarrow> (Kind (UnwrapOptional result) \<noteq> ''Null'' \<longrightarrow> IsOptional result)
     \<and> (\<forall>a\<in>set args. \<not> null_argument a \<longrightarrow> IsOptional (arg_Type a))"
proof (induction name result args rule: coalesce_loop.induct)
  case (2 name result a args)
  then obtain u where u: "coalesce_step name result a = Inr u" "coalesce_loop name u args = Inr t"
    by (auto simp: result_simps)
  have fu: "flat_type u" using coalesce_step_flat [OF u(1)] "2.prems" by simp
  note ih = "2.IH" [OF u(1) u(2) fu]
  have va: "valid (arg_Type a)" using "2.prems"(3) by simp
  show ?case
  proof (rule coalesce_step_cases [OF u(1) "2.prems"(2) va], goal_cases first skip join)
    case first
    with ih "2.prems"(3,4) show ?thesis by auto
  next
    case skip
    with ih "2.prems"(3,4) show ?thesis by auto
  next
    case (join common)
    from join(3) have c: "Kind common \<noteq> ''Null''" "Kind common \<noteq> ''Optional''" by (simp_all add: base_type_def)
    then have u': "UnwrapOptional u = common" "IsOptional u \<longleftrightarrow> IsOptional result \<and> IsOptional (arg_Type a)"
      by (simp_all add: join(4) IsOptional_withOptional) (simp add: IsOptional_def)
    have "IsOptional t \<longleftrightarrow> IsOptional u \<and> (\<forall>a\<in>set args. \<not> null_argument a \<longrightarrow> IsOptional (arg_Type a))"
      using ih "2.prems"(3) c(1) u'(1) by simp
    with u'(2) join(1,2) show ?thesis by auto
  qed
qed simp

section \<open>Properties\<close>

text \<open>
  The result of COALESCE is optional exactly when every argument that is not Null is optional.
\<close>

theorem coalesce_optional:
  assumes "resolveCoalesceArguments name args = Inr t" "\<forall>a\<in>set args. valid (arg_Type a)"
    "\<exists>a\<in>set args. Kind (UnwrapOptional (arg_Type a)) \<noteq> ''Null''"
  shows "IsOptional t \<longleftrightarrow>
    (\<forall>a\<in>set args. Kind (UnwrapOptional (arg_Type a)) \<noteq> ''Null'' \<longrightarrow> IsOptional (arg_Type a))"
proof -
  have "flat_type (mk_kind ''Null'')" by (simp add: flat_type_def)
  moreover from assms(1) have "coalesce_loop name (mk_kind ''Null'') args = Inr t"
    by (auto simp: resolveCoalesceArguments_def result_simps split: if_splits)
  ultimately show ?thesis using coalesce_loop_optional [of name "mk_kind ''Null''" args t] assms(2,3) by simp
qed

lemma coalesce_optional_witness: "\<not> IsOptional (mk_kind ''Int64'')"
proof -
  have "resolveCoalesceArguments ''NVL'' [plain_argument (Optional (mk_kind ''Int64'')), plain_argument (mk_kind ''Int64'')]
      = Inr (mk_kind ''Int64'')" by code_simp
  from coalesce_optional [OF this] show ?thesis by (simp add: plain_argument_def)
qed

end
