(* ===== verification/Registry.thy ===== *)
theory Registry
  imports CoreFunctions StringUdf Libraries Coalesce
begin

text \<open>
  The entry points of \<open>internal/yql/builtins\<close>: \<open>NewRegistry\<close> (user signatures), \<open>ResolveCall\<close>,
  \<open>Resolve\<close> and \<open>resolveLegacy\<close> of \<open>signatures.go\<close> and \<open>resolve.go\<close>. The order in which a
  call is tried against the tables is the code's.
\<close>

section \<open>The registry\<close>

text \<open>The map \<open>custom\<close> from a name to its overloads, in the order they were given.\<close>

type_synonym registry = "string \<Rightarrow> Signature list"

definition empty_registry :: registry where
  "empty_registry = (\<lambda>_. [])"

definition isKnownFunction :: "string \<Rightarrow> bool" where
  "isKnownFunction name \<longleftrightarrow>
     isCoalesce name \<or> standardSignatures name \<noteq> [] \<or> isDocumentedYson name
     \<or> stringUnicodeUrlSignatures name \<noteq> [] \<or> isSpecializedCallName name \<or> IsHistogramAggregate name
     \<or> lookupCore name \<noteq> None \<or> lookupLibrary name \<noteq> None"

text \<open>One iteration of \<open>NewRegistry\<close> and the loop, with the index and the shapes seen so far.\<close>

definition register_signature :: "nat \<Rightarrow> string list \<Rightarrow> registry \<Rightarrow> Signature \<Rightarrow> (string list \<times> registry) res" where
  "register_signature i seen custom signature =
     (let fail = (\<lambda>msg args. Inl (Errorf msg ([FNat (i + 1), FStr (sig_Name signature)] @ args))) in
      if isKnownFunction (sig_Name signature) then
        fail ''function signature %d %q conflicts with a known built-in function'' []
      else (case validateSignature signature of
          Some err \<Rightarrow> fail ''function signature %d %q: %w'' [FErr err]
        | None \<Rightarrow>
            let key = signatureShape signature in
            if List.member seen key then
              fail ''function signature %d %q is an ambiguous duplicate overload'' []
            else if list_ex (\<lambda>other. signaturesOverlap other signature) (custom (sig_Name signature)) then
              fail ''function signature %d %q creates ambiguous overloads'' []
            else Inr (key # seen,
              custom(sig_Name signature := custom (sig_Name signature) @ [signature]))))"

fun register_all :: "nat \<Rightarrow> string list \<Rightarrow> registry \<Rightarrow> Signature list \<Rightarrow> registry res" where
  "register_all i seen custom [] = Inr custom"
| "register_all i seen custom (signature # signatures) =
     and_then (register_signature i seen custom signature) (\<lambda>(seen', custom').
       register_all (i + 1) seen' custom' signatures)"

definition NewRegistry :: "Signature list \<Rightarrow> registry res" where
  "NewRegistry custom = register_all 0 [] empty_registry custom"

section \<open>Resolving a call\<close>

definition resolveLegacy :: "string \<Rightarrow> functionResolver" where
  "resolveLegacy name args =
     (case resolveHistogramAggregate name args of
        Some result \<Rightarrow> result
      | None \<Rightarrow>
          if str_contains name ''::'' then resolveLibrary name args
          else (case lookupCore name of
              Some resolve \<Rightarrow> resolve args
            | None \<Rightarrow> Inl (Errorf ''unsupported YQL function %q'' [FStr name])))"

text \<open>The positional types of a call: names are refused, and a String literal may be a Utf8.\<close>

definition plain_type :: "string \<Rightarrow> CallArgument \<Rightarrow> ty" where
  "plain_type name argument =
     (if has_prefix name ''Unicode::'' \<and> name \<noteq> ''Unicode::IsUtf'' \<and> Kind (arg_Type argument) = ''String''
         \<and> (case arg_StringLiteral argument of None \<Rightarrow> False | Some s \<Rightarrow> utf8_valid_string s)
      then mk_kind ''Utf8'' else arg_Type argument)"

definition named_argument_err :: "string \<Rightarrow> CallArgument \<Rightarrow> go_error option" where
  "named_argument_err name argument =
     (if arg_Name argument \<noteq> [] then
        Some (Errorf ''%s does not support named argument %q in the offline resolver''
          [FStr name, FStr (arg_Name argument)])
      else None)"

text \<open>
  \<open>r\<close> is the registry (\<open>empty_registry\<close> for a nil one), \<open>rx\<close> the group names of a regular
  expression.
\<close>

definition ResolveCall :: "(string \<Rightarrow> string list res) \<Rightarrow> registry \<Rightarrow> string \<Rightarrow> CallArgument list \<Rightarrow> ty res" where
  "ResolveCall rx r name args =
     (if equal_fold name ''AsStruct'' then resolveAsStruct args
      else (case resolveYsonCall name args of Some result \<Rightarrow> result | None \<Rightarrow>
      if standardSignatures name \<noteq> [] then resolveSignatures name args (standardSignatures name)
      else if stringUnicodeUrlSignatures name \<noteq> [] then
        resolveSignatures name args (stringUnicodeUrlSignatures name)
      else if name = ''DateTime::Update'' then resolveSignatures name args dateTimeUpdateSignatures
      else if name = ''DateTime::Format'' then resolveSignatures name args [dateTimeFormatSignature name]
      else (case resolveSpecializedCall rx name args of Some result \<Rightarrow> result | None \<Rightarrow>
      if r name \<noteq> [] then resolveSignatures name args (r name)
      else check_then (first_err (named_argument_err name) args)
        (if isCoalesce name then resolveCoalesceArguments name args
         else resolveLegacy name (map (plain_type name) args)))))"

definition Resolve :: "(string \<Rightarrow> string list res) \<Rightarrow> string \<Rightarrow> functionResolver" where
  "Resolve rx name args = ResolveCall rx empty_registry name (map plain_argument args)"

section \<open>What NewRegistry establishes\<close>

definition registry_ok :: "registry \<Rightarrow> bool" where
  "registry_ok r \<longleftrightarrow>
     (\<forall>name. sorted_wrt (\<lambda>s s'. \<not> signaturesOverlap s s') (r name)
        \<and> (\<forall>s\<in>set (r name). sig_Name s = name \<and> \<not> isKnownFunction name \<and> validateSignature s = None))"

lemma registry_ok_empty: "registry_ok empty_registry"
  by (simp add: registry_ok_def empty_registry_def)

lemma register_signature_Inr:
  assumes "register_signature i seen custom s = Inr (seen', custom')"
  shows "\<not> isKnownFunction (sig_Name s)" "validateSignature s = None"
    "\<forall>other\<in>set (custom (sig_Name s)). \<not> signaturesOverlap other s"
    "custom' = custom(sig_Name s := custom (sig_Name s) @ [s])"
  using assms
  by (simp_all add: register_signature_def Let_def list_ex_iff split: if_splits option.splits)

lemma register_signature_ok:
  assumes "register_signature i seen custom s = Inr (seen', custom')" "registry_ok custom"
  shows "registry_ok custom'"
proof -
  note r = register_signature_Inr [OF assms(1)]
  have "sorted_wrt (\<lambda>s s'. \<not> signaturesOverlap s s') (custom (sig_Name s) @ [s])"
    using assms(2) r(3) by (simp add: sorted_wrt_append registry_ok_def)
  with assms(2) r show ?thesis by (auto simp: registry_ok_def)
qed

lemma register_all_ok: "register_all i seen custom ss = Inr r \<Longrightarrow> registry_ok custom \<Longrightarrow> registry_ok r"
proof (induction ss arbitrary: i seen custom)
  case (Cons s ss)
  then obtain seen' custom' where "register_signature i seen custom s = Inr (seen', custom')"
      "register_all (i + 1) seen' custom' ss = Inr r"
    by (auto simp: and_then_Inr_iff)
  with Cons show ?case by (auto dest: register_signature_ok)
qed simp

lemma NewRegistry_ok: "NewRegistry ss = Inr r \<Longrightarrow> registry_ok r"
  unfolding NewRegistry_def by (erule register_all_ok) (rule registry_ok_empty)

lemma register_all_contents:
  "register_all i seen custom ss = Inr r \<Longrightarrow> r name = custom name @ filter (\<lambda>s. sig_Name s = name) ss"
proof (induction ss arbitrary: i seen custom)
  case (Cons s ss)
  then obtain seen' custom' where r: "register_signature i seen custom s = Inr (seen', custom')"
      "register_all (i + 1) seen' custom' ss = Inr r"
    by (auto simp: and_then_Inr_iff)
  from Cons.IH [OF r(2)] register_signature_Inr(4) [OF r(1)] show ?case by simp
qed simp

lemma NewRegistry_contents: "NewRegistry ss = Inr r \<Longrightarrow> r name = filter (\<lambda>s. sig_Name s = name) ss"
  unfolding NewRegistry_def by (drule register_all_contents [where name = name]) (simp add: empty_registry_def)

text \<open>A registry is a table of proper signatures: the contract the resolution rests on.\<close>

lemma registry_signature_table: "registry_ok r \<Longrightarrow> signature_table r"
  by unfold_locales (auto simp: registry_ok_def dest: validateSignature_None(2))

locale checked_registry =
  fixes r :: registry
  assumes checked: "registry_ok r"
begin

sublocale custom: signature_table r
  by (rule registry_signature_table) (rule checked)

lemma known_not_custom: "isKnownFunction name \<Longrightarrow> r name = []"
  using checked by (cases "r name") (fastforce simp: registry_ok_def)+

text \<open>Calls decided by their types match one overload at most.\<close>

lemma match_overloads_length:
  assumes "\<forall>a\<in>set args. decided_argument a"
  shows "length (fst (match_overloads args (r name))) \<le> 1"
proof -
  have "sorted_wrt (\<lambda>s s'. \<not> signaturesOverlap s s') (r name)"
    using checked by (simp add: registry_ok_def)
  then have "sorted_wrt (\<lambda>s s'. \<not> signaturesOverlap s s') (filter (\<lambda>s. \<not> isl (matchSignature args s)) (r name))"
    by (rule sorted_wrt_filter)
  moreover have "signaturesOverlap s s'" if "\<not> isl (matchSignature args s)" "\<not> isl (matchSignature args s')" for s s'
    using that matches_overlap [OF _ _ assms, of s _ s'] by (metis sum.collapse(2))
  ultimately have "length (filter (\<lambda>s. \<not> isl (matchSignature args s)) (r name)) \<le> 1"
    by (rule sorted_wrt_none_length) auto
  then show ?thesis by (simp add: match_overloads_fst)
qed

end

interpretation no_custom: checked_registry empty_registry
  by unfold_locales (rule registry_ok_empty)

section \<open>Every result is sound\<close>

interpretation libraries: resolver_table lookupLibrary
  unfolding lookupLibrary_def by (rule all_libraries.both.resolver_table_axioms)

lemma resolveLegacy_sound:
  assumes "\<forall>a\<in>set args. valid a"
  shows "sound_res args (resolveLegacy name args)"
proof -
  have "sound_res args (resolve args)" if "lookupCore name = Some resolve" for resolve
    using core.lookup_sound [OF that assms] by (simp add: sound_res_def)
  moreover have "sound_res args (resolveLibrary name args)"
    using libraries.lookup_sound [OF _ assms]
    by (auto simp: resolveLibrary_def sound_res_def split: option.splits)
  ultimately show ?thesis
    unfolding resolveLegacy_def by (intro sound_intros) (auto dest: resolveHistogramAggregate_sound)
qed

lemma plain_type_valid: "valid (arg_Type a) \<Longrightarrow> valid (plain_type name a)"
  by (simp add: plain_type_def)

lemma plain_type_OptionalNull:
  assumes "Optional (mk_kind ''Null'') \<in> set (map (plain_type name) args)"
  shows "Optional (mk_kind ''Null'') \<in> set (map arg_Type args)"
proof -
  from assms obtain a where a: "a \<in> set args" "plain_type name a = Optional (mk_kind ''Null'')"
    unfolding set_map by (elim imageE) simp
  then have "arg_Type a = Optional (mk_kind ''Null'')"
    by (auto simp: plain_type_def Optional_def split: if_splits)
  with a(1) show ?thesis unfolding set_map by (intro image_eqI [of _ _ a]) simp_all
qed

lemma resolveLegacy_plain_sound:
  assumes "\<forall>a\<in>set args. valid (arg_Type a)"
  shows "sound_res (map arg_Type args) (resolveLegacy name (map (plain_type name) args))"
proof -
  have "sound_res (map (plain_type name) args) (resolveLegacy name (map (plain_type name) args))"
    by (rule resolveLegacy_sound) (use assms in \<open>auto intro: plain_type_valid\<close>)
  then show ?thesis
    unfolding sound_res_def sound_result_def using plain_type_OptionalNull by blast
qed

lemma ResolveCall_sound:
  assumes rx: "group_names_ok rx" and r: "registry_ok r" and args: "\<forall>a\<in>set args. valid (arg_Type a)"
  shows "sound_res (map arg_Type args) (ResolveCall rx r name args)"
proof -
  have table: "sound_res ts (resolveSignatures name args ss)" if "proper_signatures ss" for ts ss
    using udfResolver_sound that by (auto simp: sound_res_def proper_signatures_def list_all_iff
        elim!: resolveSignatures_match intro!: proper_sound elim: matchSignature_proper)
  have proper: "proper_signatures (standardSignatures name)" "proper_signatures (stringUnicodeUrlSignatures name)"
      "proper_signatures [dateTimeFormatSignature name]" "proper_signatures (r name)"
    using standard.returns_proper string_udf.returns_proper signature_table.returns_proper [OF registry_signature_table [OF r]]
    by (auto simp: proper_signatures_def list_all_iff)
  have struct: "sound_res ts (resolveAsStruct args)" for ts
    using resolveAsStruct_result [of args] by (auto simp: sound_res_def intro: sound_resultI)
  show ?thesis
    unfolding ResolveCall_def
    by (intro sound_intros table proper proper_dateTimeUpdate struct resolveCoalesceArguments_sound args
        resolveLegacy_plain_sound)
      (auto dest: resolveYsonCall_sound resolveSpecializedCall_sound [OF rx])
qed

section \<open>Built-in names are not shadowed\<close>

lemma ResolveCall_known:
  assumes "registry_ok r" "isKnownFunction name"
  shows "ResolveCall rx r name args = ResolveCall rx empty_registry name args"
  using checked_registry.known_not_custom [OF checked_registry.intro [OF assms(1)] assms(2)]
  by (simp add: ResolveCall_def empty_registry_def)

section \<open>The names the package knows\<close>

lemma ascii_upper_lower: "ascii_upper (ascii_lower c) = ascii_upper c"
  unfolding ascii_upper_def ascii_lower_def byte_def by auto

lemma ascii_upper_s: "ascii_upper (CHR ''s'') = CHR ''S''" "byte (CHR ''s'') = 115"
  by code_simp+

lemma ascii_lower_byte: "byte c > 122 \<Longrightarrow> ascii_lower c = c"
  by (simp add: ascii_lower_def)

definition plain_letters :: "string \<Rightarrow> bool" where
  "plain_letters t \<longleftrightarrow> list_all (\<lambda>d. 97 \<le> byte d \<and> byte d \<le> 122 \<and> d \<noteq> CHR ''k'') t"

lemma plain_letters_simps [simp]:
  "plain_letters []"
  "plain_letters (d # t) \<longleftrightarrow> (97 \<le> byte d \<and> byte d \<le> 122 \<and> d \<noteq> CHR ''k'') \<and> plain_letters t"
  by (simp_all add: plain_letters_def)

text \<open>A name that folds to letters without k (whose fold includes the Kelvin sign) uppercases to them.\<close>

lemma fold_case_upper: "plain_letters (fold_case s) \<Longrightarrow> to_upper s = map ascii_upper (fold_case s)"
proof (induction s rule: fold_case.induct)
  case (3 c d)
  then show ?case
    by (cases "byte c = 196 \<and> byte d = 177")
      (auto simp: ascii_lower_byte ascii_upper_lower ascii_upper_s split: if_splits)
next
  case (4 c d e cs)
  have nk: "fold_case (c # d # e # cs) \<noteq> CHR ''k'' # fold_case cs" using 4(4) by auto
  show ?case
  proof (cases "byte c = 197 \<and> byte d = 191")
    case True
    with 4 show ?thesis by (simp add: ascii_upper_s)
  next
    case False
    moreover have "\<not> (byte c = 226 \<and> byte d = 132 \<and> byte e = 170)" using nk False by auto
    ultimately have f: "fold_case (c # d # e # cs) = ascii_lower c # fold_case (d # e # cs)" by auto
    with 4(4) have "byte c \<noteq> 196" by (auto simp: ascii_lower_byte)
    with False have u: "to_upper (c # d # e # cs) = ascii_upper c # to_upper (d # e # cs)" by simp
    have "\<not> (byte c = 226 \<and> byte d = 132 \<and> byte e = 170)" using nk False by auto
    with 4 f False have "to_upper (d # e # cs) = map ascii_upper (fold_case (d # e # cs))"
      by (auto simp del: to_upper.simps)
    then show ?thesis by (simp only: u f list.map ascii_upper_lower)
  qed
qed (simp_all add: ascii_upper_lower)

lemma as_struct_known:
  assumes "equal_fold name ''AsStruct''"
  shows "lookupCore name \<noteq> None"
proof -
  have f: "fold_case name = ''asstruct''" using assms by (simp add: equal_fold_def) code_simp
  then have "to_upper name = map ascii_upper ''asstruct''"
    using fold_case_upper [of name] by (simp add: byte_def)
  also have "\<dots> = ''ASSTRUCT''" by code_simp
  finally show ?thesis by (simp add: lookupCore_def core_functions_def)
qed

lemma date_time_calls_known: "lookupLibrary ''DateTime::Update'' \<noteq> None" "lookupLibrary ''DateTime::Format'' \<noteq> None"
  by (simp_all add: lookupLibrary_def lookupDateTimeDigestIpMath_def first_table_def lookupDateTimeUDF_def)

text \<open>A name that is not known skips every table of the package.\<close>

lemma ResolveCall_unknown:
  assumes "\<not> isKnownFunction name"
  shows "ResolveCall rx r name args =
    (if r name \<noteq> [] then resolveSignatures name args (r name)
     else check_then (first_err (named_argument_err name) args)
       (Inl (Errorf ''unsupported YQL function %q'' [FStr name])))"
proof -
  note no = assms [unfolded isKnownFunction_def de_Morgan_disj not_not]
  from no as_struct_known have "\<not> equal_fold name ''AsStruct''" by blast
  moreover from no have "resolveYsonCall name args = None" by (simp add: resolveYsonCall_def)
  moreover from no date_time_calls_known have "name \<noteq> ''DateTime::Update''" "name \<noteq> ''DateTime::Format''" by blast+
  moreover from no have "resolveSpecializedCall rx name args = None"
    by (simp add: resolveSpecializedCall_def isSpecializedCallName_def)
  moreover from no have "resolveLegacy name ts = Inl (Errorf ''unsupported YQL function %q'' [FStr name])" for ts
    by (simp add: resolveLegacy_def resolveHistogramAggregate_def resolveLibrary_def)
  ultimately show ?thesis using no by (simp add: ResolveCall_def)
qed

section \<open>What NewRegistry accepts\<close>

lemma parametersOverlap_sym:
  assumes "valid (base_or_zero (par_Type p))" "valid (base_or_zero (par_Type q))"
  shows "parametersOverlap p q \<longleftrightarrow> parametersOverlap q p"
  using assms unfolding parametersOverlap_def by (blast intro: valid_Equal_sym)

lemma valid_base_or_zero:
  assumes "validateSignatureType t False = None"
  shows "valid (base_or_zero t)"
proof -
  from assms have v: "valid t" and part: "\<And>u. part_of u t \<Longrightarrow> signature_part u"
    by (simp_all add: validateSignatureType_None)
  show ?thesis
  proof (cases "baseType t")
    case (Inl e)
    with baseType_valid_Inl [OF v] obtain u where "t = Optional u" "Kind u = ''Optional''" by blast
    with part [OF part_self] show ?thesis by (simp add: signature_part_def)
  next
    case (Inr r)
    then show ?thesis by (cases r) (simp add: base_or_zero_def baseType_Inr(1))
  qed
qed

lemma validateSignature_bases:
  "validateSignature s = None \<Longrightarrow> p \<in> set (sig_Arguments s) \<Longrightarrow> valid (base_or_zero (par_Type p))"
  by (auto simp: validateSignature_def validate_parameters_None parameter_ok_def list_all_iff
      intro!: valid_base_or_zero split: option.splits if_splits)

lemma signaturesOverlap_sym:
  assumes "validateSignature l = None" "validateSignature r = None"
  shows "signaturesOverlap l r \<longleftrightarrow> signaturesOverlap r l"
proof -
  have p: "parametersOverlap (sig_Arguments l ! i) (sig_Arguments r ! i) \<longleftrightarrow>
      parametersOverlap (sig_Arguments r ! i) (sig_Arguments l ! i)"
    if "i < length (sig_Arguments l)" "i < length (sig_Arguments r)" for i
    using that by (intro parametersOverlap_sym validateSignature_bases [OF assms(1)]
        validateSignature_bases [OF assms(2)] nth_mem)
  have "overlap_at l r q \<longleftrightarrow> overlap_at r l q" for q by (auto simp: overlap_at_def)
  with p show ?thesis by (auto simp: signaturesOverlap_iff)
qed

lemma register_signature_accepts:
  "(\<exists>x. register_signature i seen custom s = Inr x) \<longleftrightarrow>
     \<not> isKnownFunction (sig_Name s) \<and> validateSignature s = None \<and> signatureShape s \<notin> set seen
   \<and> (\<forall>u\<in>set (custom (sig_Name s)). \<not> signaturesOverlap u s)"
  by (auto simp: register_signature_def Let_def List.member_iff list_ex_iff split: option.splits)

text \<open>What is still required of \<open>ss\<close> once \<open>before\<close> has been registered.\<close>

definition accepted_after :: "Signature list \<Rightarrow> Signature list \<Rightarrow> bool" where
  "accepted_after before ss \<longleftrightarrow>
     list_all (\<lambda>s. \<not> isKnownFunction (sig_Name s) \<and> validateSignature s = None) ss
   \<and> distinct (map signatureShape ss) \<and> set (map signatureShape ss) \<inter> set (map signatureShape before) = {}
   \<and> sorted_wrt (\<lambda>u s. \<not> (sig_Name u = sig_Name s \<and> signaturesOverlap u s)) ss
   \<and> (\<forall>u\<in>set before. \<forall>s\<in>set ss. \<not> (sig_Name u = sig_Name s \<and> signaturesOverlap u s))"

lemma register_all_accepts:
  "set seen = set (map signatureShape before) \<Longrightarrow>
   (\<And>name. set (custom name) = {u \<in> set before. sig_Name u = name}) \<Longrightarrow>
   (\<exists>r. register_all i seen custom ss = Inr r) \<longleftrightarrow> accepted_after before ss"
proof (induction ss arbitrary: i seen custom before)
  case (Cons s ss)
  note acc = register_signature_accepts [of i seen custom s]
  show ?case
  proof (cases "\<exists>x. register_signature i seen custom s = Inr x")
    case False
    then have "\<not> (\<exists>r. register_all i seen custom (s # ss) = Inr r)"
      by (cases "register_signature i seen custom s") auto
    moreover from False have "\<not> accepted_after before (s # ss)"
      unfolding acc accepted_after_def using Cons.prems by auto
    ultimately show ?thesis by blast
  next
    case True
    then obtain seen' custom' where r: "register_signature i seen custom s = Inr (seen', custom')" by auto
    have seen': "seen' = signatureShape s # seen"
      using r by (simp add: register_signature_def Let_def split: if_splits option.splits)
    have "(\<exists>r. register_all (i + 1) seen' custom' ss = Inr r) \<longleftrightarrow> accepted_after (s # before) ss"
      by (rule Cons.IH) (use Cons.prems seen' register_signature_Inr(4) [OF r] in auto)
    moreover have "accepted_after before (s # ss) \<longleftrightarrow> accepted_after (s # before) ss"
      using True unfolding acc accepted_after_def using Cons.prems by auto
    ultimately show ?thesis by (simp add: r)
  qed
qed (simp add: accepted_after_def)

lemma NewRegistry_accepts:
  "(\<exists>r. NewRegistry ss = Inr r) \<longleftrightarrow>
     list_all (\<lambda>s. \<not> isKnownFunction (sig_Name s) \<and> validateSignature s = None) ss
   \<and> distinct (map signatureShape ss)
   \<and> sorted_wrt (\<lambda>u s. \<not> (sig_Name u = sig_Name s \<and> signaturesOverlap u s)) ss"
proof -
  have "(\<exists>r. NewRegistry ss = Inr r) \<longleftrightarrow> accepted_after [] ss"
    unfolding NewRegistry_def by (rule register_all_accepts) (simp_all add: empty_registry_def)
  then show ?thesis by (simp only: accepted_after_def list.set list.map Int_empty_right ball_empty simp_thms)
qed

lemma sorted_wrt_symmetric:
  assumes "mset xs = mset ys" "sorted_wrt R xs" "distinct xs"
    "\<And>x y. x \<in> set xs \<Longrightarrow> y \<in> set xs \<Longrightarrow> R x y \<Longrightarrow> R y x"
  shows "sorted_wrt R ys"
proof -
  have s: "set ys = set xs" and d: "distinct ys"
    using assms(1,3) by (metis set_mset_mset, metis mset_eq_imp_distinct_iff)
  have R: "R x y" if xy: "x \<in> set xs" "y \<in> set xs" "x \<noteq> y" for x y
  proof -
    from xy obtain i j where ij: "i < length xs" "j < length xs" "x = xs ! i" "y = xs ! j" "i \<noteq> j"
      by (auto simp: in_set_conv_nth)
    then consider "i < j" | "j < i" by linarith
    then show ?thesis
    proof cases
      case 1
      with assms(2) ij show ?thesis by (simp add: sorted_wrt_iff_nth_less)
    next
      case 2
      with assms(2) ij have "R y x" by (simp add: sorted_wrt_iff_nth_less)
      then show ?thesis by (rule assms(4) [OF xy(2,1)])
    qed
  qed
  show ?thesis
    unfolding sorted_wrt_iff_nth_less
  proof (intro allI impI)
    fix i j
    assume ij: "i < j" "j < length ys"
    then show "R (ys ! i) (ys ! j)"
      using s d by (intro R) (simp_all add: nth_eq_iff_index_eq flip: s)
  qed
qed

lemma resolveSignatures_mset:
  assumes "mset ss = mset us"
  shows "resolveSignatures name args ss = Inr t \<longleftrightarrow> resolveSignatures name args us = Inr t"
proof -
  have "mset (filter P ss) = mset (filter P us)" for P using assms by simp
  then have "mset (fst (match_overloads args ss)) = mset (fst (match_overloads args us))"
    by (simp add: match_overloads_fst)
  then have "fst (match_overloads args ss) = [t] \<longleftrightarrow> fst (match_overloads args us) = [t]"
    by (metis mset_single_iff mset_single_iff_right)
  then show ?thesis by (simp add: resolveSignatures_Inr)
qed

text \<open>A call sees the declared signatures of its name only as a multiset.\<close>

lemma ResolveCall_mset:
  assumes "mset (q name) = mset (r name)"
  shows "ResolveCall rx q name args = Inr t \<longleftrightarrow> ResolveCall rx r name args = Inr t"
proof -
  have "q name = [] \<longleftrightarrow> r name = []" using assms by (metis mset_zero_iff)
  moreover have "resolveSignatures name args (q name) = Inr t \<longleftrightarrow> resolveSignatures name args (r name) = Inr t"
    using assms by (rule resolveSignatures_mset)
  ultimately show ?thesis by (simp add: ResolveCall_def split: option.split)
qed

lemma NewRegistry_permute:
  assumes "NewRegistry ss = Inr r" "mset us = mset ss"
  shows "\<exists>q. NewRegistry us = Inr q \<and> (\<forall>name. mset (q name) = mset (r name))"
proof -
  have set: "set us = set ss" using assms(2) by (metis set_mset_mset)
  from assms(1) have a: "list_all (\<lambda>s. \<not> isKnownFunction (sig_Name s) \<and> validateSignature s = None) ss"
      "distinct (map signatureShape ss)"
      "sorted_wrt (\<lambda>u s. \<not> (sig_Name u = sig_Name s \<and> signaturesOverlap u s)) ss"
    using NewRegistry_accepts [of ss] by blast+
  have "list_all (\<lambda>s. \<not> isKnownFunction (sig_Name s) \<and> validateSignature s = None) us"
    using a(1) set by (simp add: list_all_iff)
  moreover have "distinct (map signatureShape us)"
    using a(2) assms(2) by (metis mset_eq_imp_distinct_iff mset_map)
  moreover have "sorted_wrt (\<lambda>u s. \<not> (sig_Name u = sig_Name s \<and> signaturesOverlap u s)) us"
  proof (rule sorted_wrt_symmetric [OF assms(2) [symmetric] a(3)])
    show "distinct ss" using a(2) by (simp add: distinct_map)
  qed (use a(1) signaturesOverlap_sym in \<open>fastforce simp: list_all_iff\<close>)
  ultimately obtain q where q: "NewRegistry us = Inr q" using NewRegistry_accepts [of us] by blast
  then have "mset (q name) = mset (r name)" for name
    unfolding NewRegistry_contents [OF q] NewRegistry_contents [OF assms(1)] using assms(2) by simp
  with q show ?thesis by blast
qed

end
