(* ===== verification/GoStrings.thy ===== *)
theory GoStrings
  imports Prelude
begin

text \<open>
  More of Go's \<open>strings\<close> package, as the metadata and configuration code calls it: white space
  trimming, lower case, \<open>CutPrefix\<close>, \<open>Index\<close>. Strings are bytes, so a rune is its UTF-8 encoding.
\<close>

section \<open>White space\<close>

definition bytes :: "nat list \<Rightarrow> string" where
  "bytes ns = map char_of ns"

text \<open>The encodings of the runes for which \<open>unicode.IsSpace\<close> holds.\<close>

definition space_runes :: "string list" where
  "space_runes = map bytes
     ([[32], [9], [10], [11], [12], [13], [194, 133], [194, 160], [225, 154, 128]]
      @ map (\<lambda>n. [226, 128, n]) [128, 129, 130, 131, 132, 133, 134, 135, 136, 137, 138, 168, 169, 175]
      @ [[226, 129, 159], [227, 128, 128]])"

definition rune_prefix :: "string list \<Rightarrow> string \<Rightarrow> string option" where
  "rune_prefix rs s = List.find (\<lambda>r. r \<noteq> [] \<and> has_prefix s r) rs"

function drop_runes :: "string list \<Rightarrow> string \<Rightarrow> string" where
  "drop_runes rs s = (case rune_prefix rs s of None \<Rightarrow> s | Some r \<Rightarrow> drop_runes rs (drop (length r) s))"
  by pat_completeness auto
termination
  by (relation "measure (\<lambda>(rs, s). length s)")
    (auto simp: rune_prefix_def find_Some_iff has_prefix_iff)

declare drop_runes.simps [simp del]

definition trim_left :: "string \<Rightarrow> string" where
  "trim_left s = drop_runes space_runes s"

text \<open>From the right: the same on reversed bytes. A UTF-8 encoding is determined by its last bytes.\<close>

definition trim_right :: "string \<Rightarrow> string" where
  "trim_right s = rev (drop_runes (map rev space_runes) (rev s))"

definition TrimSpace :: "string \<Rightarrow> string" where
  "TrimSpace s = trim_right (trim_left s)"

section \<open>Lower case, prefixes and positions\<close>

text \<open>
  \<open>strings.ToLower\<close> as far as the program can tell: its results are compared with ASCII text only,
  so of the non-ASCII runes just the two whose lower case is ASCII matter, U+0130 (bytes C4 B0, lower
  case i) and U+212A (bytes E2 84 AA, lower case k). The other non-ASCII runes are left as they are.
\<close>

fun to_lower :: "string \<Rightarrow> string" where
  "to_lower [] = []"
| "to_lower [c] = [ascii_lower c]"
| "to_lower [c, d] =
     (if byte c = 196 \<and> byte d = 176 then ''i'' else ascii_lower c # to_lower [d])"
| "to_lower (c # d # e # cs) =
     (if byte c = 196 \<and> byte d = 176 then CHR ''i'' # to_lower (e # cs)
      else if byte c = 226 \<and> byte d = 132 \<and> byte e = 170 then CHR ''k'' # to_lower cs
      else ascii_lower c # to_lower (d # e # cs))"

definition cut_prefix :: "string \<Rightarrow> string \<Rightarrow> string option" where
  "cut_prefix s p = (if has_prefix s p then Some (drop (length p) s) else None)"

lemma to_lower_ascii [simp]:
  "byte c < 128 \<Longrightarrow> to_lower (c # s) = ascii_lower c # to_lower s"
  by (cases s; cases "tl s") (auto simp: ascii_lower_def split: list.splits)

section \<open>Trimming\<close>

lemma rune_prefix_space: "rune_prefix space_runes (CHR '' '' # s) = Some '' ''"
proof -
  have "bytes [32] = '' ''" by code_simp
  then show ?thesis by (simp add: rune_prefix_def space_runes_def has_prefix_def)
qed

lemma trim_left_space: "trim_left (CHR '' '' # s) = trim_left s"
  unfolding trim_left_def by (subst drop_runes.simps) (simp add: rune_prefix_space)

definition space_bytes :: "nat set" where
  "space_bytes = {9, 10, 11, 12, 13, 32, 194, 133, 160, 225, 154, 128, 226, 129, 130, 131, 132, 134, 135,
     136, 137, 138, 168, 169, 175, 159, 227}"

lemma space_runes_bytes: "r \<in> set space_runes \<Longrightarrow> c \<in> set r \<Longrightarrow> byte c \<in> space_bytes"
  by (auto simp: space_runes_def bytes_def space_bytes_def byte_def)

lemma rune_prefix_None:
  "(\<And>r. r \<in> set rs \<Longrightarrow> byte c \<notin> byte ` set r) \<Longrightarrow> rune_prefix rs (c # s) = None"
  unfolding rune_prefix_def find_None_iff has_prefix_iff by (fastforce simp: Cons_eq_append_conv)

lemma drop_runes_stop:
  "(\<And>r. r \<in> set rs \<Longrightarrow> byte c \<notin> byte ` set r) \<Longrightarrow> drop_runes rs (c # s) = c # s"
  by (subst drop_runes.simps) (simp add: rune_prefix_None)

lemma trim_left_stop: "byte c \<notin> space_bytes \<Longrightarrow> trim_left (c # s) = c # s"
  unfolding trim_left_def by (rule drop_runes_stop) (auto dest: space_runes_bytes)

text \<open>Trimming the right end stops at a byte that is not part of a space.\<close>

lemma rune_prefix_append:
  assumes "\<And>r. r \<in> set rs \<Longrightarrow> byte c \<notin> byte ` set r"
  shows "rune_prefix rs (s @ c # t) = rune_prefix rs s"
proof -
  have "has_prefix (s @ c # t) r = has_prefix s r" if "r \<in> set rs" for r
  proof (cases "length r \<le> length s")
    case False
    then have "c \<in> set (take (length r) (s @ c # t))" by (auto simp: take_Cons' not_le)
    with assms [OF that] have "take (length r) (s @ c # t) \<noteq> r" by (metis image_eqI)
    moreover from False have "take (length r) s \<noteq> r" by (metis length_take min.absorb_iff1 min.cobounded1 nle_le)
    ultimately show ?thesis by (simp add: has_prefix_def)
  qed (simp add: has_prefix_def)
  then show ?thesis unfolding rune_prefix_def by (intro find_cong) auto
qed

lemma drop_runes_append:
  assumes "\<And>r. r \<in> set rs \<Longrightarrow> byte c \<notin> byte ` set r"
  shows "drop_runes rs (s @ c # t) = drop_runes rs s @ c # t"
  using assms
proof (induction rs s rule: drop_runes.induct)
  case (1 rs s)
  show ?case
  proof (cases "rune_prefix rs s")
    case None
    with rune_prefix_append [of rs c s t] 1(2) show ?thesis
      by (subst (1 2) drop_runes.simps) simp
  next
    case (Some r)
    then have "length r \<le> length s"
      by (auto simp: rune_prefix_def find_Some_iff has_prefix_iff)
    with Some rune_prefix_append [of rs c s t] 1 show ?thesis
      by (subst (1 2) drop_runes.simps) simp
  qed
qed

lemma trim_right_append: "byte c \<notin> space_bytes \<Longrightarrow> trim_right (s @ c # t) = s @ c # trim_right t"
  by (simp add: trim_right_def, subst drop_runes_append) (auto dest: space_runes_bytes)

section \<open>Cutting\<close>

lemma str_cut_char: "c \<notin> set line \<Longrightarrow> str_cut [c] (line @ c # rest) = Some (line, rest)"
  by (induction line) (auto simp: has_prefix_def)

lemma str_cut_length: "str_cut sep s = Some (a, b) \<Longrightarrow> sep \<noteq> [] \<Longrightarrow> length b < length s"
  by (induction s arbitrary: a) (auto split: if_splits)

end
