(* ===== verification/ConfigOptions.thy ===== *)
theory ConfigOptions
  imports GoStrings
begin

text \<open>
  \<open>internal/config/options.go\<close>: the built-in generators with their options and runtimes, the choice
  of a runtime, the profiles of \<open>init\<close> and the YAML document they give. A \<open>yaml.Node\<close> is the
  datatype of the fields the code fills; encoding a node is the library's and a parameter. The
  lemmas show that a chosen runtime is one the generator lists, and that choosing again keeps it.
\<close>

section \<open>Generators\<close>

record ConfigOption =
  op_Name :: string
  op_Type :: string
  op_Default :: string
  op_Description :: string
  op_Required :: bool
  op_Values :: "string list"

record Generator =
  g_Language :: string
  g_RuntimeKey :: string
  g_DefaultRuntime :: string
  g_Runtimes :: "string list"
  g_RuntimeAliases :: "(string \<times> string) list"
  g_Options :: "ConfigOption list"

text \<open>The composite literal without \<open>Required\<close> and \<open>Values\<close>.\<close>

definition mk_option :: "string \<Rightarrow> string \<Rightarrow> string \<Rightarrow> string \<Rightarrow> ConfigOption" where
  "mk_option name typ dflt description =
     \<lparr>op_Name = name, op_Type = typ, op_Default = dflt, op_Description = description,
      op_Required = False, op_Values = []\<rparr>"

definition defaultCPPNamespace :: string where "defaultCPPNamespace = ''db''"
definition defaultCSharpNamespace :: string where "defaultCSharpNamespace = ''Db''"
definition defaultJavaPackage :: string where "defaultJavaPackage = ''db''"
definition defaultKotlinPackage :: string where "defaultKotlinPackage = ''db''"
definition defaultPHPNamespace :: string where "defaultPHPNamespace = ''Db''"
definition defaultSyncQuerier :: bool where "defaultSyncQuerier = True"

definition generator :: "string \<Rightarrow> string \<Rightarrow> string \<Rightarrow> string list \<Rightarrow> bool \<Rightarrow> ConfigOption list \<Rightarrow> Generator" where
  "generator language runtimeKey defaultRuntime runtimes nativeAlias options =
     (let description = ''SDK or framework used by the generated helpers.'' in
      \<lparr>g_Language = language, g_RuntimeKey = runtimeKey, g_DefaultRuntime = defaultRuntime, g_Runtimes = runtimes,
       g_RuntimeAliases = (if nativeAlias then [(''native'', ''ydb'')] else []),
       g_Options = options @
         [(mk_option runtimeKey ''enum'' defaultRuntime
            (if nativeAlias then description @ '' native is an alias for ydb.'' else description))
          \<lparr>op_Values := (if nativeAlias then runtimes @ [''native''] else runtimes)\<rparr>]\<rparr>)"

definition out_option :: ConfigOption where
  "out_option = (mk_option ''out'' ''string'' ''required'' ''Output directory, relative to sqlc.yaml.'')\<lparr>op_Required := True\<rparr>"

definition go_options :: "ConfigOption list" where
  "go_options =
    [out_option,
     mk_option ''package'' ''string'' ''basename(out)''
       ''Generated Go package name; defaults to the output directory's base name.'',
     mk_option ''rename'' ''map'' ''{}''
       ''Map SQL column and table names to exported Go struct field and model names; single scalar arguments are unchanged.'',
     mk_option ''overrides'' ''list'' ''[]''
       ''Override supported scalar Go types by YQL db_type or physical table.column; see compatibility for binding and decoding limits.'',
     mk_option ''build_tags'' ''string'' ''(empty)''
       ''Go build expression added to every generated Go file; empty emits no constraint.'',
     mk_option ''emit_db_tags'' ''boolean'' ''false'' ''Add DB tags to generated struct fields.'',
     mk_option ''emit_json_tags'' ''boolean'' ''false'' ''Add JSON tags to generated struct fields.'',
     (mk_option ''json_tags_case_style'' ''enum'' ''none''
       ''Case style for JSON tags from SQL names (not rename) when emit_json_tags is true; none preserves names, camel keeps the first segment and uses Id for later id segments, pascal uses ID for id segments, and snake inserts underscores at case boundaries only when the SQL name has no underscores already.'')
       \<lparr>op_Values := [''none'', ''camel'', ''pascal'', ''snake'']\<rparr>,
     mk_option ''emit_interface'' ''boolean'' ''false'' ''Generate the Querier interface implemented by Queries.'',
     mk_option ''emit_empty_slices'' ''boolean'' ''false''
       ''Return empty slices instead of nil for successful :many queries with no rows.'',
     mk_option ''emit_exported_queries'' ''boolean'' ''false''
       ''Export each query's executable YQL as a Go constant named after the query.'',
     mk_option ''query_parameter_limit'' ''integer'' ''1''
       ''Maximum number of positional query arguments; 0 always uses a Params struct for queries with parameters.'']"

definition python_options :: "ConfigOption list" where
  "python_options =
    [out_option,
     mk_option ''emit_sync_querier'' ''boolean'' (if defaultSyncQuerier then ''true'' else ''false'')
       ''Generate synchronous query helpers as Querier; at least one querier mode must be enabled.'',
     mk_option ''emit_async_querier'' ''boolean'' ''false''
       ''Generate AsyncQuerier for the native ydb runtime; DB-API and SQLAlchemy runtimes reject this option.'']"

definition Generators :: "Generator list" where
  "Generators =
    [generator ''go'' ''sql_package'' ''database/sql'' [''database/sql'', ''ydb''] False go_options,
     generator ''python'' ''runtime'' ''ydb'' [''ydb'', ''dbapi'', ''sqlalchemy''] False python_options,
     generator ''cpp'' ''runtime'' ''ydb'' [''ydb'', ''userver''] True
       [out_option, mk_option ''namespace'' ''string'' defaultCPPNamespace
          ''Namespace containing the generated C++ types and helpers.''],
     generator ''csharp'' ''runtime'' ''adonet'' [''adonet'', ''dapper''] False
       [out_option, mk_option ''namespace'' ''string'' defaultCSharpNamespace
          ''Namespace containing the generated C# types and helpers.''],
     generator ''java'' ''runtime'' ''ydb'' [''ydb'', ''jdbc'', ''jooq''] True
       [out_option, mk_option ''package'' ''string'' defaultJavaPackage
          ''Package containing the generated Java types and helpers.''],
     generator ''kotlin'' ''runtime'' ''ydb'' [''ydb'', ''jdbc'', ''exposed''] True
       [out_option, mk_option ''package'' ''string'' defaultKotlinPackage
          ''Package containing the generated Kotlin types and helpers.''],
     generator ''typescript'' ''runtime'' ''ydb'' [''ydb''] False [out_option],
     generator ''rust'' ''runtime'' ''ydb'' [''ydb''] False [out_option],
     generator ''php'' ''runtime'' ''ydb'' [''ydb''] False
       [out_option, mk_option ''namespace'' ''string'' defaultPHPNamespace
          ''Namespace containing the generated PHP types and helpers.'']]"

definition GeneratorFor :: "string \<Rightarrow> Generator res" where
  "GeneratorFor language =
     (case List.find (\<lambda>g. g_Language g = language) Generators of
        Some g \<Rightarrow> Inr g
      | None \<Rightarrow> Inl (Errorf ''unsupported language %q; use sqlc-ydb init --help to list supported languages''
          [FStr language]))"

section \<open>Runtimes\<close>

definition ResolveRuntime :: "Generator \<Rightarrow> string \<Rightarrow> string res" where
  "ResolveRuntime g runtime =
     (if runtime = [] then Inr (g_DefaultRuntime g)
      else (case map_of (g_RuntimeAliases g) runtime of
          Some canonical \<Rightarrow> Inr canonical
        | None \<Rightarrow>
            if List.member (g_Runtimes g) runtime then Inr runtime
            else Inl (Errorf ''unsupported %s %s %q (use %s)''
              [FStr (g_Language g), FStr (g_RuntimeKey g), FStr runtime, FStr (str_join '', '' (g_Runtimes g))])))"

definition resolveRuntime :: "string \<Rightarrow> string \<Rightarrow> string res" where
  "resolveRuntime language runtime = and_then (GeneratorFor language) (\<lambda>g. ResolveRuntime g runtime)"

section \<open>Profiles of init\<close>

record InitProfile =
  ip_Generator :: Generator
  ip_Runtime :: string
  ip_Out :: string

fun init_profiles :: "string \<Rightarrow> string \<Rightarrow> string list \<Rightarrow> InitProfile list res" where
  "init_profiles language runtime [] = Inr []"
| "init_profiles language runtime (name # selected) =
     and_then (GeneratorFor name) (\<lambda>g.
     and_then (ResolveRuntime g runtime) (\<lambda>resolved.
     and_then (init_profiles language runtime selected) (\<lambda>profiles.
       Inr (\<lparr>ip_Generator = g, ip_Runtime = resolved,
             ip_Out = (if language = [] \<and> name = ''python'' then ''queries'' else ''db'')\<rparr> # profiles))))"

definition InitProfiles :: "string \<Rightarrow> string \<Rightarrow> InitProfile list res" where
  "InitProfiles language runtime =
     (if language = [] \<and> runtime \<noteq> [] then Inl (Errorf ''--runtime requires --language'' [])
      else if language = [] then init_profiles language ''ydb'' [''go'', ''python'']
      else init_profiles language runtime [language])"

section \<open>The YAML of init\<close>

text \<open>Kind, tag, value, comment, children and line of a node; a new node has line 0.\<close>

datatype yaml_node =
    ScalarNode string string string int
  | MappingNode "yaml_node list" int
  | SequenceNode "yaml_node list" int
  | AliasNode string int

definition scalar :: "string \<Rightarrow> yaml_node" where
  "scalar v = ScalarNode ''!!str'' v [] 0"

definition init_option_value :: "InitProfile \<Rightarrow> ConfigOption \<Rightarrow> string" where
  "init_option_value profile option =
     (let g = ip_Generator profile in
      if op_Name option = g_RuntimeKey g then ip_Runtime profile
      else if op_Name option = ''out'' then ip_Out profile
      else if op_Name option = ''build_tags'' then []
      else if op_Name option = ''package'' then (if g_Language g = ''go'' then ''db'' else op_Default option)
      else op_Default option)"

definition init_option :: "InitProfile \<Rightarrow> ConfigOption \<Rightarrow> yaml_node list" where
  "init_option profile option =
     (let v = init_option_value profile option in
      [ScalarNode ''!!str'' (op_Name option) (op_Description option) 0,
       (if op_Type option = ''boolean'' then ScalarNode ''!!bool'' v [] 0
        else if op_Type option = ''integer'' then ScalarNode ''!!int'' v [] 0
        else if op_Type option = ''map'' then MappingNode [] 0
        else if op_Type option = ''list'' then SequenceNode [] 0
        else scalar v)])"

definition init_document :: "InitProfile list \<Rightarrow> yaml_node" where
  "init_document profiles =
     (let gen = MappingNode (concat (map (\<lambda>profile.
            [scalar (g_Language (ip_Generator profile)),
             MappingNode (concat (map (init_option profile) (g_Options (ip_Generator profile)))) 0]) profiles)) 0;
          querySet = MappingNode
            [scalar ''engine'', scalar ''ydb'', scalar ''schema'', scalar ''schema.sql'',
             scalar ''queries'', scalar ''query.sql'', scalar ''gen'', gen] 0 in
      MappingNode [scalar ''version'', scalar ''2'', scalar ''sql'', SequenceNode [querySet] 0] 0)"

text \<open>\<open>encode\<close> is the YAML encoder with an indent of two.\<close>

definition InitYAML :: "(yaml_node \<Rightarrow> string res) \<Rightarrow> InitProfile list \<Rightarrow> string res" where
  "InitYAML encode profiles = encode (init_document profiles)"

section \<open>Every generator is well formed\<close>

text \<open>The default and every alias are runtimes, and no alias hides a runtime.\<close>

definition generator_ok :: "Generator \<Rightarrow> bool" where
  "generator_ok g \<longleftrightarrow> g_Language g \<noteq> [] \<and> g_DefaultRuntime g \<in> set (g_Runtimes g) \<and> [] \<notin> set (g_Runtimes g)
     \<and> (\<forall>(a, c) \<in> set (g_RuntimeAliases g). c \<in> set (g_Runtimes g) \<and> a \<notin> set (g_Runtimes g))"

lemma generator_sel [simp]:
  "g_Language (generator l k d rs n os) = l" "g_RuntimeKey (generator l k d rs n os) = k"
  "g_DefaultRuntime (generator l k d rs n os) = d" "g_Runtimes (generator l k d rs n os) = rs"
  "g_RuntimeAliases (generator l k d rs n os) = (if n then [(''native'', ''ydb'')] else [])"
  by (simp_all add: generator_def Let_def)

lemma Generators_ok: "g \<in> set Generators \<Longrightarrow> generator_ok g"
  unfolding Generators_def list.set
  by (elim insertE emptyE; simp add: generator_ok_def)

lemma GeneratorFor_Inr: "GeneratorFor language = Inr g \<Longrightarrow> g \<in> set Generators \<and> g_Language g = language"
  by (auto simp: GeneratorFor_def find_Some_iff split: option.splits)

lemma ResolveRuntime_ok:
  assumes "generator_ok g" "ResolveRuntime g runtime = Inr c"
  shows "c \<in> set (g_Runtimes g)" "ResolveRuntime g c = Inr c"
proof -
  show c: "c \<in> set (g_Runtimes g)"
    using assms by (auto simp: ResolveRuntime_def generator_ok_def dest: map_of_SomeD split: if_splits option.splits)
  moreover have "map_of (g_RuntimeAliases g) c = None"
    using assms(1) c by (auto simp: generator_ok_def map_of_eq_None_iff)
  ultimately show "ResolveRuntime g c = Inr c"
    using assms(1) by (auto simp: ResolveRuntime_def generator_ok_def)
qed

lemma resolveRuntime_ok:
  assumes "resolveRuntime language runtime = Inr c"
  shows "resolveRuntime language c = Inr c" "c \<noteq> []"
proof -
  from assms obtain g where g: "GeneratorFor language = Inr g" "ResolveRuntime g runtime = Inr c"
    by (auto simp: resolveRuntime_def result_simps)
  then have ok: "generator_ok g" by (auto dest: GeneratorFor_Inr Generators_ok)
  note r = ResolveRuntime_ok [OF ok g(2)]
  from r(2) g(1) show "resolveRuntime language c = Inr c" by (simp add: resolveRuntime_def)
  from r(1) ok show "c \<noteq> []" by (auto simp: generator_ok_def)
qed

section \<open>Properties\<close>

text \<open>
  Whatever runtime of whatever generator is asked for, the one chosen is a canonical runtime the
  generator lists, never an alias, and choosing it again gives it again.
\<close>

theorem runtime_canonical:
  assumes "GeneratorFor language = Inr g" "ResolveRuntime g runtime = Inr c"
  shows "c \<in> set (g_Runtimes g) \<and> c \<notin> fst ` set (g_RuntimeAliases g) \<and> ResolveRuntime g c = Inr c"
proof -
  have ok: "generator_ok g" using assms(1) by (auto dest: GeneratorFor_Inr Generators_ok)
  with ResolveRuntime_ok [OF ok assms(2)] show ?thesis by (auto simp: generator_ok_def)
qed

lemma runtime_canonical_witness:
  "\<exists>g. GeneratorFor ''java'' = Inr g \<and> ResolveRuntime g ''ydb'' = Inr ''ydb''"
proof -
  obtain g where g: "GeneratorFor ''java'' = Inr g" "g_Runtimes g = [''ydb'', ''jdbc'', ''jooq'']"
      "g_RuntimeAliases g = [(''native'', ''ydb'')]"
    by (simp add: GeneratorFor_def Generators_def)
  then have "ResolveRuntime g ''native'' = Inr ''ydb''" by (simp add: ResolveRuntime_def)
  with runtime_canonical [OF g(1) this] g(1) show ?thesis by blast
qed

end
