(* ===== verification/GoPaths.thy ===== *)
theory GoPaths
  imports GoStrings
begin

text \<open>
  Go's \<open>path/filepath\<close> on a Unix system, as the configuration calls it: \<open>Clean\<close>, \<open>Base\<close>, \<open>Dir\<close>,
  \<open>Join\<close>, \<open>IsAbs\<close> and \<open>Abs\<close>. The working directory that \<open>Abs\<close> asks for is a parameter.
\<close>

fun split_slash :: "string \<Rightarrow> string list" where
  "split_slash [] = [[]]"
| "split_slash (c # cs) =
     (if c = CHR ''/'' then [] # split_slash cs
      else (case split_slash cs of [] \<Rightarrow> [[c]] | x # xs \<Rightarrow> (c # x) # xs))"

definition IsAbs :: "string \<Rightarrow> bool" where
  "IsAbs path = has_prefix path ''/''"

text \<open>
  The elements kept, last one first: empty elements and \<open>.\<close> disappear, \<open>..\<close> removes the element
  before it, is dropped at the root, and stays at the start of a relative path.
\<close>

fun clean_elements :: "bool \<Rightarrow> string list \<Rightarrow> string list \<Rightarrow> string list" where
  "clean_elements rooted kept [] = kept"
| "clean_elements rooted kept (x # xs) =
     (if x = [] \<or> x = ''.'' then clean_elements rooted kept xs
      else if x = ''..'' then
        (case kept of
           y # ys \<Rightarrow> if y = ''..'' then clean_elements rooted (x # kept) xs else clean_elements rooted ys xs
         | [] \<Rightarrow> if rooted then clean_elements rooted [] xs else clean_elements rooted [x] xs)
      else clean_elements rooted (x # kept) xs)"

definition Clean :: "string \<Rightarrow> string" where
  "Clean path =
     (let rooted = IsAbs path; out = str_join ''/'' (rev (clean_elements rooted [] (split_slash path))) in
      if rooted then CHR ''/'' # out else if out = [] then ''.'' else out)"

definition Base :: "string \<Rightarrow> string" where
  "Base path =
     (if path = [] then ''.''
      else (let stripped = rev (dropWhile (\<lambda>c. c = CHR ''/'') (rev path));
                elem = rev (takeWhile (\<lambda>c. c \<noteq> CHR ''/'') (rev stripped)) in
            if elem = [] then ''/'' else elem))"

definition Join :: "string list \<Rightarrow> string" where
  "Join elems =
     (case dropWhile (\<lambda>e. e = []) elems of [] \<Rightarrow> [] | es \<Rightarrow> Clean (str_join ''/'' es))"

definition Abs :: "string res \<Rightarrow> string \<Rightarrow> string res" where
  "Abs getwd path = (if IsAbs path then Inr (Clean path) else and_then getwd (\<lambda>wd. Inr (Join [wd, path])))"

definition Dir :: "string \<Rightarrow> string" where
  "Dir path = Clean (rev (dropWhile (\<lambda>c. c \<noteq> CHR ''/'') (rev path)))"

lemma Base_nonempty: "Base path \<noteq> []"
  by (simp add: Base_def Let_def)

lemma split_slash_nonempty [simp]: "split_slash s \<noteq> []"
  by (cases s) (auto split: list.splits)

end
