(* ===== verification/DatabaseConfig.thy ===== *)
theory DatabaseConfig
  imports GoPaths
begin

text \<open>
  \<open>internal/config/database.go\<close>: the settings of the optional database connection, their validation
  and their resolution. Parameters: \<open>parse_duration\<close> is \<open>time.ParseDuration\<close> in nanoseconds,
  \<open>parse_url\<close> is \<open>url.Parse\<close> with the fields the code reads, \<open>getenv\<close> the environment and \<open>getwd\<close>
  the working directory. The loop that expands variables is a partial function, so that its
  termination is a lemma; what it computes is stated over texts and variables.
\<close>

section \<open>Settings\<close>

record Database =
  db_URI :: string
  db_AuthTokenEnv :: string
  db_CAFile :: string
  db_Timeout :: string

record ResolvedDatabase =
  rd_Endpoint :: string
  rd_Database :: string
  rd_Secure :: bool
  rd_AuthToken :: string
  rd_CAFile :: string
  rd_Timeout :: int

text \<open>What the code reads of a \<open>url.URL\<close>; \<open>url_HasUser\<close> is \<open>u.User != nil\<close>.\<close>

record URL =
  url_Scheme :: string
  url_Host :: string
  url_Hostname :: string
  url_Path :: string
  url_HasUser :: bool
  url_RawQuery :: string
  url_ForceQuery :: bool

section \<open>Validation\<close>

fun environment_chars :: "nat \<Rightarrow> string \<Rightarrow> bool" where
  "environment_chars i [] = True"
| "environment_chars i (c # cs) =
     (if c \<noteq> CHR ''_'' \<and> \<not> (65 \<le> byte c \<and> byte c \<le> 90) \<and> \<not> (97 \<le> byte c \<and> byte c \<le> 122)
         \<and> \<not> (i > 0 \<and> 48 \<le> byte c \<and> byte c \<le> 57) then False
      else environment_chars (i + 1) cs)"

definition environmentName :: "string \<Rightarrow> bool" where
  "environmentName name = (if name = [] then False else environment_chars 0 name)"

definition timeout :: "(string \<Rightarrow> int res) \<Rightarrow> Database \<Rightarrow> int res" where
  "timeout parse_duration d =
     (if db_Timeout d = [] then Inr (10 * 1000000000)
      else (let failure = Inl (Errorf ''database.timeout must be a positive duration, such as 10s'' []) in
        case parse_duration (db_Timeout d) of
          Inl err \<Rightarrow> failure
        | Inr t \<Rightarrow> if t \<le> 0 then failure else Inr t))"

definition database_validate :: "(string \<Rightarrow> int res) \<Rightarrow> Database \<Rightarrow> go_error option" where
  "database_validate parse_duration d =
     (if TrimSpace (db_URI d) = [] then Some (Errorf ''database.uri is required'' [])
      else if db_AuthTokenEnv d \<noteq> [] \<and> \<not> environmentName (db_AuthTokenEnv d) then
        Some (Errorf ''database.auth_token_env must be an environment variable name, such as YDB_TOKEN'' [])
      else (case timeout parse_duration d of Inl err \<Rightarrow> Some err | Inr _ \<Rightarrow> None))"

section \<open>Resolution\<close>

definition requiredEnvironment :: "(string \<Rightarrow> string) \<Rightarrow> string \<Rightarrow> string res" where
  "requiredEnvironment getenv name =
     (let v = getenv name in
      if v = [] then Inl (Errorf ''environment variable %s is unset or empty'' [FStr name]) else Inr v)"

definition bad_substitution :: go_error where
  "bad_substitution = Errorf ''database.uri has an invalid environment substitution; use ${NAME}'' []"

text \<open>The loop: \<open>out\<close> is what has been written, \<open>uri\<close> what is left. \<open>None\<close> would be a loop that never returns.\<close>

partial_function (option) expand_loop :: "(string \<Rightarrow> string) \<Rightarrow> string \<Rightarrow> string \<Rightarrow> string res option" where
  "expand_loop getenv out uri =
     (case str_cut ''${'' uri of
        None \<Rightarrow> Some (Inr (out @ uri))
      | Some (before, after) \<Rightarrow>
          (case str_cut ''}'' after of
             None \<Rightarrow> Some (Inl bad_substitution)
           | Some (name, rest) \<Rightarrow>
               if \<not> environmentName name then Some (Inl bad_substitution)
               else (case requiredEnvironment getenv name of
                   Inl err \<Rightarrow> Some (Inl (Errorf ''database.uri: %w'' [FErr err]))
                 | Inr v \<Rightarrow> expand_loop getenv (out @ before @ v) rest)))"

definition expandDatabaseURI :: "(string \<Rightarrow> string) \<Rightarrow> string \<Rightarrow> string res option" where
  "expandDatabaseURI getenv uri = expand_loop getenv [] uri"

text \<open>The checks of the parsed URL, in the order of the code.\<close>

definition url_err :: "Database \<Rightarrow> string \<Rightarrow> URL \<Rightarrow> go_error option" where
  "url_err d uri u =
     (if url_Scheme u \<noteq> ''grpc'' \<and> url_Scheme u \<noteq> ''grpcs'' then
        Some (Errorf ''database.uri scheme must be grpc or grpcs'' [])
      else if url_Hostname u = [] then Some (Errorf ''database.uri requires a host'' [])
      else if url_Path u = [] \<or> \<not> has_prefix (url_Path u) ''/'' then
        Some (Errorf ''database.uri requires an absolute database path'' [])
      else if url_HasUser u \<or> url_RawQuery u \<noteq> [] \<or> url_ForceQuery u \<or> str_contains uri ''#'' then
        Some (Errorf ''database.uri must not contain userinfo, a query or a fragment; use auth_token_env for authentication'' [])
      else if db_CAFile d \<noteq> [] \<and> url_Scheme u \<noteq> ''grpcs'' then
        Some (Errorf ''database.ca_file requires a grpcs URI'' [])
      else None)"

definition resolve_ca_file :: "string res \<Rightarrow> string \<Rightarrow> string \<Rightarrow> string res" where
  "resolve_ca_file getwd baseDir caFile =
     (if caFile = [] then Inr []
      else map_error (\<lambda>err. Errorf ''resolve database.ca_file: %w'' [FErr err])
        (Abs getwd (if IsAbs caFile then caFile else Join [baseDir, caFile])))"

definition resolve_token :: "(string \<Rightarrow> string) \<Rightarrow> string \<Rightarrow> string res" where
  "resolve_token getenv name =
     (if name = [] then Inr []
      else map_error (\<lambda>err. Errorf ''database.auth_token_env: %w'' [FErr err]) (requiredEnvironment getenv name))"

definition resolve_expanded ::
  "(string \<Rightarrow> int res) \<Rightarrow> (string \<Rightarrow> URL res) \<Rightarrow> (string \<Rightarrow> string) \<Rightarrow> string res \<Rightarrow> Database \<Rightarrow> string \<Rightarrow> string
    \<Rightarrow> ResolvedDatabase res" where
  "resolve_expanded parse_duration parse_url getenv getwd d baseDir uri =
     (case parse_url uri of
        Inl err \<Rightarrow> Inl (Errorf ''invalid database.uri: expected grpc://host:port/database or grpcs://host:port/database'' [])
      | Inr u \<Rightarrow>
          check_then (url_err d uri u)
          (and_then (timeout parse_duration d) (\<lambda>timeout'.
           and_then (resolve_ca_file getwd baseDir (db_CAFile d)) (\<lambda>caFile.
           and_then (resolve_token getenv (db_AuthTokenEnv d)) (\<lambda>token.
             Inr \<lparr>rd_Endpoint = url_Host u, rd_Database = url_Path u, rd_Secure = (url_Scheme u = ''grpcs''),
                  rd_AuthToken = token, rd_CAFile = caFile, rd_Timeout = timeout'\<rparr>)))))"

definition Database_Resolve ::
  "(string \<Rightarrow> int res) \<Rightarrow> (string \<Rightarrow> URL res) \<Rightarrow> (string \<Rightarrow> string) \<Rightarrow> string res \<Rightarrow> Database \<Rightarrow> string
    \<Rightarrow> ResolvedDatabase res option" where
  "Database_Resolve parse_duration parse_url getenv getwd d baseDir =
     (case database_validate parse_duration d of
        Some err \<Rightarrow> Some (Inl err)
      | None \<Rightarrow>
          (case expandDatabaseURI getenv (db_URI d) of
             None \<Rightarrow> None
           | Some (Inl err) \<Rightarrow> Some (Inl err)
           | Some (Inr uri) \<Rightarrow> Some (resolve_expanded parse_duration parse_url getenv getwd d baseDir uri)))"

section \<open>The expansion of variables\<close>

lemma expand_loop_returns: "\<exists>r. expand_loop getenv out uri = Some r"
proof (induction uri arbitrary: out rule: measure_induct_rule [where f = length])
  case (less uri)
  show ?case
  proof (cases "str_cut ''${'' uri")
    case None
    then show ?thesis by (subst expand_loop.simps) simp
  next
    case (Some p)
    obtain before after where p: "p = (before, after)" by (cases p)
    with Some have l: "length after < length uri" by (auto dest: str_cut_length)
    show ?thesis
    proof (cases "str_cut ''}'' after")
      case None
      with Some p show ?thesis by (subst expand_loop.simps) simp
    next
      case (Some q)
      obtain name rest where q: "q = (name, rest)" by (cases q)
      with Some have "length rest < length after" by (auto dest: str_cut_length)
      with l have "\<exists>r. expand_loop getenv out' rest = Some r" for out' by (intro less.IH) simp
      then show ?thesis
        using \<open>str_cut ''${'' uri = Some p\<close> p Some q
        by (subst expand_loop.simps) (auto split: sum.splits)
    qed
  qed
qed

text \<open>A URI as texts and the variables after them, and what each stands for.\<close>

fun uri_template :: "(string \<times> string) list \<Rightarrow> string \<Rightarrow> string" where
  "uri_template [] end_text = end_text"
| "uri_template ((piece, name) # ps) end_text = piece @ ''${'' @ name @ ''}'' @ uri_template ps end_text"

fun uri_value :: "(string \<Rightarrow> string) \<Rightarrow> (string \<times> string) list \<Rightarrow> string \<Rightarrow> string" where
  "uri_value getenv [] end_text = end_text"
| "uri_value getenv ((piece, name) # ps) end_text = piece @ getenv name @ uri_value getenv ps end_text"

definition plain_text :: "string \<Rightarrow> bool" where
  "plain_text s \<longleftrightarrow> \<not> str_contains s ''${''"

definition variable_ok :: "(string \<Rightarrow> string) \<Rightarrow> string \<times> string \<Rightarrow> bool" where
  "variable_ok getenv p \<longleftrightarrow> plain_text (fst p) \<and> environmentName (snd p) \<and> getenv (snd p) \<noteq> []"

lemma str_cut_template: "plain_text t \<Longrightarrow> str_cut ''${'' (t @ ''${'' @ rest) = Some (t, rest)"
proof (induction t)
  case (Cons c t)
  have "\<not> has_prefix (c # t @ ''${'' @ rest) ''${''"
  proof
    assume h: "has_prefix (c # t @ ''${'' @ rest) ''${''"
    then have "c = CHR ''$''" "take 1 (t @ ''${'' @ rest) = ''{''" by (simp_all add: has_prefix_def)
    then have "has_prefix (c # t) ''${''" by (cases t) (simp_all add: has_prefix_def)
    with Cons.prems show False by (simp add: plain_text_def str_contains_def)
  qed
  moreover have "plain_text t" using Cons.prems by (auto simp: plain_text_def str_contains_def split: if_splits)
  ultimately show ?case using Cons.IH by simp
qed (simp add: has_prefix_def)

lemma str_cut_plain: "str_cut ''${'' s = Some (a, b) \<Longrightarrow> plain_text a \<and> s = a @ ''${'' @ b"
proof (induction s arbitrary: a)
  case (Cons c s)
  show ?case
  proof (cases "has_prefix (c # s) ''${''")
    case True
    with Cons.prems show ?thesis by (auto simp: plain_text_def str_contains_def has_prefix_iff)
  next
    case False
    with Cons.prems obtain a' where a: "str_cut ''${'' s = Some (a', b)" "a = c # a'" by auto
    with Cons.IH have ih: "plain_text a'" "s = a' @ ''${'' @ b" by blast+
    have "\<not> has_prefix (c # a') ''${''" using False ih(2) by (auto simp: has_prefix_iff Cons_eq_append_conv)
    with ih a(2) show ?thesis by (auto simp: plain_text_def str_contains_def)
  qed
qed (simp add: plain_text_def)

lemma environment_chars_no_brace: "environment_chars i name \<Longrightarrow> CHR ''}'' \<notin> set name"
  by (induction name arbitrary: i) (auto simp: byte_def split: if_splits)

lemma environmentName_no_brace: "environmentName name \<Longrightarrow> CHR ''}'' \<notin> set name"
  by (auto simp: environmentName_def dest: environment_chars_no_brace split: if_splits)

lemma str_cut_brace: "str_cut ''}'' s = Some (a, b) \<Longrightarrow> s = a @ ''}'' @ b"
  by (induction s arbitrary: a) (auto simp: has_prefix_def split: if_splits)

lemma expand_template:
  "list_all (variable_ok getenv) ps \<Longrightarrow> plain_text end_text \<Longrightarrow>
   expand_loop getenv out (uri_template ps end_text) = Some (Inr (out @ uri_value getenv ps end_text))"
proof (induction ps arbitrary: out)
  case Nil
  then have "str_cut ''${'' end_text = None" by (simp only: plain_text_def str_contains_def not_not)
  then show ?case by (subst expand_loop.simps) simp
next
  case (Cons p ps)
  obtain piece name where p: "p = (piece, name)" by (cases p)
  with Cons.prems have ok: "plain_text piece" "environmentName name" "getenv name \<noteq> []"
    by (simp_all add: variable_ok_def)
  have "str_cut ''}'' (name @ ''}'' @ uri_template ps end_text) = Some (name, uri_template ps end_text)"
    using str_cut_char [OF environmentName_no_brace [OF ok(2)]] by simp
  then show ?case
    using Cons.IH [of "out @ piece @ getenv name"] Cons.prems ok p str_cut_template [OF ok(1)]
    by (subst expand_loop.simps) (simp add: requiredEnvironment_def)
qed

lemma expand_result:
  "expand_loop getenv out uri = Some (Inr r) \<Longrightarrow>
   \<exists>ps end_text. uri = uri_template ps end_text \<and> list_all (variable_ok getenv) ps \<and> plain_text end_text
     \<and> r = out @ uri_value getenv ps end_text"
proof (induction uri arbitrary: out rule: measure_induct_rule [where f = length])
  case (less uri)
  show ?case
  proof (cases "str_cut ''${'' uri")
    case None
    with less.prems have "r = out @ uri" by (subst (asm) expand_loop.simps) simp
    with None show ?thesis
      by (intro exI [of _ "[]"] exI [of _ uri]) (simp add: plain_text_def str_contains_def)
  next
    case (Some p)
    obtain before after where b: "str_cut ''${'' uri = Some (before, after)" using Some by (cases p) simp
    then obtain name rest where c: "str_cut ''}'' after = Some (name, rest)" "environmentName name" "getenv name \<noteq> []"
        "expand_loop getenv (out @ before @ getenv name) rest = Some (Inr r)"
      using less.prems by (subst (asm) expand_loop.simps)
        (auto simp: requiredEnvironment_def Let_def split: option.splits if_splits)
    have "length rest < length uri" using str_cut_length [OF b] str_cut_length [OF c(1)] by simp
    from less.IH [OF this c(4)] obtain ps end_text where i: "rest = uri_template ps end_text"
        "list_all (variable_ok getenv) ps" "plain_text end_text"
        "r = (out @ before @ getenv name) @ uri_value getenv ps end_text" by blast
    have "uri = uri_template ((before, name) # ps) end_text"
      using str_cut_plain [OF b] str_cut_brace [OF c(1)] i(1) by simp
    moreover have "variable_ok getenv (before, name)"
      using str_cut_plain [OF b] c(2,3) by (simp add: variable_ok_def)
    ultimately show ?thesis
      using i by (intro exI [of _ "(before, name) # ps"] exI [of _ end_text]) simp
  qed
qed

section \<open>Properties\<close>

text \<open>
  C29: resolving the database settings always returns, with a value or an error, whatever the
  environment holds: the loop that expands variables ends on every URI.
\<close>

theorem database_resolve_returns:
  "\<exists>r. Database_Resolve parse_duration parse_url getenv getwd d baseDir = Some r"
proof -
  obtain r where "expandDatabaseURI getenv (db_URI d) = Some r"
    using expand_loop_returns unfolding expandDatabaseURI_def by blast
  then show ?thesis
    by (cases "database_validate parse_duration d"; cases r) (simp_all add: Database_Resolve_def)
qed

text \<open>
  C30: the expansion of a database URI: it succeeds exactly when the URI is plain texts with variables
  between them, each a legal name that is set and not empty, and replaces each variable by its value
  once, without looking at the value for further variables.
\<close>

theorem expand_uri_spec:
  "expandDatabaseURI getenv uri = Some (Inr r) \<longleftrightarrow>
     (\<exists>ps end_text. uri = uri_template ps end_text \<and> list_all (variable_ok getenv) ps \<and> plain_text end_text
        \<and> r = uri_value getenv ps end_text)"
  unfolding expandDatabaseURI_def using expand_result [of getenv "[]" uri r] expand_template [of getenv _ _ "[]"]
  by fastforce

text \<open>
  C31: what a resolved connection guarantees: the expanded URI parses, its scheme is grpc or grpcs and its host
  name is not empty; the endpoint is its host and the database its path, which is absolute; it has no
  credentials, query or fragment; the connection is secure exactly for grpcs, and a certificate file is configured
  only then; the timeout is positive, and a configured token is not empty.
\<close>

theorem database_resolve_safe:
  assumes "Database_Resolve parse_duration parse_url getenv getwd d baseDir = Some (Inr r)"
  shows "\<exists>uri u. expandDatabaseURI getenv (db_URI d) = Some (Inr uri) \<and> parse_url uri = Inr u
    \<and> url_Scheme u \<in> {''grpc'', ''grpcs''} \<and> url_Hostname u \<noteq> [] \<and> rd_Endpoint r = url_Host u
    \<and> rd_Database r = url_Path u \<and> has_prefix (rd_Database r) ''/''
    \<and> \<not> url_HasUser u \<and> url_RawQuery u = [] \<and> \<not> url_ForceQuery u \<and> \<not> str_contains uri ''#''
    \<and> (rd_Secure r \<longleftrightarrow> url_Scheme u = ''grpcs'') \<and> (db_CAFile d \<noteq> [] \<or> rd_CAFile r \<noteq> [] \<longrightarrow> rd_Secure r)
    \<and> rd_Timeout r > 0
    \<and> (db_AuthTokenEnv d \<noteq> [] \<longrightarrow> rd_AuthToken r = getenv (db_AuthTokenEnv d) \<and> rd_AuthToken r \<noteq> [])"
proof -
  from assms obtain uri u where u: "expandDatabaseURI getenv (db_URI d) = Some (Inr uri)" "parse_url uri = Inr u"
      "url_err d uri u = None"
    and r: "timeout parse_duration d = Inr (rd_Timeout r)" "resolve_ca_file getwd baseDir (db_CAFile d) = Inr (rd_CAFile r)"
      "resolve_token getenv (db_AuthTokenEnv d) = Inr (rd_AuthToken r)"
      "rd_Database r = url_Path u" "rd_Endpoint r = url_Host u" "rd_Secure r = (url_Scheme u = ''grpcs'')"
    by (auto simp: Database_Resolve_def resolve_expanded_def result_simps split: option.splits sum.splits)
  have "rd_Timeout r > 0" using r(1) by (auto simp: timeout_def Let_def split: if_splits sum.splits)
  moreover have "rd_CAFile r \<noteq> [] \<Longrightarrow> db_CAFile d \<noteq> []" using r(2) by (auto simp: resolve_ca_file_def)
  moreover have "db_AuthTokenEnv d \<noteq> [] \<Longrightarrow> rd_AuthToken r = getenv (db_AuthTokenEnv d) \<and> rd_AuthToken r \<noteq> []"
    using r(3) by (auto simp: resolve_token_def requiredEnvironment_def result_simps Let_def split: if_splits)
  ultimately show ?thesis
    using u r(4-6) by (intro exI [of _ uri] exI [of _ u]) (auto simp: url_err_def split: if_splits)
qed

text \<open>A sample: \<open>parse_url\<close> answers with one URL, the environment with one value.\<close>

definition sample_database :: Database where
  "sample_database = \<lparr>db_URI = ''grpcs://${YDB_HOST}/local'', db_AuthTokenEnv = ''YDB_TOKEN'', db_CAFile = [], db_Timeout = []\<rparr>"

definition sample_url :: URL where
  "sample_url = \<lparr>url_Scheme = ''grpcs'', url_Host = ''h:2135'', url_Hostname = ''h'', url_Path = ''/local'',
     url_HasUser = False, url_RawQuery = [], url_ForceQuery = False\<rparr>"

lemma sample_expand: "expandDatabaseURI (\<lambda>_. ''x'') (db_URI sample_database) = Some (Inr ''grpcs://x/local'')"
proof -
  have "db_URI sample_database = uri_template [(''grpcs://'', ''YDB_HOST'')] ''/local''"
    by (simp add: sample_database_def)
  moreover have "list_all (variable_ok (\<lambda>_. ''x'')) [(''grpcs://'', ''YDB_HOST'')]" "plain_text ''/local''"
    by code_simp+
  ultimately show ?thesis
    using expand_template [of "\<lambda>_. ''x''" "[(''grpcs://'', ''YDB_HOST'')]" "''/local''" "[]"]
    by (simp add: expandDatabaseURI_def)
qed

lemma database_resolve_safe_witness:
  "\<exists>r. Database_Resolve (\<lambda>_. Inl (GoError [])) (\<lambda>_. Inr sample_url) (\<lambda>_. ''x'') (Inl (GoError [])) sample_database ''/etc''
       = Some (Inr r) \<and> rd_Secure r \<and> rd_Timeout r > 0 \<and> rd_AuthToken r = ''x'' \<and> url_Hostname sample_url \<noteq> []"
proof -
  let ?r = "\<lparr>rd_Endpoint = ''h:2135'', rd_Database = ''/local'', rd_Secure = True, rd_AuthToken = ''x'',
      rd_CAFile = [], rd_Timeout = 10000000000\<rparr>"
  have "database_validate (\<lambda>_. Inl nil_error) sample_database = None" for nil_error by code_simp
  moreover have "resolve_expanded (\<lambda>_. Inl nil_error) (\<lambda>_. Inr sample_url) (\<lambda>_. ''x'') (Inl nil_error) sample_database
      ''/etc'' ''grpcs://x/local'' = Inr ?r" for nil_error by code_simp
  ultimately have r: "Database_Resolve (\<lambda>_. Inl (GoError [])) (\<lambda>_. Inr sample_url) (\<lambda>_. ''x'') (Inl (GoError []))
      sample_database ''/etc'' = Some (Inr ?r)"
    by (simp add: Database_Resolve_def sample_expand)
  from database_resolve_safe [OF r] r show ?thesis by (auto simp: sample_database_def)
qed

end
