(* ===== verification/Config.thy ===== *)
theory Config
  imports ConfigOptions DatabaseConfig Signatures "HOL-Library.Word" "HOL-Library.List_Lexorder" "HOL-Library.Char_ord"
begin

text \<open>
  \<open>internal/config/config.go\<close>: the structures of a configuration, the custom YAML decoding, and \<open>Parse\<close>:
  what a decoded configuration must satisfy and the defaults it is given. Parameters: \<open>decode\<close> and
  \<open>next_document\<close> are the YAML decoder, \<open>constraint_err\<close> the error of \<open>constraint.Parse\<close>,
  \<open>parse_duration\<close> is \<open>time.ParseDuration\<close>. A Go map is a list of pairs with distinct keys. The lemmas
  show what an accepted configuration satisfies and that accepting it again changes nothing.
\<close>

section \<open>Structures\<close>

type_synonym Paths = "string list"

record GoType =
  gt_Import :: string
  gt_Package :: string
  gt_Type :: string

record GoOverride =
  go_DBType :: string
  go_Column :: string
  go_GoType :: GoType
  go_Nullable :: bool

text \<open>A nil map or slice is \<open>None\<close>; \<open>QueryParameterLimit\<close> is a pointer to an \<open>int32\<close>.\<close>

record Go =
  g_Package :: string
  g_Out :: string
  g_SQLPackage :: string
  g_Rename :: "(string \<times> string) list option"
  g_Overrides :: "GoOverride list option"
  g_BuildTags :: string
  g_EmitDBTags :: bool
  g_EmitJSONTags :: bool
  g_JSONTagsCaseStyle :: string
  g_EmitInterface :: bool
  g_EmitEmptySlices :: bool
  g_EmitExportedQueries :: bool
  g_QueryParameterLimit :: "32 word option"

text \<open>Of the retained YAML nodes only \<open>Kind != 0\<close>, that the key was present, is ever read.\<close>

record Python =
  py_PackagePresent :: bool
  py_Out :: string
  py_Runtime :: string
  py_EmitSyncQuerier :: "bool option"
  py_EmitAsyncQuerier :: bool

text \<open>
  The structs \<open>CPP\<close>, \<open>CSharp\<close>, \<open>PHP\<close> (with \<open>Namespace\<close>), \<open>Java\<close>, \<open>Kotlin\<close> (with \<open>Package\<close>),
  \<open>TypeScript\<close> and \<open>Rust\<close> (with neither) have one shape: \<open>tg_Name\<close> is the namespace or package.
\<close>

record Target =
  tg_Name :: string
  tg_Out :: string
  tg_Runtime :: string

record Gen =
  gen_Go :: "Go option"
  gen_Python :: "Python option"
  gen_CPP :: "Target option"
  gen_CSharp :: "Target option"
  gen_Java :: "Target option"
  gen_Kotlin :: "Target option"
  gen_TypeScript :: "Target option"
  gen_Rust :: "Target option"
  gen_PHP :: "Target option"

record FunctionArgument =
  fa_Name :: string
  fa_Type :: string
  fa_Optional :: bool
  fa_AutoMap :: bool

record Function =
  fn_Name :: string
  fn_Args :: "FunctionArgument list"
  fn_Returns :: string

record Analyzer =
  an_Functions :: "Function list"
  an_Parameters :: "(string \<times> (string \<times> string) list) list"
  an_Database :: "bool option"

record SQL =
  sql_Name :: string
  sql_Engine :: string
  sql_Schema :: Paths
  sql_Queries :: Paths
  sql_Rules :: "string list"
  sql_Database :: "Database option"
  sql_Analyzer :: Analyzer
  sql_Gen :: Gen
  sql_CodegenPresent :: bool

record Rule =
  rule_Name :: string
  rule_Rule :: string
  rule_Message :: string

record Config =
  cf_Version :: string
  cf_SQL :: "SQL list"
  cf_Rules :: "Rule list"
  cf_PluginsPresent :: bool
  cf_EnginesPresent :: bool
  cf_Path :: string
  cf_Dir :: string

section \<open>Custom YAML decoding\<close>

fun yaml_line :: "yaml_node \<Rightarrow> int" where
  "yaml_line (ScalarNode tag v comment line) = line"
| "yaml_line (MappingNode ns line) = line"
| "yaml_line (SequenceNode ns line) = line"
| "yaml_line (AliasNode v line) = line"

definition path_of_node :: "yaml_node \<Rightarrow> string option" where
  "path_of_node n =
     (case n of ScalarNode tag v comment line \<Rightarrow> if tag \<noteq> ''!!str'' \<or> v = [] then None else Some v | _ \<Rightarrow> None)"

fun append_paths :: "Paths \<Rightarrow> yaml_node list \<Rightarrow> Paths res" where
  "append_paths p [] = Inr p"
| "append_paths p (child # content) =
     (case path_of_node child of
        None \<Rightarrow> Inl (Errorf ''line %d: expected a non-empty path'' [FInt (yaml_line child)])
      | Some v \<Rightarrow> append_paths (p @ [v]) content)"

text \<open>\<open>p\<close> is the value decoded into, empty for a fresh configuration.\<close>

definition Paths_UnmarshalYAML :: "Paths \<Rightarrow> yaml_node \<Rightarrow> Paths res" where
  "Paths_UnmarshalYAML p n =
     (case n of
        ScalarNode tag v comment line \<Rightarrow>
          if tag \<noteq> ''!!str'' \<or> v = [] then Inl (Errorf ''line %d: expected a non-empty path'' [FInt line])
          else Inr [v]
      | SequenceNode content line \<Rightarrow> append_paths p content
      | _ \<Rightarrow> Inl (Errorf ''line %d: expected a path or list of paths'' [FInt (yaml_line n)]))"

text \<open>The values of the keys of a mapping: every second child, from the first.\<close>

fun yaml_text :: "yaml_node \<Rightarrow> string" where
  "yaml_text (ScalarNode tag v comment line) = v"
| "yaml_text (AliasNode v line) = v"
| "yaml_text _ = []"

fun mapping_keys :: "yaml_node list \<Rightarrow> string list" where
  "mapping_keys [] = []"
| "mapping_keys [k] = [yaml_text k]"
| "mapping_keys (k # v # content) = yaml_text k # mapping_keys content"

definition GoType_UnmarshalYAML :: "(yaml_node \<Rightarrow> GoType res) \<Rightarrow> GoType \<Rightarrow> yaml_node \<Rightarrow> GoType res" where
  "GoType_UnmarshalYAML decode t node =
     (case node of
        ScalarNode tag v comment line \<Rightarrow>
          if tag \<noteq> ''!!str'' then Inl (Errorf ''go_type must be a string or mapping'' [])
          else Inr (t\<lparr>gt_Type := v\<rparr>)
      | MappingNode content line \<Rightarrow>
          check_then (first_err (\<lambda>k. if k \<in> {''import'', ''package'', ''type''} then None
              else Some (Errorf ''unsupported go_type option %q'' [FStr k])) (mapping_keys content))
            (decode node)
      | _ \<Rightarrow> Inl (Errorf ''go_type must be a string or mapping'' []))"

definition override_key_err :: "string \<Rightarrow> go_error option" where
  "override_key_err k =
     (if k \<in> {''db_type'', ''column'', ''go_type'', ''nullable''} then None
      else if k \<in> {''unsigned'', ''go_struct_tag''} then Some (Errorf ''unsupported override option %q'' [FStr k])
      else Some (Errorf ''unknown override option %q'' [FStr k]))"

definition GoOverride_UnmarshalYAML :: "(yaml_node \<Rightarrow> GoOverride res) \<Rightarrow> yaml_node \<Rightarrow> GoOverride res" where
  "GoOverride_UnmarshalYAML decode node =
     (case node of
        MappingNode content line \<Rightarrow>
          check_then (first_err override_key_err (mapping_keys content))
          (and_then (decode node) (\<lambda>o'.
             if go_Column o' \<noteq> [] \<and> List.member (mapping_keys content) ''nullable'' then
               Inl (Errorf ''nullable applies only to db_type overrides'' [])
             else Inr o'))
      | _ \<Rightarrow> Inl (Errorf ''override must be a mapping'' []))"


section \<open>Checks\<close>

definition pluginError :: go_error where
  "pluginError = Errorf ''external plugins and codegen are not supported: migrate to built-in sql[].gen generators'' []"

definition DatabaseEnabled :: "SQL \<Rightarrow> bool" where
  "DatabaseEnabled s =
     (case an_Database (sql_Analyzer s) of Some enabled \<Rightarrow> enabled | None \<Rightarrow> sql_Database s \<noteq> None)"

definition ValidateGoBuildTags :: "(string \<Rightarrow> go_error option) \<Rightarrow> string \<Rightarrow> go_error option" where
  "ValidateGoBuildTags constraint_err tags =
     (if tags = [] then None
      else if list_ex (\<lambda>c. c = CHR 0x0D \<or> c = CHR 0x0A) tags then
        Some (Errorf ''gen.go.build_tags must be one Go build expression'' [])
      else (case constraint_err (''//go:build '' @ tags) of
          Some err \<Rightarrow> Some (Errorf ''gen.go.build_tags: %w'' [FErr err])
        | None \<Rightarrow> None))"

text \<open>The declared rules: \<open>names\<close> are the names taken so far, the reserved one first.\<close>

fun check_rules :: "nat \<Rightarrow> string list \<Rightarrow> Rule list \<Rightarrow> go_error option" where
  "check_rules i names [] = None"
| "check_rules i names (rule # rules) =
     (if rule_Name rule = [] \<or> TrimSpace (rule_Name rule) \<noteq> rule_Name rule then
        Some (Errorf ''rules[%d].name must be non-empty and have no surrounding whitespace'' [FNat i])
      else if List.member names (rule_Name rule) then
        Some (Errorf ''rules[%d].name %q is repeated or reserved'' [FNat i, FStr (rule_Name rule)])
      else if TrimSpace (rule_Rule rule) = [] then
        Some (Errorf ''rules[%d].rule requires a CEL expression'' [FNat i])
      else check_rules (i + 1) (rule_Name rule # names) rules)"

text \<open>The rules a query set selects, against the declared names.\<close>

fun check_selected :: "nat \<Rightarrow> string list \<Rightarrow> string list \<Rightarrow> string list \<Rightarrow> go_error option" where
  "check_selected i ruleNames selected [] = None"
| "check_selected i ruleNames selected (name # names) =
     (if \<not> List.member ruleNames name then
        Some (Errorf ''sql[%d].rules references unknown rule %q'' [FNat i, FStr name])
      else if List.member selected name then
        Some (Errorf ''sql[%d].rules repeats %q'' [FNat i, FStr name])
      else check_selected i ruleNames (name # selected) names)"

fun check_arguments :: "string \<Rightarrow> nat \<Rightarrow> string list \<Rightarrow> FunctionArgument list \<Rightarrow> go_error option" where
  "check_arguments prefix j names [] = None"
| "check_arguments prefix j names (argument # arguments) =
     (if fa_Type argument = [] then
        Some (Errorf ''%s: argument %d type is required'' [FStr prefix, FNat (j + 1)])
      else if fa_Name argument \<noteq> [] \<and> \<not> IsParameterIdentifier (fa_Name argument) then
        Some (Errorf ''%s: argument %d name must be a YQL identifier'' [FStr prefix, FNat (j + 1)])
      else if fa_Name argument \<noteq> [] \<and> List.member names (fa_Name argument) then
        Some (Errorf ''%s: duplicate argument name %q'' [FStr prefix, FStr (fa_Name argument)])
      else check_arguments prefix (j + 1)
        (if fa_Name argument \<noteq> [] then fa_Name argument # names else names) arguments)"

definition function_err :: "nat \<Rightarrow> nat \<Rightarrow> Function \<Rightarrow> go_error option" where
  "function_err sqlIndex functionIndex f =
     (let prefix = sprintf ''sql[%d].analyzer.functions[%d]'' [FNat sqlIndex, FNat functionIndex] in
      if \<not> IsFunctionIdentifier (fn_Name f) then
        Some (Errorf ''%s: function name must be a non-empty YQL identifier'' [FStr prefix])
      else if fn_Returns f = [] then Some (Errorf ''%s: return type is required'' [FStr prefix])
      else check_arguments prefix 0 [] (fn_Args f))"

definition validateFunctions :: "nat \<Rightarrow> Function list \<Rightarrow> go_error option" where
  "validateFunctions sqlIndex functions = first_err_from 0 (function_err sqlIndex) functions"

definition parameter_err :: "nat \<Rightarrow> string \<Rightarrow> string \<times> string \<Rightarrow> go_error option" where
  "parameter_err sqlIndex query p =
     (if fst p = [] \<or> has_prefix (fst p) ''$'' then
        Some (Errorf ''sql[%d].analyzer.parameters.%s: parameter name %q must be non-empty and omit the leading $''
          [FNat sqlIndex, FStr query, FStr (fst p)])
      else if snd p = [] then
        Some (Errorf ''sql[%d].analyzer.parameters.%s.%s: type is required'' [FNat sqlIndex, FStr query, FStr (fst p)])
      else None)"

definition query_err :: "nat \<Rightarrow> string \<times> (string \<times> string) list \<Rightarrow> go_error option" where
  "query_err sqlIndex q =
     (if fst q = [] then Some (Errorf ''sql[%d].analyzer.parameters: query name is required'' [FNat sqlIndex])
      else if snd q = [] then
        Some (Errorf ''sql[%d].analyzer.parameters.%s: at least one parameter is required'' [FNat sqlIndex, FStr (fst q)])
      else first_err (parameter_err sqlIndex (fst q)) (sort_key fst (snd q)))"

definition validateParameters :: "nat \<Rightarrow> (string \<times> (string \<times> string) list) list \<Rightarrow> go_error option" where
  "validateParameters sqlIndex queries = first_err (query_err sqlIndex) (sort_key fst queries)"


section \<open>Generators: checks and defaults\<close>

definition override_err :: "nat \<Rightarrow> nat \<Rightarrow> GoOverride \<Rightarrow> go_error option" where
  "override_err i j override =
     (let where' = sprintf ''sql[%d].gen.go.overrides[%d]'' [FNat i, FNat j] in
      if (go_DBType override = []) = (go_Column override = []) then
        Some (Errorf ''%s: specify exactly one of db_type or column'' [FStr where'])
      else if gt_Type (go_GoType override) = [] then Some (Errorf ''%s.go_type is required'' [FStr where'])
      else if go_Column override \<noteq> [] \<and> go_Nullable override then
        Some (Errorf ''%s: nullable applies only to db_type overrides'' [FStr where'])
      else None)"

text \<open>A runtime, or its error under the name of the query set.\<close>

definition sql_runtime :: "nat \<Rightarrow> string \<Rightarrow> string \<Rightarrow> string res" where
  "sql_runtime i language runtime =
     map_error (\<lambda>err. Errorf ''sql[%d]: %w'' [FNat i, FErr err]) (resolveRuntime language runtime)"

definition or_default :: "string \<Rightarrow> string \<Rightarrow> string" where
  "or_default d s = (if s = [] then d else s)"

definition nil_if_empty :: "'a list option \<Rightarrow> 'a list option" where
  "nil_if_empty m = (if m = Some [] then None else m)"

definition parameter_limit :: "nat \<Rightarrow> 32 word option \<Rightarrow> 32 word res" where
  "parameter_limit i limit =
     (case limit of
        None \<Rightarrow> Inr 1
      | Some n \<Rightarrow>
          if sint n < 0 then Inl (Errorf ''sql[%d].gen.go.query_parameter_limit must not be negative'' [FNat i])
          else Inr n)"

definition check_go :: "(string \<Rightarrow> go_error option) \<Rightarrow> nat \<Rightarrow> Go \<Rightarrow> Go res" where
  "check_go constraint_err i g =
     (let style = or_default ''none'' (g_JSONTagsCaseStyle g); overrides = nil_if_empty (g_Overrides g) in
      if style \<notin> {''none'', ''camel'', ''pascal'', ''snake''} then
        Inl (Errorf ''sql[%d].gen.go.json_tags_case_style %q must be none, camel, pascal, or snake'' [FNat i, FStr style])
      else check_then (map_option (\<lambda>err. Errorf ''sql[%d].%w'' [FNat i, FErr err])
          (ValidateGoBuildTags constraint_err (g_BuildTags g)))
        (and_then (parameter_limit i (g_QueryParameterLimit g)) (\<lambda>limit.
         check_then (first_err_from 0 (override_err i) (case overrides of None \<Rightarrow> [] | Some os \<Rightarrow> os))
         (if g_Out g = [] then Inl (Errorf ''sql[%d].gen.go.out is required'' [FNat i])
          else and_then (sql_runtime i ''go'' (g_SQLPackage g)) (\<lambda>resolved.
            Inr (g\<lparr>g_JSONTagsCaseStyle := style, g_QueryParameterLimit := Some limit,
                   g_Rename := nil_if_empty (g_Rename g), g_Overrides := overrides,
                   g_Package := or_default (Base (Clean (g_Out g))) (g_Package g),
                   g_SQLPackage := resolved\<rparr>))))))"

definition check_python :: "nat \<Rightarrow> Python \<Rightarrow> Python res" where
  "check_python i p =
     (if py_PackagePresent p then
        Inl (Errorf ''sql[%d].gen.python.package is unsupported; remove it: the Python package directory is selected with out'' [FNat i])
      else if py_Out p = [] then Inl (Errorf ''sql[%d].gen.python.out is required'' [FNat i])
      else and_then (sql_runtime i ''python'' (py_Runtime p)) (\<lambda>resolved.
        let sync = (case py_EmitSyncQuerier p of None \<Rightarrow> defaultSyncQuerier | Some v \<Rightarrow> v) in
        if \<not> sync \<and> \<not> py_EmitAsyncQuerier p then
          Inl (Errorf ''Python requires emit_sync_querier or emit_async_querier'' [])
        else Inr (p\<lparr>py_Runtime := resolved, py_EmitSyncQuerier := Some sync\<rparr>)))"

text \<open>
  The seven blocks of the other generators differ in their key under \<open>gen\<close>, which is their
  language, and in the default of the name; a language without a name has the empty default.
\<close>

definition check_target :: "nat \<Rightarrow> string \<Rightarrow> string \<Rightarrow> Target \<Rightarrow> Target res" where
  "check_target i language default_name g =
     (if tg_Out g = [] then Inl (Errorf ''sql[%d].gen.%s.out is required'' [FNat i, FStr language])
      else and_then (sql_runtime i language (tg_Runtime g)) (\<lambda>resolved.
        Inr (g\<lparr>tg_Name := or_default default_name (tg_Name g), tg_Runtime := resolved\<rparr>)))"

definition check_present :: "('a \<Rightarrow> 'a res) \<Rightarrow> 'a option \<Rightarrow> 'a option res" where
  "check_present check g = (case g of None \<Rightarrow> Inr None | Some x \<Rightarrow> and_then (check x) (\<lambda>y. Inr (Some y)))"

definition check_gen :: "(string \<Rightarrow> go_error option) \<Rightarrow> nat \<Rightarrow> Gen \<Rightarrow> Gen res" where
  "check_gen constraint_err i gen =
     and_then (check_present (check_go constraint_err i) (gen_Go gen)) (\<lambda>go.
     and_then (check_present (check_python i) (gen_Python gen)) (\<lambda>python.
     and_then (check_present (check_target i ''cpp'' defaultCPPNamespace) (gen_CPP gen)) (\<lambda>cpp.
     and_then (check_present (check_target i ''csharp'' defaultCSharpNamespace) (gen_CSharp gen)) (\<lambda>csharp.
     and_then (check_present (check_target i ''java'' defaultJavaPackage) (gen_Java gen)) (\<lambda>java.
     and_then (check_present (check_target i ''kotlin'' defaultKotlinPackage) (gen_Kotlin gen)) (\<lambda>kotlin.
     and_then (check_present (check_target i ''typescript'' []) (gen_TypeScript gen)) (\<lambda>typescript.
     and_then (check_present (check_target i ''rust'' []) (gen_Rust gen)) (\<lambda>rust.
     and_then (check_present (check_target i ''php'' defaultPHPNamespace) (gen_PHP gen)) (\<lambda>php.
       Inr \<lparr>gen_Go = go, gen_Python = python, gen_CPP = cpp, gen_CSharp = csharp, gen_Java = java,
            gen_Kotlin = kotlin, gen_TypeScript = typescript, gen_Rust = rust, gen_PHP = php\<rparr>)))))))))"

section \<open>The whole configuration\<close>

definition sql_err :: "(string \<Rightarrow> int res) \<Rightarrow> string list \<Rightarrow> nat \<Rightarrow> SQL \<Rightarrow> go_error option" where
  "sql_err parse_duration ruleNames i s =
     (case check_selected i ruleNames [] (sql_Rules s) of
        Some err \<Rightarrow> Some err
      | None \<Rightarrow>
      if sql_CodegenPresent s then Some pluginError
      else if sql_Engine s \<noteq> ''ydb'' then
        Some (Errorf ''sql[%d]: engine must be ydb; other engines are not supported'' [FNat i])
      else if sql_Queries s = [] \<or> (sql_Schema s = [] \<and> \<not> DatabaseEnabled s) then
        Some (Errorf ''sql[%d]: schema and queries paths are required'' [FNat i])
      else if DatabaseEnabled s \<and> sql_Database s = None then
        Some (Errorf ''sql[%d].analyzer.database requires database.uri'' [FNat i])
      else (case (case sql_Database s of None \<Rightarrow> None | Some d \<Rightarrow> database_validate parse_duration d) of
        Some err \<Rightarrow> Some (Errorf ''sql[%d].%w'' [FNat i, FErr err])
      | None \<Rightarrow> (case validateFunctions i (an_Functions (sql_Analyzer s)) of
        Some err \<Rightarrow> Some err
      | None \<Rightarrow> validateParameters i (an_Parameters (sql_Analyzer s)))))"

fun check_sql ::
  "(string \<Rightarrow> int res) \<Rightarrow> (string \<Rightarrow> go_error option) \<Rightarrow> string list \<Rightarrow> nat \<Rightarrow> SQL list \<Rightarrow> SQL list res" where
  "check_sql parse_duration constraint_err ruleNames i [] = Inr []"
| "check_sql parse_duration constraint_err ruleNames i (s # ss) =
     check_then (sql_err parse_duration ruleNames i s)
     (and_then (check_gen constraint_err i (sql_Gen s)) (\<lambda>gen.
      and_then (check_sql parse_duration constraint_err ruleNames (i + 1) ss) (\<lambda>ss'.
        Inr (s\<lparr>sql_Gen := gen\<rparr> # ss'))))"

definition check_config :: "(string \<Rightarrow> int res) \<Rightarrow> (string \<Rightarrow> go_error option) \<Rightarrow> Config \<Rightarrow> Config res" where
  "check_config parse_duration constraint_err c =
     (if cf_PluginsPresent c \<or> cf_EnginesPresent c then Inl pluginError
      else if cf_Version c \<noteq> ''2'' then Inl (Errorf ''version must be \"2\"'' [])
      else if cf_SQL c = [] then Inl (Errorf ''configuration contains no SQL query sets'' [])
      else check_then (check_rules 0 [''sqlc/db-prepare''] (cf_Rules c))
        (and_then (check_sql parse_duration constraint_err (''sqlc/db-prepare'' # map rule_Name (cf_Rules c)) 0 (cf_SQL c))
          (\<lambda>ss. Inr (c\<lparr>cf_SQL := ss\<rparr>))))"

text \<open>What the second call of the decoder reports: the end of the input, an error or another document.\<close>

datatype next_document = NoMoreDocuments | DocumentError go_error | AnotherDocument

definition Parse ::
  "(string \<Rightarrow> int res) \<Rightarrow> (string \<Rightarrow> go_error option) \<Rightarrow> (string \<Rightarrow> Config res) \<Rightarrow> (string \<Rightarrow> next_document)
    \<Rightarrow> string \<Rightarrow> Config res" where
  "Parse parse_duration constraint_err decode next_document data =
     and_then (decode data) (\<lambda>c.
       case next_document data of
         DocumentError err \<Rightarrow> Inl err
       | AnotherDocument \<Rightarrow> Inl (Errorf ''configuration must contain exactly one document'' [])
       | NoMoreDocuments \<Rightarrow> check_config parse_duration constraint_err c)"



text \<open>
  \<open>Load\<close>: \<open>stat\<close> is \<open>os.Stat\<close>, \<open>getwd\<close> the working directory and \<open>read_file\<close> is \<open>os.ReadFile\<close>.
\<close>

datatype file_stat = FileExists | FileMissing | FileError go_error

fun find_config :: "(string \<Rightarrow> file_stat) \<Rightarrow> string list \<Rightarrow> string res" where
  "find_config stat [] = Inl (Errorf ''no sqlc.yaml, sqlc.yml or sqlc.json configuration found'' [])"
| "find_config stat (candidate # candidates) =
     (case stat candidate of
        FileExists \<Rightarrow> Inr candidate
      | FileError err \<Rightarrow> Inl err
      | FileMissing \<Rightarrow> find_config stat candidates)"

definition Load ::
  "(string \<Rightarrow> file_stat) \<Rightarrow> string res \<Rightarrow> (string \<Rightarrow> string res) \<Rightarrow> (string \<Rightarrow> Config res) \<Rightarrow> string \<Rightarrow> Config res" where
  "Load stat getwd read_file parse path0 =
     and_then (if path0 = [] then find_config stat [''sqlc.yaml'', ''sqlc.yml'', ''sqlc.json''] else Inr path0) (\<lambda>path.
     and_then (Abs getwd path) (\<lambda>abs.
     and_then (read_file abs) (\<lambda>data.
     and_then (map_error (\<lambda>err. Errorf ''%s: %w'' [FStr path, FErr err]) (parse data)) (\<lambda>c.
       Inr (c\<lparr>cf_Path := abs, cf_Dir := Dir abs\<rparr>)))))"

section \<open>Accepted configurations\<close>

text \<open>What accepting guarantees, component by component.\<close>

definition override_ok :: "GoOverride \<Rightarrow> bool" where
  "override_ok o' \<longleftrightarrow> (go_DBType o' = []) \<noteq> (go_Column o' = []) \<and> gt_Type (go_GoType o') \<noteq> []
     \<and> \<not> (go_Column o' \<noteq> [] \<and> go_Nullable o')"

definition go_ok :: "(string \<Rightarrow> go_error option) \<Rightarrow> Go \<Rightarrow> bool" where
  "go_ok constraint_err g \<longleftrightarrow> g_Out g \<noteq> [] \<and> g_Package g \<noteq> [] \<and> resolveRuntime ''go'' (g_SQLPackage g) = Inr (g_SQLPackage g)
     \<and> g_JSONTagsCaseStyle g \<in> {''none'', ''camel'', ''pascal'', ''snake''}
     \<and> (\<exists>n. g_QueryParameterLimit g = Some n \<and> 0 \<le> sint n)
     \<and> ValidateGoBuildTags constraint_err (g_BuildTags g) = None
     \<and> g_Rename g \<noteq> Some [] \<and> g_Overrides g \<noteq> Some []
     \<and> list_all override_ok (case g_Overrides g of None \<Rightarrow> [] | Some os \<Rightarrow> os)"

definition python_ok :: "Python \<Rightarrow> bool" where
  "python_ok p \<longleftrightarrow> \<not> py_PackagePresent p \<and> py_Out p \<noteq> [] \<and> resolveRuntime ''python'' (py_Runtime p) = Inr (py_Runtime p)
     \<and> (\<exists>sync. py_EmitSyncQuerier p = Some sync \<and> (sync \<or> py_EmitAsyncQuerier p))"

definition target_ok :: "string \<Rightarrow> bool \<Rightarrow> Target \<Rightarrow> bool" where
  "target_ok language named g \<longleftrightarrow> tg_Out g \<noteq> [] \<and> \<not> (named \<and> tg_Name g = [])
     \<and> resolveRuntime language (tg_Runtime g) = Inr (tg_Runtime g)"

definition gen_ok :: "(string \<Rightarrow> go_error option) \<Rightarrow> Gen \<Rightarrow> bool" where
  "gen_ok constraint_err gen \<longleftrightarrow> pred_option (go_ok constraint_err) (gen_Go gen) \<and> pred_option python_ok (gen_Python gen)
     \<and> pred_option (target_ok ''cpp'' True) (gen_CPP gen) \<and> pred_option (target_ok ''csharp'' True) (gen_CSharp gen)
     \<and> pred_option (target_ok ''java'' True) (gen_Java gen) \<and> pred_option (target_ok ''kotlin'' True) (gen_Kotlin gen)
     \<and> pred_option (target_ok ''typescript'' False) (gen_TypeScript gen)
     \<and> pred_option (target_ok ''rust'' False) (gen_Rust gen) \<and> pred_option (target_ok ''php'' True) (gen_PHP gen)"

definition argument_names :: "FunctionArgument list \<Rightarrow> string list" where
  "argument_names as = filter (\<lambda>n. n \<noteq> []) (map fa_Name as)"

definition function_ok :: "Function \<Rightarrow> bool" where
  "function_ok f \<longleftrightarrow> IsFunctionIdentifier (fn_Name f) \<and> fn_Returns f \<noteq> []
     \<and> list_all (\<lambda>a. fa_Type a \<noteq> []) (fn_Args f)
     \<and> list_all IsParameterIdentifier (argument_names (fn_Args f)) \<and> distinct (argument_names (fn_Args f))"

definition query_ok :: "string \<times> (string \<times> string) list \<Rightarrow> bool" where
  "query_ok q \<longleftrightarrow> fst q \<noteq> [] \<and> snd q \<noteq> []
     \<and> list_all (\<lambda>p. fst p \<noteq> [] \<and> \<not> has_prefix (fst p) ''$'' \<and> snd p \<noteq> []) (snd q)"

definition database_ok :: "(string \<Rightarrow> int res) \<Rightarrow> Database \<Rightarrow> bool" where
  "database_ok parse_duration d \<longleftrightarrow> TrimSpace (db_URI d) \<noteq> []
     \<and> (db_AuthTokenEnv d = [] \<or> environmentName (db_AuthTokenEnv d))
     \<and> (\<exists>t > 0. timeout parse_duration d = Inr t)"

definition sql_ok :: "(string \<Rightarrow> int res) \<Rightarrow> string list \<Rightarrow> SQL \<Rightarrow> bool" where
  "sql_ok parse_duration ruleNames s \<longleftrightarrow> sql_Engine s = ''ydb'' \<and> \<not> sql_CodegenPresent s
     \<and> distinct (sql_Rules s) \<and> set (sql_Rules s) \<subseteq> set ruleNames
     \<and> sql_Queries s \<noteq> [] \<and> (sql_Schema s \<noteq> [] \<or> DatabaseEnabled s)
     \<and> \<not> (DatabaseEnabled s \<and> sql_Database s = None) \<and> pred_option (database_ok parse_duration) (sql_Database s)
     \<and> list_all function_ok (an_Functions (sql_Analyzer s)) \<and> list_all query_ok (an_Parameters (sql_Analyzer s))"

definition rule_ok :: "Rule \<Rightarrow> bool" where
  "rule_ok r \<longleftrightarrow> rule_Name r \<noteq> [] \<and> TrimSpace (rule_Name r) = rule_Name r \<and> TrimSpace (rule_Rule r) \<noteq> []"

abbreviation rule_names :: "Config \<Rightarrow> string list" where
  "rule_names c \<equiv> ''sqlc/db-prepare'' # map rule_Name (cf_Rules c)"

definition config_ok :: "(string \<Rightarrow> int res) \<Rightarrow> (string \<Rightarrow> go_error option) \<Rightarrow> Config \<Rightarrow> bool" where
  "config_ok parse_duration constraint_err c \<longleftrightarrow> cf_Version c = ''2'' \<and> cf_SQL c \<noteq> [] \<and> \<not> cf_PluginsPresent c \<and> \<not> cf_EnginesPresent c
     \<and> list_all rule_ok (cf_Rules c) \<and> distinct (rule_names c)
     \<and> list_all (\<lambda>s. sql_ok parse_duration (rule_names c) s \<and> gen_ok constraint_err (sql_Gen s)) (cf_SQL c)"


subsection \<open>Generators\<close>

lemma or_default_simps [simp]: "or_default d (or_default d s) = or_default d s" "s \<noteq> [] \<Longrightarrow> or_default d s = s"
    "or_default d s = [] \<longleftrightarrow> d = [] \<and> s = []" "or_default [] s = s"
  by (simp_all add: or_default_def)

lemma nil_if_empty_simps [simp]: "nil_if_empty m \<noteq> Some []" "m \<noteq> Some [] \<Longrightarrow> nil_if_empty m = m"
  by (auto simp: nil_if_empty_def)

lemma sql_runtime_Inr: "sql_runtime i language r = Inr r' \<longleftrightarrow> resolveRuntime language r = Inr r'"
  by (simp add: sql_runtime_def result_simps)

lemma parameter_limit_Inr:
  "parameter_limit i limit = Inr n \<longleftrightarrow> (limit = None \<and> n = 1) \<or> (limit = Some n \<and> 0 \<le> sint n)"
  by (auto simp: parameter_limit_def split: option.splits)

lemma override_err_None: "override_err i j o' = None \<longleftrightarrow> override_ok o'"
  by (auto simp: override_err_def override_ok_def Let_def)

lemma first_err_from_all: "(\<And>i x. f i x = None \<longleftrightarrow> P x) \<Longrightarrow> first_err_from i f xs = None \<longleftrightarrow> list_all P xs"
  by (simp add: first_err_from_None list_all_length)

lemmas overrides_None = first_err_from_all [OF override_err_None]

lemma check_go_ok: "check_go constraint_err i g = Inr g' \<Longrightarrow> go_ok constraint_err g'"
  using Base_nonempty [of "Clean (g_Out g)"]
  by (auto simp: check_go_def go_ok_def Let_def result_simps sql_runtime_Inr parameter_limit_Inr overrides_None
      simp del: first_err_from_None dest: resolveRuntime_ok)

lemma check_go_fix: "go_ok constraint_err g \<Longrightarrow> check_go constraint_err i g = Inr g"
proof -
  assume ok: "go_ok constraint_err g"
  then have "first_err_from 0 (override_err i) (case g_Overrides g of None \<Rightarrow> [] | Some os \<Rightarrow> os) = None"
    by (simp add: go_ok_def overrides_None)
  with ok show ?thesis
    by (cases g) (auto simp: check_go_def go_ok_def Let_def sql_runtime_def parameter_limit_def)
qed

lemma check_python_ok: "check_python i p = Inr p' \<Longrightarrow> python_ok p'"
  by (auto simp: check_python_def python_ok_def Let_def result_simps sql_runtime_Inr dest: resolveRuntime_ok)

lemma check_python_fix: "python_ok p \<Longrightarrow> check_python i p = Inr p"
  by (auto simp: check_python_def python_ok_def Let_def sql_runtime_def)

lemma check_target_ok: "check_target i language d g = Inr g' \<Longrightarrow> target_ok language (d \<noteq> []) g'"
  by (auto simp: check_target_def target_ok_def result_simps sql_runtime_Inr dest: resolveRuntime_ok)

lemma check_target_fix: "target_ok language (d \<noteq> []) g \<Longrightarrow> check_target i language d g = Inr g"
  by (auto simp: check_target_def target_ok_def sql_runtime_def)

lemma check_present_ok:
  "check_present check g = Inr g' \<Longrightarrow> (\<And>x y. check x = Inr y \<Longrightarrow> P y) \<Longrightarrow> pred_option P g'"
  by (auto simp: check_present_def result_simps split: option.splits)

lemma check_present_fix:
  "pred_option P g \<Longrightarrow> (\<And>x. P x \<Longrightarrow> check x = Inr x) \<Longrightarrow> check_present check g = Inr g"
  by (cases g) (simp_all add: check_present_def)

lemmas default_names = defaultCPPNamespace_def defaultCSharpNamespace_def defaultJavaPackage_def
  defaultKotlinPackage_def defaultPHPNamespace_def

lemma present_ok:
  "check_present (check_go constraint_err i) g = Inr g' \<Longrightarrow> pred_option (go_ok constraint_err) g'"
  "check_present (check_python i) p = Inr p' \<Longrightarrow> pred_option python_ok p'"
  "check_present (check_target i language d) t = Inr t' \<Longrightarrow> pred_option (target_ok language (d \<noteq> [])) t'"
  by (erule check_present_ok; blast dest: check_go_ok check_python_ok check_target_ok)+

lemma present_fix:
  "pred_option (go_ok constraint_err) g \<Longrightarrow> check_present (check_go constraint_err i) g = Inr g"
  "pred_option python_ok p \<Longrightarrow> check_present (check_python i) p = Inr p"
  "pred_option (target_ok language (d \<noteq> [])) t \<Longrightarrow> check_present (check_target i language d) t = Inr t"
  by (erule check_present_fix; blast intro: check_go_fix check_python_fix check_target_fix)+

text \<open>The order and the names in which \<open>check_gen\<close> takes the generators.\<close>

lemma check_gen_Inr:
  "check_gen constraint_err i gen = Inr gen' \<longleftrightarrow>
     check_present (check_go constraint_err i) (gen_Go gen) = Inr (gen_Go gen')
     \<and> check_present (check_python i) (gen_Python gen) = Inr (gen_Python gen')
     \<and> check_present (check_target i ''cpp'' defaultCPPNamespace) (gen_CPP gen) = Inr (gen_CPP gen')
     \<and> check_present (check_target i ''csharp'' defaultCSharpNamespace) (gen_CSharp gen) = Inr (gen_CSharp gen')
     \<and> check_present (check_target i ''java'' defaultJavaPackage) (gen_Java gen) = Inr (gen_Java gen')
     \<and> check_present (check_target i ''kotlin'' defaultKotlinPackage) (gen_Kotlin gen) = Inr (gen_Kotlin gen')
     \<and> check_present (check_target i ''typescript'' []) (gen_TypeScript gen) = Inr (gen_TypeScript gen')
     \<and> check_present (check_target i ''rust'' []) (gen_Rust gen) = Inr (gen_Rust gen')
     \<and> check_present (check_target i ''php'' defaultPHPNamespace) (gen_PHP gen) = Inr (gen_PHP gen')"
  by (cases gen') (auto simp: check_gen_def result_simps)

lemma check_gen_ok: "check_gen constraint_err i gen = Inr gen' \<Longrightarrow> gen_ok constraint_err gen'"
  unfolding check_gen_Inr gen_ok_def by (drule present_ok | erule conjE | rule conjI | simp add: default_names)+

lemma check_gen_fix: "gen_ok constraint_err gen \<Longrightarrow> check_gen constraint_err i gen = Inr gen"
  unfolding check_gen_Inr gen_ok_def by (simp add: present_fix default_names)

subsection \<open>Rules, functions and parameters\<close>

lemma check_rules_None:
  "check_rules i names rules = None \<longleftrightarrow> list_all rule_ok rules \<and> distinct (map rule_Name rules)
     \<and> set (map rule_Name rules) \<inter> set names = {}"
  by (induction i names rules rule: check_rules.induct) (auto simp: rule_ok_def)

lemma check_selected_None:
  "check_selected i ruleNames selected names = None \<longleftrightarrow>
     distinct names \<and> set names \<subseteq> set ruleNames \<and> set names \<inter> set selected = {}"
  by (induction i ruleNames selected names rule: check_selected.induct) auto

lemma argument_names_simps [simp]:
  "argument_names [] = []"
  "argument_names (a # as) = (if fa_Name a = [] then argument_names as else fa_Name a # argument_names as)"
  by (simp_all add: argument_names_def)

lemma check_arguments_None:
  "check_arguments prefix j names as = None \<longleftrightarrow> list_all (\<lambda>a. fa_Type a \<noteq> []) as
     \<and> list_all IsParameterIdentifier (argument_names as) \<and> distinct (argument_names as)
     \<and> set (argument_names as) \<inter> set names = {}"
  by (induction prefix j names as rule: check_arguments.induct) auto

lemma validateFunctions_None: "validateFunctions i fs = None \<longleftrightarrow> list_all function_ok fs"
  unfolding validateFunctions_def
  by (rule first_err_from_all) (simp add: function_err_def function_ok_def Let_def check_arguments_None)

lemma validateParameters_None: "validateParameters i qs = None \<longleftrightarrow> list_all query_ok qs"
  by (auto simp: validateParameters_def query_err_def query_ok_def parameter_err_def list_all_iff)

subsection \<open>Query sets and the whole\<close>

lemma timeout_positive: "timeout parse_duration d = Inr t \<Longrightarrow> t > 0"
  by (auto simp: timeout_def Let_def split: if_splits sum.splits)

lemma database_validate_None: "database_validate parse_duration d = None \<longleftrightarrow> database_ok parse_duration d"
  using timeout_positive [of parse_duration d] by (auto simp: database_validate_def database_ok_def split: sum.splits)

lemma seq_err_map_None [simp]: "(case x of None \<Rightarrow> r | Some e \<Rightarrow> Some (f e)) = None \<longleftrightarrow> x = None \<and> r = None"
  by (cases x) simp_all

lemma sql_err_None: "sql_err parse_duration ruleNames i s = None \<longleftrightarrow> sql_ok parse_duration ruleNames s"
  by (cases "sql_Database s")
    (auto simp: sql_err_def sql_ok_def check_selected_None database_validate_None validateFunctions_None validateParameters_None)

lemma sql_ok_gen [simp]: "sql_ok parse_duration ruleNames (s\<lparr>sql_Gen := g\<rparr>) = sql_ok parse_duration ruleNames s"
  by (simp add: sql_ok_def DatabaseEnabled_def split: option.split)

text \<open>A query set afterwards: the generators have changed, nothing else.\<close>

definition same_query_set :: "SQL \<Rightarrow> SQL \<Rightarrow> bool" where
  "same_query_set s s' \<longleftrightarrow> s' = s\<lparr>sql_Gen := sql_Gen s'\<rparr>"

lemma check_sql_ok:
  "check_sql parse_duration constraint_err ruleNames i ss = Inr ss' \<Longrightarrow>
     list_all (\<lambda>s. sql_ok parse_duration ruleNames s \<and> gen_ok constraint_err (sql_Gen s)) ss'
     \<and> list_all2 same_query_set ss ss'"
  by (induction parse_duration constraint_err ruleNames i ss arbitrary: ss' rule: check_sql.induct)
    (auto simp: result_simps sql_err_None check_gen_ok same_query_set_def)

lemma check_sql_fix:
  "list_all (\<lambda>s. sql_ok parse_duration ruleNames s \<and> gen_ok constraint_err (sql_Gen s)) ss \<Longrightarrow>
     check_sql parse_duration constraint_err ruleNames i ss = Inr ss"
  by (induction parse_duration constraint_err ruleNames i ss rule: check_sql.induct)
    (auto simp: sql_err_None [THEN iffD2] check_gen_fix)

lemma check_config_ok:
  assumes "check_config parse_duration constraint_err c = Inr c'"
  shows "config_ok parse_duration constraint_err c'"
    "list_all2 same_query_set (cf_SQL c) (cf_SQL c')" "c' = c\<lparr>cf_SQL := cf_SQL c'\<rparr>"
  using assms
  by (auto simp: check_config_def config_ok_def result_simps check_rules_None dest!: check_sql_ok)

lemma check_config_fix:
  "config_ok parse_duration constraint_err c \<Longrightarrow> check_config parse_duration constraint_err c = Inr c"
  by (auto simp: check_config_def config_ok_def check_rules_None [THEN iffD2] check_sql_fix)

lemma environment_chars_identifier: "i > 0 \<Longrightarrow> environment_chars i s = list_all ident_char s"
  by (induction i s rule: environment_chars.induct) (auto simp: ident_char_def ident_start_def)

text \<open>A configuration may name the environment variables that have the spelling of a YQL parameter.\<close>

lemma environmentName_identifier: "environmentName name = IsParameterIdentifier name"
  by (cases name) (auto simp: environmentName_def environment_chars_identifier ident_start_def)

section \<open>Properties\<close>

text \<open>
  C27: a configuration that the checks accept satisfies the declarative specification: version 2, at
  least one query set, distinct trimmed rule names, and for every query set the engine, paths, known
  and distinct rules, a usable database, identifiers as function and argument names, and generators
  with an output, a canonical runtime and every default filled in. Only the generators have changed.
\<close>

theorem config_accepted:
  assumes "check_config parse_duration constraint_err c = Inr c'"
  shows "config_ok parse_duration constraint_err c' \<and> c' = c\<lparr>cf_SQL := cf_SQL c'\<rparr>
    \<and> list_all2 same_query_set (cf_SQL c) (cf_SQL c')"
  using check_config_ok [OF assms] by blast

definition sample_config :: Config where
  "sample_config = \<lparr>cf_Version = ''2'',
     cf_SQL = [\<lparr>sql_Name = [], sql_Engine = ''ydb'', sql_Schema = [''schema.sql''], sql_Queries = [''query.sql''],
       sql_Rules = [''sqlc/db-prepare''], sql_Database = None,
       sql_Analyzer = \<lparr>an_Functions = [\<lparr>fn_Name = ''My::F'', fn_Args = [], fn_Returns = ''Uint64''\<rparr>],
         an_Parameters = [(''Get'', [(''id'', ''Uint64'')])], an_Database = None\<rparr>,
       sql_Gen = \<lparr>gen_Go = None, gen_Python = None, gen_CPP = None, gen_CSharp = None,
         gen_Java = Some \<lparr>tg_Name = [], tg_Out = ''gen'', tg_Runtime = ''native''\<rparr>, gen_Kotlin = None,
         gen_TypeScript = None, gen_Rust = None, gen_PHP = None\<rparr>,
       sql_CodegenPresent = False\<rparr>],
     cf_Rules = [], cf_PluginsPresent = False, cf_EnginesPresent = False, cf_Path = [], cf_Dir = []\<rparr>"

lemma config_accepted_witness:
  "\<exists>c. check_config (\<lambda>_. Inr 1) (\<lambda>_. None) sample_config = Inr c \<and> config_ok (\<lambda>_. Inr 1) (\<lambda>_. None) c"
proof -
  have "\<not> isl (check_config (\<lambda>_. Inr 1) (\<lambda>_. None) sample_config)" by code_simp
  then obtain c where c: "check_config (\<lambda>_. Inr 1) (\<lambda>_. None) sample_config = Inr c"
    by (cases "check_config (\<lambda>_. Inr 1) (\<lambda>_. None) sample_config") simp_all
  with config_accepted [OF c] show ?thesis by blast
qed

text \<open>
  C28: the configurations that the checks leave as they are, are exactly those of the specification:
  together with the last property, everything accepted is accepted again, unchanged, and every
  configuration of the specification is accepted.
\<close>

theorem config_fixpoint:
  "check_config parse_duration constraint_err c = Inr c \<longleftrightarrow> config_ok parse_duration constraint_err c"
  using check_config_ok(1) check_config_fix by blast

end
