(* ===== verification/GoRunes.thy ===== *)
theory GoRunes
  imports GoStrings
begin

text \<open>
  Go's \<open>unicode/utf8\<close> and the parts of \<open>strconv\<close> that read literals: encoding and decoding of runes,
  \<open>UnquoteChar\<close>, and \<open>ParseInt\<close>, \<open>ParseUint\<close> and \<open>big.Int.SetString\<close> with an explicit base.
\<close>

section \<open>Runes\<close>

definition valid_rune :: "nat \<Rightarrow> bool" where
  "valid_rune r \<longleftrightarrow> r < 55296 \<or> (57343 < r \<and> r \<le> 1114111)"

definition encode_rune :: "nat \<Rightarrow> string" where
  "encode_rune r =
     (if r < 128 then bytes [r]
      else if r < 2048 then bytes [192 + r div 64, 128 + r mod 64]
      else if \<not> valid_rune r then bytes [239, 191, 189]
      else if r < 65536 then bytes [224 + r div 4096, 128 + r div 64 mod 64, 128 + r mod 64]
      else bytes [240 + r div 262144, 128 + r div 4096 mod 64, 128 + r div 64 mod 64, 128 + r mod 64])"

text \<open>\<open>DecodeRuneInString\<close> of a non-empty string: the rune and the number of its bytes.\<close>

definition decode_rune :: "string \<Rightarrow> nat \<times> nat" where
  "decode_rune s =
     (let w = utf8_width (map byte s); b = (\<lambda>i. byte (s ! i)) in
      if w = 0 then (65533, 1)
      else if w = 1 then (b 0, 1)
      else if w = 2 then ((b 0 - 192) * 64 + (b 1 - 128), 2)
      else if w = 3 then ((b 0 - 224) * 4096 + (b 1 - 128) * 64 + (b 2 - 128), 3)
      else ((b 0 - 240) * 262144 + (b 1 - 128) * 4096 + (b 2 - 128) * 64 + (b 3 - 128), 4))"

text \<open>\<open>unicode.IsControl\<close>: the C0 and C1 controls and DEL.\<close>

definition is_control :: "nat \<Rightarrow> bool" where
  "is_control r \<longleftrightarrow> r < 32 \<or> (127 \<le> r \<and> r < 160)"

section \<open>Numbers\<close>

definition digit_value :: "char \<Rightarrow> nat" where
  "digit_value c =
     (if 48 \<le> byte c \<and> byte c \<le> 57 then byte c - 48
      else if 97 \<le> byte c \<and> byte c \<le> 122 then byte c - 87
      else if 65 \<le> byte c \<and> byte c \<le> 90 then byte c - 55 else 36)"

fun digits_value :: "nat \<Rightarrow> nat \<Rightarrow> string \<Rightarrow> nat option" where
  "digits_value base acc [] = Some acc"
| "digits_value base acc (c # cs) =
     (if digit_value c < base then digits_value base (acc * base + digit_value c) cs else None)"

definition parse_digits :: "nat \<Rightarrow> string \<Rightarrow> nat option" where
  "parse_digits base s = (if s = [] then None else digits_value base 0 s)"

definition ParseUint :: "string \<Rightarrow> nat \<Rightarrow> nat \<Rightarrow> nat option" where
  "ParseUint s base bits =
     (case parse_digits base s of None \<Rightarrow> None | Some n \<Rightarrow> if n < 2 ^ bits then Some n else None)"

text \<open>An optional sign and the rest.\<close>

definition split_sign :: "string \<Rightarrow> bool \<times> string" where
  "split_sign s = (case s of c # cs \<Rightarrow> if c = CHR ''-'' then (True, cs) else if c = CHR ''+'' then (False, cs) else (False, s)
     | [] \<Rightarrow> (False, []))"

definition ParseInt :: "string \<Rightarrow> nat \<Rightarrow> nat \<Rightarrow> int option" where
  "ParseInt s base bits =
     (let (neg, digits) = split_sign s in
      case parse_digits base digits of
        None \<Rightarrow> None
      | Some n \<Rightarrow>
          if neg then (if n \<le> 2 ^ (bits - 1) then Some (- int n) else None)
          else (if n < 2 ^ (bits - 1) then Some (int n) else None))"

definition SetString :: "string \<Rightarrow> nat \<Rightarrow> int option" where
  "SetString s base =
     (let (neg, digits) = split_sign s in
      map_option (\<lambda>n. if neg then - int n else int n) (parse_digits base digits))"

section \<open>\<open>strconv.UnquoteChar\<close>\<close>

text \<open>The digits of an escape: the first \<open>n\<close> characters as a number of the base, and the rest.\<close>

definition escape_number :: "nat \<Rightarrow> nat \<Rightarrow> string \<Rightarrow> (nat \<times> string) option" where
  "escape_number base n s =
     (if length s < n then None
      else (case digits_value base 0 (take n s) of None \<Rightarrow> None | Some v \<Rightarrow> Some (v, drop n s)))"

definition simple_escapes :: "(char \<times> nat) list" where
  "simple_escapes = [(CHR ''a'', 7), (CHR ''b'', 8), (CHR ''f'', 12), (CHR ''n'', 10), (CHR ''r'', 13), (CHR ''t'', 9),
     (CHR ''v'', 11), (CHR 0x5C, 92)]"

text \<open>The character, whether it is a rune to be encoded (else it is a byte), and the tail.\<close>

definition UnquoteChar :: "string \<Rightarrow> char \<Rightarrow> (nat \<times> bool \<times> string) option" where
  "UnquoteChar s quote =
     (case s of
        [] \<Rightarrow> None
      | c # tail \<Rightarrow>
          if c = quote \<and> (quote = CHR 0x27 \<or> quote = CHR 0x22) then None
          else if 128 \<le> byte c then
            (let (r, size) = decode_rune s in Some (r, True, drop size s))
          else if c \<noteq> CHR 0x5C then Some (byte c, False, tail)
          else (case tail of
              [] \<Rightarrow> None
            | e # rest \<Rightarrow>
                (case map_of simple_escapes e of
                   Some v \<Rightarrow> Some (v, False, rest)
                 | None \<Rightarrow>
                     if e = CHR ''x'' then map_option (\<lambda>(v, t). (v, False, t)) (escape_number 16 2 rest)
                     else if e = CHR ''u'' \<or> e = CHR ''U'' then
                       (case escape_number 16 (if e = CHR ''u'' then 4 else 8) rest of
                          None \<Rightarrow> None
                        | Some (v, t) \<Rightarrow> if valid_rune v then Some (v, True, t) else None)
                     else if 48 \<le> byte e \<and> byte e \<le> 55 then
                       (case escape_number 8 3 tail of
                          None \<Rightarrow> None
                        | Some (v, t) \<Rightarrow> if v > 255 then None else Some (v, False, t))
                     else if e = CHR 0x27 \<or> e = CHR 0x22 then
                       (if e = quote then Some (byte e, False, rest) else None)
                     else None)))"

text \<open>How the callers append a character: \<open>WriteRune\<close> or \<open>WriteByte\<close>.\<close>

definition write_char :: "nat \<times> bool \<Rightarrow> string" where
  "write_char p = (case p of (v, multibyte) \<Rightarrow> if multibyte then encode_rune v else bytes [v])"

section \<open>Facts\<close>

lemma escape_number_length: "escape_number base n s = Some (v, t) \<Longrightarrow> length t \<le> length s"
  by (auto simp: escape_number_def split: if_splits option.splits)

lemma decode_rune_size: "s \<noteq> [] \<Longrightarrow> 0 < snd (decode_rune s)"
  by (simp add: decode_rune_def Let_def)

lemma UnquoteChar_length:
  assumes "UnquoteChar s quote = Some (v, m, tail)"
  shows "length tail < length s"
proof -
  from assms obtain c cs where s: "s = c # cs" by (cases s) (simp_all add: UnquoteChar_def)
  have r: "length (drop (snd (decode_rune s)) s) < length s" using s decode_rune_size [of s] by simp
  show ?thesis
  proof (cases cs)
    case Nil
    with assms r show ?thesis unfolding s by (auto simp: UnquoteChar_def split: if_splits prod.splits)
  next
    case (Cons e rest)
    have octal: "length t < length s" if "escape_number 8 3 cs = Some (w, t)" for w t
      using that s by (auto dest!: escape_number_length)
    have hex: "length t < length s" if "escape_number 16 n rest = Some (w, t)" for n w t
      using that s Cons by (auto dest!: escape_number_length)
    from assms r show ?thesis unfolding s Cons
      by (auto simp: UnquoteChar_def split: if_splits prod.splits option.splits dest: octal [unfolded s Cons] hex [unfolded s Cons])
  qed
qed

section \<open>\<open>strconv.Unquote\<close> of a double-quoted string\<close>

function unquote_body :: "string \<Rightarrow> string \<Rightarrow> string option" where
  "unquote_body out s =
     (case s of
        [] \<Rightarrow> None
      | c # cs \<Rightarrow>
          if c = CHR 0x22 then (if cs = [] then Some out else None)
          else if c = CHR 0x0A then None
          else (case UnquoteChar s (CHR 0x22) of
              None \<Rightarrow> None
            | Some (v, multibyte, tail) \<Rightarrow> unquote_body (out @ write_char (v, multibyte)) tail))"
  by pat_completeness auto
termination
  by (relation "measure (\<lambda>(out, s). length s)") (auto dest!: UnquoteChar_length)

declare unquote_body.simps [simp del]

definition Unquote :: "string \<Rightarrow> string option" where
  "Unquote text = (case text of c # s \<Rightarrow> if c = CHR 0x22 then unquote_body [] s else None | [] \<Rightarrow> None)"

end
