(* ===== verification/Literals.thy ===== *)
theory Literals
  imports NumericTypes GoRunes
begin

text \<open>
  \<open>internal/analyzer/literal.go\<close>: the types and values of YQL literals, from the text of their tokens.
  Finding the token of a literal in the parse tree is outside the model; \<open>parse_float\<close> is
  \<open>strconv.ParseFloat\<close> without its value. The lemmas relate the type an integer literal is given to
  the value that is kept for it.
\<close>

section \<open>Integer literals\<close>

definition integerDigits :: "string \<Rightarrow> string \<times> nat" where
  "integerDigits text =
     (let lower = to_lower text in
      if has_prefix lower ''0x'' then (drop 2 text, 16)
      else if has_prefix lower ''0o'' then (drop 2 text, 8)
      else if has_prefix lower ''0b'' then (drop 2 text, 2)
      else (text, 10))"

definition value_suffixes :: "string list" where
  "value_suffixes = [''ul'', ''us'', ''ut'', ''l'', ''s'', ''t'', ''u'']"

definition trim_suffix :: "string \<Rightarrow> string \<Rightarrow> string" where
  "trim_suffix s suffix = (if has_suffix s suffix then take (length s - length suffix) s else s)"

text \<open>\<open>integerLiteralValue\<close> after the token has been found: \<open>text\<close> is the token.\<close>

definition integerLiteralValue :: "string \<Rightarrow> int option" where
  "integerLiteralValue text0 =
     (let text = to_lower text0;
          text = (case List.find (has_suffix text) value_suffixes of None \<Rightarrow> text | Some suffix \<Rightarrow> trim_suffix text suffix);
          (number, base) = integerDigits text in
      SetString number base)"

text \<open>The table of suffixes: kind, bits, unsigned.\<close>

definition suffix_types :: "(string \<times> string \<times> nat \<times> bool) list" where
  "suffix_types =
    [(''ul'', ''Uint64'', 64, True), (''us'', ''Uint16'', 16, True), (''ut'', ''Uint8'', 8, True),
     (''l'', ''Int64'', 64, False), (''s'', ''Int16'', 16, False), (''t'', ''Int8'', 8, False), (''u'', ''Uint32'', 32, True)]"

definition integerLiteralType :: "string \<Rightarrow> bool \<Rightarrow> ty res" where
  "integerLiteralType text hasSuffix =
     (let lower = to_lower text in
      case List.find (\<lambda>(suffix, _). has_suffix lower suffix) suffix_types of
        Some (suffix, kind, bits, uns) \<Rightarrow>
          (let (number, base) = integerDigits (take (length text - length suffix) text) in
           if (if uns then ParseUint number base bits = None else ParseInt number base bits = None) then
             Inl (Errorf ''integer literal %q is out of range for %s'' [FStr text, FStr kind])
           else Inr (mk_kind kind))
      | None \<Rightarrow>
          if hasSuffix then Inl (Errorf ''unsupported integer literal suffix in %q'' [FStr text])
          else (let (number, base) = integerDigits text in
            case ParseInt number base 64 of
              None \<Rightarrow> Inl (Errorf ''integer literal %q is out of range for Int64'' [FStr text])
            | Some value \<Rightarrow>
                if - (2 ^ 31) \<le> value \<and> value \<le> 2 ^ 31 - 1 then Inr (mk_kind ''Int32'') else Inr (mk_kind ''Int64'')))"

section \<open>String, real and other literals\<close>

definition ends_quoted :: "string \<Rightarrow> bool" where
  "ends_quoted text \<longleftrightarrow> has_suffix text [CHR 0x27] \<or> has_suffix text [CHR 0x22] \<or> has_suffix text ''@@''"

definition stringLiteralType :: "string \<Rightarrow> ty res" where
  "stringLiteralType text =
     (if length text < 2 \<or> ends_quoted text then Inr (mk_kind ''String'')
      else (let prefix = butlast text; suffix = encode_rune (byte (last text)) in
        if \<not> ends_quoted prefix then Inr (mk_kind ''String'')
        else (let lower = to_lower suffix in
          if lower = ''s'' then Inr (mk_kind ''String'')
          else if lower = ''u'' then Inr (mk_kind ''Utf8'')
          else if lower = ''y'' then Inr (mk_kind ''Yson'')
          else if lower = ''j'' then Inr (mk_kind ''Json'')
          else Inl (Errorf ''unsupported string literal suffix %q'' [FStr suffix]))))"

definition realLiteralType :: "(string \<Rightarrow> nat \<Rightarrow> bool) \<Rightarrow> string \<Rightarrow> ty res" where
  "realLiteralType parse_float text =
     (let (kind, bits, number) =
        (if has_suffix (to_lower text) ''f'' then (''Float'', 32, butlast text) else (''Double'', 64, text)) in
      if \<not> parse_float number bits then
        Inl (Errorf ''floating-point literal %q is out of range for %s'' [FStr text, FStr kind])
      else Inr (mk_kind kind))"

text \<open>What the grammar distinguishes in a literal, with the text of the token.\<close>

datatype literal_value =
    LitNull
  | LitBool
  | LitString string
  | LitInteger string bool
  | LitReal string
  | LitOther string

definition literalValueType :: "(string \<Rightarrow> nat \<Rightarrow> bool) \<Rightarrow> literal_value \<Rightarrow> ty res" where
  "literalValueType parse_float literal =
     (case literal of
        LitNull \<Rightarrow> Inr (mk_kind ''Null'')
      | LitBool \<Rightarrow> Inr (mk_kind ''Bool'')
      | LitString text \<Rightarrow> stringLiteralType text
      | LitInteger text hasSuffix \<Rightarrow> integerLiteralType text hasSuffix
      | LitReal text \<Rightarrow> realLiteralType parse_float text
      | LitOther text \<Rightarrow> Inl (Errorf ''unsupported literal %q'' [FStr text]))"

function unquote_loop :: "string \<Rightarrow> char \<Rightarrow> string \<Rightarrow> string option" where
  "unquote_loop value quote rest =
     (if rest = [] then Some value
      else (case UnquoteChar rest quote of
          None \<Rightarrow> None
        | Some (character, multibyte, tail) \<Rightarrow> unquote_loop (value @ write_char (character, multibyte)) quote tail))"
  by pat_completeness auto
termination
  by (relation "measure (\<lambda>(value, quote, rest). length rest)") (auto dest: UnquoteChar_length)

declare unquote_loop.simps [simp del]

text \<open>\<open>stringLiteralValue\<close> after the token has been found.\<close>

definition stringLiteralValue :: "string \<Rightarrow> string option" where
  "stringLiteralValue text0 =
     (let text = (if length text0 > 2 \<and> (last text0 = CHR ''s'' \<or> last text0 = CHR ''S'') then butlast text0 else text0) in
      if has_prefix text ''@@'' \<and> has_suffix text ''@@'' \<and> length text \<ge> 4 then
        Some (take (length text - 4) (drop 2 text))
      else if length text < 2 \<or> hd text \<noteq> last text \<or> (hd text \<noteq> CHR 0x27 \<and> hd text \<noteq> CHR 0x22) then None
      else unquote_loop [] (hd text) (butlast (tl text)))"


section \<open>Lower case and digits\<close>

lemma byte_char_of [simp]: "n < 256 \<Longrightarrow> byte (char_of n) = n"
  by (simp add: byte_def)

lemma byte_eq_iff: "byte c = byte d \<longleftrightarrow> c = d"
  by (simp add: byte_def)

lemma byte_lower: "byte (ascii_lower c) = (if 65 \<le> byte c \<and> byte c \<le> 90 then byte c + 32 else byte c)"
  by (simp add: ascii_lower_def)

lemma ascii_lower_eq_iff:
  "\<not> (97 \<le> byte x \<and> byte x \<le> 122) \<Longrightarrow> ascii_lower c = x \<longleftrightarrow> c = x \<and> \<not> (65 \<le> byte x \<and> byte x \<le> 90)"
  unfolding byte_eq_iff [symmetric] byte_lower by auto

lemma ascii_lower_sign [simp]: "ascii_lower c = CHR ''-'' \<longleftrightarrow> c = CHR ''-''" "ascii_lower c = CHR ''+'' \<longleftrightarrow> c = CHR ''+''"
    "ascii_lower c = CHR ''0'' \<longleftrightarrow> c = CHR ''0''"
  by (simp_all add: ascii_lower_eq_iff byte_def)

lemma to_lower_nonempty [simp]: "to_lower s = [] \<longleftrightarrow> s = []"
  by (cases s rule: to_lower.cases) auto

lemma to_lower_append_ASCII: "byte d < 128 \<Longrightarrow> to_lower (q @ [d]) = to_lower q @ [ascii_lower d]"
  by (induction q rule: to_lower.induct) (auto simp: to_lower_ascii split: list.splits)

text \<open>The letters of the suffixes have no upper case outside ASCII.\<close>

definition suffix_letters :: "char set" where
  "suffix_letters = {CHR ''u'', CHR ''l'', CHR ''s'', CHR ''t''}"

lemma not_suffix_letter: "CHR ''i'' \<notin> suffix_letters" "CHR ''k'' \<notin> suffix_letters"
  by (simp_all add: suffix_letters_def)

lemma suffix_letter_ASCII: "ascii_lower d \<in> suffix_letters \<Longrightarrow> byte d < 128"
  by (auto simp: ascii_lower_def suffix_letters_def byte_def split: if_splits)

lemma to_lower_last_ASCII: "last (to_lower (q @ [d])) \<in> suffix_letters \<Longrightarrow> byte d < 128"
proof (induction q rule: to_lower.induct)
  case (4 c e f cs)
  then show ?case by (auto split: if_splits)
qed (auto intro: suffix_letter_ASCII simp: not_suffix_letter split: if_splits)

lemma lower_suffix:
  "set suffix \<subseteq> suffix_letters \<Longrightarrow> to_lower s = p @ suffix \<Longrightarrow>
    to_lower (take (length s - length suffix) s) = p \<and> length suffix \<le> length s"
proof (induction suffix arbitrary: s rule: rev_induct)
  case (snoc c suffix)
  then obtain q d where s: "s = q @ [d]" by (cases s rule: rev_cases) auto
  have d: "byte d < 128"
    by (rule to_lower_last_ASCII [of q]) (use snoc.prems s in simp)
  with snoc.prems(2) s have "to_lower q = p @ suffix" by (simp add: to_lower_append_ASCII)
  with snoc.IH [of q] snoc.prems(1) s show ?case by simp
qed simp

lemma digit_value_lower: "digit_value (ascii_lower c) = digit_value c"
  by (auto simp: digit_value_def byte_lower)

lemma digits_value_high:
  assumes "128 \<le> byte c" "base \<le> 16"
  shows "digits_value base acc (c # s) = None" "digits_value base acc (to_lower (c # s)) = None"
proof -
  have none: "digits_value base acc (x # r) = None" if "x = c \<or> x = CHR ''i'' \<or> x = CHR ''k''" for x r
    using that assms by (auto simp: digit_value_def byte_def)
  then show "digits_value base acc (c # s) = None" by blast
  have "ascii_lower c = c" using assms(1) by (simp add: ascii_lower_def)
  then have "\<exists>x r. to_lower (c # s) = x # r \<and> (x = c \<or> x = CHR ''i'' \<or> x = CHR ''k'')"
    by (cases "c # s" rule: to_lower.cases) (auto split: if_splits)
  with none show "digits_value base acc (to_lower (c # s)) = None" by metis
qed

lemma digits_value_lower: "base \<le> 16 \<Longrightarrow> digits_value base acc (to_lower s) = digits_value base acc s"
proof (induction s arbitrary: acc)
  case (Cons c s)
  then show ?case
    by (cases "byte c < 128") (simp_all add: to_lower_ascii digit_value_lower digits_value_high del: digits_value.simps(2),
      simp_all add: digit_value_lower)
qed simp

section \<open>Value and type\<close>

lemma SetString_lower: "base \<le> 16 \<Longrightarrow> SetString (to_lower s) base = SetString s base"
proof -
  assume base: "base \<le> 16"
  have digits: "parse_digits base (to_lower r) = parse_digits base r" for r
    by (cases r) (simp_all add: parse_digits_def digits_value_lower base to_lower_nonempty)
  have "split_sign (to_lower s) = (fst (split_sign s), to_lower (snd (split_sign s)))"
    by (cases s rule: to_lower.cases) (auto simp: split_sign_def to_lower_ascii byte_def)
  then show ?thesis by (simp add: SetString_def split_beta digits)
qed

lemma to_lower_first:
  assumes "byte x < 128" "x \<noteq> CHR ''i''" "x \<noteq> CHR ''k''"
  shows "(\<exists>r. to_lower s = x # r) \<longleftrightarrow> (\<exists>y r. s = y # r \<and> ascii_lower y = x)"
proof -
  have "ascii_lower y = x \<Longrightarrow> byte y < 128" for y using assms(1) by (auto simp: byte_lower split: if_splits)
  then show ?thesis using assms by (cases s rule: to_lower.cases) force+
qed

lemma lower_zero_prefix:
  assumes "x \<in> {CHR ''x'', CHR ''o'', CHR ''b''}"
  shows "has_prefix (to_lower s) [CHR ''0'', x] \<longleftrightarrow> (\<exists>y r. s = CHR ''0'' # y # r \<and> ascii_lower y = x)"
proof -
  have x: "byte x < 128" "x \<noteq> CHR ''i''" "x \<noteq> CHR ''k''" using assms by (auto simp: byte_def)
  have "has_prefix (to_lower s) [CHR ''0'', x] \<longleftrightarrow> (\<exists>t. s = CHR ''0'' # t \<and> (\<exists>r. to_lower t = x # r))"
  proof
    assume "has_prefix (to_lower s) [CHR ''0'', x]"
    then obtain r where r: "to_lower s = CHR ''0'' # x # r" by (auto simp: has_prefix_iff)
    with to_lower_first [of "CHR ''0''" s] obtain y t where "s = y # t" "ascii_lower y = CHR ''0''" by (auto simp: byte_def)
    with r show "\<exists>t. s = CHR ''0'' # t \<and> (\<exists>r. to_lower t = x # r)" by (auto simp: to_lower_ascii byte_def)
  qed (auto simp: has_prefix_iff to_lower_ascii byte_def)
  also have "\<dots> \<longleftrightarrow> (\<exists>y r. s = CHR ''0'' # y # r \<and> ascii_lower y = x)"
    by (auto simp: to_lower_first [OF x])
  finally show ?thesis .
qed

lemma to_lower_no_upper: "c \<in> set (to_lower s) \<Longrightarrow> \<not> (65 \<le> byte c \<and> byte c \<le> 90)"
  by (induction s rule: to_lower.induct) (auto simp: byte_lower byte_def [of "CHR ''i''"] byte_def [of "CHR ''k''"] split: if_splits)

lemma lower_zero_prefix_lower:
  assumes "x \<in> {CHR ''x'', CHR ''o'', CHR ''b''}"
  shows "has_prefix (to_lower (to_lower s)) [CHR ''0'', x] \<longleftrightarrow> has_prefix (to_lower s) [CHR ''0'', x]"
proof -
  have "ascii_lower y = x \<longleftrightarrow> y = x" if "to_lower s = CHR ''0'' # y # r" for y r
    using that to_lower_no_upper [of y s] assms by (auto simp: ascii_lower_def)
  then show ?thesis unfolding lower_zero_prefix [OF assms, of "to_lower s"] by (auto simp: has_prefix_iff)
qed

lemma lower_drop_prefix:
  "x \<in> {CHR ''x'', CHR ''o'', CHR ''b''} \<Longrightarrow> has_prefix (to_lower s) [CHR ''0'', x] \<Longrightarrow> drop 2 (to_lower s) = to_lower (drop 2 s)"
proof -
  assume x: "x \<in> {CHR ''x'', CHR ''o'', CHR ''b''}" and "has_prefix (to_lower s) [CHR ''0'', x]"
  then obtain y r where s: "s = CHR ''0'' # y # r" "ascii_lower y = x" by (auto simp: lower_zero_prefix)
  with x have "byte y < 128" by (auto simp: ascii_lower_def byte_def split: if_splits)
  with s show ?thesis by (simp add: to_lower_ascii byte_def)
qed

lemma integerDigits_lower: "integerDigits (to_lower s) = (to_lower (fst (integerDigits s)), snd (integerDigits s))"
  using lower_drop_prefix [of "CHR ''x''" s] lower_drop_prefix [of "CHR ''o''" s] lower_drop_prefix [of "CHR ''b''" s]
  by (simp add: integerDigits_def Let_def lower_zero_prefix_lower)

lemma integerDigits_base: "snd (integerDigits s) \<le> 16"
  by (simp add: integerDigits_def Let_def)

text \<open>The entry of the table that a text ends in.\<close>

definition literal_suffix :: "string \<Rightarrow> (string \<times> string \<times> nat \<times> bool) option" where
  "literal_suffix s = List.find (\<lambda>(suffix, _). has_suffix (to_lower s) suffix) suffix_types"

definition literal_number :: "string \<Rightarrow> string \<times> nat" where
  "literal_number s =
     integerDigits (case literal_suffix s of None \<Rightarrow> s | Some (suffix, _) \<Rightarrow> take (length s - length suffix) s)"

lemma literal_suffix_fst: "map_option fst (literal_suffix s) = List.find (has_suffix (to_lower s)) value_suffixes"
  by (simp add: literal_suffix_def suffix_types_def value_suffixes_def)

lemma has_suffix_append: "has_suffix (r @ t) t"
  by (simp add: has_suffix_iff)

lemma find_SomeD: "List.find P xs = Some x \<Longrightarrow> P x \<and> x \<in> set xs"
  by (induction xs) (auto split: if_splits)

lemma literal_suffixD:
  "literal_suffix s = Some (suffix, kind, bits, u) \<Longrightarrow>
     has_suffix (to_lower s) suffix \<and> (suffix, kind, bits, u) \<in> set suffix_types"
  by (auto simp: literal_suffix_def dest!: find_SomeD)

lemma integerLiteralValue_eq:
  "integerLiteralValue s = (case literal_number s of (number, base) \<Rightarrow> SetString number base)"
proof (cases "literal_suffix s")
  case None
  with literal_suffix_fst [of s] have "List.find (has_suffix (to_lower s)) value_suffixes = None" by simp
  then show ?thesis
    by (simp add: integerLiteralValue_def literal_number_def None integerDigits_lower SetString_lower integerDigits_base split_beta)
next
  case (Some entry)
  obtain suffix kind bits u where entry: "entry = (suffix, kind, bits, u)" by (cases entry)
  note e = literal_suffixD [OF Some [unfolded entry]]
  from e have suffix: "has_suffix (to_lower s) suffix" "set suffix \<subseteq> suffix_letters"
    by (auto simp: suffix_types_def suffix_letters_def)
  from suffix(1) obtain p where p: "to_lower s = p @ suffix" by (auto simp: has_suffix_iff)
  from lower_suffix [OF suffix(2) p] have q: "p = to_lower (take (length s - length suffix) s)" by simp
  have "List.find (has_suffix (to_lower s)) value_suffixes = Some suffix"
    using literal_suffix_fst [of s] Some entry by simp
  moreover have "trim_suffix (to_lower s) suffix = to_lower (take (length s - length suffix) s)"
    using q by (simp add: trim_suffix_def p has_suffix_append)
  ultimately show ?thesis
    by (simp add: integerLiteralValue_def literal_number_def Some entry integerDigits_lower SetString_lower
        integerDigits_base split_beta)
qed

lemma suffix_kinds: "(suffix, kind, bits, u) \<in> set suffix_types \<Longrightarrow> int_width bits \<and> kind = int_kind (\<not> u) bits"
  by (auto simp: suffix_types_def int_kind_def)

lemma suffix_kind_values:
  assumes "(suffix, kind, bits, u) \<in> set suffix_types"
  shows "isInteger kind" "kind_values kind = (if u then {0 ..< 2 ^ bits} else {- (2 ^ (bits - 1)) ..< 2 ^ (bits - 1)})"
  using suffix_kinds [OF assms] by (simp_all add: kind_values_int_kind)

lemma default_kind_values:
  "integerLiteralFits (Some v) ''Int32'' \<longleftrightarrow> v \<in> {- (2 ^ 31) ..< 2 ^ 31}"
  "integerLiteralFits (Some v) ''Int64'' \<longleftrightarrow> v \<in> {- (2 ^ 63) ..< 2 ^ 63}"
  by (simp_all add: integerLiteralFits_def integerInfo_def Let_def)

lemma ParseInt_Some:
  "ParseInt s base bits = Some v \<longleftrightarrow> SetString s base = Some v \<and> v \<in> {- (2 ^ (bits - 1)) ..< 2 ^ (bits - 1)}"
proof -
  obtain neg digits where d: "split_sign s = (neg, digits)" by (cases "split_sign s")
  define m :: nat where "m = 2 ^ (bits - Suc 0)"
  have m: "(2::int) ^ (bits - Suc 0) = int m" "0 < m" by (simp_all add: m_def)
  show ?thesis unfolding One_nat_def m(1)
    using m(2) by (cases "parse_digits base digits"; cases neg)
      (auto simp: ParseInt_def SetString_def d m_def [symmetric])
qed

lemma ParseUint_Some:
  assumes "CHR ''+'' \<notin> set s" "CHR ''-'' \<notin> set s"
  shows "ParseUint s base bits \<noteq> None \<longleftrightarrow> (\<exists>v. SetString s base = Some v \<and> v \<in> {0 ..< 2 ^ bits})"
proof -
  from assms have d: "split_sign s = (False, s)" by (cases s) (auto simp: split_sign_def)
  define m :: nat where "m = 2 ^ bits"
  have m: "(2::int) ^ bits = int m" by (simp add: m_def)
  show ?thesis unfolding m
    by (cases "parse_digits base s") (auto simp: ParseUint_def SetString_def d m_def [symmetric])
qed

lemma literal_number_chars: "set (fst (literal_number s)) \<subseteq> set s"
proof -
  have "set (fst (integerDigits t)) \<subseteq> set t" for t
    using set_drop_subset [of 2 t] by (simp add: integerDigits_def Let_def)
  moreover have "set (case literal_suffix s of None \<Rightarrow> s | Some (suffix, _) \<Rightarrow> take (length s - length suffix) s) \<subseteq> set s"
    using set_take_subset by (cases "literal_suffix s") fastforce+
  ultimately show ?thesis unfolding literal_number_def by (rule subset_trans)
qed

lemma option_filterI:
  assumes "\<And>v. p = Some v \<longleftrightarrow> q = Some v \<and> v \<in> I"
  shows "p = (case q of None \<Rightarrow> None | Some v \<Rightarrow> if v \<in> I then Some v else None)"
  using assms [of "the p"] assms [of "the q"] by (cases p; cases q) (auto split: if_splits)

lemma ParseInt_64:
  "ParseInt s base 64 = (case SetString s base of None \<Rightarrow> None
     | Some v \<Rightarrow> if v \<in> {- (2 ^ (64 - 1)) ..< 2 ^ (64 - 1)} then Some v else None)"
  by (rule option_filterI) (rule ParseInt_Some)

section \<open>Properties\<close>

text \<open>
  C36: an integer literal is given a type exactly when it has a value and the value is one of the type:
  the type of its suffix, or without one Int32 where it fits and Int64 otherwise.
\<close>

theorem integer_literal_type:
  assumes "CHR ''+'' \<notin> set s" "CHR ''-'' \<notin> set s"
  shows "integerLiteralType s hasSuffix = Inr t \<longleftrightarrow>
    (\<exists>v. integerLiteralValue s = Some v \<and> integerLiteralFits (Some v) (Kind t)
      \<and> t = mk_kind (case literal_suffix s of Some (_, kind, _) \<Rightarrow> kind
              | None \<Rightarrow> if integerLiteralFits (Some v) ''Int32'' then ''Int32'' else ''Int64''))
    \<and> \<not> (hasSuffix \<and> literal_suffix s = None)"
proof (cases "literal_suffix s")
  case None
  obtain number base where n: "literal_number s = (number, base)" by (cases "literal_number s")
  with None have "integerDigits s = (number, base)" by (simp add: literal_number_def)
  with None n show ?thesis
    by (cases "SetString number base")
      (auto simp: integerLiteralType_def Let_def literal_suffix_def [symmetric] integerLiteralValue_eq default_kind_values ParseInt_64)
next
  case (Some entry)
  obtain suffix kind bits u where entry: "entry = (suffix, kind, bits, u)" by (cases entry)
  note e = literal_suffixD [OF Some [unfolded entry]]
  note k = suffix_kind_values [OF conjunct2 [OF e]]
  obtain number base where n: "literal_number s = (number, base)" by (cases "literal_number s")
  then have digits: "integerDigits (take (length s - length suffix) s) = (number, base)"
    by (simp add: literal_number_def Some entry)
  have chars: "CHR ''+'' \<notin> set number" "CHR ''-'' \<notin> set number"
    using literal_number_chars [of s] assms by (auto simp: n)
  have "(if u then ParseUint number base bits \<noteq> None else ParseInt number base bits \<noteq> None)
      \<longleftrightarrow> (\<exists>v. SetString number base = Some v \<and> v \<in> kind_values kind)"
    using k ParseUint_Some [OF chars, of base bits] ParseInt_Some [of number base bits] by auto
  then have "integerLiteralType s hasSuffix = Inr t \<longleftrightarrow>
      t = mk_kind kind \<and> (\<exists>v. SetString number base = Some v \<and> v \<in> kind_values kind)"
    by (auto simp: integerLiteralType_def Let_def literal_suffix_def [symmetric] Some entry digits)
  then show ?thesis
    using k by (auto simp: integerLiteralValue_eq n Some entry literal_fits_values)
qed

lemma integer_literal_type_witness: "integerLiteralType ''0xFFut'' True = Inr (mk_kind ''Uint8'')"
proof -
  have "integerLiteralValue ''0xFFut'' = Some 255 \<and> integerLiteralFits (Some 255) ''Uint8''" by code_simp
  moreover have "literal_suffix ''0xFFut'' = Some (''ut'', ''Uint8'', 8, True)" by code_simp
  ultimately show ?thesis by (subst integer_literal_type) simp_all
qed

end
