(* ===== verification/GoUnicode.thy ===== *)
theory GoUnicode
  imports GoRunes
begin

text \<open>
  Go's \<open>unicode\<close>, \<open>go/token\<close> and the rune functions of \<open>strings\<close>, as the code generators call them.
  The Unicode tables outside ASCII are a parameter, the record \<open>unicode\<close>; everything about ASCII is
  exact. A \<open>range\<close> loop over a string visits its runes.
\<close>

section \<open>Runes of a string\<close>

function rune_list :: "string \<Rightarrow> nat list" where
  "rune_list s = (if s = [] then [] else (let (r, size) = decode_rune s in r # rune_list (drop size s)))"
  by pat_completeness auto
termination
proof (relation "measure length")
  fix s :: string and x r size
  assume "s \<noteq> []" "x = decode_rune s" "(r, size) = x"
  then show "(drop size s, s) \<in> measure length" using decode_rune_size [of s] by (cases "decode_rune s") auto
qed simp

declare rune_list.simps [simp del]

definition string_of_runes :: "nat list \<Rightarrow> string" where
  "string_of_runes rs = concat (map encode_rune rs)"

section \<open>The tables\<close>

record unicode =
  uc_letter :: "nat \<Rightarrow> bool"
  uc_digit :: "nat \<Rightarrow> bool"
  uc_is_upper :: "nat \<Rightarrow> bool"
  uc_upper :: "nat \<Rightarrow> nat"
  uc_lower :: "nat \<Rightarrow> nat"
  uc_title :: "nat \<Rightarrow> nat"
  uc_space :: "nat \<Rightarrow> bool"

definition IsLetter :: "unicode \<Rightarrow> nat \<Rightarrow> bool" where
  "IsLetter uc r = (if r < 128 then (65 \<le> r \<and> r \<le> 90) \<or> (97 \<le> r \<and> r \<le> 122) else uc_letter uc r)"

definition IsDigit :: "unicode \<Rightarrow> nat \<Rightarrow> bool" where
  "IsDigit uc r = (if r < 128 then 48 \<le> r \<and> r \<le> 57 else uc_digit uc r)"

definition IsUpper :: "unicode \<Rightarrow> nat \<Rightarrow> bool" where
  "IsUpper uc r = (if r < 128 then 65 \<le> r \<and> r \<le> 90 else uc_is_upper uc r)"

definition ToUpper :: "unicode \<Rightarrow> nat \<Rightarrow> nat" where
  "ToUpper uc r = (if r < 128 then (if 97 \<le> r \<and> r \<le> 122 then r - 32 else r) else uc_upper uc r)"

definition ToLower :: "unicode \<Rightarrow> nat \<Rightarrow> nat" where
  "ToLower uc r = (if r < 128 then (if 65 \<le> r \<and> r \<le> 90 then r + 32 else r) else uc_lower uc r)"

definition ToTitle :: "unicode \<Rightarrow> nat \<Rightarrow> nat" where
  "ToTitle uc r = (if r < 128 then (if 97 \<le> r \<and> r \<le> 122 then r - 32 else r) else uc_title uc r)"

definition IsSpace :: "unicode \<Rightarrow> nat \<Rightarrow> bool" where
  "IsSpace uc r = (if r < 128 then r = 32 \<or> (9 \<le> r \<and> r \<le> 13) else uc_space uc r)"

section \<open>Functions on strings\<close>

definition strings_ToLower :: "unicode \<Rightarrow> string \<Rightarrow> string" where
  "strings_ToLower uc s = string_of_runes (map (ToLower uc) (rune_list s))"

text \<open>\<open>strings.Title\<close>: the first rune of every word in title case; \<open>prev\<close> is the rune before.\<close>

definition is_separator :: "unicode \<Rightarrow> nat \<Rightarrow> bool" where
  "is_separator uc r =
     (if r < 128 then \<not> (48 \<le> r \<and> r \<le> 57) \<and> \<not> (97 \<le> r \<and> r \<le> 122) \<and> \<not> (65 \<le> r \<and> r \<le> 90) \<and> r \<noteq> 95
      else if IsLetter uc r \<or> IsDigit uc r then False else IsSpace uc r)"

fun title_runes :: "unicode \<Rightarrow> nat \<Rightarrow> nat list \<Rightarrow> nat list" where
  "title_runes uc prev [] = []"
| "title_runes uc prev (r # rs) = (if is_separator uc prev then ToTitle uc r else r) # title_runes uc r rs"

definition strings_Title :: "unicode \<Rightarrow> string \<Rightarrow> string" where
  "strings_Title uc s = string_of_runes (title_runes uc 32 (rune_list s))"

text \<open>\<open>strings.FieldsFunc\<close> on the runes: the maximal runs without a rune of \<open>f\<close>; \<open>field\<close> is the current run.\<close>

fun fields_func :: "(nat \<Rightarrow> bool) \<Rightarrow> nat list \<Rightarrow> nat list \<Rightarrow> nat list list" where
  "fields_func f field [] = (if field = [] then [] else [field])"
| "fields_func f field (r # rs) =
     (if f r then (if field = [] then [] else [field]) @ fields_func f [] rs else fields_func f (field @ [r]) rs)"

text \<open>\<open>strings.Split\<close> by one character.\<close>

fun split_char :: "char \<Rightarrow> string \<Rightarrow> string list" where
  "split_char c [] = [[]]"
| "split_char c (x # xs) =
     (if x = c then [] # split_char c xs
      else (case split_char c xs of [] \<Rightarrow> [[x]] | y # ys \<Rightarrow> (x # y) # ys))"

section \<open>Identifiers\<close>

definition go_keywords :: "string list" where
  "go_keywords =
    [''break'', ''default'', ''func'', ''interface'', ''select'', ''case'', ''defer'', ''go'', ''map'', ''struct'', ''chan'',
     ''else'', ''goto'', ''package'', ''switch'', ''const'', ''fallthrough'', ''if'', ''range'', ''type'', ''continue'',
     ''for'', ''import'', ''return'', ''var'']"

fun identifier_runes :: "unicode \<Rightarrow> nat \<Rightarrow> nat list \<Rightarrow> bool" where
  "identifier_runes uc i [] = True"
| "identifier_runes uc i (r # rs) =
     (if \<not> (r = 95 \<or> IsLetter uc r \<or> (i > 0 \<and> IsDigit uc r)) then False else identifier_runes uc (i + 1) rs)"

definition IsIdentifier :: "unicode \<Rightarrow> string \<Rightarrow> bool" where
  "IsIdentifier uc name = (if name = [] \<or> List.member go_keywords name then False else identifier_runes uc 0 (rune_list name))"

definition IsExported :: "unicode \<Rightarrow> string \<Rightarrow> bool" where
  "IsExported uc name = (case rune_list name of [] \<Rightarrow> IsUpper uc 65533 | r # _ \<Rightarrow> IsUpper uc r)"

section \<open>ASCII\<close>

lemma decode_rune_ASCII: "byte c < 128 \<Longrightarrow> decode_rune (c # s) = (byte c, 1)"
  by (simp add: decode_rune_def utf8_width.simps Let_def)

lemma rune_list_Nil [simp]: "rune_list [] = []"
  by (simp add: rune_list.simps)

lemma rune_list_ASCII [simp]: "byte c < 128 \<Longrightarrow> rune_list (c # s) = byte c # rune_list s"
  by (subst rune_list.simps) (simp add: decode_rune_ASCII)

lemma encode_rune_ASCII [simp]: "r < 128 \<Longrightarrow> encode_rune r = [char_of r]"
  by (simp add: encode_rune_def bytes_def)

lemma split_char_nonempty [simp]: "split_char c s \<noteq> []"
  by (cases s) (auto split: list.splits)

end
