(* ===== verification/GolangOverrides.thy ===== *)
theory GolangOverrides
  imports GolangTypes
begin

text \<open>
  \<open>internal/codegen/golang/overrides.go\<close>: which override applies to a column or a parameter, how an
  overriding type is written, and which packages are imported for it. The code's index -1 is \<open>None\<close>;
  a call whose error the code discards is read through \<open>reference_or_zero\<close>.
\<close>

section \<open>References\<close>

definition overrideBase :: "ty \<Rightarrow> string res" where
  "overrideBase t =
     (let base = UnwrapOptional t in
      if to_lower (Kind base) \<in> {''bool'', ''int32'', ''uint64'', ''double'', ''utf8'', ''string''} then goType base
      else Inl (Errorf ''Go type overrides support only Bool, Int32, Uint64, Double, Utf8, and String with the pinned YDB Go SDK; got %s''
        [FType t]))"

text \<open>\<open>strings.LastIndex\<close> of a dot: the text before and after it.\<close>

definition cut_last_dot :: "string \<Rightarrow> (string \<times> string) option" where
  "cut_last_dot s =
     (if CHR ''.'' \<notin> set s then None
      else (let after = rev (takeWhile (\<lambda>c. c \<noteq> CHR ''.'') (rev s)) in
        Some (take (length s - length after - 1) s, after)))"

definition bad_import :: "string \<Rightarrow> bool" where
  "bad_import importPath \<longleftrightarrow>
     list_ex (\<lambda>c. c \<in> {CHR '' '', CHR 0x09, CHR 0x0A, CHR 0x0D, CHR 0x22}) importPath
     \<or> has_prefix importPath ''/'' \<or> Clean importPath \<noteq> importPath"

definition overrideReference :: "unicode \<Rightarrow> GoOverride \<Rightarrow> (string \<times> string) res" where
  "overrideReference uc override =
     (let (typeName, importPath) =
        (if gt_Import (go_GoType override) = [] then
           (case cut_last_dot (gt_Type (go_GoType override)) of
              Some (before, after) \<Rightarrow> (after, before)
            | None \<Rightarrow> (gt_Type (go_GoType override), []))
         else (gt_Type (go_GoType override), gt_Import (go_GoType override))) in
      if \<not> IsIdentifier uc typeName \<or> typeName = ''_'' then
        Inl (Errorf ''go_type %q must name one Go type'' [FStr (gt_Type (go_GoType override))])
      else if importPath = [] then
        (if gt_Package (go_GoType override) \<noteq> [] then Inl (Errorf ''go_type.package requires go_type.import'' [])
         else Inr (typeName, []))
      else if bad_import importPath then Inl (Errorf ''invalid go_type.import %q'' [FStr importPath])
      else if gt_Package (go_GoType override) \<noteq> [] \<and> \<not> IsIdentifier uc (gt_Package (go_GoType override)) then
        Inl (Errorf ''invalid go_type.package %q'' [FStr (gt_Package (go_GoType override))])
      else Inr (typeName, importPath))"

definition reference_or_zero :: "unicode \<Rightarrow> GoOverride \<Rightarrow> string \<times> string" where
  "reference_or_zero uc override = (case overrideReference uc override of Inl _ \<Rightarrow> ([], []) | Inr r \<Rightarrow> r)"

definition import_path :: "unicode \<Rightarrow> Options \<Rightarrow> nat \<Rightarrow> string" where
  "import_path uc o' index = snd (reference_or_zero uc (o_Overrides o' ! index))"

definition overrideAlias :: "unicode \<Rightarrow> Options \<Rightarrow> nat \<Rightarrow> nat" where
  "overrideAlias uc o' index =
     (case List.find (\<lambda>i. import_path uc o' i = import_path uc o' index) [0..<index] of
        Some i \<Rightarrow> i
      | None \<Rightarrow> index)"

definition resolvedOverride :: "unicode \<Rightarrow> Options \<Rightarrow> nat \<Rightarrow> (string \<times> string) res" where
  "resolvedOverride uc o' index =
     and_then (overrideReference uc (o_Overrides o' ! index)) (\<lambda>(typeName, importPath).
       if importPath = [] then Inr (typeName, importPath)
       else Inr (sprintf ''sqlcOverride%d.%s'' [FNat (overrideAlias uc o' index), FStr typeName], importPath))"

section \<open>Selection\<close>

text \<open>The index of the first override that satisfies a test.\<close>

definition find_override :: "(GoOverride \<Rightarrow> bool) \<Rightarrow> Options \<Rightarrow> nat option" where
  "find_override P o' = List.find (\<lambda>i. P (o_Overrides o' ! i)) [0..<length (o_Overrides o')]"

definition overrideForType :: "Options \<Rightarrow> ty \<Rightarrow> nat option" where
  "overrideForType o' t =
     find_override (\<lambda>override. go_DBType override \<noteq> [] \<and> equal_fold (go_DBType override) (Kind (UnwrapOptional t))
       \<and> go_Nullable override = IsOptional t) o'"

definition overrideForColumn :: "Options \<Rightarrow> Column \<Rightarrow> nat option" where
  "overrideForColumn o' c =
     (if col_Table c = [] then None
      else find_override (\<lambda>override. go_Column override = col_Table c @ ''.'' @ col_Name c) o')"

definition columnOverride :: "Options \<Rightarrow> Column \<Rightarrow> nat option" where
  "columnOverride o' c =
     (case overrideForColumn o' c of Some index \<Rightarrow> Some index | None \<Rightarrow> overrideForType o' (col_Type c))"

definition sameOverrideType :: "unicode \<Rightarrow> Options \<Rightarrow> nat \<Rightarrow> nat \<Rightarrow> bool" where
  "sameOverrideType uc o' left right \<longleftrightarrow>
     reference_or_zero uc (o_Overrides o' ! left) = reference_or_zero uc (o_Overrides o' ! right)"

text \<open>The override of one of the columns a parameter is used with, and the loop over them.\<close>

definition used_override :: "Options \<Rightarrow> QueryParameter \<Rightarrow> Column \<Rightarrow> nat option" where
  "used_override o' p column =
     (case overrideForColumn o' column of Some index \<Rightarrow> Some index | None \<Rightarrow> overrideForType o' (qp_Type p))"

definition override_conflict :: "unicode \<Rightarrow> Options \<Rightarrow> nat option \<Rightarrow> nat option \<Rightarrow> bool" where
  "override_conflict uc o' selected index \<longleftrightarrow>
     (selected = None) \<noteq> (index = None)
     \<or> (case (selected, index) of (Some l, Some r) \<Rightarrow> \<not> sameOverrideType uc o' l r | _ \<Rightarrow> False)"

fun parameter_override_loop ::
  "unicode \<Rightarrow> Options \<Rightarrow> QueryParameter \<Rightarrow> nat option \<Rightarrow> bool \<Rightarrow> Column list \<Rightarrow> nat option res" where
  "parameter_override_loop uc o' p selected matched [] =
     Inr (if matched then selected else overrideForType o' (qp_Type p))"
| "parameter_override_loop uc o' p selected matched (column # columns) =
     (let index = used_override o' p column in
      if \<not> matched then parameter_override_loop uc o' p index True columns
      else if override_conflict uc o' selected index then
        Inl (Errorf ''parameter $%s is used with columns having different Go type overrides; use separate parameters or a matching db_type override''
          [FStr (qp_Name p)])
      else parameter_override_loop uc o' p selected matched columns)"

definition parameter_columns :: "AnalyzedQuery \<Rightarrow> QueryParameter \<Rightarrow> Column list" where
  "parameter_columns q p = (case aq_ParameterColumns q (qp_Name p) of None \<Rightarrow> [] | Some columns \<Rightarrow> columns)"

definition parameterOverride :: "unicode \<Rightarrow> Options \<Rightarrow> AnalyzedQuery \<Rightarrow> QueryParameter \<Rightarrow> nat option res" where
  "parameterOverride uc o' q p = parameter_override_loop uc o' p None False (parameter_columns q p)"

section \<open>Go types\<close>

definition reference_type :: "unicode \<Rightarrow> Options \<Rightarrow> nat \<Rightarrow> ty \<Rightarrow> string res" where
  "reference_type uc o' index t =
     and_then (resolvedOverride uc o' index) (\<lambda>(reference, _).
       Inr (if IsOptional t then ''*'' @ reference else reference))"

definition columnGoType :: "unicode \<Rightarrow> Options \<Rightarrow> Column \<Rightarrow> string res" where
  "columnGoType uc o' c =
     (case columnOverride o' c of Some index \<Rightarrow> reference_type uc o' index (col_Type c) | None \<Rightarrow> goType (col_Type c))"

text \<open>The index and the base type are read with their errors discarded.\<close>

definition convertedParameter :: "unicode \<Rightarrow> Options \<Rightarrow> AnalyzedQuery \<Rightarrow> QueryParameter \<Rightarrow> string \<Rightarrow> string" where
  "convertedParameter uc o' q p value' =
     (case parameterOverride uc o' q p of
        Inl _ \<Rightarrow> value'
      | Inr None \<Rightarrow> value'
      | Inr (Some index) \<Rightarrow>
          (let base = (case overrideBase (qp_Type p) of Inl _ \<Rightarrow> [] | Inr b \<Rightarrow> b) in
           if \<not> IsOptional (qp_Type p) then base @ ''('' @ value' @ '')''
           else ''func() *'' @ base @ '' { if '' @ value' @ '' == nil { return nil }; v := '' @ base @ ''(*'' @ value'
             @ ''); return &v }()''))"

text \<open>The imports of the overrides with the given indices; \<open>seen\<close> are the paths imported so far.\<close>

fun override_imports_from :: "unicode \<Rightarrow> Options \<Rightarrow> nat list \<Rightarrow> string list \<Rightarrow> nat list \<Rightarrow> string list" where
  "override_imports_from uc o' indices seen [] = []"
| "override_imports_from uc o' indices seen (i # is) =
     (if \<not> List.member indices i then override_imports_from uc o' indices seen is
      else (let importPath = import_path uc o' i in
        if importPath \<noteq> [] \<and> \<not> List.member seen importPath then
          (''sqlcOverride'' @ show_nat (overrideAlias uc o' i) @ '' '' @ go_quote importPath)
            # override_imports_from uc o' indices (importPath # seen) is
        else override_imports_from uc o' indices seen is))"

definition overrideImports :: "unicode \<Rightarrow> Options \<Rightarrow> nat list \<Rightarrow> string list" where
  "overrideImports uc o' indices = override_imports_from uc o' indices [] [0..<length (o_Overrides o')]"

section \<open>Validation\<close>

definition override_key :: "GoOverride \<Rightarrow> string" where
  "override_key override =
     (if go_Column override = [] then
        ''db_type:'' @ to_lower (go_DBType override) @ ''/'' @ (if go_Nullable override then ''true'' else ''false'')
      else ''column:'' @ go_Column override)"

definition override_column_ok :: "string \<Rightarrow> bool" where
  "override_column_ok column =
     (case str_cut ''.'' column of None \<Rightarrow> False | Some (table, name) \<Rightarrow> table \<noteq> [] \<and> name \<noteq> [])"

fun validate_overrides_from :: "unicode \<Rightarrow> nat \<Rightarrow> string list \<Rightarrow> GoOverride list \<Rightarrow> go_error option" where
  "validate_overrides_from uc i seen [] = None"
| "validate_overrides_from uc i seen (override # overrides) =
     (case (if go_DBType override \<noteq> [] then overrideBase (mk_kind (go_DBType override)) else Inr []) of
        Inl err \<Rightarrow> Some (Errorf ''gen.go.overrides[%d].db_type: %w'' [FNat i, FErr err])
      | Inr _ \<Rightarrow>
          if go_Column override \<noteq> [] \<and> \<not> override_column_ok (go_Column override) then
            Some (Errorf ''gen.go.overrides[%d].column must be table.column'' [FNat i])
          else (case overrideReference uc override of
              Inl err \<Rightarrow> Some (Errorf ''gen.go.overrides[%d]: %w'' [FNat i, FErr err])
            | Inr _ \<Rightarrow>
                if List.member seen (override_key override) then
                  Some (Errorf ''gen.go.overrides[%d]: duplicate override for %q'' [FNat i, FStr (override_key override)])
                else validate_overrides_from uc (i + 1) (override_key override # seen) overrides))"

definition validateOverrides :: "unicode \<Rightarrow> Options \<Rightarrow> go_error option" where
  "validateOverrides uc o' = validate_overrides_from uc 0 [] (o_Overrides o')"

section \<open>Imports of the overrides\<close>

text \<open>The alias is the first index with the same import path.\<close>

lemma overrideAlias_path: "import_path uc o' (overrideAlias uc o' i) = import_path uc o' i"
  by (auto simp: overrideAlias_def find_Some_iff split: option.splits)

lemma overrideAlias_le: "overrideAlias uc o' i \<le> i"
  by (auto simp: overrideAlias_def find_Some_iff split: option.splits)

lemma overrideAlias_least: "import_path uc o' j = import_path uc o' i \<Longrightarrow> overrideAlias uc o' i \<le> j"
proof (rule ccontr)
  assume j: "import_path uc o' j = import_path uc o' i" and "\<not> overrideAlias uc o' i \<le> j"
  then have lt: "j < overrideAlias uc o' i" by simp
  show False
  proof (cases "List.find (\<lambda>k. import_path uc o' k = import_path uc o' i) [0..<i]")
    case None
    with lt j show False by (auto simp: overrideAlias_def find_None_iff)
  next
    case (Some k)
    then have "overrideAlias uc o' i = k" by (simp add: overrideAlias_def)
    with Some lt j show False by (auto simp: find_Some_iff)
  qed
qed

lemma overrideAlias_eq_iff: "overrideAlias uc o' i = overrideAlias uc o' j \<longleftrightarrow> import_path uc o' i = import_path uc o' j"
proof
  assume p: "import_path uc o' i = import_path uc o' j"
  show "overrideAlias uc o' i = overrideAlias uc o' j"
    using overrideAlias_least [of uc o' "overrideAlias uc o' j" i] overrideAlias_least [of uc o' "overrideAlias uc o' i" j]
      overrideAlias_path [of uc o'] p by (simp add: le_antisym)
qed (metis overrideAlias_path)

definition import_line :: "unicode \<Rightarrow> Options \<Rightarrow> nat \<Rightarrow> string" where
  "import_line uc o' i = ''sqlcOverride'' @ show_nat (overrideAlias uc o' i) @ '' '' @ go_quote (import_path uc o' i)"

lemma image_insert_class:
  assumes "Q i" "\<And>k. p k = p i \<Longrightarrow> f k = f i"
  shows "insert (f i) (f ` {k \<in> J. Q k \<and> p k \<noteq> p i}) = f ` {k \<in> insert i J. Q k}"
proof (intro equalityI subsetI)
  fix x assume "x \<in> f ` {k \<in> insert i J. Q k}"
  then obtain k where k: "x = f k" "k \<in> insert i J" "Q k" by blast
  show "x \<in> insert (f i) (f ` {k \<in> J. Q k \<and> p k \<noteq> p i})"
  proof (cases "p k = p i")
    case True
    then have "f k = f i" by (rule assms(2))
    with k(1) show ?thesis by blast
  next
    case False
    with k have "k \<in> {k \<in> J. Q k \<and> p k \<noteq> p i}" by blast
    with k(1) show ?thesis by blast
  qed
qed (use assms(1) in blast)

lemma override_imports_from_set:
  "set (override_imports_from uc o' indices seen is) =
     import_line uc o' ` {i \<in> set is. i \<in> set indices \<and> import_path uc o' i \<noteq> [] \<and> import_path uc o' i \<notin> set seen}"
proof (induction uc o' indices seen "is" rule: override_imports_from.induct)
  case (2 uc o' indices seen i js)
  have same: "import_line uc o' k = import_line uc o' i" if "import_path uc o' k = import_path uc o' i" for k
  proof -
    from that have "overrideAlias uc o' k = overrideAlias uc o' i" by (simp only: overrideAlias_eq_iff)
    with that show ?thesis by (simp add: import_line_def)
  qed
  show ?case
  proof (cases "i \<in> set indices \<and> import_path uc o' i \<noteq> [] \<and> import_path uc o' i \<notin> set seen")
    case True
    have "set (override_imports_from uc o' indices seen (i # js)) = insert (import_line uc o' i)
        (import_line uc o' ` {k \<in> set js. k \<in> set indices \<and> import_path uc o' k \<noteq> [] \<and> import_path uc o' k \<notin> set (import_path uc o' i # seen)})"
      using True 2(2) by (simp add: import_line_def Let_def)
    also have "{k \<in> set js. k \<in> set indices \<and> import_path uc o' k \<noteq> [] \<and> import_path uc o' k \<notin> set (import_path uc o' i # seen)} =
        {k \<in> set js. (k \<in> set indices \<and> import_path uc o' k \<noteq> [] \<and> import_path uc o' k \<notin> set seen) \<and> import_path uc o' k \<noteq> import_path uc o' i}"
      by auto
    also have "insert (import_line uc o' i) (import_line uc o' ` \<dots>) =
        import_line uc o' ` {k \<in> insert i (set js). k \<in> set indices \<and> import_path uc o' k \<noteq> [] \<and> import_path uc o' k \<notin> set seen}"
      using True same by (rule image_insert_class)
    finally show ?thesis by simp
  next
    case False
    then show ?thesis using 2 by (auto simp: Let_def)
  qed
qed simp

lemma resolvedOverride_Inr:
  assumes "resolvedOverride uc o' i = Inr (ref, path)" "path \<noteq> []"
  shows "import_path uc o' i = path" "\<exists>typeName. ref = ''sqlcOverride'' @ show_nat (overrideAlias uc o' i) @ ''.'' @ typeName \<and> IsIdentifier uc typeName"
proof -
  from assms obtain typeName where t: "overrideReference uc (o_Overrides o' ! i) = Inr (typeName, path)"
      "ref = sprintf ''sqlcOverride%d.%s'' [FNat (overrideAlias uc o' i), FStr typeName]"
    by (auto simp: resolvedOverride_def result_simps split: if_splits)
  then show "import_path uc o' i = path" by (simp add: import_path_def reference_or_zero_def)
  have "IsIdentifier uc typeName" using t(1) by (auto simp: overrideReference_def Let_def split: if_splits option.splits)
  moreover have "ref = ''sqlcOverride'' @ show_nat (overrideAlias uc o' i) @ ''.'' @ typeName"
    unfolding t(2) by (simp add: show_int_def)
  ultimately show "\<exists>typeName. ref = ''sqlcOverride'' @ show_nat (overrideAlias uc o' i) @ ''.'' @ typeName \<and> IsIdentifier uc typeName" by blast
qed

section \<open>Properties\<close>

text \<open>
  C39: a reference to an overriding type of a package is qualified by the alias of that package's import:
  for every override in use the import of its path is written, under the alias that the reference has,
  and two overrides have the same alias exactly when they have the same path.
\<close>

theorem override_imported:
  assumes "resolvedOverride uc o' i = Inr (ref, path)" "path \<noteq> []" "i < length (o_Overrides o')" "List.member indices i"
  shows "\<exists>alias typeName. ref = ''sqlcOverride'' @ show_nat alias @ ''.'' @ typeName \<and> IsIdentifier uc typeName
    \<and> List.member (overrideImports uc o' indices) (''sqlcOverride'' @ show_nat alias @ '' '' @ go_quote path)
    \<and> (\<forall>j. overrideAlias uc o' j = alias \<longleftrightarrow> import_path uc o' j = path)"
proof -
  note r = resolvedOverride_Inr [OF assms(1,2)]
  from r(2) obtain typeName where ref: "ref = ''sqlcOverride'' @ show_nat (overrideAlias uc o' i) @ ''.'' @ typeName" "IsIdentifier uc typeName"
    by blast
  have "import_line uc o' i \<in> set (overrideImports uc o' indices)"
    unfolding overrideImports_def override_imports_from_set using assms(2-4) r(1) by auto
  then have "List.member (overrideImports uc o' indices) (''sqlcOverride'' @ show_nat (overrideAlias uc o' i) @ '' '' @ go_quote path)"
    by (simp add: import_line_def r(1))
  moreover have "\<forall>j. overrideAlias uc o' j = overrideAlias uc o' i \<longleftrightarrow> import_path uc o' j = path"
    unfolding overrideAlias_eq_iff r(1) by blast
  ultimately show ?thesis using ref by blast
qed

text \<open>A sample: two types of one package and a third of another.\<close>

definition letters_unicode :: unicode where
  "letters_unicode = \<lparr>uc_letter = \<lambda>r. 65 \<le> r, uc_digit = \<lambda>_. False, uc_is_upper = \<lambda>_. False, uc_upper = \<lambda>r. r,
     uc_lower = \<lambda>r. r, uc_title = \<lambda>r. r, uc_space = \<lambda>_. False\<rparr>"

definition sample_override :: "string \<Rightarrow> string \<Rightarrow> string \<Rightarrow> GoOverride" where
  "sample_override column imported name =
     \<lparr>go_DBType = [], go_Column = column, go_GoType = \<lparr>gt_Import = imported, gt_Package = [], gt_Type = name\<rparr>, go_Nullable = False\<rparr>"

definition override_options :: Options where
  "override_options = \<lparr>o_Package = ''db'', o_Runtime = ''ydb'', o_Rename = [],
     o_Overrides = [sample_override ''a.x'' ''ex/ids'' ''ID'', sample_override ''a.y'' ''ex/money'' ''Sum'', sample_override ''a.z'' ''ex/ids'' ''Key''],
     o_BuildTags = [], o_EmitDBTags = False, o_EmitJSONTags = True, o_JSONTagsCaseStyle = ''camel'', o_EmitInterface = True,
     o_EmitEmptySlices = False, o_EmitExportedQueries = False, o_QueryParameterLimit = Some 0\<rparr>"

lemma override_imported_witness:
  "\<exists>alias typeName. ''sqlcOverride0.Key'' = ''sqlcOverride'' @ show_nat alias @ ''.'' @ typeName \<and> IsIdentifier letters_unicode typeName
    \<and> List.member (overrideImports letters_unicode override_options [2]) (''sqlcOverride'' @ show_nat alias @ '' '' @ go_quote ''ex/ids'')
    \<and> (\<forall>j. overrideAlias letters_unicode override_options j = alias \<longleftrightarrow> import_path letters_unicode override_options j = ''ex/ids'')"
proof -
  have "resolvedOverride letters_unicode override_options 2 = Inr (''sqlcOverride0.Key'', ''ex/ids'')" by code_simp
  moreover have "(2::nat) < length (o_Overrides override_options)" by (simp add: override_options_def)
  ultimately show ?thesis by (intro override_imported [of letters_unicode override_options 2]) simp_all
qed

end
