(* ===== verification/GolangNames.thy ===== *)
theory GolangNames
  imports GolangOverrides
begin

text \<open>
  The names of the Go generator (\<open>generate.go\<close>, \<open>struct_list.go\<close>): Go names of SQL names, JSON tags,
  the types and functions declared for a query, and the form of a query's parameters.
\<close>

section \<open>Fields and tags\<close>

definition go_part :: "unicode \<Rightarrow> nat list \<Rightarrow> string" where
  "go_part uc part =
     (if equal_fold (string_of_runes part) ''id'' then ''ID''
      else (case part of [] \<Rightarrow> [] | r # rs \<Rightarrow> encode_rune (ToUpper uc r) @ string_of_runes rs))"

definition goName :: "unicode \<Rightarrow> string \<Rightarrow> string" where
  "goName uc s =
     (let x = concat (map (go_part uc) (fields_func (\<lambda>r. \<not> IsLetter uc r \<and> \<not> IsDigit uc r) [] (rune_list s))) in
      if x = [] then ''Value'' else x)"

definition fieldName :: "unicode \<Rightarrow> Options \<Rightarrow> string \<Rightarrow> string" where
  "fieldName uc o' source' = (case map_of (o_Rename o') source' of Some renamed \<Rightarrow> renamed | None \<Rightarrow> goName uc source')"

text \<open>\<open>jsonSnakePattern\<close>: an underscore between a character that is not A to Z and a run of A to Z.\<close>

definition ascii_upper_char :: "char \<Rightarrow> bool" where
  "ascii_upper_char c \<longleftrightarrow> 65 \<le> byte c \<and> byte c \<le> 90"

fun snake_boundaries :: "string \<Rightarrow> string" where
  "snake_boundaries (c # d # s) =
     (if \<not> ascii_upper_char c \<and> ascii_upper_char d then c # CHR ''_'' # snake_boundaries (d # s)
      else c # snake_boundaries (d # s))"
| "snake_boundaries s = s"

definition json_part :: "unicode \<Rightarrow> bool \<Rightarrow> string \<Rightarrow> string" where
  "json_part uc pascal part =
     (if part = ''id'' then (if pascal then ''ID'' else ''Id'') else strings_Title uc part)"

definition jsonTagName :: "unicode \<Rightarrow> Options \<Rightarrow> string \<Rightarrow> string" where
  "jsonTagName uc o' name =
     (if o_JSONTagsCaseStyle o' = [] \<or> o_JSONTagsCaseStyle o' = ''none'' then name
      else if o_JSONTagsCaseStyle o' = ''snake'' then
        strings_ToLower uc (if CHR ''_'' \<notin> set name then snake_boundaries name else name)
      else (let pascal = (o_JSONTagsCaseStyle o' = ''pascal'');
                parts = split_char (CHR ''_'') name in
        (if o_JSONTagsCaseStyle o' = ''camel'' then hd parts else json_part uc pascal (hd parts))
          @ concat (map (json_part uc pascal) (tl parts))))"

text \<open>The tags used so far, and the tags afterwards.\<close>

definition addJSONTag :: "unicode \<Rightarrow> Options \<Rightarrow> string list \<Rightarrow> string \<Rightarrow> string list res" where
  "addJSONTag uc o' seen name =
     (if \<not> o_EmitJSONTags o' then Inr seen
      else (let tag = jsonTagName uc o' name in
        if List.member seen tag then Inl (Errorf ''colliding JSON tag %q'' [FStr tag]) else Inr (tag # seen)))"

text \<open>\<open>ident\<close> of the generator is \<open>token.IsIdentifier\<close> spelt out.\<close>

definition ident :: "unicode \<Rightarrow> string \<Rightarrow> bool" where
  "ident uc s = (if s = [] then False else if List.member go_keywords s then False else identifier_runes uc 0 (rune_list s))"

section \<open>Files\<close>

definition sourceName :: "AnalyzedQuery \<Rightarrow> string" where
  "sourceName q = (if pos_File (aq_Source q) = [] then ''query.sql'' else pos_File (aq_Source q))"

definition outputName :: "string \<Rightarrow> string" where
  "outputName s =
     (let base = Base s in (if has_suffix base ''.sql'' then take (length base - 4) base else base) @ ''.sql.go'')"

section \<open>Parameters and results\<close>

definition useParamsStruct :: "AnalyzedQuery \<Rightarrow> Options \<Rightarrow> bool" where
  "useParamsStruct q o' \<longleftrightarrow>
     (let limit = (case o_QueryParameterLimit o' of Some limit \<Rightarrow> sint limit | None \<Rightarrow> 1) in
      length (aq_Parameters q) > 0 \<and> int (length (aq_Parameters q)) > limit)"

definition isStructList :: "ty \<Rightarrow> bool" where
  "isStructList t \<longleftrightarrow> equal_fold (Kind t) ''List'' \<and> (case Elem t of None \<Rightarrow> False | Some e \<Rightarrow> equal_fold (Kind e) ''Struct'')"

definition isStructParameter :: "ty \<Rightarrow> bool" where
  "isStructParameter t \<longleftrightarrow> equal_fold (Kind t) ''Struct'' \<or> isStructList t"

definition structFields :: "ty \<Rightarrow> (string \<times> ty) list" where
  "structFields t = (if isStructList t then (case Elem t of Some e \<Rightarrow> Fields e | None \<Rightarrow> []) else Fields t)"

definition structItemName :: "unicode \<Rightarrow> AnalyzedQuery \<Rightarrow> QueryParameter \<Rightarrow> string" where
  "structItemName uc q p =
     (if equal_fold (Kind (qp_Type p)) ''Struct'' then aq_Name q @ goName uc (qp_Name p)
      else aq_Name q @ goName uc (qp_Name p) @ ''Item'')"

definition structListBuilderName :: "unicode \<Rightarrow> AnalyzedQuery \<Rightarrow> QueryParameter \<Rightarrow> string" where
  "structListBuilderName uc q p = ''bind'' @ structItemName uc q p"

definition scalarListBuilderName :: "unicode \<Rightarrow> AnalyzedQuery \<Rightarrow> QueryParameter \<Rightarrow> string" where
  "scalarListBuilderName uc q p = ''bind'' @ aq_Name q @ goName uc (qp_Name p)"

text \<open>The plain \<open>parameterGoType\<close>, and the method of the options that asks for overrides first.\<close>

definition plainParameterGoType :: "unicode \<Rightarrow> AnalyzedQuery \<Rightarrow> QueryParameter \<Rightarrow> string res" where
  "plainParameterGoType uc q p =
     (if isStructParameter (qp_Type p) then
        Inr ((if isStructList (qp_Type p) then ''[]'' else []) @ structItemName uc q p)
      else goType (qp_Type p))"

definition parameterGoType :: "unicode \<Rightarrow> Options \<Rightarrow> AnalyzedQuery \<Rightarrow> QueryParameter \<Rightarrow> string res" where
  "parameterGoType uc o' q p =
     and_then (parameterOverride uc o' q p) (\<lambda>index.
       case index of
         Some i \<Rightarrow> reference_type uc o' i (qp_Type p)
       | None \<Rightarrow> plainParameterGoType uc q p)"

definition embeddingAt :: "ResultSet \<Rightarrow> nat \<Rightarrow> Embedding option" where
  "embeddingAt rs index = List.find (\<lambda>emb. em_Start emb \<le> int index \<and> int index < em_End emb) (rs_Embeds rs)"

definition embeddedTableUsed :: "AnalysisResult \<Rightarrow> string \<Rightarrow> bool" where
  "embeddedTableUsed in' name \<longleftrightarrow>
     list_ex (\<lambda>q. list_ex (\<lambda>rs. list_ex (\<lambda>emb. em_Table emb = name) (rs_Embeds rs)) (aq_ResultSets q)) (ar_Queries in')"

definition embeddedGoType :: "unicode \<Rightarrow> Options \<Rightarrow> string \<Rightarrow> string" where
  "embeddedGoType uc o' table = fieldName uc o' (Base table)"

definition exportedQueryName :: "unicode \<Rightarrow> string \<Rightarrow> string" where
  "exportedQueryName uc name = (case rune_list name of [] \<Rightarrow> [] | r # rs \<Rightarrow> string_of_runes (ToTitle uc r # rs))"

definition varRef :: "unicode \<Rightarrow> AnalyzedQuery \<Rightarrow> QueryParameter \<Rightarrow> Options \<Rightarrow> string" where
  "varRef uc q p o' =
     (if useParamsStruct q o' then ''arg.'' @ fieldName uc o' (qp_Name p)
      else if length (aq_Parameters q) = 1 then ''arg''
      else ''arg'' @ fieldName uc o' (qp_Name p))"

definition resultFieldPath :: "unicode \<Rightarrow> ResultSet \<Rightarrow> nat \<Rightarrow> Column \<Rightarrow> Options \<Rightarrow> string" where
  "resultFieldPath uc rs index column o' =
     (case embeddingAt rs index of
        Some emb \<Rightarrow> fieldName uc o' (em_Field emb) @ ''.'' @ fieldName uc o' (col_Name column)
      | None \<Rightarrow> fieldName uc o' (col_Name column))"

end
