(* ===== verification/GolangValidate.thy ===== *)
theory GolangValidate
  imports GolangNames
begin

text \<open>
  What the Go generator checks before it writes anything: \<open>validate\<close> of \<open>generate.go\<close> and the
  checks of \<open>struct_list.go\<close>. A set that a loop fills is a list; the order of the map \<open>Rename\<close> is the
  order of its list. The properties say what the checks guarantee to the writers: every type they ask
  for exists, so that the errors they discard never occur, and no name is declared twice.
\<close>

section \<open>Struct parameters\<close>

definition scalar_of :: "ty \<Rightarrow> ty" where
  "scalar_of t = (if IsOptional t \<and> Elem t \<noteq> None then the (Elem t) else t)"

fun struct_fields_err :: "unicode \<Rightarrow> Options \<Rightarrow> string \<Rightarrow> string list \<Rightarrow> string list \<Rightarrow> (string \<times> ty) list \<Rightarrow> go_error option" where
  "struct_fields_err uc o' kind names tags [] = None"
| "struct_fields_err uc o' kind names tags (f # fs) =
     (let name = fieldName uc o' (fst f); scalar = scalar_of (snd f) in
      if fst f = [] \<or> \<not> ident uc name \<or> List.member names name then
        Some (Errorf ''%s has invalid or colliding field %q'' [FStr kind, FStr (fst f)])
      else (case addJSONTag uc o' tags (fst f) of
          Inl err \<Rightarrow> Some (Errorf ''%s: %w'' [FStr kind, FErr err])
        | Inr tags' \<Rightarrow>
            if IsOptional scalar \<or> equal_fold (Kind scalar) ''List'' \<or> equal_fold (Kind scalar) ''Struct''
                \<or> equal_fold (Kind scalar) ''Dict'' then
              Some (Errorf ''%s field %s must be a scalar or Optional<scalar>'' [FStr kind, FStr (fst f)])
            else (case goType scalar of
                Inl err \<Rightarrow> Some (Errorf ''%s field %s: %w'' [FStr kind, FStr (fst f), FErr err])
              | Inr _ \<Rightarrow>
                  if extendedListTemporal scalar then
                    Some (Errorf ''%s field %s: extended temporal type %s is unsupported'' [FStr kind, FStr (fst f), FStr (Kind scalar)])
                  else (case validateDecimal (snd f) of
                      Some err \<Rightarrow> Some (Errorf ''%s field %s: %w'' [FStr kind, FStr (fst f), FErr err])
                    | None \<Rightarrow> struct_fields_err uc o' kind (name # names) tags' fs))))"

definition validateStructParameter :: "unicode \<Rightarrow> ty \<Rightarrow> Options \<Rightarrow> go_error option" where
  "validateStructParameter uc t o' =
     (let kind = (if isStructList t then ''List<Struct>'' else ''Struct''); fields' = structFields t in
      if fields' = [] then Some (Errorf ''%s requires at least one field'' [FStr kind])
      else struct_fields_err uc o' kind [] [] fields')"

section \<open>Declarations\<close>

text \<open>Taking names one after the other: an error as soon as one is taken already.\<close>

fun claim_names :: "(string \<Rightarrow> go_error) \<Rightarrow> string list \<Rightarrow> string list \<Rightarrow> string list res" where
  "claim_names err names [] = Inr names"
| "claim_names err names (name # new) =
     (if List.member names name then Inl (err name) else claim_names err (name # names) new)"

text \<open>The names known at the start and those taken without a check.\<close>

definition single_result :: "AnalyzedQuery \<Rightarrow> bool" where
  "single_result q \<longleftrightarrow> aq_Command q = One \<or> aq_Command q = Many \<or> aq_Command q = Each"

definition unchecked_names :: "AnalysisResult \<Rightarrow> Options \<Rightarrow> string list" where
  "unchecked_names in' o' =
     [''Queries'', ''DBTX'', ''Querier'', ''New'', ''validateDecimalParameter'']
     @ concat (map (\<lambda>q. (if useParamsStruct q o' then [aq_Name q @ ''Params''] else [])
         @ (if single_result q then [aq_Name q @ ''Row''] else [])) (ar_Queries in'))"

definition multi_declarations :: "AnalyzedQuery \<Rightarrow> string list" where
  "multi_declarations q =
     (if aq_Command q \<noteq> Multi then []
      else (aq_Name q @ ''Result'') # map (\<lambda>rs. aq_Name q @ rs_Name rs @ ''Row'') (aq_ResultSets q))"

fun claim_multi :: "string list \<Rightarrow> AnalyzedQuery list \<Rightarrow> string list res" where
  "claim_multi names [] = Inr names"
| "claim_multi names (q # qs) =
     and_then (claim_names (\<lambda>name. Errorf ''%s: generated declaration %s collides with another declaration''
         [FStr (aq_Name q), FStr name]) names (multi_declarations q))
       (\<lambda>names. claim_multi names qs)"

fun embedded_fields_err :: "unicode \<Rightarrow> Options \<Rightarrow> string \<Rightarrow> string list \<Rightarrow> string list \<Rightarrow> Column list \<Rightarrow> go_error option" where
  "embedded_fields_err uc o' table fields' tags [] = None"
| "embedded_fields_err uc o' table fields' tags (column # columns) =
     (let field = fieldName uc o' (col_Name column) in
      if List.member fields' field then
        Some (Errorf ''embedded table %q: colliding model field %q'' [FStr table, FStr (col_Name column)])
      else (case addJSONTag uc o' tags (col_Name column) of
          Inl err \<Rightarrow> Some (Errorf ''embedded table %q: %w'' [FStr table, FErr err])
        | Inr tags' \<Rightarrow> embedded_fields_err uc o' table (field # fields') tags' columns))"

fun claim_tables :: "unicode \<Rightarrow> AnalysisResult \<Rightarrow> Options \<Rightarrow> string list \<Rightarrow> Table list \<Rightarrow> string list res" where
  "claim_tables uc in' o' names [] = Inr names"
| "claim_tables uc in' o' names (table # tables) =
     (if \<not> embeddedTableUsed in' (tb_Name table) then claim_tables uc in' o' names tables
      else (let name = embeddedGoType uc o' (tb_Name table) in
        if List.member names name then
          Inl (Errorf ''embedded table %q: generated model name %s collides with another declaration''
            [FStr (tb_Name table), FStr name])
        else (case embedded_fields_err uc o' (tb_Name table) [] [] (tb_Columns table) of
            Some err \<Rightarrow> Inl err
          | None \<Rightarrow> claim_tables uc in' o' (name # names) tables)))"

definition parameter_declarations :: "unicode \<Rightarrow> AnalyzedQuery \<Rightarrow> QueryParameter \<Rightarrow> string list" where
  "parameter_declarations uc q p =
     (if isStructParameter (qp_Type p) then [structItemName uc q p, structListBuilderName uc q p]
      else if equal_fold (Kind (qp_Type p)) ''List'' then [scalarListBuilderName uc q p]
      else [])"

fun claim_parameters :: "unicode \<Rightarrow> string list \<Rightarrow> (AnalyzedQuery \<times> QueryParameter) list \<Rightarrow> string list res" where
  "claim_parameters uc names [] = Inr names"
| "claim_parameters uc names ((q, p) # qps) =
     and_then (claim_names (\<lambda>name. Errorf ''%s parameter %s: generated declaration %s collides with another declaration''
         [FStr (aq_Name q), FStr (qp_Name p), FStr name]) names (parameter_declarations uc q p))
       (\<lambda>names. claim_parameters uc names qps)"

fun claim_exported :: "unicode \<Rightarrow> string list \<Rightarrow> AnalyzedQuery list \<Rightarrow> string list res" where
  "claim_exported uc names [] = Inr names"
| "claim_exported uc names (q # qs) =
     (let name = exportedQueryName uc (aq_Name q) in
      if \<not> IsExported uc name then
        Inl (Errorf ''%s: query name cannot form an exported Go constant'' [FStr (aq_Name q)])
      else if List.member names name then
        Inl (Errorf ''%s: exported query constant %s conflicts with generated declaration'' [FStr (aq_Name q), FStr name])
      else claim_exported uc (name # names) qs)"

definition query_parameters :: "AnalysisResult \<Rightarrow> (AnalyzedQuery \<times> QueryParameter) list" where
  "query_parameters in' = concat (map (\<lambda>q. map (\<lambda>p. (q, p)) (aq_Parameters q)) (ar_Queries in'))"

definition declared_names :: "unicode \<Rightarrow> AnalysisResult \<Rightarrow> Options \<Rightarrow> string list res" where
  "declared_names uc in' o' =
     and_then (claim_multi (unchecked_names in' o') (ar_Queries in')) (\<lambda>names.
     and_then (claim_tables uc in' o' names (cat_Tables (ar_Catalog in'))) (\<lambda>names.
     and_then (claim_parameters uc names (query_parameters in')) (\<lambda>names.
       if o_EmitExportedQueries o' then claim_exported uc names (ar_Queries in') else Inr names)))"

definition validateStructDeclarations :: "unicode \<Rightarrow> AnalysisResult \<Rightarrow> Options \<Rightarrow> go_error option" where
  "validateStructDeclarations uc in' o' = (case declared_names uc in' o' of Inl err \<Rightarrow> Some err | Inr _ \<Rightarrow> None)"


section \<open>Queries\<close>

definition rename_err :: "unicode \<Rightarrow> string \<times> string \<Rightarrow> go_error option" where
  "rename_err uc entry =
     (if fst entry = [] then Some (Errorf ''gen.go.rename contains an empty source name'' [])
      else if \<not> IsIdentifier uc (snd entry) \<or> \<not> IsExported uc (snd entry) then
        Some (Errorf ''gen.go.rename[%q] must be an exported Go identifier, got %q'' [FStr (fst entry), FStr (snd entry)])
      else None)"

definition command_err :: "unicode \<Rightarrow> Options \<Rightarrow> AnalyzedQuery \<Rightarrow> go_error option" where
  "command_err uc o' q =
     (if \<not> List.member [One, Many, Multi, Each, Exec, ExecRows] (aq_Command q) then
        Some (Errorf ''%s: unsupported command %q'' [FStr (aq_Name q), FStr (aq_Command q)])
      else if aq_Command q = ExecRows then
        Some (Errorf ''%s: :execrows is unavailable for %s'' [FStr (aq_Name q), FStr (o_Runtime o')])
      else if single_result q \<and> (length (aq_ResultSets q) \<noteq> 1 \<or> rs_Columns (aq_ResultSets q ! 0) = []) then
        Some (Errorf ''%s: %s requires one non-empty result set'' [FStr (aq_Name q), FStr (aq_Command q)])
      else if aq_Command q = Multi then
        (if length (aq_ResultSets q) < 2 then
           Some (Errorf ''%s: :multi requires at least two result sets'' [FStr (aq_Name q)])
         else first_err (\<lambda>rs.
           if rs_Columns rs = [] then
             Some (Errorf ''%s: :multi result %q requires at least one column'' [FStr (aq_Name q), FStr (rs_Name rs)])
           else if \<not> ident uc (rs_Name rs) \<or> \<not> IsExported uc (rs_Name rs) then
             Some (Errorf ''%s: invalid :multi result name %q'' [FStr (aq_Name q), FStr (rs_Name rs)])
           else None) (aq_ResultSets q))
      else None)"

text \<open>The checks of one parameter's type, in the order of the code; \<open>where'\<close> wraps the error.\<close>

definition parameter_type_err :: "unicode \<Rightarrow> Options \<Rightarrow> AnalyzedQuery \<Rightarrow> QueryParameter \<Rightarrow> go_error option" where
  "parameter_type_err uc o' q p =
     (let where' = (\<lambda>err. Some (Errorf ''%s parameter %s: %w'' [FStr (aq_Name q), FStr (qp_Name p), FErr err]));
          base = (case parameterOverride uc o' q p of
              Inr (Some _) \<Rightarrow> (case overrideBase (qp_Type p) of Inl err \<Rightarrow> Some err | Inr _ \<Rightarrow> None)
            | _ \<Rightarrow> None);
          shape = (if isStructParameter (qp_Type p) then validateStructParameter uc (qp_Type p) o'
            else if hasKind (qp_Type p) ''list'' then validateNativeListParameter (qp_Type p) else None) in
      case parameterGoType uc o' q p of
        Inl err \<Rightarrow> where' err
      | Inr _ \<Rightarrow> (case base of
          Some err \<Rightarrow> where' err
        | None \<Rightarrow> (case shape of
            Some err \<Rightarrow> where' err
          | None \<Rightarrow> (case validateDecimal (qp_Type p) of Some err \<Rightarrow> where' err | None \<Rightarrow> None))))"

fun parameters_err ::
  "unicode \<Rightarrow> Options \<Rightarrow> AnalyzedQuery \<Rightarrow> string list \<Rightarrow> string list \<Rightarrow> QueryParameter list \<Rightarrow> go_error option" where
  "parameters_err uc o' q field tags [] = None"
| "parameters_err uc o' q field tags (p # ps) =
     (let name = fieldName uc o' (qp_Name p) in
      if \<not> ident uc name \<or> List.member field name then
        Some (Errorf ''%s: colliding parameter %q'' [FStr (aq_Name q), FStr (qp_Name p)])
      else (case (if useParamsStruct q o' then addJSONTag uc o' tags (qp_Name p) else Inr tags) of
          Inl err \<Rightarrow> Some (Errorf ''%s parameters: %w'' [FStr (aq_Name q), FErr err])
        | Inr tags' \<Rightarrow> (case parameter_type_err uc o' q p of
            Some err \<Rightarrow> Some err
          | None \<Rightarrow> parameters_err uc o' q (name # field) tags' ps)))"

definition column_type_err :: "unicode \<Rightarrow> Options \<Rightarrow> AnalyzedQuery \<Rightarrow> Column \<Rightarrow> go_error option" where
  "column_type_err uc o' q c =
     (let where' = (\<lambda>err. Some (Errorf ''%s column %s: %w'' [FStr (aq_Name q), FStr (col_Name c), FErr err])) in
      case columnGoType uc o' c of
        Inl err \<Rightarrow> where' err
      | Inr _ \<Rightarrow>
          (case (if columnOverride o' c \<noteq> None then overrideBase (col_Type c) else Inr []) of
             Inl err \<Rightarrow> where' err
           | Inr _ \<Rightarrow>
               if o_Runtime o' = ''database/sql'' \<and> hasKind (col_Type c) ''list'' then
                 Some (Errorf ''%s column %s: List results are unsupported by database/sql'' [FStr (aq_Name q), FStr (col_Name c)])
               else if optionalList (col_Type c) then
                 Some (Errorf ''%s column %s: Optional<List> results are unsupported'' [FStr (aq_Name q), FStr (col_Name c)])
               else (case validateDecimal (col_Type c) of Some err \<Rightarrow> where' err | None \<Rightarrow> None)))"

text \<open>The field of a column: none inside an embedding, the embedding's at its start.\<close>

definition result_field :: "ResultSet \<Rightarrow> nat \<Rightarrow> Column \<Rightarrow> string option" where
  "result_field rs i c =
     (case embeddingAt rs i of
        None \<Rightarrow> Some (col_Name c)
      | Some emb \<Rightarrow> if em_Start emb = int i then Some (em_Field emb) else None)"

fun columns_err ::
  "unicode \<Rightarrow> Options \<Rightarrow> AnalyzedQuery \<Rightarrow> ResultSet \<Rightarrow> nat \<Rightarrow> string list \<Rightarrow> string list \<Rightarrow> Column list \<Rightarrow> go_error option" where
  "columns_err uc o' q rs i field tags [] = None"
| "columns_err uc o' q rs i field tags (c # cs) =
     (let field_tags = (case result_field rs i c of
          None \<Rightarrow> Inr (field, tags)
        | Some name \<Rightarrow>
            let n = fieldName uc o' name in
            if \<not> ident uc n \<or> List.member field n then
              Inl (Errorf ''%s: colliding result field %q'' [FStr (aq_Name q), FStr name])
            else map_error (\<lambda>err. Errorf ''%s: %w'' [FStr (aq_Name q), FErr err])
              (and_then (if single_result q \<or> aq_Command q = Multi then addJSONTag uc o' tags name else Inr tags)
                (\<lambda>tags'. Inr (n # field, tags')))) in
      case field_tags of
        Inl err \<Rightarrow> Some err
      | Inr (field', tags') \<Rightarrow> (case column_type_err uc o' q c of
          Some err \<Rightarrow> Some err
        | None \<Rightarrow> columns_err uc o' q rs (i + 1) field' tags' cs))"

text \<open>The queries: \<open>seen\<close> are the names so far, \<open>outputs\<close> the source of each output file.\<close>

fun queries_err ::
  "unicode \<Rightarrow> Options \<Rightarrow> string list \<Rightarrow> (string \<times> string) list \<Rightarrow> AnalyzedQuery list \<Rightarrow> go_error option" where
  "queries_err uc o' seen outputs [] = None"
| "queries_err uc o' seen outputs (q # qs) =
     (let source' = sourceName q; out = outputName source' in
      if \<not> ident uc (aq_Name q) \<or> List.member seen (aq_Name q) then
        Some (Errorf ''invalid or duplicate query name %q'' [FStr (aq_Name q)])
      else if o_Runtime o' = ''database/sql'' \<and> aq_Name q = ''WithTx'' then
        Some (Errorf ''query name %q conflicts with generated Queries.WithTx'' [FStr (aq_Name q)])
      else if (case map_of outputs out of None \<Rightarrow> False | Some previous \<Rightarrow> previous \<noteq> source') then
        Some (Errorf ''multiple query sources map to generated file %q'' [FStr out])
      else (case command_err uc o' q of
          Some err \<Rightarrow> Some err
        | None \<Rightarrow> (case parameters_err uc o' q [] [] (aq_Parameters q) of
            Some err \<Rightarrow> Some err
          | None \<Rightarrow> (case first_err (\<lambda>rs. columns_err uc o' q rs 0 [] [] (rs_Columns rs)) (aq_ResultSets q) of
              Some err \<Rightarrow> Some err
            | None \<Rightarrow> queries_err uc o' (aq_Name q # seen) ((out, source') # outputs) qs))))"

definition validate :: "unicode \<Rightarrow> AnalysisResult \<Rightarrow> Options \<Rightarrow> go_error option" where
  "validate uc in' o' =
     (case validateOverrides uc o' of
        Some err \<Rightarrow> Some err
      | None \<Rightarrow> (case first_err (rename_err uc) (o_Rename o') of
          Some err \<Rightarrow> Some err
        | None \<Rightarrow> (case validateStructDeclarations uc in' o' of
            Some err \<Rightarrow> Some err
          | None \<Rightarrow> queries_err uc o' [] [] (ar_Queries in'))))"


section \<open>Which types have a Go type\<close>

definition go_kinds :: "string list" where
  "go_kinds =
    [''bool'', ''int8'', ''int16'', ''int32'', ''int64'', ''uint8'', ''uint16'', ''uint32'', ''uint64'', ''float'', ''double'',
     ''utf8'', ''json'', ''jsondocument'', ''string'', ''yson'', ''timestamp'', ''timestamp64'', ''date'', ''date32'',
     ''datetime'', ''datetime64'', ''interval'', ''interval64'', ''decimal'', ''uuid'']"

lemma goType_Optional:
  "IsOptional t \<Longrightarrow> goType t = Inr x \<Longrightarrow> \<exists>e y. Elem t = Some e \<and> goType e = Inr y \<and> x = ''*'' @ y"
  by (subst (asm) goType.simps) (auto simp: result_simps split: option.splits)

lemma goType_plain:
  assumes "\<not> IsOptional t" "goType t = Inr x"
  shows "to_lower (Kind t) \<in> set go_kinds \<or> (to_lower (Kind t) = ''list'' \<and> (\<exists>e y. Elem t = Some e \<and> goType e = Inr y))"
proof (rule ccontr)
  assume no: "\<not> ?thesis"
  have "goType t \<noteq> Inr x"
  proof (cases "to_lower (Kind t) = ''list''")
    case True
    with no assms(1) show ?thesis
      by (subst goType.simps) (auto simp: result_simps split: option.splits)
  next
    case False
    have "goType t = Inl (Errorf ''unsupported YQL type %q'' [FStr (Kind t)])"
      using False no assms(1) by (subst goType.simps) (simp add: go_kinds_def)
    then show ?thesis by simp
  qed
  with assms(2) show False by contradiction
qed

text \<open>The kinds are ASCII, so \<open>EqualFold\<close> and \<open>ToLower\<close> agree where a Go type exists.\<close>

lemma fold_case_ASCII: "byte c < 128 \<Longrightarrow> fold_case (c # s) = ascii_lower c # fold_case s"
  by (cases s; cases "tl s") auto

lemma fold_case_high: "128 \<le> byte c \<Longrightarrow> fold_case (c # s) = x # r \<Longrightarrow> byte x < 128 \<Longrightarrow>
    x = CHR ''k'' \<or> (x = CHR ''s'' \<and> byte c = 197)"
  by (cases "c # s" rule: fold_case.cases) (auto simp: ascii_lower_def split: if_splits)

lemma fold_case_step:
  assumes "fold_case k = x # r" "byte x < 128" "x \<noteq> CHR ''k''" "x \<noteq> CHR ''s''"
  shows "\<exists>c s. k = c # s \<and> byte c < 128 \<and> ascii_lower c = x \<and> fold_case s = r"
proof (cases k)
  case (Cons c s)
  with assms fold_case_high [of c s x r] have "byte c < 128" by (metis linorder_not_less)
  with Cons assms(1) show ?thesis by (simp add: fold_case_ASCII)
qed (use assms(1) in simp)

lemma equal_fold_list:
  assumes "equal_fold k ''List''"
  shows "to_lower k = ''list'' \<or> list_ex (\<lambda>c. 128 \<le> byte c) (to_lower k)"
proof -
  have "fold_case ''List'' = ''list''" by code_simp
  with assms have "fold_case k = CHR ''l'' # ''ist''" by (simp add: equal_fold_def)
  from fold_case_step [OF this] obtain l r1 where 1: "k = l # r1" "byte l < 128" "ascii_lower l = CHR ''l''"
      "fold_case r1 = CHR ''i'' # ''st''" by (auto simp: byte_def)
  from fold_case_step [OF 1(4)] obtain i r2 where 2: "r1 = i # r2" "byte i < 128" "ascii_lower i = CHR ''i''"
      "fold_case r2 = CHR ''s'' # ''t''" by (auto simp: byte_def)
  from 2(4) obtain s r3 where 3: "r2 = s # r3" by (cases r2) auto
  have k: "to_lower k = ''li'' @ to_lower r2" using 1 2 by simp
  show ?thesis
  proof (cases "byte s < 128")
    case True
    with 2(4) 3 have s: "ascii_lower s = CHR ''s''" "fold_case r3 = CHR ''t'' # []" by (simp_all add: fold_case_ASCII)
    from fold_case_step [OF s(2)] obtain t r4 where "r3 = t # r4" "byte t < 128" "ascii_lower t = CHR ''t''"
        "fold_case r4 = []" by (auto simp: byte_def)
    moreover from this have "r4 = []" by (cases r4 rule: fold_case.cases) (auto split: if_splits)
    ultimately show ?thesis using k 3 True s(1) by simp
  next
    case False
    with fold_case_high [of s r3 "CHR ''s''"] 2(4) 3 have "byte s = 197" by (auto simp: byte_def [of "CHR ''s''"])
    then have "\<exists>r. to_lower r2 = s # r" unfolding 3
      by (cases "s # r3" rule: to_lower.cases) (auto simp: ascii_lower_def)
    with k False show ?thesis by auto
  qed
qed

lemma goType_list:
  assumes "goType t = Inr x" "equal_fold (Kind t) ''List''"
  shows "\<exists>e y. Elem t = Some e \<and> goType e = Inr y"
proof (cases "IsOptional t")
  case False
  have words: "list_all (\<lambda>w. w \<noteq> ''list'' \<and> \<not> list_ex (\<lambda>c. 128 \<le> byte c) w) go_kinds" by code_simp
  from equal_fold_list [OF assms(2)] words have "to_lower (Kind t) \<notin> set go_kinds" by (auto simp: list_all_iff)
  with goType_plain [OF False assms(1)] show ?thesis by blast
qed (use goType_Optional [OF _ assms(1)] in blast)

section \<open>What the checks of types guarantee\<close>

lemma struct_fields_types:
  "struct_fields_err uc o' kind names tags fs = None \<Longrightarrow> f \<in> set fs \<Longrightarrow> \<exists>x. goType (snd f) = Inr x"
proof (induction uc o' kind names tags fs rule: struct_fields_err.induct)
  case (2 uc o' kind names tags g fs)
  have "\<exists>x. goType (snd g) = Inr x"
  proof -
    from 2(2) obtain x where x: "goType (scalar_of (snd g)) = Inr x" "\<not> IsOptional (scalar_of (snd g))"
      by (auto simp: Let_def split: if_splits sum.splits option.splits)
    then show ?thesis
    proof (cases "IsOptional (snd g)")
      case True
      with x(2) obtain e where "Elem (snd g) = Some e" "scalar_of (snd g) = e" by (cases "Elem (snd g)") (auto simp: scalar_of_def)
      with x(1) True show ?thesis by (subst goType.simps) simp
    qed (simp add: scalar_of_def)
  qed
  moreover have "\<exists>tags'. struct_fields_err uc o' kind (fieldName uc o' (fst g) # names) tags' fs = None"
    using 2(2) by (auto simp: Let_def split: if_splits sum.splits option.splits)
  ultimately show ?case using 2 by (auto simp: Let_def split: if_splits sum.splits option.splits)
qed simp


text \<open>What the writers ask of a parameter's type and of a column.\<close>

definition parameter_types_ok :: "unicode \<Rightarrow> Options \<Rightarrow> AnalyzedQuery \<Rightarrow> QueryParameter \<Rightarrow> bool" where
  "parameter_types_ok uc o' q p \<longleftrightarrow>
     (\<exists>x. parameterGoType uc o' q p = Inr x)
     \<and> (if isStructParameter (qp_Type p) then
          structFields (qp_Type p) \<noteq> [] \<and> list_all (\<lambda>f. \<exists>x. goType (snd f) = Inr x) (structFields (qp_Type p))
        else if equal_fold (Kind (qp_Type p)) ''List'' then \<exists>e x. Elem (qp_Type p) = Some e \<and> goType e = Inr x
        else True)
     \<and> (case parameterOverride uc o' q p of
          Inl _ \<Rightarrow> False
        | Inr None \<Rightarrow> True
        | Inr (Some i) \<Rightarrow> \<exists>x y. overrideBase (qp_Type p) = Inr x \<and> resolvedOverride uc o' i = Inr y)"

definition column_types_ok :: "unicode \<Rightarrow> Options \<Rightarrow> Column \<Rightarrow> bool" where
  "column_types_ok uc o' c \<longleftrightarrow> (\<exists>x. columnGoType uc o' c = Inr x)
     \<and> (case columnOverride o' c of
          None \<Rightarrow> True
        | Some i \<Rightarrow> \<exists>x y. overrideBase (col_Type c) = Inr x \<and> resolvedOverride uc o' i = Inr y)"

definition query_types_ok :: "unicode \<Rightarrow> Options \<Rightarrow> AnalyzedQuery \<Rightarrow> bool" where
  "query_types_ok uc o' q \<longleftrightarrow> list_all (parameter_types_ok uc o' q) (aq_Parameters q)
     \<and> list_all (\<lambda>rs. list_all (column_types_ok uc o') (rs_Columns rs)) (aq_ResultSets q)"

lemma overrideBase_not_list: "overrideBase t = Inr x \<Longrightarrow> \<not> equal_fold (Kind (UnwrapOptional t)) ''List''"
proof
  assume b: "overrideBase t = Inr x" and l: "equal_fold (Kind (UnwrapOptional t)) ''List''"
  let ?w = "to_lower (Kind (UnwrapOptional t))"
  from b have "?w \<in> {''bool'', ''int32'', ''uint64'', ''double'', ''utf8'', ''string''}"
    by (simp add: overrideBase_def Let_def split: if_splits)
  moreover have "list_all (\<lambda>w. w \<noteq> ''list'' \<and> \<not> list_ex (\<lambda>c. 128 \<le> byte c) w)
      [''bool'', ''int32'', ''uint64'', ''double'', ''utf8'', ''string'']" by code_simp
  ultimately show False using equal_fold_list [OF l] by (auto simp: list_all_iff)
qed

lemma equal_fold_Optional: "IsOptional t \<Longrightarrow> \<not> equal_fold (Kind t) ''List''"
proof -
  assume "IsOptional t"
  moreover have "\<not> equal_fold ''Optional'' ''List''" by code_simp
  ultimately show ?thesis by (simp add: IsOptional_def)
qed

lemma parameter_type_ok:
  assumes "parameter_type_err uc o' q p = None"
  shows "parameter_types_ok uc o' q p"
proof -
  let ?t = "qp_Type p"
  from assms obtain x where x: "parameterGoType uc o' q p = Inr x"
    by (cases "parameterGoType uc o' q p") (simp_all add: parameter_type_err_def Let_def)
  then obtain sel where sel: "parameterOverride uc o' q p = Inr sel"
    by (auto simp: parameterGoType_def result_simps)
  have base: "\<exists>b. overrideBase ?t = Inr b" if "sel = Some i" for i
    using assms x sel that by (cases "overrideBase ?t") (auto simp: parameter_type_err_def Let_def)
  have ref: "\<exists>y. resolvedOverride uc o' i = Inr y" if "sel = Some i" for i
    using x sel that by (auto simp: parameterGoType_def reference_type_def result_simps)
  have shape: "(if isStructParameter ?t then validateStructParameter uc ?t o'
      else if hasKind ?t ''list'' then validateNativeListParameter ?t else None) = None"
    using assms x by (auto simp: parameter_type_err_def Let_def split: option.splits sum.splits if_splits)
  have struct': "structFields ?t \<noteq> [] \<and> list_all (\<lambda>f. \<exists>x. goType (snd f) = Inr x) (structFields ?t)"
    if "isStructParameter ?t"
    using shape that struct_fields_types by (fastforce simp: validateStructParameter_def Let_def list_all_iff split: if_splits)
  have list': "\<exists>e x. Elem ?t = Some e \<and> goType e = Inr x" if l: "equal_fold (Kind ?t) ''List''" "\<not> isStructParameter ?t"
  proof -
    have "sel = None"
    proof (rule ccontr)
      assume "sel \<noteq> None"
      then obtain b where "overrideBase ?t = Inr b" using base by blast
      with overrideBase_not_list l(1) equal_fold_Optional [of ?t] show False by (metis UnwrapOptional_def)
    qed
    with x sel l(2) have "goType ?t = Inr x" by (simp add: parameterGoType_def plainParameterGoType_def)
    from goType_list [OF this l(1)] show ?thesis by blast
  qed
  from x sel base ref struct' list' show ?thesis
    by (auto simp: parameter_types_ok_def split: option.splits)
qed

lemma column_type_ok: "column_type_err uc o' q c = None \<Longrightarrow> column_types_ok uc o' c"
  by (auto simp: column_type_err_def column_types_ok_def columnGoType_def reference_type_def Let_def result_simps
      split: sum.splits option.splits if_splits)

lemma parameters_err_types: "parameters_err uc o' q field tags ps = None \<Longrightarrow> list_all (parameter_types_ok uc o' q) ps"
  by (induction uc o' q field tags ps rule: parameters_err.induct)
    (auto simp: Let_def parameter_type_ok split: if_splits sum.splits option.splits)

lemma columns_err_types: "columns_err uc o' q rs i field tags cs = None \<Longrightarrow> list_all (column_types_ok uc o') cs"
proof (induction cs arbitrary: i field tags)
  case (Cons c cs)
  then obtain field' tags' where "column_type_err uc o' q c = None" "columns_err uc o' q rs (i + 1) field' tags' cs = None"
    by (auto simp: Let_def split: sum.splits option.splits)
  with Cons.IH show ?case by (auto intro: column_type_ok)
qed simp

lemma queries_err_None:
  "queries_err uc o' seen outputs qs = None \<Longrightarrow>
     list_all (query_types_ok uc o') qs \<and> distinct (map aq_Name qs) \<and> set (map aq_Name qs) \<inter> set seen = {}
     \<and> list_all (\<lambda>q. ident uc (aq_Name q) \<and> command_err uc o' q = None) qs"
proof (induction qs arbitrary: seen outputs)
  case (Cons q qs)
  then obtain outputs' where q: "queries_err uc o' (aq_Name q # seen) outputs' qs = None"
      "parameters_err uc o' q [] [] (aq_Parameters q) = None"
      "\<And>rs. rs \<in> set (aq_ResultSets q) \<Longrightarrow> columns_err uc o' q rs 0 [] [] (rs_Columns rs) = None"
      "aq_Name q \<notin> set seen" "ident uc (aq_Name q)" "command_err uc o' q = None"
    by (auto simp: Let_def split: if_splits option.splits)
  from Cons.IH [OF q(1)] q(2-) show ?case
    by (auto simp: query_types_ok_def list_all_iff dest!: parameters_err_types [unfolded list_all_iff] dest: columns_err_types [unfolded list_all_iff])
qed simp


section \<open>What the checks of names guarantee\<close>

text \<open>The names \<open>r\<close> are the names \<open>names\<close> and the new ones, none of which was there or repeated.\<close>

definition claimed :: "string list \<Rightarrow> string list \<Rightarrow> string list \<Rightarrow> bool" where
  "claimed names new r \<longleftrightarrow> r = rev new @ names \<and> distinct new \<and> set new \<inter> set names = {}"

lemma claimed_Nil [simp]: "claimed names [] r \<longleftrightarrow> r = names"
  by (simp add: claimed_def)

lemma claimed_append: "claimed names new r \<Longrightarrow> claimed r new' s \<Longrightarrow> claimed names (new @ new') s"
  by (auto simp: claimed_def)

lemma claimed_Cons: "name \<notin> set names \<Longrightarrow> claimed (name # names) new s \<Longrightarrow> claimed names (name # new) s"
  by (auto simp: claimed_def)

lemma claim_names_Inr: "claim_names err names new = Inr r \<Longrightarrow> claimed names new r"
  by (induction err names new rule: claim_names.induct) (auto intro: claimed_Cons split: if_splits)

lemma claim_multi_Inr: "claim_multi names qs = Inr r \<Longrightarrow> claimed names (concat (map multi_declarations qs)) r"
  by (induction names qs rule: claim_multi.induct) (auto simp: result_simps intro: claimed_append claim_names_Inr)

definition embedded_tables :: "AnalysisResult \<Rightarrow> Table list" where
  "embedded_tables in' = filter (\<lambda>table. embeddedTableUsed in' (tb_Name table)) (cat_Tables (ar_Catalog in'))"

lemma claim_tables_Inr:
  "claim_tables uc in' o' names ts = Inr r \<Longrightarrow>
     claimed names (map (\<lambda>table. embeddedGoType uc o' (tb_Name table)) (filter (\<lambda>table. embeddedTableUsed in' (tb_Name table)) ts)) r"
  by (induction uc in' o' names ts rule: claim_tables.induct)
    (auto simp: Let_def intro: claimed_Cons split: if_splits option.splits)

lemma claim_parameters_Inr:
  "claim_parameters uc names qps = Inr r \<Longrightarrow> claimed names (concat (map (\<lambda>(q, p). parameter_declarations uc q p) qps)) r"
  by (induction uc names qps rule: claim_parameters.induct) (auto simp: result_simps intro: claimed_append claim_names_Inr)

lemma claim_exported_Inr:
  "claim_exported uc names qs = Inr r \<Longrightarrow> claimed names (map (\<lambda>q. exportedQueryName uc (aq_Name q)) qs) r"
  by (induction uc names qs rule: claim_exported.induct) (auto simp: Let_def intro: claimed_Cons split: if_splits)

text \<open>The names declared at the top level of the generated package, by kind.\<close>

definition checked_names :: "unicode \<Rightarrow> AnalysisResult \<Rightarrow> Options \<Rightarrow> string list" where
  "checked_names uc in' o' =
     concat (map multi_declarations (ar_Queries in'))
     @ map (\<lambda>table. embeddedGoType uc o' (tb_Name table)) (embedded_tables in')
     @ concat (map (\<lambda>(q, p). parameter_declarations uc q p) (query_parameters in'))
     @ (if o_EmitExportedQueries o' then map (\<lambda>q. exportedQueryName uc (aq_Name q)) (ar_Queries in') else [])"

lemma declared_names_Inr:
  assumes "declared_names uc in' o' = Inr r"
  shows "claimed (unchecked_names in' o') (checked_names uc in' o') r"
proof -
  from assms obtain n1 n2 n3 where n: "claim_multi (unchecked_names in' o') (ar_Queries in') = Inr n1"
      "claim_tables uc in' o' n1 (cat_Tables (ar_Catalog in')) = Inr n2"
      "claim_parameters uc n2 (query_parameters in') = Inr n3"
      "(if o_EmitExportedQueries o' then claim_exported uc n3 (ar_Queries in') else Inr n3) = Inr r"
    by (auto simp: declared_names_def result_simps)
  have "claimed n3 (if o_EmitExportedQueries o' then map (\<lambda>q. exportedQueryName uc (aq_Name q)) (ar_Queries in') else []) r"
    using n(4) by (auto intro: claim_exported_Inr split: if_splits)
  from claimed_append [OF claim_parameters_Inr [OF n(3)] this]
  have "claimed n2 (concat (map (\<lambda>(q, p). parameter_declarations uc q p) (query_parameters in'))
      @ (if o_EmitExportedQueries o' then map (\<lambda>q. exportedQueryName uc (aq_Name q)) (ar_Queries in') else [])) r" .
  from claimed_append [OF claim_multi_Inr [OF n(1)] claimed_append [OF claim_tables_Inr [OF n(2)] this]]
  show ?thesis by (simp only: checked_names_def embedded_tables_def append_assoc)
qed

lemma params_not_row: "a @ ''Params'' \<noteq> b @ ''Row''" "b @ ''Row'' \<noteq> a @ ''Params''"
  by (auto dest: arg_cong [where f = rev])

definition own_names :: "Options \<Rightarrow> AnalyzedQuery \<Rightarrow> string list" where
  "own_names o' q = (if useParamsStruct q o' then [aq_Name q @ ''Params''] else [])
     @ (if single_result q then [aq_Name q @ ''Row''] else [])"

lemma own_names_disjoint: "aq_Name q \<noteq> aq_Name q' \<Longrightarrow> set (own_names o' q) \<inter> set (own_names o' q') = {}"
  by (auto simp: own_names_def params_not_row)

lemma own_names_distinct: "distinct (map aq_Name qs) \<Longrightarrow> distinct (concat (map (own_names o') qs))"
proof (induction qs)
  case (Cons q qs)
  have "set (own_names o' q) \<inter> set (own_names o' q') = {}" if "q' \<in> set qs" for q'
    using Cons.prems that by (intro own_names_disjoint) auto
  moreover have "distinct (own_names o' q)" by (simp add: own_names_def params_not_row)
  ultimately show ?case using Cons by auto
qed simp

definition fixed_names :: "string list" where
  "fixed_names = [''Queries'', ''DBTX'', ''Querier'', ''New'', ''validateDecimalParameter'']"

lemma fixed_names_disjoint: "set (own_names o' q) \<inter> set fixed_names = {}"
  by (auto simp: own_names_def fixed_names_def dest: arg_cong [where f = rev])

lemma unchecked_names_eq: "unchecked_names in' o' = fixed_names @ concat (map (own_names o') (ar_Queries in'))"
  by (simp add: unchecked_names_def own_names_def [abs_def] fixed_names_def)

lemma unchecked_names_distinct: "distinct (map aq_Name (ar_Queries in')) \<Longrightarrow> distinct (unchecked_names in' o')"
proof -
  assume "distinct (map aq_Name (ar_Queries in'))"
  moreover have "distinct fixed_names" by (simp add: fixed_names_def)
  ultimately show ?thesis using fixed_names_disjoint [of o'] own_names_distinct [of "ar_Queries in'" o']
    unfolding unchecked_names_eq by auto
qed

end
