(* ===== verification/GolangModels.thy ===== *)
theory GolangModels
  imports GolangValidate
begin

text \<open>
  The files \<open>models.go\<close> and \<open>db.go\<close> that the Go generator writes: \<open>models\<close>, \<open>db\<close> and \<open>structTags\<close> of
  \<open>generate.go\<close> and the type declarations of \<open>struct_list.go\<close>. A declaration is a pair of the declared
  name and its text, and a file is a head followed by the texts; what a file imports is collected as a
  list of uses of types. A call whose error the code discards is read through a function that gives the
  text returned beside the error; after validation there is none (\<open>goTypeText_eq\<close>).
\<close>

abbreviation nl :: string where
  "nl \<equiv> [CHR 0x0A]"

type_synonym decl = "string \<times> string"

section \<open>Types as text\<close>

function goTypeText :: "ty \<Rightarrow> string" where
  "goTypeText t =
     (if IsOptional t then (case Elem t of None \<Rightarrow> [] | Some e \<Rightarrow> ''*'' @ goTypeText e)
      else if to_lower (Kind t) = ''list'' then (case Elem t of None \<Rightarrow> [] | Some e \<Rightarrow> ''[]'' @ goTypeText e)
      else (case goType t of Inl _ \<Rightarrow> [] | Inr x \<Rightarrow> x))"
  by pat_completeness auto
termination
  by (relation "measure size") auto

declare goTypeText.simps [simp del]

definition text_or_empty :: "string res \<Rightarrow> string" where
  "text_or_empty r = (case r of Inl _ \<Rightarrow> [] | Inr x \<Rightarrow> x)"

definition columnTypeText :: "unicode \<Rightarrow> Options \<Rightarrow> Column \<Rightarrow> string" where
  "columnTypeText uc o' c =
     (case columnOverride o' c of
        Some index \<Rightarrow> text_or_empty (reference_type uc o' index (col_Type c))
      | None \<Rightarrow> goTypeText (col_Type c))"

definition parameterTypeText :: "unicode \<Rightarrow> Options \<Rightarrow> AnalyzedQuery \<Rightarrow> QueryParameter \<Rightarrow> string" where
  "parameterTypeText uc o' q p =
     (case parameterOverride uc o' q p of
        Inl _ \<Rightarrow> []
      | Inr (Some index) \<Rightarrow> text_or_empty (reference_type uc o' index (qp_Type p))
      | Inr None \<Rightarrow>
          if isStructParameter (qp_Type p) then
            (if isStructList (qp_Type p) then ''[]'' else []) @ structItemName uc q p
          else goTypeText (qp_Type p))"

section \<open>Fields\<close>

text \<open>\<open>strings.ReplaceAll\<close> of a backtick in a tag by its escape.\<close>

definition tag_quote :: "string \<Rightarrow> string" where
  "tag_quote s = str_replace_char (CHR 0x60) (CHR 0x5C # ''x60'') (go_quote s)"

definition structTags :: "unicode \<Rightarrow> Options \<Rightarrow> string \<Rightarrow> string" where
  "structTags uc o' name =
     (if \<not> o_EmitDBTags o' \<and> \<not> o_EmitJSONTags o' then []
      else (let tags =
          (if o_EmitDBTags o' then [''db:'' @ tag_quote name] else [])
          @ (if o_EmitJSONTags o' then [''json:'' @ tag_quote (jsonTagName uc o' name)] else []) in
        ('' '' @ [CHR 0x60]) @ str_join '' '' tags @ [CHR 0x60]))"

definition field_text :: "unicode \<Rightarrow> Options \<Rightarrow> string \<Rightarrow> string \<Rightarrow> string" where
  "field_text uc o' name typ = fieldName uc o' name @ '' '' @ typ @ structTags uc o' name @ nl"

definition struct_decl :: "string \<Rightarrow> string list \<Rightarrow> decl" where
  "struct_decl name lines = (name, ''type '' @ name @ ('' struct {'' @ nl) @ concat lines @ (''}'' @ nl @ nl))"

section \<open>Declarations of models.go\<close>

definition table_decl :: "unicode \<Rightarrow> Options \<Rightarrow> Table \<Rightarrow> decl" where
  "table_decl uc o' table =
     struct_decl (embeddedGoType uc o' (tb_Name table))
       (map (\<lambda>c. field_text uc o' (col_Name c) (columnTypeText uc o' c)) (tb_Columns table))"

definition writeStructModel :: "unicode \<Rightarrow> Options \<Rightarrow> AnalyzedQuery \<Rightarrow> QueryParameter \<Rightarrow> decl" where
  "writeStructModel uc o' q p =
     struct_decl (structItemName uc q p)
       (map (\<lambda>f. field_text uc o' (fst f) (goTypeText (snd f))) (structFields (qp_Type p)))"

definition row_name :: "AnalyzedQuery \<Rightarrow> ResultSet \<Rightarrow> string" where
  "row_name q r = (if aq_Command q = Multi then aq_Name q @ rs_Name r @ ''Row'' else aq_Name q @ ''Row'')"

definition row_line :: "unicode \<Rightarrow> Options \<Rightarrow> ResultSet \<Rightarrow> nat \<Rightarrow> Column \<Rightarrow> string" where
  "row_line uc o' r i c =
     (case embeddingAt r i of
        Some emb \<Rightarrow>
          if em_Start emb = int i then field_text uc o' (em_Field emb) (embeddedGoType uc o' (em_Table emb)) else []
      | None \<Rightarrow> field_text uc o' (col_Name c) (columnTypeText uc o' c))"

definition row_decl :: "unicode \<Rightarrow> Options \<Rightarrow> AnalyzedQuery \<Rightarrow> ResultSet \<Rightarrow> decl" where
  "row_decl uc o' q r =
     struct_decl (row_name q r) (map (\<lambda>(i, c). row_line uc o' r i c) (enumerate 0 (rs_Columns r)))"

definition result_decl :: "AnalyzedQuery \<Rightarrow> decl" where
  "result_decl q =
     struct_decl (aq_Name q @ ''Result'')
       (map (\<lambda>r. rs_Name r @ '' []'' @ aq_Name q @ rs_Name r @ (''Row'' @ nl)) (aq_ResultSets q))"

definition params_decl :: "unicode \<Rightarrow> Options \<Rightarrow> AnalyzedQuery \<Rightarrow> decl" where
  "params_decl uc o' q =
     struct_decl (aq_Name q @ ''Params'')
       (map (\<lambda>p. field_text uc o' (qp_Name p) (parameterTypeText uc o' q p)) (aq_Parameters q))"

definition has_rows :: "AnalyzedQuery \<Rightarrow> bool" where
  "has_rows q \<longleftrightarrow> aq_Command q = One \<or> aq_Command q = Many \<or> aq_Command q = Each \<or> aq_Command q = Multi"

definition query_decls :: "unicode \<Rightarrow> Options \<Rightarrow> AnalyzedQuery \<Rightarrow> decl list" where
  "query_decls uc o' q =
     map (writeStructModel uc o' q) (filter (\<lambda>p. isStructParameter (qp_Type p)) (aq_Parameters q))
     @ (if has_rows q then
          map (row_decl uc o' q) (aq_ResultSets q) @ (if aq_Command q = Multi then [result_decl q] else [])
        else [])
     @ (if useParamsStruct q o' then [params_decl uc o' q] else [])"

section \<open>The interface\<close>

definition methodArgs :: "unicode \<Rightarrow> AnalyzedQuery \<Rightarrow> Options \<Rightarrow> string" where
  "methodArgs uc q o' =
     (if useParamsStruct q o' then '', arg '' @ aq_Name q @ ''Params''
      else if length (aq_Parameters q) = 1 then '', arg '' @ parameterTypeText uc o' q (aq_Parameters q ! 0)
      else concat (map (\<lambda>p. '', arg'' @ fieldName uc o' (qp_Name p) @ '' '' @ parameterTypeText uc o' q p) (aq_Parameters q)))
     @ (if aq_Command q = Each then '', consume func('' @ aq_Name q @ ''Row) error'' else [])
     @ (if o_Runtime o' = ''ydb'' then '', opts ...query.ExecuteOption'' else [])"

definition interface_method :: "unicode \<Rightarrow> Options \<Rightarrow> AnalyzedQuery \<Rightarrow> string" where
  "interface_method uc o' q =
     (let ret =
        (if aq_Command q = One then ''('' @ aq_Name q @ ''Row, error)''
         else if aq_Command q = Many then ''([]'' @ aq_Name q @ ''Row, error)''
         else if aq_Command q = Multi then ''('' @ aq_Name q @ ''Result, error)''
         else ''error'') in
      aq_Name q @ ''(ctx context.Context'' @ methodArgs uc q o' @ '') '' @ ret @ nl)"

definition interface_decl :: "unicode \<Rightarrow> AnalysisResult \<Rightarrow> Options \<Rightarrow> decl" where
  "interface_decl uc in' o' =
     (''Querier'', (''type Querier interface {'' @ nl) @ concat (map (interface_method uc o') (ar_Queries in')) @ (''}'' @ nl))"

definition model_decls :: "unicode \<Rightarrow> AnalysisResult \<Rightarrow> Options \<Rightarrow> decl list" where
  "model_decls uc in' o' =
     map (table_decl uc o') (embedded_tables in')
     @ concat (map (query_decls uc o') (ar_Queries in'))
     @ (if o_EmitInterface o' then [interface_decl uc in' o'] else [])"

section \<open>Imports\<close>

datatype type_use = UseOverride nat | UseType ty

definition column_use :: "Options \<Rightarrow> Column \<Rightarrow> type_use" where
  "column_use o' c = (case columnOverride o' c of Some index \<Rightarrow> UseOverride index | None \<Rightarrow> UseType (col_Type c))"

definition parameter_use :: "unicode \<Rightarrow> Options \<Rightarrow> AnalyzedQuery \<Rightarrow> QueryParameter \<Rightarrow> type_use" where
  "parameter_use uc o' q p =
     (case parameterOverride uc o' q p of Inr (Some index) \<Rightarrow> UseOverride index | _ \<Rightarrow> UseType (qp_Type p))"

definition parameter_uses :: "unicode \<Rightarrow> Options \<Rightarrow> AnalyzedQuery \<Rightarrow> type_use list" where
  "parameter_uses uc o' q =
     map (parameter_use uc o' q) (filter (\<lambda>p. \<not> isStructParameter (qp_Type p)) (aq_Parameters q))"

definition query_uses :: "unicode \<Rightarrow> Options \<Rightarrow> AnalyzedQuery \<Rightarrow> type_use list" where
  "query_uses uc o' q =
     concat (map (\<lambda>p. map (\<lambda>f. UseType (snd f)) (structFields (qp_Type p)))
       (filter (\<lambda>p. isStructParameter (qp_Type p)) (aq_Parameters q)))
     @ (if has_rows q then
          concat (map (\<lambda>r. map (\<lambda>(i, c). column_use o' c)
            (filter (\<lambda>(i, c). embeddingAt r i = None) (enumerate 0 (rs_Columns r)))) (aq_ResultSets q))
        else [])
     @ (if useParamsStruct q o' then parameter_uses uc o' q else [])"

definition model_uses :: "unicode \<Rightarrow> AnalysisResult \<Rightarrow> Options \<Rightarrow> type_use list" where
  "model_uses uc in' o' =
     concat (map (\<lambda>table. map (column_use o') (tb_Columns table)) (embedded_tables in'))
     @ concat (map (query_uses uc o') (ar_Queries in'))
     @ (if o_EmitInterface o' then concat (map (parameter_uses uc o') (ar_Queries in')) else [])"

fun used_types :: "type_use list \<Rightarrow> typeImports \<Rightarrow> typeImports" where
  "used_types [] i = i"
| "used_types (UseType t # uses) i = used_types uses (typeImports_add t i)"
| "used_types (UseOverride index # uses) i = used_types uses i"

fun used_overrides :: "type_use list \<Rightarrow> nat list" where
  "used_overrides [] = []"
| "used_overrides (UseType t # uses) = used_overrides uses"
| "used_overrides (UseOverride index # uses) = index # used_overrides uses"

definition no_imports :: typeImports where
  "no_imports = \<lparr>ti_time = False, ti_decimal = False, ti_uuid = False\<rparr>"

definition model_packages :: "unicode \<Rightarrow> AnalysisResult \<Rightarrow> Options \<Rightarrow> string list" where
  "model_packages uc in' o' =
     (let uses = model_uses uc in' o'; imports' = used_types uses no_imports in
      (if ti_time imports' then [''\"time\"''] else [])
      @ (if ti_decimal imports' then [''\"github.com/ydb-platform/ydb-go-sdk/v3/types\"''] else [])
      @ (if ti_uuid imports' then [''\"github.com/google/uuid\"''] else [])
      @ (if o_EmitInterface o' then
           [''\"context\"'']
           @ (if o_Runtime o' = ''ydb'' then [''\"github.com/ydb-platform/ydb-go-sdk/v3/query\"''] else [])
         else [])
      @ overrideImports uc o' (used_overrides uses))"

section \<open>The files\<close>

definition models :: "unicode \<Rightarrow> AnalysisResult \<Rightarrow> Options \<Rightarrow> string" where
  "models uc in' o' =
     (let packages = model_packages uc in' o' in
      (''// Code generated by sqlc-ydb. DO NOT EDIT.'' @ nl @ ''package '') @ o_Package o' @ (nl @ nl)
      @ (if length packages = 1 then ''import '' @ packages ! 0 @ (nl @ nl)
         else if length packages > 1 then ''import ('' @ str_join '';'' packages @ ('')'' @ nl @ nl) else [])
      @ concat (map snd (model_decls uc in' o')))"

definition db :: "Options \<Rightarrow> string" where
  "db o' =
     (if o_Runtime o' = ''database/sql'' then
        (''// Code generated by sqlc-ydb. DO NOT EDIT.'' @ nl @ ''package '') @ o_Package o' @
        (nl @ ''import (\"context\"; \"database/sql\")'' @ nl) @
        (''type DBTX interface { ExecContext(context.Context,string,...any)(sql.Result,error); QueryContext(context.Context,string,...any)(*sql.Rows,error); QueryRowContext(context.Context,string,...any)*sql.Row }'' @ nl) @
        (''type Queries struct { db DBTX }'' @ nl) @
        (''func New(db DBTX) *Queries { return &Queries{db:db} }'' @ nl) @
        (''func (q *Queries) WithTx(tx *sql.Tx) *Queries { return &Queries{db:tx} }'' @ nl)
      else
        (''// Code generated by sqlc-ydb. DO NOT EDIT.'' @ nl @ ''package '') @ o_Package o' @
        (nl @ ''import (\"context\"'' @ nl @ nl @ ''\"github.com/ydb-platform/ydb-go-sdk/v3/query\")'' @ nl) @
        (''type DBTX interface { Exec(context.Context,string,...query.ExecuteOption) error; Query(context.Context,string,...query.ExecuteOption)(query.Result,error); QueryRow(context.Context,string,...query.ExecuteOption)(query.Row,error) }'' @ nl) @
        (''type Queries struct { db DBTX }'' @ nl) @
        (''func New(db DBTX) *Queries { return &Queries{db:db} }'' @ nl))"

section \<open>No discarded errors\<close>

lemma goTypeText_eq: "goType t = Inr x \<Longrightarrow> goTypeText t = x"
proof (induction t arbitrary: x rule: goTypeText.induct)
  case (1 t)
  show ?case
  proof (cases "IsOptional t")
    case True
    with 1 show ?thesis by (subst goTypeText.simps) (auto dest!: goType_Optional [OF True])
  next
    case False
    show ?thesis
    proof (cases "to_lower (Kind t) = ''list''")
      case True
      with False 1(3) obtain e y where e: "Elem t = Some e" "goType e = Inr y" "x = ''[]'' @ y"
        by (subst (asm) goType.simps) (auto simp: result_simps split: option.splits)
      with 1(2) [OF False True e(1) e(2)] False True show ?thesis by (subst goTypeText.simps) simp
    next
      case no: False
      with False 1(3) show ?thesis by (subst goTypeText.simps) simp
    qed
  qed
qed

lemma columnTypeText_eq: "columnGoType uc o' c = Inr x \<Longrightarrow> columnTypeText uc o' c = x"
  by (auto simp: columnGoType_def columnTypeText_def text_or_empty_def goTypeText_eq split: option.splits)

lemma parameterTypeText_eq: "parameterGoType uc o' q p = Inr x \<Longrightarrow> parameterTypeText uc o' q p = x"
  by (auto simp: parameterGoType_def parameterTypeText_def plainParameterGoType_def text_or_empty_def goTypeText_eq
      result_simps split: option.splits if_splits)

end
