(* ===== verification/GolangQueries.thy ===== *)
theory GolangQueries
  imports GolangModels
begin

text \<open>
  The methods of the Go generator's query files: \<open>writeQuery\<close> and what it calls in \<open>generate.go\<close>,
  \<open>each.go\<close>, \<open>multi.go\<close> and \<open>struct_list.go\<close>. Every writer gives the text it appends. Where the code
  follows a pointer that validation has checked, the model reads it with \<open>elem_of\<close>.
\<close>

section \<open>Statements\<close>

text \<open>\<open>strings.SplitAfter\<close> at line breaks: every part but the last ends in one.\<close>

fun split_lines :: "string \<Rightarrow> string list" where
  "split_lines [] = [[]]"
| "split_lines (c # s) =
     (if c = CHR 0x0A then [c] # split_lines s
      else (case split_lines s of [] \<Rightarrow> [[c]] | l # ls \<Rightarrow> (c # l) # ls))"

definition sqlLiteral :: "string \<Rightarrow> string" where
  "sqlLiteral sql =
     (if sql = [] then ''\"\"''
      else str_join ('' +'' @ nl) (''\"\"'' # map go_quote (filter (\<lambda>line. line \<noteq> []) (split_lines sql))))"

definition queryAnnotation :: "string \<Rightarrow> bool" where
  "queryAnnotation line =
     (let line = to_lower (TrimSpace line) in has_prefix line ''--'' \<and> str_contains line ''name:'')"

definition query_text :: "AnalyzedQuery \<Rightarrow> string" where
  "query_text q =
     (let (line, rest, ok) = (case str_cut nl (aq_SQL q) of None \<Rightarrow> (aq_SQL q, [], False) | Some (l, r) \<Rightarrow> (l, r, True)) in
      if queryAnnotation line then (if ok then rest else []) else aq_SQL q)"

definition querySQL :: "AnalyzedQuery \<Rightarrow> string" where
  "querySQL q = sqlLiteral (query_text q)"

definition querySQLReference :: "unicode \<Rightarrow> AnalyzedQuery \<Rightarrow> Options \<Rightarrow> string" where
  "querySQLReference uc q o' = (if o_EmitExportedQueries o' then exportedQueryName uc (aq_Name q) else querySQL q)"

definition queryComment :: "AnalyzedQuery \<Rightarrow> string" where
  "queryComment q = ''// -- name: '' @ aq_Name q @ '' '' @ aq_Command q @ nl"

section \<open>Values\<close>

definition elem_of :: "ty \<Rightarrow> ty" where
  "elem_of t = the (Elem t)"

definition decimalArgs :: "ty \<Rightarrow> string \<times> string" where
  "decimalArgs t = (show_int (Precision t), show_int (Scale t))"

definition paramMethod :: "unicode \<Rightarrow> ty \<Rightarrow> string" where
  "paramMethod uc t0 =
     (let t = (if IsOptional t0 then elem_of t0 else t0) in
      switch
        [([''utf8''], ''Text''), ([''json''], ''JSON''), ([''jsondocument''], ''JSONDocument''), ([''string''], ''Bytes''),
         ([''yson''], ''YSON''), ([''float''], ''Float''), ([''double''], ''Double''), ([''timestamp''], ''Timestamp''),
         ([''date''], ''Date''), ([''datetime''], ''Datetime''), ([''interval''], ''Interval''), ([''decimal''], ''Decimal''),
         ([''uuid''], ''Uuid'')]
        (goName uc (Kind t)) (to_lower (Kind t)))"

definition ydbTypeExpr :: "unicode \<Rightarrow> ty \<Rightarrow> string" where
  "ydbTypeExpr uc t =
     (if equal_fold (Kind t) ''Decimal'' then
        (let (precision, scale) = decimalArgs t in ''types.DecimalType('' @ precision @ '', '' @ scale @ '')'')
      else if equal_fold (Kind t) ''Uuid'' then ''types.TypeUUID''
      else ''types.Type'' @ paramMethod uc t)"

definition listValueArg :: "ty \<Rightarrow> string \<Rightarrow> string" where
  "listValueArg t v =
     (if equal_fold (Kind t) ''Decimal'' then
        (let (precision, scale) = decimalArgs t in v @ ''.Bytes, '' @ precision @ '', '' @ scale)
      else v)"

definition nullableValueExpr :: "unicode \<Rightarrow> ty \<Rightarrow> string \<Rightarrow> string" where
  "nullableValueExpr uc t v =
     (if equal_fold (Kind t) ''Decimal'' then
        (let (precision, scale) = decimalArgs t in
         ''func() types.Value { if '' @ v @ '' == nil { return types.NullableDecimalValue(nil, '' @ precision @ '', '' @ scale
           @ '') }; return types.NullableDecimalValue(&'' @ v @ ''.Bytes, '' @ precision @ '', '' @ scale @ '') }()'')
      else if equal_fold (Kind t) ''Uuid'' then ''types.NullableUUIDTypedValue('' @ v @ '')''
      else if equal_fold (Kind t) ''Yson'' then ''types.NullableYSONValueFromBytes('' @ v @ '')''
      else switch
        [([''date''], ''types.NullableDateValueFromTime('' @ v @ '')''),
         ([''datetime''], ''types.NullableDatetimeValueFromTime('' @ v @ '')''),
         ([''timestamp''], ''types.NullableTimestampValueFromTime('' @ v @ '')''),
         ([''interval''], ''types.NullableIntervalValueFromDuration('' @ v @ '')'')]
        (''types.Nullable'' @ paramMethod uc t @ ''Value('' @ v @ '')'') (to_lower (Kind t)))"

definition structScalarValue :: "unicode \<Rightarrow> ty \<Rightarrow> string \<Rightarrow> string" where
  "structScalarValue uc t v =
     (if IsOptional t then nullableValueExpr uc (elem_of t) v
      else switch
        [([''decimal''], ''types.DecimalValue(&'' @ v @ '')''),
         ([''date''], ''types.DateValueFromTime('' @ v @ '')''),
         ([''datetime''], ''types.DatetimeValueFromTime('' @ v @ '')''),
         ([''timestamp''], ''types.TimestampValueFromTime('' @ v @ '')''),
         ([''interval''], ''types.IntervalValueFromDuration('' @ v @ '')''),
         ([''yson''], ''types.YSONValueFromBytes('' @ v @ '')'')]
        (''types.'' @ paramMethod uc t @ ''Value('' @ v @ '')'') (to_lower (Kind t)))"

section \<open>Parameters of database/sql\<close>

definition sql_named :: "QueryParameter \<Rightarrow> string \<Rightarrow> string" where
  "sql_named p v = ''sql.Named('' @ go_quote (qp_Name p) @ '', '' @ v @ '')''"

definition sqlArgument :: "unicode \<Rightarrow> AnalyzedQuery \<Rightarrow> Options \<Rightarrow> QueryParameter \<Rightarrow> string" where
  "sqlArgument uc q o' p =
     (let v = convertedParameter uc o' q p (varRef uc q p o'); t = qp_Type p; typeValue = UnwrapOptional t;
          (precision, scale) = decimalArgs typeValue in
      if isStructList t \<or> equal_fold (Kind t) ''Struct'' then
        sql_named p (structListBuilderName uc q p @ ''('' @ v @ '')'')
      else if equal_fold (Kind t) ''List'' then sql_named p (scalarListBuilderName uc q p @ ''('' @ v @ '')'')
      else switch
        [([''json''], sql_named p ((if IsOptional t then ''types.NullableJSONValue'' else ''types.JSONValue'') @ ''('' @ v @ '')'')),
         ([''jsondocument''],
            sql_named p ((if IsOptional t then ''types.NullableJSONDocumentValue'' else ''types.JSONDocumentValue'') @ ''('' @ v @ '')'')),
         ([''decimal''],
            if IsOptional t then
              sql_named p (''func() types.Value { if '' @ v @ '' == nil { return types.NullableDecimalValue(nil, '' @ precision @ '', ''
                @ scale @ '') }; return types.NullableDecimalValue(&'' @ v @ ''.Bytes, '' @ precision @ '', '' @ scale @ '') }()'')
            else sql_named p (''types.DecimalValue(&types.Decimal{Bytes: '' @ v @ ''.Bytes, Precision: '' @ precision
              @ '', Scale: '' @ scale @ ''})'')),
         ([''uuid''], sql_named p ((if IsOptional t then ''types.NullableUUIDTypedValue'' else ''types.UuidValue'') @ ''('' @ v @ '')''))]
        (sql_named p v) (to_lower (Kind typeValue)))"

definition sqlArgumentList :: "unicode \<Rightarrow> AnalyzedQuery \<Rightarrow> Options \<Rightarrow> string list" where
  "sqlArgumentList uc q o' = map (sqlArgument uc q o') (aq_Parameters q)"

definition generatedCall :: "string \<Rightarrow> string \<Rightarrow> string list \<Rightarrow> string" where
  "generatedCall name sql parameters =
     name @ ''(ctx, '' @ sql @ (if parameters \<noteq> [] then ('','' @ nl) @ str_join ('','' @ nl) parameters else []) @ ('','' @ nl @ '')'')"

definition ydbCall :: "string \<Rightarrow> string \<Rightarrow> string \<Rightarrow> string" where
  "ydbCall name sql options = name @ ''(ctx, '' @ sql @ ('','' @ nl) @ options @ ('','' @ nl @ '')'')"

definition scanCall :: "string \<Rightarrow> string list \<Rightarrow> string" where
  "scanCall name destinations = name @ (''('' @ nl) @ str_join ('','' @ nl) destinations @ ('','' @ nl @ '')'')"

definition scanDestinations :: "unicode \<Rightarrow> ResultSet \<Rightarrow> Options \<Rightarrow> string list" where
  "scanDestinations uc rs o' =
     map (\<lambda>(i, c). ''&row.'' @ resultFieldPath uc rs i c o') (enumerate 0 (rs_Columns rs))"

definition scanNamed :: "unicode \<Rightarrow> ResultSet \<Rightarrow> Options \<Rightarrow> string" where
  "scanNamed uc rs o' =
     str_join ('','' @ nl) (map (\<lambda>(i, c). ''query.Named('' @ go_quote (ResultName c) @ '', &row.'' @ resultFieldPath uc rs i c o' @ '')'')
       (enumerate 0 (rs_Columns rs)))"

section \<open>Checks of decimals\<close>

definition decimalValidationFailure :: "AnalyzedQuery \<Rightarrow> Options \<Rightarrow> string" where
  "decimalValidationFailure q o' =
     (let err = (if o_Runtime o' = ''ydb'' \<and> aq_Command q \<noteq> Each then ''xerrors.WithStackTrace(err)'' else ''err'') in
      if aq_Command q = One then ''return '' @ aq_Name q @ ''Row{}, '' @ err
      else if aq_Command q = Many then ''return nil, '' @ err
      else if aq_Command q = Multi then ''return '' @ aq_Name q @ ''Result{}, '' @ err
      else ''return '' @ err)"

text \<open>The condition and its failure: \<open>if err := validateDecimalParameter(label, v, p, s); err != nil { ... }\<close>.\<close>

definition decimal_check :: "string \<Rightarrow> string \<Rightarrow> ty \<Rightarrow> string \<Rightarrow> string" where
  "decimal_check label v t failure =
     (let (precision, scale) = decimalArgs t in
      ''if err := validateDecimalParameter('' @ go_quote label @ '', '' @ v @ '', '' @ precision @ '', '' @ scale
        @ ''); err != nil { '' @ failure @ '' }'')"

definition writeStructDecimalValidations :: "unicode \<Rightarrow> AnalyzedQuery \<Rightarrow> QueryParameter \<Rightarrow> Options \<Rightarrow> string" where
  "writeStructDecimalValidations uc q p o' =
     (if \<not> hasKind (qp_Type p) ''decimal'' then []
      else (let list = isStructList (qp_Type p);
                valuePrefix = (if list then ''item.'' else varRef uc q p o' @ ''.'');
                failure = decimalValidationFailure q o';
                field = (\<lambda>f. let scalar = UnwrapOptional (snd f); v = valuePrefix @ fieldName uc o' (fst f);
                    label = ''$'' @ qp_Name p @ ''.'' @ fst f in
                  if \<not> equal_fold (Kind scalar) ''Decimal'' then []
                  else if IsOptional (snd f) then
                    ''if '' @ v @ ('' != nil {'' @ nl) @ decimal_check label (''*'' @ v) scalar failure @ (nl @ ''}'' @ nl)
                  else decimal_check label v scalar failure @ nl) in
        (if list then ''for _, item := range '' @ varRef uc q p o' @ ('' {'' @ nl) else [])
        @ concat (map field (structFields (qp_Type p)))
        @ (if list then (''}'' @ nl) else [])))"

definition decimal_validation :: "unicode \<Rightarrow> AnalyzedQuery \<Rightarrow> Options \<Rightarrow> nat \<Rightarrow> QueryParameter \<Rightarrow> string" where
  "decimal_validation uc q o' i p =
     (let v = varRef uc q p o'; t = qp_Type p; failure = decimalValidationFailure q o'; label = ''$'' @ qp_Name p in
      if isStructParameter t then writeStructDecimalValidations uc q p o'
      else if equal_fold (Kind (UnwrapOptional t)) ''Decimal'' then
        (if IsOptional t then
           ''if '' @ v @ '' != nil { '' @ decimal_check label (''*'' @ v) (UnwrapOptional t) failure @ ('' }'' @ nl)
         else decimal_check label v (UnwrapOptional t) failure @ nl)
      else if \<not> equal_fold (Kind t) ''List'' then []
      else (case Elem t of
          None \<Rightarrow> []
        | Some e \<Rightarrow>
            if \<not> equal_fold (Kind (UnwrapOptional e)) ''Decimal'' then []
            else (let item = ''decimalItem'' @ show_nat i in
              ''for _, '' @ item @ '' := range '' @ v @ '' { ''
              @ (if IsOptional e then
                   ''if '' @ item @ '' != nil { '' @ decimal_check label (''*'' @ item) (UnwrapOptional e) failure @ '' } ''
                 else decimal_check label item (UnwrapOptional e) failure @ '' '')
              @ (''}'' @ nl))))"

definition writeDecimalValidations :: "unicode \<Rightarrow> AnalyzedQuery \<Rightarrow> Options \<Rightarrow> string" where
  "writeDecimalValidations uc q o' =
     concat (map (\<lambda>(i, p). decimal_validation uc q o' i p) (enumerate 0 (aq_Parameters q)))"

end
