(* ===== verification/GolangFiles.thy ===== *)
theory GolangFiles
  imports GolangQueries
begin

text \<open>
  The bodies of the generated methods, the query files and \<open>Generate\<close> itself: \<open>writeSQL\<close>, \<open>writeYDB\<close>,
  \<open>queryFile\<close> and \<open>Generate\<close> of \<open>generate.go\<close>, \<open>each.go\<close>, \<open>multi.go\<close> and the builders of
  \<open>struct_list.go\<close>. The parameter \<open>format_source\<close> is \<open>format.Source\<close>.
\<close>

section \<open>Parameters of the native runtime\<close>

definition writeYDBListParameter :: "unicode \<Rightarrow> QueryParameter \<Rightarrow> string \<Rightarrow> nat \<Rightarrow> string" where
  "writeYDBListParameter uc p v i =
     (let e = elem_of (qp_Type p); name = go_quote (''$'' @ qp_Name p); item = ''listItem'' @ show_nat i in
      if IsOptional e then
        (let inner = elem_of e in
         ''if len('' @ v @ ('') == 0 {'' @ nl)
         @ ''parameters = parameters.Param('' @ name @ '').Any(types.ZeroValue(types.List(types.Optional('' @ ydbTypeExpr uc inner @ (''))))'' @ nl)
         @ (''} else {'' @ nl @ ''list := parameters.Param('') @ name @ ('').BeginList()'' @ nl)
         @ ''for _, '' @ item @ '' := range '' @ v @ '' { list = list.AddItems('' @ nullableValueExpr uc inner item @ ('') }'' @ nl)
         @ (''parameters = list.EndList()'' @ nl @ ''}'' @ nl))
      else
        ''if len('' @ v @ ('') == 0 {'' @ nl)
        @ ''parameters = parameters.Param('' @ name @ '').Any(types.ZeroValue(types.List('' @ ydbTypeExpr uc e @ ('')))'' @ nl)
        @ (''} else {'' @ nl @ ''list := parameters.Param('') @ name @ ('').BeginList()'' @ nl)
        @ ''for _, '' @ item @ '' := range '' @ v @ '' { list = list.Add().'' @ paramMethod uc e @ ''('' @ listValueArg e item @ ('') }'' @ nl)
        @ (''parameters = list.EndList()'' @ nl @ ''}'' @ nl))"

definition writeYDBParameter :: "unicode \<Rightarrow> QueryParameter \<Rightarrow> string \<Rightarrow> nat \<Rightarrow> string" where
  "writeYDBParameter uc p v i =
     (let t = qp_Type p; name = go_quote (''$'' @ qp_Name p); method = paramMethod uc t in
      if equal_fold (Kind t) ''List'' then writeYDBListParameter uc p v i
      else if equal_fold (Kind (UnwrapOptional t)) ''Decimal'' then
        (let (precision, scale) = decimalArgs (UnwrapOptional t) in
         if IsOptional t then
           (let d = ''decimalValue'' @ show_nat i in
            ''var '' @ d @ ('' *[16]byte'' @ nl @ ''if '') @ v @ '' != nil { '' @ d @ '' = &'' @ v @ (''.Bytes }'' @ nl)
            @ ''parameters = parameters.Param('' @ name @ '').BeginOptional().Decimal('' @ d @ '', '' @ precision @ '', '' @ scale
            @ ('').EndOptional()'' @ nl))
         else ''parameters = parameters.Param('' @ name @ '').Decimal('' @ v @ ''.Bytes, '' @ precision @ '', '' @ scale @ ('')'' @ nl))
      else if IsOptional t then
        ''parameters = parameters.Param('' @ name @ '').BeginOptional().'' @ method @ ''('' @ v @ ('').EndOptional()'' @ nl)
      else ''parameters = parameters.Param('' @ name @ '').'' @ method @ ''('' @ v @ ('')'' @ nl))"

section \<open>Methods over database/sql\<close>

definition writeMultiSchemaCheck :: "AnalyzedQuery \<Rightarrow> ResultSet \<Rightarrow> nat \<Rightarrow> string \<Rightarrow> string" where
  "writeMultiSchemaCheck q rs index typeMethod =
     (let result = aq_Name q @ ''Result''; count = show_nat (length (rs_Columns rs)); number = show_nat (index + 1) in
      ''if len(columns) != '' @ count @ '' || len(columnTypes) != '' @ count @ '' { return '' @ result @ ''{}, fmt.Errorf(\"'' @ aq_Name q
      @ '': result set '' @ number @ '' has %d columns and %d types; want '' @ count @ (''\", len(columns), len(columnTypes)) }'' @ nl)
      @ concat (map (\<lambda>(j, c).
          let column = ''columns['' @ show_nat j @ '']''; actualType = ''columnTypes['' @ show_nat j @ ''].'' @ typeMethod @ ''()'' in
          ''if '' @ column @ '' != '' @ go_quote (ResultName c) @ '' || '' @ actualType @ '' != ''
          @ go_quote (type_String (col_Type c)) @ ('' {'' @ nl)
          @ ''return '' @ result @ ''{}, fmt.Errorf(\"'' @ aq_Name q @ '': result set '' @ number @ '' column '' @ show_nat (j + 1)
          @ '' has schema %q %q; want %q %q\", '' @ column @ '', '' @ actualType @ '', '' @ go_quote (ResultName c) @ '', ''
          @ go_quote (type_String (col_Type c)) @ ('')'' @ nl @ ''}'' @ nl)) (enumerate 0 (rs_Columns rs))))"

definition empty_slice :: "AnalyzedQuery \<Rightarrow> Options \<Rightarrow> ResultSet \<Rightarrow> string" where
  "empty_slice q o' rs =
     (if o_EmitEmptySlices o' then ''out.'' @ rs_Name rs @ '' = make([]'' @ aq_Name q @ rs_Name rs @ (''Row, 0)'' @ nl) else [])"

definition writeSQLMulti :: "unicode \<Rightarrow> AnalyzedQuery \<Rightarrow> string list \<Rightarrow> Options \<Rightarrow> string" where
  "writeSQLMulti uc q parameters o' =
     (let result = aq_Name q @ ''Result'' in
      ''rows, err := '' @ generatedCall ''q.db.QueryContext'' (querySQL q) parameters @ nl
      @ ''if err != nil { return '' @ result @ (''{}, err }'' @ nl)
      @ ''defer func() { err = errors.Join(err, rows.Close()); if err != nil { out = '' @ result @ (''{} } }()'' @ nl @ nl)
      @ concat (map (\<lambda>(i, rs).
          (if i > 0 then
             (''if !rows.NextResultSet() {'' @ nl)
             @ ''if err := rows.Err(); err != nil { return '' @ result @ (''{}, err }'' @ nl)
             @ ''return '' @ result @ ''{}, fmt.Errorf(\"'' @ aq_Name q @ '': missing result set '' @ show_nat (i + 1) @ (''\")'' @ nl @ ''}'' @ nl)
           else [])
          @ (''{'' @ nl)
          @ (''columns, err := rows.Columns()'' @ nl @ ''if err != nil { return '') @ result @ (''{}, err }'' @ nl)
          @ (''columnTypes, err := rows.ColumnTypes()'' @ nl @ ''if err != nil { return '') @ result @ (''{}, err }'' @ nl)
          @ writeMultiSchemaCheck q rs i ''DatabaseTypeName''
          @ empty_slice q o' rs
          @ (''for rows.Next() {'' @ nl @ ''var row '') @ aq_Name q @ rs_Name rs @ (''Row'' @ nl)
          @ ''if err := '' @ scanCall ''rows.Scan'' (scanDestinations uc rs o') @ ''; err != nil { return '' @ result @ (''{}, err }'' @ nl)
          @ ''out.'' @ rs_Name rs @ '' = append(out.'' @ rs_Name rs @ ('', row)'' @ nl @ ''}'' @ nl)
          @ ''if err := rows.Err(); err != nil { return '' @ result @ (''{}, err }'' @ nl @ ''}'' @ nl @ nl)) (enumerate 0 (aq_ResultSets q)))
      @ ''if rows.NextResultSet() { return '' @ result @ ''{}, fmt.Errorf(\"'' @ aq_Name q @ ('': unexpected extra result set\") }'' @ nl)
      @ ''if err := rows.Err(); err != nil { return '' @ result @ (''{}, err }'' @ nl)
      @ ''if err := ctx.Err(); err != nil { return '' @ result @ (''{}, err }'' @ nl)
      @ (''return out, nil'' @ nl))"

definition writeSQLEach :: "unicode \<Rightarrow> AnalyzedQuery \<Rightarrow> string list \<Rightarrow> Options \<Rightarrow> string" where
  "writeSQLEach uc q parameters o' =
     (''ctx, cancel := context.WithCancel(ctx)'' @ nl @ ''defer cancel()'' @ nl @ nl)
     @ ''rows, err := '' @ generatedCall ''q.db.QueryContext'' (querySQLReference uc q o') parameters @ nl
     @ (''if err != nil { return err }'' @ nl @ '' exhausted := false'' @ nl @ '' defer func() {'' @ nl @ ''  // Cancel an unfinished stream before Close so early exit does not drain it.'' @ nl @ ''  if !exhausted { cancel() }'' @ nl @ ''  err = errors.Join(err, rows.Close())'' @ nl @ '' }()'' @ nl @ nl)
     @ ('' columns, err := rows.Columns()'' @ nl @ '' if err != nil { return err }'' @ nl @ '' if len(columns) == 0 { return errors.New(\":each requires a result set with columns\") }'' @ nl @ nl)
     @ ('' for rows.Next() {'' @ nl @ ''  if err := ctx.Err(); err != nil { return err }'' @ nl @ '' '')
     @ ''var row '' @ aq_Name q @ (''Row'' @ nl)
     @ ''if err := '' @ scanCall ''rows.Scan'' (scanDestinations uc (aq_ResultSets q ! 0) o') @ (''; err != nil { return err }'' @ nl)
     @ (''if err := ctx.Err(); err != nil { return err }'' @ nl @ ''  if err := consume(row); err != nil { return err }'' @ nl @ '' }'' @ nl @ nl)
     @ ('' if err := rows.Err(); err != nil { return err }'' @ nl @ '' if rows.NextResultSet() { return errors.New(\":each requires exactly one result set\") }'' @ nl @ '' if err := rows.Err(); err != nil { return err }'' @ nl @ '' if err := ctx.Err(); err != nil { return err }'' @ nl @ '' exhausted = true'' @ nl @ nl @ '' return nil'' @ nl)"

definition writeSQL :: "unicode \<Rightarrow> AnalyzedQuery \<Rightarrow> Options \<Rightarrow> string" where
  "writeSQL uc q o' =
     (let validations = writeDecimalValidations uc q o'; parameters = sqlArgumentList uc q o' in
      validations @ (if validations \<noteq> [] then nl else [])
      @ (if aq_Command q = Exec then
           (if aq_MultipleStatements q \<and> aq_ResultSets q \<noteq> [] then
              ''rows, err := '' @ generatedCall ''q.db.QueryContext'' (querySQLReference uc q o') parameters @ nl
              @ (''if err != nil { return err }'' @ nl @ ''for rows.Next() {}'' @ nl @ ''if err := rows.Close(); err != nil { return err }'' @ nl @ ''return rows.Err()'' @ nl)
            else ''_, err := '' @ generatedCall ''q.db.ExecContext'' (querySQLReference uc q o') parameters @ (nl @ nl @ ''return err'' @ nl))
         else if aq_Command q = One then
           ''var row '' @ aq_Name q @ (''Row'' @ nl)
           @ ''err := '' @ scanCall (generatedCall ''q.db.QueryRowContext'' (querySQLReference uc q o') parameters @ ''.Scan'')
               (scanDestinations uc (aq_ResultSets q ! 0) o') @ (nl @ nl)
           @ (''return row, err'' @ nl)
         else if aq_Command q = Each then writeSQLEach uc q parameters o'
         else if aq_Command q = Multi then writeSQLMulti uc q parameters o'
         else if aq_Command q = Many then
           ''rows, err := '' @ generatedCall ''q.db.QueryContext'' (querySQLReference uc q o') parameters @ nl
           @ (''if err != nil { return nil, err }'' @ nl @ ''defer rows.Close()'' @ nl @ nl)
           @ ''items := '' @ (if o_EmitEmptySlices o' then ''make([]'' @ aq_Name q @ ''Row, 0)'' else ''[]'' @ aq_Name q @ ''Row(nil)'') @ nl
           @ ''for rows.Next() { var row '' @ aq_Name q @ (''Row'' @ nl)
           @ ''if err := '' @ scanCall ''rows.Scan'' (scanDestinations uc (aq_ResultSets q ! 0) o') @ (''; err != nil { return nil, err }'' @ nl)
           @ (''items = append(items, row)'' @ nl @ ''}'' @ nl @ nl)
           @ (if aq_MultipleStatements q then (''if err := rows.Close(); err != nil { return nil, err }'' @ nl @ nl) else [])
           @ (''if err := rows.Err(); err != nil { return nil, err }'' @ nl @ nl @ ''return items, nil'' @ nl)
         else []))"

section \<open>Methods over the native runtime\<close>

definition writeYDBMulti :: "unicode \<Rightarrow> AnalyzedQuery \<Rightarrow> string \<Rightarrow> Options \<Rightarrow> string" where
  "writeYDBMulti uc q opt o' =
     (let result = aq_Name q @ ''Result'' in
      ''stream, err := '' @ ydbCall ''q.db.Query'' (querySQL q) opt @ nl
      @ ''if err != nil { return '' @ result @ (''{}, xerrors.WithStackTrace(err) }'' @ nl)
      @ ''defer func() { err = errors.Join(err, stream.Close(ctx)); if err != nil { out = '' @ result @ (''{} } }()'' @ nl @ nl)
      @ concat (map (\<lambda>(i, rs).
          (''{'' @ nl @ ''resultSet, err := stream.NextResultSet(ctx)'' @ nl)
          @ ''if errors.Is(err, io.EOF) { return '' @ result @ ''{}, fmt.Errorf(\"'' @ aq_Name q @ '': missing result set '' @ show_nat (i + 1)
          @ (''\") }'' @ nl)
          @ ''if err != nil { return '' @ result @ (''{}, xerrors.WithStackTrace(err) }'' @ nl)
          @ (''columns := resultSet.Columns()'' @ nl @ ''columnTypes := resultSet.ColumnTypes()'' @ nl)
          @ writeMultiSchemaCheck q rs i ''Yql''
          @ empty_slice q o' rs
          @ (''for {'' @ nl @ ''rowResult, err := resultSet.NextRow(ctx)'' @ nl @ ''if errors.Is(err, io.EOF) { break }'' @ nl)
          @ ''if err != nil { return '' @ result @ (''{}, xerrors.WithStackTrace(err) }'' @ nl)
          @ ''var row '' @ aq_Name q @ rs_Name rs @ (''Row'' @ nl)
          @ (''if err := rowResult.ScanNamed('' @ nl) @ scanNamed uc rs o' @ ('','' @ nl @ ''); err != nil { return '') @ result
          @ (''{}, xerrors.WithStackTrace(err) }'' @ nl)
          @ ''out.'' @ rs_Name rs @ '' = append(out.'' @ rs_Name rs @ ('', row)'' @ nl @ ''}'' @ nl @ ''}'' @ nl @ nl)) (enumerate 0 (aq_ResultSets q)))
      @ (''_, err = stream.NextResultSet(ctx)'' @ nl)
      @ ''if err == nil { return '' @ result @ ''{}, fmt.Errorf(\"'' @ aq_Name q @ ('': unexpected extra result set\") }'' @ nl)
      @ ''if !errors.Is(err, io.EOF) { return '' @ result @ (''{}, xerrors.WithStackTrace(err) }'' @ nl)
      @ ''if err := ctx.Err(); err != nil { return '' @ result @ (''{}, err }'' @ nl)
      @ (''return out, nil'' @ nl))"

definition writeYDBEach :: "unicode \<Rightarrow> AnalyzedQuery \<Rightarrow> string \<Rightarrow> Options \<Rightarrow> string" where
  "writeYDBEach uc q opt o' =
     (''ctx, cancel := context.WithCancel(ctx)'' @ nl @ ''defer cancel()'' @ nl @ nl)
     @ ''result, err := '' @ ydbCall ''q.db.Query'' (querySQLReference uc q o') opt @ nl
     @ (''if err != nil { return err }'' @ nl @ '' exhausted := false'' @ nl @ '' defer func() {'' @ nl @ ''  // Cancel an unfinished stream before Close, including during panic unwinding.'' @ nl @ ''  if !exhausted { cancel() }'' @ nl @ ''  err = errors.Join(err, result.Close(ctx))'' @ nl @ '' }()'' @ nl @ nl)
     @ ('' resultSet, err := result.NextResultSet(ctx)'' @ nl @ '' if errors.Is(err, io.EOF) { return query.ErrNoResultSets }'' @ nl @ '' if err != nil { return err }'' @ nl @ nl)
     @ ('' for {'' @ nl @ ''  if err := ctx.Err(); err != nil { return err }'' @ nl @ ''  r, err := resultSet.NextRow(ctx)'' @ nl @ ''  if errors.Is(err, io.EOF) { break }'' @ nl @ ''  if err != nil { return err }'' @ nl @ '' '')
     @ ''var row '' @ aq_Name q @ (''Row'' @ nl)
     @ (''if err := r.ScanNamed('' @ nl) @ scanNamed uc (aq_ResultSets q ! 0) o' @ ('','' @ nl @ ''); err != nil { return err }'' @ nl)
     @ (''if err := ctx.Err(); err != nil { return err }'' @ nl @ ''  if err := consume(row); err != nil { return err }'' @ nl @ '' }'' @ nl @ nl)
     @ ('' _, err = result.NextResultSet(ctx)'' @ nl @ '' if err == nil { return query.ErrMoreThanOneResultSet }'' @ nl @ '' if !errors.Is(err, io.EOF) { return err }'' @ nl @ '' if err := ctx.Err(); err != nil { return err }'' @ nl @ '' exhausted = true'' @ nl @ nl @ '' return nil'' @ nl)"

definition ydb_parameter :: "unicode \<Rightarrow> AnalyzedQuery \<Rightarrow> Options \<Rightarrow> nat \<Rightarrow> QueryParameter \<Rightarrow> string" where
  "ydb_parameter uc q o' i p =
     (if isStructParameter (qp_Type p) then
        ''parameters = parameters.Param('' @ go_quote (''$'' @ qp_Name p) @ '').Any('' @ structListBuilderName uc q p @ ''('' @ varRef uc q p o' @ (''))'' @ nl)
      else writeYDBParameter uc p (convertedParameter uc o' q p (varRef uc q p o')) i)"

definition writeYDB :: "unicode \<Rightarrow> AnalyzedQuery \<Rightarrow> Options \<Rightarrow> string" where
  "writeYDB uc q o' =
     (let opt = (if aq_Parameters q \<noteq> [] then ''callOptions...'' else ''opts...''); row = aq_Name q @ ''Row'' in
      (if aq_Parameters q \<noteq> [] then
         writeDecimalValidations uc q o'
         @ (''parameters := ydb.ParamsBuilder()'' @ nl)
         @ concat (map (\<lambda>(i, p). ydb_parameter uc q o' i p) (enumerate 0 (aq_Parameters q)))
         @ (nl @ ''callOptions := append([]query.ExecuteOption(nil), opts...)'' @ nl)
         @ (''callOptions = append(callOptions, query.WithParameters(parameters.Build()))'' @ nl @ nl)
       else [])
      @ (if aq_Command q = Each then writeYDBEach uc q opt o'
         else if aq_Command q = Multi then writeYDBMulti uc q opt o'
         else if aq_Command q = Exec then
           ''err := '' @ ydbCall ''q.db.Exec'' (querySQLReference uc q o') opt @ (nl @ nl @ ''return xerrors.WithStackTrace(err)'' @ nl)
         else if aq_Command q = One then
           ''result, err := '' @ ydbCall ''q.db.QueryRow'' (querySQLReference uc q o') opt @ (nl @ ''if err != nil { return '') @ row
           @ (''{}, xerrors.WithStackTrace(err) }'' @ nl @ nl @ ''var row '') @ row @ (nl @ ''if err := result.ScanNamed('' @ nl)
           @ scanNamed uc (aq_ResultSets q ! 0) o' @ ('','' @ nl @ ''); err != nil { return '') @ row @ (''{}, xerrors.WithStackTrace(err) }'' @ nl @ nl @ ''return row, nil'' @ nl)
         else
           ''result, err := '' @ ydbCall ''q.db.Query'' (querySQLReference uc q o') opt @ nl
           @ (''if err != nil { return nil, xerrors.WithStackTrace(err) }'' @ nl @ ''defer result.Close(ctx)'' @ nl @ nl)
           @ (''resultSet, err := result.NextResultSet(ctx)'' @ nl)
           @ (''if errors.Is(err, io.EOF) { return nil, xerrors.WithStackTrace(query.ErrNoResultSets) }'' @ nl)
           @ (''if err != nil { return nil, xerrors.WithStackTrace(err) }'' @ nl @ nl)
           @ ''items := '' @ (if o_EmitEmptySlices o' then ''make([]'' @ row @ '', 0)'' else ''[]'' @ row @ ''(nil)'') @ nl
           @ (''for r, err := range resultSet.Rows(ctx) {'' @ nl @ ''if err != nil { return nil, xerrors.WithStackTrace(err) }'' @ nl)
           @ ''var row '' @ row @ nl
           @ (''if err := r.ScanNamed('' @ nl) @ scanNamed uc (aq_ResultSets q ! 0) o' @ ('','' @ nl @ ''); err != nil { return nil, xerrors.WithStackTrace(err) }'' @ nl)
           @ (''items = append(items, row)'' @ nl @ ''}'' @ nl @ nl)
           @ (''_, err = result.NextResultSet(ctx)'' @ nl)
           @ (''if err == nil { return nil, xerrors.WithStackTrace(query.ErrMoreThanOneResultSet)'' @ nl)
           @ (''} else if !errors.Is(err, io.EOF) { return nil, xerrors.WithStackTrace(err)'' @ nl @ ''}'' @ nl @ nl)
           @ (''return items, nil'' @ nl)))"

definition writeEachPreamble :: "AnalyzedQuery \<Rightarrow> Options \<Rightarrow> string" where
  "writeEachPreamble q o' =
     (if o_Runtime o' = ''ydb'' then (''defer func() { err = xerrors.WithStackTrace(err) }()'' @ nl @ nl) else [])
     @ ''if consume == nil { return errors.New('' @ go_quote (aq_Name q @ '': :each requires a non-nil callback'') @ ('') }'' @ nl)
     @ (''if err := ctx.Err(); err != nil { return err }'' @ nl @ nl)"

definition writeQuery :: "unicode \<Rightarrow> AnalyzedQuery \<Rightarrow> Options \<Rightarrow> string" where
  "writeQuery uc q o' =
     (let ret =
        (if aq_Command q = One then ''('' @ aq_Name q @ ''Row, error)''
         else if aq_Command q = Many then ''([]'' @ aq_Name q @ ''Row, error)''
         else if aq_Command q = Multi then ''(out '' @ aq_Name q @ ''Result, err error)''
         else if aq_Command q = Each then ''(err error)''
         else ''error'') in
      queryComment q
      @ ''func (q *Queries) '' @ aq_Name q @ ''(ctx context.Context'' @ methodArgs uc q o' @ '') '' @ ret @ ('' {'' @ nl)
      @ (if aq_Command q = Each then writeEachPreamble q o' else [])
      @ (if o_Runtime o' = ''database/sql'' then writeSQL uc q o' else writeYDB uc q o')
      @ (''}'' @ nl @ nl))"

end
