(* ===== verification/GolangGenerate.thy ===== *)
theory GolangGenerate
  imports GolangFiles "HOL-Library.Multiset"
begin

text \<open>
  The files of the generated Go package: the builders of \<open>struct_list.go\<close>, \<open>queryFile\<close> and \<open>Generate\<close> of
  \<open>generate.go\<close>. The parameter \<open>format_source\<close> is \<open>format.Source\<close>. The properties say what validation
  gives to the written package: every type it writes exists, and no name is declared twice in it.
\<close>

section \<open>Builders\<close>

definition optional_type_expr :: "unicode \<Rightarrow> ty \<Rightarrow> string" where
  "optional_type_expr uc t =
     (let typ = ydbTypeExpr uc (UnwrapOptional t) in if IsOptional t then ''types.Optional('' @ typ @ '')'' else typ)"

definition struct_value :: "unicode \<Rightarrow> Options \<Rightarrow> string \<times> ty \<Rightarrow> string" where
  "struct_value uc o' f =
     ''types.StructFieldValue('' @ go_quote (fst f) @ '', '' @ structScalarValue uc (snd f) (''item.'' @ fieldName uc o' (fst f)) @ (''),'' @ nl)"

definition writeStructListBuilder :: "unicode \<Rightarrow> AnalyzedQuery \<Rightarrow> QueryParameter \<Rightarrow> Options \<Rightarrow> decl" where
  "writeStructListBuilder uc q p o' =
     (let fields' = Fields (elem_of (qp_Type p)) in
      (structListBuilderName uc q p,
       ''func '' @ structListBuilderName uc q p @ ''(values []'' @ structItemName uc q p @ ('') types.Value {'' @ nl)
       @ (''if len(values) == 0 { return types.ZeroValue(types.List(types.Struct('' @ nl)
       @ concat (map (\<lambda>f. ''types.StructField('' @ go_quote (fst f) @ '', '' @ optional_type_expr uc (snd f) @ (''),'' @ nl)) fields')
       @ (''))) }'' @ nl @ ''items := make([]types.Value,len(values))'' @ nl @ ''for i, item := range values { items[i] = types.StructValue('' @ nl)
       @ concat (map (struct_value uc o') fields')
       @ ('') }'' @ nl @ ''return types.ListValue(items...)'' @ nl @ ''}'' @ nl @ nl)))"

definition writeStructBuilder :: "unicode \<Rightarrow> AnalyzedQuery \<Rightarrow> QueryParameter \<Rightarrow> Options \<Rightarrow> decl" where
  "writeStructBuilder uc q p o' =
     (structListBuilderName uc q p,
      ''func '' @ structListBuilderName uc q p @ ''(item '' @ structItemName uc q p @ ('') types.Value {'' @ nl @ ''return types.StructValue('' @ nl)
      @ concat (map (struct_value uc o') (Fields (qp_Type p))) @ ('')'' @ nl @ ''}'' @ nl @ nl))"

definition writeScalarListBuilder :: "unicode \<Rightarrow> AnalyzedQuery \<Rightarrow> QueryParameter \<Rightarrow> decl" where
  "writeScalarListBuilder uc q p =
     (let e = elem_of (qp_Type p) in
      (scalarListBuilderName uc q p,
       ''func '' @ scalarListBuilderName uc q p @ ''(values []'' @ goTypeText e @ ('') types.Value {'' @ nl)
       @ ''if len(values) == 0 { return types.ZeroValue(types.List('' @ optional_type_expr uc e
       @ ('')) }'' @ nl @ ''items := make([]types.Value,len(values))'' @ nl @ ''for i,item := range values { items[i] = '') @ structScalarValue uc e ''item''
       @ ('' }'' @ nl @ ''return types.ListValue(items...)'' @ nl @ ''}'' @ nl @ nl)))"

section \<open>Query files\<close>

text \<open>A method has no name at the top level; the other declarations of a query do.\<close>

definition builder_decls :: "unicode \<Rightarrow> Options \<Rightarrow> AnalyzedQuery \<Rightarrow> QueryParameter \<Rightarrow> decl list" where
  "builder_decls uc o' q p =
     (if isStructList (qp_Type p) then [writeStructListBuilder uc q p o']
      else if equal_fold (Kind (qp_Type p)) ''Struct'' then [writeStructBuilder uc q p o']
      else if o_Runtime o' = ''database/sql'' \<and> equal_fold (Kind (qp_Type p)) ''List'' then [writeScalarListBuilder uc q p]
      else [])"

definition constant_decls :: "unicode \<Rightarrow> Options \<Rightarrow> AnalyzedQuery \<Rightarrow> decl list" where
  "constant_decls uc o' q =
     (if o_EmitExportedQueries o' then
        [(exportedQueryName uc (aq_Name q), ''const '' @ exportedQueryName uc (aq_Name q) @ '' = '' @ querySQL q @ (nl @ nl))]
      else [])"

definition query_body :: "unicode \<Rightarrow> Options \<Rightarrow> AnalyzedQuery \<Rightarrow> string" where
  "query_body uc o' q =
     concat (map snd (constant_decls uc o' q)) @ writeQuery uc q o'
     @ concat (map (\<lambda>p. concat (map snd (builder_decls uc o' q p))) (aq_Parameters q))"

definition uses_parameter_type :: "AnalyzedQuery \<Rightarrow> Options \<Rightarrow> QueryParameter \<Rightarrow> bool" where
  "uses_parameter_type q o' p \<longleftrightarrow>
     \<not> isStructParameter (qp_Type p)
     \<and> (\<not> useParamsStruct q o' \<or> (o_Runtime o' = ''database/sql'' \<and> equal_fold (Kind (qp_Type p)) ''List''))"

definition lower_kind :: "QueryParameter \<Rightarrow> string" where
  "lower_kind p = to_lower (Kind (UnwrapOptional (qp_Type p)))"

definition needs_types :: "AnalyzedQuery \<Rightarrow> Options \<Rightarrow> QueryParameter \<Rightarrow> bool" where
  "needs_types q o' p \<longleftrightarrow>
     isStructParameter (qp_Type p) \<or> hasKind (qp_Type p) ''list''
     \<or> (o_Runtime o' = ''database/sql'' \<and> (lower_kind p = ''uuid'' \<or> lower_kind p = ''decimal''))
     \<or> (o_Runtime o' = ''ydb'' \<and> (hasKind (qp_Type p) ''list''
          \<or> (\<not> useParamsStruct q o' \<and> hasKind (qp_Type p) ''decimal'')))"

definition any_parameter :: "(AnalyzedQuery \<Rightarrow> QueryParameter \<Rightarrow> bool) \<Rightarrow> AnalyzedQuery list \<Rightarrow> bool" where
  "any_parameter P qs \<longleftrightarrow> list_ex (\<lambda>q. list_ex (P q) (aq_Parameters q)) qs"

definition file_uses :: "unicode \<Rightarrow> Options \<Rightarrow> AnalyzedQuery list \<Rightarrow> type_use list" where
  "file_uses uc o' qs =
     concat (map (\<lambda>q. map (parameter_use uc o' q) (filter (uses_parameter_type q o') (aq_Parameters q))) qs)"

definition hasMulti :: "AnalyzedQuery list \<Rightarrow> bool" where
  "hasMulti qs \<longleftrightarrow> list_ex (\<lambda>q. aq_Command q = Multi) qs"

definition stdlib_imports :: "unicode \<Rightarrow> Options \<Rightarrow> AnalyzedQuery list \<Rightarrow> string list" where
  "stdlib_imports uc o' qs =
     (let needsEach = list_ex (\<lambda>q. aq_Command q = Each) qs;
          needsYDBRows = (o_Runtime o' = ''ydb'' \<and> list_ex (\<lambda>q. aq_Command q = Many \<or> aq_Command q = Multi \<or> aq_Command q = Each) qs);
          imports' = used_types (file_uses uc o' qs) no_imports in
      [''\"context\"'']
      @ (if needsEach \<or> needsYDBRows \<or> hasMulti qs then [''\"errors\"''] else [])
      @ (if hasMulti qs then [''\"fmt\"''] else [])
      @ (if ti_time imports' then [''\"time\"''] else [])
      @ (if o_Runtime o' = ''database/sql'' then
           (if any_parameter (\<lambda>q p. True) qs then [''\"database/sql\"''] else [])
         else (if needsYDBRows then [''\"io\"''] else [])))"

definition external_imports :: "unicode \<Rightarrow> Options \<Rightarrow> AnalyzedQuery list \<Rightarrow> string list" where
  "external_imports uc o' qs =
     (let needsJSON = any_parameter (\<lambda>q p. lower_kind p = ''json'' \<or> lower_kind p = ''jsondocument'') qs;
          needsTypes = any_parameter (\<lambda>q p. needs_types q o' p) qs;
          needsUUID = any_parameter (\<lambda>q p. uses_parameter_type q o' p \<and> hasKind (qp_Type p) ''uuid'') qs in
      (if o_Runtime o' = ''database/sql'' then
         (if needsJSON \<or> needsTypes then [''\"github.com/ydb-platform/ydb-go-sdk/v3/types\"''] else [])
         @ (if needsUUID then [''\"github.com/google/uuid\"''] else [])
       else
         (if o_Runtime o' = ''ydb'' \<and> any_parameter (\<lambda>q p. True) qs then [''ydb \"github.com/ydb-platform/ydb-go-sdk/v3\"''] else [])
         @ [''\"github.com/ydb-platform/ydb-go-sdk/v3/query\"'', ''\"github.com/ydb-platform/ydb-go-sdk/v3/pkg/xerrors\"'']
         @ (if needsTypes then [''\"github.com/ydb-platform/ydb-go-sdk/v3/types\"''] else [])
         @ (if needsUUID then [''\"github.com/google/uuid\"''] else []))
      @ overrideImports uc o' (used_overrides (file_uses uc o' qs)))"

definition queryFile :: "unicode \<Rightarrow> string \<Rightarrow> AnalyzedQuery list \<Rightarrow> Options \<Rightarrow> string" where
  "queryFile uc source' qs o' =
     (let external = external_imports uc o' qs in
      (''// Code generated by sqlc-ydb. DO NOT EDIT.'' @ nl @ ''// source: '') @ Base source' @ (nl @ ''package '') @ o_Package o' @ (nl @ nl)
      @ (''import ('' @ nl) @ str_join nl (stdlib_imports uc o' qs) @ nl
      @ (if external \<noteq> [] then nl @ str_join nl external @ nl else [])
      @ ('')'' @ nl @ nl)
      @ concat (map (query_body uc o') qs))"

section \<open>The package\<close>

definition decimal_file :: "Options \<Rightarrow> string" where
  "decimal_file o' =
     (let ydb = (o_Runtime o' = ''ydb'');
          failure = ''fmt.Errorf(\"Decimal parameter %s expects Decimal(%d,%d), got Decimal(%d,%d)\", name, precision, scale, value.Precision, value.Scale)'' in
      (''// Code generated by sqlc-ydb. DO NOT EDIT.'' @ nl @ ''package '') @ o_Package o' @ (nl @ ''import ('')
      @ (if ydb then (''\"fmt\"'' @ nl @ nl @ ''\"github.com/ydb-platform/ydb-go-sdk/v3/pkg/xerrors\"; \"github.com/ydb-platform/ydb-go-sdk/v3/types\"'')
         else ''\"fmt\"; \"github.com/ydb-platform/ydb-go-sdk/v3/types\"'')
      @ ('')'' @ nl @ ''func validateDecimalParameter(name string, value types.Decimal, precision, scale uint32) error {'' @ nl @ '' if value.Precision != precision || value.Scale != scale {'' @ nl @ ''  return '')
      @ (if ydb then ''xerrors.WithStackTrace('' @ failure @ '')'' else failure) @ (nl @ '' }'')
      @ (if ydb then (nl @ nl) else nl) @ (''return nil'' @ nl @ ''}'' @ nl))"

definition needs_decimals :: "AnalysisResult \<Rightarrow> bool" where
  "needs_decimals in' \<longleftrightarrow> any_parameter (\<lambda>q p. hasKind (qp_Type p) ''decimal'') (ar_Queries in')"

text \<open>The queries of each source, the sources sorted.\<close>

definition source_names :: "AnalysisResult \<Rightarrow> string list" where
  "source_names in' = sort (remdups (map sourceName (ar_Queries in')))"

definition queries_of :: "AnalysisResult \<Rightarrow> string \<Rightarrow> AnalyzedQuery list" where
  "queries_of in' n = filter (\<lambda>q. sourceName q = n) (ar_Queries in')"

definition package_files :: "unicode \<Rightarrow> AnalysisResult \<Rightarrow> Options \<Rightarrow> File list" where
  "package_files uc in' o' =
     [\<lparr>fl_Name = ''models.go'', fl_Content = models uc in' o'\<rparr>, \<lparr>fl_Name = ''db.go'', fl_Content = db o'\<rparr>]
     @ (if needs_decimals in' then [\<lparr>fl_Name = ''decimal.go'', fl_Content = decimal_file o'\<rparr>] else [])
     @ map (\<lambda>n. \<lparr>fl_Name = outputName n, fl_Content = queryFile uc n (queries_of in' n) o'\<rparr>) (source_names in')"

fun format_files :: "(string \<Rightarrow> string res) \<Rightarrow> Options \<Rightarrow> File list \<Rightarrow> File list res" where
  "format_files format_source o' [] = Inr []"
| "format_files format_source o' (f # fs) =
     and_then (map_error (\<lambda>err. Errorf ''format %s: %w'' [FStr (fl_Name f), FErr err])
         (format_source ((if o_BuildTags o' \<noteq> [] then ''//go:build '' @ o_BuildTags o' @ (nl @ nl) else []) @ fl_Content f)))
       (\<lambda>formatted. and_then (format_files format_source o' fs) (\<lambda>fs'. Inr (f\<lparr>fl_Content := formatted\<rparr> # fs')))"

text \<open>The options with their defaults, or the first error in them.\<close>

definition checked_options :: "unicode \<Rightarrow> (string \<Rightarrow> go_error option) \<Rightarrow> Options \<Rightarrow> Options res" where
  "checked_options uc constraint_err o0 =
     (let o1 = o0\<lparr>o_Package := or_default ''db'' (o_Package o0)\<rparr> in
      if \<not> ident uc (o_Package o1) \<or> o_Package o1 = ''_'' then Inl (Errorf ''invalid Go package %q'' [FStr (o_Package o1)])
      else (let o2 = o1\<lparr>o_Runtime := or_default ''ydb'' (o_Runtime o1)\<rparr> in
        if o_Runtime o2 \<noteq> ''ydb'' \<and> o_Runtime o2 \<noteq> ''database/sql'' then
          Inl (Errorf ''unsupported Go runtime %q'' [FStr (o_Runtime o2)])
        else if o_JSONTagsCaseStyle o2 \<notin> {[], ''none'', ''camel'', ''pascal'', ''snake''} then
          Inl (Errorf ''json_tags_case_style %q must be none, camel, pascal, or snake'' [FStr (o_JSONTagsCaseStyle o2)])
        else check_then (ValidateGoBuildTags constraint_err (o_BuildTags o2))
          (case o_QueryParameterLimit o2 of
             None \<Rightarrow> Inr (o2\<lparr>o_QueryParameterLimit := Some 1\<rparr>)
           | Some limit \<Rightarrow>
               if sint limit < 0 then Inl (Errorf ''query_parameter_limit must not be negative'' []) else Inr o2)))"

text \<open>\<open>Generate\<close> for a result that is not nil.\<close>

definition Generate ::
  "unicode \<Rightarrow> (string \<Rightarrow> go_error option) \<Rightarrow> (string \<Rightarrow> string res) \<Rightarrow> AnalysisResult \<Rightarrow> Options \<Rightarrow> File list res" where
  "Generate uc constraint_err format_source in' o0 =
     (case ar_Diagnostics in' of
        d # _ \<Rightarrow> Inl (Errorf ''cannot generate with diagnostics: %w'' [FStr (Diagnostic_Error d)])
      | [] \<Rightarrow>
          and_then (checked_options uc constraint_err o0) (\<lambda>o'.
          check_then (validate uc in' o')
          (format_files format_source o' (package_files uc in' o'))))"


section \<open>The names a package declares\<close>

definition query_file_names :: "unicode \<Rightarrow> Options \<Rightarrow> AnalyzedQuery \<Rightarrow> string list" where
  "query_file_names uc o' q =
     map fst (constant_decls uc o' q) @ concat (map (\<lambda>p. map fst (builder_decls uc o' q p)) (aq_Parameters q))"

definition package_names :: "unicode \<Rightarrow> AnalysisResult \<Rightarrow> Options \<Rightarrow> string list" where
  "package_names uc in' o' =
     [''DBTX'', ''Queries'', ''New''] @ (if needs_decimals in' then [''validateDecimalParameter''] else [])
     @ map fst (model_decls uc in' o')
     @ concat (map (\<lambda>n. concat (map (query_file_names uc o') (queries_of in' n))) (source_names in'))"

lemma struct_decl_fst [simp]: "fst (struct_decl name lines) = name"
  by (simp add: struct_decl_def)

lemma mset_concat_mono:
  "(\<And>q. q \<in> set qs \<Longrightarrow> mset (F q) \<subseteq># mset (G q)) \<Longrightarrow> mset (concat (map F qs)) \<subseteq># mset (concat (map G qs))"
  by (induction qs) (simp_all add: subset_mset.add_mono)

lemma mset_concat_append:
  "mset (concat (map (\<lambda>q. F q @ G q) qs)) = mset (concat (map F qs)) + mset (concat (map G qs))"
  by (induction qs) simp_all

lemma concat_query_parameters:
  "concat (map (\<lambda>(q, p). D q p) (query_parameters in')) = concat (map (\<lambda>q. concat (map (D q) (aq_Parameters q))) (ar_Queries in'))"
proof -
  have "concat (map (\<lambda>(q, p). D q p) (concat (map (\<lambda>q. map (\<lambda>p. (q, p)) (aq_Parameters q)) qs)))
      = concat (map (\<lambda>q. concat (map (D q) (aq_Parameters q))) qs)" for qs
    by (induction qs) (simp_all add: comp_def)
  then show ?thesis by (simp only: query_parameters_def)
qed

lemma mset_partition:
  "distinct ns \<Longrightarrow> mset (concat (map (\<lambda>n. filter (\<lambda>q. f q = n) qs) ns)) = filter_mset (\<lambda>q. f q \<in> set ns) (mset qs)"
proof (induction ns)
  case (Cons n ns)
  have "filter_mset (\<lambda>q. f q = n \<or> f q \<in> set ns) (mset qs) = filter_mset (\<lambda>q. f q = n) (mset qs) + filter_mset (\<lambda>q. f q \<in> set ns) (mset qs)"
    using Cons.prems by (induction qs) auto
  with Cons show ?case by simp
qed simp

lemma mset_sources: "mset (concat (map (queries_of in') (source_names in'))) = mset (ar_Queries in')"
proof -
  have "mset (concat (map (queries_of in') (source_names in'))) = filter_mset (\<lambda>q. sourceName q \<in> set (source_names in')) (mset (ar_Queries in'))"
    unfolding queries_of_def by (rule mset_partition) (simp add: source_names_def)
  also have "\<dots> = mset (ar_Queries in')"
    by (auto simp: source_names_def filter_mset_eq_conv intro!: filter_mset_cong [where g = "\<lambda>_. True", simplified])
  finally show ?thesis .
qed

lemma mset_concat_sources:
  "mset (concat (map (\<lambda>n. concat (map F (queries_of in' n))) (source_names in'))) = mset (concat (map F (ar_Queries in')))"
proof -
  have "concat (map (\<lambda>n. concat (map F (queries_of in' n))) ns) = concat (map F (concat (map (queries_of in') ns)))" for ns
    by (induction ns) simp_all
  moreover have "mset (concat (map F qs)) = mset (concat (map F qs'))" if "mset qs = mset qs'" for qs qs'
    unfolding mset_concat sum_mset_sum_list [symmetric] mset_map that by (rule refl)
  ultimately show ?thesis using mset_sources by metis
qed


lemma map_filter_concat: "map f (filter P xs) = concat (map (\<lambda>x. if P x then [f x] else []) xs)"
  by (induction xs) simp_all

lemma parameter_names_claimed:
  "mset ((if isStructParameter (qp_Type p) then [structItemName uc q p] else []) @ map fst (builder_decls uc o' q p))
     \<subseteq># mset (parameter_declarations uc q p)"
  by (auto simp: builder_decls_def parameter_declarations_def isStructParameter_def writeStructListBuilder_def
      writeStructBuilder_def writeScalarListBuilder_def Let_def)

lemma row_names_claimed:
  assumes "command_err uc o' q = None"
  shows "mset (if has_rows q then map (row_name q) (aq_ResultSets q)
      @ (if aq_Command q = Multi then [aq_Name q @ ''Result''] else []) else [])
    = mset (if single_result q then [aq_Name q @ ''Row''] else []) + mset (multi_declarations q)"
proof (cases "single_result q")
  case True
  then have c: "aq_Command q \<noteq> Multi" "has_rows q" "aq_Command q \<noteq> ExecRows"
    by (auto simp: single_result_def has_rows_def One_def Many_def Each_def Multi_def ExecRows_def)
  from assms True c have "length (aq_ResultSets q) = 1"
    by (auto simp: command_err_def split: if_splits)
  then obtain rs where "aq_ResultSets q = [rs]" by (cases "aq_ResultSets q") auto
  with True c show ?thesis by (simp add: row_name_def multi_declarations_def)
next
  case False
  then show ?thesis
    by (auto simp: single_result_def has_rows_def multi_declarations_def row_name_def [abs_def])
qed

lemma query_names_claimed:
  assumes "command_err uc o' q = None"
  shows "mset (map fst (query_decls uc o' q) @ query_file_names uc o' q)
    \<subseteq># mset ((own_names o' q @ multi_declarations q)
      @ (concat (map (parameter_declarations uc q) (aq_Parameters q))
        @ (if o_EmitExportedQueries o' then [exportedQueryName uc (aq_Name q)] else [])))"
proof -
  have items: "map fst (map (writeStructModel uc o' q) (filter (\<lambda>p. isStructParameter (qp_Type p)) (aq_Parameters q)))
      = concat (map (\<lambda>p. if isStructParameter (qp_Type p) then [structItemName uc q p] else []) (aq_Parameters q))"
    unfolding map_map comp_def writeStructModel_def struct_decl_fst by (rule map_filter_concat)
  have rows: "map fst (if has_rows q then map (row_decl uc o' q) (aq_ResultSets q) @ (if aq_Command q = Multi then [result_decl q] else []) else [])
      = (if has_rows q then map (row_name q) (aq_ResultSets q) @ (if aq_Command q = Multi then [aq_Name q @ ''Result''] else []) else [])"
    by (simp add: row_decl_def result_decl_def comp_def)
  have own: "mset (own_names o' q) = mset (if useParamsStruct q o' then [aq_Name q @ ''Params''] else [])
      + mset (if single_result q then [aq_Name q @ ''Row''] else [])"
    by (simp add: own_names_def)
  have exported: "map fst (constant_decls uc o' q) = (if o_EmitExportedQueries o' then [exportedQueryName uc (aq_Name q)] else [])"
    by (simp add: constant_decls_def)
  have params: "map fst (if useParamsStruct q o' then [params_decl uc o' q] else []) = (if useParamsStruct q o' then [aq_Name q @ ''Params''] else [])"
    by (simp add: params_decl_def)
  have claimed: "mset (concat (map (\<lambda>p. if isStructParameter (qp_Type p) then [structItemName uc q p] else []) (aq_Parameters q)))
      + mset (concat (map (\<lambda>p. map fst (builder_decls uc o' q p)) (aq_Parameters q)))
      \<subseteq># mset (concat (map (parameter_declarations uc q) (aq_Parameters q)))"
    unfolding mset_concat_append [symmetric] by (rule mset_concat_mono) (rule parameter_names_claimed)
  have "mset (map fst (query_decls uc o' q) @ query_file_names uc o' q)
      = (mset (own_names o' q) + mset (multi_declarations q))
        + ((mset (concat (map (\<lambda>p. if isStructParameter (qp_Type p) then [structItemName uc q p] else []) (aq_Parameters q)))
            + mset (concat (map (\<lambda>p. map fst (builder_decls uc o' q p)) (aq_Parameters q))))
          + mset (if o_EmitExportedQueries o' then [exportedQueryName uc (aq_Name q)] else []))"
    unfolding query_decls_def query_file_names_def map_append mset_append items rows params exported own
      row_names_claimed [OF assms] by (simp only: ac_simps)
  also have "\<dots> \<subseteq># (mset (own_names o' q) + mset (multi_declarations q))
        + (mset (concat (map (parameter_declarations uc q) (aq_Parameters q)))
          + mset (if o_EmitExportedQueries o' then [exportedQueryName uc (aq_Name q)] else []))"
    by (intro subset_mset.add_mono claimed subset_mset.order_refl)
  finally show ?thesis by (simp only: mset_append)
qed

lemma distinct_mset_subset: "mset xs \<subseteq># mset ys \<Longrightarrow> distinct ys \<Longrightarrow> distinct xs"
proof -
  assume sub: "mset xs \<subseteq># mset ys" and d: "distinct ys"
  obtain zs where "mset zs = mset ys - mset xs" using ex_mset by blast
  with sub have "mset ys = mset (xs @ zs)" by simp
  with d have "distinct (xs @ zs)" using mset_eq_imp_distinct_iff by blast
  then show "distinct xs" by simp
qed

lemma package_names_claimed:
  assumes "list_all (\<lambda>q. command_err uc o' q = None) (ar_Queries in')"
  shows "mset (package_names uc in' o') \<subseteq># mset (unchecked_names in' o' @ checked_names uc in' o')"
proof -
  let ?qs = "ar_Queries in'"
  let ?tables = "map (\<lambda>table. embeddedGoType uc o' (tb_Name table)) (embedded_tables in')"
  let ?exported = "\<lambda>q. if o_EmitExportedQueries o' then [exportedQueryName uc (aq_Name q)] else []"
  let ?params = "\<lambda>q. concat (map (parameter_declarations uc q) (aq_Parameters q))"
  have fixed: "mset ([''DBTX'', ''Queries'', ''New''] @ (if needs_decimals in' then [''validateDecimalParameter''] else [])
      @ (if o_EmitInterface o' then [''Querier''] else [])) \<subseteq># mset fixed_names"
    by (simp add: fixed_names_def)
  have decls: "map fst (model_decls uc in' o') = ?tables @ concat (map (\<lambda>q. map fst (query_decls uc o' q)) ?qs)
      @ (if o_EmitInterface o' then [''Querier''] else [])"
    by (simp add: model_decls_def table_decl_def comp_def map_concat interface_decl_def)
  have queries: "mset (concat (map (\<lambda>q. map fst (query_decls uc o' q)) ?qs)) + mset (concat (map (query_file_names uc o') ?qs))
      \<subseteq># mset (concat (map (\<lambda>q. (own_names o' q @ multi_declarations q) @ (?params q @ ?exported q)) ?qs))"
    unfolding mset_concat_append [symmetric, of "\<lambda>q. map fst (query_decls uc o' q)"]
    using assms by (intro mset_concat_mono query_names_claimed) (simp add: list_all_iff)
  have exported: "concat (map ?exported ?qs) = (if o_EmitExportedQueries o' then map (\<lambda>q. exportedQueryName uc (aq_Name q)) ?qs else [])"
    by (simp add: concat_map_singleton)
  have "mset (package_names uc in' o')
      = mset ([''DBTX'', ''Queries'', ''New''] @ (if needs_decimals in' then [''validateDecimalParameter''] else [])
          @ (if o_EmitInterface o' then [''Querier''] else []))
        + (mset ?tables + (mset (concat (map (\<lambda>q. map fst (query_decls uc o' q)) ?qs)) + mset (concat (map (query_file_names uc o') ?qs))))"
    unfolding package_names_def mset_append decls mset_concat_sources by (simp only: ac_simps)
  also have "\<dots> \<subseteq># mset fixed_names
        + (mset ?tables + mset (concat (map (\<lambda>q. (own_names o' q @ multi_declarations q) @ (?params q @ ?exported q)) ?qs)))"
    by (intro subset_mset.add_mono fixed queries subset_mset.order_refl)
  also have "\<dots> = mset (unchecked_names in' o' @ checked_names uc in' o')"
    unfolding unchecked_names_eq checked_names_def concat_query_parameters mset_append mset_concat_append exported
    by (simp only: ac_simps)
  finally show ?thesis .
qed

lemma validate_None:
  assumes "validate uc in' o' = None"
  shows "\<exists>r. declared_names uc in' o' = Inr r" "list_all (query_types_ok uc o') (ar_Queries in')"
    "distinct (map aq_Name (ar_Queries in'))" "list_all (\<lambda>q. command_err uc o' q = None) (ar_Queries in')"
    "validateOverrides uc o' = None"
proof -
  from assms have "validateStructDeclarations uc in' o' = None" and q: "queries_err uc o' [] [] (ar_Queries in') = None"
    and "validateOverrides uc o' = None"
    by (auto simp: validate_def split: option.splits)
  then show "\<exists>r. declared_names uc in' o' = Inr r" "validateOverrides uc o' = None"
    by (auto simp: validateStructDeclarations_def split: sum.splits)
  from queries_err_None [OF q] show "list_all (query_types_ok uc o') (ar_Queries in')"
    "distinct (map aq_Name (ar_Queries in'))" "list_all (\<lambda>q. command_err uc o' q = None) (ar_Queries in')"
    by (auto simp: list_all_iff)
qed

lemma query_types_written:
  assumes "query_types_ok uc o' q"
  shows "list_all (\<lambda>p. parameterGoType uc o' q p = Inr (parameterTypeText uc o' q p)
        \<and> (if isStructParameter (qp_Type p) then
             structFields (qp_Type p) \<noteq> []
             \<and> list_all (\<lambda>f. goType (snd f) = Inr (goTypeText (snd f))) (structFields (qp_Type p))
           else \<not> (equal_fold (Kind (qp_Type p)) ''List''
             \<and> (Elem (qp_Type p) = None \<or> goType (elem_of (qp_Type p)) \<noteq> Inr (goTypeText (elem_of (qp_Type p))))))) (aq_Parameters q)
      \<and> list_all (\<lambda>rs. list_all (\<lambda>c. columnGoType uc o' c = Inr (columnTypeText uc o' c)) (rs_Columns rs)) (aq_ResultSets q)"
  using assms
  by (fastforce simp: query_types_ok_def parameter_types_ok_def column_types_ok_def list_all_iff elem_of_def
      dest: goTypeText_eq columnTypeText_eq parameterTypeText_eq split: if_splits)

text \<open>A table that an embedding of a result set copies; \<open>models\<close> writes a struct for it.\<close>

definition embedded_copy :: "AnalysisResult \<Rightarrow> Table \<Rightarrow> bool" where
  "embedded_copy in' table \<longleftrightarrow>
     list_ex (\<lambda>q. list_ex (\<lambda>rs. list_ex (\<lambda>emb. copies_table (rs_Columns rs) emb table) (rs_Embeds rs)) (aq_ResultSets q))
       (ar_Queries in')"

lemma unwired_fields: "col_Name (unwired c) = col_Name c" "col_Table (unwired c) = col_Table c" "col_Type (unwired c) = col_Type c"
  by (simp_all add: unwired_def)

lemma unwired_types:
  "columnGoType uc o' (unwired c) = columnGoType uc o' c" "columnTypeText uc o' (unwired c) = columnTypeText uc o' c"
  by (simp_all only: columnGoType_def columnTypeText_def columnOverride_def overrideForColumn_def unwired_fields)

lemma copied_column_typed:
  assumes "copies_table columns emb table" "c \<in> set (tb_Columns table)"
    and "list_all (\<lambda>c. columnGoType uc o' c = Inr (columnTypeText uc o' c)) columns"
  shows "columnGoType uc o' c = Inr (columnTypeText uc o' c)"
proof -
  have "unwired c \<in> unwired ` set columns"
    using assms(1,2) unfolding copies_table_def by (metis image_eqI image_mono in_mono list.set_map set_drop_subset set_take_subset order_trans)
  then obtain d where d: "d \<in> set columns" "unwired c = unwired d" by blast
  with assms(3) have "columnGoType uc o' d = Inr (columnTypeText uc o' d)" by (simp add: list_all_iff)
  with d(2) unwired_types [of uc o' c] unwired_types [of uc o' d] show ?thesis by metis
qed

section \<open>Properties\<close>

text \<open>
  C37: in a package that passes validation no name is declared twice: the types of models.go (rows,
  results, parameter structs, struct items, embedded tables, the interface), the declarations of db.go
  and decimal.go, and the constants and builder functions of the query files are all different.
\<close>

theorem go_declarations_distinct:
  assumes "validate uc in' o' = None"
  shows "distinct (package_names uc in' o')"
proof -
  from validate_None(1) [OF assms] obtain r where "declared_names uc in' o' = Inr r" ..
  from declared_names_Inr [OF this] have "distinct (checked_names uc in' o')"
      "set (checked_names uc in' o') \<inter> set (unchecked_names in' o') = {}"
    by (simp_all add: claimed_def)
  with unchecked_names_distinct [OF validate_None(3) [OF assms], of o']
  have "distinct (unchecked_names in' o' @ checked_names uc in' o')" by auto
  with package_names_claimed [OF validate_None(4) [OF assms]] show ?thesis
    by (rule distinct_mset_subset)
qed

text \<open>A sample: a query with one parameter and one row.\<close>

definition plain_unicode :: unicode where
  "plain_unicode = \<lparr>uc_letter = \<lambda>_. False, uc_digit = \<lambda>_. False, uc_is_upper = \<lambda>_. False, uc_upper = \<lambda>r. r,
     uc_lower = \<lambda>r. r, uc_title = \<lambda>r. r, uc_space = \<lambda>_. False\<rparr>"

definition sample_options :: Options where
  "sample_options = \<lparr>o_Package = ''db'', o_Runtime = ''ydb'', o_Rename = [], o_Overrides = [], o_BuildTags = [],
     o_EmitDBTags = False, o_EmitJSONTags = True, o_JSONTagsCaseStyle = ''camel'', o_EmitInterface = True,
     o_EmitEmptySlices = False, o_EmitExportedQueries = False, o_QueryParameterLimit = Some 0\<rparr>"

definition sample_column :: Column where
  "sample_column = \<lparr>col_Name = ''author_id'', col_WireName = [], col_Type = Optional (mk_kind ''Uint64''), col_Table = ''authors'',
     col_SequenceGenerated = False\<rparr>"

definition sample_result :: AnalysisResult where
  "sample_result = \<lparr>ar_Catalog = \<lparr>cat_Tables = []\<rparr>,
     ar_Queries = [sample_query\<lparr>aq_Parameters := [\<lparr>qp_Name = ''id'', qp_Type = mk_list (mk_kind ''Uint64'')\<rparr>],
       aq_ResultSets := [\<lparr>rs_Name = [], rs_Columns = [sample_column], rs_Embeds = []\<rparr>]\<rparr>],
     ar_Diagnostics = []\<rparr>"

lemma sample_valid: "validate plain_unicode sample_result sample_options = None"
proof -
  have "(case validate plain_unicode sample_result sample_options of None \<Rightarrow> True | Some _ \<Rightarrow> False)" by code_simp
  then show ?thesis by (simp split: option.splits)
qed

lemma go_declarations_distinct_witness:
  "distinct (package_names plain_unicode sample_result sample_options)"
  by (rule go_declarations_distinct [OF sample_valid])

text \<open>
  C38: in a package that passes validation the types of parameters and columns have a Go type: for every parameter
  and every result column the text written is the type of the mapping or of its override, so the error of
  \<open>parameterGoType\<close> and \<open>columnGoType\<close> that the writers discard does not occur; struct parameters have fields, all of
  them with a Go type, and list parameters have an element with a Go type, so no pointer that the writers follow is nil.
  \<open>validate\<close> does not look at the tables that are embedded; the struct of such a table has the types of the mapping
  too when an embedding copies the columns of the table, as the analyzer makes it (\<open>embedProjection_copies\<close>).
\<close>

theorem go_types_defined:
  assumes "validate uc in' o' = None"
  shows "list_all (\<lambda>q.
      list_all (\<lambda>p. parameterGoType uc o' q p = Inr (parameterTypeText uc o' q p)
        \<and> (if isStructParameter (qp_Type p) then
             structFields (qp_Type p) \<noteq> []
             \<and> list_all (\<lambda>f. goType (snd f) = Inr (goTypeText (snd f))) (structFields (qp_Type p))
           else \<not> (equal_fold (Kind (qp_Type p)) ''List''
             \<and> (Elem (qp_Type p) = None \<or> goType (elem_of (qp_Type p)) \<noteq> Inr (goTypeText (elem_of (qp_Type p))))))) (aq_Parameters q)
      \<and> list_all (\<lambda>rs. list_all (\<lambda>c. columnGoType uc o' c = Inr (columnTypeText uc o' c)) (rs_Columns rs)) (aq_ResultSets q))
    (ar_Queries in')
   \<and> list_all (\<lambda>table. embedded_copy in' table \<longrightarrow>
        list_all (\<lambda>c. columnGoType uc o' c = Inr (columnTypeText uc o' c)) (tb_Columns table)) (cat_Tables (ar_Catalog in'))"
proof
  note types = validate_None(2) [OF assms]
  show "list_all (\<lambda>q.
      list_all (\<lambda>p. parameterGoType uc o' q p = Inr (parameterTypeText uc o' q p)
        \<and> (if isStructParameter (qp_Type p) then
             structFields (qp_Type p) \<noteq> []
             \<and> list_all (\<lambda>f. goType (snd f) = Inr (goTypeText (snd f))) (structFields (qp_Type p))
           else \<not> (equal_fold (Kind (qp_Type p)) ''List''
             \<and> (Elem (qp_Type p) = None \<or> goType (elem_of (qp_Type p)) \<noteq> Inr (goTypeText (elem_of (qp_Type p))))))) (aq_Parameters q)
      \<and> list_all (\<lambda>rs. list_all (\<lambda>c. columnGoType uc o' c = Inr (columnTypeText uc o' c)) (rs_Columns rs)) (aq_ResultSets q))
    (ar_Queries in')"
    using types by (rule list.pred_mono_strong) (rule query_types_written)
  show "list_all (\<lambda>table. embedded_copy in' table \<longrightarrow>
        list_all (\<lambda>c. columnGoType uc o' c = Inr (columnTypeText uc o' c)) (tb_Columns table)) (cat_Tables (ar_Catalog in'))"
    using types query_types_written copied_column_typed
    by (fastforce simp: embedded_copy_def list_all_iff list_ex_iff)
qed

lemma go_types_defined_witness:
  "parameterGoType plain_unicode sample_options (ar_Queries sample_result ! 0) \<lparr>qp_Name = ''id'', qp_Type = mk_list (mk_kind ''Uint64'')\<rparr>
     = Inr (parameterTypeText plain_unicode sample_options (ar_Queries sample_result ! 0) \<lparr>qp_Name = ''id'', qp_Type = mk_list (mk_kind ''Uint64'')\<rparr>)"
  using go_types_defined [OF sample_valid] by (simp add: sample_result_def)

end
