(* ===== verification/SyntaxTree.thy ===== *)
theory SyntaxTree
  imports Metadata
begin

text \<open>
  The parse trees the analyzer walks: what \<open>antlr.ParserRuleContext\<close> and \<open>antlr.Token\<close> of the ANTLR
  runtime document. A rule context has the name of its rule, the tokens it starts and stops with, and
  its children; a leaf is a token. The lexer and the parser themselves come from a dependency and are
  parameters of the definitions that call them.

  The generated accessor \<open>ctx.X()\<close> is the first child whose rule is \<open>X\<close>, \<open>ctx.AllX()\<close> all of them, and
  \<open>ctx.KEYWORD()\<close> the first child that is such a token. A missing child is \<open>None\<close>. Where the code goes on
  with a child without testing for nil, because the grammar requires it, the model goes on with an
  empty tree.
\<close>

section \<open>Tokens and trees\<close>

record token =
  tk_Type :: string
  tk_Text :: string
  tk_Start :: int
  tk_Stop :: int
  tk_Line :: int
  tk_Column :: int
  tk_Index :: int
  tk_Hidden :: bool

datatype tree =
    Leaf (leaf_token: token)
  | Node (rule_name: string) (start_token: "token option") (stop_token: "token option") (child_trees: "tree list")

definition no_tree :: tree where
  "no_tree = Node [] None None []"

fun tree_children :: "tree \<Rightarrow> tree list" where
  "tree_children (Leaf tok) = []"
| "tree_children (Node name a b ts) = ts"

fun is_rule :: "string \<Rightarrow> tree \<Rightarrow> bool" where
  "is_rule name (Leaf tok) = False"
| "is_rule name (Node name' a b ts) \<longleftrightarrow> name' = name"

fun is_token :: "string \<Rightarrow> tree \<Rightarrow> bool" where
  "is_token name (Leaf tok) \<longleftrightarrow> tk_Type tok = name"
| "is_token name (Node name' a b ts) = False"

fun GetText :: "tree \<Rightarrow> string" where
  "GetText (Leaf tok) = tk_Text tok"
| "GetText (Node name a b ts) = concat (map GetText ts)"

fun GetStart :: "tree \<Rightarrow> token option" where
  "GetStart (Leaf tok) = Some tok"
| "GetStart (Node name a b ts) = a"

fun GetStop :: "tree \<Rightarrow> token option" where
  "GetStop (Leaf tok) = Some tok"
| "GetStop (Node name a b ts) = b"

section \<open>Accessors\<close>

definition rules :: "string \<Rightarrow> tree \<Rightarrow> tree list" where
  "rules name t = filter (is_rule name) (tree_children t)"

definition rule_opt :: "string \<Rightarrow> tree \<Rightarrow> tree option" where
  "rule_opt name t = List.find (is_rule name) (tree_children t)"

definition rule_of :: "string \<Rightarrow> tree \<Rightarrow> tree" where
  "rule_of name t = (case rule_opt name t of Some u \<Rightarrow> u | None \<Rightarrow> no_tree)"

definition has_rule :: "string \<Rightarrow> tree \<Rightarrow> bool" where
  "has_rule name t \<longleftrightarrow> rule_opt name t \<noteq> None"

definition token_of :: "string \<Rightarrow> tree \<Rightarrow> token option" where
  "token_of name t = map_option leaf_token (List.find (is_token name) (tree_children t))"

definition has_token :: "string \<Rightarrow> tree \<Rightarrow> bool" where
  "has_token name t \<longleftrightarrow> token_of name t \<noteq> None"

text \<open>An accessor on a context that may be nil itself.\<close>

definition sub_rule :: "string \<Rightarrow> tree option \<Rightarrow> tree option" where
  "sub_rule name t = Option.bind t (rule_opt name)"

definition start_index :: "tree \<Rightarrow> int" where
  "start_index t = (case GetStart t of Some tok \<Rightarrow> tk_Start tok | None \<Rightarrow> 0)"

definition stop_index :: "tree \<Rightarrow> int" where
  "stop_index t = (case GetStop t of Some tok \<Rightarrow> tk_Stop tok | None \<Rightarrow> 0)"

definition token_index :: "tree \<Rightarrow> int" where
  "token_index t = (case GetStart t of Some tok \<Rightarrow> tk_Index tok | None \<Rightarrow> 0)"

section \<open>Walks\<close>

text \<open>The nodes that \<open>descendants\<close> visits, in the order of its visits.\<close>

fun descendants :: "tree \<Rightarrow> tree list" where
  "descendants (Leaf tok) = [Leaf tok]"
| "descendants (Node name a b ts) = Node name a b ts # concat (map descendants ts)"

definition descendant_rules :: "string \<Rightarrow> tree \<Rightarrow> tree list" where
  "descendant_rules name t = filter (is_rule name) (descendants t)"

text \<open>The same walk with the ancestors of each node, nearest first: what \<open>GetParent\<close> leads to.\<close>

fun walk :: "tree list \<Rightarrow> tree \<Rightarrow> (tree list \<times> tree) list" where
  "walk up (Leaf tok) = [(up, Leaf tok)]"
| "walk up (Node name a b ts) = (up, Node name a b ts) # concat (map (walk (Node name a b ts # up)) ts)"

lemma walk_descendants: "map snd (walk up t) = descendants t"
proof (induction t arbitrary: up)
  case (Node name a b ts)
  then show ?case by (simp add: map_concat comp_def cong: map_cong)
qed simp

lemma self_descendant [simp]: "t \<in> set (descendants t)"
  by (cases t) simp_all

lemma child_descendant: "u \<in> set (tree_children t) \<Longrightarrow> v \<in> set (descendants u) \<Longrightarrow> v \<in> set (descendants t)"
  by (cases t) auto

lemma descendants_trans: "v \<in> set (descendants u) \<Longrightarrow> u \<in> set (descendants t) \<Longrightarrow> v \<in> set (descendants t)"
  by (induction t) auto

lemma size_child [termination_simp]: "u \<in> set (tree_children t) \<Longrightarrow> size u < size t"
  by (cases t) (auto simp: size_list_estimation' less_Suc_eq_le dest: size_list_estimation' [OF _ order_refl, where f = size])

lemma rule_opt_child: "rule_opt name t = Some u \<Longrightarrow> u \<in> set (tree_children t) \<and> is_rule name u"
  by (auto simp: rule_opt_def find_Some_iff)

lemma rules_child: "u \<in> set (rules name t) \<Longrightarrow> u \<in> set (tree_children t) \<and> is_rule name u"
  by (auto simp: rules_def)

text \<open>The nodes other than the root are strictly smaller than it.\<close>

lemma size_descendant: "u \<in> set (descendants t) \<Longrightarrow> size u \<le> size t"
proof (induction t)
  case (Node name a b ts)
  have "size u \<le> size_list size ts" if "x \<in> set ts" "u \<in> set (descendants x)" for x
    using that by (intro size_list_estimation' [where x = x] Node.IH)
  with Node.prems show ?case by (auto intro: le_SucI)
qed simp

section \<open>Diagnostics\<close>

definition diagnosticAt :: "string \<Rightarrow> int \<Rightarrow> tree option \<Rightarrow> string \<Rightarrow> Diagnostic" where
  "diagnosticAt file lineOffset ctx message =
     (let (line, column) =
        (case Option.bind ctx GetStart of
           Some tok \<Rightarrow> (lineOffset + tk_Line tok, tk_Column tok + 1)
         | None \<Rightarrow> (1, 1)) in
      \<lparr>dg_Position = \<lparr>pos_File = file, pos_Line = line, pos_Column = column\<rparr>, dg_Message = message\<rparr>)"

end
