(* ===== verification/AnalyzerText.thy ===== *)
theory AnalyzerText
  imports SyntaxTree GoRunes
begin

text \<open>
  The text functions of \<open>internal/analyzer/analyzer.go\<close>: identifiers as the queries quote them, the
  annotations that start a query, rune offsets, and the list of diagnostics without repetitions.
\<close>

section \<open>Identifiers\<close>

text \<open>\<open>strings.ReplaceAll\<close> of two backquotes by one.\<close>

fun undouble :: "string \<Rightarrow> string" where
  "undouble (c # d # s) = (if c = CHR 0x60 \<and> d = CHR 0x60 then c # undouble s else c # undouble (d # s))"
| "undouble s = s"

definition identifier_of :: "string \<Rightarrow> string" where
  "identifier_of text =
     (if length text < 2 then text
      else if hd text = CHR 0x60 then (if last text = CHR 0x60 then undouble (butlast (tl text)) else text)
      else if hd text = CHR 0x22 then
        (if last text = CHR 0x22 then (case Unquote text of Some v \<Rightarrow> v | None \<Rightarrow> text) else text)
      else text)"

definition bindName :: "tree option \<Rightarrow> string" where
  "bindName ctx = (case ctx of None \<Rightarrow> [] | Some t \<Rightarrow> identifier_of (trim_prefix (GetText t) ''$''))"

text \<open>A name in backquotes, its own backquotes doubled (\<open>Type.String\<close> writes member names like this).\<close>

definition back_quoted :: "string \<Rightarrow> string" where
  "back_quoted n = CHR 0x60 # str_replace_char (CHR 0x60) [CHR 0x60, CHR 0x60] n @ [CHR 0x60]"

lemma undouble_double [simp]: "undouble (str_replace_char (CHR 0x60) [CHR 0x60, CHR 0x60] n) = n"
proof (induction n)
  case (Cons c n)
  show ?case
  proof (cases "c = CHR 0x60")
    case False
    then have "undouble (c # s) = c # undouble s" for s by (cases s) simp_all
    with False Cons show ?thesis by simp
  qed (use Cons in simp)
qed simp

lemma identifier_back_quoted [simp]: "identifier_of (back_quoted n) = n"
  by (simp add: identifier_of_def back_quoted_def)

lemma identifier_plain: "hd text \<noteq> CHR 0x60 \<Longrightarrow> hd text \<noteq> CHR 0x22 \<Longrightarrow> identifier_of text = text"
  by (simp add: identifier_of_def)

section \<open>Rune offsets\<close>

function rune_offset :: "string \<Rightarrow> nat \<Rightarrow> nat" where
  "rune_offset s n =
     (if s = [] \<or> n = 0 then 0
      else (let size = min (snd (decode_rune s)) (length s) in size + rune_offset (drop size s) (n - 1)))"
  by pat_completeness auto
termination
  by (relation "measure snd") auto

declare rune_offset.simps [simp del]

definition runeByteOffset :: "string \<Rightarrow> int \<Rightarrow> nat" where
  "runeByteOffset text runeIndex = (if runeIndex \<le> 0 then 0 else rune_offset text (nat runeIndex))"

lemma rune_offset_le: "rune_offset s n \<le> length s"
proof (induction s n rule: rune_offset.induct)
  case (1 s n)
  show ?case
  proof (cases "s = [] \<or> n = 0")
    case False
    define size where "size = min (snd (decode_rune s)) (length s)"
    have "rune_offset (drop size s) (n - 1) \<le> length (drop size s)"
      using 1 [OF False refl] by (simp add: size_def)
    moreover have "rune_offset s n = size + rune_offset (drop size s) (n - 1)"
      using False by (subst rune_offset.simps) (simp add: size_def Let_def)
    moreover have "size \<le> length s" by (simp add: size_def)
    ultimately show ?thesis by simp
  qed (auto simp: rune_offset.simps)
qed

lemma runeByteOffset_le: "runeByteOffset text i \<le> length text"
  by (simp add: runeByteOffset_def rune_offset_le)

section \<open>Annotations\<close>

text \<open>\<open>strings.Fields\<close>: the maximal runs without white space.\<close>

function str_fields :: "string \<Rightarrow> string \<Rightarrow> string list" where
  "str_fields word s =
     (case rune_prefix space_runes s of
        Some r \<Rightarrow> (if word = [] then [] else [word]) @ str_fields [] (drop (length r) s)
      | None \<Rightarrow> (case s of
          [] \<Rightarrow> if word = [] then [] else [word]
        | c # cs \<Rightarrow> str_fields (word @ [c]) cs))"
  by pat_completeness auto
termination
  by (relation "measure (\<lambda>(w, s). length s)") (auto simp: rune_prefix_def find_Some_iff has_prefix_iff)

declare str_fields.simps [simp del]

definition Fields_of :: "string \<Rightarrow> string list" where
  "Fields_of s = str_fields [] s"

definition commands :: "Command list" where
  "commands = [One, Many, Multi, Each, Exec, ExecRows]"

text \<open>The name, the command, whether there is an annotation, and a message if it is malformed.\<close>

definition parseAnnotation :: "string \<Rightarrow> string \<times> Command \<times> bool \<times> string" where
  "parseAnnotation line =
     (let text = TrimSpace line in
      if \<not> has_prefix text ''--'' then ([], [], False, [])
      else (let text = TrimSpace (trim_prefix text ''--'');
                text = (if has_prefix (to_lower text) ''sqlc'' then
                    TrimSpace (trim_prefix (TrimSpace (drop (length ''sqlc'') text)) ''--'') else text) in
        if \<not> has_prefix (to_lower text) ''name:'' then ([], [], False, [])
        else (case Fields_of (TrimSpace (drop (length ''name:'') text)) of
            [name, command] \<Rightarrow>
              (if List.member commands command then (name, command, True, [])
               else ([], [], False, sprintf ''unsupported query command %q'' [FStr command]))
          | _ \<Rightarrow> ([], [], False,
              ''invalid query annotation; expected -- name: QueryName :one|:many|:multi|:each|:exec|:execrows''))))"

section \<open>Diagnostics\<close>

fun unique_from :: "Diagnostic list \<Rightarrow> Diagnostic list \<Rightarrow> Diagnostic list" where
  "unique_from seen [] = []"
| "unique_from seen (d # ds) =
     (if List.member seen d then unique_from seen ds else d # unique_from (d # seen) ds)"

definition uniqueDiagnostics :: "Diagnostic list \<Rightarrow> Diagnostic list" where
  "uniqueDiagnostics ds = unique_from [] ds"

lemma unique_from_set: "set (unique_from seen ds) = set ds - set seen"
  by (induction ds arbitrary: seen) auto

lemma uniqueDiagnostics_set [simp]: "set (uniqueDiagnostics ds) = set ds"
  by (simp add: uniqueDiagnostics_def unique_from_set)

lemma unique_from_distinct: "distinct (unique_from seen ds)"
  by (induction ds arbitrary: seen) (auto simp: unique_from_set)

lemma uniqueDiagnostics_distinct [simp]: "distinct (uniqueDiagnostics ds)"
  by (simp add: uniqueDiagnostics_def unique_from_distinct)

end
