(* ===== verification/YqlTypes.thy ===== *)
theory YqlTypes
  imports AnalyzerText
begin

text \<open>
  The reader of YQL type names of \<open>internal/analyzer/catalog.go\<close> (\<open>parseType\<close>, \<open>typeReader\<close>). The
  reader's text and index are the text and what is left of it after the index. The reading functions
  take fuel, one unit per call; \<open>read_type_total\<close> shows that the length of the text is enough.
\<close>

section \<open>The tables\<close>

definition simpleTypes :: "(string \<times> string) list" where
  "simpleTypes =
    [(''bool'', ''Bool''), (''int8'', ''Int8''), (''int16'', ''Int16''), (''int32'', ''Int32''), (''int64'', ''Int64''),
     (''tinyint'', ''Int8''), (''smallint'', ''Int16''), (''int'', ''Int32''), (''integer'', ''Int32''), (''bigint'', ''Int64''),
     (''uint8'', ''Uint8''), (''uint16'', ''Uint16''), (''uint32'', ''Uint32''), (''uint64'', ''Uint64''),
     (''float'', ''Float''), (''double'', ''Double''), (''string'', ''String''), (''bytes'', ''String''), (''utf8'', ''Utf8''), (''text'', ''Utf8''),
     (''yson'', ''Yson''), (''json'', ''Json''), (''jsondocument'', ''JsonDocument''), (''uuid'', ''Uuid''), (''dynumber'', ''DyNumber''),
     (''date'', ''Date''), (''datetime'', ''Datetime''), (''timestamp'', ''Timestamp''), (''interval'', ''Interval''),
     (''date32'', ''Date32''), (''datetime64'', ''Datetime64''), (''timestamp64'', ''Timestamp64''), (''interval64'', ''Interval64''),
     (''tzdate'', ''TzDate''), (''tzdatetime'', ''TzDatetime''), (''tztimestamp'', ''TzTimestamp''), (''void'', ''Void''), (''null'', ''Null'')]"

definition serialTypes :: "(string \<times> string) list" where
  "serialTypes =
    [(''smallserial'', ''Int16''), (''serial2'', ''Int16''), (''serial'', ''Int32''), (''serial4'', ''Int32''),
     (''serial8'', ''Int64''), (''bigserial'', ''Int64'')]"

definition canonicalConstructor :: "string \<Rightarrow> string" where
  "canonicalConstructor name =
     switch [([''optional''], ''Optional''), ([''list''], ''List''), ([''stream''], ''Stream''), ([''flow''], ''Flow''), ([''set''], ''Set'')]
       name (to_lower name)"

definition serialType :: "string \<Rightarrow> ty option" where
  "serialType text = map_option mk_kind (map_of serialTypes (to_lower text))"

section \<open>The reader\<close>

definition type_char :: "char \<Rightarrow> bool" where
  "type_char c \<longleftrightarrow> c = CHR ''_'' \<or> (97 \<le> byte c \<and> byte c \<le> 122) \<or> (65 \<le> byte c \<and> byte c \<le> 90) \<or> (48 \<le> byte c \<and> byte c \<le> 57)"

definition decimal_digit :: "char \<Rightarrow> bool" where
  "decimal_digit c \<longleftrightarrow> 48 \<le> byte c \<and> byte c \<le> 57"

text \<open>\<open>consume\<close>: the rest after the character, if it is the next one.\<close>

definition consume :: "char \<Rightarrow> string \<Rightarrow> string option" where
  "consume c s = (case s of d # cs \<Rightarrow> if d = c then Some cs else None | [] \<Rightarrow> None)"

text \<open>\<open>strconv.Atoi\<close> of a run of digits fails beyond 64 bits.\<close>

definition readNumber :: "string \<Rightarrow> (int \<times> string) option" where
  "readNumber s =
     (let digits = takeWhile decimal_digit s in
      if digits = [] then None
      else (case ParseInt digits 10 64 of None \<Rightarrow> None | Some v \<Rightarrow> Some (v, dropWhile decimal_digit s)))"

text \<open>The characters of a quoted name after the opening quote, up to the closing one.\<close>

fun quoted_end :: "char \<Rightarrow> string \<Rightarrow> (string \<times> string) option" where
  "quoted_end q [] = None"
| "quoted_end q [c] = (if c = q then Some ([c], []) else None)"
| "quoted_end q (c # d # s) =
     (if c = CHR 0x5C \<and> q \<noteq> CHR 0x60 then map_option (\<lambda>(a, b). (c # d # a, b)) (quoted_end q s)
      else if c \<noteq> q then map_option (\<lambda>(a, b). (c # a, b)) (quoted_end q (d # s))
      else if q = CHR 0x60 \<and> d = CHR 0x60 then map_option (\<lambda>(a, b). (c # d # a, b)) (quoted_end q s)
      else Some ([c], d # s))"

text \<open>The body of a quoted name: every character read is written as a rune.\<close>

function unquote_name :: "string \<Rightarrow> char \<Rightarrow> string \<Rightarrow> string option" where
  "unquote_name out q body =
     (if body = [] then Some out
      else (case UnquoteChar body q of
          None \<Rightarrow> None
        | Some (v, multibyte, tail) \<Rightarrow> unquote_name (out @ encode_rune v) q tail))"
  by pat_completeness auto
termination
  by (relation "measure (\<lambda>(out, q, body). length body)") (auto dest: UnquoteChar_length)

definition readStructFieldName :: "string \<Rightarrow> (string \<times> string) option" where
  "readStructFieldName s =
     (case s of
        [] \<Rightarrow> None
      | q # cs \<Rightarrow>
          if q = CHR 0x60 \<or> q = CHR 0x27 \<or> q = CHR 0x22 then
            (case quoted_end q cs of
               None \<Rightarrow> None
             | Some (body, rest) \<Rightarrow>
                 if q = CHR 0x60 then Some (identifier_of (q # body), rest)
                 else map_option (\<lambda>name. (name, rest)) (unquote_name [] q (butlast body)))
          else (let name = takeWhile (\<lambda>c. c \<noteq> CHR '':'') s in
            if name = [] \<or> list_ex (\<lambda>c. c \<in> set ''$<>,?()'') name then None
            else Some (name, dropWhile (\<lambda>c. c \<noteq> CHR '':'') s)))"

definition unsupported_type :: "string \<Rightarrow> 'a res" where
  "unsupported_type text = Inl (Errorf ''unsupported YQL type %q'' [FStr text])"

text \<open>What follows the name of a type that is not a constructor.\<close>

definition read_scalar :: "string \<Rightarrow> string \<Rightarrow> string \<Rightarrow> (ty \<times> string) res" where
  "read_scalar text name s =
     (let simple = (\<lambda>s. case map_of simpleTypes (to_lower name) of
            Some canonical \<Rightarrow> Inr (mk_kind canonical, s)
          | None \<Rightarrow> unsupported_type name) in
      case consume (CHR ''('') s of
        None \<Rightarrow> simple s
      | Some s \<Rightarrow>
          if \<not> equal_fold name ''decimal'' then simple s
          else (case Option.bind (readNumber s) (\<lambda>(precision, s). Option.bind (consume (CHR '','') s) (\<lambda>s.
                  Option.bind (readNumber s) (\<lambda>(scale, s). map_option (\<lambda>s. (precision, scale, s)) (consume (CHR '')'') s)))) of
              None \<Rightarrow> unsupported_type text
            | Some (precision, scale, s) \<Rightarrow>
                if precision < 1 \<or> precision > 35 \<or> scale > precision then
                  Inl (Errorf ''invalid Decimal(%d,%d): precision must be 1..35 and scale 0..precision'' [FInt precision, FInt scale])
                else Inr (Ty ''Decimal'' None None [] [] [] precision scale, s)))"

text \<open>The question marks after a type.\<close>

fun read_optional :: "ty \<Rightarrow> string \<Rightarrow> ty \<times> string" where
  "read_optional t (c # s) = (if c = CHR ''?'' then read_optional (Optional t) s else (t, c # s))"
| "read_optional t [] = (t, [])"

text \<open>A result of reading, when the fuel was enough, continued.\<close>

definition read_then :: "'a res option \<Rightarrow> ('a \<Rightarrow> 'b res option) \<Rightarrow> 'b res option" where
  "read_then r f = (case r of None \<Rightarrow> None | Some (Inl e) \<Rightarrow> Some (Inl e) | Some (Inr x) \<Rightarrow> f x)"

text \<open>The same when the code replaces the error.\<close>

definition read_or :: "go_error \<Rightarrow> 'a res option \<Rightarrow> ('a \<Rightarrow> 'b res option) \<Rightarrow> 'b res option" where
  "read_or e r f = read_then (map_option (map_error (\<lambda>_. e)) r) f"

definition type_error :: "string \<Rightarrow> go_error" where
  "type_error text = Errorf ''unsupported YQL type %q'' [FStr text]"

definition expect :: "char \<Rightarrow> string \<Rightarrow> string \<Rightarrow> (string \<Rightarrow> 'b res option) \<Rightarrow> 'b res option" where
  "expect c text s f = (case consume c s of None \<Rightarrow> Some (Inl (type_error text)) | Some s' \<Rightarrow> f s')"

type_synonym reader = "string \<Rightarrow> string \<Rightarrow> (ty \<times> string) res option"

text \<open>The loops over the members of a Struct and the items of a Tuple; \<open>rd\<close> reads one type.\<close>

definition read_member :: "string \<Rightarrow> (string \<times> string) option" where
  "read_member s =
     (case readStructFieldName s of
        None \<Rightarrow> None
      | Some (field, s) \<Rightarrow> if field = [] then None else map_option (\<lambda>s. (field, s)) (consume (CHR '':'') s))"

primrec read_fields :: "nat \<Rightarrow> reader \<Rightarrow> string \<Rightarrow> (string \<times> ty) list \<Rightarrow> string \<Rightarrow> (ty \<times> string) res option" where
  "read_fields 0 rd text fs s = None"
| "read_fields (Suc n) rd text fs s =
     (case read_member s of
        None \<Rightarrow> Some (Inl (Errorf ''invalid or unsupported Struct field in %q'' [FStr text]))
      | Some (field, s) \<Rightarrow>
          if List.member (map fst fs) field then Some (Inl (Errorf ''duplicate Struct field %q'' [FStr field]))
          else read_then (rd text s) (\<lambda>(typ, s).
            let fs = fs @ [(field, typ)] in
            case consume (CHR ''>'') s of
              Some s \<Rightarrow> Some (Inr (mk_struct fs, s))
            | None \<Rightarrow> expect (CHR '','') text s (\<lambda>s.
                case consume (CHR ''>'') s of
                  Some s \<Rightarrow> Some (Inr (mk_struct fs, s))
                | None \<Rightarrow> read_fields n rd text fs s)))"

primrec read_items :: "nat \<Rightarrow> reader \<Rightarrow> string \<Rightarrow> ty list \<Rightarrow> string \<Rightarrow> (ty \<times> string) res option" where
  "read_items 0 rd text items s = None"
| "read_items (Suc n) rd text items s =
     read_or (type_error text) (rd text s) (\<lambda>(item, s).
       let items = items @ [item] in
       case consume (CHR ''>'') s of
         Some s \<Rightarrow> Some (Inr (mk_tuple items, s))
       | None \<Rightarrow> expect (CHR '','') text s (\<lambda>s. read_items n rd text items s))"

text \<open>The arguments of a constructor, after its opening bracket.\<close>

definition read_constructor :: "nat \<Rightarrow> reader \<Rightarrow> string \<Rightarrow> string \<Rightarrow> string \<Rightarrow> (ty \<times> string) res option" where
  "read_constructor n rd text name s =
     (let lower = to_lower name in
      if List.member [''optional'', ''list'', ''stream'', ''flow'', ''set''] lower then
        read_then (rd text s) (\<lambda>(elem, s). expect (CHR ''>'') text s (\<lambda>s.
          Some (Inr (Ty (canonicalConstructor name) (Some elem) None [] [] [] 0 0, s))))
      else if lower = ''dict'' then
        read_or (type_error text) (rd text s) (\<lambda>(key, s). expect (CHR '','') text s (\<lambda>s.
          read_then (rd text s) (\<lambda>(value', s). expect (CHR ''>'') text s (\<lambda>s.
            Some (Inr (mk_dict key value', s))))))
      else if lower = ''struct'' then read_fields n rd text [] s
      else if lower = ''tuple'' then read_items n rd text [] s
      else Some (Inl (Errorf ''unsupported YQL type constructor %q'' [FStr name])))"

primrec read_type :: "nat \<Rightarrow> reader" where
  "read_type 0 = (\<lambda>text s. None)"
| "read_type (Suc n) = (\<lambda>text s.
     let name = takeWhile type_char s; s = dropWhile type_char s in
     if name = [] then Some (Inl (type_error text))
     else read_then
       (case consume (CHR ''<'') s of
          None \<Rightarrow> Some (read_scalar text name s)
        | Some s \<Rightarrow> read_constructor n (read_type n) text name s)
       (\<lambda>(t, s). Some (Inr (read_optional t s))))"

definition parse_type_fuel :: "nat \<Rightarrow> string \<Rightarrow> ty res option" where
  "parse_type_fuel n text =
     read_then (read_type n text text) (\<lambda>(t, s). Some (if s \<noteq> [] then unsupported_type text else Inr t))"

text \<open>\<open>parseType\<close>. The fuel is always enough, so \<open>None\<close> never occurs.\<close>

definition parseType :: "string \<Rightarrow> ty res" where
  "parseType text = (case parse_type_fuel (Suc (length text)) text of Some r \<Rightarrow> r | None \<Rightarrow> unsupported_type text)"

section \<open>Reading terminates\<close>

lemma read_then_Some [simp]:
  "read_then (Some (Inr x)) f = f x" "read_then (Some (Inl e)) f = Some (Inl e)" "read_then None f = None"
  by (simp_all add: read_then_def)

lemma read_then_Inr_iff [result_simps]:
  "read_then r f = Some (Inr y) \<longleftrightarrow> (\<exists>x. r = Some (Inr x) \<and> f x = Some (Inr y))"
  by (auto simp: read_then_def split: option.splits sum.splits)

lemma read_or_Inr_iff [result_simps]:
  "read_or e r f = Some (Inr y) \<longleftrightarrow> (\<exists>x. r = Some (Inr x) \<and> f x = Some (Inr y))"
  by (auto simp: read_or_def read_then_Inr_iff result_simps)

lemma expect_Inr_iff [result_simps]:
  "expect c text s f = Some (Inr y) \<longleftrightarrow> (\<exists>s'. s = c # s' \<and> f s' = Some (Inr y))"
  by (auto simp: expect_def consume_def split: list.splits option.splits)

lemma consume_Some_iff [simp]: "consume c s = Some s' \<longleftrightarrow> s = c # s'"
  by (auto simp: consume_def split: list.splits)

lemma consume_Cons [simp]: "consume c (c # s) = Some s"
  by simp

lemma consume_None_iff: "consume c s = None \<longleftrightarrow> s = [] \<or> hd s \<noteq> c"
  by (auto simp: consume_def split: list.splits)

lemma read_optional_length: "length (snd (read_optional t s)) \<le> length s"
  by (induction t s rule: read_optional.induct) (auto intro: le_SucI)

lemma dropWhile_length: "length (dropWhile P s) \<le> length s"
  by (induction s) auto

lemma takeWhile_dropWhile_length: "takeWhile P s \<noteq> [] \<Longrightarrow> length (dropWhile P s) < length s"
  by (metis append_Nil length_append length_greater_0_conv less_add_same_cancel2 takeWhile_dropWhile_id)

lemma quoted_end_length: "quoted_end q s = Some (a, b) \<Longrightarrow> length b < length s"
  by (induction q s arbitrary: a b rule: quoted_end.induct) (auto split: if_splits)

lemma readStructFieldName_length: "readStructFieldName s = Some (a, b) \<Longrightarrow> length b \<le> length s"
  unfolding readStructFieldName_def
  by (auto split: list.splits if_splits option.splits simp: Let_def dropWhile_length
      dest!: quoted_end_length intro: le_SucI)

lemma read_member_length: "read_member s = Some (a, b) \<Longrightarrow> length b < length s"
  by (auto simp: read_member_def split: option.splits if_splits dest!: readStructFieldName_length)

lemma readNumber_length: "readNumber s = Some (v, b) \<Longrightarrow> length b < length s"
  by (auto simp: readNumber_def Let_def takeWhile_dropWhile_length split: if_splits option.splits)

text \<open>A reader that leaves less than it gets.\<close>

definition shrinks :: "reader \<Rightarrow> bool" where
  "shrinks rd \<longleftrightarrow> (\<forall>text s t s'. rd text s = Some (Inr (t, s')) \<longrightarrow> length s' < length s)"

lemma shrinksD: "shrinks rd \<Longrightarrow> rd text s = Some (Inr (t, s')) \<Longrightarrow> length s' < length s"
  by (simp add: shrinks_def)

lemma read_fields_length:
  assumes "shrinks rd"
  shows "read_fields n rd text fs s = Some (Inr (t, s')) \<Longrightarrow> length s' < length s"
proof (induction n arbitrary: fs s)
  case (Suc n)
  then obtain field s1 ft s2 where 1: "read_member s = Some (field, s1)" "rd text s1 = Some (Inr (ft, s2))"
    by (auto simp: result_simps split: option.splits if_splits)
  have "length s1 < length s" "length s2 < length s1"
    using read_member_length [OF 1(1)] shrinksD [OF assms 1(2)] .
  with Suc 1 show ?case
    by (fastforce simp: result_simps Let_def split: option.splits if_splits)
qed simp

lemma read_items_length:
  assumes "shrinks rd"
  shows "read_items n rd text items s = Some (Inr (t, s')) \<Longrightarrow> length s' < length s"
proof (induction n arbitrary: items s)
  case (Suc n)
  then obtain item s1 where 1: "rd text s = Some (Inr (item, s1))"
    by (auto simp: result_simps)
  with Suc shrinksD [OF assms 1] show ?case
    by (fastforce simp: result_simps Let_def split: option.splits)
qed simp

lemma read_scalar_length: "read_scalar text name s = Inr (t, s') \<Longrightarrow> length s' \<le> length s"
  unfolding read_scalar_def
  by (auto simp: Let_def unsupported_type_def bind_eq_Some_conv split: option.splits if_splits dest!: readNumber_length)

lemma read_constructor_length:
  assumes "shrinks rd" "read_constructor n rd text name s = Some (Inr (t, s'))"
  shows "length s' \<le> length s"
proof -
  note r = assms(2) [unfolded read_constructor_def Let_def]
  consider (unary) "List.member [''optional'', ''list'', ''stream'', ''flow'', ''set''] (to_lower name)"
    | (dict) "to_lower name = ''dict''" | (struct) "to_lower name = ''struct''" | (tuple) "to_lower name = ''tuple''"
    using r by (auto split: if_splits)
  then show ?thesis
  proof cases
    case unary
    with r obtain e s1 where 1: "rd text s = Some (Inr (e, CHR ''>'' # s1))" "s' = s1"
      by (auto simp: result_simps)
    then show ?thesis using shrinksD [OF assms(1) 1(1)] by simp
  next
    case dict
    with r obtain k s1 v s2 where 1: "rd text s = Some (Inr (k, CHR '','' # s1))" "rd text s1 = Some (Inr (v, CHR ''>'' # s2))" "s' = s2"
      by (auto simp: result_simps)
    then show ?thesis using shrinksD [OF assms(1) 1(1)] shrinksD [OF assms(1) 1(2)] by simp
  next
    case struct
    with r have "read_fields n rd text [] s = Some (Inr (t, s'))" by simp
    then show ?thesis using read_fields_length [OF assms(1)] by (simp add: less_imp_le)
  next
    case tuple
    with r have "read_items n rd text [] s = Some (Inr (t, s'))" by simp
    then show ?thesis using read_items_length [OF assms(1)] by (simp add: less_imp_le)
  qed
qed

lemma read_type_shrinks: "shrinks (read_type n)"
proof (induction n)
  case (Suc n)
  show ?case unfolding shrinks_def
  proof (intro allI impI)
    fix tx s t s'
    assume "read_type (Suc n) tx s = Some (Inr (t, s'))"
    then obtain u s1 where name: "takeWhile type_char s \<noteq> []"
      and r: "(case consume (CHR ''<'') (dropWhile type_char s) of
          None \<Rightarrow> Some (read_scalar tx (takeWhile type_char s) (dropWhile type_char s))
        | Some s \<Rightarrow> read_constructor n (read_type n) tx (takeWhile type_char s) s) = Some (Inr (u, s1)) \<or>
        (\<exists>s2. dropWhile type_char s = CHR ''<'' # s2 \<and> read_constructor n (read_type n) tx (takeWhile type_char s) s2 = Some (Inr (u, s1)))"
      and e: "read_optional u s1 = (t, s')"
      by (auto simp: Let_def result_simps split: if_splits option.splits)
    have "length s1 \<le> length (dropWhile type_char s)"
      using r by (auto split: option.splits dest!: read_scalar_length read_constructor_length [OF Suc])
    moreover have "length s' \<le> length s1" using read_optional_length [of u s1] e by simp
    ultimately show "length s' < length s" using takeWhile_dropWhile_length [OF name] by simp
  qed
qed (simp add: shrinks_def)

text \<open>With a unit of fuel per character reading always ends.\<close>

definition total_below :: "nat \<Rightarrow> reader \<Rightarrow> bool" where
  "total_below n rd \<longleftrightarrow> (\<forall>text s. length s < n \<longrightarrow> rd text s \<noteq> None)"

lemma total_belowD: "total_below n rd \<Longrightarrow> length s < n \<Longrightarrow> rd text s \<noteq> None"
  by (simp add: total_below_def)

lemma read_then_None_iff: "read_then r f = None \<longleftrightarrow> r = None \<or> (\<exists>x. r = Some (Inr x) \<and> f x = None)"
  by (auto simp: read_then_def split: option.splits sum.splits)

lemma read_or_None_iff: "read_or e r f = None \<longleftrightarrow> r = None \<or> (\<exists>x. r = Some (Inr x) \<and> f x = None)"
  by (auto simp: read_or_def read_then_None_iff result_simps)

lemma expect_None_iff: "expect c text s f = None \<longleftrightarrow> (\<exists>s'. s = c # s' \<and> f s' = None)"
  by (auto simp: expect_def consume_def split: list.splits option.splits)

lemmas read_None_iffs = read_then_None_iff read_or_None_iff expect_None_iff

lemma read_fields_total:
  assumes "shrinks rd" "total_below m rd"
  shows "length s < n \<Longrightarrow> length s \<le> m \<Longrightarrow> read_fields n rd text fs s \<noteq> None"
proof (induction n arbitrary: fs s)
  case (Suc n)
  show ?case
  proof
    assume none: "read_fields (Suc n) rd text fs s = None"
    then obtain field s1 where 1: "read_member s = Some (field, s1)" "\<not> List.member (map fst fs) field"
      by (auto split: option.splits if_splits)
    have s1: "length s1 < length s" using read_member_length [OF 1(1)] .
    then have "rd text s1 \<noteq> None" using Suc.prems by (intro total_belowD [OF assms(2)]) simp
    with none 1 obtain u s2 s3 where 2: "rd text s1 = Some (Inr (u, s2))" "s2 = CHR '','' # s3"
        "read_fields n rd text (fs @ [(field, u)]) s3 = None"
      by (auto simp: read_None_iffs Let_def split: option.splits)
    have "length s2 < length s1" using shrinksD [OF assms(1) 2(1)] .
    with 2(2) s1 Suc.prems have "length s3 < n" "length s3 \<le> m" by simp_all
    with Suc.IH 2(3) show False by blast
  qed
qed simp

lemma read_items_total:
  assumes "shrinks rd" "total_below m rd"
  shows "length s < n \<Longrightarrow> length s < m \<Longrightarrow> read_items n rd text items s \<noteq> None"
proof (induction n arbitrary: items s)
  case (Suc n)
  show ?case
  proof
    assume none: "read_items (Suc n) rd text items s = None"
    have "rd text s \<noteq> None" using Suc.prems by (intro total_belowD [OF assms(2)])
    with none obtain u s2 s3 where 2: "rd text s = Some (Inr (u, s2))" "s2 = CHR '','' # s3"
        "read_items n rd text (items @ [u]) s3 = None"
      by (auto simp: read_None_iffs Let_def split: option.splits)
    have "length s2 < length s" using shrinksD [OF assms(1) 2(1)] .
    with 2(2) Suc.prems have "length s3 < n" "length s3 < m" by simp_all
    with Suc.IH 2(3) show False by blast
  qed
qed simp

lemma read_constructor_total:
  assumes "shrinks rd" "total_below n rd" "length s < n"
  shows "read_constructor n rd text name s \<noteq> None"
proof
  assume none: "read_constructor n rd text name s = None"
  have here: "rd text s' \<noteq> None" if "length s' \<le> length s" for s'
    using that assms(3) by (intro total_belowD [OF assms(2)]) simp
  have later: "rd text s1 \<noteq> None" if "rd text s = Some (Inr (k, c # s1))" for k c s1
    using shrinksD [OF assms(1) that] by (intro here) simp
  show False
    using none here [of s] later read_fields_total [OF assms(1,2,3), of "text" "[]"] read_items_total [OF assms(1,2,3), of "text" "[]"] assms(3)
    unfolding read_constructor_def Let_def
    by (auto simp: read_None_iffs split: if_splits)
qed

lemma read_type_total: "total_below n (read_type n)"
proof (induction n)
  case (Suc n)
  show ?case unfolding total_below_def
  proof (intro allI impI notI)
    fix tx s
    assume "length (s :: string) < Suc n" "read_type (Suc n) tx s = None"
    then obtain s2 where "takeWhile type_char s \<noteq> []" "dropWhile type_char s = CHR ''<'' # s2"
        "read_constructor n (read_type n) tx (takeWhile type_char s) s2 = None"
      by (auto simp: Let_def read_None_iffs split: if_splits option.splits)
    moreover from this have "length s2 < n"
      using takeWhile_dropWhile_length [of type_char s] \<open>length s < Suc n\<close> by simp
    ultimately show False using read_constructor_total [OF read_type_shrinks Suc] by blast
  qed
qed (simp add: total_below_def)

lemma parse_type_total: "\<exists>r. parse_type_fuel (Suc (length text)) text = Some r"
proof -
  have "read_type (Suc (length text)) text text \<noteq> None"
    by (rule total_belowD [OF read_type_total]) simp
  then show ?thesis unfolding parse_type_fuel_def by (auto simp: read_then_def split: option.splits sum.splits)
qed

section \<open>The types that are read\<close>

inductive yql_type :: "ty \<Rightarrow> bool" where
  yql_scalar: "k \<in> snd ` set simpleTypes \<Longrightarrow> yql_type (mk_kind k)"
| yql_decimal: "1 \<le> p \<Longrightarrow> p \<le> 35 \<Longrightarrow> 0 \<le> s \<Longrightarrow> s \<le> p \<Longrightarrow> yql_type (Ty ''Decimal'' None None [] [] [] p s)"
| yql_unary: "k \<in> {''Optional'', ''List'', ''Stream'', ''Flow'', ''Set''} \<Longrightarrow> yql_type e \<Longrightarrow> yql_type (Ty k (Some e) None [] [] [] 0 0)"
| yql_dict: "yql_type k \<Longrightarrow> yql_type v \<Longrightarrow> yql_type (mk_dict k v)"
| yql_struct: "fs \<noteq> [] \<Longrightarrow> distinct (map fst fs) \<Longrightarrow> (\<And>n t. (n, t) \<in> set fs \<Longrightarrow> n \<noteq> [] \<and> yql_type t) \<Longrightarrow> yql_type (mk_struct fs)"
| yql_tuple: "ts \<noteq> [] \<Longrightarrow> (\<And>t. t \<in> set ts \<Longrightarrow> yql_type t) \<Longrightarrow> yql_type (mk_tuple ts)"

definition reads_types :: "reader \<Rightarrow> bool" where
  "reads_types rd \<longleftrightarrow> (\<forall>text s t s'. rd text s = Some (Inr (t, s')) \<longrightarrow> yql_type t)"

lemma reads_typesD: "reads_types rd \<Longrightarrow> rd text s = Some (Inr (t, s')) \<Longrightarrow> yql_type t"
  by (auto simp: reads_types_def)

lemma yql_optional: "yql_type t \<Longrightarrow> yql_type (fst (read_optional t s))"
proof (induction t s rule: read_optional.induct)
  case (1 t c s)
  have "yql_type (Optional t)" unfolding Optional_def using 1(2) by (rule yql_unary [rotated]) simp
  with 1 show ?case by simp
qed simp

lemma ParseInt_digits:
  assumes "list_all decimal_digit s" "ParseInt s 10 64 = Some v"
  shows "0 \<le> v"
proof -
  have "\<not> fst (split_sign s)"
    using assms(1) by (cases s) (auto simp: split_sign_def decimal_digit_def byte_def)
  with assms(2) show ?thesis by (auto simp: ParseInt_def split: prod.splits option.splits if_splits)
qed

lemma readNumber_nonneg: "readNumber s = Some (v, s') \<Longrightarrow> 0 \<le> v"
  by (auto simp: readNumber_def Let_def list_all_iff split: if_splits option.splits dest!: ParseInt_digits [rotated] dest: set_takeWhileD)

lemma read_scalar_type:
  assumes "read_scalar text name s = Inr (t, s')"
  shows "yql_type t"
proof -
  have simple: "yql_type u" if "map_of simpleTypes k = Some v" "u = mk_kind v" for k v u
    using that by (auto intro!: yql_scalar dest!: map_of_SomeD simp: rev_image_eqI)
  show ?thesis
    using assms unfolding read_scalar_def
    by (auto simp: Let_def unsupported_type_def bind_eq_Some_conv simple split: option.splits if_splits
        intro!: yql_decimal dest: readNumber_nonneg)
qed

lemma read_fields_type:
  assumes "reads_types rd"
  shows "read_fields n rd text fs s = Some (Inr (t, s')) \<Longrightarrow> distinct (map fst fs)
    \<Longrightarrow> (\<And>n u. (n, u) \<in> set fs \<Longrightarrow> n \<noteq> [] \<and> yql_type u) \<Longrightarrow> yql_type t"
proof (induction n arbitrary: fs s)
  case (Suc n)
  then obtain field s1 u s2 where 1: "read_member s = Some (field, s1)" "rd text s1 = Some (Inr (u, s2))"
      "\<not> List.member (map fst fs) field"
    by (auto simp: result_simps split: option.splits if_splits)
  have f: "field \<noteq> []" using 1(1) by (auto simp: read_member_def split: option.splits if_splits)
  let ?fs = "fs @ [(field, u)]"
  have fs: "distinct (map fst ?fs)" "\<And>n u. (n, u) \<in> set ?fs \<Longrightarrow> n \<noteq> [] \<and> yql_type u"
    using Suc.prems(2,3) 1(3) f reads_typesD [OF assms 1(2)] by auto
  have "t = mk_struct ?fs \<or> (\<exists>s3. read_fields n rd text ?fs s3 = Some (Inr (t, s')))"
    using Suc.prems(1) 1 by (auto simp: result_simps Let_def split: option.splits if_splits)
  then show ?case
  proof
    assume "t = mk_struct ?fs"
    moreover have "yql_type (mk_struct ?fs)" using fs by (intro yql_struct) simp_all
    ultimately show ?thesis by simp
  qed (use Suc.IH [of ?fs] fs in blast)
qed simp

lemma read_items_type:
  assumes "reads_types rd"
  shows "read_items n rd text items s = Some (Inr (t, s')) \<Longrightarrow> (\<And>u. u \<in> set items \<Longrightarrow> yql_type u) \<Longrightarrow> yql_type t"
proof (induction n arbitrary: items s)
  case (Suc n)
  then obtain u s1 where 1: "rd text s = Some (Inr (u, s1))"
    by (auto simp: result_simps)
  let ?items = "items @ [u]"
  have items: "\<And>v. v \<in> set ?items \<Longrightarrow> yql_type v" using Suc.prems(2) reads_typesD [OF assms 1] by auto
  have "t = mk_tuple ?items \<or> (\<exists>s3. read_items n rd text ?items s3 = Some (Inr (t, s')))"
    using Suc.prems(1) 1 by (auto simp: result_simps Let_def split: option.splits if_splits)
  then show ?case
  proof
    assume "t = mk_tuple ?items"
    moreover have "yql_type (mk_tuple ?items)" using items by (intro yql_tuple) simp_all
    ultimately show ?thesis by simp
  qed (use Suc.IH [of ?items] items in blast)
qed simp

lemma canonicalConstructor_unary:
  "List.member [''optional'', ''list'', ''stream'', ''flow'', ''set''] (to_lower name) \<Longrightarrow>
     canonicalConstructor name \<in> {''Optional'', ''List'', ''Stream'', ''Flow'', ''Set''}"
  by (auto simp: canonicalConstructor_def)

lemma read_constructor_type:
  assumes "reads_types rd" "read_constructor n rd text name s = Some (Inr (t, s'))"
  shows "yql_type t"
proof -
  note r = assms(2) [unfolded read_constructor_def Let_def]
  consider (unary) "List.member [''optional'', ''list'', ''stream'', ''flow'', ''set''] (to_lower name)"
    | (dict) "to_lower name = ''dict''" | (struct) "to_lower name = ''struct''" | (tuple) "to_lower name = ''tuple''"
    using r by (auto split: if_splits)
  then show ?thesis
  proof cases
    case unary
    with r obtain e s1 where 1: "rd text s = Some (Inr (e, s1))" "t = Ty (canonicalConstructor name) (Some e) None [] [] [] 0 0"
      by (auto simp: result_simps)
    show ?thesis unfolding 1(2)
      by (rule yql_unary [OF canonicalConstructor_unary [OF unary] reads_typesD [OF assms(1) 1(1)]])
  next
    case dict
    with r obtain k s1 v s2 s3 where 1: "rd text s = Some (Inr (k, s1))" "rd text s2 = Some (Inr (v, s3))" "t = mk_dict k v"
      by (auto simp: result_simps)
    show ?thesis unfolding 1(3)
      by (rule yql_dict [OF reads_typesD [OF assms(1) 1(1)] reads_typesD [OF assms(1) 1(2)]])
  next
    case struct
    with r have "read_fields n rd text [] s = Some (Inr (t, s'))" by simp
    then show ?thesis by (rule read_fields_type [OF assms(1)]) simp_all
  next
    case tuple
    with r have "read_items n rd text [] s = Some (Inr (t, s'))" by simp
    then show ?thesis by (rule read_items_type [OF assms(1)]) simp_all
  qed
qed

lemma read_type_type: "reads_types (read_type n)"
proof (induction n)
  case (Suc n)
  show ?case unfolding reads_types_def
  proof (intro allI impI)
    fix tx s t s'
    assume "read_type (Suc n) tx s = Some (Inr (t, s'))"
    then obtain u s1 where u: "read_optional u s1 = (t, s')"
      and r: "read_scalar tx (takeWhile type_char s) (dropWhile type_char s) = Inr (u, s1)
        \<or> (\<exists>s2. read_constructor n (read_type n) tx (takeWhile type_char s) s2 = Some (Inr (u, s1)))"
      by (auto simp: Let_def result_simps split: if_splits option.splits)
    have "yql_type u" using r by (auto dest: read_scalar_type read_constructor_type [OF Suc])
    then show "yql_type t" using yql_optional [of u s1] u by simp
  qed
qed (simp add: reads_types_def)

lemma parseType_type:
  assumes "parseType text = Inr t"
  shows "yql_type t"
proof -
  from assms obtain s where "read_type (Suc (length text)) text text = Some (Inr (t, s))"
    unfolding parseType_def parse_type_fuel_def unsupported_type_def
    by (auto simp: result_simps split: option.splits if_splits)
  then show ?thesis by (rule reads_typesD [OF read_type_type])
qed

section \<open>Reading a spelling back\<close>

lemma digits_value_append:
  "digits_value b acc (xs @ ys) = Option.bind (digits_value b acc xs) (\<lambda>v. digits_value b v ys)"
  by (induction b acc xs rule: digits_value.induct) simp_all

lemma digit_char_value: "n < 10 \<Longrightarrow> digit_value (digit_char n) = n \<and> decimal_digit (digit_char n)"
proof -
  have "list_all (\<lambda>n. digit_value (digit_char n) = n \<and> decimal_digit (digit_char n)) [0..<10]" by code_simp
  then show "n < 10 \<Longrightarrow> ?thesis" by (simp add: list_all_iff)
qed

lemma show_nat_digits: "list_all decimal_digit (show_nat n) \<and> show_nat n \<noteq> [] \<and> digits_value 10 0 (show_nat n) = Some n"
proof (induction n rule: show_nat.induct)
  case (1 n)
  show ?case
  proof (cases "n < 10")
    case True
    then show ?thesis using digit_char_value [of n] by (subst (1 2 3) show_nat.simps) simp
  next
    case False
    then have "show_nat n = show_nat (n div 10) @ [digit_char (n mod 10)]" by (subst show_nat.simps) simp
    then show ?thesis using 1 [OF False] digit_char_value [of "n mod 10"] by (simp add: digits_value_append)
  qed
qed

lemma ParseInt_show_nat: "n < 2 ^ 63 \<Longrightarrow> ParseInt (show_nat n) 10 64 = Some (int n)"
proof -
  assume n: "n < 2 ^ 63"
  note d = show_nat_digits [of n]
  have "split_sign (show_nat n) = (False, show_nat n)"
    using d by (cases "show_nat n") (auto simp: split_sign_def decimal_digit_def byte_def)
  with d n show ?thesis by (simp add: ParseInt_def parse_digits_def)
qed

lemma takeWhile_dropWhile_stop:
  "list_all P xs \<Longrightarrow> ys = [] \<or> \<not> P (hd ys) \<Longrightarrow> takeWhile P (xs @ ys) = xs \<and> dropWhile P (xs @ ys) = ys"
  by (induction xs) (cases ys; auto)+

lemma readNumber_show:
  assumes "0 \<le> i" "i < 2 ^ 63" "s = [] \<or> \<not> decimal_digit (hd s)"
  shows "readNumber (show_int i @ s) = Some (i, s)"
proof -
  have i: "show_int i = show_nat (nat i)" using assms(1) by (simp add: show_int_def)
  have "takeWhile decimal_digit (show_nat (nat i) @ s) = show_nat (nat i) \<and> dropWhile decimal_digit (show_nat (nat i) @ s) = s"
    using show_nat_digits assms(3) by (intro takeWhile_dropWhile_stop) auto
  moreover have "ParseInt (show_nat (nat i)) 10 64 = Some i"
    using ParseInt_show_nat [of "nat i"] assms(1,2) by (simp add: nat_less_iff)
  ultimately show ?thesis using show_nat_digits [of "nat i"] by (simp add: readNumber_def i)
qed

text \<open>What may follow a type: not a question mark, and nothing that would belong to its name.\<close>

definition type_end :: "string \<Rightarrow> bool" where
  "type_end s \<longleftrightarrow> s = [] \<or> hd s = CHR '','' \<or> hd s = CHR ''>''"

lemma type_end_simps [simp]: "type_end []" "type_end (CHR '','' # s)" "type_end (CHR ''>'' # s)"
  by (simp_all add: type_end_def)

lemma read_optional_end: "type_end s \<Longrightarrow> read_optional t s = (t, s)"
  by (cases s) (auto simp: type_end_def)

lemma read_name:
  assumes "list_all type_char name" "s = [] \<or> \<not> type_char (hd s)" "name \<noteq> []"
  shows "read_type (Suc n) text (name @ s) = read_then
       (case consume (CHR ''<'') s of
          None \<Rightarrow> Some (read_scalar text name s)
        | Some s \<Rightarrow> read_constructor n (read_type n) text name s)
       (\<lambda>(t, s). Some (Inr (read_optional t s)))"
proof -
  have "takeWhile type_char (name @ s) = name" "dropWhile type_char (name @ s) = s"
    using takeWhile_dropWhile_stop [of type_char name s] assms by simp_all
  then show ?thesis using assms(3) by (simp only: read_type.simps Let_def if_False)
qed

lemma type_end_char: "type_end s \<Longrightarrow> s = [] \<or> \<not> type_char (hd s)"
  by (auto simp: type_end_def type_char_def byte_def)

lemma type_end_consume: "type_end s \<Longrightarrow> consume (CHR ''<'') s = None \<and> consume (CHR ''('') s = None"
  by (cases s) (auto simp: type_end_def consume_None_iff)

lemma simple_names:
  "list_all (\<lambda>k. list_all type_char k \<and> k \<noteq> [] \<and> map_of simpleTypes (to_lower k) = Some k) (map snd simpleTypes)"
  by code_simp

lemma simple_spelling:
  "list_all (\<lambda>k. k \<notin> {''Optional'', ''List'', ''Stream'', ''Flow'', ''Set'', ''Dict'', ''Struct'', ''Tuple'', ''Tagged'', ''Callable'', ''Decimal''}) (map snd simpleTypes)"
  by code_simp

lemma type_String_simple: "k \<in> snd ` set simpleTypes \<Longrightarrow> type_String (mk_kind k) = k"
  using simple_spelling by (subst type_String.simps) (auto simp: list_all_iff)

lemma read_simple:
  assumes "k \<in> snd ` set simpleTypes" "type_end s" "0 < n"
  shows "read_type n text (type_String (mk_kind k) @ s) = Some (Inr (mk_kind k, s))"
proof -
  from assms(1) simple_names have k: "list_all type_char k" "k \<noteq> []" "map_of simpleTypes (to_lower k) = Some k"
    by (auto simp: list_all_iff)
  obtain m where n: "n = Suc m" using assms(3) by (cases n) simp_all
  have "read_type n text (k @ s) = read_then (Some (read_scalar text k s)) (\<lambda>(t, s). Some (Inr (read_optional t s)))"
    unfolding n using read_name [OF k(1) type_end_char [OF assms(2)] k(2)] type_end_consume [OF assms(2)] by simp
  then show ?thesis using assms(1,2) k type_end_consume [OF assms(2)]
    by (simp add: type_String_simple read_scalar_def read_optional_end)
qed

lemma type_String_decimal: "type_String (Ty ''Decimal'' None None [] [] [] p s) = ''Decimal('' @ show_int p @ '','' @ show_int s @ '')''"
  by (subst type_String.simps) simp

lemma read_decimal:
  assumes "1 \<le> p" "p \<le> 35" "0 \<le> sc" "sc \<le> p" "type_end s" "0 < n"
  shows "read_type n text (type_String (Ty ''Decimal'' None None [] [] [] p sc) @ s) = Some (Inr (Ty ''Decimal'' None None [] [] [] p sc, s))"
proof -
  obtain m where n: "n = Suc m" using assms(6) by (cases n) simp_all
  let ?r = "CHR ''('' # show_int p @ CHR '','' # show_int sc @ CHR '')'' # s"
  have p: "readNumber (show_int p @ CHR '','' # t) = Some (p, CHR '','' # t)" for t
    using assms by (intro readNumber_show) (simp_all add: decimal_digit_def byte_def)
  have sc: "readNumber (show_int sc @ CHR '')'' # t) = Some (sc, CHR '')'' # t)" for t
    using assms by (intro readNumber_show) (simp_all add: decimal_digit_def byte_def)
  have fold: "equal_fold ''Decimal'' ''decimal''" by code_simp
  have "list_all type_char ''Decimal''" by code_simp
  then have "read_type n text (''Decimal'' @ ?r) =
      read_then (Some (read_scalar text ''Decimal'' ?r)) (\<lambda>(t, s). Some (Inr (read_optional t s)))"
    unfolding n by (subst read_name) (simp_all add: type_char_def byte_def consume_def)
  moreover have "read_scalar text ''Decimal'' ?r = Inr (Ty ''Decimal'' None None [] [] [] p sc, s)"
    using assms by (simp add: read_scalar_def Let_def p sc fold)
  ultimately show ?thesis
    unfolding type_String_decimal using assms(5) by (simp add: read_optional_end)
qed

text \<open>A reader that reads back the spelling of a type, whatever follows.\<close>

definition reads_back :: "reader \<Rightarrow> ty \<Rightarrow> bool" where
  "reads_back rd t \<longleftrightarrow> (\<forall>text s. type_end s \<longrightarrow> rd text (type_String t @ s) = Some (Inr (t, s)))"

lemma reads_backD: "reads_back rd t \<Longrightarrow> type_end s \<Longrightarrow> rd text (type_String t @ s) = Some (Inr (t, s))"
  by (simp add: reads_back_def)

lemma read_member_quoted: "n \<noteq> [] \<Longrightarrow> read_member (quote_member n @ s) = Some (n, s)"
proof -
  assume n: "n \<noteq> []"
  have "quoted_end (CHR 0x60) (str_replace_char (CHR 0x60) [CHR 0x60, CHR 0x60] m @ CHR 0x60 # CHR '':'' # s)
      = Some (str_replace_char (CHR 0x60) [CHR 0x60, CHR 0x60] m @ [CHR 0x60], CHR '':'' # s)" for m
  proof (induction m)
    case (Cons c m)
    have "quoted_end (CHR 0x60) (c # t) = map_option (\<lambda>(a, b). (c # a, b)) (quoted_end (CHR 0x60) t)" if "c \<noteq> CHR 0x60" "t \<noteq> []" for t
      using that by (cases t) simp_all
    with Cons show ?case by simp
  qed simp
  then have "readStructFieldName (quote_member n @ s) = Some (identifier_of (back_quoted n), CHR '':'' # s)"
    by (simp add: readStructFieldName_def quote_member_def back_quoted_def)
  then show ?thesis using n by (simp add: read_member_def)
qed

definition member_text :: "string \<times> ty \<Rightarrow> string" where
  "member_text f = quote_member (fst f) @ type_String (snd f)"

lemma str_join_Cons2: "str_join sep (x # y # zs) = x @ sep @ str_join sep (y # zs)"
  by (simp add: str_join_def)

lemma str_join_one [simp]: "str_join sep [x] = x"
  by (simp add: str_join_def)

lemma read_fields_back:
  assumes "\<And>f. f \<in> set fs \<Longrightarrow> fst f \<noteq> [] \<and> reads_back rd (snd f)"
  shows "fs \<noteq> [] \<Longrightarrow> distinct (map fst (acc @ fs)) \<Longrightarrow> length fs \<le> n \<Longrightarrow>
    read_fields n rd text acc (str_join '','' (map member_text fs) @ CHR ''>'' # s) = Some (Inr (mk_struct (acc @ fs), s))"
  using assms
proof (induction fs arbitrary: acc n)
  case (Cons f fs)
  obtain m where n: "n = Suc m" using Cons.prems(3) by (cases n) simp_all
  have f: "fst f \<noteq> []" "reads_back rd (snd f)" using Cons.prems(4) by simp_all
  have new: "\<not> List.member (map fst acc) (fst f)" using Cons.prems(2) by auto
  have mem: "read_member (member_text f @ t) = Some (fst f, type_String (snd f) @ t)" for t
    using read_member_quoted [OF f(1)] by (simp add: member_text_def)
  show ?case
  proof (cases fs)
    case Nil
    show ?thesis unfolding n Nil using new reads_backD [OF f(2), of "CHR ''>'' # s" "text"]
      by (simp add: mem Let_def consume_def)
  next
    case (Cons g gs)
    have quoted: "\<exists>u. str_join '','' (map member_text fs) = CHR 0x60 # u"
      unfolding Cons by (auto simp: str_join_def member_text_def quote_member_def)
    have ih: "read_fields m rd text (acc @ [f]) (str_join '','' (map member_text fs) @ CHR ''>'' # s)
        = Some (Inr (mk_struct ((acc @ [f]) @ fs), s))"
      using Cons.prems Cons n by (intro Cons.IH) auto
    show ?thesis using ih quoted new reads_backD [OF f(2), of "CHR '','' # str_join '','' (map member_text fs) @ CHR ''>'' # s" "text"]
      unfolding n Cons by (auto simp: mem Let_def consume_def expect_def str_join_Cons2)
  qed
qed simp

lemma read_items_back:
  assumes "\<And>t. t \<in> set ts \<Longrightarrow> reads_back rd t"
  shows "ts \<noteq> [] \<Longrightarrow> length ts \<le> n \<Longrightarrow>
    read_items n rd text acc (str_join '','' (map type_String ts) @ CHR ''>'' # s) = Some (Inr (mk_tuple (acc @ ts), s))"
  using assms
proof (induction ts arbitrary: acc n)
  case (Cons t ts)
  obtain m where n: "n = Suc m" using Cons.prems(2) by (cases n) simp_all
  have t: "reads_back rd t" using Cons.prems(3) by simp
  show ?case
  proof (cases ts)
    case Nil
    show ?thesis unfolding n Nil using reads_backD [OF t, of "CHR ''>'' # s" "text"]
      by (simp add: read_or_def Let_def consume_def)
  next
    case (Cons u us)
    have ih: "read_items m rd text (acc @ [t]) (str_join '','' (map type_String ts) @ CHR ''>'' # s)
        = Some (Inr (mk_tuple ((acc @ [t]) @ ts), s))"
      using Cons.prems Cons n by (intro Cons.IH) auto
    show ?thesis using ih reads_backD [OF t, of "CHR '','' # str_join '','' (map type_String ts) @ CHR ''>'' # s" "text"]
      unfolding n Cons by (simp add: read_or_def Let_def consume_def expect_def str_join_Cons2)
  qed
qed simp

declare read_type.simps [simp del]

lemma str_join_parts:
  assumes "x \<in> set xs"
  shows "length x \<le> length (str_join sep xs)"
proof -
  have "length x \<le> length (concat (map (\<lambda>y. sep @ y) ys))" if "x \<in> set ys" for ys
    using that by (induction ys) auto
  with assms show ?thesis by (cases xs) (auto simp: str_join_def intro: le_SucI trans_le_add2)
qed

lemma str_join_count:
  assumes "\<And>x. x \<in> set xs \<Longrightarrow> x \<noteq> []"
  shows "length xs \<le> length (str_join sep xs)"
proof -
  have "length ys \<le> length (concat (map (\<lambda>y. sep @ y) ys))" if "\<And>x. x \<in> set ys \<Longrightarrow> x \<noteq> []" for ys
    using that
  proof (induction ys)
    case (Cons y ys)
    obtain c cs where "y = c # cs" using Cons.prems by (cases y) auto
    moreover have "length ys \<le> length (concat (map (\<lambda>y. sep @ y) ys))" using Cons by simp
    ultimately show ?case by simp
  qed simp
  with assms show ?thesis
  proof (cases xs)
    case (Cons x ys)
    obtain c cs where "x = c # cs" using assms Cons by (cases x) auto
    moreover have "length ys \<le> length (concat (map (\<lambda>y. sep @ y) ys))"
      using assms Cons \<open>\<And>ys. (\<And>x. x \<in> set ys \<Longrightarrow> x \<noteq> []) \<Longrightarrow> length ys \<le> length (concat (map (\<lambda>y. sep @ y) ys))\<close> by simp
    ultimately show ?thesis unfolding Cons str_join_def by simp
  qed simp
qed

lemma type_String_nonempty: "yql_type t \<Longrightarrow> type_String t \<noteq> []"
proof (induction rule: yql_type.induct)
  case (yql_scalar k)
  moreover from yql_scalar have "k \<noteq> []" using simple_names by (auto simp: list_all_iff)
  ultimately show ?case by (simp add: type_String_simple)
qed (subst type_String.simps; auto)+

lemma read_constructor_name:
  assumes "name \<in> {''Optional'', ''List'', ''Stream'', ''Flow'', ''Set'', ''Dict'', ''Struct'', ''Tuple''}"
  shows "read_type (Suc n) text (name @ CHR ''<'' # s) =
    read_then (read_constructor n (read_type n) text name s) (\<lambda>(t, s). Some (Inr (read_optional t s)))"
proof -
  have "list_all (\<lambda>name. list_all type_char name)
      [''Optional'', ''List'', ''Stream'', ''Flow'', ''Set'', ''Dict'', ''Struct'', ''Tuple'']" by code_simp
  then have "list_all type_char name" using assms by (auto simp: list_all_iff)
  moreover have "name \<noteq> []" using assms by auto
  ultimately show ?thesis by (subst read_name) (simp_all add: type_char_def byte_def consume_def)
qed

lemma unary_names:
  "k \<in> {''Optional'', ''List'', ''Stream'', ''Flow'', ''Set''} \<Longrightarrow>
     List.member [''optional'', ''list'', ''stream'', ''flow'', ''set''] (to_lower k) \<and> canonicalConstructor k = k"
proof -
  have "list_all (\<lambda>k. List.member [''optional'', ''list'', ''stream'', ''flow'', ''set''] (to_lower k) \<and> canonicalConstructor k = k)
      [''Optional'', ''List'', ''Stream'', ''Flow'', ''Set'']" by code_simp
  moreover assume "k \<in> {''Optional'', ''List'', ''Stream'', ''Flow'', ''Set''}"
  then have "k \<in> set [''Optional'', ''List'', ''Stream'', ''Flow'', ''Set'']" by simp
  ultimately show ?thesis unfolding list_all_iff by (rule bspec)
qed

lemma lower_names: "to_lower ''Dict'' = ''dict''" "to_lower ''Struct'' = ''struct''" "to_lower ''Tuple'' = ''tuple''"
  by code_simp+

lemma read_constructor_dict:
  "read_constructor n rd text ''Dict'' s =
     read_or (type_error text) (rd text s) (\<lambda>(key, s). expect (CHR '','') text s (\<lambda>s.
       read_then (rd text s) (\<lambda>(value', s). expect (CHR ''>'') text s (\<lambda>s. Some (Inr (mk_dict key value', s))))))"
  unfolding read_constructor_def lower_names Let_def by simp

lemma read_constructor_struct: "read_constructor n rd text ''Struct'' s = read_fields n rd text [] s"
  unfolding read_constructor_def lower_names Let_def by simp

lemma read_constructor_tuple: "read_constructor n rd text ''Tuple'' s = read_items n rd text [] s"
  unfolding read_constructor_def lower_names Let_def by simp

lemma read_type_back: "yql_type t \<Longrightarrow> length (type_String t) < n \<Longrightarrow> reads_back (read_type n) t"
proof (induction arbitrary: n rule: yql_type.induct)
  case (yql_scalar k)
  then show ?case using read_simple by (simp add: reads_back_def)
next
  case (yql_decimal p s)
  then show ?case using read_decimal by (simp add: reads_back_def)
next
  case (yql_unary k e)
  have str: "type_String (Ty k (Some e) None [] [] [] 0 0) = k @ CHR ''<'' # type_String e @ ''>''"
    using yql_unary.hyps(1) by (subst type_String.simps) auto
  obtain m where n: "n = Suc m" using yql_unary.prems by (cases n) simp_all
  have e: "reads_back (read_type m) e" using yql_unary.prems n str by (intro yql_unary.IH) simp
  have "read_constructor m (read_type m) tx k (type_String e @ CHR ''>'' # s) = Some (Inr (Ty k (Some e) None [] [] [] 0 0, s))" for tx s
    using unary_names [OF yql_unary.hyps(1)] reads_backD [OF e, of "CHR ''>'' # s"]
    by (simp add: read_constructor_def expect_def consume_def)
  moreover have "k \<in> {''Optional'', ''List'', ''Stream'', ''Flow'', ''Set'', ''Dict'', ''Struct'', ''Tuple''}"
    using yql_unary.hyps(1) by auto
  ultimately show ?case unfolding reads_back_def n str
    using read_constructor_name [of k] by (simp add: read_optional_end)
next
  case (yql_dict k v)
  have str: "type_String (mk_dict k v) = ''Dict'' @ CHR ''<'' # type_String k @ CHR '','' # type_String v @ ''>''"
    by (subst type_String.simps) simp
  obtain m where n: "n = Suc m" using yql_dict.prems by (cases n) simp_all
  have kv: "reads_back (read_type m) k" "reads_back (read_type m) v" using yql_dict n str by simp_all
  have "read_constructor m (read_type m) tx ''Dict'' (type_String k @ CHR '','' # type_String v @ CHR ''>'' # s) = Some (Inr (mk_dict k v, s))" for tx s
    using reads_backD [OF kv(1), of "CHR '','' # type_String v @ CHR ''>'' # s"] reads_backD [OF kv(2), of "CHR ''>'' # s"]
    by (simp add: read_constructor_dict read_or_def expect_def consume_def)
  then show ?case unfolding reads_back_def n str
    using read_constructor_name [of "''Dict''"] by (simp add: read_optional_end)
next
  case (yql_struct fs)
  have str: "type_String (mk_struct fs) = ''Struct'' @ CHR ''<'' # str_join '','' (map member_text fs) @ ''>''"
    by (subst type_String.simps) (simp add: member_text_def [abs_def] case_prod_unfold)
  obtain m where n: "n = Suc m" using yql_struct.prems by (cases n) simp_all
  have m: "length (str_join '','' (map member_text fs)) < m" using yql_struct.prems n str by simp
  have inner: "fst f \<noteq> [] \<and> reads_back (read_type m) (snd f)" if f: "f \<in> set fs" for f
  proof -
    have "length (member_text f) \<le> length (str_join '','' (map member_text fs))" using f by (intro str_join_parts) simp
    with m have "length (type_String (snd f)) < m" by (simp add: member_text_def)
    with f yql_struct.IH [of "fst f" "snd f"] show ?thesis by simp
  qed
  have "length (map member_text fs) \<le> length (str_join '','' (map member_text fs))"
    by (rule str_join_count) (auto simp: member_text_def quote_member_def)
  with m have "read_fields m (read_type m) tx [] (str_join '','' (map member_text fs) @ CHR ''>'' # s) = Some (Inr (mk_struct ([] @ fs), s))" for tx s
    using yql_struct.hyps inner by (intro read_fields_back) simp_all
  then have "read_constructor m (read_type m) tx ''Struct'' (str_join '','' (map member_text fs) @ CHR ''>'' # s) = Some (Inr (mk_struct fs, s))" for tx s
    by (simp add: read_constructor_struct)
  then show ?case unfolding reads_back_def n str
    using read_constructor_name [of "''Struct''"] by (simp add: read_optional_end)
next
  case (yql_tuple ts)
  have str: "type_String (mk_tuple ts) = ''Tuple'' @ CHR ''<'' # str_join '','' (map type_String ts) @ ''>''"
    by (subst type_String.simps) simp
  obtain m where n: "n = Suc m" using yql_tuple.prems by (cases n) simp_all
  have m: "length (str_join '','' (map type_String ts)) < m" using yql_tuple.prems n str by simp
  have inner: "reads_back (read_type m) u" if u: "u \<in> set ts" for u
  proof -
    have "length (type_String u) \<le> length (str_join '','' (map type_String ts))" using u by (intro str_join_parts) simp
    with m u show ?thesis by (intro yql_tuple.IH) simp_all
  qed
  have "length (map type_String ts) \<le> length (str_join '','' (map type_String ts))"
    using yql_tuple.hyps(2) type_String_nonempty by (intro str_join_count) auto
  with m have "read_items m (read_type m) tx [] (str_join '','' (map type_String ts) @ CHR ''>'' # s) = Some (Inr (mk_tuple ([] @ ts), s))" for tx s
    using yql_tuple.hyps inner by (intro read_items_back) simp_all
  then have "read_constructor m (read_type m) tx ''Tuple'' (str_join '','' (map type_String ts) @ CHR ''>'' # s) = Some (Inr (mk_tuple ts, s))" for tx s
    by (simp add: read_constructor_tuple)
  then show ?case unfolding reads_back_def n str
    using read_constructor_name [of "''Tuple''"] by (simp add: read_optional_end)
qed

lemma parseType_back: "yql_type t \<Longrightarrow> parseType (type_String t) = Inr t"
proof -
  assume t: "yql_type t"
  have "reads_back (read_type (Suc (length (type_String t)))) t" using t by (rule read_type_back) simp
  from reads_backD [OF this, of "[]"] show ?thesis
    by (simp add: parseType_def parse_type_fuel_def)
qed

section \<open>Properties\<close>

text \<open>
  C34: the types that parseType reads are exactly those whose canonical spelling it reads back, and reading
  the spelling gives the same type: a scalar of the table, a Decimal within its bounds, and the
  constructors over such types, a Struct with members of distinct, non-empty names.
\<close>

theorem parse_type_spelling:
  "(\<exists>tx. parseType tx = Inr t) = yql_type t \<and> (parseType (type_String t) = Inr t) = yql_type t"
  using parseType_type parseType_back by blast

end
