(* ===== verification/TablePaths.thy ===== *)
theory TablePaths
  imports AnalyzerText GoPaths
begin

text \<open>
  Table paths (\<open>internal/analyzer/table_paths.go\<close>): the prefix that a \<open>PRAGMA TablePathPrefix\<close> sets for
  a schema file or a query, and the resolution of table names against it.
\<close>

section \<open>Names of tables in the parse tree\<close>

definition simpleTableName :: "tree option \<Rightarrow> string" where
  "simpleTableName ctx =
     (case ctx of
        None \<Rightarrow> []
      | Some t \<Rightarrow> (case rule_opt ''Simple_table_ref_core'' t of None \<Rightarrow> [] | Some core \<Rightarrow> identifier_of (GetText core)))"

definition tableKeyName :: "tree \<Rightarrow> string" where
  "tableKeyName ctx = identifier_of (GetText (rule_of ''Id_table_or_type'' ctx))"

section \<open>The prefix\<close>

text \<open>The body of the quoted path; a backslash before either quote gives the quote.\<close>

function prefix_loop :: "string \<Rightarrow> char \<Rightarrow> string \<Rightarrow> string option" where
  "prefix_loop value' q rest =
     (if rest = [] then Some value'
      else if length rest \<ge> 2 \<and> rest ! 0 = CHR 0x5C \<and> (rest ! 1 = CHR 0x27 \<or> rest ! 1 = CHR 0x22) then
        prefix_loop (value' @ [rest ! 1]) q (drop 2 rest)
      else (case UnquoteChar rest q of
          None \<Rightarrow> None
        | Some (character, multibyte, tail) \<Rightarrow>
            if is_control character then None else prefix_loop (value' @ write_char (character, multibyte)) q tail))"
  by pat_completeness auto
termination
  by (relation "measure (\<lambda>(value', q, rest). length rest)") (auto dest: UnquoteChar_length)

declare prefix_loop.simps [simp del]

definition invalid_prefix :: go_error where
  "invalid_prefix = GoError (''PRAGMA TablePathPrefix requires a nonempty absolute path in an ordinary quoted string, for example '/database/folder'' @ [CHR 0x27])"

definition tablePathPrefixLiteral :: "string \<Rightarrow> string res" where
  "tablePathPrefixLiteral literal =
     (if length literal < 2 \<or> (hd literal \<noteq> CHR 0x27 \<and> hd literal \<noteq> CHR 0x22) \<or> last literal \<noteq> hd literal then Inl invalid_prefix
      else (case prefix_loop [] (hd literal) (butlast (tl literal)) of
          None \<Rightarrow> Inl (Errorf ''unsupported escape or control character in PRAGMA TablePathPrefix; use a quoted literal path'' [])
        | Some value' \<Rightarrow> if \<not> IsAbs value' then Inl invalid_prefix else Inr (Clean value')))"

definition resolveTablePath :: "string \<Rightarrow> string \<Rightarrow> string" where
  "resolveTablePath prefix name =
     (if IsAbs name then Clean name
      else if prefix = [] \<or> name = [] then name
      else Join [prefix, name])"

text \<open>What is wrong with one pragma, and the prefix after it.\<close>

definition pragma_message :: "string \<Rightarrow> bool \<Rightarrow> tree \<Rightarrow> string res" where
  "pragma_message prefix started pragma =
     (let opt_prefix = GetText (rule_of ''Opt_id_prefix_or_type'' pragma);
          name = identifier_of (GetText (rule_of ''An_id'' pragma));
          values = rules ''Pragma_value'' pragma in
      if opt_prefix = [] \<and> equal_fold name ''OrderedColumns'' then
        (if started \<or> values \<noteq> [] then Inl (GoError ''PRAGMA OrderedColumns must be a leading flag before data statements'') else Inr prefix)
      else if opt_prefix \<noteq> [] \<or> \<not> equal_fold name ''TablePathPrefix'' then
        Inl (GoError ''unsupported PRAGMA; only static TablePathPrefix and OrderedColumns are supported'')
      else if started then
        Inl (GoError ''PRAGMA TablePathPrefix must precede local assignments ($name = ...) and data or schema statements; external parameter DECLARE may precede the pragma'')
      else if length values \<noteq> 1 \<or> \<not> has_token ''STRING_VALUE'' (hd values) then
        Inl (GoError ''PRAGMA TablePathPrefix requires one static quoted absolute path, for example '/database/folder'; dynamic values and reset forms are unsupported'')
      else and_then (tablePathPrefixLiteral (tk_Text (the (token_of ''STRING_VALUE'' (hd values))))) (\<lambda>value'.
        if prefix \<noteq> [] \<and> prefix \<noteq> value' then
          Inl (GoError ''conflicting PRAGMA TablePathPrefix values are unsupported; use one prefix per named query or schema file'')
        else Inr value'))"

fun path_prefix_loop :: "string \<Rightarrow> int \<Rightarrow> string \<Rightarrow> bool \<Rightarrow> tree list \<Rightarrow> string \<times> Diagnostic list" where
  "path_prefix_loop file lineOffset prefix started [] = (prefix, [])"
| "path_prefix_loop file lineOffset prefix started (statement # statements) =
     (let core = rule_of ''Sql_stmt_core'' statement in
      case rule_opt ''Pragma_stmt'' core of
        None \<Rightarrow> path_prefix_loop file lineOffset prefix (started \<or> \<not> has_rule ''Declare_stmt'' core) statements
      | Some pragma \<Rightarrow>
          (case pragma_message prefix started pragma of
             Inr prefix' \<Rightarrow> path_prefix_loop file lineOffset prefix' started statements
           | Inl message \<Rightarrow>
               (let (prefix', ds) = path_prefix_loop file lineOffset prefix started statements in
                (prefix', diagnosticAt file lineOffset (Some pragma) (error_text message) # ds))))"

definition tablePathPrefix :: "string \<Rightarrow> int \<Rightarrow> tree \<Rightarrow> string \<times> Diagnostic list" where
  "tablePathPrefix file lineOffset root =
     (case rule_opt ''Sql_stmt_list'' root of
        None \<Rightarrow> ([], [])
      | Some stmts \<Rightarrow> path_prefix_loop file lineOffset [] False (rules ''Sql_stmt'' stmts))"

text \<open>The resolved names, by the index of the token they start with; a later reference overwrites.\<close>

definition table_reference :: "string \<Rightarrow> tree \<Rightarrow> (int \<times> string) option" where
  "table_reference prefix node =
     (if is_rule ''Table_key'' node then
        Some (token_index (rule_of ''Id_table_or_type'' node), resolveTablePath prefix (tableKeyName node))
      else if is_rule ''Simple_table_ref'' node then
        map_option (\<lambda>core. (token_index core, resolveTablePath prefix (simpleTableName (Some node)))) (rule_opt ''Simple_table_ref_core'' node)
      else None)"

definition resolvedTableReferences :: "tree \<Rightarrow> string \<Rightarrow> int \<Rightarrow> string option" where
  "resolvedTableReferences root prefix = map_of (rev (List.map_filter (table_reference prefix) (descendants root)))"

section \<open>Absolute paths\<close>

text \<open>The elements of a clean absolute path.\<close>

definition plain_element :: "string \<Rightarrow> bool" where
  "plain_element e \<longleftrightarrow> e \<noteq> [] \<and> e \<noteq> ''.'' \<and> e \<noteq> ''..'' \<and> CHR ''/'' \<notin> set e"

lemma split_slash_free: "e \<in> set (split_slash s) \<Longrightarrow> CHR ''/'' \<notin> set e"
  by (induction s arbitrary: e) (auto split: if_splits list.splits)

lemma clean_elements_plain:
  "list_all plain_element kept \<Longrightarrow> (\<And>x. x \<in> set xs \<Longrightarrow> CHR ''/'' \<notin> set x) \<Longrightarrow>
     list_all plain_element (clean_elements True kept xs)"
proof (induction True kept xs rule: clean_elements.induct)
  case (2 kept x xs)
  then show ?case by (auto simp: plain_element_def split: list.splits)
qed simp

lemma clean_elements_id: "list_all plain_element xs \<Longrightarrow> clean_elements True kept xs = rev xs @ kept"
  by (induction xs arbitrary: kept) (auto simp: plain_element_def)

lemma split_slash_plain: "CHR ''/'' \<notin> set x \<Longrightarrow> split_slash x = [x]"
  by (induction x) auto

lemma split_slash_append: "CHR ''/'' \<notin> set x \<Longrightarrow> split_slash (x @ CHR ''/'' # s) = x # split_slash s"
  by (induction x) auto

lemma split_slash_join:
  "list_all plain_element xs \<Longrightarrow> xs \<noteq> [] \<Longrightarrow> split_slash (str_join ''/'' xs) = xs"
proof (induction xs)
  case (Cons x xs)
  show ?case
  proof (cases xs)
    case Nil
    with Cons.prems show ?thesis by (simp add: str_join_def plain_element_def split_slash_plain)
  next
    case (Cons y ys)
    have "str_join ''/'' (x # xs) = x @ CHR ''/'' # str_join ''/'' xs"
      unfolding Cons by (simp add: str_join_def)
    with Cons.prems Cons.IH Cons show ?thesis by (simp add: plain_element_def split_slash_append)
  qed
qed simp

text \<open>Cleaning an absolute path gives an absolute path of plain elements, and cleaning that is the identity.\<close>

definition clean_path :: "string list \<Rightarrow> string" where
  "clean_path es = CHR ''/'' # str_join ''/'' es"

lemma IsAbs_Cons [simp]: "IsAbs (CHR ''/'' # s)"
  by (simp add: IsAbs_def has_prefix_def)

lemma IsAbs_iff: "IsAbs p \<longleftrightarrow> (\<exists>s. p = CHR ''/'' # s)"
  by (cases p) (auto simp: IsAbs_def has_prefix_def)

lemma IsAbs_append: "IsAbs p \<Longrightarrow> IsAbs (p @ q)"
  by (auto simp: IsAbs_iff)

lemma Clean_abs: "IsAbs p \<Longrightarrow> \<exists>es. Clean p = clean_path es \<and> list_all plain_element es"
proof -
  assume p: "IsAbs p"
  let ?es = "rev (clean_elements True [] (split_slash p))"
  have "Clean p = clean_path ?es" using p by (simp add: Clean_def clean_path_def Let_def)
  moreover have "list_all plain_element ?es"
    using clean_elements_plain [of "[]" "split_slash p"] split_slash_free by simp
  ultimately show ?thesis by blast
qed

lemma Clean_clean_path: "list_all plain_element es \<Longrightarrow> Clean (clean_path es) = clean_path es"
proof -
  assume es: "list_all plain_element es"
  have "clean_elements True [] (split_slash (clean_path es)) = rev es"
  proof (cases "es = []")
    case False
    with es show ?thesis by (simp add: clean_path_def split_slash_join clean_elements_id)
  qed (simp add: clean_path_def str_join_def)
  then show ?thesis by (simp add: Clean_def clean_path_def Let_def)
qed

lemma Clean_idem: "IsAbs p \<Longrightarrow> Clean (Clean p) = Clean p \<and> IsAbs (Clean p)"
  using Clean_abs [of p] Clean_clean_path by (auto simp: clean_path_def)

lemma Join_abs: "IsAbs p \<Longrightarrow> Join [p, q] = Clean (p @ CHR ''/'' # q)"
  by (auto simp: IsAbs_iff Join_def str_join_def)

lemma prefix_literal_clean: "tablePathPrefixLiteral literal = Inr p \<Longrightarrow> IsAbs p \<and> Clean p = p"
  by (auto simp: tablePathPrefixLiteral_def Clean_idem split: if_splits option.splits)

lemma resolve_clean:
  assumes "prefix = [] \<or> IsAbs prefix" "prefix \<noteq> [] \<or> IsAbs name" "name \<noteq> []"
  shows "IsAbs (resolveTablePath prefix name) \<and> Clean (resolveTablePath prefix name) = resolveTablePath prefix name"
  using assms by (auto simp: resolveTablePath_def Clean_idem Join_abs IsAbs_append)

text \<open>What a prefix can be: none, or a clean absolute path.\<close>

definition prefix_ok :: "string \<Rightarrow> bool" where
  "prefix_ok p \<longleftrightarrow> p = [] \<or> (IsAbs p \<and> Clean p = p)"

lemma pragma_message_prefix: "pragma_message prefix started pragma = Inr p \<Longrightarrow> prefix_ok prefix \<Longrightarrow> prefix_ok p"
  by (auto simp: pragma_message_def prefix_ok_def Let_def result_simps split: if_splits dest: prefix_literal_clean)

lemma path_prefix_loop_ok: "prefix_ok prefix \<Longrightarrow> prefix_ok (fst (path_prefix_loop file lineOffset prefix started ss))"
  by (induction ss arbitrary: prefix started)
    (auto simp: Let_def split_beta dest: pragma_message_prefix split: option.split sum.split)

lemma tablePathPrefix_ok: "prefix_ok (fst (tablePathPrefix file lineOffset root))"
  by (auto simp: tablePathPrefix_def prefix_ok_def [of "[]"] intro!: path_prefix_loop_ok split: option.split)

section \<open>Properties\<close>

text \<open>
  C35: the prefix of a file, whatever its pragmas, is empty or a clean absolute path; under a prefix every
  non-empty table name resolves to a clean absolute path, resolving a resolved name again gives it again, and
  resolution keeps an absolute name apart from the prefix.
\<close>

theorem table_path_resolved:
  assumes "fst (tablePathPrefix file lineOffset root) = prefix" "prefix \<noteq> []" "name \<noteq> []"
  shows "IsAbs prefix \<and> Clean prefix = prefix
    \<and> IsAbs (resolveTablePath prefix name) \<and> Clean (resolveTablePath prefix name) = resolveTablePath prefix name
    \<and> resolveTablePath prefix (resolveTablePath prefix name) = resolveTablePath prefix name
    \<and> resolveTablePath prefix (CHR ''/'' # name) = Clean (CHR ''/'' # name)"
proof -
  from tablePathPrefix_ok [of "file" lineOffset root] assms have "IsAbs prefix" "Clean prefix = prefix"
    by (simp_all add: prefix_ok_def)
  with resolve_clean [of prefix name] assms(2,3) show ?thesis
    by (simp add: resolveTablePath_def)
qed

text \<open>A sample: a query that starts with a pragma.\<close>

definition sample_leaf :: "string \<Rightarrow> string \<Rightarrow> tree" where
  "sample_leaf typ' text' = Leaf \<lparr>tk_Type = typ', tk_Text = text', tk_Start = 0, tk_Stop = 0, tk_Line = 1, tk_Column = 0, tk_Index = 0, tk_Hidden = False\<rparr>"

definition sample_node :: "string \<Rightarrow> tree list \<Rightarrow> tree" where
  "sample_node name ts = Node name None None ts"

definition sample_pragma :: tree where
  "sample_pragma =
     sample_node ''Sql_query'' [sample_node ''Sql_stmt_list'' [sample_node ''Sql_stmt'' [sample_node ''Sql_stmt_core''
       [sample_node ''Pragma_stmt''
         [sample_leaf ''PRAGMA'' ''PRAGMA'', sample_node ''Opt_id_prefix_or_type'' [],
          sample_node ''An_id'' [sample_leaf ''ID_PLAIN'' ''TablePathPrefix''], sample_leaf ''EQUALS'' ''='',
          sample_node ''Pragma_value'' [sample_leaf ''STRING_VALUE'' ([CHR 0x27] @ ''/db//app/'' @ [CHR 0x27])]]]]]]"

lemma table_path_resolved_witness:
  "IsAbs ''/db/app'' \<and> Clean ''/db/app'' = ''/db/app''
    \<and> IsAbs (resolveTablePath ''/db/app'' ''users'') \<and> Clean (resolveTablePath ''/db/app'' ''users'') = resolveTablePath ''/db/app'' ''users''
    \<and> resolveTablePath ''/db/app'' (resolveTablePath ''/db/app'' ''users'') = resolveTablePath ''/db/app'' ''users''
    \<and> resolveTablePath ''/db/app'' (CHR ''/'' # ''users'') = Clean (CHR ''/'' # ''users'')"
proof -
  have "fst (tablePathPrefix ''q.sql'' 0 sample_pragma) = ''/db/app''" by code_simp
  then show ?thesis by (rule table_path_resolved) simp_all
qed

end
