(* ===== verification/SchemaCatalog.thy ===== *)
theory SchemaCatalog
  imports YqlTypes TablePaths
begin

text \<open>
  The schema catalog (\<open>internal/analyzer/catalog.go\<close>, \<open>catalog_indexes.go\<close>): CREATE TABLE, ALTER TABLE
  and DROP TABLE statements applied one after the other. An operation of the code that changes the
  catalog through a pointer returns the catalog after it, with the diagnostics. The parser is the
  parameter \<open>antlr\<close>: the tree, the tokens, and the syntax errors with line, column and message.
\<close>

section \<open>Parsing\<close>

type_synonym antlr_parser = "string \<Rightarrow> tree \<times> token list \<times> (int \<times> int \<times> string) list"

definition syntax_error :: "string \<Rightarrow> int \<Rightarrow> int \<times> int \<times> string \<Rightarrow> Diagnostic" where
  "syntax_error file lineOffset e =
     (case e of (line, column, message) \<Rightarrow>
       \<lparr>dg_Position = \<lparr>pos_File = file, pos_Line = lineOffset + line, pos_Column = column + 1\<rparr>, dg_Message = message\<rparr>)"

definition parseYQL :: "antlr_parser \<Rightarrow> string \<Rightarrow> string \<Rightarrow> int \<Rightarrow> (tree \<times> token list) \<times> Diagnostic list" where
  "parseYQL antlr file text lineOffset =
     (let (tree, tokens, errors) = antlr text in
      ((tree, tokens),
       map (syntax_error file lineOffset) errors
       @ map (\<lambda>tok. syntax_error file lineOffset (tk_Line tok, tk_Column tok, ''backslash escapes in quoted identifiers are unsupported''))
           (filter (\<lambda>tok. tk_Type tok = ''ID_QUOTED'' \<and> CHR 0x5C \<in> set (tk_Text tok)) tokens)))"

section \<open>Looking up\<close>

fun find_index :: "('a \<Rightarrow> bool) \<Rightarrow> 'a list \<Rightarrow> nat option" where
  "find_index P [] = None"
| "find_index P (x # xs) = (if P x then Some 0 else map_option Suc (find_index P xs))"

definition remove_at :: "nat \<Rightarrow> 'a list \<Rightarrow> 'a list" where
  "remove_at i xs = take i xs @ drop (Suc i) xs"

definition catalogTableIndex :: "Catalog \<Rightarrow> string \<Rightarrow> nat option" where
  "catalogTableIndex catalog name = find_index (\<lambda>t. tb_Name t = name) (cat_Tables catalog)"

definition catalogColumnIndex :: "Table \<Rightarrow> string \<Rightarrow> nat option" where
  "catalogColumnIndex table name = find_index (\<lambda>c. col_Name c = name) (tb_Columns table)"

definition catalogIndexPosition :: "Table \<Rightarrow> string \<Rightarrow> nat option" where
  "catalogIndexPosition table name = find_index (\<lambda>i. ix_Name i = name) (tb_Indexes table)"

definition findTable :: "Catalog \<Rightarrow> string \<Rightarrow> Table option" where
  "findTable catalog name = map_option ((!) (cat_Tables catalog)) (catalogTableIndex catalog name)"

definition tableColumn :: "Table \<Rightarrow> string \<Rightarrow> Column option" where
  "tableColumn table name = map_option ((!) (tb_Columns table)) (catalogColumnIndex table name)"

section \<open>Indexes\<close>

definition index_column :: "tree \<Rightarrow> tree \<Rightarrow> bool" where
  "index_column ctx id' \<longleftrightarrow>
     (case token_of ''COVER'' ctx of Some cover \<Rightarrow> \<not> token_index id' > tk_Index cover | None \<Rightarrow> True)"

definition parseTableIndex :: "tree \<Rightarrow> Index res" where
  "parseTableIndex ctx =
     (let typ' = rule_of ''Table_index_type'' ctx; global = rule_opt ''Global_index'' typ' in
      if global = None \<or> has_token ''USING'' typ' \<or> has_token ''UNIQUE'' (the global) then
        Inl (Errorf ''unsupported index type %q; supported types are GLOBAL SYNC and GLOBAL ASYNC'' [FStr (GetText typ')])
      else if has_rule ''With_index_settings'' ctx then Inl (Errorf ''index settings are not yet supported'' [])
      else Inr \<lparr>ix_Name = identifier_of (GetText (rule_of ''An_id'' ctx)),
          ix_Kind = (if has_token ''ASYNC'' (the global) then ''GlobalAsync'' else ''GlobalSync''),
          ix_Columns = map (\<lambda>id'. identifier_of (GetText id')) (filter (index_column ctx) (rules ''An_id_schema'' ctx)),
          ix_DataColumns = map (\<lambda>id'. identifier_of (GetText id')) (filter (\<lambda>id'. \<not> index_column ctx id') (rules ''An_id_schema'' ctx))\<rparr>)"

fun index_group_err :: "Table \<Rightarrow> Index \<Rightarrow> string \<Rightarrow> string list \<Rightarrow> string list \<Rightarrow> go_error option" where
  "index_group_err table index grp seen [] = None"
| "index_group_err table index grp seen (name # names) =
     (if tableColumn table name = None then
        Some (Errorf ''index %q references unknown %s column %q'' [FStr (ix_Name index), FStr grp, FStr name])
      else if List.member seen name then
        Some (Errorf ''index %q repeats %s column %q'' [FStr (ix_Name index), FStr grp, FStr name])
      else if grp = ''covering'' \<and> (List.member (ix_Columns index) name \<or> List.member (tb_PrimaryKey table) name) then
        Some (Errorf ''index %q covering column %q is already part of the index key'' [FStr (ix_Name index), FStr name])
      else index_group_err table index grp (name # seen) names)"

definition validateTableIndex :: "Table \<Rightarrow> Index \<Rightarrow> go_error option" where
  "validateTableIndex table index =
     (if ix_Name index = [] then Some (Errorf ''index name must not be empty'' [])
      else (case index_group_err table index ''key'' [] (ix_Columns index) of
          Some e \<Rightarrow> Some e
        | None \<Rightarrow> index_group_err table index ''covering'' [] (ix_DataColumns index)))"

text \<open>An index clause: parsed, valid for the table, and not there yet; the last message depends on the statement.\<close>

definition new_index :: "(Index \<Rightarrow> go_error) \<Rightarrow> Table \<Rightarrow> tree \<Rightarrow> Index res" where
  "new_index taken table ctx =
     and_then (parseTableIndex ctx) (\<lambda>index.
       check_then (validateTableIndex table index)
         (if catalogIndexPosition table (ix_Name index) \<noteq> None then Inl (taken index) else Inr index))"

section \<open>Columns\<close>

definition serialPrimaryKeyError :: "string \<Rightarrow> string" where
  "serialPrimaryKeyError name = sprintf ''serial column %q must participate in the PRIMARY KEY'' [FStr name]"

definition not_null_clause :: "tree \<Rightarrow> bool" where
  "not_null_clause ctx \<longleftrightarrow> list_ex (\<lambda>node. equal_fold (GetText node) ''NOTNULL'') (descendant_rules ''Nullability'' ctx)"

definition catalogColumn :: "string \<Rightarrow> tree \<Rightarrow> Column res" where
  "catalogColumn table ctx =
     (case (rule_opt ''An_id_schema'' ctx, sub_rule ''Type_name'' (rule_opt ''Type_name_or_bind'' ctx)) of
        (Some id', Some type_name) \<Rightarrow>
          (let typeText = GetText type_name; serial = serialType typeText in
           and_then (case serial of Some t \<Rightarrow> Inr t | None \<Rightarrow> parseType typeText) (\<lambda>t.
             Inr \<lparr>col_Name = identifier_of (GetText id'), col_WireName = [],
               col_Type = (if serial = None \<and> \<not> not_null_clause ctx \<and> \<not> IsOptional t then Optional t else t),
               col_Table = table, col_SequenceGenerated = (serial \<noteq> None)\<rparr>))
      | _ \<Rightarrow> Inl (Errorf ''column must have a literal name and type'' []))"

section \<open>CREATE TABLE\<close>

definition validateCreateTableShape :: "string \<Rightarrow> tree \<Rightarrow> Diagnostic option" where
  "validateCreateTableShape file create =
     (if \<not> has_token ''TABLE'' create \<or> has_token ''EXTERNAL'' create \<or> has_token ''TABLESTORE'' create \<or> has_rule ''Table_as_source'' create then
        Some (diagnosticAt file 0 (Some create) ''only CREATE TABLE with an explicit column list is supported'')
      else None)"

text \<open>The names of a PRIMARY KEY constraint, added to the key so far.\<close>

fun key_names :: "string \<Rightarrow> string list \<Rightarrow> tree list \<Rightarrow> string list \<times> Diagnostic list" where
  "key_names file key [] = (key, [])"
| "key_names file key (id' # ids) =
     (let name = identifier_of (GetText id') in
      if List.member key name then
        (let (key', ds) = key_names file key ids in
         (key', diagnosticAt file 0 (Some id') (sprintf ''primary key column %q is declared more than once'' [FStr name]) # ds))
      else key_names file (key @ [name]) ids)"

text \<open>The columns, the primary key and the number of its declarations after the entries of the statement.\<close>

type_synonym create_state = "Column list \<times> string list \<times> nat"

definition create_entry :: "string \<Rightarrow> string \<Rightarrow> tree \<Rightarrow> create_state \<Rightarrow> create_state \<times> Diagnostic list" where
  "create_entry file table entry st =
     (let (columns, key, declarations) = st in
      if has_rule ''Table_index'' entry then (st, [])
      else (case rule_opt ''Column_schema'' entry of
          Some ctx \<Rightarrow>
            (case catalogColumn table ctx of
               Inl err \<Rightarrow> (st, [diagnosticAt file 0 (Some ctx) (error_text err)])
             | Inr column \<Rightarrow>
                 if List.member (map col_Name columns) (col_Name column) then
                   (st, [diagnosticAt file 0 (Some ctx) (sprintf ''column %q is declared more than once'' [FStr (col_Name column)])])
                 else ((columns @ [column], key, declarations), []))
        | None \<Rightarrow>
            (case rule_opt ''Table_constraint'' entry of
               Some constraint \<Rightarrow>
                 if \<not> has_token ''PRIMARY'' constraint then
                   (st, [diagnosticAt file 0 (Some constraint) ''only PRIMARY KEY table constraints are supported''])
                 else (let (key', ds) = key_names file key (rules ''An_id'' constraint) in
                   ((columns, key', declarations + 1), ds))
             | None \<Rightarrow> (st, [diagnosticAt file 0 (Some entry) ''unsupported CREATE TABLE entry'']))))"

fun create_entries :: "string \<Rightarrow> string \<Rightarrow> tree list \<Rightarrow> create_state \<Rightarrow> create_state \<times> Diagnostic list" where
  "create_entries file table [] st = (st, [])"
| "create_entries file table (entry # entries) st =
     (let (st, ds) = create_entry file table entry st; (st, ds') = create_entries file table entries st in (st, ds @ ds'))"

fun create_indexes :: "string \<Rightarrow> tree list \<Rightarrow> Table \<Rightarrow> Table \<times> Diagnostic list" where
  "create_indexes file [] table = (table, [])"
| "create_indexes file (entry # entries) table =
     (case rule_opt ''Table_index'' entry of
        None \<Rightarrow> create_indexes file entries table
      | Some ctx \<Rightarrow>
          (case new_index (\<lambda>index. Errorf ''index %q is declared more than once'' [FStr (ix_Name index)]) table ctx of
             Inl err \<Rightarrow>
               (let (table, ds) = create_indexes file entries table in
                (table, diagnosticAt file 0 (Some ctx) (error_text err) # ds))
           | Inr index \<Rightarrow> create_indexes file entries (table\<lparr>tb_Indexes := tb_Indexes table @ [index]\<rparr>)))"

definition catalogTable :: "string \<Rightarrow> string \<Rightarrow> tree \<Rightarrow> Table \<times> Diagnostic list" where
  "catalogTable file prefix create =
     (let ref = rule_opt ''Simple_table_ref'' create; at = diagnosticAt file 0 (Some create);
          empty_table = \<lparr>tb_Name = [], tb_Columns = [], tb_PrimaryKey = [], tb_Indexes = []\<rparr> in
      if sub_rule ''Simple_table_ref_core'' ref = None then
        (empty_table, [at ''CREATE TABLE has no resolvable table name''])
      else
        (let name = resolveTablePath prefix (simpleTableName ref);
             entries = rules ''Create_table_entry'' create;
             ((columns, key, declarations), ds1) = create_entries file name entries ([], [], 0);
             ds2 = (if columns = [] then [at (sprintf ''table %q has no columns'' [FStr name])] else []);
             ds3 = (if declarations = 0 then [at (sprintf ''table %q must declare a PRIMARY KEY'' [FStr name])]
               else if declarations > 1 then [at (sprintf ''table %q declares PRIMARY KEY more than once'' [FStr name])] else []);
             ds4 = map (\<lambda>k. at (sprintf ''primary key column %q does not exist'' [FStr k]))
               (filter (\<lambda>k. \<not> List.member (map col_Name columns) k) key);
             ds5 = map (\<lambda>c. at (serialPrimaryKeyError (col_Name c)))
               (filter (\<lambda>c. col_SequenceGenerated c \<and> \<not> List.member key (col_Name c)) columns);
             (table, ds6) = create_indexes file entries \<lparr>tb_Name = name, tb_Columns = columns, tb_PrimaryKey = key, tb_Indexes = []\<rparr> in
         (table, ds1 @ ds2 @ ds3 @ ds4 @ ds5 @ ds6)))"

definition applyCreateTable :: "Catalog \<Rightarrow> string \<Rightarrow> string \<Rightarrow> tree \<Rightarrow> Catalog \<times> Diagnostic list" where
  "applyCreateTable catalog file prefix create =
     (case validateCreateTableShape file create of
        Some d \<Rightarrow> (catalog, [d])
      | None \<Rightarrow>
          (let name = resolveTablePath prefix (simpleTableName (rule_opt ''Simple_table_ref'' create)) in
           if name \<noteq> [] \<and> catalogTableIndex catalog name \<noteq> None then
             (if has_token ''IF'' create \<and> has_token ''NOT'' create \<and> has_token ''EXISTS'' create then (catalog, [])
              else (catalog, [diagnosticAt file 0 (Some create) (sprintf ''table %q already exists'' [FStr name])]))
           else (let (table, ds) = catalogTable file prefix create in
             if ds \<noteq> [] then (catalog, ds) else (catalog\<lparr>cat_Tables := cat_Tables catalog @ [table]\<rparr>, []))))"

section \<open>DROP TABLE\<close>

definition applyDropTable :: "Catalog \<Rightarrow> string \<Rightarrow> string \<Rightarrow> tree \<Rightarrow> Catalog \<times> Diagnostic list" where
  "applyDropTable catalog file prefix drop' =
     (let at = diagnosticAt file 0 (Some drop');
          name = resolveTablePath prefix (simpleTableName (rule_opt ''Simple_table_ref'' drop')) in
      if \<not> has_token ''TABLE'' drop' \<or> has_token ''EXTERNAL'' drop' \<or> has_token ''TABLESTORE'' drop' then
        (catalog, [at ''only ordinary DROP TABLE is supported''])
      else if name = [] then (catalog, [at ''DROP TABLE has no resolvable table name''])
      else (case catalogTableIndex catalog name of
          None \<Rightarrow>
            if has_token ''IF'' drop' \<and> has_token ''EXISTS'' drop' then (catalog, [])
            else (catalog, [at (sprintf ''table %q does not exist'' [FStr name])])
        | Some index \<Rightarrow> (catalog\<lparr>cat_Tables := remove_at index (cat_Tables catalog)\<rparr>, [])))"

section \<open>ALTER TABLE\<close>

text \<open>The actions: each gives the table after it or one diagnostic.\<close>

definition alter_add_index :: "string \<Rightarrow> Table \<Rightarrow> tree \<Rightarrow> Diagnostic + Table" where
  "alter_add_index file table add =
     (case new_index (\<lambda>index. Errorf ''index %q already exists in table %q'' [FStr (ix_Name index), FStr (tb_Name table)])
         table (rule_of ''Table_index'' add) of
        Inl err \<Rightarrow> Inl (diagnosticAt file 0 (Some add) (error_text err))
      | Inr index \<Rightarrow> Inr (table\<lparr>tb_Indexes := tb_Indexes table @ [index]\<rparr>))"

definition alter_drop_index :: "string \<Rightarrow> Table \<Rightarrow> tree \<Rightarrow> Diagnostic + Table" where
  "alter_drop_index file table drop' =
     (let name = identifier_of (GetText (rule_of ''An_id'' drop')) in
      case catalogIndexPosition table name of
        None \<Rightarrow> Inl (diagnosticAt file 0 (Some drop') (sprintf ''index %q does not exist in table %q'' [FStr name, FStr (tb_Name table)]))
      | Some index \<Rightarrow> Inr (table\<lparr>tb_Indexes := remove_at index (tb_Indexes table)\<rparr>))"

definition alter_add_column :: "string \<Rightarrow> Table \<Rightarrow> tree \<Rightarrow> Diagnostic + Table" where
  "alter_add_column file table add =
     (let schema = rule_of ''Column_schema'' add in
      case catalogColumn (tb_Name table) schema of
        Inl err \<Rightarrow> Inl (diagnosticAt file 0 (Some add) (error_text err))
      | Inr column \<Rightarrow>
          if catalogColumnIndex table (col_Name column) \<noteq> None then
            Inl (diagnosticAt file 0 (Some schema) (sprintf ''column %q already exists in table %q'' [FStr (col_Name column), FStr (tb_Name table)]))
          else if col_SequenceGenerated column then
            Inl (diagnosticAt file 0 (Some schema) (serialPrimaryKeyError (col_Name column)))
          else Inr (table\<lparr>tb_Columns := tb_Columns table @ [column]\<rparr>))"

definition alter_drop_column :: "string \<Rightarrow> Table \<Rightarrow> tree \<Rightarrow> Diagnostic + Table" where
  "alter_drop_column file table drop' =
     (let name = identifier_of (GetText (rule_of ''An_id'' drop')); at = diagnosticAt file 0 (Some drop') in
      case catalogColumnIndex table name of
        None \<Rightarrow> Inl (at (sprintf ''column %q does not exist in table %q'' [FStr name, FStr (tb_Name table)]))
      | Some columnIndex \<Rightarrow>
          if List.member (tb_PrimaryKey table) name then
            Inl (at (sprintf ''cannot drop primary key column %q from table %q'' [FStr name, FStr (tb_Name table)]))
          else (case List.find (\<lambda>index. List.member (ix_Columns index) name \<or> List.member (ix_DataColumns index) name) (tb_Indexes table) of
              Some index \<Rightarrow> Inl (at (sprintf ''cannot drop column %q used by index %q; drop the index first'' [FStr name, FStr (ix_Name index)]))
            | None \<Rightarrow> Inr (table\<lparr>tb_Columns := remove_at columnIndex (tb_Columns table)\<rparr>)))"

definition alter_drop_not_null :: "string \<Rightarrow> Table \<Rightarrow> tree \<Rightarrow> Diagnostic + Table" where
  "alter_drop_not_null file table drop' =
     (let name = identifier_of (GetText (rule_of ''An_id'' drop')) in
      case catalogColumnIndex table name of
        None \<Rightarrow> Inl (diagnosticAt file 0 (Some drop') (sprintf ''column %q does not exist in table %q'' [FStr name, FStr (tb_Name table)]))
      | Some columnIndex \<Rightarrow>
          (let column = tb_Columns table ! columnIndex in
           if IsOptional (col_Type column) then Inr table
           else Inr (table\<lparr>tb_Columns := (tb_Columns table)[columnIndex := column\<lparr>col_Type := Optional (col_Type column)\<rparr>]\<rparr>)))"

definition alter_rename :: "Catalog \<Rightarrow> nat \<Rightarrow> Table \<Rightarrow> string \<Rightarrow> string \<Rightarrow> tree \<Rightarrow> Diagnostic + Table" where
  "alter_rename catalog tableIndex table file prefix rename =
     (let newName = resolveTablePath prefix (identifier_of (GetText (rule_of ''An_id_table'' rename))) in
      case catalogTableIndex catalog newName of
        Some otherIndex \<Rightarrow>
          if otherIndex \<noteq> tableIndex then
            Inl (diagnosticAt file 0 (Some rename) (sprintf ''table %q already exists'' [FStr newName]))
          else Inr (table\<lparr>tb_Name := newName, tb_Columns := map (col_Table_update (\<lambda>_. newName)) (tb_Columns table)\<rparr>)
      | None \<Rightarrow> Inr (table\<lparr>tb_Name := newName, tb_Columns := map (col_Table_update (\<lambda>_. newName)) (tb_Columns table)\<rparr>))"

definition applyAlterTableAction :: "Catalog \<Rightarrow> nat \<Rightarrow> Table \<Rightarrow> string \<Rightarrow> string \<Rightarrow> tree \<Rightarrow> Diagnostic + Table" where
  "applyAlterTableAction catalog tableIndex table file prefix action =
     (case rule_opt ''Alter_table_add_index'' action of Some add \<Rightarrow> alter_add_index file table add | None \<Rightarrow>
     (case rule_opt ''Alter_table_drop_index'' action of Some drop' \<Rightarrow> alter_drop_index file table drop' | None \<Rightarrow>
     (case rule_opt ''Alter_table_add_column'' action of Some add \<Rightarrow> alter_add_column file table add | None \<Rightarrow>
     (case rule_opt ''Alter_table_drop_column'' action of Some drop' \<Rightarrow> alter_drop_column file table drop' | None \<Rightarrow>
     (case rule_opt ''Alter_table_alter_column_drop_not_null'' action of Some drop' \<Rightarrow> alter_drop_not_null file table drop' | None \<Rightarrow>
     (case rule_opt ''Alter_table_rename_to'' action of Some rename \<Rightarrow> alter_rename catalog tableIndex table file prefix rename | None \<Rightarrow>
       Inl (diagnosticAt file 0 (Some action) (sprintf ''unsupported ALTER TABLE action %q; supported actions are ADD COLUMN, DROP COLUMN, ALTER COLUMN ... DROP NOT NULL, ADD INDEX, DROP INDEX, and RENAME TO''
         [FStr (GetText action)]))))))))"

fun alter_actions :: "Catalog \<Rightarrow> nat \<Rightarrow> Table \<Rightarrow> string \<Rightarrow> string \<Rightarrow> tree list \<Rightarrow> Diagnostic + Table" where
  "alter_actions catalog tableIndex working file prefix [] = Inr working"
| "alter_actions catalog tableIndex working file prefix (action # actions) =
     (case applyAlterTableAction catalog tableIndex working file prefix action of
        Inl d \<Rightarrow> Inl d
      | Inr working' \<Rightarrow> alter_actions catalog tableIndex working' file prefix actions)"

definition applyAlterTable :: "Catalog \<Rightarrow> string \<Rightarrow> string \<Rightarrow> tree \<Rightarrow> Catalog \<times> Diagnostic list" where
  "applyAlterTable catalog file prefix alter =
     (let name = resolveTablePath prefix (simpleTableName (rule_opt ''Simple_table_ref'' alter));
          at = diagnosticAt file 0 (Some alter); actions = rules ''Alter_table_action'' alter in
      if name = [] then (catalog, [at ''ALTER TABLE has no resolvable table name''])
      else (case catalogTableIndex catalog name of
          None \<Rightarrow> (catalog, [at (sprintf ''table %q does not exist'' [FStr name])])
        | Some index \<Rightarrow>
            (case (if length actions > 1 then List.find (has_rule ''Alter_table_rename_to'') actions else None) of
               Some action \<Rightarrow> (catalog, [diagnosticAt file 0 (Some action) ''RENAME TO must be the only action in an ALTER TABLE statement''])
             | None \<Rightarrow>
                 (case alter_actions catalog index (cat_Tables catalog ! index) file prefix actions of
                    Inl d \<Rightarrow> (catalog, [d])
                  | Inr working \<Rightarrow> (catalog\<lparr>cat_Tables := (cat_Tables catalog)[index := working]\<rparr>, [])))))"

section \<open>The catalog of the schema files\<close>

definition unsupported_statement :: "string \<Rightarrow> tree \<Rightarrow> Diagnostic" where
  "unsupported_statement file statement =
     diagnosticAt file 0 (Some statement)
       (sprintf ''unsupported schema statement %q; supported statements are CREATE TABLE, ALTER TABLE, and DROP TABLE'' [FStr (GetText statement)])"

definition apply_statement :: "string \<Rightarrow> string \<Rightarrow> Catalog \<Rightarrow> tree \<Rightarrow> Catalog \<times> Diagnostic list" where
  "apply_statement file prefix catalog statement =
     (case rule_opt ''Sql_stmt_core'' statement of
        None \<Rightarrow> (catalog, [unsupported_statement file statement])
      | Some core \<Rightarrow>
          if has_token ''EXPLAIN'' statement then (catalog, [unsupported_statement file statement])
          else if has_rule ''Pragma_stmt'' core then (catalog, [])
          else (case rule_opt ''Create_table_stmt'' core of
              Some create \<Rightarrow> applyCreateTable catalog file prefix create
            | None \<Rightarrow> (case rule_opt ''Alter_table_stmt'' core of
                Some alter \<Rightarrow> applyAlterTable catalog file prefix alter
              | None \<Rightarrow> (case rule_opt ''Drop_table_stmt'' core of
                  Some drop' \<Rightarrow> applyDropTable catalog file prefix drop'
                | None \<Rightarrow> (catalog, [unsupported_statement file statement])))))"

fun apply_statements :: "string \<Rightarrow> string \<Rightarrow> Catalog \<Rightarrow> tree list \<Rightarrow> Catalog \<times> Diagnostic list" where
  "apply_statements file prefix catalog [] = (catalog, [])"
| "apply_statements file prefix catalog (s # ss) =
     (let (catalog, ds) = apply_statement file prefix catalog s; (catalog, ds') = apply_statements file prefix catalog ss in
      (catalog, ds @ ds'))"

definition apply_source :: "antlr_parser \<Rightarrow> Catalog \<Rightarrow> Source \<Rightarrow> Catalog \<times> Diagnostic list" where
  "apply_source antlr catalog source' =
     (let file = src_Name source'; ((tree, tokens), syntax) = parseYQL antlr file (src_Text source') 0 in
      if syntax \<noteq> [] then (catalog, syntax)
      else (case rule_opt ''Sql_stmt_list'' tree of
          None \<Rightarrow> (catalog, [\<lparr>dg_Position = \<lparr>pos_File = file, pos_Line = 1, pos_Column = 1\<rparr>, dg_Message = ''unsupported schema query form''\<rparr>])
        | Some stmts \<Rightarrow>
            (let (prefix, ds) = tablePathPrefix file 0 tree in
             if ds \<noteq> [] then (catalog, ds) else apply_statements file prefix catalog (rules ''Sql_stmt'' stmts))))"

fun apply_sources :: "antlr_parser \<Rightarrow> Catalog \<Rightarrow> Source list \<Rightarrow> Catalog \<times> Diagnostic list" where
  "apply_sources antlr catalog [] = (catalog, [])"
| "apply_sources antlr catalog (s # ss) =
     (let (catalog, ds) = apply_source antlr catalog s; (catalog, ds') = apply_sources antlr catalog ss in (catalog, ds @ ds'))"

definition buildCatalog :: "antlr_parser \<Rightarrow> Source list \<Rightarrow> Catalog \<times> Diagnostic list" where
  "buildCatalog antlr sources = apply_sources antlr \<lparr>cat_Tables = []\<rparr> sources"

section \<open>The invariant of the catalog\<close>

lemma find_index_Some_iff:
  "find_index P xs = Some i \<longleftrightarrow> i < length xs \<and> P (xs ! i) \<and> (\<forall>j<i. \<not> P (xs ! j))"
proof (induction xs arbitrary: i)
  case (Cons x xs)
  then show ?case by (cases i) (auto simp: All_less_Suc2)
qed simp

lemma find_index_None_iff: "find_index P xs = None \<longleftrightarrow> (\<forall>x\<in>set xs. \<not> P x)"
  by (induction xs) auto

lemma tableColumn_None_iff: "tableColumn table name = None \<longleftrightarrow> name \<notin> col_Name ` set (tb_Columns table)"
  by (auto simp: tableColumn_def catalogColumnIndex_def find_index_None_iff)

text \<open>An index: a name, key columns and covering columns of the table, none of them twice.\<close>

definition index_ok :: "Table \<Rightarrow> Index \<Rightarrow> bool" where
  "index_ok table index \<longleftrightarrow>
     ix_Name index \<noteq> [] \<and> distinct (ix_Columns index @ ix_DataColumns index)
   \<and> list_all (\<lambda>n. List.member (map col_Name (tb_Columns table)) n) (ix_Columns index @ ix_DataColumns index)
   \<and> list_all (\<lambda>n. \<not> List.member (tb_PrimaryKey table) n) (ix_DataColumns index)"

definition column_ok :: "Table \<Rightarrow> Column \<Rightarrow> bool" where
  "column_ok table c \<longleftrightarrow> col_Table c = tb_Name table \<and> yql_type (col_Type c)
     \<and> (if col_SequenceGenerated c then List.member (tb_PrimaryKey table) (col_Name c) else True)"

definition table_ok :: "Table \<Rightarrow> bool" where
  "table_ok table \<longleftrightarrow>
     distinct (map col_Name (tb_Columns table)) \<and> list_all (column_ok table) (tb_Columns table)
   \<and> distinct (tb_PrimaryKey table) \<and> list_all (List.member (map col_Name (tb_Columns table))) (tb_PrimaryKey table)
   \<and> distinct (map ix_Name (tb_Indexes table)) \<and> list_all (index_ok table) (tb_Indexes table)"

definition catalog_ok :: "Catalog \<Rightarrow> bool" where
  "catalog_ok catalog \<longleftrightarrow>
     distinct (filter (\<lambda>n. n \<noteq> []) (map tb_Name (cat_Tables catalog))) \<and> list_all table_ok (cat_Tables catalog)"

lemma index_group_err_None:
  "index_group_err table index grp seen names = None \<longleftrightarrow>
     set names \<subseteq> col_Name ` set (tb_Columns table) \<and> distinct names \<and> set names \<inter> set seen = {}
   \<and> (grp = ''covering'' \<longrightarrow> set names \<inter> (set (ix_Columns index) \<union> set (tb_PrimaryKey table)) = {})"
  by (induction names arbitrary: seen) (auto simp: tableColumn_None_iff)

lemma validateTableIndex_None: "validateTableIndex table index = None \<longleftrightarrow> index_ok table index"
  by (auto simp: validateTableIndex_def index_group_err_None index_ok_def list_all_iff split: option.splits)

lemma new_index_ok:
  "new_index taken table ctx = Inr index \<Longrightarrow> index_ok table index \<and> ix_Name index \<notin> ix_Name ` set (tb_Indexes table)"
  by (auto simp: new_index_def result_simps validateTableIndex_None catalogIndexPosition_def find_index_None_iff)

lemma index_ok_indexes [simp]: "index_ok (table\<lparr>tb_Indexes := is\<rparr>) index = index_ok table index"
  by (simp add: index_ok_def)

lemma column_ok_indexes [simp]: "column_ok (table\<lparr>tb_Indexes := is\<rparr>) c = column_ok table c"
  by (simp add: column_ok_def)

lemma table_ok_add_index:
  "table_ok table \<Longrightarrow> new_index taken table ctx = Inr index \<Longrightarrow> table_ok (table\<lparr>tb_Indexes := tb_Indexes table @ [index]\<rparr>)"
  using new_index_ok [of taken table ctx index] by (auto simp: table_ok_def list_all_iff)

lemma remove_at_set: "set (remove_at i xs) \<subseteq> set xs"
  by (auto simp: remove_at_def dest: in_set_takeD in_set_dropD)

lemma remove_at_map: "map f (remove_at i xs) = remove_at i (map f xs)"
  by (simp add: remove_at_def take_map drop_map)

lemma remove_at_distinct: "distinct xs \<Longrightarrow> distinct (remove_at i xs)"
  by (auto simp: remove_at_def set_take_disj_set_drop_if_distinct)

lemma remove_at_names:
  assumes "distinct (map f xs)" "i < length xs"
  shows "f ` set (remove_at i xs) = f ` set xs - {f (xs ! i)}"
proof -
  have "set xs = insert (xs ! i) (set (remove_at i xs))"
    using assms(2) by (subst id_take_nth_drop) (auto simp: remove_at_def)
  moreover have "f (xs ! i) \<notin> f ` set (remove_at i xs)"
  proof -
    have "distinct (map f (take i xs @ xs ! i # drop (Suc i) xs))" using assms by (simp add: id_take_nth_drop [symmetric])
    then show ?thesis by (auto simp: remove_at_def)
  qed
  ultimately show ?thesis by auto
qed

lemma serial_types_yql: "serialType s = Some t \<Longrightarrow> yql_type t"
proof -
  have "list_all (\<lambda>k. List.member (map snd simpleTypes) k) (map snd serialTypes)" by code_simp
  then show "serialType s = Some t \<Longrightarrow> ?thesis"
    by (auto simp: serialType_def list_all_iff intro!: yql_scalar dest!: map_of_SomeD) (metis image_eqI snd_conv)
qed

lemma yql_Optional: "yql_type t \<Longrightarrow> yql_type (Optional t)"
  unfolding Optional_def by (rule yql_unary) simp_all

lemma catalogColumn_ok:
  "catalogColumn table ctx = Inr c \<Longrightarrow> col_Table c = table \<and> yql_type (col_Type c)"
  by (auto simp: catalogColumn_def Let_def result_simps split: option.splits if_splits
      intro!: yql_Optional dest: serial_types_yql parseType_type)

subsection \<open>CREATE TABLE\<close>

lemma key_names_ok:
  "distinct key \<Longrightarrow> distinct (fst (key_names file key ids))"
  by (induction ids arbitrary: key) (auto simp: Let_def split_beta)

text \<open>After the entries: the columns and the key have distinct names, the columns belong to the table.\<close>

definition create_ok :: "string \<Rightarrow> create_state \<Rightarrow> bool" where
  "create_ok table st \<longleftrightarrow> (case st of (columns, key, n) \<Rightarrow>
     distinct (map col_Name columns) \<and> distinct key \<and> (\<forall>c\<in>set columns. col_Table c = table \<and> yql_type (col_Type c)))"

lemma create_entry_ok: "create_ok table st \<Longrightarrow> create_ok table (fst (create_entry file table entry st))"
  by (auto simp: create_entry_def create_ok_def Let_def split_beta key_names_ok
      dest: catalogColumn_ok split: option.splits sum.splits)

lemma create_entries_ok: "create_ok table st \<Longrightarrow> create_ok table (fst (create_entries file table entries st))"
proof (induction entries arbitrary: st)
  case (Cons e es)
  show ?case using Cons.IH [OF create_entry_ok [OF Cons.prems]] by (simp add: Let_def split_beta)
qed simp

lemma create_indexes_ok:
  "table_ok table \<Longrightarrow> table_ok (fst (create_indexes file entries table)) \<and> tb_Name (fst (create_indexes file entries table)) = tb_Name table"
  by (induction entries arbitrary: table)
    (auto simp: Let_def split_beta split: option.splits sum.splits dest: table_ok_add_index)

lemma catalogTable_ok:
  assumes "catalogTable file prefix create = (table, [])"
  shows "table_ok table \<and> tb_Name table = resolveTablePath prefix (simpleTableName (rule_opt ''Simple_table_ref'' create))"
proof -
  let ?name = "resolveTablePath prefix (simpleTableName (rule_opt ''Simple_table_ref'' create))"
  let ?entries = "rules ''Create_table_entry'' create"
  obtain columns key n ds1 where st: "create_entries file ?name ?entries ([], [], 0) = ((columns, key, n), ds1)"
    by (metis surj_pair)
  let ?table = "\<lparr>tb_Name = ?name, tb_Columns = columns, tb_PrimaryKey = key, tb_Indexes = []\<rparr>"
  have ok: "create_ok ?name (columns, key, n)"
    using create_entries_ok [of ?name "([], [], 0)" "file" ?entries] st by (simp add: create_ok_def)
  from assms st have key: "\<forall>k\<in>set key. k \<in> col_Name ` set columns" "\<forall>c\<in>set columns. \<not> (col_SequenceGenerated c \<and> col_Name c \<notin> set key)"
    and t: "table = fst (create_indexes file ?entries ?table)"
    by (auto simp: catalogTable_def Let_def split_beta filter_empty_conv split: if_splits)
  have "table_ok ?table"
    using ok key by (auto simp: table_ok_def create_ok_def column_ok_def list_all_iff)
  from create_indexes_ok [OF this, of "file" ?entries] t show ?thesis by simp
qed

lemma catalog_ok_add:
  "catalog_ok c \<Longrightarrow> table_ok t \<Longrightarrow> tb_Name t = [] \<or> tb_Name t \<notin> tb_Name ` set (cat_Tables c) \<Longrightarrow>
     catalog_ok (c\<lparr>cat_Tables := cat_Tables c @ [t]\<rparr>)"
  by (auto simp: catalog_ok_def)

lemma catalogTableIndex_None: "catalogTableIndex c name = None \<longleftrightarrow> name \<notin> tb_Name ` set (cat_Tables c)"
  by (auto simp: catalogTableIndex_def find_index_None_iff)

lemma applyCreateTable_ok:
  assumes "catalog_ok c"
  shows "catalog_ok (fst (applyCreateTable c file prefix create))"
proof -
  let ?name = "resolveTablePath prefix (simpleTableName (rule_opt ''Simple_table_ref'' create))"
  obtain table ds where t: "catalogTable file prefix create = (table, ds)" by fastforce
  have "catalog_ok (c\<lparr>cat_Tables := cat_Tables c @ [table]\<rparr>)" if "ds = []" "?name = [] \<or> catalogTableIndex c ?name = None"
    using that t catalogTable_ok [of "file" prefix create table] assms
    by (intro catalog_ok_add) (auto simp: catalogTableIndex_None)
  with assms t show ?thesis by (auto simp: applyCreateTable_def Let_def split: option.splits)
qed

subsection \<open>DROP TABLE and ALTER TABLE\<close>

lemma filter_remove_at: "distinct (filter P xs) \<Longrightarrow> distinct (filter P (remove_at i xs))"
proof -
  have "filter P xs = filter P (take i xs) @ filter P (drop i xs)" by (simp add: filter_append [symmetric])
  moreover have "set (filter P (drop (Suc i) xs)) \<subseteq> set (filter P (drop i xs))"
    using set_drop_subset_set_drop [of i "Suc i" xs] by auto
  moreover have "drop (Suc i) xs = tl (drop i xs)" by (simp add: drop_Suc tl_drop)
  then have "distinct (filter P (drop i xs)) \<Longrightarrow> distinct (filter P (drop (Suc i) xs))"
    by (cases "drop i xs") (auto split: if_splits)
  ultimately show "distinct (filter P xs) \<Longrightarrow> ?thesis" by (auto simp: remove_at_def)
qed

lemma catalog_ok_remove: "catalog_ok c \<Longrightarrow> catalog_ok (c\<lparr>cat_Tables := remove_at i (cat_Tables c)\<rparr>)"
  using filter_remove_at [of "\<lambda>n. n \<noteq> []" "map tb_Name (cat_Tables c)" i] remove_at_set [of i "cat_Tables c"]
  unfolding catalog_ok_def list_all_iff by (simp add: remove_at_map) blast

lemma applyDropTable_ok: "catalog_ok c \<Longrightarrow> catalog_ok (fst (applyDropTable c file prefix d))"
  by (auto simp: applyDropTable_def Let_def catalog_ok_remove split: option.split)

text \<open>The name of a table may stand at an index when no other table has it.\<close>

definition name_free :: "Catalog \<Rightarrow> nat \<Rightarrow> string \<Rightarrow> bool" where
  "name_free c i n \<longleftrightarrow> n = [] \<or> n \<notin> tb_Name ` set (remove_at i (cat_Tables c))"

lemma name_free_own:
  assumes "catalog_ok c" "i < length (cat_Tables c)"
  shows "name_free c i (tb_Name (cat_Tables c ! i))"
proof -
  let ?ts = "cat_Tables c"
  have "distinct (filter (\<lambda>n. n \<noteq> []) (map tb_Name (take i ?ts @ ?ts ! i # drop (Suc i) ?ts)))"
    using assms by (simp add: id_take_nth_drop [symmetric] catalog_ok_def)
  then show ?thesis by (auto simp: name_free_def remove_at_def filter_map)
qed

lemma catalog_ok_update:
  assumes "catalog_ok c" "i < length (cat_Tables c)" "table_ok t" "name_free c i (tb_Name t)"
  shows "catalog_ok (c\<lparr>cat_Tables := (cat_Tables c)[i := t]\<rparr>)"
proof -
  let ?ts = "cat_Tables c"
  have ts: "?ts[i := t] = take i ?ts @ t # drop (Suc i) ?ts" using assms(2) by (rule upd_conv_take_nth_drop)
  have "distinct (filter (\<lambda>n. n \<noteq> []) (map tb_Name (remove_at i ?ts)))"
    using assms(1) by (simp add: catalog_ok_def remove_at_map filter_remove_at)
  with assms(4) have "distinct (filter (\<lambda>n. n \<noteq> []) (map tb_Name (?ts[i := t])))"
    unfolding ts by (auto simp: remove_at_def name_free_def)
  moreover have "list_all table_ok (?ts[i := t])"
    using assms(1,3) by (auto simp: catalog_ok_def list_all_iff dest: set_update_subset_insert [THEN subsetD])
  ultimately show ?thesis by (simp add: catalog_ok_def)
qed

lemma index_ok_columns:
  "index_ok t i \<Longrightarrow> tb_PrimaryKey t' = tb_PrimaryKey t \<Longrightarrow>
     (\<And>n. n \<in> set (ix_Columns i) \<union> set (ix_DataColumns i) \<Longrightarrow> n \<in> col_Name ` set (tb_Columns t')) \<Longrightarrow> index_ok t' i"
  by (auto simp: index_ok_def list_all_iff)

lemma index_ok_names: "index_ok t i \<Longrightarrow> n \<in> set (ix_Columns i) \<union> set (ix_DataColumns i) \<Longrightarrow> n \<in> col_Name ` set (tb_Columns t)"
  by (auto simp: index_ok_def list_all_iff)

lemma table_okD:
  assumes "table_ok t"
  shows "distinct (map col_Name (tb_Columns t))" "c \<in> set (tb_Columns t) \<Longrightarrow> column_ok t c"
    "set (tb_PrimaryKey t) \<subseteq> col_Name ` set (tb_Columns t)"
    "i \<in> set (tb_Indexes t) \<Longrightarrow> set (ix_Columns i) \<union> set (ix_DataColumns i) \<subseteq> col_Name ` set (tb_Columns t)"
    "distinct (map ix_Name (tb_Indexes t))" "i \<in> set (tb_Indexes t) \<Longrightarrow> index_ok t i"
  using assms by (auto simp: table_ok_def list_all_iff dest: index_ok_names)

text \<open>A change of the columns keeps the table well formed when the key and the indexes keep their columns.\<close>

lemma table_ok_columns:
  assumes t: "table_ok t" and d: "distinct (map col_Name cs)" "\<And>c. c \<in> set cs \<Longrightarrow> column_ok t c"
    and k: "set (tb_PrimaryKey t) \<subseteq> col_Name ` set cs"
    and i: "\<And>i. i \<in> set (tb_Indexes t) \<Longrightarrow> set (ix_Columns i) \<union> set (ix_DataColumns i) \<subseteq> col_Name ` set cs"
  shows "table_ok (t\<lparr>tb_Columns := cs\<rparr>)"
proof -
  have "index_ok (t\<lparr>tb_Columns := cs\<rparr>) i" if "i \<in> set (tb_Indexes t)" for i
  proof (rule index_ok_columns)
    show "index_ok t i" using table_okD(6) [OF t that] .
    show "n \<in> col_Name ` set (tb_Columns (t\<lparr>tb_Columns := cs\<rparr>))" if "n \<in> set (ix_Columns i) \<union> set (ix_DataColumns i)" for n
      using i [OF \<open>i \<in> set (tb_Indexes t)\<close>] that by auto
  qed simp
  moreover have "column_ok (t\<lparr>tb_Columns := cs\<rparr>) c" if "c \<in> set cs" for c
    using d(2) [OF that] by (auto simp: column_ok_def split: if_splits)
  moreover have "List.member (map col_Name cs) n" if "n \<in> set (tb_PrimaryKey t)" for n
    using k that by auto
  moreover have "distinct (tb_PrimaryKey t)" "distinct (map ix_Name (tb_Indexes t))"
    using t by (simp_all add: table_ok_def)
  ultimately show ?thesis using d(1) by (simp add: table_ok_def list_all_iff)
qed

lemma alter_add_index_ok: "table_ok t \<Longrightarrow> alter_add_index file t add = Inr t' \<Longrightarrow> table_ok t' \<and> tb_Name t' = tb_Name t"
  by (auto simp: alter_add_index_def table_ok_add_index split: sum.splits)

lemma alter_drop_index_ok:
  assumes "table_ok t" "alter_drop_index file t d = Inr t'"
  shows "table_ok t' \<and> tb_Name t' = tb_Name t"
proof -
  from assms(2) obtain i where t': "t' = t\<lparr>tb_Indexes := remove_at i (tb_Indexes t)\<rparr>"
    by (auto simp: alter_drop_index_def Let_def split: option.splits)
  show ?thesis
    using assms(1) remove_at_set [of i "tb_Indexes t"] unfolding t' table_ok_def list_all_iff
    by (auto simp: remove_at_map remove_at_distinct)
qed

lemma alter_add_column_ok:
  assumes "table_ok t" "alter_add_column file t add = Inr t'"
  shows "table_ok t' \<and> tb_Name t' = tb_Name t"
proof -
  from assms(2) obtain c where c: "catalogColumn (tb_Name t) (rule_of ''Column_schema'' add) = Inr c"
      "catalogColumnIndex t (col_Name c) = None" "\<not> col_SequenceGenerated c" and t': "t' = t\<lparr>tb_Columns := tb_Columns t @ [c]\<rparr>"
    by (auto simp: alter_add_column_def Let_def split: sum.splits if_splits)
  have "column_ok t c" using catalogColumn_ok [OF c(1)] c(3) by (simp add: column_ok_def)
  moreover have "col_Name c \<notin> col_Name ` set (tb_Columns t)" using c(2) by (auto simp: catalogColumnIndex_def find_index_None_iff)
  moreover note d = table_okD [OF assms(1)]
  ultimately have "table_ok (t\<lparr>tb_Columns := tb_Columns t @ [c]\<rparr>)"
    using d(1-3) d(4) by (intro table_ok_columns [OF assms(1)]) fastforce+
  then show ?thesis by (simp add: t')
qed

lemma alter_drop_column_ok:
  assumes "table_ok t" "alter_drop_column file t d = Inr t'"
  shows "table_ok t' \<and> tb_Name t' = tb_Name t"
proof -
  let ?name = "identifier_of (GetText (rule_of ''An_id'' d))"
  from assms(2) obtain i where i: "catalogColumnIndex t ?name = Some i" "?name \<notin> set (tb_PrimaryKey t)"
      "\<And>ix. ix \<in> set (tb_Indexes t) \<Longrightarrow> ?name \<notin> set (ix_Columns ix) \<union> set (ix_DataColumns ix)"
    and t': "t' = t\<lparr>tb_Columns := remove_at i (tb_Columns t)\<rparr>"
    by (auto simp: alter_drop_column_def Let_def find_None_iff split: option.splits if_splits)
  note d = table_okD [OF assms(1)]
  from i(1) have "i < length (tb_Columns t)" "col_Name (tb_Columns t ! i) = ?name"
    by (auto simp: catalogColumnIndex_def find_index_Some_iff)
  then have names: "col_Name ` set (remove_at i (tb_Columns t)) = col_Name ` set (tb_Columns t) - {?name}"
    using remove_at_names [OF d(1)] by simp
  have "table_ok (t\<lparr>tb_Columns := remove_at i (tb_Columns t)\<rparr>)"
  proof (rule table_ok_columns [OF assms(1)])
    show "distinct (map col_Name (remove_at i (tb_Columns t)))" using d(1) by (simp add: remove_at_map remove_at_distinct)
    show "column_ok t c" if "c \<in> set (remove_at i (tb_Columns t))" for c
      by (rule d(2) [OF subsetD [OF remove_at_set that]])
    show "set (tb_PrimaryKey t) \<subseteq> col_Name ` set (remove_at i (tb_Columns t))"
      unfolding names using d(3) i(2) by blast
    show "set (ix_Columns ix) \<union> set (ix_DataColumns ix) \<subseteq> col_Name ` set (remove_at i (tb_Columns t))" if "ix \<in> set (tb_Indexes t)" for ix
      unfolding names using d(4) [OF that] i(3) [OF that] by blast
  qed
  then show ?thesis by (simp add: t')
qed

lemma alter_drop_not_null_ok:
  assumes "table_ok t" "alter_drop_not_null file t d = Inr t'"
  shows "table_ok t' \<and> tb_Name t' = tb_Name t"
proof -
  let ?name = "identifier_of (GetText (rule_of ''An_id'' d))"
  from assms(2) obtain i where i: "catalogColumnIndex t ?name = Some i"
    by (auto simp: alter_drop_not_null_def Let_def split: option.splits)
  then have len: "i < length (tb_Columns t)" by (auto simp: catalogColumnIndex_def find_index_Some_iff)
  let ?c = "tb_Columns t ! i"
  let ?cs = "(tb_Columns t)[i := ?c\<lparr>col_Type := Optional (col_Type ?c)\<rparr>]"
  note d = table_okD [OF assms(1)]
  have names: "map col_Name ?cs = map col_Name (tb_Columns t)"
    using len by (simp add: map_update) (metis list_update_id nth_map)
  then have names': "col_Name ` set ?cs = col_Name ` set (tb_Columns t)" by (metis list.set_map)
  have "table_ok (t\<lparr>tb_Columns := ?cs\<rparr>)"
  proof (rule table_ok_columns [OF assms(1)])
    show "distinct (map col_Name ?cs)" using d(1) names by simp
    have "column_ok t (?c\<lparr>col_Type := Optional (col_Type ?c)\<rparr>)"
      using d(2) [of ?c] len by (auto simp: column_ok_def yql_Optional)
    then show "column_ok t c" if "c \<in> set ?cs" for c
      using that d(2) set_update_subset_insert by fastforce
  qed (use d(3,4) names' in simp_all)
  moreover from assms(2) i have "t' = t \<or> t' = t\<lparr>tb_Columns := ?cs\<rparr>"
    by (auto simp: alter_drop_not_null_def Let_def split: if_splits)
  ultimately show ?thesis using assms(1) by auto
qed

lemma table_ok_rename: "table_ok t \<Longrightarrow> table_ok (t\<lparr>tb_Name := n, tb_Columns := map (col_Table_update (\<lambda>_. n)) (tb_Columns t)\<rparr>)"
  by (auto simp: table_ok_def list_all_iff column_ok_def index_ok_def comp_def image_image)

lemma alter_rename_ok:
  assumes "catalog_ok c" "table_ok t" "alter_rename c i t file prefix r = Inr t'"
  shows "table_ok t' \<and> name_free c i (tb_Name t')"
proof -
  let ?n = "resolveTablePath prefix (identifier_of (GetText (rule_of ''An_id_table'' r)))"
  from assms(3) have t': "t' = t\<lparr>tb_Name := ?n, tb_Columns := map (col_Table_update (\<lambda>_. ?n)) (tb_Columns t)\<rparr>"
    and n: "catalogTableIndex c ?n = None \<or> catalogTableIndex c ?n = Some i"
    by (auto simp: alter_rename_def Let_def split: option.splits if_splits)
  from n have "name_free c i ?n"
  proof
    assume "catalogTableIndex c ?n = None"
    then show ?thesis using remove_at_set by (fastforce simp: name_free_def catalogTableIndex_None)
  next
    assume "catalogTableIndex c ?n = Some i"
    then have "i < length (cat_Tables c)" "tb_Name (cat_Tables c ! i) = ?n"
      by (auto simp: catalogTableIndex_def find_index_Some_iff)
    with name_free_own [OF assms(1)] show ?thesis by metis
  qed
  with table_ok_rename [OF assms(2)] show ?thesis by (simp add: t')
qed

lemma applyAlterTableAction_ok:
  assumes "catalog_ok c" "table_ok t" "name_free c i (tb_Name t)" "applyAlterTableAction c i t file prefix action = Inr t'"
  shows "table_ok t' \<and> name_free c i (tb_Name t')"
  using assms(4) assms(3) alter_rename_ok [OF assms(1,2)] alter_add_index_ok [OF assms(2)] alter_drop_index_ok [OF assms(2)]
    alter_add_column_ok [OF assms(2)] alter_drop_column_ok [OF assms(2)] alter_drop_not_null_ok [OF assms(2)]
  unfolding applyAlterTableAction_def by (auto split: option.splits)

lemma alter_actions_ok:
  "catalog_ok c \<Longrightarrow> table_ok t \<Longrightarrow> name_free c i (tb_Name t) \<Longrightarrow> alter_actions c i t file prefix actions = Inr t' \<Longrightarrow>
     table_ok t' \<and> name_free c i (tb_Name t')"
  by (induction actions arbitrary: t) (auto split: sum.splits dest: applyAlterTableAction_ok)

lemma applyAlterTable_ok:
  assumes "catalog_ok c"
  shows "catalog_ok (fst (applyAlterTable c file prefix alter))"
proof -
  let ?name = "resolveTablePath prefix (simpleTableName (rule_opt ''Simple_table_ref'' alter))"
  have "catalog_ok (c\<lparr>cat_Tables := (cat_Tables c)[i := t]\<rparr>)"
    if i: "catalogTableIndex c ?name = Some i" and t: "alter_actions c i (cat_Tables c ! i) file prefix (rules ''Alter_table_action'' alter) = Inr t" for i t
  proof -
    from i have len: "i < length (cat_Tables c)" by (auto simp: catalogTableIndex_def find_index_Some_iff)
    with assms have "table_ok (cat_Tables c ! i)" by (simp add: catalog_ok_def list_all_length)
    from alter_actions_ok [OF assms this name_free_own [OF assms len] t] show ?thesis
      using catalog_ok_update [OF assms len] by blast
  qed
  with assms show ?thesis by (auto simp: applyAlterTable_def Let_def split: option.split sum.split)
qed

subsection \<open>Statements and files\<close>

lemma apply_statement_ok: "catalog_ok c \<Longrightarrow> catalog_ok (fst (apply_statement file prefix c s))"
  by (auto simp: apply_statement_def applyCreateTable_ok applyAlterTable_ok applyDropTable_ok split: option.split)

lemma apply_statements_ok: "catalog_ok c \<Longrightarrow> catalog_ok (fst (apply_statements file prefix c ss))"
proof (induction ss arbitrary: c)
  case (Cons s ss)
  show ?case using Cons.IH [OF apply_statement_ok [OF Cons.prems]] by (simp add: Let_def split_beta)
qed simp

lemma apply_source_ok: "catalog_ok c \<Longrightarrow> catalog_ok (fst (apply_source antlr c s))"
  by (auto simp: apply_source_def Let_def split_beta apply_statements_ok split: option.split)

lemma apply_sources_ok: "catalog_ok c \<Longrightarrow> catalog_ok (fst (apply_sources antlr c ss))"
proof (induction ss arbitrary: c)
  case (Cons s ss)
  show ?case using Cons.IH [OF apply_source_ok [OF Cons.prems]] by (simp add: Let_def split_beta)
qed simp

lemma catalog_ok_empty: "catalog_ok \<lparr>cat_Tables = []\<rparr>"
  by (simp add: catalog_ok_def)

section \<open>Properties\<close>

lemma buildCatalog_invariant: "catalog_ok (fst (buildCatalog antlr sources))"
  unfolding buildCatalog_def by (rule apply_sources_ok [OF catalog_ok_empty])

text \<open>
  C32: whatever the schema files contain, the catalog built from them is well formed: no two tables have
  the same (non-empty) name; in each table the columns have distinct names, belong to the table and have
  a type that can be written in a schema; the primary key and every index name existing columns, each
  once; a covering column is in no key; serial columns are in the primary key.
\<close>

theorem build_catalog_ok: "catalog_ok (fst (buildCatalog antlr sources))"
  by (rule buildCatalog_invariant)

end
