(* ===== verification/ExprTree.thy ===== *)
theory ExprTree
  imports AnalyzerText YqlTypes Literals Registry
begin

text \<open>
  The questions that the analyzer asks a parse tree: which sub-expression covers a node, whether a node
  is a direct call, a bind or a literal, and which columns it mentions (\<open>internal/analyzer/expression.go\<close>,
  \<open>arithmetic.go\<close>, \<open>literal.go\<close>, \<open>in_subquery.go\<close>, \<open>lambda.go\<close>, \<open>semantic.go\<close>).

  \<open>GetParent\<close> leads out of a subtree: a definition that follows it takes the tree of the whole query,
  \<open>query\<close>, and finds the node in it. The tokens of a tree are all different, so a node with a token is
  found where it stands.
\<close>

section \<open>Nodes and parents\<close>

fun is_context :: "tree \<Rightarrow> bool" where
  "is_context (Leaf tok) = False"
| "is_context (Node name a b ts) = True"

definition parents :: "tree \<Rightarrow> tree \<Rightarrow> tree list" where
  "parents query node = (case List.find (\<lambda>(up, t). t = node) (walk [] query) of Some (up, t) \<Rightarrow> up | None \<Rightarrow> [])"

definition token_list :: "string \<Rightarrow> tree \<Rightarrow> tree list" where
  "token_list name t = filter (is_token name) (tree_children t)"

definition start_token_index :: "tree \<Rightarrow> int option" where
  "start_token_index t = map_option tk_Start (GetStart t)"

definition sameSpan :: "tree \<Rightarrow> tree \<Rightarrow> bool" where
  "sameSpan left right =
     (case (GetStart left, GetStop left, GetStart right, GetStop right) of
        (Some a, Some b, Some c, Some d) \<Rightarrow> tk_Start a = tk_Start c \<and> tk_Stop b = tk_Stop d
      | _ \<Rightarrow> False)"

text \<open>What a loop over \<open>descendants\<close> is left with that overwrites its variable at every match.\<close>

definition last_match :: "(tree \<Rightarrow> bool) \<Rightarrow> tree \<Rightarrow> tree option" where
  "last_match p root = (case rev (filter p (descendants root)) of [] \<Rightarrow> None | t # _ \<Rightarrow> Some t)"

definition covering_rule :: "string \<Rightarrow> tree \<Rightarrow> tree option" where
  "covering_rule name root = last_match (\<lambda>t. is_rule name t \<and> sameSpan root t) root"

function unwraps_to :: "string \<Rightarrow> string \<Rightarrow> bool" where
  "unwraps_to text inner \<longleftrightarrow>
     text = inner \<or>
     (if length text \<ge> 2 \<and> hd text = CHR ''('' \<and> last text = CHR '')'' then unwraps_to (tl (butlast text)) inner else False)"
  by pat_completeness auto
termination
  by (relation "measure (length \<circ> fst)") auto

declare unwraps_to.simps [simp del]

definition sameOrWrappedExpression :: "tree \<Rightarrow> tree \<Rightarrow> bool" where
  "sameOrWrappedExpression outer inner \<longleftrightarrow> unwraps_to (GetText outer) (GetText inner)"

section \<open>Covering expressions\<close>

function coveringExpressionContext :: "tree \<Rightarrow> tree" where
  "coveringExpressionContext root =
     (case List.find (\<lambda>t. is_context t \<and> sameSpan root t) (tree_children root) of
        Some covering \<Rightarrow> coveringExpressionContext covering
      | None \<Rightarrow> root)"
  by pat_completeness auto
termination
  by (relation "measure size") (auto simp: find_Some_iff intro: size_child)

declare coveringExpressionContext.simps [simp del]

definition parenthesizedExpression :: "tree \<Rightarrow> tree option" where
  "parenthesizedExpression root =
     (let paren = coveringExpressionContext root in
      if \<not> is_rule ''Smart_parenthesis'' paren \<or> has_token ''COMMA'' paren then None
      else (case rule_opt ''Select_subexpr'' paren of
          None \<Rightarrow> None
        | Some selectExpr \<Rightarrow>
            if has_rule ''Cte_with_clause'' selectExpr then None
            else (case rule_opt ''Select_subexpr_core'' selectExpr of
                None \<Rightarrow> None
              | Some core \<Rightarrow>
                  (case rules ''Select_subexpr_intersect'' core of
                     [intersect] \<Rightarrow>
                       if has_rule ''Union_op'' core \<or> has_rule ''Intersect_op'' intersect then None
                       else (case rules ''Select_or_expr'' intersect of
                           [source] \<Rightarrow>
                             (case rule_opt ''Tuple_or_expr'' source of
                                None \<Rightarrow> None
                              | Some tuple \<Rightarrow>
                                  if has_token ''AS'' tuple \<or> has_token ''COMMA'' tuple then None
                                  else rule_opt ''Expr'' tuple)
                         | _ \<Rightarrow> None)
                   | _ \<Rightarrow> None))))"

lemma covering_descendant: "coveringExpressionContext root \<in> set (descendants root)"
proof (induction root rule: coveringExpressionContext.induct)
  case (1 root)
  show ?case
  proof (cases "List.find (\<lambda>t. is_context t \<and> sameSpan root t) (tree_children root)")
    case None
    then show ?thesis by (subst coveringExpressionContext.simps) simp
  next
    case (Some t)
    then have "t \<in> set (tree_children root)" by (auto simp: find_Some_iff)
    with 1 [OF Some] show ?thesis
      by (subst coveringExpressionContext.simps) (simp add: Some child_descendant)
  qed
qed

lemma size_rule: "rule_opt name t = Some u \<Longrightarrow> size u < size t"
  by (auto dest: rule_opt_child intro: size_child)

lemma size_rules: "u \<in> set (rules name t) \<Longrightarrow> size u < size t"
  by (auto dest: rules_child intro: size_child)

lemma size_covering: "size (coveringExpressionContext root) \<le> size root"
  by (rule size_descendant [OF covering_descendant])

lemma size_parenthesized:
  assumes "parenthesizedExpression root = Some inner"
  shows "size inner < size root"
proof -
  obtain selectExpr core intersect source tuple where s:
    "rule_opt ''Select_subexpr'' (coveringExpressionContext root) = Some selectExpr"
    "rule_opt ''Select_subexpr_core'' selectExpr = Some core"
    "rules ''Select_subexpr_intersect'' core = [intersect]" "rules ''Select_or_expr'' intersect = [source]"
    "rule_opt ''Tuple_or_expr'' source = Some tuple" "rule_opt ''Expr'' tuple = Some inner"
    using assms by (auto simp: parenthesizedExpression_def Let_def split: if_splits option.splits list.splits)
  have "size intersect < size core" "size source < size intersect"
    by (rule size_rules [of _ "''Select_subexpr_intersect''"], simp add: s(3),
        rule size_rules [of _ "''Select_or_expr''"], simp add: s(4))
  with s(1,2,5,6) size_covering [of root] show ?thesis
    by (auto dest!: size_rule)
qed

text \<open>The loop \<open>for inner := parenthesizedExpression(expr); inner != nil; ...\<close>.\<close>

function unwrapOrderByColumn :: "tree \<Rightarrow> tree" where
  "unwrapOrderByColumn expr =
     (case parenthesizedExpression expr of Some inner \<Rightarrow> unwrapOrderByColumn inner | None \<Rightarrow> expr)"
  by pat_completeness auto
termination
  by (relation "measure size") (auto dest: size_parenthesized)

declare unwrapOrderByColumn.simps [simp del]

lemma size_unwrapOrderByColumn: "size (unwrapOrderByColumn expr) \<le> size expr"
proof (induction expr rule: unwrapOrderByColumn.induct)
  case (1 expr)
  show ?case
  proof (cases "parenthesizedExpression expr")
    case None
    then show ?thesis by (subst unwrapOrderByColumn.simps) simp
  next
    case (Some inner)
    with 1 [OF Some] size_parenthesized [OF Some] show ?thesis by (subst unwrapOrderByColumn.simps) simp
  qed
qed

section \<open>The nodes of one SELECT\<close>

definition is_arrow_lambda :: "tree \<Rightarrow> bool" where
  "is_arrow_lambda t \<longleftrightarrow> is_rule ''Lambda'' t \<and> has_token ''ARROW'' t"

fun scopeDescendants :: "tree \<Rightarrow> tree list" where
  "scopeDescendants (Leaf tok) = [Leaf tok]"
| "scopeDescendants (Node name a b ts) = Node name a b ts #
     concat (map (\<lambda>t. if is_rule ''Select_kind_partial'' t \<or> is_arrow_lambda t then [] else scopeDescendants t) ts)"

lemma scopeDescendants_subset: "set (scopeDescendants t) \<subseteq> set (descendants t)"
  by (induction t) auto

section \<open>Binds and literals\<close>

definition directBind :: "tree \<Rightarrow> tree option" where
  "directBind root =
     (case descendant_rules ''Bind_parameter'' root of
        [bind] \<Rightarrow> if GetText root = GetText bind then Some bind else None
      | _ \<Rightarrow> None)"

definition literal_of :: "tree \<Rightarrow> literal_value" where
  "literal_of t =
     (if has_token ''NULL'' t then LitNull
      else if has_rule ''Bool_value'' t then LitBool
      else if has_token ''STRING_VALUE'' t then LitString (GetText t)
      else (case rule_opt ''Integer'' t of
          Some i \<Rightarrow> LitInteger (GetText t) (has_token ''INTEGER_VALUE'' i)
        | None \<Rightarrow> if has_rule ''Real_'' t then LitReal (GetText t) else LitOther (GetText t)))"

definition literalType :: "(string \<Rightarrow> nat \<Rightarrow> bool) \<Rightarrow> tree \<Rightarrow> ty res option" where
  "literalType parse_float expr =
     (case descendant_rules ''Literal_value'' expr of
        [literal] \<Rightarrow> if GetText expr = GetText literal then Some (literalValueType parse_float (literal_of literal)) else None
      | _ \<Rightarrow> None)"

definition integer_value_of :: "tree \<Rightarrow> int option" where
  "integer_value_of root =
     (let integer = coveringExpressionContext (unwrapOrderByColumn root) in
      if is_rule ''Integer'' integer then integerLiteralValue (GetText integer) else None)"

definition string_value_of :: "tree \<Rightarrow> string option" where
  "string_value_of root =
     (let root = unwrapOrderByColumn root in
      case last_match (\<lambda>t. is_rule ''Literal_value'' t \<and> sameSpan root t \<and> has_token ''STRING_VALUE'' t) root of
        None \<Rightarrow> None
      | Some literal \<Rightarrow> stringLiteralValue (GetText literal))"

section \<open>Calls\<close>

definition call_base :: "tree \<Rightarrow> string option" where
  "call_base casual =
     (case rule_opt ''Id_expr'' casual of
        Some i \<Rightarrow> Some (identifier_of (GetText i))
      | None \<Rightarrow>
          (case rule_opt ''Atom_expr'' casual of
             None \<Rightarrow> None
           | Some atom \<Rightarrow>
               if has_rule ''Bind_parameter'' atom then Some (CHR ''$'' # bindName (rule_opt ''Bind_parameter'' atom))
               else if has_token ''NAMESPACE'' atom \<and> has_rule ''An_id_or_type'' atom \<and> has_rule ''Id_or_type'' atom then
                 Some (identifier_of (GetText (rule_of ''An_id_or_type'' atom)) @ ''::''
                   @ identifier_of (GetText (rule_of ''Id_or_type'' atom)))
               else None))"

definition callChainFromUnary :: "tree \<Rightarrow> (string \<times> tree list) option" where
  "callChainFromUnary unary =
     (case rule_opt ''Unary_casual_subexpr'' unary of
        None \<Rightarrow> None
      | Some casual \<Rightarrow>
          (case rule_opt ''Unary_subexpr_suffix'' casual of
             None \<Rightarrow> None
           | Some suffix \<Rightarrow>
               (let invokes = rules ''Invoke_expr'' suffix in
                if invokes = [] \<or> GetText suffix \<noteq> concat (map GetText invokes) then None
                else map_option (\<lambda>name. (name, invokes)) (call_base casual))))"

definition functionCallFromUnary :: "tree \<Rightarrow> (string \<times> tree) option" where
  "functionCallFromUnary unary =
     (case callChainFromUnary unary of
        Some (name, [invoke]) \<Rightarrow> if has_prefix name ''$'' then None else Some (name, invoke)
      | _ \<Rightarrow> None)"

definition directFunctionCall :: "tree \<Rightarrow> (string \<times> tree) option" where
  "directFunctionCall expr =
     (case covering_rule ''Unary_subexpr'' expr of
        None \<Rightarrow> None
      | Some unary \<Rightarrow> if has_rule ''Unary_casual_subexpr'' unary then functionCallFromUnary unary else None)"

definition directCallChain :: "tree \<Rightarrow> (string \<times> tree list) option" where
  "directCallChain expr = Option.bind (covering_rule ''Unary_subexpr'' expr) callChainFromUnary"

definition has_quantifier :: "tree \<Rightarrow> bool" where
  "has_quantifier invoke \<longleftrightarrow> GetText (rule_of ''Opt_set_quantifier'' invoke) \<noteq> []"

definition named_arguments :: "tree \<Rightarrow> tree list" where
  "named_arguments invoke = rules ''Named_expr'' (rule_of ''Named_expr_list'' invoke)"

definition directEmptyAsList :: "tree \<Rightarrow> bool" where
  "directEmptyAsList expr =
     (case directFunctionCall expr of
        Some (name, invoke) \<Rightarrow>
          equal_fold name ''AsList'' \<and> \<not> has_token ''ASTERISK'' invoke \<and> \<not> has_rule ''Named_expr_list'' invoke
          \<and> \<not> has_quantifier invoke
      | None \<Rightarrow> False)"

definition isAggregateFunction :: "string \<Rightarrow> bool" where
  "isAggregateFunction name \<longleftrightarrow> IsHistogramAggregate name \<or>
     List.member [''count'', ''count_if'', ''sum'', ''sum_if'', ''avg'', ''avg_if'', ''min'', ''max'', ''some'', ''every'',
       ''aggregate_list'', ''agg_list'', ''aggregate_list_distinct'', ''agg_list_distinct''] (to_lower name)"

definition is_aggregate_call :: "tree \<Rightarrow> bool" where
  "is_aggregate_call t \<longleftrightarrow> is_rule ''Unary_subexpr'' t \<and>
     (case functionCallFromUnary t of Some (name, invoke) \<Rightarrow> isAggregateFunction name | None \<Rightarrow> False)"

definition containsAggregate :: "tree \<Rightarrow> bool" where
  "containsAggregate root \<longleftrightarrow> list_ex is_aggregate_call (scopeDescendants root)"

definition directLambda :: "tree \<Rightarrow> tree option" where
  "directLambda expr = last_match (\<lambda>t. is_arrow_lambda t \<and> sameOrWrappedExpression expr t) expr"

definition lambdaParameters :: "tree \<Rightarrow> tree list" where
  "lambdaParameters lambda = descendant_rules ''Bind_parameter'' (rule_of ''Smart_parenthesis'' lambda)"

section \<open>Columns\<close>

record columnRef =
  ref_qualifier :: string
  ref_name :: string
  ref_ctx :: tree

definition qualifiedName :: "columnRef \<Rightarrow> string" where
  "qualifiedName ref = (if ref_qualifier ref = [] then ref_name ref else ref_qualifier ref @ ''.'' @ ref_name ref)"

definition structFieldLabel :: "tree \<Rightarrow> tree \<Rightarrow> bool" where
  "structFieldLabel query root =
     (case List.find (is_rule ''Expr_struct_list'') (parents query root) of
        None \<Rightarrow> False
      | Some list' \<Rightarrow>
          list_ex (\<lambda>(i, expr). even i \<and> start_index expr \<le> start_index root \<and> stop_index root \<le> stop_index expr)
            (List.enumerate 0 (rules ''Expr'' list')))"

definition type_argument_of :: "tree \<Rightarrow> tree \<Rightarrow> bool" where
  "type_argument_of unary named =
     (case functionCallFromUnary unary of
        None \<Rightarrow> False
      | Some (name, invoke) \<Rightarrow>
          equal_fold name ''ListCreate'' \<or>
          (name = ''Yson::ConvertTo'' \<and> has_rule ''Named_expr_list'' invoke \<and>
           (case named_arguments invoke of _ # second # _ \<Rightarrow> second = named | _ \<Rightarrow> False)))"

definition functionTypeArgument :: "tree \<Rightarrow> tree \<Rightarrow> bool" where
  "functionTypeArgument query ref =
     (case dropWhile (\<lambda>t. \<not> is_rule ''Named_expr'' t) (parents query ref) of
        [] \<Rightarrow> False
      | named # up \<Rightarrow>
          (case rule_opt ''Expr'' named of
             None \<Rightarrow> False
           | Some expr \<Rightarrow>
               sameSpan expr ref \<and> \<not> isl (parseType (GetText expr)) \<and>
               (case List.find (is_rule ''Unary_subexpr'') up of None \<Rightarrow> False | Some unary \<Rightarrow> type_argument_of unary named)))"

definition column_ref :: "tree \<Rightarrow> tree \<Rightarrow> columnRef list" where
  "column_ref query ctx =
     (if \<not> is_rule ''Unary_subexpr'' ctx \<or> structFieldLabel query ctx then []
      else (case rule_opt ''Unary_casual_subexpr'' ctx of
          None \<Rightarrow> []
        | Some casual \<Rightarrow>
            (case (rule_opt ''Id_expr'' casual, rule_opt ''Unary_subexpr_suffix'' casual) of
               (Some base, Some suffix) \<Rightarrow>
                 if has_rule ''Invoke_expr'' suffix then []
                 else (case rules ''An_id_or_type'' suffix of
                     [] \<Rightarrow>
                       if functionTypeArgument query ctx then []
                       else [\<lparr>ref_qualifier = [], ref_name = identifier_of (GetText base), ref_ctx = ctx\<rparr>]
                   | [i] \<Rightarrow>
                       [\<lparr>ref_qualifier = identifier_of (GetText base), ref_name = identifier_of (GetText i), ref_ctx = ctx\<rparr>]
                   | _ \<Rightarrow> [])
             | _ \<Rightarrow> [])))"

definition columnRefs :: "tree \<Rightarrow> tree \<Rightarrow> columnRef list" where
  "columnRefs query root = concat (map (column_ref query) (scopeDescendants root))"

definition isPureColumnExpression :: "tree \<Rightarrow> tree \<Rightarrow> bool" where
  "isPureColumnExpression query expr =
     (case columnRefs query expr of
        [ref] \<Rightarrow> GetStart expr = GetStart (ref_ctx ref) \<and> GetStop expr = GetStop (ref_ctx ref)
      | _ \<Rightarrow> False)"

section \<open>IN operands\<close>

definition inSubquery :: "tree \<Rightarrow> tree option" where
  "inSubquery expr =
     (case rule_opt ''In_unary_casual_subexpr'' (rule_of ''In_unary_subexpr'' expr) of
        None \<Rightarrow> None
      | Some casual \<Rightarrow>
          (case sub_rule ''Lambda'' (rule_opt ''In_atom_expr'' casual) of
             None \<Rightarrow> None
           | Some lambda \<Rightarrow>
               if GetText (rule_of ''Unary_subexpr_suffix'' casual) \<noteq> [] \<or> has_token ''ARROW'' lambda then None
               else (case rule_opt ''Select_subexpr'' (rule_of ''Smart_parenthesis'' lambda) of
                   None \<Rightarrow> None
                 | Some sub \<Rightarrow>
                     if list_ex (\<lambda>intersect. list_ex (has_rule ''Select_kind_partial'') (rules ''Select_or_expr'' intersect))
                          (rules ''Select_subexpr_intersect'' (rule_of ''Select_subexpr_core'' sub))
                     then Some sub else None)))"

fun tuple_items :: "tree list \<Rightarrow> tree list \<Rightarrow> tree list" where
  "tuple_items expressions [] = expressions"
| "tuple_items expressions (item # items) =
     (if has_token ''AS'' item then [] else tuple_items (expressions @ [rule_of ''Expr'' item]) items)"

definition tuple_step :: "tree \<Rightarrow> tree \<Rightarrow> tree list \<Rightarrow> tree list" where
  "tuple_step root node expressions =
     (if \<not> is_rule ''Lambda'' node \<or> \<not> sameSpan root node \<or> has_token ''ARROW'' node then expressions
      else (case rule_opt ''Select_subexpr'' (rule_of ''Smart_parenthesis'' node) of
          None \<Rightarrow> expressions
        | Some sub \<Rightarrow>
            if has_rule ''Cte_with_clause'' sub then expressions
            else (case rules ''Select_subexpr_intersect'' (rule_of ''Select_subexpr_core'' sub) of
                [intersect] \<Rightarrow>
                  (case rules ''Select_or_expr'' intersect of
                     [source] \<Rightarrow>
                       (case rule_opt ''Tuple_or_expr'' source of
                          None \<Rightarrow> expressions
                        | Some tuple \<Rightarrow>
                            if has_rule ''An_id_or_type'' tuple \<or> \<not> has_rule ''Named_expr'' tuple then expressions
                            else tuple_items (expressions @ [rule_of ''Expr'' tuple]) (rules ''Named_expr'' tuple))
                   | _ \<Rightarrow> expressions)
              | _ \<Rightarrow> expressions)))"

definition tupleExpressions :: "tree \<Rightarrow> tree list" where
  "tupleExpressions root = fold (tuple_step root) (scopeDescendants root) []"

definition in_casual :: "tree \<Rightarrow> tree option" where
  "in_casual expr = rule_opt ''In_unary_casual_subexpr'' (rule_of ''In_unary_subexpr'' expr)"

definition empty_suffix :: "tree \<Rightarrow> bool" where
  "empty_suffix casual =
     (case rule_opt ''Unary_subexpr_suffix'' casual of Some suffix \<Rightarrow> GetText suffix = [] | None \<Rightarrow> False)"

definition inValueExpressions :: "tree \<Rightarrow> bool" where
  "inValueExpressions expr =
     (case in_casual expr of
        None \<Rightarrow> False
      | Some casual \<Rightarrow> empty_suffix casual \<and>
          (case rule_opt ''In_atom_expr'' casual of
             None \<Rightarrow> False
           | Some atom \<Rightarrow> has_rule ''List_literal'' atom \<or>
               (case rule_opt ''Lambda'' atom of Some lambda \<Rightarrow> \<not> has_token ''ARROW'' lambda | None \<Rightarrow> False)))"

definition in_arrow_lambda :: "tree \<Rightarrow> bool" where
  "in_arrow_lambda expr =
     (case in_casual expr of
        None \<Rightarrow> False
      | Some casual \<Rightarrow> empty_suffix casual \<and>
          (case sub_rule ''Lambda'' (rule_opt ''In_atom_expr'' casual) of Some lambda \<Rightarrow> has_token ''ARROW'' lambda | None \<Rightarrow> False))"

definition inFunctionCall :: "tree \<Rightarrow> (string \<times> tree) option" where
  "inFunctionCall expr =
     (case in_casual expr of
        None \<Rightarrow> None
      | Some casual \<Rightarrow>
          (case rule_opt ''Unary_subexpr_suffix'' casual of
             None \<Rightarrow> None
           | Some suffix \<Rightarrow>
               (case rules ''Invoke_expr'' suffix of
                  [invoke] \<Rightarrow>
                    if GetText suffix \<noteq> GetText invoke then None
                    else (case rule_opt ''Id_expr_in'' casual of
                        Some i \<Rightarrow> Some (identifier_of (GetText i), invoke)
                      | None \<Rightarrow>
                          (case rule_opt ''In_atom_expr'' casual of
                             None \<Rightarrow> None
                           | Some atom \<Rightarrow>
                               if has_token ''NAMESPACE'' atom \<and> has_rule ''An_id_or_type'' atom \<and> has_rule ''Id_or_type'' atom then
                                 Some (identifier_of (GetText (rule_of ''An_id_or_type'' atom)) @ ''::''
                                   @ identifier_of (GetText (rule_of ''Id_or_type'' atom)), invoke)
                               else None))
                | _ \<Rightarrow> None)))"

text \<open>The expressions of an IN list that are inside no other expression of it.\<close>

definition in_list_expressions :: "tree \<Rightarrow> tree list" where
  "in_list_expressions inExpr =
     map snd (filter (\<lambda>(up, t). is_rule ''Expr'' t \<and> \<not> list_ex (is_rule ''Expr'') (takeWhile (\<lambda>p. p \<noteq> inExpr) up)) (walk [] inExpr))"

definition boolean_wrapper :: "tree \<Rightarrow> bool" where
  "boolean_wrapper parent \<longleftrightarrow>
     list_all (\<lambda>t. is_context t \<or> is_token ''LPAREN'' t \<or> is_token ''RPAREN'' t \<or> is_token ''NOT'' t) (tree_children parent)
     \<and> length (filter (\<lambda>t. is_context t \<and> GetText t \<noteq> []) (tree_children parent)) = 1"

definition nestedBooleanExpression :: "tree \<Rightarrow> tree option" where
  "nestedBooleanExpression root =
     map_option snd (List.find (\<lambda>(up, t). is_rule ''Expr'' t \<and> list_all boolean_wrapper up) (walk [] root))"

section \<open>Window functions\<close>

definition is_call :: "tree \<Rightarrow> tree \<Rightarrow> bool" where
  "is_call expr invoke \<longleftrightarrow> (case directFunctionCall expr of Some (name, call) \<Rightarrow> call = invoke | None \<Rightarrow> False)"

definition projects_call :: "tree \<Rightarrow> tree \<Rightarrow> bool" where
  "projects_call result invoke =
     (let expr = unwrapOrderByColumn (rule_of ''Expr'' result) in
      is_call expr invoke \<or> list_ex (\<lambda>item. is_call (unwrapOrderByColumn item) invoke) (tupleExpressions expr))"

fun direct_projection :: "tree \<Rightarrow> bool \<Rightarrow> tree list \<Rightarrow> bool" where
  "direct_projection invoke direct [] = False"
| "direct_projection invoke direct (parent # up) =
     (if is_rule ''Select_core'' parent then direct
      else direct_projection invoke (if is_rule ''Result_column'' parent then projects_call parent invoke else direct) up)"

definition directWindowProjection :: "tree \<Rightarrow> tree \<Rightarrow> bool" where
  "directWindowProjection query invoke = direct_projection invoke False (parents query invoke)"

end
