(* ===== verification/Expressions.thy ===== *)
theory Expressions
  imports ExprTree SchemaCatalog
begin

text \<open>
  The types of expressions: \<open>internal/analyzer/expression.go\<close>, \<open>arithmetic.go\<close>, \<open>boolean.go\<close>,
  \<open>lambda.go\<close>, \<open>member.go\<close>, the IN conditions of \<open>predicate.go\<close> and \<open>in_subquery.go\<close>, the windows of
  \<open>window.go\<close>, and the columns of \<open>semantic.go\<close>.

  The functions of the source call each other through \<open>resolveExpression\<close> and \<open>resolveScalarNode\<close>: each
  is a definition that takes these two as the parameter \<open>rs\<close>, and \<open>resolve_fuel\<close> ties the knot. A run
  is \<open>None\<close> when the fuel is used up; \<open>ExpressionTypes\<close> shows that the fuel of \<open>resolve\<close> suffices.
\<close>

section \<open>Scopes\<close>

record relation =
  rel_table :: Table
  rel_alias :: string
  rel_optional :: bool
  rel_physical :: bool
  rel_grouping :: bool

type_synonym type_map = "string \<rightharpoonup> ty"

text \<open>The zero value of the struct, whose lambda is nil, is the absence of an entry.\<close>

datatype lambdaBinding =
  LambdaBinding (lb_lambda: tree) (lb_bindings: type_map) (lb_lambdas: "(string \<times> lambdaBinding) list")

type_synonym lambda_map = "(string \<times> lambdaBinding) list"

definition map_delete :: "string \<Rightarrow> (string \<times> 'a) list \<Rightarrow> (string \<times> 'a) list" where
  "map_delete name m = filter (\<lambda>(n, _). n \<noteq> name) m"

text \<open>
  What the code calls outside the repository: the group names of a pattern, \<open>strconv.ParseFloat\<close>, and the tables of
  \<open>unicode.SimpleFold\<close>: \<open>pk_fold\<close> is the same rune for all runes of an orbit.
\<close>

record packages =
  pk_group_names :: "string \<Rightarrow> string list res"
  pk_parse_float :: "string \<Rightarrow> nat \<Rightarrow> bool"
  pk_fold :: "nat \<Rightarrow> nat"

text \<open>\<open>sc_query\<close> is the tree of the query, for the parents of its nodes; \<open>sc_packages\<close> what is outside.\<close>

record expressionScope =
  sc_packages :: packages
  sc_query :: tree
  sc_relations :: "relation list"
  sc_bindings :: type_map
  sc_lambdas :: lambda_map
  sc_grouped :: bool
  sc_functions :: registry
  sc_inSubqueries :: "int \<rightharpoonup> ty"
  sc_windows :: "(string \<times> tree) list"

section \<open>Columns\<close>

definition joinedColumn :: "Column \<Rightarrow> bool \<Rightarrow> Column" where
  "joinedColumn column opt =
     (if opt \<and> \<not> IsOptional (col_Type column) then column\<lparr>col_Type := Optional (col_Type column)\<rparr> else column)"

definition grouping_column :: "relation list \<Rightarrow> string \<Rightarrow> Column option" where
  "grouping_column relations name =
     (case List.map_filter (\<lambda>rel. if rel_grouping rel then tableColumn (rel_table rel) name else None) relations of
        column # _ \<Rightarrow> Some column
      | [] \<Rightarrow> None)"

definition column_matches :: "relation list \<Rightarrow> columnRef \<Rightarrow> Column list" where
  "column_matches relations ref =
     concat (map (\<lambda>rel. if ref_qualifier ref \<noteq> [] \<and> ref_qualifier ref \<noteq> rel_alias rel then []
                    else map (\<lambda>column. joinedColumn column (rel_optional rel))
                      (filter (\<lambda>column. col_Name column = ref_name ref) (tb_Columns (rel_table rel)))) relations)"

definition resolveColumn :: "relation list \<Rightarrow> columnRef \<Rightarrow> Column res" where
  "resolveColumn relations ref =
     (case (if ref_qualifier ref = [] then grouping_column relations (ref_name ref) else None) of
        Some column \<Rightarrow> Inr column
      | None \<Rightarrow>
          (case column_matches relations ref of
             [] \<Rightarrow> Inl (Errorf ''unknown column %q'' [FStr (qualifiedName ref)])
           | [column] \<Rightarrow> Inr column
           | _ \<Rightarrow> Inl (Errorf ''ambiguous column %q'' [FStr (ref_name ref)])))"

definition column_type :: "relation list \<Rightarrow> columnRef \<Rightarrow> ty res" where
  "column_type relations ref = and_then (resolveColumn relations ref) (\<lambda>column. Inr (col_Type column))"

section \<open>Runs\<close>

type_synonym 'a run = "'a res option"

definition run_then :: "'a run \<Rightarrow> ('a \<Rightarrow> 'b run) \<Rightarrow> 'b run" where
  "run_then r f = (case r of None \<Rightarrow> None | Some (Inl e) \<Rightarrow> Some (Inl e) | Some (Inr x) \<Rightarrow> f x)"

definition wrapping :: "(go_error \<Rightarrow> go_error) \<Rightarrow> 'a run \<Rightarrow> 'a run" where
  "wrapping h r = map_option (map_error h) r"

definition wrapped :: "string \<Rightarrow> farg list \<Rightarrow> 'a run \<Rightarrow> 'a run" where
  "wrapped fmt args r = wrapping (\<lambda>e. Errorf fmt (args @ [FErr e])) r"

abbreviation failed :: "string \<Rightarrow> farg list \<Rightarrow> 'a run" where
  "failed fmt args \<equiv> Some (Inl (Errorf fmt args))"

abbreviation returned :: "'a \<Rightarrow> 'a run" where
  "returned x \<equiv> Some (Inr x)"

fun run_list :: "('a \<Rightarrow> 'b run) \<Rightarrow> 'a list \<Rightarrow> 'b list run" where
  "run_list f [] = returned []"
| "run_list f (x # xs) = run_then (f x) (\<lambda>y. run_then (run_list f xs) (\<lambda>ys. returned (y # ys)))"

datatype entry = Expression | Scalar

type_synonym resolver = "entry \<Rightarrow> expressionScope \<Rightarrow> tree \<Rightarrow> ty run"

text \<open>
  A function of the source that returns \<open>(type, ok, err)\<close> returns an optional run: \<open>None\<close> when \<open>ok\<close> is
  false.
\<close>

definition or_else :: "'a run option \<Rightarrow> 'a run \<Rightarrow> 'a run" where
  "or_else r k = (case r of Some x \<Rightarrow> x | None \<Rightarrow> k)"

section \<open>Arithmetic and boolean operators\<close>

fun arithmetic_loop :: "resolver \<Rightarrow> expressionScope \<Rightarrow> string \<Rightarrow> ty \<Rightarrow> tree list \<Rightarrow> ty run" where
  "arithmetic_loop rs sc operator result [] = returned result"
| "arithmetic_loop rs sc operator result (Leaf tok # ts) = arithmetic_loop rs sc (tk_Text tok) result ts"
| "arithmetic_loop rs sc operator result (Node name a b us # ts) =
     run_then (wrapped ''cannot resolve arithmetic operand: %w'' [] (rs Scalar sc (Node name a b us))) (\<lambda>typ.
       if Kind result = [] then arithmetic_loop rs sc operator typ ts
       else run_then (Some (Arithmetic operator result typ)) (\<lambda>result. arithmetic_loop rs sc operator result ts))"

definition resolveArithmetic :: "resolver \<Rightarrow> expressionScope \<Rightarrow> tree \<Rightarrow> ty run option" where
  "resolveArithmetic rs sc root =
     (case parenthesizedExpression root of
        Some inner \<Rightarrow> Some (rs Expression sc inner)
      | None \<Rightarrow>
          (let operation = coveringExpressionContext root in
           if is_rule ''Bit_subexpr'' operation \<or> is_rule ''Add_subexpr'' operation then
             Some (arithmetic_loop rs sc [] (mk_kind []) (tree_children operation))
           else None))"

definition boolean_operands :: "tree \<Rightarrow> string \<times> tree list" where
  "boolean_operands operation =
     (if is_rule ''Expr'' operation \<and> has_token ''OR'' operation then (''OR'', rules ''Or_subexpr'' operation)
      else if is_rule ''Or_subexpr'' operation \<and> has_token ''AND'' operation then (''AND'', rules ''And_subexpr'' operation)
      else if is_rule ''And_subexpr'' operation \<and> has_token ''XOR'' operation then (''XOR'', rules ''Xor_subexpr'' operation)
      else if is_rule ''Con_subexpr'' operation \<and> has_token ''NOT'' (rule_of ''Unary_op'' operation) then
        (''NOT'', [rule_of ''Unary_subexpr'' operation])
      else ([], []))"

fun boolean_loop :: "resolver \<Rightarrow> expressionScope \<Rightarrow> string \<Rightarrow> ty \<Rightarrow> bool \<Rightarrow> tree list \<Rightarrow> ty run" where
  "boolean_loop rs sc operator result opt [] =
     returned (if opt \<and> Kind result \<noteq> ''Null'' then Optional result else result)"
| "boolean_loop rs sc operator result opt (operand # operands) =
     run_then (wrapped ''cannot resolve %s operand: %w'' [FStr operator] (rs Scalar sc operand)) (\<lambda>typ.
       if Kind typ \<noteq> ''Null'' \<and> Kind (UnwrapOptional typ) \<noteq> ''Bool'' then
         failed ''%s operand has type %s, want Bool or Optional<Bool>'' [FStr operator, FType typ]
       else boolean_loop rs sc operator (if Kind typ \<noteq> ''Null'' then mk_kind ''Bool'' else result)
         (opt \<or> Kind typ = ''Null'' \<or> IsOptional typ) operands)"

definition resolveBoolean :: "resolver \<Rightarrow> expressionScope \<Rightarrow> tree \<Rightarrow> ty run option" where
  "resolveBoolean rs sc root =
     (let (operator, operands) = boolean_operands (coveringExpressionContext root) in
      if operands = [] then None
      else Some (boolean_loop rs sc operator (mk_kind (if operator = ''NOT'' then ''Null'' else ''Bool'')) False operands))"

text \<open>The operands of \<open>||\<close>: the common text type, whether one is optional, whether one is Null.\<close>

fun concatenation_loop :: "resolver \<Rightarrow> expressionScope \<Rightarrow> ty \<Rightarrow> bool \<Rightarrow> bool \<Rightarrow> tree list \<Rightarrow> ty run" where
  "concatenation_loop rs sc result opt null [] =
     returned (if null then mk_kind ''Null'' else if opt then Optional result else result)"
| "concatenation_loop rs sc result opt null (operand # operands) =
     run_then (rs Scalar sc operand) (\<lambda>typ.
       if Kind typ = ''Null'' then concatenation_loop rs sc result opt True operands
       else (let base = UnwrapOptional typ in
         if Kind base \<noteq> ''String'' \<and> Kind base \<noteq> ''Utf8'' then
           failed ''concatenation operand %s has unsupported type %s'' [FStr (GetText operand), FType typ]
         else if Kind result = [] then concatenation_loop rs sc base (opt \<or> IsOptional typ) null operands
         else if \<not> Equal result base then failed ''concatenation operands must both be String or both be Utf8'' []
         else concatenation_loop rs sc result (opt \<or> IsOptional typ) null operands))"

definition concatenationType :: "resolver \<Rightarrow> expressionScope \<Rightarrow> tree \<Rightarrow> ty run option" where
  "concatenationType rs sc root =
     (let operation = coveringExpressionContext root in
      if \<not> is_rule ''Mul_subexpr'' operation \<or> \<not> has_token ''DOUBLE_PIPE'' operation then None
      else Some (concatenation_loop rs sc (mk_kind []) False False (rules ''Con_subexpr'' operation)))"

section \<open>Casts, CASE and struct literals\<close>

definition resolveCast :: "resolver \<Rightarrow> expressionScope \<Rightarrow> tree \<Rightarrow> ty run" where
  "resolveCast rs sc cast =
     (case (rule_opt ''Expr'' cast, rule_opt ''Type_name_or_bind'' cast) of
        (Some expr, Some name) \<Rightarrow>
          if has_rule ''Bind_parameter'' name then failed ''parameterized CAST target types are unsupported'' []
          else run_then (wrapped ''cannot resolve CAST input: %w'' [] (rs Expression sc expr)) (\<lambda>source.
            run_then (Some (parseType (GetText name))) (\<lambda>target. Some (Cast source target)))
      | _ \<Rightarrow> failed ''invalid CAST expression'' [])"

definition case_condition :: "resolver \<Rightarrow> expressionScope \<Rightarrow> tree option \<Rightarrow> ty \<Rightarrow> unit run" where
  "case_condition rs sc selector conditionType =
     (case selector of
        None \<Rightarrow>
          if Kind (UnwrapOptional conditionType) \<noteq> ''Bool'' \<and> Kind conditionType \<noteq> ''Null'' then
            failed ''CASE WHEN condition has type %s, want Bool'' [FType conditionType]
          else returned ()
      | Some expr \<Rightarrow>
          run_then (wrapped ''cannot resolve CASE selector: %w'' [] (rs Expression sc expr)) (\<lambda>selectorType.
            run_then (wrapped ''CASE selector and WHEN value have incompatible types %s and %s: %w''
                [FType selectorType, FType conditionType] (Some (CommonType [selectorType, conditionType])))
              (\<lambda>_. returned ())))"

fun case_branches :: "resolver \<Rightarrow> expressionScope \<Rightarrow> tree option \<Rightarrow> ty list \<Rightarrow> tree list \<Rightarrow> ty list run" where
  "case_branches rs sc selector branchTypes [] = returned branchTypes"
| "case_branches rs sc selector branchTypes (w # ws) =
     (case rules ''Expr'' w of
        [condition, result] \<Rightarrow>
          run_then (wrapped ''cannot resolve CASE condition: %w'' [] (rs Expression sc condition)) (\<lambda>conditionType.
            run_then (case_condition rs sc selector conditionType) (\<lambda>_.
              run_then (wrapped ''cannot resolve CASE result: %w'' [] (rs Expression sc result)) (\<lambda>branchType.
                case_branches rs sc selector (branchTypes @ [branchType]) ws)))
      | _ \<Rightarrow> failed ''invalid CASE WHEN branch'' [])"

definition resolveCase :: "resolver \<Rightarrow> expressionScope \<Rightarrow> tree \<Rightarrow> ty run" where
  "resolveCase rs sc caseExpr =
     (case rules ''When_expr'' caseExpr of
        [] \<Rightarrow> failed ''CASE requires at least one WHEN branch'' []
      | w # ws \<Rightarrow>
          (let directExprs = rules ''Expr'' caseExpr;
               selector = (case directExprs of e # _ \<Rightarrow> if start_index e < start_index w then Some e else None | [] \<Rightarrow> None) in
           case token_of ''ELSE'' caseExpr of
             None \<Rightarrow> failed ''CASE requires an ELSE branch'' []
           | Some tok \<Rightarrow>
               run_then (case_branches rs sc selector [] (w # ws)) (\<lambda>branchTypes.
                 case List.find (\<lambda>e. start_index e > tk_Start tok) directExprs of
                   None \<Rightarrow> failed ''CASE requires an ELSE expression'' []
                 | Some elseExpr \<Rightarrow>
                     run_then (wrapped ''cannot resolve CASE ELSE result: %w'' [] (rs Expression sc elseExpr)) (\<lambda>elseType.
                       wrapped ''CASE branches have incompatible types: %w'' [] (Some (CommonType (branchTypes @ [elseType])))))))"

definition typed_argument :: "string \<Rightarrow> ty \<Rightarrow> CallArgument" where
  "typed_argument name t = (plain_argument t)\<lparr>arg_Name := name\<rparr>"

text \<open>The fields of a struct literal: names and values in turn.\<close>

fun struct_arguments :: "resolver \<Rightarrow> expressionScope \<Rightarrow> CallArgument list \<Rightarrow> tree list \<Rightarrow> CallArgument list run" where
  "struct_arguments rs sc args (field # val # rest) =
     (case covering_rule ''Id_expr'' field of
        None \<Rightarrow> failed ''struct literal field name %q must be an identifier'' [FStr (GetText field)]
      | Some i \<Rightarrow>
          (let name = identifier_of (GetText i) in
           run_then (wrapped ''struct literal field %q: %w'' [FStr name] (rs Expression sc val)) (\<lambda>t.
             struct_arguments rs sc (args @ [typed_argument name t]) rest)))"
| "struct_arguments rs sc args rest = returned args"

definition resolveStructLiteral :: "resolver \<Rightarrow> expressionScope \<Rightarrow> tree \<Rightarrow> ty run option" where
  "resolveStructLiteral rs sc expr =
     (case covering_rule ''Struct_literal'' expr of
        None \<Rightarrow> None
      | Some literal \<Rightarrow>
          Some (case rule_opt ''Expr_struct_list'' literal of
              None \<Rightarrow> failed ''empty struct literal has no fields'' []
            | Some list' \<Rightarrow>
                (let pairs = rules ''Expr'' list' in
                 if odd (length pairs) then failed ''struct literal requires field names and values'' []
                 else run_then (struct_arguments rs sc [] pairs) (\<lambda>args.
                   Some (ResolveCall (pk_group_names (sc_packages sc)) (sc_functions sc) ''AsStruct'' args)))))"

section \<open>Lambdas\<close>

definition lambda_parameters_ok :: "tree \<Rightarrow> bool" where
  "lambda_parameters_ok lambda \<longleftrightarrow>
     GetText (rule_of ''Smart_parenthesis'' lambda) = ''('' @ str_join '','' (map GetText (lambdaParameters lambda)) @ '')''"

fun bind_parameters :: "string list \<Rightarrow> expressionScope \<Rightarrow> (tree \<times> ty) list \<Rightarrow> (string list \<times> expressionScope) res" where
  "bind_parameters seen sc [] = Inr (seen, sc)"
| "bind_parameters seen sc ((parameter, t) # ps) =
     (let name = bindName (Some parameter) in
      if List.member seen name then Inl (Errorf ''lambda parameter $%s is repeated'' [FStr name])
      else if Kind t = ''Lambda'' then
        Inl (Errorf ''lambda-valued parameter $%s is unsupported without a callable type signature'' [FStr name])
      else bind_parameters (name # seen)
        (sc\<lparr>sc_bindings := (sc_bindings sc)(name \<mapsto> t), sc_lambdas := map_delete name (sc_lambdas sc)\<rparr>) ps)"

text \<open>The checks that every expression of a lambda passes before it is resolved.\<close>

definition lambda_expression_err :: "expressionScope \<Rightarrow> string \<Rightarrow> tree \<Rightarrow> go_error option" where
  "lambda_expression_err sc place expr =
     (if containsAggregate expr then Some (Errorf ''aggregate functions are not allowed in lambda %s'' [FStr place])
      else (case columnRefs (sc_query sc) expr of
          [] \<Rightarrow> None
        | ref # _ \<Rightarrow> Some (Errorf ''column reference %q is not allowed in lambda function'' [FStr (qualifiedName ref)])))"

definition lambda_assignment :: "tree \<Rightarrow> string list \<Rightarrow> (string \<times> tree) res" where
  "lambda_assignment statement seen =
     (case rule_opt ''Named_nodes_stmt'' statement of
        None \<Rightarrow> Inl (Errorf ''lambda body supports scalar local assignments and RETURN'' [])
      | Some assignment \<Rightarrow>
          (case (rule_opt ''Expr'' assignment, rule_opt ''Bind_parameter_list'' assignment) of
             (Some expr, Some list') \<Rightarrow>
               (case rules ''Bind_parameter'' list' of
                  [bind] \<Rightarrow>
                    (let name = bindName (Some bind) in
                     if List.member seen name then Inl (Errorf ''lambda local $%s is assigned more than once'' [FStr name])
                     else Inr (name, expr))
                | _ \<Rightarrow> Inl (Errorf ''lambda local assignments require one name'' []))
           | _ \<Rightarrow> Inl (Errorf ''lambda body supports scalar local assignments and RETURN'' [])))"

fun lambda_statements :: "resolver \<Rightarrow> string list \<Rightarrow> expressionScope \<Rightarrow> tree list \<Rightarrow> expressionScope run" where
  "lambda_statements rs seen sc [] = returned sc"
| "lambda_statements rs seen sc (statement # statements) =
     run_then (Some (lambda_assignment statement seen)) (\<lambda>(name, expr).
       case lambda_expression_err sc ''local assignments'' expr of
         Some e \<Rightarrow> Some (Inl e)
       | None \<Rightarrow>
           run_then (wrapped ''cannot resolve lambda local $%s: %w'' [FStr name] (rs Expression sc expr)) (\<lambda>t.
             lambda_statements rs (name # seen)
               (sc\<lparr>sc_bindings := (sc_bindings sc)(name \<mapsto> t), sc_lambdas := map_delete name (sc_lambdas sc)\<rparr>) statements))"

definition lambda_result :: "resolver \<Rightarrow> expressionScope \<Rightarrow> string \<Rightarrow> tree \<Rightarrow> ty run" where
  "lambda_result rs sc place expr =
     (case lambda_expression_err sc place expr of
        Some e \<Rightarrow> Some (Inl e)
      | None \<Rightarrow> wrapped ''cannot resolve lambda result: %w'' [] (rs Expression sc expr))"

definition lambda_body :: "resolver \<Rightarrow> string list \<Rightarrow> expressionScope \<Rightarrow> tree \<Rightarrow> ty run" where
  "lambda_body rs seen sc lambda =
     (case rule_opt ''Lambda_body'' lambda of
        Some body \<Rightarrow>
          run_then (lambda_statements rs seen sc (rules ''Lambda_stmt'' body)) (\<lambda>sc.
            case rule_opt ''Expr'' body of
              None \<Rightarrow> failed ''lambda body requires RETURN expression'' []
            | Some expr \<Rightarrow> lambda_result rs sc ''RETURN'' expr)
      | None \<Rightarrow>
          (case rule_opt ''Expr'' lambda of
             Some expr \<Rightarrow> lambda_result rs sc ''expressions'' expr
           | None \<Rightarrow> failed ''lambda requires an expression or RETURN body'' []))"

definition resolveLambda :: "resolver \<Rightarrow> expressionScope \<Rightarrow> tree \<Rightarrow> ty list \<Rightarrow> ty run" where
  "resolveLambda rs sc lambda parameterTypes =
     (let parameters = lambdaParameters lambda in
      if \<not> lambda_parameters_ok lambda then failed ''lambda parameters must be plain $name bindings'' []
      else if length parameters \<noteq> length parameterTypes then
        failed ''lambda expects %d parameter(s), got %d'' [FNat (length parameterTypes), FNat (length parameters)]
      else run_then (Some (bind_parameters [] (sc\<lparr>sc_relations := []\<rparr>) (zip parameters parameterTypes))) (\<lambda>(seen, sc).
        run_then (lambda_body rs seen sc lambda) (\<lambda>result. returned (mk_callable parameterTypes result))))"

section \<open>Calls\<close>

definition invocation_type :: "resolver \<Rightarrow> expressionScope \<Rightarrow> tree \<Rightarrow> ty run" where
  "invocation_type rs sc arg =
     (if has_token ''AS'' arg then failed ''callable invocation does not support named arguments'' []
      else rs Expression sc (rule_of ''Expr'' arg))"

definition invocationTypes :: "resolver \<Rightarrow> expressionScope \<Rightarrow> tree \<Rightarrow> ty list run" where
  "invocationTypes rs sc invoke =
     (if has_token ''ASTERISK'' invoke \<or> has_quantifier invoke then
        failed ''callable invocation requires positional arguments'' []
      else run_list (invocation_type rs sc) (named_arguments invoke))"

definition dateTimeFormatInput :: "ty \<Rightarrow> bool" where
  "dateTimeFormatInput v \<longleftrightarrow>
     List.member [''Resource<'DateTime2.TM'>'', ''Resource<'DateTime2.TM64'>'', ''Date'', ''Datetime'', ''Timestamp'', ''TzDate'',
       ''TzDatetime'', ''TzTimestamp'', ''Date32'', ''Datetime64'', ''Timestamp64'', ''TzDate32'', ''TzDatetime64'', ''TzTimestamp64''] (Kind v)"

text \<open>The arguments of a callable against its parameters; the value says whether the result is nullable.\<close>

fun callable_arguments :: "nat \<Rightarrow> bool \<Rightarrow> ty \<Rightarrow> (ty \<times> ty) list \<Rightarrow> bool res" where
  "callable_arguments i nullableReturn elem [] = Inr nullableReturn"
| "callable_arguments i nullableReturn elem ((expected, actual) # ps) =
     (if Equal expected actual \<or> (IsOptional expected \<and> (Equal (UnwrapOptional expected) actual \<or> Kind actual = ''Null'')) then
        callable_arguments (i + 1) nullableReturn elem ps
      else if Kind expected = ''Resource<'DateTime2.TM64'>'' \<and> dateTimeFormatInput (UnwrapOptional actual) then
        callable_arguments (i + 1) (nullableReturn \<or> IsOptional actual) elem ps
      else if Kind expected = ''String'' \<and> Equal actual (Optional expected) \<and> IsOptional elem
          \<and> has_prefix (Kind (UnwrapOptional elem)) ''Resource<'DateTime2.TM'' then
        callable_arguments (i + 1) nullableReturn elem ps
      else Inl (Errorf ''callable argument %d has type %s, want %s'' [FNat (i + 1), FType actual, FType expected]))"

definition call_once :: "resolver \<Rightarrow> expressionScope \<Rightarrow> ty \<Rightarrow> tree \<Rightarrow> ty run" where
  "call_once rs sc result invoke =
     (case (if Kind result = ''Callable'' then Elem result else None) of
        None \<Rightarrow> failed ''%s is not callable'' [FType result]
      | Some elem \<Rightarrow>
          run_then (invocationTypes rs sc invoke) (\<lambda>provided.
            if length provided \<noteq> length (Items result) then
              failed ''callable expects %d arguments, got %d'' [FNat (length (Items result)), FNat (length provided)]
            else run_then (Some (callable_arguments 0 False elem (zip (Items result) provided))) (\<lambda>nullableReturn.
              returned (if nullableReturn \<and> \<not> IsOptional elem then Optional elem else elem))))"

fun call_all :: "resolver \<Rightarrow> expressionScope \<Rightarrow> ty \<Rightarrow> tree list \<Rightarrow> ty run" where
  "call_all rs sc result [] = returned result"
| "call_all rs sc result (invoke # invokes) =
     run_then (call_once rs sc result invoke) (\<lambda>result. call_all rs sc result invokes)"

definition captured_scope :: "expressionScope \<Rightarrow> lambdaBinding \<Rightarrow> expressionScope" where
  "captured_scope sc b = sc\<lparr>sc_bindings := lb_bindings b, sc_lambdas := lb_lambdas b\<rparr>"

definition call_lambda :: "resolver \<Rightarrow> expressionScope \<Rightarrow> lambdaBinding \<Rightarrow> tree \<Rightarrow> ty run" where
  "call_lambda rs sc b invoke =
     run_then (invocationTypes rs sc invoke) (\<lambda>provided.
       run_then (resolveLambda rs (captured_scope sc b) (lb_lambda b) provided) (\<lambda>t.
         returned (case Elem t of Some e \<Rightarrow> e | None \<Rightarrow> mk_kind [])))"

text \<open>
  The arguments of a function. \<open>list_element\<close> is the element type that a lambda of \<open>ListMap\<close> and
  \<open>ListFilter\<close> is applied to.
\<close>

definition list_element :: "string \<Rightarrow> CallArgument list \<Rightarrow> ty res" where
  "list_element name callArgs =
     (let listType = UnwrapOptional (arg_Type (hd callArgs)) in
      case (if Kind listType = ''List'' then Elem listType else None) of
        None \<Rightarrow> Inl (Errorf ''%s first argument must be a typed List'' [FStr name])
      | Some elem \<Rightarrow> Inr elem)"

definition bound_lambda :: "expressionScope \<Rightarrow> tree \<Rightarrow> lambdaBinding option" where
  "bound_lambda sc expr =
     (case directBind expr of
        None \<Rightarrow> None
      | Some bind \<Rightarrow>
          (let name = bindName (Some bind) in
           case sc_bindings sc name of
             None \<Rightarrow> None
           | Some t \<Rightarrow> if Kind t = ''Lambda'' then map_of (sc_lambdas sc) name else None))"

definition argument_type :: "resolver \<Rightarrow> expressionScope \<Rightarrow> string \<Rightarrow> CallArgument list \<Rightarrow> tree \<Rightarrow> ty run" where
  "argument_type rs sc name callArgs expr =
     (if (name = ''Json::From'' \<or> name = ''Yson::From'') \<and> callArgs = [] \<and> directEmptyAsList expr then
        returned (mk_kind ''EmptyList'')
      else if (equal_fold name ''ListMap'' \<or> equal_fold name ''ListFilter'') \<and> length callArgs = 1 then
        (case directLambda expr of
           Some lambda \<Rightarrow>
             run_then (Some (list_element name callArgs)) (\<lambda>elem.
               wrapped ''cannot resolve argument of %s: %w'' [FStr name] (resolveLambda rs sc lambda [elem]))
         | None \<Rightarrow>
             (case bound_lambda sc expr of
                Some b \<Rightarrow>
                  run_then (Some (list_element name callArgs)) (\<lambda>elem.
                    wrapped ''cannot resolve argument of %s: %w'' [FStr name]
                      (resolveLambda rs (captured_scope sc b) (lb_lambda b) [elem]))
              | None \<Rightarrow> wrapped ''cannot resolve argument of %s: %w'' [FStr name] (rs Expression sc expr)))
      else wrapped ''cannot resolve argument of %s: %w'' [FStr name] (rs Expression sc expr))"

definition call_argument :: "tree \<Rightarrow> ty \<Rightarrow> CallArgument" where
  "call_argument named t =
     (let expr = rule_of ''Expr'' named in
      (plain_argument t)\<lparr>
        arg_Name := (if has_token ''AS'' named then identifier_of (GetText (rule_of ''An_id_or_type'' named)) else []),
        arg_EmptyList := (case directFunctionCall expr of Some (callName, _) \<Rightarrow> equal_fold callName ''ListCreate'' | None \<Rightarrow> False),
        arg_IntegerLiteral := integer_value_of expr,
        arg_StringLiteral := string_value_of expr\<rparr>)"

definition type_argument :: "ty \<Rightarrow> CallArgument" where
  "type_argument target = (plain_argument (mk_kind []))\<lparr>arg_TypeArgument := Some target\<rparr>"

fun function_arguments :: "resolver \<Rightarrow> expressionScope \<Rightarrow> string \<Rightarrow> CallArgument list \<Rightarrow> tree list \<Rightarrow> CallArgument list run" where
  "function_arguments rs sc name callArgs [] = returned callArgs"
| "function_arguments rs sc name callArgs (named # rest) =
     (let expr = rule_of ''Expr'' named in
      if isAggregateFunction name \<and> containsAggregate expr then
        failed ''aggregate function %q cannot contain another aggregate'' [FStr name]
      else if name = ''Yson::ConvertTo'' \<and> length callArgs = 1 then
        (if has_token ''AS'' named then failed ''Yson::ConvertTo target type must be positional'' []
         else run_then (wrapped ''Yson::ConvertTo requires a literal YQL target type: %w'' [] (Some (parseType (GetText expr)))) (\<lambda>target.
           function_arguments rs sc name (callArgs @ [type_argument target]) rest))
      else run_then (argument_type rs sc name callArgs expr) (\<lambda>t.
        function_arguments rs sc name (callArgs @ [call_argument named t]) rest))"

section \<open>Window functions\<close>

definition window_column_err :: "tree \<Rightarrow> relation list \<Rightarrow> string \<Rightarrow> bool \<Rightarrow> tree \<Rightarrow> go_error option" where
  "window_column_err query relations message aliased expr =
     (if aliased \<or> \<not> isPureColumnExpression query expr then Some (GoError message)
      else (case resolveColumn relations (hd (columnRefs query expr)) of Inl e \<Rightarrow> Some e | Inr _ \<Rightarrow> None))"

definition validateRowNumberWindow :: "tree \<Rightarrow> relation list \<Rightarrow> tree option \<Rightarrow> go_error option" where
  "validateRowNumberWindow query relations spec =
     (case sub_rule ''Window_specification_details'' spec of
        None \<Rightarrow> Some (Errorf ''invalid window specification'' [])
      | Some details \<Rightarrow>
          if has_rule ''Existing_window_name'' details then
            Some (Errorf ''inherited window specifications are not yet supported'' [])
          else if has_rule ''Window_frame_clause'' details then
            Some (Errorf ''explicit window frames are not yet supported'' [])
          else (case (case rule_opt ''Window_partition_clause'' details of
              None \<Rightarrow> None
            | Some pc \<Rightarrow>
                if has_token ''COMPACT'' pc then Some (Errorf ''PARTITION COMPACT is not yet supported'' [])
                else first_err (\<lambda>named. window_column_err query relations ''PARTITION BY requires direct columns without aliases''
                    (has_token ''AS'' named) (rule_of ''Expr'' named))
                  (rules ''Named_expr'' (rule_of ''Named_expr_list'' pc))) of
              Some e \<Rightarrow> Some e
            | None \<Rightarrow>
                (case rule_opt ''Window_order_clause'' details of
                   None \<Rightarrow> None
                 | Some order \<Rightarrow>
                     first_err (\<lambda>spec. window_column_err query relations ''window ORDER BY requires direct columns'' False
                         (rule_of ''Expr'' spec))
                       (rules ''Sort_specification'' (rule_of ''Sort_specification_list'' (rule_of ''Order_by_clause'' order))))))"

definition resolve_window_call :: "expressionScope \<Rightarrow> string \<Rightarrow> tree \<Rightarrow> tree \<Rightarrow> ty res" where
  "resolve_window_call sc name invoke tail =
     (if \<not> directWindowProjection (sc_query sc) invoke then
        Inl (Errorf ''window functions are supported only as direct SELECT projections'' [])
      else if \<not> equal_fold name ''ROW_NUMBER'' then Inl (Errorf ''window function %q is not yet supported'' [FStr name])
      else if has_token ''ASTERISK'' invoke \<or> has_rule ''Named_expr_list'' invoke \<or> has_quantifier invoke then
        Inl (Errorf ''ROW_NUMBER expects no arguments'' [])
      else if has_rule ''Filter_clause'' tail \<or> has_rule ''Null_treatment'' tail then
        Inl (Errorf ''ROW_NUMBER does not support FILTER or NULL treatment'' [])
      else (let window = rule_of ''Window_name_or_specification'' tail in
        case rule_opt ''Window_name'' window of
          Some w \<Rightarrow>
            (let name = identifier_of (GetText w) in
             if map_of (sc_windows sc) name = None then Inl (Errorf ''unknown window %q'' [FStr name])
             else Inr (mk_kind ''Uint64''))
        | None \<Rightarrow>
            check_then (validateRowNumberWindow (sc_query sc) (sc_relations sc) (rule_opt ''Window_specification'' window))
              (Inr (mk_kind ''Uint64''))))"

section \<open>Functions\<close>

definition quantifier_err :: "expressionScope \<Rightarrow> string \<Rightarrow> tree \<Rightarrow> go_error option" where
  "quantifier_err sc name invoke =
     (if \<not> has_quantifier invoke then None
      else (let quantifier = GetText (rule_of ''Opt_set_quantifier'' invoke) in
        if \<not> equal_fold name ''count'' \<or> (\<not> equal_fold quantifier ''ALL'' \<and> \<not> equal_fold quantifier ''DISTINCT'') then
          Some (Errorf ''set quantifiers in function %q are unsupported'' [FStr name])
        else if equal_fold quantifier ''DISTINCT'' \<and>
            (case named_arguments invoke of
               [named] \<Rightarrow> has_token ''AS'' named \<or> \<not> has_rule ''Expr'' named
                 \<or> \<not> isPureColumnExpression (sc_query sc) (rule_of ''Expr'' named)
             | _ \<Rightarrow> True) then
          Some (Errorf ''COUNT(DISTINCT ...) requires one direct column'' [])
        else None))"

definition resolveListCreateType :: "packages \<Rightarrow> tree \<Rightarrow> ty res" where
  "resolveListCreateType pk invoke =
     (case named_arguments invoke of
        [arg] \<Rightarrow>
          if has_token ''AS'' arg \<or> \<not> has_rule ''Expr'' arg then
            Inl (Errorf ''ListCreate expects one literal YQL element type'' [])
          else and_then (map_error (\<lambda>e. Errorf ''ListCreate requires a literal YQL element type: %w'' [FErr e])
              (parseType (GetText (rule_of ''Expr'' arg)))) (\<lambda>item. Resolve (pk_group_names pk) ''ListCreate'' [item])
      | _ \<Rightarrow> Inl (Errorf ''ListCreate expects one literal YQL element type'' []))"

definition groupMakesAggregateNonOptional :: "string \<Rightarrow> bool" where
  "groupMakesAggregateNonOptional name \<longleftrightarrow> List.member [''min'', ''max'', ''sum'', ''avg''] (to_lower name)"

definition resolve_plain_function :: "resolver \<Rightarrow> expressionScope \<Rightarrow> string \<Rightarrow> tree \<Rightarrow> ty run" where
  "resolve_plain_function rs sc name invoke =
     run_then (function_arguments rs sc name [] (named_arguments invoke)) (\<lambda>callArgs.
       if equal_fold name ''count'' then
         (if list_ex (\<lambda>arg. arg_Name arg \<noteq> []) callArgs then failed ''named arguments in aggregate %q are unsupported'' [FStr name]
          else if length callArgs \<noteq> 1 then failed ''function %q expects one argument or *'' [FStr name]
          else returned (mk_kind ''Uint64''))
       else run_then (Some (ResolveCall (pk_group_names (sc_packages sc)) (sc_functions sc) name callArgs)) (\<lambda>result.
         returned
           (if sc_grouped sc \<and> groupMakesAggregateNonOptional name \<and> length callArgs = 1
               \<and> Kind (arg_Type (hd callArgs)) \<noteq> ''Null'' \<and> \<not> IsOptional (arg_Type (hd callArgs))
            then UnwrapOptional result else result)))"

definition resolveFunction :: "resolver \<Rightarrow> expressionScope \<Rightarrow> string \<Rightarrow> tree \<Rightarrow> ty run" where
  "resolveFunction rs sc name invoke =
     (case (case rule_opt ''Invoke_expr_tail'' invoke of
              Some tail \<Rightarrow> if has_token ''OVER'' tail then Some tail else None | None \<Rightarrow> None) of
        Some tail \<Rightarrow> Some (resolve_window_call sc name invoke tail)
      | None \<Rightarrow>
          if equal_fold name ''ROW_NUMBER'' then failed ''ROW_NUMBER requires OVER'' []
          else (case quantifier_err sc name invoke of
              Some e \<Rightarrow> Some (Inl e)
            | None \<Rightarrow>
                if equal_fold name ''count'' \<and> has_token ''ASTERISK'' invoke then returned (mk_kind ''Uint64'')
                else if equal_fold name ''ListCreate'' then Some (resolveListCreateType (sc_packages sc) invoke)
                else resolve_plain_function rs sc name invoke))"

definition resolveCallChain :: "resolver \<Rightarrow> expressionScope \<Rightarrow> string \<Rightarrow> tree list \<Rightarrow> ty run" where
  "resolveCallChain rs sc name invokes =
     (if has_prefix name ''$'' then
        (let bindingName = trim_prefix name ''$'' in
         case sc_bindings sc bindingName of
           None \<Rightarrow> failed ''unknown callable binding %s'' [FStr name]
         | Some result \<Rightarrow>
             (if Kind result = ''Lambda'' \<and> invokes \<noteq> [] then
                (case map_of (sc_lambdas sc) bindingName of
                   None \<Rightarrow> failed ''unknown lambda binding %s'' [FStr name]
                 | Some b \<Rightarrow>
                     run_then (call_lambda rs sc b (hd invokes)) (\<lambda>result. call_all rs sc result (tl invokes)))
              else call_all rs sc result invokes))
      else run_then (resolveFunction rs sc name (hd invokes)) (\<lambda>result. call_all rs sc result (tl invokes)))"

section \<open>Members\<close>

fun member_loop :: "ty \<Rightarrow> tree list \<Rightarrow> ty res" where
  "member_loop typ [] = Inr typ"
| "member_loop typ (field # rest) =
     (let opt = IsOptional typ; base = UnwrapOptional typ; name = identifier_of (GetText field) in
      if Kind base \<noteq> ''Struct'' then Inl (Errorf ''member access requires Struct, got %s'' [FType base])
      else (case List.find (\<lambda>(n, _). n = name) (Fields base) of
          None \<Rightarrow> Inl (Errorf ''unknown struct field %q'' [FStr name])
        | Some (_, t) \<Rightarrow> member_loop (if opt \<and> \<not> IsOptional t then Optional t else t) rest))"

definition member_call_name :: "tree \<Rightarrow> string" where
  "member_call_name casual =
     (let name = (case rule_opt ''Id_expr'' casual of Some i \<Rightarrow> identifier_of (GetText i) | None \<Rightarrow> []) in
      case rule_opt ''Atom_expr'' casual of
        None \<Rightarrow> name
      | Some atom \<Rightarrow>
          if has_rule ''Bind_parameter'' atom then CHR ''$'' # bindName (rule_opt ''Bind_parameter'' atom)
          else if has_token ''NAMESPACE'' atom then
            identifier_of (GetText (rule_of ''An_id_or_type'' atom)) @ ''::'' @ identifier_of (GetText (rule_of ''Id_or_type'' atom))
          else name)"

text \<open>The base of a member access and the fields that are left, \<open>None\<close> for \<open>table.column\<close>.\<close>

definition member_base :: "resolver \<Rightarrow> expressionScope \<Rightarrow> tree \<Rightarrow> tree list \<Rightarrow> tree list \<Rightarrow> (ty run \<times> tree list) option" where
  "member_base rs sc casual invokes parts =
     (let unsupported = failed ''unsupported member base %q'' [FStr (GetText casual)];
          atom = rule_opt ''Atom_expr'' casual in
      if invokes \<noteq> [] then
        (let name = member_call_name casual in
         Some (if name = [] then unsupported else resolveCallChain rs sc name invokes, parts))
      else (case sub_rule ''Bind_parameter'' atom of
          Some bind \<Rightarrow>
            (let name = bindName (Some bind) in
             Some (case sc_bindings sc name of
                 Some t \<Rightarrow> returned t
               | None \<Rightarrow> failed ''cannot resolve type of parameter $%s'' [FStr name], parts))
        | None \<Rightarrow>
            (case rule_opt ''Id_expr'' casual of
               Some i \<Rightarrow>
                 (let base = identifier_of (GetText i); qualified = list_ex (\<lambda>rel. rel_alias rel = base) (sc_relations sc) in
                  if qualified \<and> length parts = 1 then None
                  else if qualified then
                    Some (Some (column_type (sc_relations sc)
                      \<lparr>ref_qualifier = base, ref_name = identifier_of (GetText (hd parts)), ref_ctx = no_tree\<rparr>), tl parts)
                  else Some (Some (column_type (sc_relations sc) \<lparr>ref_qualifier = [], ref_name = base, ref_ctx = no_tree\<rparr>), parts))
             | None \<Rightarrow>
                 (case sub_rule ''Lambda'' atom of
                    Some lambda \<Rightarrow>
                      Some (if has_token ''ARROW'' lambda then unsupported
                        else (case parenthesizedExpression (rule_of ''Smart_parenthesis'' lambda) of
                            Some inner \<Rightarrow> rs Expression sc inner
                          | None \<Rightarrow> unsupported), parts)
                  | None \<Rightarrow> Some (unsupported, parts)))))"

definition resolveMemberAccess :: "resolver \<Rightarrow> expressionScope \<Rightarrow> tree \<Rightarrow> ty run option" where
  "resolveMemberAccess rs sc root =
     (case sub_rule ''Unary_casual_subexpr'' (covering_rule ''Unary_subexpr'' root) of
        None \<Rightarrow> None
      | Some casual \<Rightarrow>
          (case rule_opt ''Unary_subexpr_suffix'' casual of
             None \<Rightarrow> None
           | Some suffix \<Rightarrow>
               (let parts = rules ''An_id_or_type'' suffix; invokes = rules ''Invoke_expr'' suffix in
                if parts = [] then None
                else if has_rule ''Key_expr'' suffix \<or> has_rule ''Bind_parameter'' suffix \<or> has_token ''DIGITS'' suffix
                    \<or> has_token ''COLLATE'' suffix then
                  Some (failed ''unsupported member access %q'' [FStr (GetText root)])
                else if invokes \<noteq> [] \<and> token_index (last invokes) > token_index (hd parts) then
                  Some (failed ''unsupported member invocation %q'' [FStr (GetText root)])
                else map_option (\<lambda>(typ, parts). run_then typ (\<lambda>typ. Some (member_loop typ parts)))
                  (member_base rs sc casual invokes parts))))"

section \<open>Comparisons and IN\<close>

definition comparison_type :: "ty list \<Rightarrow> ty res" where
  "comparison_type types =
     (if list_all (\<lambda>t. Kind t = ''Null'') types then Inr (Optional (mk_kind ''Bool''))
      else and_then (map_error (\<lambda>e. Errorf ''comparison operands have incompatible types: %w'' [FErr e]) (CommonType types))
        (\<lambda>common. Inr (if IsOptional common then Optional (mk_kind ''Bool'') else mk_kind ''Bool'')))"

definition comparison_operand :: "resolver \<Rightarrow> expressionScope \<Rightarrow> tree \<Rightarrow> ty run" where
  "comparison_operand rs sc operand =
     wrapped ''cannot resolve comparison operand %q: %w'' [FStr (GetText operand)] (rs Scalar sc operand)"

definition comparisonBoolType :: "resolver \<Rightarrow> expressionScope \<Rightarrow> tree list \<Rightarrow> ty run" where
  "comparisonBoolType rs sc operands =
     run_then (run_list (comparison_operand rs sc) operands) (\<lambda>types. Some (comparison_type types))"

definition in_tuple_item :: "resolver \<Rightarrow> expressionScope \<Rightarrow> tree \<Rightarrow> ty run" where
  "in_tuple_item rs sc item = wrapped ''cannot resolve IN tuple item: %w'' [] (rs Expression sc item)"

definition resolveINOperand :: "resolver \<Rightarrow> expressionScope \<Rightarrow> tree \<Rightarrow> ty run" where
  "resolveINOperand rs sc root =
     (case tupleExpressions root of
        [] \<Rightarrow> rs Scalar sc root
      | items \<Rightarrow> run_then (run_list (in_tuple_item rs sc) items) (\<lambda>types. returned (mk_tuple types)))"

fun tuple_types_err :: "(ty \<Rightarrow> ty \<Rightarrow> go_error option) \<Rightarrow> nat \<Rightarrow> ty list \<Rightarrow> ty list \<Rightarrow> go_error option" where
  "tuple_types_err check i (l # ls) (r # rs) =
     (case check l r of
        Some e \<Rightarrow> Some (Errorf ''tuple component %d: %w'' [FNat (i + 1), FErr e])
      | None \<Rightarrow> tuple_types_err check (i + 1) ls rs)"
| "tuple_types_err check i ls rs = None"

lemma tuple_types_err_cong [fundef_cong]:
  "ls = ls' \<Longrightarrow> rs = rs' \<Longrightarrow> i = i' \<Longrightarrow> (\<And>l r. l \<in> set ls' \<Longrightarrow> r \<in> set rs' \<Longrightarrow> check l r = check' l r) \<Longrightarrow>
   tuple_types_err check i ls rs = tuple_types_err check' i' ls' rs'"
proof (induction check i ls rs arbitrary: ls' rs' i' rule: tuple_types_err.induct)
  case (1 check i l ls r rs)
  then show ?case by (auto split: option.splits)
qed auto

function validateINSubqueryTypes :: "ty \<Rightarrow> ty \<Rightarrow> go_error option" where
  "validateINSubqueryTypes left right =
     (if Kind left = ''Null'' \<and> Kind right = ''Null'' then None
      else if Kind left = ''Tuple'' \<and> Kind right = ''Tuple'' then
        (if length (Items left) \<noteq> length (Items right) then
           Some (Errorf ''tuple arity differs: %d and %d'' [FNat (length (Items left)), FNat (length (Items right))])
         else tuple_types_err validateINSubqueryTypes 0 (Items left) (Items right))
      else (case CommonType [left, right] of Inl e \<Rightarrow> Some e | Inr _ \<Rightarrow> None))"
  by pat_completeness auto
termination
  by (relation "measure (\<lambda>(l, r). size l)") auto

declare validateINSubqueryTypes.simps [simp del]

definition parenthesized_list :: "expressionScope \<Rightarrow> tree \<Rightarrow> bool" where
  "parenthesized_list sc expr =
     (case directBind expr of
        None \<Rightarrow> False
      | Some bind \<Rightarrow>
          (case sc_bindings sc (bindName (Some bind)) of Some t \<Rightarrow> Kind (UnwrapOptional t) = ''List'' | None \<Rightarrow> False))"

definition in_list_type :: "resolver \<Rightarrow> expressionScope \<Rightarrow> tree \<Rightarrow> ty run" where
  "in_list_type rs sc expr =
     (if parenthesized_list sc expr then
        failed ''parenthesized List parameter %q is not a valid IN operand; use IN %s'' [FStr (GetText expr), FStr (GetText expr)]
      else wrapped ''cannot resolve IN operand %q: %w'' [FStr (GetText expr)] (rs Expression sc expr))"

text \<open>The right side of IN: the types of its values, and whether it is an optional list.\<close>

definition in_list_operand :: "string \<Rightarrow> string \<Rightarrow> ty \<Rightarrow> (ty list \<times> bool) res" where
  "in_list_operand fmt text t =
     (let list' = UnwrapOptional t in
      case (if Kind list' = ''List'' then Elem list' else None) of
        None \<Rightarrow> Inl (Errorf fmt [FStr text])
      | Some elem \<Rightarrow> Inr ([elem], IsOptional t))"

definition in_right_types :: "resolver \<Rightarrow> expressionScope \<Rightarrow> tree \<Rightarrow> (ty list \<times> bool) run" where
  "in_right_types rs sc inExpr =
     (case directBind inExpr of
        Some bind \<Rightarrow>
          Some (case sc_bindings sc (bindName (Some bind)) of
              None \<Rightarrow> Inl (Errorf ''direct IN operand %q requires a List parameter'' [FStr (GetText bind)])
            | Some t \<Rightarrow> in_list_operand ''direct IN operand %q requires a List parameter'' (GetText bind) t)
      | None \<Rightarrow>
          if \<not> inValueExpressions inExpr then
            (if in_arrow_lambda inExpr then
               failed ''lambda is not a valid IN operand %q; provide a List expression'' [FStr (GetText inExpr)]
             else run_then (wrapped ''cannot resolve IN operand %q: %w'' [FStr (GetText inExpr)]
                 (case inFunctionCall inExpr of
                    Some (name, invoke) \<Rightarrow> resolveFunction rs sc name invoke
                  | None \<Rightarrow> rs Scalar sc inExpr)) (\<lambda>t.
               Some (in_list_operand ''direct IN operand %q requires a List expression'' (GetText inExpr) t)))
          else (let expressions = in_list_expressions inExpr in
            if expressions = [] then failed ''unsupported IN operand %q'' [FStr (GetText inExpr)]
            else run_then (run_list (in_list_type rs sc) expressions) (\<lambda>types. returned (types, False))))"

definition resolveINCondition :: "resolver \<Rightarrow> expressionScope \<Rightarrow> tree \<Rightarrow> ty run" where
  "resolveINCondition rs sc atom =
     (let operand = rule_of ''Eq_subexpr'' atom; inExpr = rule_of ''In_expr'' (rule_of ''Cond_expr'' atom) in
      run_then (wrapped ''cannot resolve IN operand %q: %w'' [FStr (GetText operand)] (resolveINOperand rs sc operand)) (\<lambda>left.
        case sc_inSubqueries sc (token_index inExpr) of
          Some subquery \<Rightarrow>
            Some (check_then (map_option (\<lambda>e. Errorf ''IN subquery key types are incompatible: %s and %s: %w''
                [FType left, FType subquery, FErr e]) (validateINSubqueryTypes left subquery)) (Inr (mk_kind ''Bool'')))
        | None \<Rightarrow>
            run_then (in_right_types rs sc inExpr) (\<lambda>(types, optionalList).
              run_then (wrapped ''IN operands have incompatible types: %w'' [] (Some (CommonType (left # types)))) (\<lambda>common.
                returned (if IsOptional common \<or> optionalList then Optional (mk_kind ''Bool'') else mk_kind ''Bool'')))))"

definition equality_operands :: "tree \<Rightarrow> tree list" where
  "equality_operands expr =
     concat (map (\<lambda>t. let ns = rules ''Neq_subexpr'' t in if sameSpan expr t \<and> length ns \<ge> 2 then ns else [])
       (descendant_rules ''Eq_subexpr'' expr))"

definition is_null_check :: "tree \<Rightarrow> bool" where
  "is_null_check condition \<longleftrightarrow> has_token ''ISNULL'' condition \<or> has_token ''NOTNULL'' condition \<or> has_token ''NULL'' condition"

definition condition_type :: "resolver \<Rightarrow> expressionScope \<Rightarrow> tree \<Rightarrow> ty run option" where
  "condition_type rs sc xor' =
     (let condition = rule_of ''Cond_expr'' xor'; first = rule_of ''Eq_subexpr'' xor' in
      if is_null_check condition then
        Some (run_then (wrapped ''cannot resolve null-check operand: %w'' [] (rs Scalar sc first)) (\<lambda>_. returned (mk_kind ''Bool'')))
      else if has_token ''IN'' condition then
        Some (if inSubquery (rule_of ''In_expr'' condition) \<noteq> None then
            failed ''IN subqueries are supported only in WHERE predicates; they are not yet supported in projections, CASE, IF, or HAVING'' []
          else resolveINCondition rs sc xor')
      else (let operands = first # rules ''Eq_subexpr'' condition in
        if length operands < 2 then None
        else Some (run_then (comparisonBoolType rs sc operands) (\<lambda>t.
          returned (if length (rules ''Distinct_from_op'' condition) = length operands - 1 then mk_kind ''Bool'' else t)))))"

definition resolveComparison :: "resolver \<Rightarrow> expressionScope \<Rightarrow> tree \<Rightarrow> ty run option" where
  "resolveComparison rs sc expr =
     (case equality_operands expr of
        [] \<Rightarrow>
          (case last_match (\<lambda>t. is_rule ''Xor_subexpr'' t \<and> sameSpan expr t \<and> has_rule ''Cond_expr'' t) expr of
             None \<Rightarrow> None
           | Some xor' \<Rightarrow> condition_type rs sc xor')
      | operands \<Rightarrow> Some (comparisonBoolType rs sc operands))"

section \<open>Expressions and scalars\<close>

definition bind_type :: "expressionScope \<Rightarrow> tree \<Rightarrow> ty res" where
  "bind_type sc bind =
     (let name = bindName (Some bind) in
      case sc_bindings sc name of
        Some t \<Rightarrow> Inr t
      | None \<Rightarrow> Inl (Errorf ''cannot resolve type of parameter $%s; add DECLARE'' [FStr name]))"

definition unsupported_expression :: "expressionScope \<Rightarrow> tree \<Rightarrow> ty run" where
  "unsupported_expression sc expr =
     (if columnRefs (sc_query sc) expr \<noteq> [] then failed ''computed result expression %q is not supported'' [FStr (GetText expr)]
      else failed ''unsupported result expression %q'' [FStr (GetText expr)])"

text \<open>The second half of \<open>resolveExpression\<close>, after the operators: binds, columns, CAST, CASE, calls.\<close>

definition expression_atom :: "resolver \<Rightarrow> expressionScope \<Rightarrow> tree \<Rightarrow> ty run" where
  "expression_atom rs sc expr =
     (case directBind expr of
        Some bind \<Rightarrow> Some (bind_type sc bind)
      | None \<Rightarrow>
          if isPureColumnExpression (sc_query sc) expr then
            Some (column_type (sc_relations sc) (hd (columnRefs (sc_query sc) expr)))
          else (case covering_rule ''Cast_expr'' expr of
              Some cast \<Rightarrow> resolveCast rs sc cast
            | None \<Rightarrow>
                (case covering_rule ''Case_expr'' expr of
                   Some caseExpr \<Rightarrow> resolveCase rs sc caseExpr
                 | None \<Rightarrow>
                     (case directFunctionCall expr of
                        Some (name, invoke) \<Rightarrow> resolveFunction rs sc name invoke
                      | None \<Rightarrow>
                          (case directCallChain expr of
                             Some (name, invokes) \<Rightarrow> resolveCallChain rs sc name invokes
                           | None \<Rightarrow>
                               or_else (concatenationType rs sc expr)
                                 (or_else (resolveComparison rs sc expr) (unsupported_expression sc expr)))))))"

definition resolve_expression :: "resolver \<Rightarrow> expressionScope \<Rightarrow> tree \<Rightarrow> ty run" where
  "resolve_expression rs sc expr =
     or_else (map_option Some (literalType (pk_parse_float (sc_packages sc)) expr))
       (or_else (resolveArithmetic rs sc expr)
         (or_else (resolveBoolean rs sc expr)
           (or_else (resolveStructLiteral rs sc expr)
             (or_else (resolveMemberAccess rs sc expr) (expression_atom rs sc expr)))))"

definition scalar_call :: "resolver \<Rightarrow> expressionScope \<Rightarrow> tree \<Rightarrow> ty run option" where
  "scalar_call rs sc unary =
     (case functionCallFromUnary unary of
        Some (name, invoke) \<Rightarrow> Some (resolveFunction rs sc name invoke)
      | None \<Rightarrow>
          (case callChainFromUnary unary of
             Some (name, invokes) \<Rightarrow> Some (resolveCallChain rs sc name invokes)
           | None \<Rightarrow> None))"

definition scalar_column :: "expressionScope \<Rightarrow> tree \<Rightarrow> ty run option" where
  "scalar_column sc root =
     (case columnRefs (sc_query sc) root of
        [ref] \<Rightarrow> if sameSpan root (ref_ctx ref) then Some (Some (column_type (sc_relations sc) ref)) else None
      | _ \<Rightarrow> None)"

text \<open>The second half of \<open>resolveScalarNode\<close>: literals, binds, columns, CAST, CASE, calls.\<close>

definition scalar_atom :: "resolver \<Rightarrow> expressionScope \<Rightarrow> tree \<Rightarrow> ty run" where
  "scalar_atom rs sc root =
     (case covering_rule ''Literal_value'' root of
        Some literal \<Rightarrow> Some (literalValueType (pk_parse_float (sc_packages sc)) (literal_of literal))
      | None \<Rightarrow>
          (case directBind root of
             Some bind \<Rightarrow> Some (bind_type sc bind)
           | None \<Rightarrow>
               or_else (scalar_column sc root)
                 (case covering_rule ''Cast_expr'' root of
                    Some cast \<Rightarrow> resolveCast rs sc cast
                  | None \<Rightarrow>
                      (case covering_rule ''Case_expr'' root of
                         Some caseExpr \<Rightarrow> resolveCase rs sc caseExpr
                       | None \<Rightarrow>
                           or_else (Option.bind (covering_rule ''Unary_subexpr'' root) (scalar_call rs sc))
                             (failed ''unsupported scalar expression %q'' [FStr (GetText root)])))))"

definition resolve_scalar_node :: "resolver \<Rightarrow> expressionScope \<Rightarrow> tree \<Rightarrow> ty run" where
  "resolve_scalar_node rs sc root =
     or_else (resolveArithmetic rs sc root)
       (or_else (resolveBoolean rs sc root)
         (or_else (concatenationType rs sc root)
           (or_else (resolveComparison rs sc root)
             (or_else (resolveMemberAccess rs sc root) (scalar_atom rs sc root)))))"

fun resolve_fuel :: "nat \<Rightarrow> resolver" where
  "resolve_fuel 0 e sc t = None"
| "resolve_fuel (Suc n) Expression sc t = resolve_expression (resolve_fuel n) sc t"
| "resolve_fuel (Suc n) Scalar sc t = resolve_scalar_node (resolve_fuel n) sc t"

text \<open>
  The fuel: the size of the expression, and the size of all lambdas in scope, because a call of a named
  lambda goes on with its body.
\<close>

fun binding_weight :: "lambdaBinding \<Rightarrow> nat" where
  "binding_weight (LambdaBinding lambda bs lambdas) = size lambda + sum_list (map (\<lambda>(n, b). binding_weight b) lambdas)"

definition lambdas_weight :: "lambda_map \<Rightarrow> nat" where
  "lambdas_weight lambdas = sum_list (map (\<lambda>(n, b). binding_weight b) lambdas)"

definition resolve_measure :: "expressionScope \<Rightarrow> tree \<Rightarrow> nat" where
  "resolve_measure sc t = size t + lambdas_weight (sc_lambdas sc)"

definition resolve :: resolver where
  "resolve e sc t = resolve_fuel (Suc (resolve_measure sc t)) e sc t"

definition run_result :: "'a run \<Rightarrow> 'a res" where
  "run_result r = (case r of Some x \<Rightarrow> x | None \<Rightarrow> Inl (Errorf ''missing expression'' []))"

definition resolveExpression :: "expressionScope \<Rightarrow> tree option \<Rightarrow> ty res" where
  "resolveExpression sc expr =
     (case expr of None \<Rightarrow> Inl (Errorf ''missing expression'' []) | Some e \<Rightarrow> run_result (resolve Expression sc e))"

definition resolveScalarNode :: "expressionScope \<Rightarrow> tree \<Rightarrow> ty res" where
  "resolveScalarNode sc root = run_result (resolve Scalar sc root)"

end
