(* ===== verification/ExpressionTypes.thy ===== *)
theory ExpressionTypes
  imports Expressions
begin

text \<open>
  Expression typing terminates. The locale \<open>total_resolver\<close> states what an operation needs of the two
  functions it is given, that they return on every smaller expression, and shows that then the operation
  returns; it is interpreted on \<open>resolve_fuel\<close>.
\<close>

section \<open>Sizes\<close>

lemma size_no_tree: "size no_tree = 1"
  by (simp add: no_tree_def)

lemma size_context: "is_context t \<Longrightarrow> 1 \<le> size t"
  by (cases t) simp_all

lemma is_rule_context: "is_rule name t \<Longrightarrow> is_context t"
  by (cases t) simp_all

lemma size_rule_of: "is_context t \<Longrightarrow> size (rule_of name t) \<le> size t"
  using size_context [of t]
  by (auto simp: rule_of_def size_no_tree dest: size_rule split: option.splits)

lemma size_rule_of_strict: "u \<in> set (tree_children t) \<Longrightarrow> is_context u \<Longrightarrow> size (rule_of name t) < size t"
  using size_child [of u t] size_context [of u]
  by (auto simp: rule_of_def size_no_tree dest: size_rule split: option.splits)

lemma find_member: "List.find p xs = Some x \<Longrightarrow> x \<in> set xs \<and> p x"
  by (auto simp: find_Some_iff)

lemma last_match_descendant: "last_match p root = Some t \<Longrightarrow> t \<in> set (descendants root) \<and> p t"
proof -
  assume "last_match p root = Some t"
  then obtain ts where "rev (filter p (descendants root)) = t # ts"
    by (auto simp: last_match_def split: list.splits)
  then have "t \<in> set (rev (filter p (descendants root)))" by (metis list.set_intros(1))
  then show ?thesis by simp
qed

lemma size_last_match: "last_match p root = Some t \<Longrightarrow> size t \<le> size root"
  by (blast dest: last_match_descendant size_descendant)

lemma covering_rule_context: "covering_rule name root = Some t \<Longrightarrow> is_context t \<and> size t \<le> size root"
  unfolding covering_rule_def by (blast dest: last_match_descendant size_last_match intro: is_rule_context)

lemma size_rule_opt_bind: "sub_rule name t = Some u \<Longrightarrow> \<exists>v. t = Some v \<and> size u < size v"
  by (cases t) (auto simp: sub_rule_def dest: size_rule)

lemma sub_rule_context: "sub_rule name t = Some u \<Longrightarrow> is_context u"
  by (auto simp: sub_rule_def bind_eq_Some_conv dest: rule_opt_child intro: is_rule_context)

lemma size_callChain:
  assumes "callChainFromUnary unary = Some (name, invokes)"
  shows "invokes \<noteq> []" "\<forall>i\<in>set invokes. size i < size unary"
  using assms by (force simp: callChainFromUnary_def Let_def dest: size_rule size_rules split: option.splits if_splits)+

lemma size_functionCall: "functionCallFromUnary unary = Some (name, invoke) \<Longrightarrow> size invoke < size unary"
  by (auto simp: functionCallFromUnary_def split: option.splits list.splits if_splits dest: size_callChain(2))

lemma size_directFunctionCall: "directFunctionCall expr = Some (name, invoke) \<Longrightarrow> size invoke < size expr"
  by (auto simp: directFunctionCall_def split: option.splits if_splits dest!: size_functionCall covering_rule_context)

lemma size_directCallChain:
  "directCallChain expr = Some (name, invokes) \<Longrightarrow> invokes \<noteq> [] \<and> (\<forall>i\<in>set invokes. size i < size expr)"
  by (force simp: directCallChain_def bind_eq_Some_conv dest: size_callChain covering_rule_context)

lemma size_named_argument:
  assumes "named \<in> set (named_arguments invoke)"
  shows "size named < size invoke" "size (rule_of name named) < size invoke"
proof -
  from assms have c: "is_context named"
    by (auto simp: named_arguments_def dest: rules_child intro: is_rule_context)
  show s: "size named < size invoke"
  proof (cases "rule_opt ''Named_expr_list'' invoke")
    case None
    with assms show ?thesis by (simp add: named_arguments_def rule_of_def no_tree_def rules_def)
  next
    case (Some l)
    with assms have "named \<in> set (rules ''Named_expr'' l)" by (simp add: named_arguments_def rule_of_def)
    from size_rules [OF this] size_rule [OF Some] show ?thesis by simp
  qed
  with size_rule_of [OF c, of name] show "size (rule_of name named) < size invoke" by simp
qed

lemma size_directLambda: "directLambda expr = Some lambda \<Longrightarrow> size lambda \<le> size expr"
  by (auto simp: directLambda_def dest: size_last_match)

section \<open>The weight of the lambdas in scope\<close>

abbreviation scope_weight :: "expressionScope \<Rightarrow> nat" where
  "scope_weight sc \<equiv> lambdas_weight (sc_lambdas sc)"

lemma weight_delete: "lambdas_weight (map_delete name m) \<le> lambdas_weight m"
  by (induction m) (auto simp: lambdas_weight_def map_delete_def)

lemma weight_entry: "map_of m name = Some b \<Longrightarrow> binding_weight b \<le> lambdas_weight m"
proof -
  assume "map_of m name = Some b"
  then have "(name, b) \<in> set m" by (rule map_of_SomeD)
  then show ?thesis by (induction m) (auto simp: lambdas_weight_def)
qed

lemma binding_weight_split: "binding_weight b = size (lb_lambda b) + lambdas_weight (lb_lambdas b)"
  by (cases b) (simp add: lambdas_weight_def)

lemma captured_weight:
  "map_of (sc_lambdas sc) name = Some b \<Longrightarrow> size (lb_lambda b) + scope_weight (captured_scope sc b) \<le> scope_weight sc"
  using weight_entry [of "sc_lambdas sc" name b] by (simp add: captured_scope_def binding_weight_split)

lemma bind_parameters_weight:
  "bind_parameters seen sc ps = Inr (seen', sc') \<Longrightarrow> scope_weight sc' \<le> scope_weight sc"
proof (induction seen sc ps rule: bind_parameters.induct)
  case (2 seen sc parameter t ps)
  let ?name = "bindName (Some parameter)"
  from 2 have "scope_weight sc' \<le> lambdas_weight (map_delete ?name (sc_lambdas sc))"
    by (auto simp: Let_def split: if_splits)
  also have "\<dots> \<le> scope_weight sc" by (rule weight_delete)
  finally show ?case .
qed simp

section \<open>Runs that return\<close>

definition ends :: "'a run \<Rightarrow> bool" where
  "ends r \<longleftrightarrow> r \<noteq> None"

named_theorems ends_intros \<open>a run returns, by the form of the run\<close>

lemma ends_Some [ends_intros, simp]: "ends (Some r)"
  by (simp add: ends_def)

lemma ends_run_then [ends_intros]: "ends r \<Longrightarrow> (\<And>x. r = Some (Inr x) \<Longrightarrow> ends (f x)) \<Longrightarrow> ends (run_then r f)"
  by (auto simp: ends_def run_then_def split: option.splits sum.splits)

lemma ends_wrapped [ends_intros]: "ends r \<Longrightarrow> ends (wrapped fmt args r)"
  by (auto simp: ends_def wrapped_def wrapping_def)

lemma ends_if [ends_intros]: "(b \<Longrightarrow> ends r) \<Longrightarrow> (\<not> b \<Longrightarrow> ends s) \<Longrightarrow> ends (if b then r else s)"
  by simp

lemma ends_or_else [ends_intros]: "(\<And>x. r = Some x \<Longrightarrow> ends x) \<Longrightarrow> ends k \<Longrightarrow> ends (or_else r k)"
  by (cases r) (auto simp: or_else_def)

lemma ends_option [ends_intros]: "(x = None \<Longrightarrow> ends r) \<Longrightarrow> (\<And>v. x = Some v \<Longrightarrow> ends (f v)) \<Longrightarrow> ends (case x of None \<Rightarrow> r | Some v \<Rightarrow> f v)"
  by (cases x) auto

lemma ends_pair [ends_intros]: "(\<And>a b. p = (a, b) \<Longrightarrow> ends (f a b)) \<Longrightarrow> ends (case p of (a, b) \<Rightarrow> f a b)"
  by (cases p) auto

lemma ends_list [ends_intros]: "(\<And>x. x \<in> set xs \<Longrightarrow> ends (f x)) \<Longrightarrow> ends (run_list f xs)"
  by (induction xs) (auto intro!: ends_intros)

lemma wrapped_Inr [simp]: "wrapped fmt args r = Some (Inr x) \<longleftrightarrow> r = Some (Inr x)"
  by (auto simp: wrapped_def wrapping_def map_error_Inr_iff)

lemma run_then_Inr: "run_then r f = Some (Inr y) \<longleftrightarrow> (\<exists>x. r = Some (Inr x) \<and> f x = Some (Inr y))"
  by (auto simp: run_then_def split: option.splits sum.splits)

section \<open>Termination\<close>

locale total_resolver =
  fixes rs :: resolver and bound :: nat
  assumes rs_ends: "resolve_measure sc t < bound \<Longrightarrow> ends (rs e sc t)"
begin

lemma below: "size t + scope_weight sc < bound \<Longrightarrow> ends (rs e sc t)"
  by (rule rs_ends) (simp add: resolve_measure_def)

lemma smaller: "size t < size root \<Longrightarrow> size root + scope_weight sc \<le> bound \<Longrightarrow> ends (rs e sc t)"
  by (rule below) simp

lemma arithmetic_loop_ends:
  "\<forall>t\<in>set ts. size t + scope_weight sc < bound \<Longrightarrow> ends (arithmetic_loop rs sc operator result ts)"
proof (induction ts arbitrary: operator result)
  case (Cons t ts)
  then show ?case by (cases t) (auto intro!: ends_intros below)
qed simp

lemma resolveArithmetic_ends:
  assumes "resolveArithmetic rs sc root = Some r" "size root + scope_weight sc \<le> bound"
  shows "ends r"
proof (cases "parenthesizedExpression root")
  case None
  have "size t + scope_weight sc < bound" if "t \<in> set (tree_children (coveringExpressionContext root))" for t
    using size_child [OF that] size_covering [of root] assms(2) by simp
  with None assms(1) show ?thesis
    by (auto simp: resolveArithmetic_def Let_def split: if_splits intro!: arithmetic_loop_ends)
next
  case (Some inner)
  with assms smaller [OF size_parenthesized [OF Some]] show ?thesis by (auto simp: resolveArithmetic_def)
qed

lemma boolean_loop_ends:
  "\<forall>t\<in>set ts. size t + scope_weight sc < bound \<Longrightarrow> ends (boolean_loop rs sc operator result opt ts)"
  by (induction ts arbitrary: result opt) (auto intro!: ends_intros below)

lemma size_boolean_operand:
  assumes "t \<in> set (snd (boolean_operands operation))"
  shows "size t < size operation"
proof -
  have "size (rule_of name operation) < size operation" if n: "has_token ''NOT'' (rule_of ''Unary_op'' operation)" for name
  proof -
    from n obtain u where u: "rule_opt ''Unary_op'' operation = Some u"
      by (cases "rule_opt ''Unary_op'' operation") (auto simp: rule_of_def no_tree_def has_token_def token_of_def)
    then show ?thesis
      by (intro size_rule_of_strict [of u]) (auto dest: rule_opt_child intro: is_rule_context)
  qed
  with assms show ?thesis by (auto simp: boolean_operands_def dest: size_rules split: if_splits)
qed

lemma resolveBoolean_ends:
  assumes "resolveBoolean rs sc root = Some r" "size root + scope_weight sc \<le> bound"
  shows "ends r"
proof -
  obtain operator operands where o: "boolean_operands (coveringExpressionContext root) = (operator, operands)"
    by (cases "boolean_operands (coveringExpressionContext root)")
  have "size t + scope_weight sc < bound" if "t \<in> set operands" for t
    using size_boolean_operand [of t "coveringExpressionContext root"] size_covering [of root] that o assms(2) by simp
  with assms(1) o show ?thesis
    by (auto simp: resolveBoolean_def split: if_splits intro!: boolean_loop_ends)
qed

lemma concatenation_loop_ends:
  "\<forall>t\<in>set ts. size t + scope_weight sc < bound \<Longrightarrow> ends (concatenation_loop rs sc result opt null ts)"
  by (induction ts arbitrary: result opt null) (auto simp: Let_def intro!: ends_intros below)

lemma concatenationType_ends:
  assumes "concatenationType rs sc root = Some r" "size root + scope_weight sc \<le> bound"
  shows "ends r"
proof -
  have "size t + scope_weight sc < bound" if "t \<in> set (rules name (coveringExpressionContext root))" for t name
    using size_rules [OF that] size_covering [of root] assms(2) by simp
  with assms(1) show ?thesis
    by (auto simp: concatenationType_def Let_def split: if_splits intro!: concatenation_loop_ends)
qed

lemma resolveCast_ends: "size cast + scope_weight sc \<le> bound \<Longrightarrow> ends (resolveCast rs sc cast)"
  unfolding resolveCast_def by (auto split: option.splits intro!: ends_intros dest!: size_rule intro: smaller)

lemma case_branches_ends:
  "\<forall>t\<in>set ts. size t + scope_weight sc < bound \<Longrightarrow> \<forall>t\<in>set_option selector. size t + scope_weight sc < bound \<Longrightarrow>
   ends (case_branches rs sc selector bs ts)"
proof (induction ts arbitrary: bs)
  case (Cons t ts)
  have branch: "size u + scope_weight sc < bound" if "u \<in> set (rules ''Expr'' t)" for u
    using size_rules [OF that] Cons.prems(1) by force
  show ?case
    unfolding case_branches.simps case_condition_def
    using Cons branch by (auto split: list.splits option.splits intro!: ends_intros intro: below)
qed (simp add: ends_intros)

lemma resolveCase_ends:
  assumes "size root + scope_weight sc \<le> bound"
  shows "ends (resolveCase rs sc root)"
proof -
  have r: "size t + scope_weight sc < bound" if "t \<in> set (rules name root)" for name t
    using size_rules [OF that] assms by simp
  show ?thesis
  proof (cases "rules ''When_expr'' root")
    case (Cons w ws)
    then have w: "\<forall>t\<in>set (w # ws). size t + scope_weight sc < bound" using r by (metis)
    have f: "size t + scope_weight sc < bound" if "List.find p (rules name root) = Some t" for p name t
      using find_member [OF that] r by blast
    have sel: "\<forall>t\<in>set_option (case es of [] \<Rightarrow> None | e # _ \<Rightarrow> if p e then Some e else None). size t + scope_weight sc < bound"
      if "\<forall>t\<in>set es. size t + scope_weight sc < bound" for es p
      using that by (cases es) auto
    show ?thesis
      unfolding resolveCase_def Let_def Cons list.case
      by (intro ends_intros case_branches_ends w sel ballI r below f)
  qed (simp add: resolveCase_def)
qed

lemma struct_arguments_ends:
  "\<forall>t\<in>set ts. size t + scope_weight sc < bound \<Longrightarrow> ends (struct_arguments rs sc args ts)"
  by (induction ts arbitrary: args rule: induct_list012)
    (auto simp: Let_def split: option.splits intro!: ends_intros below)

lemma resolveStructLiteral_ends:
  assumes "resolveStructLiteral rs sc root = Some r" "size root + scope_weight sc \<le> bound"
  shows "ends r"
proof -
  have "size t + scope_weight sc < bound"
    if "covering_rule ''Struct_literal'' root = Some literal" "rule_opt name literal = Some l" "t \<in> set (rules name' l)"
    for literal l name name' t
    using covering_rule_context [OF that(1)] size_rule [OF that(2)] size_rules [OF that(3)] assms(2) by simp
  with assms(1) show ?thesis
    by (auto simp: resolveStructLiteral_def Let_def split: option.splits if_splits intro!: ends_intros struct_arguments_ends)
qed

lemma lambda_statements_ends:
  "\<forall>t\<in>set ts. size t < n \<Longrightarrow> n + scope_weight sc \<le> bound \<Longrightarrow> ends (lambda_statements rs seen sc ts)"
proof (induction ts arbitrary: seen sc)
  case (Cons t ts)
  have expr: "size expr < n" if "lambda_assignment t seen = Inr (name, expr)" for name expr seen
    using that Cons.prems(1)
    by (auto simp: lambda_assignment_def Let_def split: option.splits list.splits if_splits dest!: size_rule)
  have w: "n + lambdas_weight (map_delete name (sc_lambdas sc)) \<le> bound" for name
    using weight_delete [of name "sc_lambdas sc"] Cons.prems(2) by simp
  show ?case
    unfolding lambda_statements.simps
    by (intro ends_intros below Cons.IH; (use Cons.prems(1) in simp)?; (use w in simp)?)
      (use expr Cons.prems(2) in fastforce)
qed simp

lemma lambda_statements_weight:
  "lambda_statements rs seen sc ts = Some (Inr sc') \<Longrightarrow> scope_weight sc' \<le> scope_weight sc"
proof (induction ts arbitrary: seen sc)
  case (Cons t ts)
  from Cons.prems obtain name u where
    "lambda_statements rs (name # seen)
      (sc\<lparr>sc_bindings := (sc_bindings sc)(name \<mapsto> u), sc_lambdas := map_delete name (sc_lambdas sc)\<rparr>) ts = Some (Inr sc')"
    by (auto simp: run_then_Inr split: option.splits)
  from Cons.IH [OF this] weight_delete [of name "sc_lambdas sc"] show ?case by simp
qed simp

lemma lambda_body_ends:
  assumes "size lambda + scope_weight sc \<le> bound"
  shows "ends (lambda_body rs seen sc lambda)"
proof (cases "rule_opt ''Lambda_body'' lambda")
  case None
  then show ?thesis
    using assms by (auto simp: lambda_body_def lambda_result_def split: option.splits intro!: ends_intros below dest!: size_rule)
next
  case (Some body)
  have "ends (rs Expression sc' expr)"
    if "rule_opt ''Expr'' body = Some expr" "lambda_statements rs seen sc (rules ''Lambda_stmt'' body) = Some (Inr sc')" for expr sc'
    using size_rule [OF that(1)] size_rule [OF Some] lambda_statements_weight [OF that(2)] assms by (intro below) simp
  moreover have "ends (lambda_statements rs seen sc (rules ''Lambda_stmt'' body))"
    using size_rule [OF Some] assms by (intro lambda_statements_ends [where n = "size lambda"]) (auto dest: size_rules)
  ultimately show ?thesis
    by (auto simp: lambda_body_def Some lambda_result_def split: option.splits intro!: ends_intros)
qed

lemma resolveLambda_ends:
  assumes "size lambda + scope_weight sc \<le> bound"
  shows "ends (resolveLambda rs sc lambda ts)"
  unfolding resolveLambda_def Let_def
  by (intro ends_intros lambda_body_ends) (use assms in \<open>auto dest: bind_parameters_weight\<close>)

lemma captured_lambda_ends:
  assumes "map_of (sc_lambdas sc) name = Some b" "scope_weight sc \<le> bound"
  shows "ends (resolveLambda rs (captured_scope sc b) (lb_lambda b) ts)"
  by (rule resolveLambda_ends) (use assms captured_weight [OF assms(1)] in simp)

lemma invocationTypes_ends:
  assumes "size invoke + scope_weight sc \<le> bound"
  shows "ends (invocationTypes rs sc invoke)"
proof -
  have "size (rule_of ''Expr'' t) + scope_weight sc < bound" if "t \<in> set (named_arguments invoke)" for t
    using size_named_argument(2) [OF that, of "''Expr''"] assms by simp
  then show ?thesis
    unfolding invocationTypes_def invocation_type_def by (intro ends_intros below) simp
qed

lemma call_all_ends:
  "\<forall>i\<in>set invokes. size i + scope_weight sc \<le> bound \<Longrightarrow> ends (call_all rs sc result invokes)"
proof (induction invokes arbitrary: result)
  case (Cons i invokes)
  then show ?case
    by (auto simp: call_once_def split: option.splits intro!: ends_intros invocationTypes_ends)
qed simp

lemma call_lambda_ends:
  assumes "map_of (sc_lambdas sc) name = Some b" "size invoke + scope_weight sc \<le> bound"
  shows "ends (call_lambda rs sc b invoke)"
  unfolding call_lambda_def
  by (intro ends_intros invocationTypes_ends captured_lambda_ends [OF assms(1)] assms(2)) (use assms(2) in simp)

lemma argument_type_ends:
  assumes "size expr + scope_weight sc < bound"
  shows "ends (argument_type rs sc name callArgs expr)"
proof -
  have l: "size lambda + scope_weight sc \<le> bound" if "directLambda expr = Some lambda" for lambda
    using size_directLambda [OF that] assms by simp
  have b: "size (lb_lambda b) + scope_weight (captured_scope sc b) \<le> bound" if "bound_lambda sc expr = Some b" for b
  proof -
    from that obtain n where "map_of (sc_lambdas sc) n = Some b"
      by (auto simp: bound_lambda_def Let_def split: option.splits if_splits)
    from captured_weight [OF this] assms show ?thesis by simp
  qed
  show ?thesis
    unfolding argument_type_def
    using assms by (auto intro!: ends_intros below resolveLambda_ends l b)
qed

lemma function_arguments_ends:
  "\<forall>t\<in>set ts. size (rule_of ''Expr'' t) + scope_weight sc < bound \<Longrightarrow> ends (function_arguments rs sc name args ts)"
  by (induction ts arbitrary: args) (auto simp: Let_def intro!: ends_intros argument_type_ends)

lemma resolveFunction_ends:
  assumes "size invoke + scope_weight sc \<le> bound"
  shows "ends (resolveFunction rs sc name invoke)"
proof -
  have "size (rule_of ''Expr'' t) + scope_weight sc < bound" if "t \<in> set (named_arguments invoke)" for t
    using size_named_argument(2) [OF that, of "''Expr''"] assms by simp
  then show ?thesis
    unfolding resolveFunction_def resolve_plain_function_def by (intro ends_intros function_arguments_ends) simp
qed

lemma resolveCallChain_ends:
  assumes "invokes \<noteq> []" "\<forall>i\<in>set invokes. size i + scope_weight sc \<le> bound"
  shows "ends (resolveCallChain rs sc name invokes)"
proof -
  from assms have h: "size (hd invokes) + scope_weight sc \<le> bound" "\<forall>i\<in>set (tl invokes). size i + scope_weight sc \<le> bound"
    by (cases invokes; simp)+
  show ?thesis
    unfolding resolveCallChain_def Let_def
    by (intro ends_intros call_all_ends resolveFunction_ends call_lambda_ends h assms(2))
qed

lemma resolveMemberAccess_ends:
  assumes "resolveMemberAccess rs sc root = Some r" "size root + scope_weight sc \<le> bound"
  shows "ends r"
proof -
  obtain casual suffix where c: "sub_rule ''Unary_casual_subexpr'' (covering_rule ''Unary_subexpr'' root) = Some casual"
      "rule_opt ''Unary_subexpr_suffix'' casual = Some suffix"
    using assms(1) by (auto simp: resolveMemberAccess_def split: option.splits)
  let ?parts = "rules ''An_id_or_type'' suffix" and ?invokes = "rules ''Invoke_expr'' suffix"
  from c(1) have s: "size casual < size root"
    by (auto dest!: size_rule_opt_bind covering_rule_context)
  have i: "\<forall>i\<in>set ?invokes. size i + scope_weight sc \<le> bound"
    using size_rules [of _ "''Invoke_expr''" suffix] size_rule [OF c(2)] s assms(2) by force
  have inner: "ends (rs Expression sc inner)"
    if l: "sub_rule ''Lambda'' (rule_opt ''Atom_expr'' casual) = Some lambda"
      and p: "parenthesizedExpression (rule_of ''Smart_parenthesis'' lambda) = Some inner" for lambda inner
  proof -
    have "size lambda < size casual"
      using l by (auto dest!: size_rule_opt_bind size_rule)
    with sub_rule_context [OF l] size_rule_of [of lambda "''Smart_parenthesis''"] size_parenthesized [OF p] s assms(2) show ?thesis
      by (intro below) simp
  qed
  have base: "ends u" if "member_base rs sc casual ?invokes ?parts = Some (u, ps)" for u ps
    using that i inner unfolding member_base_def Let_def
    by (auto split: if_splits option.splits intro!: resolveCallChain_ends)
  show ?thesis
    using assms(1) base unfolding resolveMemberAccess_def Let_def c option.case
    by (auto split: if_splits intro!: ends_intros)
qed

lemma comparisonBoolType_ends:
  "\<forall>t\<in>set ts. size t + scope_weight sc < bound \<Longrightarrow> ends (comparisonBoolType rs sc ts)"
  unfolding comparisonBoolType_def comparison_operand_def by (intro ends_intros below) simp

lemma tuple_step_cases:
  "tuple_step root node es = es \<or>
   (\<exists>sub intersect source tuple. is_rule ''Lambda'' node
      \<and> rule_opt ''Select_subexpr'' (rule_of ''Smart_parenthesis'' node) = Some sub
      \<and> rules ''Select_subexpr_intersect'' (rule_of ''Select_subexpr_core'' sub) = [intersect]
      \<and> rules ''Select_or_expr'' intersect = [source] \<and> rule_opt ''Tuple_or_expr'' source = Some tuple
      \<and> tuple_step root node es = tuple_items (es @ [rule_of ''Expr'' tuple]) (rules ''Named_expr'' tuple))"
  unfolding tuple_step_def by (auto split: option.splits list.splits)

lemma tuple_step_sizes:
  "\<forall>t\<in>set es. size t < n \<Longrightarrow> size node \<le> n \<Longrightarrow> \<forall>t\<in>set (tuple_step root node es). size t < n"
proof -
  assume es: "\<forall>t\<in>set es. size t < n" and n: "size node \<le> n"
  have items: "\<forall>t\<in>set (tuple_items es' items). size t < n"
    if "\<forall>t\<in>set es'. size t < n" "\<forall>t\<in>set items. size (rule_of ''Expr'' t) < n" for es' items
    using that
  proof (induction items arbitrary: es')
    case (Cons item items)
    have "\<forall>t\<in>set (es' @ [rule_of ''Expr'' item]). size t < n" using Cons.prems by simp
    from Cons.IH [OF this] Cons.prems show ?case by simp
  qed simp
  have deep: "size (rule_of ''Expr'' tuple) < n \<and> (\<forall>t\<in>set (rules ''Named_expr'' tuple). size (rule_of ''Expr'' t) < n)"
    if l: "is_rule ''Lambda'' node" and s: "rule_opt ''Select_subexpr'' (rule_of ''Smart_parenthesis'' node) = Some sub"
      and i: "rules ''Select_subexpr_intersect'' (rule_of ''Select_subexpr_core'' sub) = [intersect]"
      and o: "rules ''Select_or_expr'' intersect = [source]" and t: "rule_opt ''Tuple_or_expr'' source = Some tuple"
    for sub intersect source tuple
  proof -
    have "size sub < n"
      using size_rule [OF s] size_rule_of [OF is_rule_context [OF l], of "''Smart_parenthesis''"] n by simp
    moreover have sc: "is_context sub" using rule_opt_child [OF s] by (blast intro: is_rule_context)
    moreover have "size intersect < size (rule_of ''Select_subexpr_core'' sub)" "size source < size intersect"
      by (rule size_rules [of _ "''Select_subexpr_intersect''"], simp add: i,
          rule size_rules [of _ "''Select_or_expr''"], simp add: o)
    ultimately have z: "size tuple < n" and c: "is_context tuple"
      using size_rule [OF t] size_rule_of [OF sc, of "''Select_subexpr_core''"] rule_opt_child [OF t]
      by (auto intro: is_rule_context)
    have "size (rule_of ''Expr'' u) < n" if "u \<in> set (rules ''Named_expr'' tuple)" for u
      using size_rules [OF that] rules_child [OF that] size_rule_of [of u "''Expr''"] z
      by (auto dest!: is_rule_context)
    with size_rule_of [OF c, of "''Expr''"] z show ?thesis by simp
  qed
  from tuple_step_cases [of root node es] show ?thesis
  proof (elim disjE exE conjE)
    fix sub intersect source tuple
    assume t: "is_rule ''Lambda'' node" "rule_opt ''Select_subexpr'' (rule_of ''Smart_parenthesis'' node) = Some sub"
      "rules ''Select_subexpr_intersect'' (rule_of ''Select_subexpr_core'' sub) = [intersect]"
      "rules ''Select_or_expr'' intersect = [source]" "rule_opt ''Tuple_or_expr'' source = Some tuple"
      "tuple_step root node es = tuple_items (es @ [rule_of ''Expr'' tuple]) (rules ''Named_expr'' tuple)"
    have "\<forall>t\<in>set (es @ [rule_of ''Expr'' tuple]). size t < n" using es deep [OF t(1-5)] by simp
    with deep [OF t(1-5)] show ?thesis unfolding t(6) by (intro items) (blast+)
  qed (simp add: es)
qed

lemma tupleExpressions_size:
  assumes "t \<in> set (tupleExpressions root)"
  shows "size t < size root"
proof -
  have steps: "\<forall>t\<in>set (fold (tuple_step root) ns es). size t < size root"
    if "\<forall>t\<in>set es. size t < size root" "\<forall>n\<in>set ns. size n \<le> size root" for ns es
    using that
  proof (induction ns arbitrary: es)
    case (Cons n ns)
    have "\<forall>t\<in>set (tuple_step root n es). size t < size root" by (rule tuple_step_sizes) (use Cons.prems in simp_all)
    from Cons.IH [OF this] Cons.prems show ?case by simp
  qed simp
  have "\<forall>n\<in>set (scopeDescendants root). size n \<le> size root"
    using scopeDescendants_subset [of root] by (blast intro: size_descendant)
  then have "\<forall>t\<in>set (fold (tuple_step root) (scopeDescendants root) []). size t < size root"
    by (intro steps) simp_all
  with assms show ?thesis by (simp add: tupleExpressions_def)
qed

lemma resolveINOperand_ends:
  assumes "size root + scope_weight sc < bound"
  shows "ends (resolveINOperand rs sc root)"
proof -
  have "size t + scope_weight sc < bound" if "t \<in> set (tupleExpressions root)" for t
    using tupleExpressions_size [OF that] assms by simp
  then show ?thesis
    unfolding resolveINOperand_def in_tuple_item_def
    by (cases "tupleExpressions root") (auto simp del: run_list.simps intro!: ends_intros below assms)
qed

lemma walk_size: "(up, t) \<in> set (walk us root) \<Longrightarrow> size t \<le> size root"
  using walk_descendants [of us root] by (metis imageI list.set_map size_descendant snd_conv)

lemma size_inFunctionCall: "inFunctionCall expr = Some (name, invoke) \<Longrightarrow> is_context expr \<Longrightarrow> size invoke < size expr"
proof -
  assume call: "inFunctionCall expr = Some (name, invoke)" and c: "is_context expr"
  then obtain casual suffix where s: "in_casual expr = Some casual" "rule_opt ''Unary_subexpr_suffix'' casual = Some suffix"
      "rules ''Invoke_expr'' suffix = [invoke]"
    by (auto simp: inFunctionCall_def split: option.splits list.splits if_splits)
  have "size invoke < size suffix"
    by (rule size_rules [of _ "''Invoke_expr''"]) (simp add: s)
  with size_rule [OF s(2)] s(1) size_rule_of [OF c, of "''In_unary_subexpr''"] show ?thesis
    by (auto simp: in_casual_def dest!: size_rule)
qed

lemma in_right_types_ends:
  assumes "size expr + scope_weight sc < bound" "is_context expr"
  shows "ends (in_right_types rs sc expr)"
proof -
  have l: "size t + scope_weight sc < bound" if "t \<in> set (in_list_expressions expr)" for t
    using that assms(1) by (auto simp: in_list_expressions_def dest!: walk_size)
  have f: "size invoke + scope_weight sc \<le> bound" if "inFunctionCall expr = Some (name, invoke)" for name invoke
    using size_inFunctionCall [OF that assms(2)] assms(1) by simp
  show ?thesis
    unfolding in_right_types_def in_list_type_def Let_def
    by (intro ends_intros resolveFunction_ends below l f assms(1)) (auto intro: f)
qed

lemma resolveINCondition_ends:
  assumes "u \<in> set (tree_children root)" "is_context u" "size root + scope_weight sc \<le> bound"
    "rule_opt ''Cond_expr'' root = Some condition" "has_token ''IN'' condition"
  shows "ends (resolveINCondition rs sc root)"
proof -
  have o: "size (rule_of ''Eq_subexpr'' root) + scope_weight sc < bound"
    using size_rule_of_strict [OF assms(1,2), of "''Eq_subexpr''"] assms(3) by simp
  have c: "is_context condition" using assms(4) by (auto dest: rule_opt_child intro: is_rule_context)
  have "is_context (rule_of ''In_expr'' condition)"
    by (auto simp: rule_of_def no_tree_def split: option.splits dest: rule_opt_child intro: is_rule_context)
  moreover have "size (rule_of ''In_expr'' condition) + scope_weight sc < bound"
    using size_rule_of [OF c, of "''In_expr''"] size_rule [OF assms(4)] assms(3) by simp
  moreover have "rule_of ''Cond_expr'' root = condition" by (simp add: rule_of_def assms(4))
  ultimately show ?thesis
    unfolding resolveINCondition_def Let_def by (auto intro!: ends_intros resolveINOperand_ends o in_right_types_ends)
qed

lemma condition_type_ends:
  assumes "condition_type rs sc root = Some r" "size root + scope_weight sc \<le> bound" "has_rule ''Cond_expr'' root"
  shows "ends r"
proof -
  from assms(3) obtain condition where c: "rule_opt ''Cond_expr'' root = Some condition"
    by (auto simp: has_rule_def)
  then have u: "condition \<in> set (tree_children root)" "is_context condition"
    by (auto dest: rule_opt_child intro: is_rule_context)
  have first: "size (rule_of ''Eq_subexpr'' root) + scope_weight sc < bound"
    using size_rule_of_strict [OF u, of "''Eq_subexpr''"] assms(2) by simp
  have rest: "size t + scope_weight sc < bound" if "t \<in> set (rules name condition)" for t name
    using size_rules [OF that] size_rule [OF c] assms(2) by simp
  have k: "rule_of ''Cond_expr'' root = condition" by (simp add: rule_of_def c)
  have all: "\<forall>t\<in>set (rule_of ''Eq_subexpr'' root # rules ''Eq_subexpr'' condition). size t + scope_weight sc < bound"
    using first rest by auto
  show ?thesis
    using assms(1) unfolding condition_type_def Let_def k
    by (auto split: if_splits intro!: ends_intros comparisonBoolType_ends [OF all] below [OF first]
        resolveINCondition_ends [OF u assms(2) c] simp del: run_list.simps)
qed

lemma resolveComparison_ends:
  assumes "resolveComparison rs sc root = Some r" "size root + scope_weight sc \<le> bound"
  shows "ends r"
proof -
  have eq: "size t + scope_weight sc < bound" if "t \<in> set (equality_operands root)" for t
  proof -
    from that obtain e where "e \<in> set (descendants root)" "t \<in> set (rules ''Neq_subexpr'' e)"
      by (auto simp: equality_operands_def Let_def descendant_rules_def split: if_splits)
    with assms(2) show ?thesis by (auto dest!: size_descendant size_rules)
  qed
  have xor: "size x \<le> size root \<and> has_rule ''Cond_expr'' x"
    if "last_match (\<lambda>t. is_rule ''Xor_subexpr'' t \<and> sameSpan root t \<and> has_rule ''Cond_expr'' t) root = Some x" for x
    using last_match_descendant [OF that] size_last_match [OF that] by simp
  show ?thesis
  proof (cases "equality_operands root")
    case Nil
    with assms xor show ?thesis
      by (fastforce simp: resolveComparison_def split: option.splits dest: condition_type_ends)
  next
    case (Cons a as)
    with assms(1) eq show ?thesis by (auto simp: resolveComparison_def intro!: comparisonBoolType_ends)
  qed
qed

lemma resolve_expression_ends:
  assumes "size root + scope_weight sc \<le> bound"
  shows "ends (resolve_expression rs sc root)"
proof -
  note ops = resolveArithmetic_ends resolveBoolean_ends resolveStructLiteral_ends resolveMemberAccess_ends
    concatenationType_ends resolveComparison_ends
  have calls: "size invoke + scope_weight sc \<le> bound" if "directFunctionCall root = Some (name, invoke)" for name invoke
    using size_directFunctionCall [OF that] assms by simp
  have chains: "invokes \<noteq> []" "\<forall>i\<in>set invokes. size i + scope_weight sc \<le> bound"
    if "directCallChain root = Some (name, invokes)" for name invokes
    using size_directCallChain [OF that] assms by force+
  have covers: "size t + scope_weight sc \<le> bound" if "covering_rule name root = Some t" for name t
    using covering_rule_context [OF that] assms by simp
  have atom: "ends (expression_atom rs sc root)"
    unfolding expression_atom_def unsupported_expression_def
    by (intro ends_intros resolveCast_ends resolveCase_ends resolveFunction_ends resolveCallChain_ends)
      (auto intro: ops assms calls chains [rule_format] covers dest: chains)
  show ?thesis
    unfolding resolve_expression_def by (intro ends_intros atom) (auto intro: ops assms)
qed

lemma resolve_scalar_node_ends:
  assumes "size root + scope_weight sc \<le> bound"
  shows "ends (resolve_scalar_node rs sc root)"
proof -
  note ops = resolveArithmetic_ends resolveBoolean_ends resolveMemberAccess_ends concatenationType_ends resolveComparison_ends
  have covers: "size t + scope_weight sc \<le> bound" if "covering_rule name root = Some t" for name t
    using covering_rule_context [OF that] assms by simp
  have calls: "ends r" if "scalar_call rs sc unary = Some r" "covering_rule ''Unary_subexpr'' root = Some unary" for unary r
  proof -
    have z: "size unary + scope_weight sc \<le> bound" by (rule covers [OF that(2)])
    have "size invoke + scope_weight sc \<le> bound" if "functionCallFromUnary unary = Some (name, invoke)" for name invoke
      using size_functionCall [OF that] z by simp
    moreover have "invokes \<noteq> []" "\<forall>i\<in>set invokes. size i + scope_weight sc \<le> bound"
      if "callChainFromUnary unary = Some (name, invokes)" for name invokes
      using size_callChain [OF that] z by force+
    ultimately show ?thesis
      using that(1) by (auto simp: scalar_call_def split: option.splits intro!: resolveFunction_ends resolveCallChain_ends)
  qed
  have atom: "ends (scalar_atom rs sc root)"
    unfolding scalar_atom_def
    by (intro ends_intros resolveCast_ends resolveCase_ends)
      (auto simp: scalar_column_def bind_eq_Some_conv intro: calls covers split: list.splits if_splits)
  show ?thesis
    unfolding resolve_scalar_node_def by (intro ends_intros atom) (auto intro: ops assms)
qed

end

text \<open>The knot: with more fuel than the measure, every expression is resolved.\<close>

lemma resolve_fuel_ends: "resolve_measure sc t < n \<Longrightarrow> ends (resolve_fuel n e sc t)"
proof (induction n arbitrary: e sc t)
  case (Suc n)
  then have l: "total_resolver (resolve_fuel n) n" by unfold_locales
  from Suc.prems have "size t + scope_weight sc \<le> n" by (simp add: resolve_measure_def)
  then show ?case
    using total_resolver.resolve_expression_ends [OF l] total_resolver.resolve_scalar_node_ends [OF l]
    by (cases e) simp_all
qed simp

interpretation fuelled: total_resolver "resolve_fuel n" n for n
  by unfold_locales (rule resolve_fuel_ends)

lemma resolve_ends: "ends (resolve e sc t)"
  unfolding resolve_def by (rule resolve_fuel_ends) simp

section \<open>Property\<close>

text \<open>
  C13: typing an expression always returns, with a type or an error, whatever the parse tree and whatever
  local lambdas are in scope: a call of a named lambda, of a lambda inside a lambda, and the arguments
  of ListMap and ListFilter are all taken to their bodies, and this ends.
\<close>

theorem expression_returns: "\<exists>r. resolve e sc expr = Some r"
  using resolve_ends [of e sc expr] by (auto simp: ends_def)

end
