(* ===== verification/TypeSoundness.thy ===== *)
theory TypeSoundness
  imports ExpressionTypes
begin

text \<open>
  Expression typing is sound: the type of an expression is valid when the types of the columns and bindings
  in scope are. The locale \<open>typed_resolver\<close> states what an operation needs of the two functions it is given;
  it is interpreted on \<open>resolve_fuel\<close>.
\<close>

section \<open>Valid types\<close>

text \<open>
  What the grammar guarantees and the typing of operators relies on: an arithmetic operator has an operand
  and so has a concatenation.
\<close>

definition operands_present :: "tree \<Rightarrow> bool" where
  "operands_present t \<longleftrightarrow>
     (if is_rule ''Bit_subexpr'' t \<or> is_rule ''Add_subexpr'' t then list_ex is_context (tree_children t) else True)
   \<and> (if is_rule ''Mul_subexpr'' t \<and> has_token ''DOUBLE_PIPE'' t then has_rule ''Con_subexpr'' t else True)"

definition grammatical :: "tree \<Rightarrow> bool" where
  "grammatical t \<longleftrightarrow> list_all operands_present (descendants t)"

definition relation_types_ok :: "relation list \<Rightarrow> bool" where
  "relation_types_ok relations \<longleftrightarrow>
     list_all (\<lambda>rel. list_all (\<lambda>column. valid (col_Type column)) (tb_Columns (rel_table rel))) relations"

definition scope_types_ok :: "expressionScope \<Rightarrow> bool" where
  "scope_types_ok sc \<longleftrightarrow>
     group_names_ok (pk_group_names (sc_packages sc)) \<and> registry_ok (sc_functions sc)
   \<and> relation_types_ok (sc_relations sc) \<and> (\<forall>t\<in>ran (sc_bindings sc). valid t)"

lemma grammatical_sub: "grammatical t \<Longrightarrow> u \<in> set (descendants t) \<Longrightarrow> grammatical u"
  unfolding grammatical_def list_all_iff by (blast intro: descendants_trans)

lemma grammatical_child: "grammatical t \<Longrightarrow> u \<in> set (tree_children t) \<Longrightarrow> grammatical u"
  by (rule grammatical_sub) (auto intro: child_descendant)

named_theorems grammar_intros \<open>a part of a grammatical tree is grammatical\<close>

lemma grammatical_rules [grammar_intros]: "u \<in> set (rules name t) \<Longrightarrow> grammatical t \<Longrightarrow> grammatical u"
  by (auto dest: rules_child intro: grammatical_child)

lemma grammatical_rule [grammar_intros]: "rule_opt name t = Some u \<Longrightarrow> grammatical t \<Longrightarrow> grammatical u"
  by (auto dest: rule_opt_child intro: grammatical_child)

lemma grammatical_sub_rule [grammar_intros]:
  "sub_rule name t = Some u \<Longrightarrow> (\<And>v. t = Some v \<Longrightarrow> grammatical v) \<Longrightarrow> grammatical u"
  by (auto simp: sub_rule_def bind_eq_Some_conv intro: grammatical_rule)

lemma grammatical_rule_of [grammar_intros]: "grammatical t \<Longrightarrow> grammatical (rule_of name t)"
  by (auto simp: rule_of_def intro: grammatical_rule split: option.splits)
    (simp add: grammatical_def no_tree_def operands_present_def)

lemma grammatical_last_match: "last_match p root = Some t \<Longrightarrow> grammatical root \<Longrightarrow> grammatical t"
  by (blast dest: last_match_descendant intro: grammatical_sub)

lemma grammatical_covering [grammar_intros]: "covering_rule name root = Some t \<Longrightarrow> grammatical root \<Longrightarrow> grammatical t"
  by (auto simp: covering_rule_def intro: grammatical_last_match)

lemma grammatical_coveringContext: "grammatical root \<Longrightarrow> grammatical (coveringExpressionContext root)"
  by (rule grammatical_sub [OF _ covering_descendant])

lemma grammatical_parenthesized:
  assumes "parenthesizedExpression root = Some inner" "grammatical root"
  shows "grammatical inner"
proof -
  obtain selectExpr core intersect source tuple where s:
    "rule_opt ''Select_subexpr'' (coveringExpressionContext root) = Some selectExpr"
    "rule_opt ''Select_subexpr_core'' selectExpr = Some core"
    "rules ''Select_subexpr_intersect'' core = [intersect]" "rules ''Select_or_expr'' intersect = [source]"
    "rule_opt ''Tuple_or_expr'' source = Some tuple" "rule_opt ''Expr'' tuple = Some inner"
    using assms(1) by (auto simp: parenthesizedExpression_def Let_def split: if_splits option.splits list.splits)
  have "grammatical core"
    by (rule grammatical_rule [OF s(2) grammatical_rule [OF s(1) grammatical_coveringContext [OF assms(2)]]])
  then have "grammatical intersect" by (rule grammatical_rules [where name = "''Select_subexpr_intersect''" and t = core, rotated]) (simp add: s(3))
  then have "grammatical source" by (rule grammatical_rules [where name = "''Select_or_expr''" and t = intersect, rotated]) (simp add: s(4))
  then show ?thesis by (rule grammatical_rule [OF s(6) grammatical_rule [OF s(5)]])
qed

lemma grammatical_callChain:
  "callChainFromUnary unary = Some (name, invokes) \<Longrightarrow> grammatical unary \<Longrightarrow> \<forall>i\<in>set invokes. grammatical i"
  by (auto simp: callChainFromUnary_def Let_def split: option.splits if_splits dest!: grammatical_rule intro: grammatical_rules)

lemma grammatical_functionCall: "functionCallFromUnary unary = Some (name, invoke) \<Longrightarrow> grammatical unary \<Longrightarrow> grammatical invoke"
  by (auto simp: functionCallFromUnary_def split: option.splits list.splits if_splits dest: grammatical_callChain)

lemma grammatical_directFunctionCall: "directFunctionCall expr = Some (name, invoke) \<Longrightarrow> grammatical expr \<Longrightarrow> grammatical invoke"
  by (auto simp: directFunctionCall_def split: option.splits if_splits intro: grammatical_functionCall grammar_intros)

lemma grammatical_directCallChain:
  "directCallChain expr = Some (name, invokes) \<Longrightarrow> grammatical expr \<Longrightarrow> \<forall>i\<in>set invokes. grammatical i"
  by (auto simp: directCallChain_def bind_eq_Some_conv dest!: grammatical_callChain intro: grammar_intros)

lemma grammatical_named_argument [grammar_intros]:
  "named \<in> set (named_arguments invoke) \<Longrightarrow> grammatical invoke \<Longrightarrow> grammatical named"
  by (auto simp: named_arguments_def intro: grammar_intros)

text \<open>Types of a catalog are valid.\<close>

lemma yql_type_valid: "yql_type t \<Longrightarrow> valid t"
proof (induction rule: yql_type.induct)
  case (yql_scalar k)
  have "list_all (\<lambda>k. is_scalar_kind k) (map snd simpleTypes)" by code_simp
  with yql_scalar have "is_scalar_kind k" by (auto simp: list_all_iff)
  then show ?case by (simp add: valid_mk_kind)
next
  case (yql_unary k e)
  then show ?case by (subst validateConcreteOrNull.simps) auto
next
  case (yql_decimal p s)
  then show ?case by (subst validateConcreteOrNull.simps) auto
qed auto

lemma parseType_valid: "parseType text = Inr t \<Longrightarrow> valid t"
  by (rule yql_type_valid) (rule parseType_type)

definition gives_valid :: "ty run \<Rightarrow> bool" where
  "gives_valid r \<longleftrightarrow> (\<forall>t. r = Some (Inr t) \<longrightarrow> valid t)"

named_theorems valid_intros \<open>a run gives a valid type, by the form of the run\<close>

lemma gives_validD: "gives_valid r \<Longrightarrow> r = Some (Inr t) \<Longrightarrow> valid t"
  by (simp add: gives_valid_def)

lemma gives_valid_Inr [simp]: "gives_valid (returned t) \<longleftrightarrow> valid t"
  by (simp add: gives_valid_def)

lemma gives_valid_returned [valid_intros]: "valid t \<Longrightarrow> gives_valid (returned t)"
  by simp

lemma gives_valid_failed [valid_intros, simp]: "gives_valid (Some (Inl e))"
  by (simp add: gives_valid_def)

lemma gives_valid_result [valid_intros]: "(\<And>t. r = Inr t \<Longrightarrow> valid t) \<Longrightarrow> gives_valid (Some r)"
  by (simp add: gives_valid_def)

lemma gives_valid_run_then [valid_intros]:
  "(\<And>x. r = Some (Inr x) \<Longrightarrow> gives_valid (f x)) \<Longrightarrow> gives_valid (run_then r f)"
  by (auto simp: gives_valid_def run_then_Inr)

lemma gives_valid_wrapped [valid_intros]: "gives_valid r \<Longrightarrow> gives_valid (wrapped fmt args r)"
  by (simp add: gives_valid_def)

lemma gives_valid_if [valid_intros]:
  "(b \<Longrightarrow> gives_valid r) \<Longrightarrow> (\<not> b \<Longrightarrow> gives_valid s) \<Longrightarrow> gives_valid (if b then r else s)"
  by simp

lemma gives_valid_or_else [valid_intros]:
  "(\<And>x. r = Some x \<Longrightarrow> gives_valid x) \<Longrightarrow> gives_valid k \<Longrightarrow> gives_valid (or_else r k)"
  by (cases r) (auto simp: or_else_def)

lemma gives_valid_option [valid_intros]:
  "(x = None \<Longrightarrow> gives_valid r) \<Longrightarrow> (\<And>v. x = Some v \<Longrightarrow> gives_valid (f v)) \<Longrightarrow>
   gives_valid (case x of None \<Rightarrow> r | Some v \<Rightarrow> f v)"
  by (cases x) auto

lemma gives_valid_pair [valid_intros]:
  "(\<And>a b. p = (a, b) \<Longrightarrow> gives_valid (f a b)) \<Longrightarrow> gives_valid (case p of (a, b) \<Rightarrow> f a b)"
  by (cases p) auto

lemma gives_valid_list [valid_intros]:
  "(xs = [] \<Longrightarrow> gives_valid r) \<Longrightarrow> (\<And>y ys. xs = y # ys \<Longrightarrow> gives_valid (f y ys)) \<Longrightarrow>
   gives_valid (case xs of [] \<Rightarrow> r | y # ys \<Rightarrow> f y ys)"
  by (cases xs) auto

lemma run_list_all: "run_list f xs = Some (Inr ys) \<Longrightarrow> (\<And>x y. x \<in> set xs \<Longrightarrow> f x = Some (Inr y) \<Longrightarrow> P y) \<Longrightarrow> \<forall>y\<in>set ys. P y"
  by (induction xs arbitrary: ys) (fastforce simp: run_then_Inr)+

lemma tableColumn_member: "tableColumn table name = Some c \<Longrightarrow> c \<in> set (tb_Columns table) \<and> col_Name c = name"
  by (auto simp: tableColumn_def catalogColumnIndex_def find_index_Some_iff)

lemma bind_type_valid: "scope_types_ok sc \<Longrightarrow> sc_bindings sc name = Some t \<Longrightarrow> valid t"
  unfolding scope_types_ok_def by (blast intro: ranI)

lemma joinedColumn_valid: "valid (col_Type c) \<Longrightarrow> valid (col_Type (joinedColumn c opt))"
  by (simp add: joinedColumn_def)

lemma resolveColumn_valid:
  assumes "relation_types_ok relations" "resolveColumn relations ref = Inr column"
  shows "valid (col_Type column)"
proof -
  have g: "valid (col_Type c)" if "grouping_column relations name = Some c" for name c
  proof -
    from that have "c \<in> set (List.map_filter (\<lambda>rel. if rel_grouping rel then tableColumn (rel_table rel) name else None) relations)"
      by (auto simp: grouping_column_def split: list.splits)
    with assms(1) show ?thesis
      by (fastforce simp: map_filter_def relation_types_ok_def list_all_iff split: if_splits dest: tableColumn_member)
  qed
  have "\<forall>c\<in>set (column_matches relations ref). valid (col_Type c)"
    using assms(1) by (auto simp: column_matches_def relation_types_ok_def list_all_iff intro!: joinedColumn_valid)
  with assms(2) g show ?thesis
    by (auto simp: resolveColumn_def split: option.splits list.splits if_splits)
qed

lemma column_type_valid: "scope_types_ok sc \<Longrightarrow> column_type (sc_relations sc) ref = Inr t \<Longrightarrow> valid t"
  by (auto simp: column_type_def result_simps scope_types_ok_def intro: resolveColumn_valid)

section \<open>Soundness of the operations\<close>

locale typed_resolver =
  fixes rs :: resolver
  assumes rs_valid: "scope_types_ok sc \<Longrightarrow> grammatical t \<Longrightarrow> gives_valid (rs e sc t)"
begin

lemma rs_result: "rs e sc t = Some (Inr u) \<Longrightarrow> scope_types_ok sc \<Longrightarrow> grammatical t \<Longrightarrow> valid u"
  using rs_valid [of sc t e] by (simp add: gives_valid_def)

lemma arithmetic_loop_valid:
  assumes "scope_types_ok sc"
  shows "\<forall>t\<in>set ts. grammatical t \<Longrightarrow> Kind result \<noteq> [] \<and> valid result \<or> Kind result = [] \<and> list_ex is_context ts \<Longrightarrow>
    gives_valid (arithmetic_loop rs sc operator result ts)"
proof (induction ts arbitrary: operator result)
  case Nil
  then show ?case by (auto intro: valid_intros)
next
  case (Cons t ts)
  show ?case
  proof (cases t)
    case (Leaf tok)
    with Cons show ?thesis by simp
  next
    case (Node name a b us)
    have sum: "valid u" "Kind u \<noteq> []" if "Arithmetic operator result v = Inr u" for u v
      using CommonType_result(1) [OF Arithmetic_InrD(4) [OF that]] by (simp_all add: valid_Kind_nonempty)
    have operand: "valid u" "Kind u \<noteq> []" if "rs Scalar sc (Node name a b us) = Some (Inr u)" for u
      using rs_result [OF that assms] Cons.prems(1) Node by (simp_all add: valid_Kind_nonempty)
    show ?thesis
      unfolding Node arithmetic_loop.simps
      by (intro valid_intros Cons.IH) (use Cons.prems in \<open>auto dest: sum operand\<close>)
  qed
qed

lemma resolveArithmetic_valid:
  assumes "resolveArithmetic rs sc root = Some r" "scope_types_ok sc" "grammatical root"
  shows "gives_valid r"
proof (cases "parenthesizedExpression root")
  case None
  let ?op = "coveringExpressionContext root"
  have g: "grammatical ?op" by (rule grammatical_coveringContext [OF assms(3)])
  then have "operands_present ?op" by (simp add: grammatical_def list_all_iff)
  with None assms(1,2) g show ?thesis
    by (auto simp: resolveArithmetic_def Let_def operands_present_def split: if_splits
        intro!: arithmetic_loop_valid dest: grammatical_child)
next
  case (Some inner)
  with assms show ?thesis
    by (auto simp: resolveArithmetic_def intro!: rs_valid intro: grammatical_parenthesized)
qed

lemma boolean_loop_valid:
  "result \<in> {mk_kind ''Bool'', mk_kind ''Null''} \<Longrightarrow> gives_valid (boolean_loop rs sc operator result opt ts)"
proof (induction ts arbitrary: result opt)
  case (Cons t ts)
  show ?case
    unfolding boolean_loop.simps by (intro valid_intros Cons.IH) (use Cons.prems in auto)
qed (auto intro!: valid_intros)

lemma resolveBoolean_valid: "resolveBoolean rs sc root = Some r \<Longrightarrow> gives_valid r"
  by (auto simp: resolveBoolean_def split: prod.splits if_splits intro!: boolean_loop_valid)

lemma concatenation_loop_valid:
  assumes "scope_types_ok sc"
  shows "\<forall>t\<in>set ts. grammatical t \<Longrightarrow> null \<or> Kind result \<noteq> [] \<and> valid result \<or> Kind result = [] \<and> ts \<noteq> [] \<Longrightarrow>
    gives_valid (concatenation_loop rs sc result opt null ts)"
proof (induction ts arbitrary: result opt null)
  case Nil
  then show ?case by (auto intro!: valid_intros)
next
  case (Cons t ts)
  have base: "valid (UnwrapOptional u)" if "rs Scalar sc t = Some (Inr u)" for u
    using rs_result [OF that assms] Cons.prems(1) by (simp add: valid_UnwrapOptional)
  show ?case
    unfolding concatenation_loop.simps Let_def
    by (intro valid_intros Cons.IH) (use Cons.prems in \<open>auto dest: base\<close>)
qed

lemma concatenationType_valid:
  assumes "concatenationType rs sc root = Some r" "scope_types_ok sc" "grammatical root"
  shows "gives_valid r"
proof -
  let ?op = "coveringExpressionContext root"
  have g: "grammatical ?op" by (rule grammatical_coveringContext [OF assms(3)])
  then have p: "operands_present ?op" by (simp add: grammatical_def list_all_iff)
  have n: "rules ''Con_subexpr'' ?op \<noteq> []" if "has_rule ''Con_subexpr'' ?op"
    using that by (auto simp: has_rule_def rules_def rule_opt_def find_Some_iff filter_empty_conv)
  from assms(1,2) g p n show ?thesis
    by (auto simp: concatenationType_def Let_def operands_present_def split: if_splits
        intro!: concatenation_loop_valid dest: grammatical_rules)
qed

lemma resolveCast_valid: "gives_valid (resolveCast rs sc cast)"
  unfolding resolveCast_def by (auto split: option.splits intro!: valid_intros dest: Cast_valid)

lemma resolveCase_valid: "gives_valid (resolveCase rs sc caseExpr)"
  unfolding resolveCase_def Let_def by (intro valid_intros) (rule CommonType_result(1))

lemma struct_arguments_valid:
  assumes "scope_types_ok sc"
  shows "\<forall>t\<in>set ts. grammatical t \<Longrightarrow> \<forall>a\<in>set args. valid (arg_Type a) \<Longrightarrow>
    struct_arguments rs sc args ts = Some (Inr args') \<Longrightarrow> \<forall>a\<in>set args'. valid (arg_Type a)"
proof (induction ts arbitrary: args rule: induct_list012)
  case (3 field v ts)
  from 3(5) obtain i u where u: "rs Expression sc v = Some (Inr u)"
      "struct_arguments rs sc (args @ [typed_argument (identifier_of (GetText i)) u]) ts = Some (Inr args')"
    by (auto simp: Let_def run_then_Inr split: option.splits)
  have "valid u" using rs_result [OF u(1) assms] 3(3) by simp
  with 3(1) [OF _ _ u(2)] 3(3,4) show ?case by (simp add: typed_argument_def plain_argument_def)
qed auto

lemma call_valid:
  assumes "scope_types_ok sc" "\<forall>a\<in>set args. valid (arg_Type a)"
    "ResolveCall (pk_group_names (sc_packages sc)) (sc_functions sc) name args = Inr t"
  shows "valid t"
  using assms unfolding scope_types_ok_def
  by (blast intro: sound_result_valid [OF sound_resD [OF ResolveCall_sound]])

lemma resolveStructLiteral_valid:
  assumes "resolveStructLiteral rs sc root = Some r" "scope_types_ok sc" "grammatical root"
  shows "gives_valid r"
proof (cases "covering_rule ''Struct_literal'' root")
  case (Some literal)
  have args: "\<forall>a\<in>set args. valid (arg_Type a)"
    if "rule_opt name literal = Some l" "struct_arguments rs sc [] (rules ''Expr'' l) = Some (Inr args)" for name l args
    by (rule struct_arguments_valid [OF assms(2) _ _ that(2)])
      (auto dest: grammatical_rules [OF _ grammatical_rule [OF that(1) grammatical_covering [OF Some assms(3)]]])
  with assms(1) Some show ?thesis
    by (auto simp: resolveStructLiteral_def Let_def split: option.splits if_splits intro!: valid_intros)
      (rule call_valid [OF assms(2) args])
qed (use assms in \<open>simp add: resolveStructLiteral_def\<close>)

lemma scope_update_ok:
  "scope_types_ok sc \<Longrightarrow> valid t \<Longrightarrow> scope_types_ok (sc\<lparr>sc_bindings := (sc_bindings sc)(name \<mapsto> t), sc_lambdas := m\<rparr>)"
  by (auto simp: scope_types_ok_def ran_def)

lemma scope_relations_ok: "scope_types_ok sc \<Longrightarrow> scope_types_ok (sc\<lparr>sc_relations := []\<rparr>)"
  by (simp add: scope_types_ok_def relation_types_ok_def)

lemma bind_parameters_ok:
  "bind_parameters seen sc ps = Inr (seen', sc') \<Longrightarrow> scope_types_ok sc \<Longrightarrow> \<forall>(p, t)\<in>set ps. valid t \<Longrightarrow> scope_types_ok sc'"
  by (induction seen sc ps rule: bind_parameters.induct) (auto simp: Let_def scope_update_ok split: if_splits)

lemma lambda_statements_ok:
  "\<forall>t\<in>set ts. grammatical t \<Longrightarrow> scope_types_ok sc \<Longrightarrow> lambda_statements rs seen sc ts = Some (Inr sc') \<Longrightarrow> scope_types_ok sc'"
proof (induction ts arbitrary: seen sc)
  case (Cons t ts)
  from Cons.prems(3) obtain name expr u where a: "lambda_assignment t seen = Inr (name, expr)"
      and u: "rs Expression sc expr = Some (Inr u)" and rest: "lambda_statements rs (name # seen)
        (sc\<lparr>sc_bindings := (sc_bindings sc)(name \<mapsto> u), sc_lambdas := map_delete name (sc_lambdas sc)\<rparr>) ts = Some (Inr sc')"
    by (auto simp: run_then_Inr split: option.splits)
  have "grammatical expr"
    using a Cons.prems(1)
    by (auto simp: lambda_assignment_def Let_def split: option.splits list.splits if_splits dest!: grammatical_rule)
  with u Cons.prems(2) have "valid u" by (rule rs_result)
  with Cons.IH [OF _ _ rest] Cons.prems show ?case by (simp add: scope_update_ok)
qed simp

lemma resolveLambda_valid:
  assumes "scope_types_ok sc" "grammatical lambda" "\<forall>t\<in>set ts. valid t"
  shows "gives_valid (resolveLambda rs sc lambda ts)"
proof -
  have params: "\<forall>(p, t)\<in>set (zip (lambdaParameters lambda) ts). valid t"
    using assms(3) by (auto dest: set_zip_rightD)
  have result: "valid u" if "lambda_body rs seen sc' lambda = Some (Inr u)" "scope_types_ok sc'" for seen sc' u
  proof (cases "rule_opt ''Lambda_body'' lambda")
    case None
    with that assms(2) show ?thesis
      by (auto simp: lambda_body_def lambda_result_def split: option.splits dest!: rs_result intro: grammar_intros)
  next
    case (Some body)
    then have b: "grammatical body" using assms(2) by (rule grammatical_rule)
    from that(1) Some obtain sc'' expr where s: "lambda_statements rs seen sc' (rules ''Lambda_stmt'' body) = Some (Inr sc'')"
        "rule_opt ''Expr'' body = Some expr" "rs Expression sc'' expr = Some (Inr u)"
      by (auto simp: lambda_body_def run_then_Inr lambda_result_def split: option.splits)
    have "scope_types_ok sc''"
      by (rule lambda_statements_ok [OF _ that(2) s(1)]) (use b in \<open>auto intro: grammar_intros\<close>)
    with s(3) show ?thesis by (rule rs_result) (rule grammatical_rule [OF s(2) b])
  qed
  have callable: "valid (mk_callable ts u)"
    if "bind_parameters [] (sc\<lparr>sc_relations := []\<rparr>) (zip (lambdaParameters lambda) ts) = Inr (seen, sc')"
      "lambda_body rs seen sc' lambda = Some (Inr u)" for seen sc' u
    using result [OF that(2) bind_parameters_ok [OF that(1) scope_relations_ok [OF assms(1)] params]] assms(3) by simp
  show ?thesis
    unfolding resolveLambda_def Let_def by (intro valid_intros) (auto intro: callable)
qed

lemma invocationTypes_valid:
  assumes "scope_types_ok sc" "grammatical invoke" "invocationTypes rs sc invoke = Some (Inr ts)"
  shows "\<forall>t\<in>set ts. valid t"
proof -
  from assms(3) have l: "run_list (invocation_type rs sc) (named_arguments invoke) = Some (Inr ts)"
    by (auto simp: invocationTypes_def split: if_splits)
  show ?thesis
  proof (rule run_list_all [OF l])
    fix arg t
    assume "arg \<in> set (named_arguments invoke)" "invocation_type rs sc arg = Some (Inr t)"
    then have "rs Expression sc (rule_of ''Expr'' arg) = Some (Inr t)" "grammatical arg"
      using assms(2) by (auto simp: invocation_type_def grammatical_named_argument split: if_splits)
    then show "valid t" by (blast intro: rs_result [OF _ assms(1)] grammatical_rule_of)
  qed
qed

lemma call_all_valid:
  "valid result \<Longrightarrow> gives_valid (call_all rs sc result invokes)"
proof (induction invokes arbitrary: result)
  case (Cons i invokes)
  have "valid u" if "call_once rs sc result i = Some (Inr u)" for u
    using that valid_parts(1) [OF Cons.prems]
    by (auto simp: call_once_def run_then_Inr split: option.splits if_splits)
  then show ?case
    unfolding call_all.simps by (intro valid_intros Cons.IH)
qed (auto intro: valid_intros)

lemma list_element_valid:
  "list_element name args = Inr e \<Longrightarrow> args \<noteq> [] \<Longrightarrow> \<forall>a\<in>set args. valid (arg_Type a) \<Longrightarrow> valid e"
  by (cases args) (auto simp: list_element_def Let_def split: option.splits if_splits
      intro: valid_parts(1) [OF valid_UnwrapOptional])

lemma Lambda_not_valid: "valid t \<Longrightarrow> Kind t \<noteq> ''Lambda''"
  by (subst (asm) validateConcreteOrNull.simps) (auto simp: has_prefix_def is_scalar_kind_def supportedScalarKinds_def split: if_splits)

lemma bound_lambda_None: "scope_types_ok sc \<Longrightarrow> bound_lambda sc expr = None"
  using bind_type_valid Lambda_not_valid
  by (auto simp: bound_lambda_def Let_def split: option.splits)

lemma argument_type_valid:
  assumes "scope_types_ok sc" "grammatical expr" "argument_type rs sc name args expr = Some (Inr t)"
    "\<not> (name = ''Json::From'' \<or> name = ''Yson::From'')" "\<forall>a\<in>set args. valid (arg_Type a)"
  shows "valid t"
proof -
  have lambda: "valid u" if "directLambda expr = Some l" "list_element name args = Inr e" "length args = 1"
      "resolveLambda rs sc l [e] = Some (Inr u)" for l e u
  proof -
    have "grammatical l" using that(1) assms(2) by (auto simp: directLambda_def intro: grammatical_last_match)
    moreover have "valid e" using list_element_valid [OF that(2) _ assms(5)] that(3) by (cases args) simp_all
    ultimately show ?thesis using resolveLambda_valid [OF assms(1)] gives_validD [OF _ that(4)] by simp
  qed
  from assms(3,4) lambda show ?thesis
    by (auto simp: argument_type_def bound_lambda_None [OF assms(1)] run_then_Inr split: if_splits option.splits
        intro: rs_result [OF _ assms(1,2)])
qed

lemma function_arguments_valid:
  assumes "scope_types_ok sc" "\<not> (name = ''Json::From'' \<or> name = ''Yson::From'' \<or> name = ''Yson::ConvertTo'')"
  shows "\<forall>t\<in>set ts. grammatical t \<Longrightarrow> \<forall>a\<in>set args. valid (arg_Type a) \<Longrightarrow>
    function_arguments rs sc name args ts = Some (Inr args') \<Longrightarrow> \<forall>a\<in>set args'. valid (arg_Type a)"
proof (induction ts arbitrary: args)
  case (Cons t ts)
  from Cons.prems(3) assms(2) obtain u where u: "argument_type rs sc name args (rule_of ''Expr'' t) = Some (Inr u)"
      "function_arguments rs sc name (args @ [call_argument t u]) ts = Some (Inr args')"
    unfolding function_arguments.simps Let_def
    by (auto simp only: run_then_Inr simp_thms if_False split: if_splits)
  have "valid u"
    by (rule argument_type_valid [OF assms(1) grammatical_rule_of u(1)]) (use assms(2) Cons.prems(1,2) in simp_all)
  then have "\<forall>a\<in>set (args @ [call_argument t u]). valid (arg_Type a)"
    using Cons.prems(2) by (simp add: call_argument_def Let_def plain_argument_def)
  from Cons.IH [OF _ this u(2)] Cons.prems(1) show ?case by simp
qed simp

lemma special_call_valid:
  assumes "name = ''Json::From'' \<or> name = ''Yson::From'' \<or> name = ''Yson::ConvertTo''"
    "ResolveCall rx r name args = Inr t" "registry_ok r"
  shows "valid t"
proof -
  have yson: "valid t" if "resolveYsonCall name args = Some (Inr t)"
    using sound_resD [OF resolveYsonCall_sound [OF that]] by (blast intro: sound_result_valid)
  show ?thesis
  proof (cases "name = ''Json::From''")
    case False
    with assms(1) have "isDocumentedYson name \<and> \<not> equal_fold name ''AsStruct''"
      by (elim disjE) (simp_all, code_simp+)
    with assms(2) yson show ?thesis
      by (auto simp: ResolveCall_def resolveYsonCall_def split: option.splits)
  next
    case True
    have "isKnownFunction ''Json::From''" by code_simp
    then have r: "ResolveCall rx r ''Json::From'' args = ResolveCall rx empty_registry ''Json::From'' args"
      by (rule ResolveCall_known [OF assms(3)])
    have f: "\<not> equal_fold ''Json::From'' ''AsStruct''" "\<not> isDocumentedYson ''Json::From''" "standardSignatures ''Json::From'' = []"
        "stringUnicodeUrlSignatures ''Json::From'' = []" "\<not> isCoalesce ''Json::From''" "\<not> IsHistogramAggregate ''Json::From''"
        "str_contains ''Json::From'' ''::''" "lookupDateTimeDigestIpMath ''Json::From'' = None"
      by code_simp+
    have "histogramSignatures ''Json::From'' = [] \<and> \<not> isMultiRegex ''Json::From''" by code_simp
    then have "resolveSpecializedCall rx ''Json::From'' args = None"
      by (simp add: resolveSpecializedCall_def)
    moreover from assms(2) True r have "ResolveCall rx empty_registry ''Json::From'' args = Inr t" by simp
    ultimately have "resolveLegacy ''Json::From'' (map (plain_type ''Json::From'') args) = Inr t"
      using f by (simp add: ResolveCall_def resolveYsonCall_def empty_registry_def result_simps)
    with f show ?thesis
      by (auto simp: resolveLegacy_def resolveHistogramAggregate_def resolveLibrary_def lookupLibrary_def first_table_def
          library_functions_def resolveJsonFrom_def result_simps)
  qed
qed

lemma resolveListCreateType_valid:
  assumes "group_names_ok (pk_group_names pk)" "resolveListCreateType pk invoke = Inr t"
  shows "valid t"
proof -
  from assms(2) obtain tx item where i: "parseType tx = Inr item" "Resolve (pk_group_names pk) ''ListCreate'' [item] = Inr t"
    by (auto simp: resolveListCreateType_def result_simps split: list.splits if_splits)
  have "sound_res (map arg_Type [plain_argument item]) (Resolve (pk_group_names pk) ''ListCreate'' [item])"
    using ResolveCall_sound [OF assms(1) registry_ok_empty, of "[plain_argument item]"] parseType_valid [OF i(1)]
    by (simp add: Resolve_def plain_argument_def)
  from sound_resD [OF this i(2)] show ?thesis by (rule sound_result_valid)
qed

lemma resolve_window_call_valid: "resolve_window_call sc name invoke tail = Inr t \<Longrightarrow> valid t"
  by (auto simp: resolve_window_call_def Let_def result_simps split: option.splits if_splits)

lemma resolveFunction_valid:
  assumes "scope_types_ok sc" "grammatical invoke"
  shows "gives_valid (resolveFunction rs sc name invoke)"
proof -
  have g: "group_names_ok (pk_group_names (sc_packages sc))" and r: "registry_ok (sc_functions sc)"
    using assms(1) by (simp_all add: scope_types_ok_def)
  have call: "valid t"
    if "function_arguments rs sc name [] (named_arguments invoke) = Some (Inr args)"
      "ResolveCall (pk_group_names (sc_packages sc)) (sc_functions sc) name args = Inr t" for args t
  proof (cases "name = ''Json::From'' \<or> name = ''Yson::From'' \<or> name = ''Yson::ConvertTo''")
    case True
    then show ?thesis by (rule special_call_valid [OF _ that(2) r])
  next
    case False
    have "\<forall>a\<in>set args. valid (arg_Type a)"
      by (rule function_arguments_valid [OF assms(1) False _ _ that(1)])
        (auto intro: grammatical_named_argument assms(2))
    then show ?thesis by (rule call_valid [OF assms(1) _ that(2)])
  qed
  have plain: "gives_valid (resolve_plain_function rs sc name invoke)"
    unfolding resolve_plain_function_def
    by (intro valid_intros) (auto intro: call valid_UnwrapOptional)
  show ?thesis
    unfolding resolveFunction_def
    by (intro valid_intros plain) (auto intro: resolve_window_call_valid resolveListCreateType_valid [OF g])
qed

lemma resolveCallChain_valid:
  assumes "scope_types_ok sc" "\<forall>i\<in>set invokes. grammatical i" "invokes \<noteq> []"
  shows "gives_valid (resolveCallChain rs sc name invokes)"
proof (cases "has_prefix name ''$''")
  case True
  then show ?thesis
    using bind_type_valid [OF assms(1)] Lambda_not_valid
    by (auto simp: resolveCallChain_def Let_def split: option.splits intro!: call_all_valid)
next
  case False
  have "grammatical (hd invokes)" using assms(2,3) by (cases invokes) simp_all
  from gives_validD [OF resolveFunction_valid [OF assms(1) this]] False show ?thesis
    by (auto simp: resolveCallChain_def intro!: valid_intros call_all_valid)
qed

lemma member_loop_valid: "valid t \<Longrightarrow> member_loop t parts = Inr u \<Longrightarrow> valid u"
proof (induction parts arbitrary: t)
  case (Cons p parts)
  have part: "valid v" if "List.find q (Fields (UnwrapOptional t)) = Some (n, v)" for q n v
    using find_member [OF that] valid_parts(4) [OF valid_UnwrapOptional [OF Cons.prems(1)]] by blast
  from Cons.prems(2) obtain n v where v: "List.find (\<lambda>(n, _). n = identifier_of (GetText p)) (Fields (UnwrapOptional t)) = Some (n, v)"
      "member_loop (if IsOptional t \<and> \<not> IsOptional v then Optional v else v) parts = Inr u"
    by (auto simp: Let_def split: if_splits option.splits)
  from Cons.IH [OF _ v(2)] part [OF v(1)] show ?case by simp
qed simp

lemma resolveMemberAccess_valid:
  assumes "resolveMemberAccess rs sc root = Some r" "scope_types_ok sc" "grammatical root"
  shows "gives_valid r"
proof -
  obtain casual suffix where c: "sub_rule ''Unary_casual_subexpr'' (covering_rule ''Unary_subexpr'' root) = Some casual"
      "rule_opt ''Unary_subexpr_suffix'' casual = Some suffix"
    using assms(1) by (auto simp: resolveMemberAccess_def split: option.splits)
  have g: "grammatical casual"
    by (rule grammatical_sub_rule [OF c(1)]) (rule grammatical_covering [OF _ assms(3)])
  have i: "\<forall>i\<in>set (rules ''Invoke_expr'' suffix). grammatical i"
    using grammatical_rule [OF c(2) g] by (auto intro: grammatical_rules)
  have inner: "grammatical inner"
    if "sub_rule ''Lambda'' (rule_opt ''Atom_expr'' casual) = Some lambda"
      "parenthesizedExpression (rule_of ''Smart_parenthesis'' lambda) = Some inner" for lambda inner
    by (rule grammatical_parenthesized [OF that(2) grammatical_rule_of [OF grammatical_sub_rule [OF that(1)]]])
      (rule grammatical_rule [OF _ g])
  have base: "gives_valid u"
    if "member_base rs sc casual (rules ''Invoke_expr'' suffix) parts = Some (u, ps)" for u ps parts
    using that i inner unfolding member_base_def Let_def
    by (auto split: if_splits option.splits intro!: valid_intros resolveCallChain_valid assms(2)
        intro: bind_type_valid [OF assms(2)] column_type_valid [OF assms(2)] rs_valid)
  show ?thesis
    using assms(1) unfolding resolveMemberAccess_def Let_def c option.case
    by (auto split: if_splits intro!: valid_intros intro: member_loop_valid dest!: base)
qed

lemma comparison_type_valid: "comparison_type ts = Inr t \<Longrightarrow> valid t"
  by (auto simp: comparison_type_def result_simps split: if_splits)

lemma comparisonBoolType_valid: "gives_valid (comparisonBoolType rs sc ts)"
  unfolding comparisonBoolType_def by (intro valid_intros) (rule comparison_type_valid)

lemma resolveINCondition_valid: "gives_valid (resolveINCondition rs sc atom)"
  unfolding resolveINCondition_def Let_def
  by (intro valid_intros) (auto simp: check_then_Inr_iff)

lemma resolveComparison_valid:
  assumes "resolveComparison rs sc root = Some r"
  shows "gives_valid r"
proof -
  have "gives_valid r" if "condition_type rs sc x = Some r" for x
    using that gives_validD [OF comparisonBoolType_valid]
    by (auto simp: condition_type_def Let_def split: if_splits
        intro!: valid_intros resolveINCondition_valid)
  with assms show ?thesis
    by (auto simp: resolveComparison_def split: list.splits option.splits intro: comparisonBoolType_valid)
qed

lemma literal_valid: "literalValueType parse_float literal = Inr t \<Longrightarrow> valid t"
proof -
  have "list_all (\<lambda>(_, k, _, _). valid (mk_kind k)) suffix_types" by code_simp
  then have k: "valid (mk_kind kind)" if "List.find p suffix_types = Some (suffix, kind, bits, uns)" for p suffix kind bits uns
    using find_member [OF that] by (auto simp: list_all_iff)
  assume "literalValueType parse_float literal = Inr t"
  then show ?thesis
    by (cases literal) (auto simp: literalValueType_def stringLiteralType_def realLiteralType_def integerLiteralType_def Let_def
        split: if_splits option.splits prod.splits dest: k)
qed

lemma resolve_expression_valid:
  assumes "scope_types_ok sc" "grammatical root"
  shows "gives_valid (resolve_expression rs sc root)"
proof -
  note ops = resolveArithmetic_valid [OF _ assms] resolveBoolean_valid resolveStructLiteral_valid [OF _ assms]
    resolveMemberAccess_valid [OF _ assms] concatenationType_valid [OF _ assms] resolveComparison_valid
  have chain: "gives_valid (resolveCallChain rs sc name invokes)" if "directCallChain root = Some (name, invokes)" for name invokes
    using size_directCallChain [OF that] grammatical_directCallChain [OF that assms(2)]
    by (intro resolveCallChain_valid assms(1)) simp_all
  have atom: "gives_valid (expression_atom rs sc root)"
    unfolding expression_atom_def unsupported_expression_def
    by (intro valid_intros resolveCast_valid resolveCase_valid resolveFunction_valid chain assms(1))
      (auto simp: bind_type_def Let_def split: option.splits
        intro: ops bind_type_valid [OF assms(1)] column_type_valid [OF assms(1)] grammatical_directFunctionCall [OF _ assms(2)])
  show ?thesis
    unfolding resolve_expression_def
    by (intro valid_intros atom) (auto simp: literalType_def gives_valid_def split: list.splits if_splits dest: literal_valid
      dest!: ops intro: gives_validD)
qed

lemma resolve_scalar_node_valid:
  assumes "scope_types_ok sc" "grammatical root"
  shows "gives_valid (resolve_scalar_node rs sc root)"
proof -
  note ops = resolveArithmetic_valid [OF _ assms] resolveBoolean_valid
    resolveMemberAccess_valid [OF _ assms] concatenationType_valid [OF _ assms] resolveComparison_valid
  have call: "gives_valid r" if "scalar_call rs sc unary = Some r" "covering_rule ''Unary_subexpr'' root = Some unary" for unary r
    using that(1) grammatical_covering [OF that(2) assms(2)] size_callChain(1) [of unary]
    by (auto simp: scalar_call_def split: option.splits
        intro!: resolveFunction_valid resolveCallChain_valid assms(1)
        dest: grammatical_functionCall grammatical_callChain)
  have atom: "gives_valid (scalar_atom rs sc root)"
    unfolding scalar_atom_def
    by (intro valid_intros resolveCast_valid resolveCase_valid)
      (auto simp: bind_type_def Let_def scalar_column_def bind_eq_Some_conv split: option.splits list.splits if_splits
        intro: literal_valid bind_type_valid [OF assms(1)] column_type_valid [OF assms(1)] call intro!: valid_intros)
  show ?thesis
    unfolding resolve_scalar_node_def by (intro valid_intros atom) (auto intro: ops)
qed

end

lemma resolve_fuel_valid: "scope_types_ok sc \<Longrightarrow> grammatical t \<Longrightarrow> gives_valid (resolve_fuel n e sc t)"
proof (induction n arbitrary: e sc t)
  case (Suc n)
  then have l: "typed_resolver (resolve_fuel n)" by unfold_locales
  with Suc.prems typed_resolver.resolve_expression_valid [OF l] typed_resolver.resolve_scalar_node_valid [OF l]
  show ?case by (cases e) simp_all
qed (simp add: gives_valid_def)

interpretation fuelled_types: typed_resolver "resolve_fuel n" for n
  by unfold_locales (rule resolve_fuel_valid)

lemma resolve_valid: "scope_types_ok sc \<Longrightarrow> grammatical t \<Longrightarrow> gives_valid (resolve e sc t)"
  unfolding resolve_def by (rule resolve_fuel_valid)

lemma run_result_valid: "gives_valid r \<Longrightarrow> run_result r = Inr t \<Longrightarrow> valid t"
  by (auto simp: run_result_def gives_valid_def split: option.splits)

lemma catalog_column_valid:
  assumes "catalog_ok catalog" "table \<in> set (cat_Tables catalog)" "column \<in> set (tb_Columns table)"
  shows "valid (col_Type column)"
  using assms by (auto simp: catalog_ok_def table_ok_def column_ok_def list_all_iff intro: yql_type_valid)

section \<open>Property\<close>

text \<open>
  C12: expression typing is sound: over tables of the catalog that the schema files build, with user functions
  that NewRegistry accepted and valid types for all bindings (the pseudo-type of a named lambda is none), the type of every expression, of every
  form and at every depth (operators, casts, CASE, calls, lambdas, member access, IN), is a well formed
  type that may take part in resolution.
\<close>

theorem expression_typed:
  assumes "\<forall>rel\<in>set (sc_relations sc). rel_table rel \<in> set (cat_Tables (fst (buildCatalog antlr sources)))"
    "NewRegistry functions = Inr (sc_functions sc)" "group_names_ok (pk_group_names (sc_packages sc))"
    "\<forall>t\<in>ran (sc_bindings sc). valid t" "grammatical expr" "resolveExpression sc (Some expr) = Inr t"
  shows "valid t"
proof -
  have "relation_types_ok (sc_relations sc)"
    using assms(1) catalog_column_valid [OF buildCatalog_invariant] by (auto simp: relation_types_ok_def list_all_iff)
  with assms(2-4) NewRegistry_ok have "scope_types_ok sc" by (simp add: scope_types_ok_def)
  from run_result_valid [OF resolve_valid [OF this assms(5)]] assms(6) show ?thesis
    by (simp add: resolveExpression_def)
qed

text \<open>The tree of \<open>$n AND TRUE\<close> with its positions, and a scope with \<open>$n\<close>.\<close>

definition spanned :: "string \<Rightarrow> int \<Rightarrow> int \<Rightarrow> tree list \<Rightarrow> tree" where
  "spanned name a b ts = (let tok = (\<lambda>i. \<lparr>tk_Type = [], tk_Text = [], tk_Start = i, tk_Stop = i, tk_Line = 1, tk_Column = i,
     tk_Index = i, tk_Hidden = False\<rparr>) in Node name (Some (tok a)) (Some (tok b)) ts)"

definition spanned_leaf :: "string \<Rightarrow> int \<Rightarrow> string \<Rightarrow> tree" where
  "spanned_leaf kind i tx = Leaf \<lparr>tk_Type = kind, tk_Text = tx, tk_Start = i, tk_Stop = i, tk_Line = 1, tk_Column = i, tk_Index = i, tk_Hidden = False\<rparr>"

definition sample_bind :: tree where
  "sample_bind = spanned ''And_subexpr'' 0 1
     [spanned ''Bind_parameter'' 0 1 [spanned_leaf ''DOLLAR'' 0 ''$'', spanned ''An_id_or_type'' 1 1 [spanned_leaf ''ID_PLAIN'' 1 ''n'']]]"

definition sample_one :: tree where
  "sample_one = spanned ''And_subexpr'' 3 3 [spanned ''Literal_value'' 3 3 [spanned ''Bool_value'' 3 3 [spanned_leaf ''TRUE'' 3 ''TRUE'']]]"

definition sample_sum :: tree where
  "sample_sum = spanned ''Expr'' 0 3 [spanned ''Or_subexpr'' 0 3 [sample_bind, spanned_leaf ''AND'' 2 ''AND'', sample_one]]"

definition sample_scope :: expressionScope where
  "sample_scope = \<lparr>sc_packages = \<lparr>pk_group_names = (\<lambda>_. Inr [[]]), pk_parse_float = (\<lambda>_ _. True), pk_fold = (\<lambda>r. r)\<rparr>, sc_query = sample_sum,
     sc_relations = [], sc_bindings = [''n'' \<mapsto> Optional (mk_kind ''Bool'')], sc_lambdas = [], sc_grouped = False,
     sc_functions = empty_registry, sc_inSubqueries = (\<lambda>_. None), sc_windows = []\<rparr>"

definition plain_atom :: "tree \<Rightarrow> bool" where
  "plain_atom t \<longleftrightarrow>
     parenthesizedExpression t = None \<and> boolean_operands (coveringExpressionContext t) = ([], [])
   \<and> \<not> is_rule ''Bit_subexpr'' (coveringExpressionContext t) \<and> \<not> is_rule ''Add_subexpr'' (coveringExpressionContext t)
   \<and> \<not> is_rule ''Mul_subexpr'' (coveringExpressionContext t) \<and> equality_operands t = []
   \<and> last_match (\<lambda>x. is_rule ''Xor_subexpr'' x \<and> sameSpan t x \<and> has_rule ''Cond_expr'' x) t = None
   \<and> covering_rule ''Unary_subexpr'' t = None"

lemma plain_atom_scalar: "plain_atom t \<Longrightarrow> resolve_scalar_node rs sc t = scalar_atom rs sc t"
  by (simp add: plain_atom_def resolve_scalar_node_def resolveArithmetic_def resolveBoolean_def concatenationType_def
      resolveComparison_def resolveMemberAccess_def sub_rule_def or_else_def Let_def)

lemma sample_atoms:
  "resolve_scalar_node rs sample_scope sample_bind = returned (Optional (mk_kind ''Bool''))"
  "resolve_scalar_node rs sample_scope sample_one = returned (mk_kind ''Bool'')"
proof -
  have p: "plain_atom sample_bind" "plain_atom sample_one" by code_simp+
  have c: "covering_rule ''Literal_value'' sample_bind = None" by code_simp
  have o: "map_option literal_of (covering_rule ''Literal_value'' sample_one) = Some LitBool" by code_simp
  have d: "map_option (bindName \<circ> Some) (directBind sample_bind) = Some ''n''" by code_simp
  show "resolve_scalar_node rs sample_scope sample_bind = returned (Optional (mk_kind ''Bool''))"
    using c d by (auto simp: plain_atom_scalar [OF p(1)] scalar_atom_def bind_type_def sample_scope_def split: option.splits)
  show "resolve_scalar_node rs sample_scope sample_one = returned (mk_kind ''Bool'')"
    using o by (auto simp: plain_atom_scalar [OF p(2)] scalar_atom_def literalValueType_def split: option.splits)
qed

lemma sample_sum_type: "resolveExpression sample_scope (Some sample_sum) = Inr (Optional (mk_kind ''Bool''))"
proof -
  have "\<exists>n. resolve_measure sample_scope sample_sum = Suc n"
    by (simp add: resolve_measure_def sample_sum_def spanned_def Let_def)
  then obtain n where n: "resolve_measure sample_scope sample_sum = Suc n" ..
  have l: "descendant_rules ''Literal_value'' sample_sum = descendant_rules ''Literal_value'' sample_one"
      "descendant_rules ''Literal_value'' sample_one = [hd (tree_children sample_one)]"
      "GetText sample_sum = ''$nANDTRUE''" "GetText (hd (tree_children sample_one)) = ''TRUE''"
    by code_simp+
  have t: "parenthesizedExpression sample_sum = None" "boolean_operands (coveringExpressionContext sample_sum) = (''AND'', [sample_bind, sample_one])"
    "\<not> is_rule ''Bit_subexpr'' (coveringExpressionContext sample_sum)" "\<not> is_rule ''Add_subexpr'' (coveringExpressionContext sample_sum)"
    by code_simp+
  show ?thesis
    by (simp add: n resolveExpression_def resolve_def resolve_expression_def literalType_def l t resolveArithmetic_def resolveBoolean_def
        or_else_def sample_atoms run_result_def run_then_def wrapped_def wrapping_def)
qed

lemma expression_typed_witness: "valid (Optional (mk_kind ''Bool''))"
proof -
  have r: "NewRegistry [] = Inr (sc_functions sample_scope)" by (simp add: sample_scope_def NewRegistry_def)
  have g: "grammatical sample_sum" by code_simp
  show ?thesis
    by (rule expression_typed [OF _ r _ _ g sample_sum_type]) (simp_all add: sample_scope_def group_names_ok_def)
qed

end
