(* ===== verification/QueryText.thy ===== *)
theory QueryText
  imports Expressions "HOL-Library.List_Lexorder" "HOL-Library.Char_ord"
begin

text \<open>
  The text of queries: splitting a file into named queries (\<open>analyzer.go\<close>), lowering the \<open>sqlc\<close> macros
  (\<open>sqlc_macro.go\<close>), replacing spans of the text (\<open>wildcard.go\<close>), and finding the position in the
  original text of a diagnostic in the rewritten one. The lexer is the parameter \<open>lexer\<close>: the tokens, and
  the lexical errors with line, column and message.

  A Go map that is iterated over in the order of its sorted keys is an association list.
\<close>

section \<open>Query blocks\<close>

record sqlcArgument =
  sa_nullable :: bool
  sa_slice :: bool
  sa_position :: Position
  sa_start :: nat

record wildcardReplacement =
  wr_start :: nat
  wr_end :: nat
  wr_text :: string

record wildcardRewrites =
  ww_source :: string
  ww_replacements :: "wildcardReplacement list"
  ww_embeds :: "Embedding list"
  ww_embedCore :: "tree option"
  ww_usedEmbeds :: "int list"
  ww_usedEmbedArgs :: "int list"

record querySourceMap =
  sm_original :: string
  sm_rewritten :: string
  sm_replacements :: "wildcardReplacement list"

text \<open>
  \<open>qb_sourceMap\<close> is the chain of source maps, the last one first. \<open>qb_packages\<close> is what is outside, and
  \<open>qb_tree\<close> the tree of the query, in which the parents of its nodes are found.
\<close>

record queryBlock =
  qb_name :: string
  qb_command :: Command
  qb_file :: string
  qb_line :: int
  qb_text :: string
  qb_functions :: registry
  qb_parameters :: "(string \<times> ty) list"
  qb_arguments :: "(string \<times> sqlcArgument) list"
  qb_assumed :: "(string \<times> ty) list"
  qb_sourceMap :: "querySourceMap list"
  qb_parsed :: "(tree \<times> token list) option"
  qb_wildcards :: "wildcardRewrites option"
  qb_tablePathPrefix :: string
  qb_tabular :: "string \<rightharpoonup> Table"
  qb_lambdas :: lambda_map
  qb_windows :: "(string \<times> tree) list"
  qb_packages :: packages
  qb_tree :: tree

definition block_at :: "queryBlock \<Rightarrow> tree option \<Rightarrow> string \<Rightarrow> Diagnostic" where
  "block_at block ctx message = diagnosticAt (qb_file block) (qb_line block - 1) ctx message"

definition token_position :: "queryBlock \<Rightarrow> token \<Rightarrow> Position" where
  "token_position block tok = \<lparr>pos_File = qb_file block, pos_Line = qb_line block - 1 + tk_Line tok, pos_Column = tk_Column tok + 1\<rparr>"

definition block_position :: "queryBlock \<Rightarrow> Position" where
  "block_position block = \<lparr>pos_File = qb_file block, pos_Line = qb_line block, pos_Column = 1\<rparr>"

definition block_message :: "queryBlock \<Rightarrow> string \<Rightarrow> Diagnostic" where
  "block_message block message = \<lparr>dg_Position = block_position block, dg_Message = message\<rparr>"

definition empty_block :: "packages \<Rightarrow> queryBlock" where
  "empty_block pk = \<lparr>qb_name = [], qb_command = [], qb_file = [], qb_line = 0, qb_text = [], qb_functions = (\<lambda>_. []),
     qb_parameters = [], qb_arguments = [], qb_assumed = [], qb_sourceMap = [], qb_parsed = None, qb_wildcards = None,
     qb_tablePathPrefix = [], qb_tabular = (\<lambda>_. None), qb_lambdas = [], qb_windows = [], qb_packages = pk, qb_tree = no_tree\<rparr>"

section \<open>Splitting a file\<close>

type_synonym antlr_lexer = "string \<Rightarrow> token list \<times> (int \<times> int \<times> string) list"

definition significant :: "token \<Rightarrow> bool" where
  "significant tok \<longleftrightarrow> \<not> tk_Hidden tok \<and> tk_Type tok \<noteq> ''EOF'' \<and> tk_Type tok \<noteq> ''COMMENT''"

record annotation =
  an_name :: string
  an_command :: Command
  an_start :: nat
  an_line :: int

definition annotation_token :: "token \<Rightarrow> bool" where
  "annotation_token tok \<longleftrightarrow> tk_Type tok = ''COMMENT'' \<and> has_prefix (TrimSpace (tk_Text tok)) ''--''"

text \<open>The annotations, the diagnostics, and whether there is SQL before the first annotation.\<close>

fun annotation_loop ::
  "Source \<Rightarrow> annotation list \<Rightarrow> Diagnostic list \<Rightarrow> bool \<Rightarrow> token list \<Rightarrow> annotation list \<times> Diagnostic list \<times> bool" where
  "annotation_loop source annotations ds preamble [] = (annotations, ds, preamble)"
| "annotation_loop source annotations ds preamble (tok # toks) =
     (let preamble = (preamble \<or> (annotations = [] \<and> significant tok)) in
      if \<not> annotation_token tok then annotation_loop source annotations ds preamble toks
      else (let (name, command, ok, message) = parseAnnotation (tk_Text tok);
                ds = (if message = [] then ds else ds @ [\<lparr>dg_Position = \<lparr>pos_File = src_Name source, pos_Line = tk_Line tok,
                   pos_Column = tk_Column tok + 1\<rparr>, dg_Message = message\<rparr>]);
                annotations = (if ok then annotations @ [\<lparr>an_name = name, an_command = command,
                   an_start = runeByteOffset (src_Text source) (tk_Start tok), an_line = tk_Line tok\<rparr>] else annotations)
            in annotation_loop source annotations ds preamble toks))"

text \<open>Each annotation starts a block, which ends where the next one starts.\<close>

fun annotation_blocks :: "packages \<Rightarrow> Source \<Rightarrow> annotation list \<Rightarrow> queryBlock list" where
  "annotation_blocks pk source [] = []"
| "annotation_blocks pk source (item # items) =
     (let stop = (case items of [] \<Rightarrow> length (src_Text source) | next' # _ \<Rightarrow> an_start next') in
      (empty_block pk)\<lparr>qb_name := an_name item, qb_command := an_command item, qb_file := src_Name source,
        qb_line := an_line item, qb_text := TrimSpace (take (stop - an_start item) (drop (an_start item) (src_Text source)))\<rparr>
      # annotation_blocks pk source items)"

definition source_message :: "Source \<Rightarrow> string \<Rightarrow> Diagnostic" where
  "source_message source message =
     \<lparr>dg_Position = \<lparr>pos_File = src_Name source, pos_Line = 1, pos_Column = 1\<rparr>, dg_Message = message\<rparr>"

definition queryBlocks :: "packages \<Rightarrow> antlr_lexer \<Rightarrow> Source \<Rightarrow> queryBlock list \<times> Diagnostic list" where
  "queryBlocks pk lexer source =
     (let (toks, errors) = lexer (src_Text source);
          (annotations, ds, preamble) = annotation_loop source [] [] False toks;
          ds = ds @ map (syntax_error (src_Name source) 0) errors
      in (annotation_blocks pk source annotations,
          ds @ (if \<not> preamble then []
                else if annotations = [] then [source_message source ''query file contains SQL before any -- name: annotation'']
                else [source_message source ''query file preamble before the first -- name: annotation is unsupported; move declarations into each named query''])))"

section \<open>Replacing spans of the text\<close>

definition quotedYQLIdentifier :: "string \<Rightarrow> string" where
  "quotedYQLIdentifier name = CHR 0x60 # str_replace_char (CHR 0x60) [CHR 0x60, CHR 0x60] name @ [CHR 0x60]"

definition replace_span :: "wildcardRewrites \<Rightarrow> nat \<Rightarrow> nat \<Rightarrow> string \<Rightarrow> wildcardRewrites" where
  "replace_span r start stop text = r\<lparr>ww_replacements := ww_replacements r @ [\<lparr>wr_start = start, wr_end = stop, wr_text = text\<rparr>]\<rparr>"

definition rewrites_add :: "wildcardRewrites \<Rightarrow> token \<Rightarrow> string list \<Rightarrow> wildcardRewrites" where
  "rewrites_add r tok expressions =
     replace_span r (runeByteOffset (ww_source r) (tk_Start tok)) (runeByteOffset (ww_source r) (tk_Stop tok + 1)) (str_join '', '' expressions)"

definition comma_tokens :: "tree \<Rightarrow> token list" where
  "comma_tokens core = map leaf_token (token_list ''COMMA'' core)"

definition removeResultColumn :: "wildcardRewrites \<Rightarrow> tree \<Rightarrow> nat \<Rightarrow> wildcardRewrites" where
  "removeResultColumn r core ordinal =
     (let results = rules ''Result_column'' core; result = results ! ordinal; offset = runeByteOffset (ww_source r);
          start = offset (start_index result); stop = offset (stop_index result + 1) in
      if ordinal + 1 < length results then replace_span r start (offset (start_index (results ! (ordinal + 1)))) []
      else if ordinal > 0 then
        (case List.find (\<lambda>comma. tk_Start comma > stop_index (results ! (ordinal - 1)) \<and> tk_Start comma < start_index result) (comma_tokens core) of
           Some comma \<Rightarrow> replace_span r (offset (tk_Start comma)) stop []
         | None \<Rightarrow> replace_span r start stop [])
      else replace_span r start stop [])"

definition addExpression :: "wildcardRewrites \<Rightarrow> tree \<Rightarrow> string list \<Rightarrow> wildcardRewrites" where
  "addExpression r expr expressions =
     replace_span r (runeByteOffset (ww_source r) (start_index expr)) (runeByteOffset (ww_source r) (stop_index expr + 1)) (str_join '', '' expressions)"

definition addWithout :: "wildcardRewrites \<Rightarrow> tree \<Rightarrow> wildcardRewrites" where
  "addWithout r core =
     (case token_of ''WITHOUT'' core of
        None \<Rightarrow> r
      | Some tok \<Rightarrow>
          (let offset = runeByteOffset (ww_source r); results = rules ''Result_column'' core;
               start = (case List.find (\<lambda>comma. tk_Start comma > stop_index (last results) \<and> tk_Stop comma < tk_Start tok) (comma_tokens core) of
                   Some comma \<Rightarrow> offset (tk_Start comma) | None \<Rightarrow> offset (tk_Start tok));
               start = (if start = offset (tk_Start tok) \<and> start > 0
                   \<and> (ww_source r ! (start - 1) = CHR '' '' \<or> ww_source r ! (start - 1) = CHR 0x09) then start - 1 else start)
           in replace_span r start (offset (stop_index (rule_of ''Without_column_list'' core) + 1)) []))"

text \<open>
  \<open>apply\<close> sorts the replacements in place, so later users of the list see it sorted. \<open>slices.SortFunc\<close>
  leaves the order of equal starts open; here it is stable.
\<close>

definition sorted_replacements :: "wildcardReplacement list \<Rightarrow> wildcardReplacement list" where
  "sorted_replacements rs = sort_key wr_start rs"

fun apply_loop :: "string \<Rightarrow> nat \<Rightarrow> wildcardReplacement list \<Rightarrow> string res" where
  "apply_loop source cursor [] = Inr (drop cursor source)"
| "apply_loop source cursor (r # rs) =
     (if wr_start r < cursor \<or> wr_end r > length source \<or> wr_start r > wr_end r then
        Inl (Errorf ''invalid or overlapping wildcard source span'' [])
      else and_then (apply_loop source (wr_end r) rs) (\<lambda>sql.
        Inr (take (wr_start r - cursor) (drop cursor source) @ wr_text r @ sql)))"

definition apply_rewrites :: "wildcardRewrites \<Rightarrow> string res" where
  "apply_rewrites r = apply_loop (ww_source r) 0 (sorted_replacements (ww_replacements r))"

section \<open>Positions\<close>

text \<open>One rune further: a line feed starts a line.\<close>

definition next_position :: "nat \<Rightarrow> int \<times> int \<Rightarrow> int \<times> int" where
  "next_position rune p = (if rune = 10 then (fst p + 1, 1) else (fst p, snd p + 1))"

function advance :: "int \<times> int \<Rightarrow> string \<Rightarrow> int \<times> int" where
  "advance p s =
     (if s = [] then p
      else (let (rune, width) = decode_rune s in advance (next_position rune p) (drop (max 1 width) s)))"
  by pat_completeness auto
termination
  by (relation "measure (\<lambda>(p, s). length s)") auto

declare advance.simps [simp del]

definition positionInSQL :: "string \<Rightarrow> int \<Rightarrow> string \<Rightarrow> int \<Rightarrow> Position" where
  "positionInSQL file startLine sql index =
     (let (line, column) = advance (startLine, 1) (take (nat index) sql) in
      \<lparr>pos_File = file, pos_Line = line, pos_Column = column\<rparr>)"

text \<open>The index at which the scan of a text reaches a line and column: the first that is not before it.\<close>

function scan_position :: "int \<times> int \<Rightarrow> int \<times> int \<Rightarrow> nat \<Rightarrow> string \<Rightarrow> nat" where
  "scan_position target p index s =
     (if s \<noteq> [] \<and> (fst p < fst target \<or> (fst p = fst target \<and> snd p < snd target)) then
        (let (rune, width) = decode_rune s in
         scan_position target (next_position rune p) (index + max 1 width) (drop (max 1 width) s))
      else index)"
  by pat_completeness auto
termination
  by (relation "measure (\<lambda>(t, p, i, s). length s)") auto

declare scan_position.simps [simp del]

text \<open>The index in the original text of an index in the rewritten one.\<close>

fun original_loop :: "int \<Rightarrow> int \<Rightarrow> int \<Rightarrow> wildcardReplacement list \<Rightarrow> int" where
  "original_loop index shift originalIndex [] = originalIndex"
| "original_loop index shift originalIndex (r # rs) =
     (let start = int (wr_start r) + shift; stop = start + int (length (wr_text r)) in
      if index < start then originalIndex
      else if index < stop then int (wr_start r)
      else (let shift = shift + (int (length (wr_text r)) - (int (wr_end r) - int (wr_start r))) in
        original_loop index shift (index - shift) rs))"

definition original_position :: "queryBlock \<Rightarrow> Position \<Rightarrow> querySourceMap \<Rightarrow> Position" where
  "original_position block position m =
     (let index = int (scan_position (pos_Line position, pos_Column position) (qb_line block, 1) 0 (sm_rewritten m)) in
      positionInSQL (qb_file block) (qb_line block) (sm_original m) (original_loop index 0 index (sm_replacements m)))"

definition originalDiagnostics :: "queryBlock \<Rightarrow> Diagnostic list \<Rightarrow> Diagnostic list" where
  "originalDiagnostics block ds =
     map (\<lambda>d. d\<lparr>dg_Position := foldl (original_position block) (dg_Position d) (qb_sourceMap block)\<rparr>) ds"

text \<open>The block with the last line among those of the file that start before the diagnostic.\<close>

definition diagnostic_block :: "queryBlock list \<Rightarrow> Diagnostic \<Rightarrow> queryBlock option" where
  "diagnostic_block blocks d =
     fold (\<lambda>b found. if qb_file b = pos_File (dg_Position d) \<and> qb_line b \<le> pos_Line (dg_Position d)
         \<and> (case found of None \<Rightarrow> True | Some block \<Rightarrow> qb_line block < qb_line b) then Some b else found) blocks None"

definition originalBlockDiagnostics :: "queryBlock list \<Rightarrow> Diagnostic list \<Rightarrow> Diagnostic list" where
  "originalBlockDiagnostics blocks ds =
     concat (map (\<lambda>d. case diagnostic_block blocks d of Some block \<Rightarrow> originalDiagnostics block [d] | None \<Rightarrow> [d]) ds)"

section \<open>The macros of sqlc\<close>

definition isSQLCMacroName :: "string \<Rightarrow> bool" where
  "isSQLCMacroName name \<longleftrightarrow> equal_fold name ''arg'' \<or> equal_fold name ''narg'' \<or> equal_fold name ''slice'' \<or> equal_fold name ''embed''"

definition macro_head :: "token \<Rightarrow> token \<Rightarrow> token \<Rightarrow> token \<Rightarrow> bool" where
  "macro_head namespace dot function' open' \<longleftrightarrow>
     tk_Type namespace = ''ID_PLAIN'' \<and> equal_fold (tk_Text namespace) ''sqlc'' \<and> tk_Type dot = ''DOT''
     \<and> tk_Type function' = ''ID_PLAIN'' \<and> tk_Type open' = ''LPAREN''"

fun macro_calls :: "token list \<Rightarrow> (string \<times> token) list" where
  "macro_calls (namespace # dot # function' # leftParen # rest) =
     (if macro_head namespace dot function' leftParen \<and> isSQLCMacroName (tk_Text function') then [(tk_Text function', namespace)] else [])
     @ macro_calls (dot # function' # leftParen # rest)"
| "macro_calls ts = []"

definition sqlcMacroCalls :: "token list \<Rightarrow> (string \<times> token) list" where
  "sqlcMacroCalls toks = macro_calls (filter significant toks)"

definition containsEmbedMacro :: "antlr_parser \<Rightarrow> queryBlock \<Rightarrow> bool \<times> Diagnostic list \<times> queryBlock" where
  "containsEmbedMacro antlr block =
     (let ((tree, toks), ds) = parseYQL antlr (qb_file block) (qb_text block) (qb_line block - 1) in
      if ds \<noteq> [] then (False, ds, block)
      else (list_ex (\<lambda>(name, _). equal_fold name ''embed'') (sqlcMacroCalls toks), [], block\<lparr>qb_parsed := Some (tree, toks)\<rparr>))"

text \<open>Two apostrophes in a string literal stand for one.\<close>

fun single_quotes :: "string \<Rightarrow> string" where
  "single_quotes (c # d # s) = (if c = CHR 0x27 \<and> d = CHR 0x27 then c # single_quotes s else c # single_quotes (d # s))"
| "single_quotes s = s"

definition sqlcArgumentName :: "token \<Rightarrow> string option" where
  "sqlcArgumentName tok =
     (let text = tk_Text tok; inner = tl (butlast text) in
      if tk_Type tok = ''ID_PLAIN'' \<or> tk_Type tok = ''ID_QUOTED'' then Some (identifier_of text)
      else if tk_Type tok = ''STRING_VALUE'' then
        (if length text < 2 \<or> hd text \<noteq> last text \<or> (hd text \<noteq> CHR 0x27 \<and> hd text \<noteq> CHR 0x22) \<or> CHR 0x5C \<in> set inner then None
         else if hd text = CHR 0x27 then Some (single_quotes inner) else Some inner)
      else None)"

record lowering =
  lw_arguments :: "(string \<times> sqlcArgument) list"
  lw_replacements :: "wildcardReplacement list"
  lw_diagnostics :: "Diagnostic list"

definition lower_failed :: "Position \<Rightarrow> string \<Rightarrow> lowering \<Rightarrow> nat \<times> lowering" where
  "lower_failed position message l = (0, l\<lparr>lw_diagnostics := lw_diagnostics l @ [\<lparr>dg_Position = position, dg_Message = message\<rparr>]\<rparr>)"

definition macro_conflict :: "string \<Rightarrow> bool \<Rightarrow> bool \<Rightarrow> sqlcArgument \<Rightarrow> string" where
  "macro_conflict name nullable is_slice previous =
     (if is_slice \<or> sa_slice previous then
        sprintf ''parameter %q cannot use both sqlc.slice and sqlc.%s'' [FStr name, FStr (if nullable \<or> sa_nullable previous then ''narg'' else ''arg'')]
      else sprintf ''parameter %q cannot use both sqlc.arg and sqlc.narg'' [FStr name])"

definition token_span :: "string \<Rightarrow> token \<Rightarrow> token \<Rightarrow> string \<Rightarrow> wildcardReplacement" where
  "token_span source first' last' text =
     \<lparr>wr_start = runeByteOffset source (tk_Start first'), wr_end = runeByteOffset source (tk_Stop last' + 1), wr_text = text\<rparr>"

text \<open>
  One call of \<open>arg\<close>, \<open>narg\<close> or \<open>slice\<close>, at the tokens \<open>ts\<close> after the tokens \<open>prev\<close> (nearest first):
  how many tokens after the first are done with, and what is collected.
\<close>

definition lower_call :: "queryBlock \<Rightarrow> token list \<Rightarrow> token list \<Rightarrow> lowering \<Rightarrow> nat \<times> lowering" where
  "lower_call block prev ts l =
     (let start = ts ! 0; function' = tk_Text (ts ! 2); argument = ts ! 4;
          nullable = equal_fold function' ''narg''; is_slice = equal_fold function' ''slice'';
          position = token_position block start; source = qb_text block in
      if length ts \<le> 5 \<or> tk_Type argument = ''RPAREN'' \<or> tk_Type (ts ! 5) \<noteq> ''RPAREN'' then
        lower_failed position (sprintf ''sqlc.%s expects exactly one parameter name'' [FStr function']) l
      else (case sqlcArgumentName argument of
          None \<Rightarrow> lower_failed position (sprintf ''sqlc.%s expects a nonempty identifier or quoted string parameter name'' [FStr function']) l
        | Some [] \<Rightarrow> lower_failed position (sprintf ''sqlc.%s expects a nonempty identifier or quoted string parameter name'' [FStr function']) l
        | Some name \<Rightarrow>
            (let parenthesized = (is_slice \<and> length ts > 6 \<and> tk_Type (ts ! 6) = ''RPAREN''
                 \<and> (case prev of p # q # _ \<Rightarrow> tk_Type p = ''LPAREN'' \<and> tk_Type q = ''IN'' | _ \<Rightarrow> False));
                 known = map_of (lw_arguments l) name in
             if is_slice \<and> \<not> parenthesized \<and> (case prev of p # _ \<Rightarrow> tk_Type p \<noteq> ''IN'' | [] \<Rightarrow> True) then
               lower_failed position ''sqlc.slice must be directly after IN or directly inside IN (...), without additional parentheses'' l
             else if (case known of Some previous \<Rightarrow> sa_nullable previous \<noteq> nullable \<or> sa_slice previous \<noteq> is_slice | None \<Rightarrow> False) then
               lower_failed position (macro_conflict name nullable is_slice (the known)) l
             else
               (let call = token_span source start (ts ! 5)
                    (CHR ''$'' # (if tk_Type argument = ''ID_PLAIN'' then tk_Text argument else quotedYQLIdentifier name));
                  spans = (if parenthesized then [token_span source (hd prev) (hd prev) [], call, token_span source (ts ! 6) (ts ! 6) []] else [call]);
                  arguments = (if known \<noteq> None then lw_arguments l else lw_arguments l @
                    [(name, \<lparr>sa_nullable = nullable, sa_slice = is_slice, sa_position = position, sa_start = wr_start call\<rparr>)]) in
                (if parenthesized then 6 else 5,
                 l\<lparr>lw_arguments := arguments, lw_replacements := lw_replacements l @ spans\<rparr>)))))"

definition lower_step :: "queryBlock \<Rightarrow> token list \<Rightarrow> token list \<Rightarrow> lowering \<Rightarrow> nat \<times> lowering" where
  "lower_step block prev ts l =
     (if \<not> macro_head (ts ! 0) (ts ! 1) (ts ! 2) (ts ! 3) \<or> \<not> list_ex (equal_fold (tk_Text (ts ! 2))) [''narg'', ''slice'', ''arg''] then (0, l)
      else lower_call block prev ts l)"

function lower_loop :: "queryBlock \<Rightarrow> token list \<Rightarrow> token list \<Rightarrow> lowering \<Rightarrow> lowering" where
  "lower_loop block prev ts l =
     (if length ts < 4 then l
      else (let (n, l) = lower_step block prev ts l in
        lower_loop block (rev (take (Suc n) ts) @ prev) (drop (Suc n) ts) l))"
  by pat_completeness auto
termination
  by (relation "measure (\<lambda>(b, p, ts, l). length ts)") auto

declare lower_loop.simps [simp del]

text \<open>How far the replacements before an argument move it.\<close>

definition argument_shift :: "wildcardReplacement list \<Rightarrow> nat \<Rightarrow> int" where
  "argument_shift rs start =
     sum_list (map (\<lambda>r. int (length (wr_text r)) - (int (wr_end r) - int (wr_start r))) (takeWhile (\<lambda>r. wr_start r < start) rs))"

definition lowerSQLCArguments :: "antlr_lexer \<Rightarrow> queryBlock \<Rightarrow> Diagnostic list \<times> queryBlock" where
  "lowerSQLCArguments lexer block =
     (if \<not> str_contains (to_lower (qb_text block)) ''sqlc'' then ([], block)
      else (let l = lower_loop block [] (filter significant (fst (lexer (qb_text block)))) \<lparr>lw_arguments = [], lw_replacements = [], lw_diagnostics = []\<rparr> in
        if lw_diagnostics l \<noteq> [] \<or> lw_replacements l = [] then (lw_diagnostics l, block)
        else (let replacements = sorted_replacements (lw_replacements l);
                  text = (case apply_loop (qb_text block) 0 replacements of Inr sql \<Rightarrow> sql | Inl e \<Rightarrow> []);
                  arguments = map (\<lambda>(name, argument). (name, argument\<lparr>sa_position :=
                    positionInSQL (qb_file block) (qb_line block) text (int (sa_start argument) + argument_shift replacements (sa_start argument))\<rparr>))
                    (lw_arguments l)
              in ([], block\<lparr>qb_text := text,
                   qb_sourceMap := [\<lparr>sm_original = qb_text block, sm_rewritten = text, sm_replacements = replacements\<rparr>],
                   qb_arguments := arguments\<rparr>))))"

end
