(* ===== verification/SourceMaps.thy ===== *)
theory SourceMaps
  imports QueryText
begin

text \<open>
  Rewriting the text of a query and finding the way back. \<open>block_index\<close> says where a byte that no
  replacement covers ends up; the scan of lines and columns inverts \<open>positionInSQL\<close>, and
  \<open>original_loop\<close> inverts \<open>block_index\<close>, so a diagnostic on the rewritten text is reported where the
  author wrote the byte.
\<close>

section \<open>Where the bytes go\<close>

fun block_index :: "nat \<Rightarrow> wildcardReplacement list \<Rightarrow> nat \<Rightarrow> nat" where
  "block_index cursor [] i = i - cursor"
| "block_index cursor (r # rs) i =
     (if wr_end r \<le> i then wr_start r - cursor + length (wr_text r) + block_index (wr_end r) rs i else i - cursor)"

definition untouched :: "wildcardReplacement list \<Rightarrow> nat \<Rightarrow> bool" where
  "untouched rs i \<longleftrightarrow> list_all (\<lambda>r. i < wr_start r \<or> wr_end r \<le> i) rs"

fun spans_ok :: "nat \<Rightarrow> nat \<Rightarrow> wildcardReplacement list \<Rightarrow> bool" where
  "spans_ok cursor stop [] \<longleftrightarrow> cursor \<le> stop"
| "spans_ok cursor stop (r # rs) \<longleftrightarrow> cursor \<le> wr_start r \<and> wr_start r \<le> wr_end r \<and> spans_ok (wr_end r) stop rs"

lemma spans_ok_le: "spans_ok cursor stop rs \<Longrightarrow> cursor \<le> stop"
  by (induction cursor stop rs rule: spans_ok.induct) auto

lemma apply_loop_ok: "cursor \<le> length source \<Longrightarrow> \<not> isl (apply_loop source cursor rs) \<longleftrightarrow> spans_ok cursor (length source) rs"
proof (induction source cursor rs rule: apply_loop.induct)
  case (2 source cursor r rs)
  show ?case
  proof (cases "wr_start r < cursor \<or> wr_end r > length source \<or> wr_start r > wr_end r")
    case True
    then show ?thesis using spans_ok_le [of "wr_end r" "length source" rs] by auto
  next
    case False
    with 2 have "\<not> isl (apply_loop source (wr_end r) rs) \<longleftrightarrow> spans_ok (wr_end r) (length source) rs" by simp
    with False show ?thesis by (cases "apply_loop source (wr_end r) rs") auto
  qed
qed simp

lemma apply_loop_spans: "apply_loop source cursor rs = Inr sql \<Longrightarrow> cursor \<le> length source \<Longrightarrow> spans_ok cursor (length source) rs"
  using apply_loop_ok [of cursor source rs] by simp

lemma apply_loop_step:
  assumes "apply_loop source cursor (r # rs) = Inr sql"
  obtains rest where "cursor \<le> wr_start r" "wr_start r \<le> wr_end r" "wr_end r \<le> length source"
    "apply_loop source (wr_end r) rs = Inr rest" "sql = take (wr_start r - cursor) (drop cursor source) @ wr_text r @ rest"
  using assms by (auto split: if_splits simp: and_then_Inr_iff)

lemma apply_loop_nth:
  assumes "apply_loop source cursor rs = Inr sql" "cursor \<le> i" "i < length source" "untouched rs i"
  shows "block_index cursor rs i < length sql \<and> sql ! block_index cursor rs i = source ! i"
  using assms
proof (induction source cursor rs arbitrary: sql rule: apply_loop.induct)
  case (2 source cursor r rs)
  obtain rest where s: "cursor \<le> wr_start r" "wr_start r \<le> wr_end r" "wr_end r \<le> length source"
    "apply_loop source (wr_end r) rs = Inr rest" "sql = take (wr_start r - cursor) (drop cursor source) @ wr_text r @ rest"
    using 2(2) by (rule apply_loop_step)
  have u: "untouched rs i" "i < wr_start r \<or> wr_end r \<le> i" using 2(5) by (auto simp: untouched_def)
  show ?case
  proof (cases "wr_end r \<le> i")
    case True
    from s have "\<not> (wr_start r < cursor \<or> wr_end r > length source \<or> wr_start r > wr_end r)" by simp
    from 2(1) [OF this s(4) True 2(4) u(1)]
    have rest: "block_index (wr_end r) rs i < length rest" "rest ! block_index (wr_end r) rs i = source ! i" by simp_all
    have l: "wr_start r - cursor = length (take (wr_start r - cursor) (drop cursor source))" using s by simp
    have "(xs @ ys @ rest) ! (length xs + length ys + k) = rest ! k" for xs ys :: string and k
      by (simp add: nth_append)
    from this [of "take (wr_start r - cursor) (drop cursor source)" "wr_text r"] l rest s(5) True show ?thesis by simp
  next
    case False
    with u s(1-3) 2(3) have "i - cursor < wr_start r - cursor" by (simp add: diff_less_mono)
    with False s 2(3) show ?thesis by (simp add: nth_append)
  qed
qed simp

lemma apply_loop_length:
  assumes "apply_loop source cursor rs = Inr sql" "cursor \<le> length source"
  shows "length sql + sum_list (map (\<lambda>r. wr_end r - wr_start r) rs) + cursor = length source + sum_list (map (length \<circ> wr_text) rs)"
  using assms
proof (induction source cursor rs arbitrary: sql rule: apply_loop.induct)
  case (2 source cursor r rs)
  obtain rest where s: "cursor \<le> wr_start r" "wr_start r \<le> wr_end r" "wr_end r \<le> length source"
    "apply_loop source (wr_end r) rs = Inr rest" "sql = take (wr_start r - cursor) (drop cursor source) @ wr_text r @ rest"
    using 2(2) by (rule apply_loop_step)
  from s have "\<not> (wr_start r < cursor \<or> wr_end r > length source \<or> wr_start r > wr_end r)" by simp
  from 2(1) [OF this s(4,3)] s show ?case by simp
qed simp

lemma original_loop_new:
  assumes "spans_ok cursor stop rs" "untouched rs i" "cursor \<le> i"
    "index = int cursor + shift + int (block_index cursor rs i)" "orig = index - shift"
  shows "original_loop index shift orig rs = int i"
  using assms
proof (induction rs arbitrary: cursor shift orig)
  case (Cons r rs)
  from Cons.prems have u: "untouched rs i" "i < wr_start r \<or> wr_end r \<le> i"
    and o: "cursor \<le> wr_start r" "wr_start r \<le> wr_end r" "spans_ok (wr_end r) stop rs"
    by (auto simp: untouched_def)
  show ?case
  proof (cases "wr_end r \<le> i")
    case False
    with u Cons.prems(3-5) show ?thesis by (simp add: Let_def)
  next
    case True
    let ?shift = "shift + (int (length (wr_text r)) - (int (wr_end r) - int (wr_start r)))"
    have i: "index = int (wr_end r) + ?shift + int (block_index (wr_end r) rs i)"
      using Cons.prems(4) True o by simp
    have "original_loop index ?shift (index - ?shift) rs = int i"
      by (rule Cons.IH [OF o(3) u(1) True i refl])
    moreover have "\<not> index < int (wr_start r) + shift" "\<not> index < int (wr_start r) + shift + int (length (wr_text r))"
      using i by simp_all
    ultimately show ?thesis by (simp add: Let_def)
  qed
qed simp

section \<open>Lines and columns\<close>

definition position_less :: "int \<times> int \<Rightarrow> int \<times> int \<Rightarrow> bool" where
  "position_less p q \<longleftrightarrow> fst p < fst q \<or> (fst p = fst q \<and> snd p < snd q)"

lemma position_less_next: "position_less p (next_position rune p)"
  by (simp add: position_less_def next_position_def)

lemma position_less_trans: "position_less p q \<Longrightarrow> position_less q r \<Longrightarrow> position_less p r"
  by (auto simp: position_less_def)

lemma position_less_irrefl [simp]: "\<not> position_less p p"
  by (simp add: position_less_def)

lemma advance_Nil [simp]: "advance p [] = p"
  by (simp add: advance.simps)

lemma advance_step:
  "s \<noteq> [] \<Longrightarrow> advance p s = advance (next_position (fst (decode_rune s)) p) (drop (max 1 (snd (decode_rune s))) s)"
  by (subst advance.simps) (simp add: case_prod_unfold Let_def)

lemma advance_greater: "s \<noteq> [] \<Longrightarrow> position_less p (advance p s)"
proof (induction p s rule: advance.induct)
  case (1 p s)
  let ?q = "next_position (fst (decode_rune s)) p" and ?t = "drop (max 1 (snd (decode_rune s))) s"
  have "?t = [] \<or> position_less ?q (advance ?q ?t)"
    using 1(1) [OF 1(2) refl prod.collapse] by blast
  then have "position_less p (advance ?q ?t)"
    using position_less_next [of p "fst (decode_rune s)"] position_less_trans by (metis advance_Nil)
  then show ?case by (simp add: advance_step [OF 1(2)])
qed

text \<open>The offsets at which a rune of the text starts, or the text ends.\<close>

function rune_boundary :: "nat \<Rightarrow> string \<Rightarrow> bool" where
  "rune_boundary n s =
     (if n = 0 then True else if s = [] \<or> n < max 1 (snd (decode_rune s)) then False
      else rune_boundary (n - max 1 (snd (decode_rune s))) (drop (max 1 (snd (decode_rune s))) s))"
  by pat_completeness auto
termination
  by (relation "measure (\<lambda>(n, s). length s)") auto

declare rune_boundary.simps [simp del]

lemma utf8_width_append: "utf8_width xs \<noteq> 0 \<Longrightarrow> utf8_width (xs @ ys) = utf8_width xs"
  by (cases xs) (auto simp: utf8_width.simps split: if_splits list.splits)

lemma utf8_width_take: "utf8_width xs \<le> n \<Longrightarrow> utf8_width (take n xs) = utf8_width xs"
proof (cases "utf8_width xs = 0")
  case True
  show ?thesis
  proof (rule ccontr)
    assume "utf8_width (take n xs) \<noteq> utf8_width xs"
    with True have "utf8_width (take n xs @ drop n xs) \<noteq> 0" by (subst utf8_width_append) simp_all
    with True show False by simp
  qed
next
  case False
  assume "utf8_width xs \<le> n"
  with False show ?thesis
    by (cases xs; cases "tl xs"; cases "tl (tl xs)"; cases "tl (tl (tl xs))"; cases n; cases "n - 1"; cases "n - 2"; cases "n - 3")
      (auto simp: utf8_width.simps split: if_splits)
qed

lemma decode_rune_take:
  assumes "max 1 (snd (decode_rune s)) \<le> n"
  shows "decode_rune (take n s) = decode_rune s"
proof -
  define w where "w = utf8_width (map byte s)"
  have range: "w \<in> {0, 1, 2, 3, 4}"
    unfolding w_def by (cases "map byte s") (auto simp: utf8_width.simps split: if_splits list.splits)
  have sz: "snd (decode_rune s) = (if w = 0 then 1 else w)"
    using range by (auto simp: decode_rune_def Let_def w_def [symmetric])
  have "w \<le> n" using assms sz by (auto split: if_splits)
  then have "utf8_width (map byte (take n s)) = w"
    using utf8_width_take [of "map byte s" n] by (simp add: take_map w_def)
  moreover have "take n s ! k = s ! k" if "k < w" for k using that \<open>w \<le> n\<close> by simp
  ultimately show ?thesis using range
    by (auto simp: decode_rune_def Let_def w_def [symmetric])
qed

lemma scan_advance:
  "rune_boundary n s \<Longrightarrow> scan_position (advance p (take n s)) p index s = index + n"
proof (induction n s arbitrary: p index rule: rune_boundary.induct)
  case (1 n s)
  show ?case
  proof (cases "n = 0")
    case True
    then show ?thesis by (simp add: scan_position.simps)
  next
    case False
    define w where "w = max 1 (snd (decode_rune s))"
    from 1(2) False have b: "s \<noteq> []" "w \<le> n" "rune_boundary (n - w) (drop w s)"
      unfolding w_def by (auto simp: rune_boundary.simps [of n s] split: if_splits)
    then have nb: "\<not> (s = [] \<or> n < max 1 (snd (decode_rune s)))" unfolding w_def [symmetric] by (simp add: not_less)
    have w: "max (Suc 0) (snd (decode_rune s)) = w" by (simp add: w_def)
    have t: "take n s \<noteq> []" using False b by simp
    have d: "decode_rune (take n s) = decode_rune s" by (rule decode_rune_take) (use b in \<open>simp add: w_def\<close>)
    let ?q = "next_position (fst (decode_rune s)) p"
    have a: "advance p (take n s) = advance ?q (take (n - w) (drop w s))"
      by (subst advance_step [OF t]) (simp add: d w drop_take)
    have "scan_position (advance ?q (take (n - w) (drop w s))) ?q (index + w) (drop w s) = index + w + (n - w)"
      using 1(1) [OF False nb] b(2,3) by (simp add: w_def)
    moreover have "position_less p (advance p (take n s))" by (rule advance_greater [OF t])
    ultimately show ?thesis
      using b by (subst scan_position.simps) (simp add: a position_less_def w case_prod_unfold Let_def)
  qed
qed

section \<open>There and back\<close>

lemma untouched_sorted [simp]: "untouched (sorted_replacements rs) i = untouched rs i"
  by (simp add: untouched_def sorted_replacements_def list_all_iff)

lemma sum_sorted: "sum_list (map f (sorted_replacements rs)) = sum_list (map (f :: _ \<Rightarrow> nat) rs)"
  unfolding sorted_replacements_def
  by (metis mset_map mset_sort sum_mset_sum_list)

text \<open>
  C6: replacing spans of the query text succeeds exactly when the spans, in the order of their starts, lie
  within the text and do not overlap; the text then changes its length by what the replacements add and
  remove, and every byte that no span covers is still there, at its new index.
\<close>

theorem rewrite_keeps:
  "case apply_rewrites r of
     Inl e \<Rightarrow> \<not> spans_ok 0 (length (ww_source r)) (sorted_replacements (ww_replacements r))
   | Inr sql \<Rightarrow> spans_ok 0 (length (ww_source r)) (sorted_replacements (ww_replacements r))
       \<and> length sql + sum_list (map (\<lambda>s. wr_end s - wr_start s) (ww_replacements r))
           = length (ww_source r) + sum_list (map (length \<circ> wr_text) (ww_replacements r))
       \<and> {i. i < length (ww_source r) \<and> untouched (ww_replacements r) i}
           \<subseteq> {i. sql ! block_index 0 (sorted_replacements (ww_replacements r)) i = ww_source r ! i}"
proof (cases "apply_rewrites r")
  case (Inl e)
  then show ?thesis using apply_loop_ok [of 0 "ww_source r" "sorted_replacements (ww_replacements r)"] by (simp add: apply_rewrites_def)
next
  case (Inr sql)
  then have a: "apply_loop (ww_source r) 0 (sorted_replacements (ww_replacements r)) = Inr sql" by (simp add: apply_rewrites_def)
  show ?thesis
    using apply_loop_spans [OF a] apply_loop_length [OF a] apply_loop_nth [OF a]
    by (auto simp: Inr sum_sorted)
qed

text \<open>
  C5: a diagnostic on the rewritten text of a query is reported where the author wrote the byte: the line
  and column of a byte that no replacement covers are taken back to the line and column of that byte in
  the original text, whatever the spans before it, and also where runes have several bytes.
\<close>

theorem diagnostic_maps_back:
  assumes "apply_rewrites r = Inr sql" "untouched (ww_replacements r) i"
    "rune_boundary (block_index 0 (sorted_replacements (ww_replacements r)) i) sql"
  shows "original_position block
      (positionInSQL (qb_file block) (qb_line block) sql (int (block_index 0 (sorted_replacements (ww_replacements r)) i)))
      \<lparr>sm_original = ww_source r, sm_rewritten = sql, sm_replacements = sorted_replacements (ww_replacements r)\<rparr>
    = positionInSQL (qb_file block) (qb_line block) (ww_source r) (int i)"
proof -
  let ?rs = "sorted_replacements (ww_replacements r)"
  let ?n = "block_index 0 ?rs i"
  have s: "spans_ok 0 (length (ww_source r)) ?rs" using assms(1) apply_loop_spans by (simp add: apply_rewrites_def)
  have o: "original_loop (int ?n) 0 (int ?n) ?rs = int i"
    by (rule original_loop_new [OF s]) (simp_all add: assms(2))
  have c: "scan_position (advance (qb_line block, 1) (take ?n sql)) (qb_line block, 1) 0 sql = ?n"
    using scan_advance [OF assms(3), of "(qb_line block, 1)" 0] by simp
  show ?thesis
    by (simp add: original_position_def positionInSQL_def case_prod_unfold Let_def c o)
qed

definition sample_rewrites :: wildcardRewrites where
  "sample_rewrites = \<lparr>ww_source = ''SELECT sqlc.arg(x) FROM t'', ww_replacements = [\<lparr>wr_start = 7, wr_end = 18, wr_text = ''$x''\<rparr>],
     ww_embeds = [], ww_embedCore = None, ww_usedEmbeds = [], ww_usedEmbedArgs = []\<rparr>"

lemma diagnostic_maps_back_witness:
  "original_position ((empty_block \<lparr>pk_group_names = (\<lambda>_. Inr []), pk_parse_float = (\<lambda>_ _. True), pk_fold = (\<lambda>r. r)\<rparr>)\<lparr>qb_line := 1\<rparr>)
      (positionInSQL [] 1 ''SELECT $x FROM t'' 10)
      \<lparr>sm_original = ww_source sample_rewrites, sm_rewritten = ''SELECT $x FROM t'',
        sm_replacements = sorted_replacements (ww_replacements sample_rewrites)\<rparr>
    = positionInSQL [] 1 (ww_source sample_rewrites) 19"
proof -
  have "apply_rewrites sample_rewrites = Inr ''SELECT $x FROM t''" by code_simp
  moreover have "untouched (ww_replacements sample_rewrites) 19" by code_simp
  moreover have n: "block_index 0 (sorted_replacements (ww_replacements sample_rewrites)) 19 = 10" by code_simp
  moreover have "rune_boundary 10 ''SELECT $x FROM t''" by code_simp
  ultimately show ?thesis
    using diagnostic_maps_back [of sample_rewrites "''SELECT $x FROM t''" 19
        "(empty_block \<lparr>pk_group_names = (\<lambda>_. Inr []), pk_parse_float = (\<lambda>_ _. True), pk_fold = (\<lambda>r. r)\<rparr>)\<lparr>qb_line := 1\<rparr>"]
    by (simp add: empty_block_def)
qed

end
