(* ===== verification/CatalogMemory.thy ===== *)
theory CatalogMemory
  imports SchemaCatalog
begin

text \<open>
  ALTER TABLE on Go slices. \<open>SchemaCatalog\<close> gives the statement as a function on tables; the code clones the
  table (\<open>cloneTable\<close>) and then writes into the arrays of its slices, some of them in place. Here the slices
  are what they are in Go, a window into an array that other slices may share, and the clone is an operation
  on memory. The refinement shows that the writes reach the clone only, so that a statement that fails
  leaves every table of the catalog as it was. How much \<open>append\<close> allocates is the parameter \<open>grow\<close>.
\<close>

section \<open>Arrays and slices\<close>

text \<open>The arrays of one element type: the first free address, and the cells of each array.\<close>

record 'a arena =
  ar_next :: nat
  ar_cells :: "nat \<Rightarrow> nat \<Rightarrow> 'a"

record slice =
  sl_array :: nat
  sl_len :: nat
  sl_cap :: nat

definition elements :: "'a arena \<Rightarrow> slice \<Rightarrow> 'a list" where
  "elements m s = map (ar_cells m (sl_array s)) [0..<sl_len s]"

fun store_list :: "nat \<Rightarrow> nat \<Rightarrow> 'a list \<Rightarrow> 'a arena \<Rightarrow> 'a arena" where
  "store_list a i [] m = m"
| "store_list a i (x # xs) m =
     store_list a (Suc i) xs (m\<lparr>ar_cells := (ar_cells m)(a := (ar_cells m a)(i := x))\<rparr>)"

definition allocate :: "(nat \<Rightarrow> nat) \<Rightarrow> 'a list \<Rightarrow> 'a arena \<Rightarrow> 'a arena \<times> slice" where
  "allocate grow xs m =
     (store_list (ar_next m) 0 xs (m\<lparr>ar_next := Suc (ar_next m)\<rparr>),
      \<lparr>sl_array = ar_next m, sl_len = length xs, sl_cap = max (length xs) (grow (length xs))\<rparr>)"

text \<open>\<open>append(s, x)\<close>: in place while the capacity lasts, else in a new array.\<close>

definition append_one :: "(nat \<Rightarrow> nat) \<Rightarrow> slice \<Rightarrow> 'a \<Rightarrow> 'a arena \<Rightarrow> 'a arena \<times> slice" where
  "append_one grow s x m =
     (if sl_len s < sl_cap s then (store_list (sl_array s) (sl_len s) [x] m, s\<lparr>sl_len := Suc (sl_len s)\<rparr>)
      else allocate grow (elements m s @ [x]) m)"

text \<open>\<open>append([]T(nil), s...)\<close>: nil for an empty slice, else a new array.\<close>

definition copy_slice :: "(nat \<Rightarrow> nat) \<Rightarrow> slice \<Rightarrow> 'a arena \<Rightarrow> 'a arena \<times> slice" where
  "copy_slice grow s m =
     (if elements m s = [] then (m, \<lparr>sl_array = 0, sl_len = 0, sl_cap = 0\<rparr>) else allocate grow (elements m s) m)"

text \<open>\<open>append(s[:i], s[i+1:]...)\<close>: the elements after \<open>i\<close> move one cell down, in place.\<close>

definition remove_cell :: "slice \<Rightarrow> nat \<Rightarrow> 'a arena \<Rightarrow> 'a arena \<times> slice" where
  "remove_cell s i m =
     (store_list (sl_array s) i (drop (Suc i) (elements m s)) m, s\<lparr>sl_len := sl_len s - 1\<rparr>)"

section \<open>Tables in memory\<close>

record memory =
  mm_columns :: "Column arena"
  mm_keys :: "string arena"
  mm_indexes :: "Index arena"

record memTable =
  mt_Name :: string
  mt_Columns :: slice
  mt_PrimaryKey :: slice
  mt_Indexes :: slice

definition load :: "memory \<Rightarrow> memTable \<Rightarrow> Table" where
  "load mem t =
     \<lparr>tb_Name = mt_Name t, tb_Columns = elements (mm_columns mem) (mt_Columns t),
      tb_PrimaryKey = elements (mm_keys mem) (mt_PrimaryKey t), tb_Indexes = elements (mm_indexes mem) (mt_Indexes t)\<rparr>"

definition load_catalog :: "memory \<Rightarrow> memTable list \<Rightarrow> Catalog" where
  "load_catalog mem tables = \<lparr>cat_Tables = map (load mem) tables\<rparr>"

definition cloneTable :: "(nat \<Rightarrow> nat) \<Rightarrow> memory \<Rightarrow> memTable \<Rightarrow> memory \<times> memTable" where
  "cloneTable grow mem t =
     (let (columns, cs) = copy_slice grow (mt_Columns t) (mm_columns mem);
          (keys, ks) = copy_slice grow (mt_PrimaryKey t) (mm_keys mem);
          (indexes, xs) = copy_slice grow (mt_Indexes t) (mm_indexes mem) in
      (\<lparr>mm_columns = columns, mm_keys = keys, mm_indexes = indexes\<rparr>,
       \<lparr>mt_Name = mt_Name t, mt_Columns = cs, mt_PrimaryKey = ks, mt_Indexes = xs\<rparr>))"

section \<open>ALTER TABLE\<close>

type_synonym altered = "memory \<times> (Diagnostic + memTable)"

definition memory_add_index :: "(nat \<Rightarrow> nat) \<Rightarrow> memory \<Rightarrow> string \<Rightarrow> memTable \<Rightarrow> tree \<Rightarrow> altered" where
  "memory_add_index grow mem file table add =
     (case new_index (\<lambda>index. Errorf ''index %q already exists in table %q'' [FStr (ix_Name index), FStr (mt_Name table)])
         (load mem table) (rule_of ''Table_index'' add) of
        Inl err \<Rightarrow> (mem, Inl (diagnosticAt file 0 (Some add) (error_text err)))
      | Inr index \<Rightarrow>
          (let (indexes, s) = append_one grow (mt_Indexes table) index (mm_indexes mem) in
           (mem\<lparr>mm_indexes := indexes\<rparr>, Inr (table\<lparr>mt_Indexes := s\<rparr>))))"

definition memory_drop_index :: "memory \<Rightarrow> string \<Rightarrow> memTable \<Rightarrow> tree \<Rightarrow> altered" where
  "memory_drop_index mem file table drop' =
     (let name = identifier_of (GetText (rule_of ''An_id'' drop')) in
      case catalogIndexPosition (load mem table) name of
        None \<Rightarrow> (mem, Inl (diagnosticAt file 0 (Some drop')
          (sprintf ''index %q does not exist in table %q'' [FStr name, FStr (mt_Name table)])))
      | Some index \<Rightarrow>
          (let (indexes, s) = remove_cell (mt_Indexes table) index (mm_indexes mem) in
           (mem\<lparr>mm_indexes := indexes\<rparr>, Inr (table\<lparr>mt_Indexes := s\<rparr>))))"

definition memory_add_column :: "(nat \<Rightarrow> nat) \<Rightarrow> memory \<Rightarrow> string \<Rightarrow> memTable \<Rightarrow> tree \<Rightarrow> altered" where
  "memory_add_column grow mem file table add =
     (let schema = rule_of ''Column_schema'' add in
      case catalogColumn (mt_Name table) schema of
        Inl err \<Rightarrow> (mem, Inl (diagnosticAt file 0 (Some add) (error_text err)))
      | Inr column \<Rightarrow>
          if catalogColumnIndex (load mem table) (col_Name column) \<noteq> None then
            (mem, Inl (diagnosticAt file 0 (Some schema)
              (sprintf ''column %q already exists in table %q'' [FStr (col_Name column), FStr (mt_Name table)])))
          else if col_SequenceGenerated column then
            (mem, Inl (diagnosticAt file 0 (Some schema) (serialPrimaryKeyError (col_Name column))))
          else (let (columns, s) = append_one grow (mt_Columns table) column (mm_columns mem) in
            (mem\<lparr>mm_columns := columns\<rparr>, Inr (table\<lparr>mt_Columns := s\<rparr>))))"

definition memory_drop_column :: "memory \<Rightarrow> string \<Rightarrow> memTable \<Rightarrow> tree \<Rightarrow> altered" where
  "memory_drop_column mem file table drop' =
     (let name = identifier_of (GetText (rule_of ''An_id'' drop')); at = diagnosticAt file 0 (Some drop') in
      case catalogColumnIndex (load mem table) name of
        None \<Rightarrow> (mem, Inl (at (sprintf ''column %q does not exist in table %q'' [FStr name, FStr (mt_Name table)])))
      | Some columnIndex \<Rightarrow>
          if List.member (tb_PrimaryKey (load mem table)) name then
            (mem, Inl (at (sprintf ''cannot drop primary key column %q from table %q'' [FStr name, FStr (mt_Name table)])))
          else (case List.find (\<lambda>index. List.member (ix_Columns index) name \<or> List.member (ix_DataColumns index) name)
                  (tb_Indexes (load mem table)) of
              Some index \<Rightarrow>
                (mem, Inl (at (sprintf ''cannot drop column %q used by index %q; drop the index first'' [FStr name, FStr (ix_Name index)])))
            | None \<Rightarrow>
                (let (columns, s) = remove_cell (mt_Columns table) columnIndex (mm_columns mem) in
                 (mem\<lparr>mm_columns := columns\<rparr>, Inr (table\<lparr>mt_Columns := s\<rparr>)))))"

text \<open>An assignment to a field of \<open>table.Columns[i]\<close> writes the cell.\<close>

definition memory_drop_not_null :: "memory \<Rightarrow> string \<Rightarrow> memTable \<Rightarrow> tree \<Rightarrow> altered" where
  "memory_drop_not_null mem file table drop' =
     (let name = identifier_of (GetText (rule_of ''An_id'' drop')) in
      case catalogColumnIndex (load mem table) name of
        None \<Rightarrow> (mem, Inl (diagnosticAt file 0 (Some drop')
          (sprintf ''column %q does not exist in table %q'' [FStr name, FStr (mt_Name table)])))
      | Some i \<Rightarrow>
          (let column = tb_Columns (load mem table) ! i in
           if IsOptional (col_Type column) then (mem, Inr table)
           else (mem\<lparr>mm_columns := store_list (sl_array (mt_Columns table)) i
               [column\<lparr>col_Type := Optional (col_Type column)\<rparr>] (mm_columns mem)\<rparr>, Inr table)))"

text \<open>The loop over the columns, from the cell \<open>i\<close> on with \<open>n\<close> cells to go.\<close>

fun rename_cells :: "slice \<Rightarrow> string \<Rightarrow> nat \<Rightarrow> nat \<Rightarrow> Column arena \<Rightarrow> Column arena" where
  "rename_cells s name i 0 m = m"
| "rename_cells s name i (Suc n) m =
     rename_cells s name (Suc i) n
       (store_list (sl_array s) i [(ar_cells m (sl_array s) i)\<lparr>col_Table := name\<rparr>] m)"

definition memory_rename :: "memory \<Rightarrow> memTable list \<Rightarrow> nat \<Rightarrow> string \<Rightarrow> string \<Rightarrow> memTable \<Rightarrow> tree \<Rightarrow> altered" where
  "memory_rename mem tables tableIndex file prefix table rename =
     (let newName = resolveTablePath prefix (identifier_of (GetText (rule_of ''An_id_table'' rename))) in
      if (case catalogTableIndex (load_catalog mem tables) newName of Some other \<Rightarrow> other \<noteq> tableIndex | None \<Rightarrow> False) then
        (mem, Inl (diagnosticAt file 0 (Some rename) (sprintf ''table %q already exists'' [FStr newName])))
      else (mem\<lparr>mm_columns := rename_cells (mt_Columns table) newName 0 (sl_len (mt_Columns table)) (mm_columns mem)\<rparr>,
        Inr (table\<lparr>mt_Name := newName\<rparr>)))"

definition memory_action ::
  "(nat \<Rightarrow> nat) \<Rightarrow> memTable list \<Rightarrow> nat \<Rightarrow> string \<Rightarrow> string \<Rightarrow> memory \<Rightarrow> memTable \<Rightarrow> tree \<Rightarrow> altered" where
  "memory_action grow tables tableIndex file prefix mem table action =
     (case rule_opt ''Alter_table_add_index'' action of Some add \<Rightarrow> memory_add_index grow mem file table add | None \<Rightarrow>
     (case rule_opt ''Alter_table_drop_index'' action of Some drop' \<Rightarrow> memory_drop_index mem file table drop' | None \<Rightarrow>
     (case rule_opt ''Alter_table_add_column'' action of Some add \<Rightarrow> memory_add_column grow mem file table add | None \<Rightarrow>
     (case rule_opt ''Alter_table_drop_column'' action of Some drop' \<Rightarrow> memory_drop_column mem file table drop' | None \<Rightarrow>
     (case rule_opt ''Alter_table_alter_column_drop_not_null'' action of Some drop' \<Rightarrow> memory_drop_not_null mem file table drop' | None \<Rightarrow>
     (case rule_opt ''Alter_table_rename_to'' action of Some rename \<Rightarrow> memory_rename mem tables tableIndex file prefix table rename | None \<Rightarrow>
       (mem, Inl (diagnosticAt file 0 (Some action) (sprintf ''unsupported ALTER TABLE action %q; supported actions are ADD COLUMN, DROP COLUMN, ALTER COLUMN ... DROP NOT NULL, ADD INDEX, DROP INDEX, and RENAME TO''
         [FStr (GetText action)])))))))))"

fun memory_actions ::
  "(nat \<Rightarrow> nat) \<Rightarrow> memTable list \<Rightarrow> nat \<Rightarrow> string \<Rightarrow> string \<Rightarrow> memory \<Rightarrow> memTable \<Rightarrow> tree list \<Rightarrow> altered" where
  "memory_actions grow tables tableIndex file prefix mem working [] = (mem, Inr working)"
| "memory_actions grow tables tableIndex file prefix mem working (action # actions) =
     (case memory_action grow tables tableIndex file prefix mem working action of
        (mem', Inl d) \<Rightarrow> (mem', Inl d)
      | (mem', Inr working') \<Rightarrow> memory_actions grow tables tableIndex file prefix mem' working' actions)"

text \<open>The memory and the tables of the catalog after the statement, and its diagnostics.\<close>

definition memory_alter ::
  "(nat \<Rightarrow> nat) \<Rightarrow> memory \<Rightarrow> memTable list \<Rightarrow> string \<Rightarrow> string \<Rightarrow> tree \<Rightarrow> memory \<times> memTable list \<times> Diagnostic list" where
  "memory_alter grow mem tables file prefix alter =
     (let name = resolveTablePath prefix (simpleTableName (rule_opt ''Simple_table_ref'' alter));
          at = diagnosticAt file 0 (Some alter); actions = rules ''Alter_table_action'' alter in
      if name = [] then (mem, tables, [at ''ALTER TABLE has no resolvable table name''])
      else (case catalogTableIndex (load_catalog mem tables) name of
          None \<Rightarrow> (mem, tables, [at (sprintf ''table %q does not exist'' [FStr name])])
        | Some index \<Rightarrow>
            (let (mem, working) = cloneTable grow mem (tables ! index) in
             case (if length actions > 1 then List.find (has_rule ''Alter_table_rename_to'') actions else None) of
               Some action \<Rightarrow>
                 (mem, tables, [diagnosticAt file 0 (Some action) ''RENAME TO must be the only action in an ALTER TABLE statement''])
             | None \<Rightarrow>
                 (case memory_actions grow tables index file prefix mem working actions of
                    (mem', Inl d) \<Rightarrow> (mem', tables, [d])
                  | (mem', Inr working') \<Rightarrow> (mem', tables[index := working'], [])))))"

section \<open>What a write reaches\<close>

lemma elements_length [simp]: "length (elements m s) = sl_len s"
  by (simp add: elements_def)

lemma elements_empty [simp]: "elements m \<lparr>sl_array = a, sl_len = 0, sl_cap = c\<rparr> = []"
  by (simp add: elements_def)

lemma elements_nth [simp]: "i < sl_len s \<Longrightarrow> elements m s ! i = ar_cells m (sl_array s) i"
  by (simp add: elements_def)

lemma store_list_next [simp]: "ar_next (store_list a i xs m) = ar_next m"
  by (induction xs arbitrary: i m) simp_all

lemma store_list_cells:
  "ar_cells (store_list a i xs m) b j =
     (if b = a \<and> i \<le> j \<and> j < i + length xs then xs ! (j - i) else ar_cells m b j)"
  by (induction xs arbitrary: i m) (auto simp: nth_Cons' not_less_eq_eq)

text \<open>
  \<open>proper\<close>: a slice with a legal length whose array is allocated, if it has one. \<open>own lim\<close>: and that array is not among the
  first \<open>lim\<close>. \<open>kept lim\<close>: those arrays are the same in both memories.
\<close>

definition proper :: "'a arena \<Rightarrow> slice \<Rightarrow> bool" where
  "proper m s \<longleftrightarrow> sl_len s \<le> sl_cap s \<and> (sl_cap s = 0 \<or> sl_array s < ar_next m)"

definition own :: "nat \<Rightarrow> 'a arena \<Rightarrow> slice \<Rightarrow> bool" where
  "own lim m s \<longleftrightarrow> proper m s \<and> (sl_cap s = 0 \<or> lim \<le> sl_array s)"

definition kept :: "nat \<Rightarrow> 'a arena \<Rightarrow> 'a arena \<Rightarrow> bool" where
  "kept lim m m' \<longleftrightarrow> lim \<le> ar_next m \<and> ar_next m \<le> ar_next m' \<and> (\<forall>a<lim. ar_cells m' a = ar_cells m a)"

text \<open>A step on a slice: the elements after it, still in an own array, and nothing else has changed.\<close>

definition step_ok :: "nat \<Rightarrow> 'a arena \<Rightarrow> 'a list \<Rightarrow> 'a arena \<times> slice \<Rightarrow> bool" where
  "step_ok lim m xs r \<longleftrightarrow> (case r of (m', s') \<Rightarrow> elements m' s' = xs \<and> own lim m' s' \<and> kept lim m m')"

lemma kept_refl [simp]: "kept lim m m \<longleftrightarrow> lim \<le> ar_next m"
  by (simp add: kept_def)

lemma kept_trans: "kept lim m m' \<Longrightarrow> kept lim m' m'' \<Longrightarrow> kept lim m m''"
  by (simp add: kept_def)

lemma kept_elements:
  assumes "kept (ar_next m) m m'" "proper m s"
  shows "elements m' s = elements m s" "proper m' s"
  using assms by (auto simp: kept_def proper_def elements_def)

lemma allocate_ok: "lim \<le> ar_next m \<Longrightarrow> step_ok lim m xs (allocate grow xs m)"
  by (auto simp: step_ok_def allocate_def own_def proper_def kept_def store_list_cells fun_eq_iff intro!: nth_equalityI)

lemma append_one_ok:
  assumes "own lim m s" "lim \<le> ar_next m"
  shows "step_ok lim m (elements m s @ [x]) (append_one grow s x m)"
proof (cases "sl_len s < sl_cap s")
  case True
  with assms show ?thesis
    by (auto simp: step_ok_def append_one_def own_def proper_def kept_def store_list_cells fun_eq_iff nth_append
        intro!: nth_equalityI simp del: store_list.simps)
next
  case False
  with allocate_ok [OF assms(2)] show ?thesis by (simp add: append_one_def)
qed

lemma copy_slice_ok: "lim \<le> ar_next m \<Longrightarrow> step_ok lim m (elements m s) (copy_slice grow s m)"
  using allocate_ok [of lim m "elements m s" grow]
  by (auto simp: copy_slice_def step_ok_def own_def proper_def)

lemma remove_cell_ok:
  assumes "own lim m s" "lim \<le> ar_next m" "i < sl_len s"
  shows "step_ok lim m (remove_at i (elements m s)) (remove_cell s i m)"
  using assms
  by (auto simp: step_ok_def remove_cell_def own_def proper_def kept_def store_list_cells fun_eq_iff nth_append remove_at_def
      intro!: nth_equalityI)

lemma store_cell_ok:
  assumes "own lim m s" "lim \<le> ar_next m" "i < sl_len s"
  shows "step_ok lim m ((elements m s)[i := x]) (store_list (sl_array s) i [x] m, s)"
  using assms
  by (auto simp: step_ok_def own_def proper_def kept_def store_list_cells fun_eq_iff nth_list_update
      intro!: nth_equalityI simp del: store_list.simps)

section \<open>The working table\<close>

text \<open>\<open>memory_kept mem0 mem\<close>: the arrays of \<open>mem0\<close> are as they were. \<open>apart\<close>: the slices of a table are in other arrays.\<close>

definition memory_kept :: "memory \<Rightarrow> memory \<Rightarrow> bool" where
  "memory_kept mem0 mem \<longleftrightarrow>
     kept (ar_next (mm_columns mem0)) (mm_columns mem0) (mm_columns mem)
   \<and> kept (ar_next (mm_keys mem0)) (mm_keys mem0) (mm_keys mem)
   \<and> kept (ar_next (mm_indexes mem0)) (mm_indexes mem0) (mm_indexes mem)"

definition apart :: "memory \<Rightarrow> memory \<Rightarrow> memTable \<Rightarrow> bool" where
  "apart mem0 mem t \<longleftrightarrow>
     own (ar_next (mm_columns mem0)) (mm_columns mem) (mt_Columns t)
   \<and> own (ar_next (mm_keys mem0)) (mm_keys mem) (mt_PrimaryKey t)
   \<and> own (ar_next (mm_indexes mem0)) (mm_indexes mem) (mt_Indexes t)"

text \<open>An action in memory does what the function on tables does, away from \<open>mem0\<close>.\<close>

definition altered_ok :: "memory \<Rightarrow> Diagnostic + Table \<Rightarrow> altered \<Rightarrow> bool" where
  "altered_ok mem0 expected r \<longleftrightarrow>
     (case r of
        (mem, Inl d) \<Rightarrow> memory_kept mem0 mem \<and> expected = Inl d
      | (mem, Inr t) \<Rightarrow> memory_kept mem0 mem \<and> apart mem0 mem t \<and> expected = Inr (load mem t))"

lemma load_fields [simp]:
  "tb_Name (load mem t) = mt_Name t" "tb_Columns (load mem t) = elements (mm_columns mem) (mt_Columns t)"
  "tb_PrimaryKey (load mem t) = elements (mm_keys mem) (mt_PrimaryKey t)"
  "tb_Indexes (load mem t) = elements (mm_indexes mem) (mt_Indexes t)"
  by (simp_all add: load_def)

lemma kept_limit: "kept lim m m' \<Longrightarrow> lim \<le> ar_next m'"
  by (simp add: kept_def)

lemma columns_step:
  assumes "apart mem0 mem t" "memory_kept mem0 mem" "step_ok (ar_next (mm_columns mem0)) (mm_columns mem) xs r"
  shows "altered_ok mem0 (Inr ((load mem t)\<lparr>tb_Columns := xs\<rparr>)) (mem\<lparr>mm_columns := fst r\<rparr>, Inr (t\<lparr>mt_Columns := snd r\<rparr>))"
  using assms kept_trans by (cases r) (fastforce simp: altered_ok_def apart_def memory_kept_def step_ok_def load_def)

lemma indexes_step:
  assumes "apart mem0 mem t" "memory_kept mem0 mem" "step_ok (ar_next (mm_indexes mem0)) (mm_indexes mem) xs r"
  shows "altered_ok mem0 (Inr ((load mem t)\<lparr>tb_Indexes := xs\<rparr>)) (mem\<lparr>mm_indexes := fst r\<rparr>, Inr (t\<lparr>mt_Indexes := snd r\<rparr>))"
  using assms kept_trans by (cases r) (fastforce simp: altered_ok_def apart_def memory_kept_def step_ok_def load_def)

lemma apart_owns:
  assumes "apart mem0 mem t" "memory_kept mem0 mem"
  shows "own (ar_next (mm_columns mem0)) (mm_columns mem) (mt_Columns t)"
    "own (ar_next (mm_indexes mem0)) (mm_indexes mem) (mt_Indexes t)"
    "ar_next (mm_columns mem0) \<le> ar_next (mm_columns mem)" "ar_next (mm_indexes mem0) \<le> ar_next (mm_indexes mem)"
  using assms by (simp_all add: apart_def memory_kept_def kept_def)

lemma find_index_bound: "find_index P (elements m s) = Some i \<Longrightarrow> i < sl_len s"
  by (simp add: find_index_Some_iff)

lemma altered_refused: "memory_kept mem0 mem \<Longrightarrow> altered_ok mem0 (Inl d) (mem, Inl d)"
  by (simp add: altered_ok_def)

lemma memory_add_index_ok:
  assumes "apart mem0 mem t" "memory_kept mem0 mem"
  shows "altered_ok mem0 (alter_add_index file (load mem t) add) (memory_add_index grow mem file t add)"
proof -
  note a = indexes_step [OF assms append_one_ok [OF apart_owns(2,4) [OF assms]]]
  show ?thesis using a [where x1 = x and grow1 = grow for x] altered_refused [OF assms(2)]
    by (simp add: alter_add_index_def memory_add_index_def split_beta split: sum.split)
qed

lemma memory_drop_index_ok:
  assumes "apart mem0 mem t" "memory_kept mem0 mem"
  shows "altered_ok mem0 (alter_drop_index file (load mem t) d) (memory_drop_index mem file t d)"
proof -
  note a = indexes_step [OF assms remove_cell_ok [OF apart_owns(2,4) [OF assms]]]
  show ?thesis using a altered_refused [OF assms(2)]
    by (auto simp: alter_drop_index_def memory_drop_index_def Let_def split_beta catalogIndexPosition_def
        dest: find_index_bound split: option.split)
qed

lemma memory_add_column_ok:
  assumes "apart mem0 mem t" "memory_kept mem0 mem"
  shows "altered_ok mem0 (alter_add_column file (load mem t) add) (memory_add_column grow mem file t add)"
proof -
  note a = columns_step [OF assms append_one_ok [OF apart_owns(1,3) [OF assms]]]
  show ?thesis using a altered_refused [OF assms(2)]
    by (simp add: alter_add_column_def memory_add_column_def Let_def split_beta split: sum.split)
qed

lemma memory_drop_column_ok:
  assumes "apart mem0 mem t" "memory_kept mem0 mem"
  shows "altered_ok mem0 (alter_drop_column file (load mem t) d) (memory_drop_column mem file t d)"
proof -
  note a = columns_step [OF assms remove_cell_ok [OF apart_owns(1,3) [OF assms]]]
  show ?thesis using a altered_refused [OF assms(2)]
    by (auto simp: alter_drop_column_def memory_drop_column_def Let_def split_beta catalogColumnIndex_def
        dest: find_index_bound split: option.split)
qed

lemma memory_drop_not_null_ok:
  assumes "apart mem0 mem t" "memory_kept mem0 mem"
  shows "altered_ok mem0 (alter_drop_not_null file (load mem t) d) (memory_drop_not_null mem file t d)"
proof -
  note a = columns_step [OF assms store_cell_ok [OF apart_owns(1,3) [OF assms]]]
  have "altered_ok mem0 (Inr (load mem t)) (mem, Inr t)" using assms by (simp add: altered_ok_def)
  with a show ?thesis using altered_refused [OF assms(2)]
    by (auto simp: alter_drop_not_null_def memory_drop_not_null_def Let_def catalogColumnIndex_def
        simp del: store_list.simps dest: find_index_bound split: option.split)
qed

lemma rename_cells_next [simp]: "ar_next (rename_cells s name i n m) = ar_next m"
  by (induction n arbitrary: i m) simp_all

lemma rename_cells_cells:
  "ar_cells (rename_cells s name i n m) a j =
     (if a = sl_array s \<and> i \<le> j \<and> j < i + n then (ar_cells m a j)\<lparr>col_Table := name\<rparr> else ar_cells m a j)"
proof (induction n arbitrary: i m)
  case (Suc n)
  show ?case by (simp only: rename_cells.simps Suc.IH store_list_cells) (auto dest: le_antisym [of i j] simp: not_less_eq_eq)
qed auto

lemma rename_cells_ok:
  assumes "own lim m s" "lim \<le> ar_next m"
  shows "step_ok lim m (map (col_Table_update (\<lambda>_. name)) (elements m s)) (rename_cells s name 0 (sl_len s) m, s)"
  using assms
  by (auto simp: step_ok_def own_def proper_def kept_def rename_cells_cells fun_eq_iff elements_def)

lemma load_catalog_index: "catalogTableIndex (load_catalog mem tables) name = find_index (\<lambda>t. mt_Name t = name) tables"
proof -
  have "find_index P (map f xs) = find_index (P \<circ> f) xs" for P :: "Table \<Rightarrow> bool" and f :: "memTable \<Rightarrow> Table" and xs
    by (induction xs) simp_all
  then show ?thesis by (simp add: catalogTableIndex_def load_catalog_def comp_def)
qed

lemma memory_rename_ok:
  assumes "apart mem0 mem t" "memory_kept mem0 mem"
  shows "altered_ok mem0 (alter_rename (load_catalog mem0 tables) i (load mem t) file prefix r)
    (memory_rename mem tables i file prefix t r)"
proof -
  note a = columns_step [OF assms rename_cells_ok [OF apart_owns(1,3) [OF assms]]]
  let ?n = "resolveTablePath prefix (identifier_of (GetText (rule_of ''An_id_table'' r)))"
  let ?m = "mem\<lparr>mm_columns := rename_cells (mt_Columns t) ?n 0 (sl_len (mt_Columns t)) (mm_columns mem)\<rparr>"
  have "altered_ok mem0 (Inr ((load mem t)\<lparr>tb_Name := ?n, tb_Columns := map (col_Table_update (\<lambda>_. ?n)) (elements (mm_columns mem) (mt_Columns t))\<rparr>))
      (?m, Inr (t\<lparr>mt_Name := ?n\<rparr>))"
    using a [of ?n] by (simp add: altered_ok_def apart_def load_def)
  with altered_refused [OF assms(2)] show ?thesis
    by (auto simp: alter_rename_def memory_rename_def Let_def load_catalog_index split: option.split)
qed

lemma memory_action_ok:
  assumes "apart mem0 mem t" "memory_kept mem0 mem"
  shows "altered_ok mem0 (applyAlterTableAction (load_catalog mem0 tables) i (load mem t) file prefix action)
    (memory_action grow tables i file prefix mem t action)"
  unfolding applyAlterTableAction_def memory_action_def
  using assms memory_add_index_ok memory_drop_index_ok memory_add_column_ok memory_drop_column_ok memory_drop_not_null_ok
    memory_rename_ok altered_refused
  by (simp split: option.split)

lemma memory_actions_ok:
  "apart mem0 mem t \<Longrightarrow> memory_kept mem0 mem \<Longrightarrow>
     altered_ok mem0 (alter_actions (load_catalog mem0 tables) i (load mem t) file prefix actions)
       (memory_actions grow tables i file prefix mem t actions)"
proof (induction actions arbitrary: mem t)
  case (Cons action actions)
  note a = memory_action_ok [OF Cons.prems, of tables i "file" prefix action grow]
  obtain mem' r where r: "memory_action grow tables i file prefix mem t action = (mem', r)" by fastforce
  show ?case
  proof (cases r)
    case (Inl d)
    with a r show ?thesis by (simp add: altered_ok_def)
  next
    case (Inr t')
    with a r have "apart mem0 mem' t'" "memory_kept mem0 mem'"
        "applyAlterTableAction (load_catalog mem0 tables) i (load mem t) file prefix action = Inr (load mem' t')"
      by (simp_all add: altered_ok_def)
    with Cons.IH [of mem' t'] r Inr show ?thesis by simp
  qed
qed (simp add: altered_ok_def)

section \<open>The statement\<close>

definition table_in_memory :: "memory \<Rightarrow> memTable \<Rightarrow> bool" where
  "table_in_memory mem t \<longleftrightarrow>
     proper (mm_columns mem) (mt_Columns t) \<and> proper (mm_keys mem) (mt_PrimaryKey t) \<and> proper (mm_indexes mem) (mt_Indexes t)"

lemma memory_kept_load:
  assumes "memory_kept mem0 mem" "table_in_memory mem0 t"
  shows "load mem t = load mem0 t" "table_in_memory mem t"
  using assms kept_elements [of "mm_columns mem0" "mm_columns mem" "mt_Columns t"]
    kept_elements [of "mm_keys mem0" "mm_keys mem" "mt_PrimaryKey t"]
    kept_elements [of "mm_indexes mem0" "mm_indexes mem" "mt_Indexes t"]
  by (simp_all add: memory_kept_def table_in_memory_def load_def)

lemma memory_kept_catalog:
  assumes "memory_kept mem0 mem" "list_all (table_in_memory mem0) tables"
  shows "load_catalog mem tables = load_catalog mem0 tables" "list_all (table_in_memory mem) tables"
  using assms memory_kept_load by (auto simp: load_catalog_def list_all_iff)

lemma apart_in_memory: "apart mem0 mem t \<Longrightarrow> table_in_memory mem t"
  by (simp add: apart_def own_def table_in_memory_def)

lemma cloneTable_ok:
  assumes "cloneTable grow mem t = (mem', t')"
  shows "apart mem mem' t'" "memory_kept mem mem'" "load mem' t' = load mem t"
  using assms copy_slice_ok [of "ar_next (mm_columns mem)" "mm_columns mem" "mt_Columns t" grow]
    copy_slice_ok [of "ar_next (mm_keys mem)" "mm_keys mem" "mt_PrimaryKey t" grow]
    copy_slice_ok [of "ar_next (mm_indexes mem)" "mm_indexes mem" "mt_Indexes t" grow]
  by (auto simp: cloneTable_def Let_def apart_def memory_kept_def load_def step_ok_def split: prod.splits)

lemma load_catalog_nth: "i < length tables \<Longrightarrow> cat_Tables (load_catalog mem tables) ! i = load mem (tables ! i)"
  by (simp add: load_catalog_def)

lemma load_catalog_update:
  "load_catalog mem (tables[i := t]) = (load_catalog mem tables)\<lparr>cat_Tables := (cat_Tables (load_catalog mem tables))[i := load mem t]\<rparr>"
  by (simp add: load_catalog_def map_update)

text \<open>The statement on a table that exists: after the clone, and refused, failed or done.\<close>

lemma memory_alter_found:
  assumes "list_all (table_in_memory mem) tables"
    and "memory_alter grow mem tables file prefix alter = (mem', tables', ds)"
    and i: "resolveTablePath prefix (simpleTableName (rule_opt ''Simple_table_ref'' alter)) \<noteq> []"
      "catalogTableIndex (load_catalog mem tables)
        (resolveTablePath prefix (simpleTableName (rule_opt ''Simple_table_ref'' alter))) = Some i"
  shows "(load_catalog mem' tables', ds) = applyAlterTable (load_catalog mem tables) file prefix alter
    \<and> list_all (table_in_memory mem') tables'
    \<and> (ds \<noteq> [] \<longrightarrow> tables' = tables \<and> map (load mem') tables = map (load mem) tables)"
proof -
  have len: "i < length tables" using i(2) by (auto simp: load_catalog_index find_index_Some_iff)
  obtain m w where c: "cloneTable grow mem (tables ! i) = (m, w)" by fastforce
  note clone = cloneTable_ok [OF c]
  note actions = memory_actions_ok [OF clone(1,2), of tables i "file" prefix "rules ''Alter_table_action'' alter" grow]
  note same = memory_kept_catalog [OF _ assms(1)]
  have maps: "map (load m') tables = map (load mem) tables" if "memory_kept mem m'" for m'
    using same(1) [OF that] by (simp add: load_catalog_def)
  define refused where
    "refused = (if length (rules ''Alter_table_action'' alter) > 1
       then List.find (has_rule ''Alter_table_rename_to'') (rules ''Alter_table_action'' alter) else None)"
  obtain m1 r where r: "memory_actions grow tables i file prefix m w (rules ''Alter_table_action'' alter) = (m1, r)" by fastforce
  note run = assms(2) [unfolded memory_alter_def Let_def, folded refused_def]
  note run' = applyAlterTable_def [of "load_catalog mem tables" "file" prefix alter, unfolded Let_def, folded refused_def]
  show ?thesis
  proof (cases refused)
    case (Some action)
    with run run' i c same [OF clone(2)] maps [OF clone(2)] show ?thesis by auto
  next
    case None
    show ?thesis
    proof (cases r)
      case (Inl d)
      with actions r have u: "memory_kept mem m1"
        and f: "alter_actions (load_catalog mem tables) i (cat_Tables (load_catalog mem tables) ! i) file prefix (rules ''Alter_table_action'' alter) = Inl d"
        by (simp_all add: altered_ok_def clone(3) load_catalog_nth [OF len])
      from run run' None i c r Inl f same [OF u] maps [OF u] show ?thesis by auto
    next
      case (Inr t)
      with actions r have u: "memory_kept mem m1" "apart mem m1 t"
        and f: "alter_actions (load_catalog mem tables) i (cat_Tables (load_catalog mem tables) ! i) file prefix (rules ''Alter_table_action'' alter)
          = Inr (load m1 t)"
        by (simp_all add: altered_ok_def clone(3) load_catalog_nth [OF len])
      have "list_all (table_in_memory m1) (tables[i := t])"
        using same(2) [OF u(1)] apart_in_memory [OF u(2)] set_update_subset_insert [of tables i t] by (auto simp: list_all_iff)
      with run run' None i c r Inr f same [OF u(1)] show ?thesis by (auto simp: load_catalog_update)
    qed
  qed
qed

text \<open>
  C33: ALTER TABLE in memory does what it does to tables as values: the catalog that is read from memory
  afterwards and the diagnostics are those of \<open>applyAlterTable\<close>, its slices are legal again, and when there is
  a diagnostic every table reads as before, although actions before the failing one have already written.
  The tables of the catalog may share arrays with each other; that the statement works on its own copies
  is the work of \<open>cloneTable\<close>.
\<close>

theorem alter_in_memory:
  assumes "list_all (table_in_memory mem) tables"
    and "memory_alter grow mem tables file prefix alter = (mem', tables', ds)"
  shows "(load_catalog mem' tables', ds) = applyAlterTable (load_catalog mem tables) file prefix alter
    \<and> list_all (table_in_memory mem') tables'
    \<and> (ds \<noteq> [] \<longrightarrow> tables' = tables \<and> map (load mem') tables = map (load mem) tables)"
proof -
  let ?name = "resolveTablePath prefix (simpleTableName (rule_opt ''Simple_table_ref'' alter))"
  show ?thesis
  proof (cases "?name = [] \<or> catalogTableIndex (load_catalog mem tables) ?name = None")
    case True
    with assms show ?thesis by (auto simp: memory_alter_def applyAlterTable_def Let_def)
  next
    case False
    then obtain i where "?name \<noteq> []" "catalogTableIndex (load_catalog mem tables) ?name = Some i" by auto
    then show ?thesis by (rule memory_alter_found [OF assms])
  qed
qed

text \<open>
  A sample: two tables that share the array of their columns, and a statement whose first action could be
  applied to the first table and whose second names a column that does not exist.
\<close>

definition shared_slice :: slice where
  "shared_slice = \<lparr>sl_array = 0, sl_len = 1, sl_cap = 4\<rparr>"

definition shared_memory :: memory where
  "shared_memory =
     \<lparr>mm_columns = \<lparr>ar_next = 1, ar_cells = (\<lambda>_ _. \<lparr>col_Name = ''id'', col_WireName = [], col_Type = mk_kind ''Uint64'',
        col_Table = ''users'', col_SequenceGenerated = False\<rparr>)\<rparr>,
      mm_keys = \<lparr>ar_next = 1, ar_cells = (\<lambda>_ _. ''id'')\<rparr>,
      mm_indexes = \<lparr>ar_next = 0, ar_cells = (\<lambda>_ _. \<lparr>ix_Name = [], ix_Kind = [], ix_Columns = [], ix_DataColumns = []\<rparr>)\<rparr>\<rparr>"

definition shared_table :: "string \<Rightarrow> memTable" where
  "shared_table name =
     \<lparr>mt_Name = name, mt_Columns = shared_slice, mt_PrimaryKey = shared_slice, mt_Indexes = \<lparr>sl_array = 0, sl_len = 0, sl_cap = 0\<rparr>\<rparr>"

definition sample_name :: "string \<Rightarrow> tree" where
  "sample_name n = sample_node ''An_id'' [sample_leaf ''ID_PLAIN'' n]"

definition sample_alter :: tree where
  "sample_alter =
     sample_node ''Alter_table_stmt''
       [sample_node ''Simple_table_ref'' [sample_node ''Simple_table_ref_core'' [sample_leaf ''ID_PLAIN'' ''users'']],
        sample_node ''Alter_table_action'' [sample_node ''Alter_table_alter_column_drop_not_null'' [sample_name ''id'']],
        sample_node ''Alter_table_action'' [sample_node ''Alter_table_drop_column'' [sample_name ''email'']]]"

lemma alter_in_memory_witness:
  "\<exists>mem' ds. memory_alter (\<lambda>n. n) shared_memory [shared_table ''users'', shared_table ''people''] ''s.sql'' [] sample_alter
       = (mem', [shared_table ''users'', shared_table ''people''], ds) \<and> ds \<noteq> []
     \<and> map (load mem') [shared_table ''users'', shared_table ''people'']
       = map (load shared_memory) [shared_table ''users'', shared_table ''people'']"
proof -
  let ?tables = "[shared_table ''users'', shared_table ''people'']"
  obtain mem' tables' ds where r: "memory_alter (\<lambda>n. n) shared_memory ?tables ''s.sql'' [] sample_alter = (mem', tables', ds)"
    by (metis prod.exhaust)
  have "(case snd (snd (memory_alter (\<lambda>n. n) shared_memory ?tables ''s.sql'' [] sample_alter)) of [] \<Rightarrow> False | d # ds \<Rightarrow> True)"
    by code_simp
  with r have "ds \<noteq> []" by auto
  moreover have "list_all (table_in_memory shared_memory) ?tables"
    by (simp add: table_in_memory_def proper_def shared_memory_def shared_table_def shared_slice_def)
  ultimately show ?thesis using alter_in_memory [OF _ r] r by auto
qed

end
