(* ===== verification/Inference.thy ===== *)
theory Inference
  imports QueryText
begin

text \<open>
  Inferring the types of parameters from the places where they are used (\<open>semantic.go\<close>,
  \<open>select_semantic.go\<close>, \<open>dml_expression.go\<close>). The map \<open>inferred\<close>, which the functions of the source fill in
  place, is returned updated. An inferred type without a kind marks contradictory uses.
\<close>

section \<open>The statements of a query\<close>

record queryTree =
  qt_statements :: "tree list"
  qt_declares :: "tree list"
  qt_named :: "tree list"
  qt_insert :: "tree list"
  qt_updates :: "tree list"
  qt_deletes :: "tree list"
  qt_binds :: "tree list"

definition insideLambda :: "tree \<Rightarrow> tree \<Rightarrow> bool" where
  "insideLambda query ctx \<longleftrightarrow> list_ex is_arrow_lambda (parents query ctx)"

definition collectQueryTree :: "tree \<Rightarrow> tree \<Rightarrow> queryTree" where
  "collectQueryTree query root =
     (let outside = (\<lambda>name. filter (\<lambda>t. \<not> insideLambda query t) (descendant_rules name root)) in
      \<lparr>qt_statements = outside ''Sql_stmt'', qt_declares = outside ''Declare_stmt'', qt_named = outside ''Named_nodes_stmt'',
       qt_insert = descendant_rules ''Into_table_stmt'' root, qt_updates = descendant_rules ''Update_stmt'' root,
       qt_deletes = descendant_rules ''Delete_stmt'' root, qt_binds = descendant_rules ''Bind_parameter'' root\<rparr>)"

definition block_scope :: "queryBlock \<Rightarrow> relation list \<Rightarrow> type_map \<Rightarrow> expressionScope" where
  "block_scope block relations bindings =
     \<lparr>sc_packages = qb_packages block, sc_query = qb_tree block, sc_relations = relations, sc_bindings = bindings,
      sc_lambdas = qb_lambdas block, sc_grouped = False, sc_functions = qb_functions block, sc_inSubqueries = (\<lambda>_. None),
      sc_windows = []\<rparr>"

section \<open>Uses of a parameter\<close>

definition inferParameter :: "type_map \<Rightarrow> string \<Rightarrow> ty \<Rightarrow> type_map" where
  "inferParameter inferred name t =
     (case inferred name of
        None \<Rightarrow> inferred(name \<mapsto> t)
      | Some previous \<Rightarrow>
          if Equal previous t then inferred(name \<mapsto> t)
          else if Kind previous = [] then inferred
          else if Equal (UnwrapOptional previous) (UnwrapOptional t) then
            (if IsOptional previous \<and> \<not> IsOptional t then inferred(name \<mapsto> t) else inferred)
          else inferred(name \<mapsto> mk_kind []))"

definition infer_bind :: "ty \<Rightarrow> tree \<Rightarrow> type_map \<Rightarrow> type_map" where
  "infer_bind t bind inferred = inferParameter inferred (bindName (Some bind)) t"

text \<open>What is inferred so far becomes a binding, where there is none and the uses agree.\<close>

definition bind_inferred :: "type_map \<Rightarrow> type_map \<Rightarrow> type_map" where
  "bind_inferred inferred bindings =
     (\<lambda>name. case bindings name of
        Some t \<Rightarrow> Some t
      | None \<Rightarrow> (case inferred name of Some t \<Rightarrow> if Kind t \<noteq> [] then Some t else None | None \<Rightarrow> None))"

definition compatibleTypes :: "ty \<Rightarrow> ty \<Rightarrow> bool" where
  "compatibleTypes left right \<longleftrightarrow> Equal left right \<or> (IsOptional right \<and> Equal left (UnwrapOptional right))"

definition compatibleDMLAssignmentTypes :: "ty \<Rightarrow> ty \<Rightarrow> bool" where
  "compatibleDMLAssignmentTypes source target \<longleftrightarrow>
     (if Kind source = ''Null'' then IsOptional target
      else Equal source target \<or> (IsOptional target \<and> Equal source (UnwrapOptional target)) \<or> CanWidenInteger source target)"

section \<open>Concatenations\<close>

definition join_family :: "ty \<Rightarrow> ty \<Rightarrow> ty option" where
  "join_family family t = (if Kind family = [] then Some t else if Equal family t then Some family else None)"

text \<open>The text type of the operands and the parameters without a type; \<open>None\<close> when the operands disagree.\<close>

fun concatenation_family :: "type_map \<Rightarrow> ty \<Rightarrow> tree list \<Rightarrow> tree list \<Rightarrow> (ty \<times> tree list) option" where
  "concatenation_family declared family unknown [] = Some (family, unknown)"
| "concatenation_family declared family unknown (operand # operands) =
     (case (descendant_rules ''Bind_parameter'' operand, descendant_rules ''Literal_value'' operand) of
        ([bind], []) \<Rightarrow>
          if GetText operand \<noteq> GetText bind then concatenation_family declared family unknown operands
          else (case declared (bindName (Some bind)) of
              None \<Rightarrow> concatenation_family declared family (unknown @ [bind]) operands
            | Some t \<Rightarrow>
                (let base = UnwrapOptional t in
                 if Kind base = ''String'' \<or> Kind base = ''Utf8'' then
                   (case join_family family base of
                      None \<Rightarrow> None
                    | Some family \<Rightarrow> concatenation_family declared family unknown operands)
                 else concatenation_family declared family unknown operands))
      | ([], [literal]) \<Rightarrow>
          if GetText operand \<noteq> GetText literal \<or> \<not> has_token ''STRING_VALUE'' literal then
            concatenation_family declared family unknown operands
          else (case stringLiteralType (GetText literal) of
              Inl e \<Rightarrow> None
            | Inr t \<Rightarrow>
                (case join_family family t of
                   None \<Rightarrow> None
                 | Some family \<Rightarrow> concatenation_family declared family unknown operands))
      | _ \<Rightarrow> concatenation_family declared family unknown operands)"

definition inferFromConcatenation :: "type_map \<Rightarrow> tree \<Rightarrow> type_map \<Rightarrow> type_map" where
  "inferFromConcatenation declared concatenation inferred =
     (if \<not> has_token ''DOUBLE_PIPE'' concatenation then inferred
      else (case concatenation_family declared (mk_kind []) [] (rules ''Con_subexpr'' concatenation) of
          None \<Rightarrow> inferred
        | Some (family, unknown) \<Rightarrow> if Kind family = [] then inferred else fold (infer_bind family) unknown inferred))"

definition inferFromExpressionContexts :: "tree \<Rightarrow> type_map \<Rightarrow> type_map \<Rightarrow> type_map" where
  "inferFromExpressionContexts root declared inferred =
     fold (inferFromConcatenation declared) (filter (is_rule ''Mul_subexpr'') (scopeDescendants root)) inferred"

section \<open>Columns of a grouping\<close>

definition grouping_elements :: "tree \<Rightarrow> tree list option" where
  "grouping_elements core =
     map_option (rules ''Grouping_element'') (sub_rule ''Grouping_element_list'' (rule_opt ''Group_by_clause'' core))"

definition grouping_named :: "tree \<Rightarrow> tree option" where
  "grouping_named element = sub_rule ''Named_expr'' (rule_opt ''Ordinary_grouping_set'' element)"

definition named_alias :: "tree \<Rightarrow> string" where
  "named_alias named = identifier_of (GetText (rule_of ''An_id_or_type'' named))"

text \<open>An alias that only repeats the name of the column it stands for.\<close>

definition alias_of_itself :: "tree \<Rightarrow> tree \<Rightarrow> string \<Rightarrow> bool" where
  "alias_of_itself query expr alias \<longleftrightarrow>
     (case columnRefs query expr of
        [ref] \<Rightarrow> isPureColumnExpression query expr \<and> ref_qualifier ref = [] \<and> ref_name ref = alias
      | _ \<Rightarrow> False)"

definition grouping_alias :: "tree \<Rightarrow> tree \<Rightarrow> string option" where
  "grouping_alias query element =
     (case grouping_named element of
        None \<Rightarrow> None
      | Some named \<Rightarrow>
          if \<not> has_token ''AS'' named \<or> alias_of_itself query (rule_of ''Expr'' named) (named_alias named) then None
          else Some (named_alias named))"

definition groupingAliasNames :: "tree \<Rightarrow> tree \<Rightarrow> string list" where
  "groupingAliasNames query root =
     (if \<not> is_rule ''Select_core'' root then []
      else (case grouping_elements root of None \<Rightarrow> [] | Some elements \<Rightarrow> List.map_filter (grouping_alias query) elements))"

definition groupingAliasVisible :: "tree \<Rightarrow> columnRef \<Rightarrow> bool" where
  "groupingAliasVisible query ref \<longleftrightarrow>
     (case List.find (\<lambda>t. is_rule ''Grouping_element'' t \<or> is_rule ''Join_constraint'' t \<or> is_rule ''Select_core'' t)
         (parents query (ref_ctx ref)) of
        Some t \<Rightarrow> is_rule ''Select_core'' t
      | None \<Rightarrow> False)"

definition ends_grouping :: "relation list \<Rightarrow> bool" where
  "ends_grouping relations \<longleftrightarrow> relations \<noteq> [] \<and> rel_grouping (last relations)"

definition groupingInferenceColumn :: "tree \<Rightarrow> string list \<Rightarrow> relation list \<Rightarrow> columnRef \<Rightarrow> Column res" where
  "groupingInferenceColumn query aliases relations ref =
     (let grouping = ends_grouping relations in
      if List.member aliases (ref_name ref) \<and> ref_qualifier ref = [] \<and> groupingAliasVisible query ref \<and> \<not> grouping then
        Inl (Errorf ''GROUP BY alias is not resolved yet'' [])
      else resolveColumn (if grouping \<and> \<not> groupingAliasVisible query ref then butlast relations else relations) ref)"

section \<open>Comparisons\<close>

definition isDirectComparison :: "tree \<Rightarrow> columnRef \<Rightarrow> tree \<Rightarrow> bool" where
  "isDirectComparison root ref bind \<longleftrightarrow>
     (let left = GetText (ref_ctx ref); right = GetText bind; text = GetText root in
      list_ex (\<lambda>operator. text = left @ operator @ right \<or> text = right @ operator @ left)
        [''='', ''=='', ''!='', ''<>'', ''<'', ''<='', ''>'', ''>=''])"

definition scope_binds :: "tree \<Rightarrow> tree list" where
  "scope_binds root = filter (is_rule ''Bind_parameter'') (scopeDescendants root)"

definition infer_between :: "tree \<Rightarrow> string list \<Rightarrow> relation list \<Rightarrow> tree \<Rightarrow> type_map \<Rightarrow> type_map" where
  "infer_between query aliases relations node inferred =
     (let first' = rule_of ''Eq_subexpr'' node in
      case columnRefs query first' of
        [ref] \<Rightarrow>
          if \<not> sameOrWrappedExpression first' (ref_ctx ref) then inferred
          else (case groupingInferenceColumn query aliases relations ref of
              Inl e \<Rightarrow> inferred
            | Inr column \<Rightarrow>
                fold (\<lambda>bound. fold (infer_bind (col_Type column)) (filter (sameOrWrappedExpression bound) (scope_binds bound)))
                  (rules ''Eq_subexpr'' (rule_of ''Cond_expr'' node)) inferred)
      | _ \<Rightarrow> inferred)"

definition infer_comparison :: "tree \<Rightarrow> string list \<Rightarrow> relation list \<Rightarrow> tree \<Rightarrow> type_map \<Rightarrow> type_map" where
  "infer_comparison query aliases relations node inferred =
     (case (columnRefs query node, scope_binds node) of
        ([ref], [bind]) \<Rightarrow>
          if \<not> isDirectComparison node ref bind then inferred
          else (case groupingInferenceColumn query aliases relations ref of
              Inl e \<Rightarrow> inferred
            | Inr column \<Rightarrow> infer_bind (col_Type column) bind inferred)
      | _ \<Rightarrow> inferred)"

definition is_between :: "tree \<Rightarrow> bool" where
  "is_between node \<longleftrightarrow> is_rule ''Xor_subexpr'' node \<and>
     (case rule_opt ''Cond_expr'' node of Some condition \<Rightarrow> has_token ''BETWEEN'' condition | None \<Rightarrow> False)"

definition inferFromComparisons :: "tree \<Rightarrow> tree \<Rightarrow> relation list \<Rightarrow> type_map \<Rightarrow> type_map" where
  "inferFromComparisons query root relations inferred =
     (let aliases = groupingAliasNames query root in
      fold (\<lambda>node. if is_between node then infer_between query aliases relations node
          else if is_rule ''Xor_subexpr'' node \<or> is_rule ''Eq_subexpr'' node then infer_comparison query aliases relations node
          else id)
        (scopeDescendants root) inferred)"

section \<open>IN lists\<close>

text \<open>The positions of the binds that are whole expressions.\<close>

definition direct_positions :: "tree \<Rightarrow> int list" where
  "direct_positions root =
     remdups (List.map_filter (\<lambda>t. if is_rule ''Expr'' t then map_option start_index (directBind t) else None) (scopeDescendants root))"

definition infer_in_list :: "tree \<Rightarrow> string list \<Rightarrow> relation list \<Rightarrow> tree \<Rightarrow> type_map \<Rightarrow> type_map" where
  "infer_in_list query aliases relations condition inferred =
     (let inExpr = rule_of ''In_expr'' condition; text = GetText inExpr in
      case columnRefs query (hd (parents query condition @ [no_tree])) of
        [ref] \<Rightarrow>
          (case groupingInferenceColumn query aliases relations ref of
             Inl e \<Rightarrow> inferred
           | Inr column \<Rightarrow>
               if has_prefix text ''$'' then
                 (case rev (filter (\<lambda>bind. GetText bind = text) (scope_binds inExpr)) of
                    [] \<Rightarrow> inferred
                  | direct # _ \<Rightarrow> infer_bind (mk_list (UnwrapOptional (col_Type column))) direct inferred)
               else if \<not> has_prefix text ''('' \<or> \<not> has_suffix text '')'' then inferred
               else (let binds = scope_binds inExpr; positions = direct_positions inExpr in
                 if binds = [] \<or> length binds \<noteq> length positions then inferred
                 else fold (infer_bind (col_Type column)) (filter (\<lambda>bind. List.member positions (start_index bind)) binds) inferred))
      | _ \<Rightarrow> inferred)"

definition inferFromInLists :: "tree \<Rightarrow> tree \<Rightarrow> relation list \<Rightarrow> type_map \<Rightarrow> type_map" where
  "inferFromInLists query root relations inferred =
     (let aliases = groupingAliasNames query root in
      fold (infer_in_list query aliases relations)
        (filter (\<lambda>t. is_rule ''Cond_expr'' t \<and> has_token ''IN'' t \<and> has_rule ''In_expr'' t) (scopeDescendants root)) inferred)"

section \<open>LIMIT and OFFSET\<close>

definition limit_expressions :: "tree option \<Rightarrow> tree list" where
  "limit_expressions partial =
     (case partial of None \<Rightarrow> [] | Some p \<Rightarrow> if has_token ''LIMIT'' p then rules ''Expr'' p else [])"

definition infer_limit :: "type_map \<Rightarrow> tree \<Rightarrow> type_map \<Rightarrow> type_map" where
  "infer_limit bindings expr inferred =
     (case directBind expr of
        None \<Rightarrow> inferred
      | Some bind \<Rightarrow>
          if bindings (bindName (Some bind)) = None \<and> inferred (bindName (Some bind)) = None
          then infer_bind (mk_kind ''Uint64'') bind inferred else inferred)"

definition inferLimitOffset :: "tree option \<Rightarrow> type_map \<Rightarrow> type_map \<Rightarrow> type_map" where
  "inferLimitOffset partial bindings inferred = fold (infer_limit bindings) (limit_expressions partial) inferred"

definition limit_kinds :: "string list" where
  "limit_kinds = [''Int8'', ''Int16'', ''Int32'', ''Uint8'', ''Uint16'', ''Uint32'', ''Uint64'', ''Null'']"

definition limit_literal :: "packages \<Rightarrow> tree \<Rightarrow> bool" where
  "limit_literal pk expr \<longleftrightarrow>
     (case literalType (pk_parse_float pk) (unwrapOrderByColumn expr) of Some (Inr _) \<Rightarrow> True | _ \<Rightarrow> False)"

definition limit_diagnostic :: "queryBlock \<Rightarrow> type_map \<Rightarrow> string \<Rightarrow> tree \<Rightarrow> Diagnostic list" where
  "limit_diagnostic block bindings clause expr =
     (if containsAggregate expr then [block_at block (Some expr) (clause @ '' expressions cannot contain aggregate functions'')]
      else (case resolveExpression (block_scope block [] bindings) (Some expr) of
          Inl e \<Rightarrow> [block_at block (Some expr) (sprintf ''cannot resolve %s expression: %v'' [FStr clause, FErr e])]
        | Inr typ \<Rightarrow>
            if (Kind typ = ''Int64'' \<and> limit_literal (qb_packages block) expr) \<or> List.member limit_kinds (Kind (UnwrapOptional typ)) then []
            else [block_at block (Some expr) (sprintf
              ''%s expression has unsupported type %s; use Int8, Int16, Int32, Uint8, Uint16, Uint32, or Uint64, optionally nullable''
              [FStr clause, FType typ])]))"

definition limit_clause :: "tree option \<Rightarrow> nat \<Rightarrow> string" where
  "limit_clause partial i =
     (case partial of
        Some p \<Rightarrow> if (i = 1 \<and> has_token ''OFFSET'' p) \<or> (i = 0 \<and> has_token ''COMMA'' p) then ''OFFSET'' else ''LIMIT''
      | None \<Rightarrow> ''LIMIT'')"

definition validateLimitOffset :: "queryBlock \<Rightarrow> tree option \<Rightarrow> type_map \<Rightarrow> Diagnostic list" where
  "validateLimitOffset block partial bindings =
     concat (map (\<lambda>(i, expr). limit_diagnostic block bindings (limit_clause partial i) expr) (List.enumerate 0 (limit_expressions partial)))"

section \<open>Values of INSERT and UPDATE\<close>

definition directExprs :: "tree \<Rightarrow> tree list" where
  "directExprs root = rules ''Expr'' root"

definition inferDirectDMLBind :: "tree \<Rightarrow> ty \<Rightarrow> type_map \<Rightarrow> type_map option" where
  "inferDirectDMLBind root t inferred = map_option (\<lambda>bind. infer_bind t bind inferred) (directBind root)"

definition dml_mismatch :: "ty \<Rightarrow> Column \<Rightarrow> go_error" where
  "dml_mismatch t column =
     Errorf ''cannot assign %s to column %q of type %s; use a compatible value or an explicit CAST''
       [FType t, FStr (col_Name column), FType (col_Type column)]"

definition nullable_argument :: "(string \<times> sqlcArgument) list \<Rightarrow> string \<Rightarrow> bool" where
  "nullable_argument arguments name \<longleftrightarrow> (case map_of arguments name of Some a \<Rightarrow> sa_nullable a | None \<Rightarrow> False)"

definition nullable_mismatch :: "(string \<times> sqlcArgument) list \<Rightarrow> expressionScope \<Rightarrow> tree \<Rightarrow> Column \<Rightarrow> go_error option" where
  "nullable_mismatch arguments sc expr column =
     (case directBind expr of
        None \<Rightarrow> None
      | Some bind \<Rightarrow>
          (let name = bindName (Some bind) in
           if \<not> nullable_argument arguments name then None
           else (case sc_bindings sc name of
               None \<Rightarrow> None
             | Some t \<Rightarrow> if Kind t \<noteq> [] \<and> \<not> compatibleDMLAssignmentTypes t (col_Type column) then Some (dml_mismatch t column) else None)))"

definition dml_value_err :: "expressionScope \<Rightarrow> tree \<Rightarrow> Column \<Rightarrow> go_error option" where
  "dml_value_err sc expr column =
     (if sc_relations sc = [] \<and> columnRefs (sc_query sc) expr \<noteq> [] then
        Some (Errorf ''column references are not allowed in VALUES expressions; use a parameter, literal, or INSERT/UPSERT SELECT'' [])
      else if containsAggregate expr then Some (Errorf ''aggregate functions are not allowed in DML values'' [])
      else (case resolveExpression sc (Some expr) of
          Inl e \<Rightarrow> Some e
        | Inr t \<Rightarrow> if compatibleDMLAssignmentTypes t (col_Type column) then None else Some (dml_mismatch t column)))"

definition validateDMLValue ::
  "(string \<times> sqlcArgument) list \<Rightarrow> expressionScope \<Rightarrow> tree \<Rightarrow> Column \<Rightarrow> type_map \<Rightarrow> go_error option \<times> type_map" where
  "validateDMLValue arguments sc expr column inferred =
     (let expr = unwrapOrderByColumn expr in
      case nullable_mismatch arguments sc expr column of
        Some e \<Rightarrow> (Some e, inferred)
      | None \<Rightarrow>
          (case inferDirectDMLBind expr (col_Type column) inferred of
             Some inferred \<Rightarrow> (None, inferred)
           | None \<Rightarrow> (dml_value_err sc expr column, inferred)))"

section \<open>Declared and external parameters\<close>

text \<open>The types, the positions of the declared binds, and the diagnostics of the DECLARE statements.\<close>

fun declare_loop :: "queryBlock \<Rightarrow> type_map \<Rightarrow> int list \<Rightarrow> Diagnostic list \<Rightarrow> tree list \<Rightarrow> type_map \<times> int list \<times> Diagnostic list" where
  "declare_loop block declared positions ds [] = (declared, positions, ds)"
| "declare_loop block declared positions ds (declaration # rest) =
     (let bind = rule_opt ''Bind_parameter'' declaration; name = bindName bind;
          positions = (case Option.bind bind GetStart of Some tok \<Rightarrow> tk_Start tok # positions | None \<Rightarrow> positions) in
      case parseType (GetText (rule_of ''Type_name'' declaration)) of
        Inl e \<Rightarrow> declare_loop block declared positions (ds @ [block_at block (Some declaration) (error_text e)]) rest
      | Inr t \<Rightarrow>
          (case declared name of
             Some previous \<Rightarrow>
               if Equal previous t then declare_loop block (declared(name \<mapsto> t)) positions ds rest
               else declare_loop block declared positions (ds @ [block_at block (Some declaration) (sprintf
                 ''parameter $%s has conflicting DECLARE types %s and %s'' [FStr name, FType previous, FType t])]) rest
           | None \<Rightarrow> declare_loop block (declared(name \<mapsto> t)) positions ds rest))"

definition declarations :: "queryBlock \<Rightarrow> queryTree \<Rightarrow> type_map \<times> int list \<times> Diagnostic list" where
  "declarations block tree = declare_loop block (\<lambda>_. None) [] [] (qt_declares tree)"

definition configured_err :: "type_map \<Rightarrow> string \<Rightarrow> ty \<Rightarrow> string option" where
  "configured_err declared name typ =
     (if (case parseType (type_String typ) of Inl e \<Rightarrow> True | Inr parsed \<Rightarrow> \<not> Equal parsed typ) then
        Some (sprintf ''configured parameter $%s has unsupported YQL type %s'' [FStr name, FType typ])
      else (case declared name of
          Some source \<Rightarrow>
            if Equal source typ then None
            else Some (sprintf ''configured parameter $%s type %s conflicts with DECLARE type %s'' [FStr name, FType typ, FType source])
        | None \<Rightarrow> None))"

definition configure_step :: "queryBlock \<Rightarrow> type_map \<Rightarrow> string \<times> ty \<Rightarrow> type_map \<times> Diagnostic list \<Rightarrow> type_map \<times> Diagnostic list" where
  "configure_step block declared p acc =
     (case configured_err declared (fst p) (snd p) of
        Some message \<Rightarrow> (fst acc, snd acc @ [block_message block message])
      | None \<Rightarrow> ((fst acc)(fst p \<mapsto> snd p), snd acc))"

definition configuredDeclarations :: "queryBlock \<Rightarrow> type_map \<Rightarrow> type_map \<times> Diagnostic list" where
  "configuredDeclarations block declared = fold (configure_step block declared) (sort_key fst (qb_parameters block)) (declared, [])"

text \<open>The type of an external parameter, or why it has none.\<close>

definition external_type :: "queryBlock \<Rightarrow> type_map \<Rightarrow> type_map \<Rightarrow> string \<Rightarrow> string + ty" where
  "external_type block declared inferred name =
     (case (case declared name of Some t \<Rightarrow> Some t | None \<Rightarrow> inferred name) of
        None \<Rightarrow> Inl (sprintf ''cannot resolve type of external parameter $%s; add DECLARE'' [FStr name])
      | Some t \<Rightarrow>
          if Kind t = [] then
            Inl (sprintf ''external parameter $%s has incompatible inferred types; add DECLARE to specify its intended type'' [FStr name])
          else (let nullable = nullable_argument (qb_arguments block) name; t = (if nullable \<and> \<not> IsOptional t then Optional t else t) in
            case inferred name of
              None \<Rightarrow> Inr t
            | Some used \<Rightarrow>
                if (if nullable then Equal (UnwrapOptional t) (UnwrapOptional used) else compatibleTypes t used) then Inr t
                else Inl (sprintf ''parameter $%s declared as %s but used with %s'' [FStr name, FType t, FType used])))"

fun external_loop ::
  "queryBlock \<Rightarrow> type_map \<Rightarrow> type_map \<Rightarrow> (tree \<Rightarrow> bool) \<Rightarrow> string list \<Rightarrow> tree list \<Rightarrow> QueryParameter list \<times> Diagnostic list" where
  "external_loop block declared inferred external seen [] = ([], [])"
| "external_loop block declared inferred external seen (bind # binds) =
     (let name = bindName (Some bind) in
      if \<not> external bind \<or> List.member seen name then external_loop block declared inferred external seen binds
      else (let (ps, ds) = external_loop block declared inferred external (name # seen) binds in
        case external_type block declared inferred name of
          Inl message \<Rightarrow> (ps, block_at block (Some bind) message # ds)
        | Inr t \<Rightarrow> (\<lparr>qp_Name = name, qp_Type = t\<rparr> # ps, ds)))"

definition external_bind :: "int list \<Rightarrow> int list \<Rightarrow> string list \<Rightarrow> tree \<Rightarrow> bool" where
  "external_bind declarationPositions localPositions localNames bind \<longleftrightarrow>
     GetStart bind \<noteq> None \<and> \<not> List.member localPositions (start_index bind)
     \<and> \<not> (List.member localNames (bindName (Some bind)) \<and> \<not> List.member declarationPositions (start_index bind))"

definition externalParameters ::
  "queryBlock \<Rightarrow> tree list \<Rightarrow> type_map \<Rightarrow> type_map \<Rightarrow> int list \<Rightarrow> int list \<Rightarrow> string list \<Rightarrow> QueryParameter list \<times> Diagnostic list" where
  "externalParameters block binds declared inferred declarationPositions localPositions localNames =
     external_loop block declared inferred (external_bind declarationPositions localPositions localNames) [] (sort_key start_index binds)"

end
