(* ===== verification/Relations.thy ===== *)
theory Relations
  imports Inference
begin

text \<open>
  The sources of a SELECT (\<open>semantic.go\<close>, \<open>flatten.go\<close>, \<open>insert_select.go\<close>, \<open>select_semantic.go\<close>,
  \<open>window.go\<close>): the arms of a statement, FLATTEN, AS_TABLE, tabular bindings, windows, and the columns that
  the names of a SELECT refer to.
\<close>

section \<open>State\<close>

record TableBinding =
  bt_Table :: string
  bt_Alias :: string

record ColumnBinding =
  bc_Table :: TableBinding
  bc_Column :: Column

record SelectBinding =
  bs_Relations :: "TableBinding list"
  bs_Columns :: "Column list"

text \<open>
  What the analysis of a statement changes in place: the maps \<open>bindings\<close> and \<open>inferred\<close>, the fields of
  \<open>QuerySyntax\<close>, and the rewrites of the block.
\<close>

record analysis =
  st_bindings :: type_map
  st_inferred :: type_map
  st_columns :: "int \<rightharpoonup> ColumnBinding"
  st_selects :: "int \<rightharpoonup> SelectBinding"
  st_relations :: "TableBinding list"
  st_wildcards :: "wildcardRewrites option"

definition zero_column :: Column where
  "zero_column = \<lparr>col_Name = [], col_WireName = [], col_Type = mk_kind [], col_Table = [], col_SequenceGenerated = False\<rparr>"

definition typed_column :: "string \<Rightarrow> ty \<Rightarrow> Column" where
  "typed_column name t = zero_column\<lparr>col_Name := name, col_Type := t\<rparr>"

definition new_relation :: "Table \<Rightarrow> string \<Rightarrow> bool \<Rightarrow> relation" where
  "new_relation table alias physical =
     \<lparr>rel_table = table, rel_alias = alias, rel_optional = False, rel_physical = physical, rel_grouping = False\<rparr>"

definition new_table :: "string \<Rightarrow> Column list \<Rightarrow> Table" where
  "new_table name columns = \<lparr>tb_Name = name, tb_Columns = columns, tb_PrimaryKey = [], tb_Indexes = []\<rparr>"

definition bind_parameters_of :: "analysis \<Rightarrow> analysis" where
  "bind_parameters_of s = s\<lparr>st_bindings := bind_inferred (st_inferred s) (st_bindings s)\<rparr>"

section \<open>The arms of a SELECT\<close>

text \<open>The core and the partial of one input, or its diagnostic.\<close>

definition select_arm :: "queryBlock \<Rightarrow> tree \<Rightarrow> Diagnostic + tree \<times> tree" where
  "select_arm block intersect =
     (if has_rule ''Intersect_op'' intersect then Inl (block_at block (Some intersect) ''INTERSECT is not yet supported'')
      else (case rules ''Select_kind_parenthesis'' intersect of
          [kinds] \<Rightarrow>
            (case rule_opt ''Select_kind_partial'' kinds of
               None \<Rightarrow> Inl (block_at block (Some intersect) ''unsupported SELECT input'')
             | Some partial \<Rightarrow>
                 (case rule_opt ''Select_kind'' partial of
                    None \<Rightarrow> Inl (block_at block (Some intersect) ''unsupported SELECT input'')
                  | Some kind \<Rightarrow>
                      if has_token ''DISCARD'' kind \<or> has_token ''INTO'' kind then
                        Inl (block_at block (Some kind) ''DISCARD and INTO RESULT are unsupported in named queries'')
                      else (case rule_opt ''Select_core'' kind of
                          None \<Rightarrow> Inl (block_at block (Some kind) ''only SELECT inputs are supported in UNION'')
                        | Some core \<Rightarrow> Inr (core, partial))))
        | _ \<Rightarrow> Inl (block_at block (Some intersect) ''unsupported SELECT input'')))"

definition lefts :: "('a + 'b) list \<Rightarrow> 'a list" where
  "lefts xs = List.map_filter (\<lambda>x. case x of Inl a \<Rightarrow> Some a | Inr b \<Rightarrow> None) xs"

definition rights :: "('a + 'b) list \<Rightarrow> 'b list" where
  "rights xs = List.map_filter (\<lambda>x. case x of Inl a \<Rightarrow> None | Inr b \<Rightarrow> Some b) xs"

definition selectArms :: "queryBlock \<Rightarrow> tree option \<Rightarrow> (tree \<times> tree) list \<times> Diagnostic list" where
  "selectArms block statement =
     (case sub_rule ''Select_stmt_core'' statement of
        None \<Rightarrow> ([], [block_at block statement ''invalid SELECT statement''])
      | Some stmtCore \<Rightarrow>
          (let arms = map (select_arm block) (rules ''Select_stmt_intersect'' stmtCore) in
           (rights arms,
            (case sub_rule ''Cte_with_clause'' statement of Some cte \<Rightarrow> [block_at block (Some cte) ''CTEs are not yet supported''] | None \<Rightarrow> [])
            @ map (\<lambda>op. block_at block (Some op) ''EXCEPT is not yet supported'')
                (filter (has_token ''EXCEPT'') (rules ''Union_op'' stmtCore))
            @ lefts arms)))"

definition topLevelSelect :: "tree list \<Rightarrow> tree option" where
  "topLevelSelect statements =
     (case List.map_filter (\<lambda>statement. sub_rule ''Select_stmt'' (rule_opt ''Sql_stmt_core'' statement)) statements of
        stmt # _ \<Rightarrow> Some stmt
      | [] \<Rightarrow> None)"

section \<open>Sources\<close>

fun tabular_columns :: "string \<Rightarrow> string list \<Rightarrow> Column list \<Rightarrow> Column list res" where
  "tabular_columns name seen [] = Inr []"
| "tabular_columns name seen (column # columns) =
     (let resultName = ResultName column in
      if resultName = [] \<or> List.member seen resultName then
        Inl (Errorf ''tabular binding $%s has duplicate or unnamed result column %q; use unique AS aliases'' [FStr name, FStr resultName])
      else and_then (tabular_columns name (resultName # seen) columns) (\<lambda>rest.
        Inr (typed_column resultName (col_Type column) # rest)))"

definition tabularTable :: "string \<Rightarrow> Column list \<Rightarrow> Table res" where
  "tabularTable name columns = and_then (tabular_columns name [] columns) (\<lambda>cs. Inr (new_table (CHR ''$'' # name) cs))"

text \<open>The one expression that AS_TABLE is applied to.\<close>

definition table_argument :: "tree \<Rightarrow> tree option" where
  "table_argument arg =
     (case rule_opt ''Named_expr'' arg of
        None \<Rightarrow> None
      | Some named \<Rightarrow>
          if has_token ''AS'' named \<or> has_token ''COMMAT'' arg \<or> has_token ''VIEW'' arg then None
          else Option.bind (rule_opt ''Expr'' named) directBind)"

definition asTableRelation :: "tree \<Rightarrow> type_map \<Rightarrow> Table res" where
  "asTableRelation ref bindings =
     (case (if (case rule_opt ''An_id_expr'' ref of None \<Rightarrow> False | Some i \<Rightarrow> equal_fold (GetText i) ''AS_TABLE'')
              \<and> \<not> has_rule ''Cluster_expr'' ref \<and> \<not> has_token ''VIEW'' ref then rules ''Table_arg'' ref else []) of
        [arg] \<Rightarrow>
          (case table_argument arg of
             None \<Rightarrow> Inl (Errorf ''AS_TABLE requires one direct List<Struct> parameter'' [])
           | Some bind \<Rightarrow>
               (let name = bindName (Some bind) in
                case (case bindings name of Some t \<Rightarrow> if Kind t = ''List'' then Elem t else None | None \<Rightarrow> None) of
                  Some elem \<Rightarrow>
                    if Kind elem = ''Struct'' then
                      Inr (new_table ''AS_TABLE'' (map (\<lambda>(n, t). typed_column n t) (Fields elem)))
                    else Inl (Errorf ''AS_TABLE($%s) requires DECLARE $%s AS List<Struct<...>>'' [FStr name, FStr name])
                | None \<Rightarrow> Inl (Errorf ''AS_TABLE($%s) requires DECLARE $%s AS List<Struct<...>>'' [FStr name, FStr name])))
      | _ \<Rightarrow> Inl (Errorf ''dynamic table references are unsupported; use AS_TABLE($parameter) with DECLARE List<Struct<...>>'' []))"

section \<open>FLATTEN\<close>

definition last_index :: "('a \<Rightarrow> bool) \<Rightarrow> 'a list \<Rightarrow> nat option" where
  "last_index p xs = (case rev (filter (\<lambda>(i, x). p x) (List.enumerate 0 xs)) of (i, x) # _ \<Rightarrow> Some i | [] \<Rightarrow> None)"

definition flattenListColumn ::
  "queryBlock \<Rightarrow> tree \<Rightarrow> relation \<Rightarrow> string \<Rightarrow> string \<Rightarrow> string \<Rightarrow> relation \<times> Diagnostic list" where
  "flattenListColumn block source rel qualifier name alias =
     (let columns = tb_Columns (rel_table rel); failed = (\<lambda>message. (rel, [block_at block (Some source) message])) in
      if qualifier \<noteq> [] \<and> qualifier \<noteq> rel_alias rel then failed (sprintf ''unknown FLATTEN source alias %q'' [FStr qualifier])
      else if alias \<noteq> [] \<and> list_ex (\<lambda>c. col_Name c = alias) columns then
        failed (sprintf ''FLATTEN LIST BY result column %q already exists'' [FStr alias])
      else (case last_index (\<lambda>c. col_Name c = name) columns of
          None \<Rightarrow> failed (sprintf ''unknown FLATTEN column %q'' [FStr name])
        | Some position \<Rightarrow>
            (let column = columns ! position; typ = UnwrapOptional (col_Type column) in
             case (if Kind typ = ''List'' then Elem typ else None) of
               None \<Rightarrow> failed (sprintf ''FLATTEN LIST BY column %q requires List<T>; got %s'' [FStr name, FType (col_Type column)])
             | Some elem \<Rightarrow>
                 (let item = column\<lparr>col_Type := elem\<rparr> in
                  (rel\<lparr>rel_table := (rel_table rel)\<lparr>tb_Columns :=
                     (if alias = [] then columns[position := item] else columns @ [item\<lparr>col_Name := alias\<rparr>])\<rparr>\<rparr>, [])))))"

definition alias_text :: "string \<Rightarrow> tree \<Rightarrow> string" where
  "alias_text name t = (case rule_opt name t of Some i \<Rightarrow> identifier_of (GetText i) | None \<Rightarrow> [])"

definition id_prefix :: "tree \<Rightarrow> string" where
  "id_prefix t = identifier_of (trim_suffix (GetText (rule_of ''Opt_id_prefix'' t)) ''.'')"

fun flatten_expressions :: "queryBlock \<Rightarrow> tree \<Rightarrow> relation \<Rightarrow> tree list \<Rightarrow> relation \<times> Diagnostic list" where
  "flatten_expressions block source rel [] = (rel, [])"
| "flatten_expressions block source rel (named # rest) =
     (let expr = rule_of ''Expr'' named in
      if \<not> isPureColumnExpression (qb_tree block) expr then
        (rel, [block_at block (Some named) ''FLATTEN LIST BY expressions require a source column; compute the list in a derived SELECT''])
      else (let ref = hd (columnRefs (qb_tree block) expr);
                (rel, ds) = flattenListColumn block source rel (ref_qualifier ref) (ref_name ref) (alias_text ''An_id_or_type'' named)
            in if ds \<noteq> [] then (rel, ds) else flatten_expressions block source rel rest))"

definition flattenListRelation :: "queryBlock \<Rightarrow> tree \<Rightarrow> relation \<Rightarrow> relation \<times> Diagnostic list" where
  "flattenListRelation block source rel =
     (case (if has_token ''LIST'' source then rule_opt ''Flatten_by_arg'' source else None) of
        None \<Rightarrow> (rel, [block_at block (Some source) ''only FLATTEN LIST BY is supported''])
      | Some arg \<Rightarrow>
          (case rule_opt ''Named_column'' arg of
             Some named \<Rightarrow>
               (let column = rule_of ''Column_name'' named in
                flattenListColumn block source rel (id_prefix column) (identifier_of (GetText (rule_of ''An_id'' column)))
                  (alias_text ''An_id'' named))
           | None \<Rightarrow> flatten_expressions block source rel (rules ''Named_expr'' (rule_of ''Named_expr_list'' arg))))"

section \<open>Windows\<close>

fun window_loop :: "queryBlock \<Rightarrow> relation list \<Rightarrow> (string \<times> tree) list \<Rightarrow> tree list \<Rightarrow> (string \<times> tree) list \<times> Diagnostic list" where
  "window_loop block relations windows [] = (windows, [])"
| "window_loop block relations windows (definition' # rest) =
     (let name = identifier_of (GetText (rule_of ''New_window_name'' definition')) in
      if map_of windows name \<noteq> None then
        (let (ws, ds) = window_loop block relations windows rest in
         (ws, block_at block (Some definition') (sprintf ''duplicate window %q'' [FStr name]) # ds))
      else
        (let spec = rule_opt ''Window_specification'' definition';
             (ws, ds) = window_loop block relations (windows @ [(name, rule_of ''Window_specification'' definition')]) rest in
         (ws, (case validateRowNumberWindow (qb_tree block) relations spec of
             Some e \<Rightarrow> [block_at block (Some definition') (sprintf ''window %q: %v'' [FStr name, FErr e])]
           | None \<Rightarrow> []) @ ds)))"

definition rowNumberWindows :: "queryBlock \<Rightarrow> tree \<Rightarrow> relation list \<Rightarrow> (string \<times> tree) list \<times> Diagnostic list" where
  "rowNumberWindows block core relations =
     (case rule_opt ''Window_clause'' core of
        None \<Rightarrow> ([], [])
      | Some clause \<Rightarrow> window_loop block relations [] (rules ''Window_definition'' (rule_of ''Window_definition_list'' clause)))"

definition is_window_call :: "tree \<Rightarrow> bool" where
  "is_window_call t \<longleftrightarrow> is_rule ''Invoke_expr'' t \<and>
     (case rule_opt ''Invoke_expr_tail'' t of Some tail \<Rightarrow> has_token ''OVER'' tail | None \<Rightarrow> False)"

definition validateWindowPlacement :: "queryBlock \<Rightarrow> tree \<Rightarrow> Diagnostic list" where
  "validateWindowPlacement block core =
     map (\<lambda>invoke. block_at block (Some invoke) ''window functions are supported only as direct SELECT projections'')
       (filter (\<lambda>t. is_window_call t \<and> \<not> directWindowProjection (qb_tree block) t) (scopeDescendants core))"

definition hasWindowCall :: "tree \<Rightarrow> bool" where
  "hasWindowCall root \<longleftrightarrow> list_ex is_window_call (scopeDescendants root)"

section \<open>The columns of names\<close>

definition table_binding :: "relation \<Rightarrow> TableBinding" where
  "table_binding rel = \<lparr>bt_Table = tb_Name (rel_table rel), bt_Alias = rel_alias rel\<rparr>"

definition column_binding :: "relation list \<Rightarrow> columnRef \<Rightarrow> ColumnBinding option" where
  "column_binding relations ref =
     (case List.map_filter (\<lambda>rel. if ref_qualifier ref \<noteq> [] \<and> ref_qualifier ref \<noteq> rel_alias rel then None
          else map_option (\<lambda>column. \<lparr>bc_Table = table_binding rel, bc_Column = column\<rparr>) (tableColumn (rel_table rel) (ref_name ref)))
        relations of
        b # _ \<Rightarrow> Some b
      | [] \<Rightarrow> None)"

definition record_column :: "relation list \<Rightarrow> columnRef \<Rightarrow> (int \<rightharpoonup> ColumnBinding) \<Rightarrow> (int \<rightharpoonup> ColumnBinding)" where
  "record_column relations ref columns =
     (case column_binding relations ref of None \<Rightarrow> columns | Some b \<Rightarrow> columns(token_index (ref_ctx ref) \<mapsto> b))"

definition recordColumnBindings :: "tree \<Rightarrow> tree \<Rightarrow> relation list \<Rightarrow> analysis \<Rightarrow> analysis" where
  "recordColumnBindings query root relations s =
     (let bindings = map table_binding relations in
      s\<lparr>st_selects := (if is_rule ''Select_core'' root
            then (st_selects s)(token_index root \<mapsto> \<lparr>bs_Relations = bindings, bs_Columns = []\<rparr>) else st_selects s),
        st_relations := (if list_ex (is_rule ''In_expr'') (parents query root) then st_relations s else st_relations s @ bindings),
        st_columns := fold (record_column relations) (columnRefs query root) (st_columns s)\<rparr>)"

definition isOrderByReference :: "tree \<Rightarrow> tree \<Rightarrow> bool" where
  "isOrderByReference query root \<longleftrightarrow>
     (case List.find (\<lambda>t. is_rule ''Order_by_clause'' t \<or> is_rule ''Select_core'' t) (parents query root) of
        Some t \<Rightarrow> is_rule ''Order_by_clause'' t
      | None \<Rightarrow> False)"

text \<open>A name in ORDER BY that is one of the output columns.\<close>

definition output_reference :: "tree \<Rightarrow> Column list \<Rightarrow> columnRef \<Rightarrow> bool" where
  "output_reference query columns ref \<longleftrightarrow> ref_qualifier ref = [] \<and> isOrderByReference query (ref_ctx ref)
     \<and> list_ex (\<lambda>column. ResultName column = ref_name ref) columns"

definition embed_argument :: "wildcardRewrites option \<Rightarrow> int \<Rightarrow> bool" where
  "embed_argument wildcards position \<longleftrightarrow> (case wildcards of Some w \<Rightarrow> List.member (ww_usedEmbedArgs w) position | None \<Rightarrow> False)"

fun reference_loop ::
  "queryBlock \<Rightarrow> wildcardRewrites option \<Rightarrow> relation list \<Rightarrow> Column list \<Rightarrow> int list \<Rightarrow> columnRef list \<Rightarrow> Diagnostic list" where
  "reference_loop block wildcards relations projection seen [] = []"
| "reference_loop block wildcards relations projection seen (ref # refs) =
     (let position = start_index (ref_ctx ref) in
      if embed_argument wildcards position \<or> List.member seen position then
        reference_loop block wildcards relations projection seen refs
      else (if output_reference (qb_tree block) projection ref then []
          else (case resolveColumn relations ref of
              Inl e \<Rightarrow> [block_at block (Some (ref_ctx ref)) (error_text e)]
            | Inr _ \<Rightarrow> []))
        @ reference_loop block wildcards relations projection (position # seen) refs)"

definition validateColumnReferences ::
  "queryBlock \<Rightarrow> wildcardRewrites option \<Rightarrow> tree \<Rightarrow> relation list \<Rightarrow> Column list \<Rightarrow> Diagnostic list" where
  "validateColumnReferences block wildcards root relations projection =
     reference_loop block wildcards relations projection [] (columnRefs (qb_tree block) root)"

section \<open>Target tables\<close>

definition intoTableName :: "tree \<Rightarrow> string" where
  "intoTableName ctx =
     (case sub_rule ''Simple_table_ref'' (rule_opt ''Into_simple_table_ref'' ctx) of
        None \<Rightarrow> []
      | Some ref \<Rightarrow> simpleTableName (Some ref))"

definition targetTable :: "Catalog \<Rightarrow> queryBlock \<Rightarrow> string \<Rightarrow> tree \<Rightarrow> Table option \<times> Diagnostic list" where
  "targetTable catalog block name ctx =
     (let name = resolveTablePath (qb_tablePathPrefix block) name in
      case findTable catalog name of
        None \<Rightarrow> (None, [block_at block (Some ctx) (sprintf ''unknown table %q'' [FStr name])])
      | Some table \<Rightarrow> (Some table, []))"

end
