(* ===== verification/Grouping.thy ===== *)
theory Grouping
  imports Relations
begin

text \<open>
  GROUP BY, HAVING and UNION (\<open>select_semantic.go\<close>): the aliases a grouping introduces, which columns a
  grouped query may project, and the columns of a union.
\<close>

section \<open>Aliases\<close>

text \<open>One element of the grouping: the alias so far seen, and the column or diagnostic it gives.\<close>

definition grouping_column_of :: "queryBlock \<Rightarrow> relation list \<Rightarrow> type_map \<Rightarrow> tree \<Rightarrow> string \<Rightarrow> Column list \<times> Diagnostic list" where
  "grouping_column_of block relations bindings named alias =
     (case rule_opt ''Expr'' named of
        None \<Rightarrow> ([], [])
      | Some expr \<Rightarrow>
          if alias_of_itself (qb_tree block) expr alias then ([], [])
          else if containsAggregate expr then
            ([], [block_at block (Some expr) ''GROUP BY expression cannot contain an aggregate function''])
          else (case resolveExpression (block_scope block relations bindings) (Some expr) of
              Inl e \<Rightarrow> ([], [block_at block (Some expr) (sprintf ''cannot resolve GROUP BY expression: %v'' [FErr e])])
            | Inr typ \<Rightarrow> ([typed_column alias typ], [])))"

fun grouping_loop ::
  "queryBlock \<Rightarrow> relation list \<Rightarrow> type_map \<Rightarrow> string list \<Rightarrow> tree list \<Rightarrow> Column list \<times> Diagnostic list" where
  "grouping_loop block relations bindings seen [] = ([], [])"
| "grouping_loop block relations bindings seen (element # elements) =
     (case grouping_named element of
        None \<Rightarrow> grouping_loop block relations bindings seen elements
      | Some named \<Rightarrow>
          if \<not> has_token ''AS'' named then grouping_loop block relations bindings seen elements
          else (let alias = named_alias named;
                    (cs, ds) = (if List.member seen alias
                      then ([], [block_at block (Some named) (sprintf ''duplicate GROUP BY alias %q'' [FStr alias])])
                      else grouping_column_of block relations bindings named alias);
                    (cs', ds') = grouping_loop block relations bindings (alias # seen) elements
                in (cs @ cs', ds @ ds')))"

definition groupingAliases :: "queryBlock \<Rightarrow> tree \<Rightarrow> relation list \<Rightarrow> type_map \<Rightarrow> Table \<times> Diagnostic list" where
  "groupingAliases block core relations bindings =
     (case grouping_elements core of
        None \<Rightarrow> (new_table [] [], [])
      | Some elements \<Rightarrow>
          (let (cs, ds) = grouping_loop block relations bindings [] elements in (new_table [] cs, ds)))"

definition clearGroupingAliasBindings :: "tree \<Rightarrow> tree \<Rightarrow> Table \<Rightarrow> (int \<rightharpoonup> ColumnBinding) \<Rightarrow> (int \<rightharpoonup> ColumnBinding)" where
  "clearGroupingAliasBindings query core aliases columns =
     fold (\<lambda>ref columns. if ref_qualifier ref = [] \<and> groupingAliasVisible query ref \<and> tableColumn aliases (ref_name ref) \<noteq> None
         then columns(token_index (ref_ctx ref) := None) else columns) (columnRefs query core) columns"

section \<open>Grouped columns\<close>

definition column_key :: "relation \<Rightarrow> string \<Rightarrow> string" where
  "column_key rel name = rel_alias rel @ CHR 0x00 # name"

definition resolvedColumnKey :: "relation list \<Rightarrow> string \<Rightarrow> string \<Rightarrow> string res" where
  "resolvedColumnKey relations qualifier name =
     (case (if qualifier = [] then List.find (\<lambda>rel. rel_grouping rel \<and> tableColumn (rel_table rel) name \<noteq> None) relations else None) of
        Some rel \<Rightarrow> Inr (column_key rel name)
      | None \<Rightarrow>
          (case filter (\<lambda>rel. (qualifier = [] \<or> qualifier = rel_alias rel) \<and> tableColumn (rel_table rel) name \<noteq> None) relations of
             [] \<Rightarrow> Inl (Errorf ''unknown column %q'' [FStr (if qualifier = [] then name else qualifier @ ''.'' @ name)])
           | [rel] \<Rightarrow> Inr (column_key rel name)
           | _ \<Rightarrow> Inl (Errorf ''ambiguous column %q'' [FStr name])))"

definition known_key :: "string res \<Rightarrow> string list" where
  "known_key r = (case r of Inr key \<Rightarrow> [key] | Inl _ \<Rightarrow> [])"

text \<open>The keys that one element groups by, and its diagnostics.\<close>

definition grouping_keys :: "queryBlock \<Rightarrow> relation list \<Rightarrow> relation list \<Rightarrow> tree \<Rightarrow> string list \<times> Diagnostic list" where
  "grouping_keys block sources relations element =
     (case grouping_named element of
        None \<Rightarrow> ([], [block_at block (Some element) ''only direct column GROUP BY elements are currently supported''])
      | Some named \<Rightarrow>
          (case rule_opt ''Expr'' named of
             None \<Rightarrow> ([], [block_at block (Some element) ''only direct column GROUP BY elements are currently supported''])
           | Some expr \<Rightarrow>
               (let pure = isPureColumnExpression (qb_tree block) expr; ref = hd (columnRefs (qb_tree block) expr) in
                if \<not> pure \<and> \<not> has_token ''AS'' named then
                  ([], [block_at block (Some expr) ''only direct column GROUP BY expressions are currently supported''])
                else ((if pure then known_key (resolvedColumnKey sources (ref_qualifier ref) (ref_name ref)) else [])
                  @ (if has_token ''AS'' named then known_key (resolvedColumnKey relations [] (named_alias named)) else []), []))))"

definition selectHavingExpression :: "tree \<Rightarrow> tree option" where
  "selectHavingExpression core =
     (if \<not> has_token ''HAVING'' core then None
      else (let index = (if has_token ''WHERE'' core then 1 else 0); es = rules ''Expr'' core in
        if index < length es then Some (es ! index) else None))"

definition aggregate_spans :: "tree \<Rightarrow> (int \<times> int) list" where
  "aggregate_spans root = map (\<lambda>t. (start_index t, stop_index t)) (filter is_aggregate_call (scopeDescendants root))"

definition unaggregatedColumnRefs :: "tree \<Rightarrow> tree \<Rightarrow> columnRef list" where
  "unaggregatedColumnRefs query root =
     (let spans = aggregate_spans root in
      filter (\<lambda>ref. \<not> list_ex (\<lambda>(a, b). a \<le> start_index (ref_ctx ref) \<and> start_index (ref_ctx ref) \<le> b) spans) (columnRefs query root))"

text \<open>\<open>key, _ := resolvedColumnKey(...)\<close> leaves the empty key when the column is not resolved.\<close>

definition ungrouped_refs :: "tree \<Rightarrow> relation list \<Rightarrow> string list \<Rightarrow> tree \<Rightarrow> columnRef list" where
  "ungrouped_refs query relations grouped expr =
     filter (\<lambda>ref. \<not> List.member grouped
         (case resolvedColumnKey relations (ref_qualifier ref) (ref_name ref) of Inr key \<Rightarrow> key | Inl _ \<Rightarrow> []))
       (unaggregatedColumnRefs query expr)"

definition ungrouped_message :: "queryBlock \<Rightarrow> string \<Rightarrow> columnRef \<Rightarrow> Diagnostic" where
  "ungrouped_message block clause ref =
     block_at block (Some (ref_ctx ref))
       (sprintf ''%s column %q must appear in GROUP BY or an aggregate function'' [FStr clause, FStr (qualifiedName ref)])"

definition grouped_projection :: "queryBlock \<Rightarrow> relation list \<Rightarrow> string list \<Rightarrow> tree \<Rightarrow> Diagnostic list" where
  "grouped_projection block relations grouped result =
     (if has_token ''ASTERISK'' result then
        [block_at block (Some result) ''star projections are unsupported in grouped or aggregate queries; list grouped columns explicitly'']
      else (case rule_opt ''Expr'' result of
          None \<Rightarrow> []
        | Some expr \<Rightarrow> map (ungrouped_message block ''projection'') (ungrouped_refs (qb_tree block) relations grouped expr)))"

definition having_diagnostics :: "queryBlock \<Rightarrow> bool \<Rightarrow> relation list \<Rightarrow> type_map \<Rightarrow> string list \<Rightarrow> tree option \<Rightarrow> Diagnostic list" where
  "having_diagnostics block isGrouped relations bindings grouped having =
     (case having of
        None \<Rightarrow> []
      | Some expr \<Rightarrow>
          map (ungrouped_message block ''HAVING'') (ungrouped_refs (qb_tree block) relations grouped expr)
          @ (case resolveExpression ((block_scope block relations bindings)\<lparr>sc_grouped := isGrouped\<rparr>) (Some expr) of
               Inl e \<Rightarrow> [block_at block (Some expr) (sprintf ''cannot resolve HAVING expression: %v'' [FErr e])]
             | Inr t \<Rightarrow>
                 if Kind (UnwrapOptional t) \<noteq> ''Bool'' then
                   [block_at block (Some expr) (sprintf ''HAVING expression has type %s, want Bool'' [FType t])]
                 else []))"

definition aggregating :: "tree \<Rightarrow> tree option \<Rightarrow> bool" where
  "aggregating core having \<longleftrightarrow>
     has_rule ''Group_by_clause'' core
   \<or> list_ex (\<lambda>result. case rule_opt ''Expr'' result of Some expr \<Rightarrow> containsAggregate expr | None \<Rightarrow> False) (rules ''Result_column'' core)
   \<or> (case having of Some expr \<Rightarrow> containsAggregate expr | None \<Rightarrow> False)"

definition grouped_keys :: "queryBlock \<Rightarrow> tree \<Rightarrow> relation list \<Rightarrow> string list \<times> Diagnostic list" where
  "grouped_keys block core relations =
     (let sources = (if ends_grouping relations then butlast relations else relations);
          rs = map (grouping_keys block sources relations) (case grouping_elements core of Some es \<Rightarrow> es | None \<Rightarrow> [])
      in (concat (map fst rs), concat (map snd rs)))"

definition validateGrouping :: "queryBlock \<Rightarrow> tree \<Rightarrow> relation list \<Rightarrow> type_map \<Rightarrow> Diagnostic list" where
  "validateGrouping block core relations bindings =
     (let (grouped, ds) = grouped_keys block core relations; having = selectHavingExpression core in
      ds @ (if \<not> aggregating core having then []
        else concat (map (grouped_projection block relations grouped) (rules ''Result_column'' core))
          @ having_diagnostics block (has_rule ''Group_by_clause'' core) relations bindings grouped having))"

section \<open>UNION\<close>

text \<open>The columns of an arm under their result names, and its duplicate names.\<close>

fun arm_columns :: "(string \<times> Column) list \<Rightarrow> Column list \<Rightarrow> (string \<times> Column) list \<times> string list" where
  "arm_columns m [] = (m, [])"
| "arm_columns m (column # columns) =
     (let name = ResultName column in
      if map_of m name \<noteq> None then (let (m', dups) = arm_columns m columns in (m', name # dups))
      else arm_columns (m @ [(name, column)]) columns)"

text \<open>All names with the first column that has them, in the order in which they appear.\<close>

fun representatives :: "(string \<times> Column) list \<Rightarrow> (string \<times> Column) list \<Rightarrow> (string \<times> Column) list" where
  "representatives seen [] = seen"
| "representatives seen ((name, column) # rest) =
     representatives (if map_of seen name = None then seen @ [(name, column)] else seen) rest"

definition union_name :: "(string \<times> Column) list \<Rightarrow> string \<Rightarrow> Column \<Rightarrow> Column" where
  "union_name reps name column =
     (if count_list (map (\<lambda>(_, c). col_Name c) reps) (col_Name column) > 1 then
        column\<lparr>col_Name := str_replace_char (CHR ''.'') ''_'' name, col_WireName := name\<rparr>
      else if col_Name column \<noteq> name then column\<lparr>col_WireName := name\<rparr>
      else column\<lparr>col_WireName := []\<rparr>)"

definition union_column :: "(string \<times> Column) list list \<Rightarrow> (string \<times> Column) list \<Rightarrow> string \<times> Column \<Rightarrow> string + Column" where
  "union_column byArm reps rep =
     (let name = fst rep; inputs = map (\<lambda>arm. map_of arm name) byArm in
      case CommonType (List.map_filter (map_option col_Type) inputs) of
        Inl e \<Rightarrow> Inl (sprintf ''UNION column %q has incompatible types: %v'' [FStr name, FErr e])
      | Inr t \<Rightarrow>
          Inr (union_name reps name ((snd rep)\<lparr>col_Table := [],
            col_Type := (if List.member inputs None \<and> \<not> IsOptional t then Optional t else t)\<rparr>)))"

fun union_loop ::
  "(string \<times> Column) list list \<Rightarrow> (string \<times> Column) list \<Rightarrow> (string \<times> string) list \<Rightarrow> (string \<times> Column) list \<Rightarrow> Column list \<times> string list" where
  "union_loop byArm reps logical [] = ([], [])"
| "union_loop byArm reps logical (rep # rest) =
     (case union_column byArm reps rep of
        Inl message \<Rightarrow> (let (cs, ms) = union_loop byArm reps logical rest in (cs, message # ms))
      | Inr column \<Rightarrow>
          (case map_of logical (col_Name column) of
             Some previous \<Rightarrow>
               (let (cs, ms) = union_loop byArm reps logical rest in
                (cs, sprintf ''UNION result columns %q and %q produce duplicate logical name %q; use explicit unique AS aliases''
                   [FStr previous, FStr (fst rep), FStr (col_Name column)] # ms))
           | None \<Rightarrow>
               (let (cs, ms) = union_loop byArm reps ((col_Name column, fst rep) # logical) rest in (column # cs, ms))))"

definition reconcileUnionColumns :: "queryBlock \<Rightarrow> tree \<Rightarrow> Column list list \<Rightarrow> Column list \<times> Diagnostic list" where
  "reconcileUnionColumns block statement arms =
     (case arms of
        [arm] \<Rightarrow> (arm, [])
      | _ \<Rightarrow>
          (let parsed = map (arm_columns []) arms; byArm = map fst parsed; dups = concat (map snd parsed);
               message = block_at block (Some statement) in
           if dups \<noteq> [] then
             ([], map (\<lambda>name. message (sprintf ''UNION input has duplicate result column %q'' [FStr name])) dups)
           else (let reps = representatives [] (concat byArm); (cs, ms) = union_loop byArm reps [] reps in (cs, map message ms))))"

end
