(* ===== verification/Projections.thy ===== *)
theory Projections
  imports Relations GoUnicode
begin

text \<open>
  The columns of a SELECT (\<open>semantic.go\<close>, \<open>embed.go\<close>, \<open>projection_names.go\<close>, \<open>order_by.go\<close>): wildcards,
  WITHOUT, \<open>sqlc.embed\<close>, the names of computed columns, and the columns that ORDER BY means. The rewrites
  of the block are passed along and returned.
\<close>

section \<open>Names of computed columns\<close>

record implicitProjection =
  ip_column :: nat
  ip_ordinal :: nat
  ip_expression :: tree

definition column_n :: "nat \<Rightarrow> string" where
  "column_n n = ''column'' @ show_nat n"

lemma column_n_inject [simp]: "column_n m = column_n n \<longleftrightarrow> m = n"
proof
  have d: "digits_value 10 0 (show_nat k) = Some k" for k by (rule conjunct2 [OF conjunct2 [OF show_nat_digits]])
  assume "column_n m = column_n n"
  then have "show_nat m = show_nat n" unfolding column_n_def by (simp only: same_append_eq)
  then have "Some m = Some n" by (simp only: d [symmetric])
  then show "m = n" by (simp only: option.inject)
qed (simp only:)

text \<open>\<open>for reserved[name] { ordinal++ }\<close>: the first number from \<open>k\<close> on whose name is free.\<close>

function free_ordinal :: "string list \<Rightarrow> nat \<Rightarrow> nat" where
  "free_ordinal reserved k = (if List.member reserved (column_n k) then free_ordinal reserved (Suc k) else k)"
  by pat_completeness auto
termination
proof (relation "measure (\<lambda>(reserved, k). card {n. column_n n \<in> set reserved \<and> k \<le> n})", goal_cases)
  case (2 reserved k)
  have "finite (column_n -` set reserved)"
    by (rule finite_vimageI) (simp_all add: inj_def)
  then have "finite {n. column_n n \<in> set reserved}" by (simp add: vimage_def)
  then have f: "finite {n. column_n n \<in> set reserved \<and> k \<le> n}" by (rule rev_finite_subset) auto
  have "k \<in> {n. column_n n \<in> set reserved \<and> k \<le> n} - {n. column_n n \<in> set reserved \<and> Suc k \<le> n}" using 2 by simp
  moreover have "{n. column_n n \<in> set reserved \<and> Suc k \<le> n} \<subseteq> {n. column_n n \<in> set reserved \<and> k \<le> n}" by auto
  ultimately have "{n. column_n n \<in> set reserved \<and> Suc k \<le> n} \<subset> {n. column_n n \<in> set reserved \<and> k \<le> n}" by blast
  from psubset_card_mono [OF f this] show ?case by simp
qed simp

declare free_ordinal.simps [simp del]

fun name_loop ::
  "bool \<Rightarrow> string list \<Rightarrow> bool \<Rightarrow> Column list \<Rightarrow> wildcardRewrites option \<Rightarrow> implicitProjection list
   \<Rightarrow> Column list \<times> bool \<times> wildcardRewrites option" where
  "name_loop wildcard reserved shifted columns rewrites [] = (columns, shifted, rewrites)"
| "name_loop wildcard reserved shifted columns rewrites (p # ps) =
     (let ordinal = free_ordinal reserved (ip_ordinal p); name = column_n ordinal;
          rewrites = (case rewrites of
              Some r \<Rightarrow> if wildcard then (let offset = runeByteOffset (ww_source r) (stop_index (ip_expression p) + 1) in
                Some (replace_span r offset offset ('' AS '' @ quotedYQLIdentifier name))) else Some r
            | None \<Rightarrow> None)
      in name_loop wildcard (name # reserved) (shifted \<or> ordinal \<noteq> ip_ordinal p)
           (columns[ip_column p := (columns ! ip_column p)\<lparr>col_Name := name\<rparr>]) rewrites ps)"

definition nameImplicitProjections ::
  "Column list \<Rightarrow> implicitProjection list \<Rightarrow> bool \<Rightarrow> wildcardRewrites option \<Rightarrow> Column list \<times> wildcardRewrites option" where
  "nameImplicitProjections columns unnamed wildcard rewrites =
     (if unnamed = [] then (columns, rewrites)
      else (let (columns, shifted, rewrites) =
          name_loop wildcard (map ResultName (filter (\<lambda>c. col_Name c \<noteq> []) columns)) False columns rewrites unnamed
        in (if shifted then sort_key ResultName columns else columns, rewrites)))"

section \<open>WITHOUT\<close>

definition alias_matches :: "string \<Rightarrow> relation \<Rightarrow> bool" where
  "alias_matches prefix rel \<longleftrightarrow> prefix = [] \<or> prefix = rel_alias rel"

definition relation_keys :: "relation list \<Rightarrow> (string \<times> string) list" where
  "relation_keys relations = concat (map (\<lambda>rel. map (\<lambda>c. (rel_alias rel, col_Name c)) (tb_Columns (rel_table rel))) relations)"

definition without_candidates :: "tree \<Rightarrow> relation list \<Rightarrow> (string \<times> string) list" where
  "without_candidates core relations =
     concat (map (\<lambda>result. relation_keys (filter (alias_matches (id_prefix result)) relations))
       (filter (has_token ''ASTERISK'') (rules ''Result_column'' core)))"

definition without_name :: "tree \<Rightarrow> string \<times> string" where
  "without_name name =
     (if has_token ''DOT'' name then
        (let ids = rules ''An_id'' name in (identifier_of (GetText (ids ! 0)), identifier_of (GetText (ids ! 1))))
      else ([], identifier_of (GetText (rule_of ''An_id_without'' name))))"

definition without_match :: "relation list \<Rightarrow> string \<Rightarrow> string \<Rightarrow> (string \<times> string) option" where
  "without_match relations qualifier column =
     List.find (\<lambda>(a, c). c \<noteq> [] \<and> c = column \<and> (qualifier = [] \<or> qualifier = a)) (relation_keys relations)"

fun without_loop ::
  "queryBlock \<Rightarrow> bool \<Rightarrow> relation list \<Rightarrow> (string \<times> string) list \<Rightarrow> tree list \<Rightarrow> (string \<times> string) list \<times> Diagnostic list" where
  "without_loop block ifExists relations seen [] = (seen, [])"
| "without_loop block ifExists relations seen (name # names) =
     (let (qualifier, column) = without_name name;
          failed = (\<lambda>message. let (s, ds) = without_loop block ifExists relations seen names in (s, block_at block (Some name) message # ds)) in
      if qualifier = [] \<and> length relations > 1 then
        failed (sprintf ''SELECT WITHOUT column %q in a JOIN requires a table alias'' [FStr column])
      else (case without_match relations qualifier column of
          None \<Rightarrow>
            if ifExists then without_loop block ifExists relations seen names
            else failed (sprintf ''unknown SELECT WITHOUT column %q'' [FStr (GetText name)])
        | Some key \<Rightarrow>
            if \<not> List.member seen key then without_loop block ifExists relations (key # seen) names
            else if ifExists then without_loop block ifExists relations seen names
            else failed (sprintf ''duplicate SELECT WITHOUT column %q'' [FStr (GetText name)])))"

definition selectWithoutColumns ::
  "queryBlock \<Rightarrow> wildcardRewrites option \<Rightarrow> tree \<Rightarrow> relation list
   \<Rightarrow> (string \<times> string) list \<times> Diagnostic list \<times> wildcardRewrites option" where
  "selectWithoutColumns block wildcards core relations =
     (case rule_opt ''Without_column_list'' core of
        None \<Rightarrow> ([], [], wildcards)
      | Some list' \<Rightarrow>
          (let candidates = without_candidates core relations in
           if candidates = [] then ([], [], wildcards)
           else (let (seen, ds) = without_loop block (has_token ''IF'' core) relations [] (rules ''Without_column_name'' list') in
             (filter (List.member candidates) seen, ds,
              if ds = [] then map_option (\<lambda>w. addWithout w core) wildcards else wildcards))))"

section \<open>Embedded tables\<close>

definition directEmbedCall :: "tree \<Rightarrow> tree option" where
  "directEmbedCall expr =
     (case sub_rule ''Unary_casual_subexpr'' (covering_rule ''Unary_subexpr'' expr) of
        None \<Rightarrow> None
      | Some casual \<Rightarrow>
          (case (rule_opt ''Id_expr'' casual, rule_opt ''Unary_subexpr_suffix'' casual) of
             (Some i, Some suffix) \<Rightarrow>
               (case (rules ''An_id_or_type'' suffix, rules ''Invoke_expr'' suffix) of
                  ([name], [invoke]) \<Rightarrow>
                    if equal_fold (identifier_of (GetText i)) ''sqlc'' \<and> equal_fold (identifier_of (GetText name)) ''embed''
                      \<and> GetText suffix = CHR ''.'' # GetText name @ GetText invoke then Some invoke else None
                | _ \<Rightarrow> None)
           | _ \<Rightarrow> None))"

text \<open>The one relation that is embedded, by its alias.\<close>

definition embed_alias :: "tree \<Rightarrow> tree \<Rightarrow> tree \<Rightarrow> string res" where
  "embed_alias query result invoke =
     (let usage = Inl (Errorf ''sqlc.embed expects a table or relation alias, such as sqlc.embed(t)'' []) in
      if has_rule ''An_id_or_type'' result \<or> has_rule ''An_id_as_compat'' result then
        Inl (Errorf ''sqlc.embed cannot have an AS alias; alias the table in FROM instead'' [])
      else (case (if has_token ''ASTERISK'' invoke then [] else named_arguments invoke) of
          [arg] \<Rightarrow>
            (case rule_opt ''Expr'' arg of
               None \<Rightarrow> usage
             | Some expr \<Rightarrow>
                 if has_token ''AS'' arg \<or> \<not> isPureColumnExpression query expr then usage
                 else (case columnRefs query expr of
                     [ref] \<Rightarrow> if ref_qualifier ref = [] then Inr (ref_name ref) else usage
                   | _ \<Rightarrow> usage))
        | _ \<Rightarrow> Inl (Errorf ''sqlc.embed expects one table or relation alias'' [])))"

definition embed_wire :: "nat \<Rightarrow> nat \<Rightarrow> string" where
  "embed_wire ordinal i = sprintf ''__sqlc_embed_%d_%d'' [FNat ordinal, FNat i]"

text \<open>
  \<open>strings.EqualFold\<close> on texts that may both be other than ASCII: it compares rune by rune, up to the orbits of
  \<open>unicode.SimpleFold\<close>. Exact for ASCII, with U+017F and U+212A in the orbits of s and k.
\<close>

definition fold_rune :: "packages \<Rightarrow> nat \<Rightarrow> nat" where
  "fold_rune pk r =
     (if r < 128 then (if 65 \<le> r \<and> r \<le> 90 then r + 32 else r)
      else if r = 383 then 115 else if r = 8490 then 107 else pk_fold pk r)"

definition EqualFold :: "packages \<Rightarrow> string \<Rightarrow> string \<Rightarrow> bool" where
  "EqualFold pk s t \<longleftrightarrow> map (fold_rune pk) (rune_list s) = map (fold_rune pk) (rune_list t)"

definition embed_relation :: "packages \<Rightarrow> wildcardRewrites \<Rightarrow> relation list \<Rightarrow> string \<Rightarrow> relation res" where
  "embed_relation pk w relations name =
     (case List.find (\<lambda>rel. rel_alias rel = name) relations of
        None \<Rightarrow> Inl (Errorf ''sqlc.embed refers to unknown table or alias %q'' [FStr name])
      | Some rel \<Rightarrow>
          (let table = rel_table rel; field = Base (tb_Name table) in
           if \<not> rel_physical rel then
             Inl (Errorf ''sqlc.embed requires a physical catalog table; %q is a derived, tabular or flattened source'' [FStr name])
           else if rel_optional rel then
             Inl (Errorf ''sqlc.embed of nullable OUTER JOIN side %q is unsupported; select explicit columns or use an INNER JOIN'' [FStr name])
           else if list_ex (\<lambda>previous. EqualFold pk (em_Field previous) field) (ww_embeds w) then
             Inl (Errorf ''sqlc.embed of table %q repeats logical result field %q; use explicit columns'' [FStr (tb_Name table), FStr field])
           else if tb_Columns table = [] then Inl (Errorf ''sqlc.embed table %q has no columns'' [FStr (tb_Name table)])
           else Inr rel))"

definition embedProjection ::
  "queryBlock \<Rightarrow> wildcardRewrites option \<Rightarrow> tree \<Rightarrow> tree \<Rightarrow> tree \<Rightarrow> relation list \<Rightarrow> nat \<Rightarrow> nat
   \<Rightarrow> (Column list \<times> Embedding \<times> string list) res" where
  "embedProjection block wildcards core result invoke relations ordinal start =
     (case (case wildcards of Some w \<Rightarrow> if ww_embedCore w = Some core then Some w else None | None \<Rightarrow> None) of
        None \<Rightarrow> Inl (Errorf ''sqlc.embed is supported only in a single top-level SELECT result'' [])
      | Some w \<Rightarrow>
          and_then (embed_alias (qb_tree block) result invoke) (\<lambda>name.
            and_then (embed_relation (qb_packages block) w relations name) (\<lambda>rel.
              let columns = List.enumerate 0 (tb_Columns (rel_table rel)) in
              Inr (map (\<lambda>(i, c). c\<lparr>col_WireName := embed_wire ordinal i\<rparr>) columns,
                \<lparr>em_Start = int start, em_End = int (start + length columns), em_Table = tb_Name (rel_table rel),
                 em_Alias = rel_alias rel, em_Field = Base (tb_Name (rel_table rel))\<rparr>,
                map (\<lambda>(i, c). quotedYQLIdentifier (rel_alias rel) @ ''.'' @ quotedYQLIdentifier (col_Name c)
                  @ '' AS '' @ quotedYQLIdentifier (embed_wire ordinal i)) columns))))"

text \<open>An embedding stands for the columns of a physical table, whatever columns come before and after it.\<close>

lemma embedProjection_copies:
  assumes "embedProjection block wildcards core result invoke relations ordinal (length before') = Inr (columns, emb, es)"
  shows "\<exists>rel\<in>set relations. rel_physical rel \<and> copies_table (before' @ columns @ after') emb (rel_table rel)"
proof -
  obtain w name rel where rel: "embed_relation (qb_packages block) w relations name = Inr rel"
    and c: "columns = map (\<lambda>(i, c). c\<lparr>col_WireName := embed_wire ordinal i\<rparr>) (List.enumerate 0 (tb_Columns (rel_table rel)))"
    and e: "em_Start emb = int (length before')" "em_End emb = int (length before' + length columns)" "em_Table emb = tb_Name (rel_table rel)"
    using assms by (auto simp: embedProjection_def Let_def result_simps split: option.splits if_splits)
  have "rel \<in> set relations \<and> rel_physical rel"
    using rel by (auto simp: embed_relation_def Let_def find_Some_iff split: option.splits if_splits)
  moreover have "map unwired columns = map unwired (tb_Columns (rel_table rel))"
    unfolding c by (intro nth_equalityI) (simp_all add: unwired_def nth_enumerate_eq)
  ultimately show ?thesis using e by (auto simp: copies_table_def)
qed

section \<open>Result columns\<close>

record projection =
  pj_columns :: "Column list"
  pj_diagnostics :: "Diagnostic list"
  pj_unnamed :: "implicitProjection list"
  pj_wildcard :: bool
  pj_empty :: nat
  pj_rewrites :: "wildcardRewrites option"

definition projection_failed :: "queryBlock \<Rightarrow> tree \<Rightarrow> string \<Rightarrow> projection \<Rightarrow> projection" where
  "projection_failed block ctx message p = p\<lparr>pj_diagnostics := pj_diagnostics p @ [block_at block (Some ctx) message]\<rparr>"

definition star_columns :: "relation list \<Rightarrow> (string \<times> string) list \<Rightarrow> string \<Rightarrow> (relation \<times> Column) list" where
  "star_columns sources excluded prefix =
     concat (map (\<lambda>rel. map (Pair rel) (filter (\<lambda>c. \<not> List.member excluded (rel_alias rel, col_Name c)) (tb_Columns (rel_table rel))))
       (filter (alias_matches prefix) sources))"

text \<open>
  The expression for a column: after the first \<open>*\<close> the qualifier that the author wrote is still there, so
  the first expression of a qualified wildcard has none.
\<close>

definition star_expression :: "bool \<Rightarrow> string \<Rightarrow> nat \<Rightarrow> relation \<times> Column \<Rightarrow> string" where
  "star_expression many prefix i rc =
     (let name = quotedYQLIdentifier (col_Name (snd rc)) in
      if prefix \<noteq> [] \<or> many then
        (if prefix = [] \<or> i \<noteq> 0 then quotedYQLIdentifier (rel_alias (fst rc)) @ ''.'' @ name else name) @ '' AS '' @ name
      else name)"

definition project_star :: "queryBlock \<Rightarrow> tree \<Rightarrow> relation list \<Rightarrow> (string \<times> string) list \<Rightarrow> nat \<Rightarrow> tree \<Rightarrow> projection \<Rightarrow> projection" where
  "project_star block core sources excluded ordinal result p =
     (let prefix = id_prefix result; rcs = star_columns sources excluded prefix;
          expressions = map (\<lambda>(i, rc). star_expression (length sources > 1) prefix i rc) (List.enumerate 0 rcs);
          p = p\<lparr>pj_wildcard := True, pj_columns := pj_columns p @ map (\<lambda>(rel, c). joinedColumn c (rel_optional rel)) rcs\<rparr> in
      if \<not> list_ex (alias_matches prefix) sources then
        projection_failed block result (sprintf ''unknown table or alias %q'' [FStr prefix]) p
      else (case pj_rewrites p of
          None \<Rightarrow> p
        | Some w \<Rightarrow>
            if expressions = [] then p\<lparr>pj_empty := Suc (pj_empty p), pj_rewrites := Some (removeResultColumn w core ordinal)\<rparr>
            else (case token_of ''ASTERISK'' result of
                Some tok \<Rightarrow> p\<lparr>pj_rewrites := Some (rewrites_add w tok expressions)\<rparr>
              | None \<Rightarrow> p)))"

definition project_embed ::
  "queryBlock \<Rightarrow> tree \<Rightarrow> relation list \<Rightarrow> nat \<Rightarrow> tree \<Rightarrow> tree \<Rightarrow> tree \<Rightarrow> projection \<Rightarrow> projection" where
  "project_embed block core sources ordinal result expr invoke p =
     (let p = p\<lparr>pj_wildcard := True\<rparr> in
      case embedProjection block (pj_rewrites p) core result invoke sources ordinal (length (pj_columns p)) of
        Inl e \<Rightarrow> projection_failed block expr (error_text e) p
      | Inr (columns, embedding, expressions) \<Rightarrow>
          p\<lparr>pj_columns := pj_columns p @ columns,
            pj_rewrites := map_option (\<lambda>w. addExpression (w\<lparr>ww_embeds := ww_embeds w @ [embedding],
                ww_usedEmbeds := start_index expr # ww_usedEmbeds w,
                ww_usedEmbedArgs := map (\<lambda>ref. start_index (ref_ctx ref)) (columnRefs (qb_tree block) expr) @ ww_usedEmbedArgs w\<rparr>)
              expr expressions) (pj_rewrites p)\<rparr>)"

definition expressionColumn :: "queryBlock \<Rightarrow> relation list \<Rightarrow> type_map \<Rightarrow> bool \<Rightarrow> tree \<Rightarrow> (Column \<times> bool) res" where
  "expressionColumn block relations declared grouped expr =
     (let expr = unwrapOrderByColumn expr;
          sc = (block_scope block relations declared)\<lparr>sc_grouped := grouped, sc_windows := qb_windows block\<rparr> in
      case resolveMemberAccess resolve sc expr of
        Some r \<Rightarrow> and_then (run_result r) (\<lambda>t. Inr (typed_column [] t, False))
      | None \<Rightarrow>
          if isPureColumnExpression (qb_tree block) expr then
            and_then (resolveColumn relations (hd (columnRefs (qb_tree block) expr))) (\<lambda>column. Inr (column, True))
          else and_then (resolveExpression sc (Some expr)) (\<lambda>t. Inr (typed_column [] t, False)))"

definition result_alias :: "tree \<Rightarrow> string" where
  "result_alias result =
     (if has_rule ''An_id_as_compat'' result then alias_text ''An_id_as_compat'' result else alias_text ''An_id_or_type'' result)"

definition project_expression ::
  "queryBlock \<Rightarrow> tree \<Rightarrow> relation list \<Rightarrow> relation list \<Rightarrow> type_map \<Rightarrow> bool \<Rightarrow> nat \<Rightarrow> tree \<Rightarrow> tree \<Rightarrow> projection \<Rightarrow> projection" where
  "project_expression block core relations sources declared namedResult ordinal result expr p =
     (case expressionColumn block relations declared (has_rule ''Group_by_clause'' core) expr of
        Inl e \<Rightarrow> projection_failed block expr (error_text e) p
      | Inr (column, pure) \<Rightarrow>
          (let alias = result_alias result;
               named = (if alias \<noteq> [] then column\<lparr>col_Name := alias, col_WireName := []\<rparr>
                 else if pure \<and> length sources > 1 then
                   (case columnRefs (qb_tree block) expr of
                      [ref] \<Rightarrow> if ref_qualifier ref \<noteq> [] then column\<lparr>col_WireName := qualifiedName ref\<rparr> else column
                    | _ \<Rightarrow> column)
                 else column);
               unnamed = (if alias = [] \<and> \<not> pure \<and> namedResult
                 then [\<lparr>ip_column = length (pj_columns p), ip_ordinal = ordinal, ip_expression = expr\<rparr>] else [])
           in p\<lparr>pj_columns := pj_columns p @ [named], pj_unnamed := pj_unnamed p @ unnamed\<rparr>))"

definition project_result ::
  "queryBlock \<Rightarrow> tree \<Rightarrow> relation list \<Rightarrow> relation list \<Rightarrow> type_map \<Rightarrow> bool \<Rightarrow> (string \<times> string) list \<Rightarrow> nat \<times> tree \<Rightarrow> projection \<Rightarrow> projection" where
  "project_result block core relations sources declared namedResult excluded ir p =
     (case ir of (ordinal, result) \<Rightarrow>
       if has_token ''ASTERISK'' result then project_star block core sources excluded ordinal result p
       else (let expr = rule_of ''Expr'' result in
         case directEmbedCall expr of
           Some invoke \<Rightarrow> project_embed block core sources ordinal result expr invoke p
         | None \<Rightarrow> project_expression block core relations sources declared namedResult ordinal result expr p))"

text \<open>With an embedded table, every other column needs an explicit name of its own.\<close>

fun embed_collisions :: "queryBlock \<Rightarrow> tree \<Rightarrow> string list \<Rightarrow> Column list \<Rightarrow> Diagnostic list" where
  "embed_collisions block core seen [] = []"
| "embed_collisions block core seen (column # columns) =
     (let name = ResultName column in
      (if List.member seen name then
         [block_at block (Some core) (sprintf ''sqlc.embed result column %q collides with another projection; use a unique AS alias'' [FStr name])]
       else []) @ embed_collisions block core (name # seen) columns)"

definition projection_checks :: "queryBlock \<Rightarrow> tree \<Rightarrow> projection \<Rightarrow> Diagnostic list" where
  "projection_checks block core p =
     (let without = rule_opt ''Without_column_list'' core in
      (if without \<noteq> None \<and> pj_columns p = [] then
         [block_at block without ''SELECT WITHOUT removes every result column; generated clients require at least one column''] else [])
      @ (if pj_empty p > 1 then
         [block_at block without ''SELECT WITHOUT removes every column from multiple wildcard projections; select explicit columns''] else [])
      @ (if (case pj_rewrites p of Some w \<Rightarrow> ww_embeds w \<noteq> [] | None \<Rightarrow> False) then
           (if pj_unnamed p \<noteq> [] then
              [block_at block (Some core) ''sqlc.embed with computed result expressions requires explicit AS aliases''] else [])
           @ embed_collisions block core [] (pj_columns p)
         else []))"

definition selectProjectionMode ::
  "queryBlock \<Rightarrow> wildcardRewrites option \<Rightarrow> tree \<Rightarrow> relation list \<Rightarrow> type_map \<Rightarrow> bool
   \<Rightarrow> Column list \<times> Diagnostic list \<times> wildcardRewrites option" where
  "selectProjectionMode block wildcards core relations declared namedResult =
     (let sources = (if relations \<noteq> [] \<and> rel_grouping (last relations) then butlast relations else relations);
          (excluded, ds, wildcards) = selectWithoutColumns block wildcards core sources in
      if ds \<noteq> [] then ([], ds, wildcards)
      else (let p = fold (project_result block core relations sources declared namedResult excluded)
                (List.enumerate 0 (rules ''Result_column'' core))
                \<lparr>pj_columns = [], pj_diagnostics = [], pj_unnamed = [], pj_wildcard = False, pj_empty = 0, pj_rewrites = wildcards\<rparr>;
              ds = pj_diagnostics p @ projection_checks block core p;
              (columns, rewrites) = (if namedResult
                then nameImplicitProjections (pj_columns p) (pj_unnamed p) (pj_wildcard p) (pj_rewrites p)
                else (pj_columns p, pj_rewrites p))
        in (columns, ds, rewrites)))"

type_synonym projector =
  "queryBlock \<Rightarrow> wildcardRewrites option \<Rightarrow> tree \<Rightarrow> relation list \<Rightarrow> type_map \<Rightarrow> Column list \<times> Diagnostic list \<times> wildcardRewrites option"

definition selectProjection :: projector where
  "selectProjection block wildcards core relations declared = selectProjectionMode block wildcards core relations declared True"

definition selectDMLProjection :: projector where
  "selectDMLProjection block wildcards core relations declared = selectProjectionMode block wildcards core relations declared False"

text \<open>The projection of an IN subquery: one column, or one tuple of expressions.\<close>

definition tuple_result :: "tree \<Rightarrow> tree option" where
  "tuple_result core =
     (case rules ''Result_column'' core of
        [result] \<Rightarrow>
          if has_rule ''Expr'' result \<and> length (tupleExpressions (rule_of ''Expr'' result)) > 1 \<and> \<not> has_rule ''Without_column_list'' core
          then Some result else None
      | _ \<Rightarrow> None)"

definition selectINProjection :: projector where
  "selectINProjection block wildcards core relations bindings =
     (case tuple_result core of
        Some result \<Rightarrow>
          (let sc = (block_scope block relations bindings)\<lparr>sc_grouped := has_rule ''Group_by_clause'' core, sc_windows := qb_windows block\<rparr>;
               name = (if result_alias result = [] then ''column0'' else result_alias result) in
           case run_result (resolveINOperand resolve sc (rule_of ''Expr'' result)) of
             Inl e \<Rightarrow> ([], [block_at block (Some result) (error_text e)], wildcards)
           | Inr t \<Rightarrow> ([typed_column name t], [], wildcards))
      | None \<Rightarrow> selectProjection block wildcards core relations bindings)"

section \<open>ORDER BY\<close>

definition zero_binding :: ColumnBinding where
  "zero_binding = \<lparr>bc_Table = \<lparr>bt_Table = [], bt_Alias = []\<rparr>, bc_Column = zero_column\<rparr>"

definition bound_column :: "(int \<rightharpoonup> ColumnBinding) \<Rightarrow> int \<Rightarrow> ColumnBinding" where
  "bound_column columns i = (case columns i of Some b \<Rightarrow> b | None \<Rightarrow> zero_binding)"

text \<open>What one result column adds to the output names.\<close>

definition order_output ::
  "tree \<Rightarrow> relation list \<Rightarrow> (int \<rightharpoonup> ColumnBinding) \<Rightarrow> tree \<Rightarrow> (string \<rightharpoonup> ColumnBinding) \<Rightarrow> (string \<rightharpoonup> ColumnBinding)" where
  "order_output query relations columns result outputs =
     (if has_token ''ASTERISK'' result then
        fold (\<lambda>rel outputs. fold (\<lambda>c outputs. outputs(col_Name c \<mapsto> \<lparr>bc_Table = table_binding rel, bc_Column = c\<rparr>))
            (tb_Columns (rel_table rel)) outputs)
          (filter (alias_matches (id_prefix result)) relations) outputs
      else (let expr = unwrapOrderByColumn (rule_of ''Expr'' result) in
        if \<not> isPureColumnExpression query expr then outputs
        else (let ref = hd (columnRefs query expr);
                  plain = (if length relations > 1 \<and> ref_qualifier ref \<noteq> [] then qualifiedName ref else ref_name ref);
                  name = (if has_rule ''An_id_as_compat'' result \<or> has_rule ''An_id_or_type'' result then result_alias result else plain)
          in outputs(name \<mapsto> bound_column columns (token_index (ref_ctx ref))))))"

definition order_outputs :: "tree \<Rightarrow> tree \<Rightarrow> relation list \<Rightarrow> Column list \<Rightarrow> (int \<rightharpoonup> ColumnBinding) \<Rightarrow> (string \<rightharpoonup> ColumnBinding)" where
  "order_outputs query core relations projected columns =
     fold (order_output query relations columns) (rules ''Result_column'' core)
       (fold (\<lambda>c outputs. outputs(ResultName c \<mapsto> zero_binding)) projected (\<lambda>_. None))"

definition order_reference ::
  "queryBlock \<Rightarrow> (string \<rightharpoonup> ColumnBinding) \<Rightarrow> tree \<Rightarrow> columnRef \<Rightarrow> (int \<rightharpoonup> ColumnBinding) \<times> Diagnostic list
   \<Rightarrow> (int \<rightharpoonup> ColumnBinding) \<times> Diagnostic list" where
  "order_reference block outputs order ref acc =
     (case (if ref_qualifier ref = [] then outputs (ref_name ref) else None) of
        None \<Rightarrow> acc
      | Some output \<Rightarrow>
          (let i = token_index (ref_ctx ref); original = bound_column (fst acc) i; name = col_Name (bc_Column output) in
           if name \<noteq> [] \<and> bc_Table output = bc_Table original \<and> name = col_Name (bc_Column original) then acc
           else if \<not> isPureColumnExpression (qb_tree block) (unwrapOrderByColumn (rule_of ''Expr'' order)) then
             (fst acc, snd acc @ [block_at block (Some order)
               ''ORDER BY expressions referencing projection aliases are not yet supported; project the complete sorting expression with AS and order by that alias directly''])
           else ((if name = [] then (fst acc)(i := None) else (fst acc)(i \<mapsto> output)), snd acc)))"

definition sort_specifications :: "tree \<Rightarrow> tree \<Rightarrow> tree list" where
  "sort_specifications query core =
     filter (\<lambda>t. is_rule ''Sort_specification'' t
         \<and> \<not> list_ex (is_rule ''Window_order_clause'') (takeWhile (\<lambda>p. p \<noteq> core) (parents query t)))
       (scopeDescendants core)"

definition resolveOrderByProjections ::
  "queryBlock \<Rightarrow> tree \<Rightarrow> relation list \<Rightarrow> Column list \<Rightarrow> (int \<rightharpoonup> ColumnBinding) \<Rightarrow> (int \<rightharpoonup> ColumnBinding) \<times> Diagnostic list" where
  "resolveOrderByProjections block core relations projected columns =
     (let outputs = order_outputs (qb_tree block) core relations projected columns in
      fold (\<lambda>order. fold (order_reference block outputs order) (columnRefs (qb_tree block) (rule_of ''Expr'' order)))
        (sort_specifications (qb_tree block) core) (columns, []))"

end
