(* ===== verification/Predicates.thy ===== *)
theory Predicates
  imports Relations
begin

text \<open>
  WHERE and ON predicates (\<open>predicate.go\<close>) and the places where an IN subquery may stand
  (\<open>in_subquery.go\<close>).
\<close>

section \<open>Predicates\<close>

definition run_error :: "'a run \<Rightarrow> go_error option" where
  "run_error r = (case run_result r of Inl e \<Rightarrow> Some e | Inr _ \<Rightarrow> None)"

definition predicate_atoms :: "tree \<Rightarrow> tree list" where
  "predicate_atoms expr =
     concat (map (\<lambda>o'. concat (map (rules ''Xor_subexpr'') (rules ''And_subexpr'' o'))) (rules ''Or_subexpr'' expr))"

definition not_bool :: "ty \<Rightarrow> bool" where
  "not_bool t \<longleftrightarrow> Kind t \<noteq> ''Null'' \<and> Kind (UnwrapOptional t) \<noteq> ''Bool''"

definition condition_err :: "expressionScope \<Rightarrow> tree \<Rightarrow> tree \<Rightarrow> go_error option" where
  "condition_err sc atom condition =
     (if has_token ''IN'' condition then run_error (resolveINCondition resolve sc atom)
      else (let eq = rule_of ''Eq_subexpr'' atom in
        case resolveScalarNode sc eq of
          Inl e \<Rightarrow> Some (Errorf ''cannot resolve predicate operand %q: %w'' [FStr (GetText eq), FErr e])
        | Inr _ \<Rightarrow>
            if is_null_check condition then None
            else (case resolveComparison resolve sc atom of Some r \<Rightarrow> run_error r | None \<Rightarrow> None)))"

definition negation :: "tree \<Rightarrow> tree option" where
  "negation eq =
     last_match (\<lambda>t. is_rule ''Con_subexpr'' t \<and> sameSpan eq t \<and> has_token ''NOT'' (rule_of ''Unary_op'' t)) eq"

text \<open>One atom: decided, or the boolean expression in it that decides.\<close>

definition predicate_step :: "expressionScope \<Rightarrow> tree \<Rightarrow> go_error option + tree" where
  "predicate_step sc atom =
     (case rule_opt ''Cond_expr'' atom of
        Some condition \<Rightarrow> Inl (condition_err sc atom condition)
      | None \<Rightarrow>
          (let eq = rule_of ''Eq_subexpr'' atom; operands = rules ''Neq_subexpr'' eq in
           if length operands > 1 then Inl (run_error (comparisonBoolType resolve sc operands))
           else (case negation eq of
               Some unaryNot \<Rightarrow>
                 (let operand = rule_of ''Unary_subexpr'' unaryNot in
                  case nestedBooleanExpression operand of
                    Some nested \<Rightarrow> Inr nested
                  | None \<Rightarrow> Inl (case resolveScalarNode sc operand of
                        Inl e \<Rightarrow> Some (Errorf ''cannot resolve NOT operand: %w'' [FErr e])
                      | Inr t \<Rightarrow> if not_bool t then Some (Errorf ''NOT operand has type %s, want Bool'' [FType t]) else None))
             | None \<Rightarrow>
                 (case resolveScalarNode sc eq of
                    Inl e \<Rightarrow>
                      (case nestedBooleanExpression eq of
                         Some nested \<Rightarrow> Inr nested
                       | None \<Rightarrow> Inl (Some (Errorf ''cannot resolve predicate operand %q: %w'' [FStr (GetText eq), FErr e])))
                  | Inr t \<Rightarrow> Inl (if not_bool t then Some (Errorf ''predicate expression has type %s, want Bool'' [FType t]) else None)))))"

lemma block_find_SomeD: "List.find p xs = Some y \<Longrightarrow> y \<in> set xs \<and> p y"
  unfolding find_Some_iff by (elim exE conjE) (simp add: nth_mem)

lemma nested_descendant:
  assumes "nestedBooleanExpression root = Some inner"
  shows "inner \<in> set (descendants root) \<and> is_rule ''Expr'' inner"
proof -
  obtain p where p: "List.find (\<lambda>(up, t). is_rule ''Expr'' t \<and> list_all boolean_wrapper up) (walk [] root) = Some p" "inner = snd p"
    using assms unfolding nestedBooleanExpression_def by blast
  from block_find_SomeD [OF p(1)] have q: "p \<in> set (walk [] root)" "is_rule ''Expr'' (snd p)" by (simp_all add: case_prod_unfold)
  then have "snd p \<in> set (map snd (walk [] root))" by simp
  with q p(2) show ?thesis by (simp only: walk_descendants)
qed

lemma size_nested_child:
  assumes "nestedBooleanExpression (rule_of name t) = Some inner"
  shows "size inner < size t"
proof (cases "rule_opt name t")
  case None
  have i: "inner \<in> set (descendants (rule_of name t))" "is_rule ''Expr'' inner"
    using nested_descendant [OF assms] by simp_all
  from i(1) None have "inner = no_tree" by (simp add: rule_of_def no_tree_def)
  with i(2) show ?thesis by (simp add: no_tree_def)
next
  case (Some u)
  with assms nested_descendant have "inner \<in> set (descendants u)" by (auto simp: rule_of_def)
  then have "size inner \<le> size u" by (rule size_descendant)
  with size_rule [OF Some] show ?thesis by simp
qed

lemma block_last_match_descendant: "last_match p root = Some t \<Longrightarrow> t \<in> set (descendants root)"
proof -
  assume "last_match p root = Some t"
  then have "\<exists>ts. rev (filter p (descendants root)) = t # ts" by (auto simp: last_match_def split: list.splits)
  then have "t \<in> set (rev (filter p (descendants root)))" by (elim exE) simp
  then show ?thesis by simp
qed

lemma block_size_rule_of: "rule_of name t = u \<Longrightarrow> u \<noteq> no_tree \<Longrightarrow> size u < size t"
  by (auto simp: rule_of_def dest: size_rule split: option.splits)

lemma size_predicate_step:
  assumes "predicate_step sc atom = Inr inner"
  shows "size inner < size atom"
proof -
  let ?eq = "rule_of ''Eq_subexpr'' atom"
  have "nestedBooleanExpression ?eq = Some inner
      \<or> (\<exists>u. negation ?eq = Some u \<and> nestedBooleanExpression (rule_of ''Unary_subexpr'' u) = Some inner)"
    using assms by (auto simp: predicate_step_def Let_def split: option.splits if_splits sum.splits)
  then show ?thesis
  proof (elim disjE exE conjE)
    fix u
    assume u: "negation ?eq = Some u" "nestedBooleanExpression (rule_of ''Unary_subexpr'' u) = Some inner"
    have d: "u \<in> set (descendants ?eq)" using u(1) block_last_match_descendant unfolding negation_def by blast
    have "size inner < size u" by (rule size_nested_child [OF u(2)])
    also have "size u \<le> size ?eq" by (rule size_descendant [OF d])
    finally have s: "size inner < size ?eq" .
    show ?thesis
    proof (cases "rule_opt ''Eq_subexpr'' atom")
      case None
      then have "?eq = no_tree" by (simp add: rule_of_def no_tree_def)
      with s have "size inner = 0" by (simp add: no_tree_def)
      moreover have "is_rule ''Expr'' inner" using nested_descendant [OF u(2)] ..
      ultimately show ?thesis by (cases inner) simp_all
    next
      case (Some e)
      with size_rule [OF Some] s show ?thesis by (simp add: rule_of_def)
    qed
  qed (rule size_nested_child)
qed

lemma size_predicate_atom: "atom \<in> set (predicate_atoms expr) \<Longrightarrow> size atom < size expr"
  by (fastforce simp: predicate_atoms_def dest: size_rules)

function validatePredicate :: "expressionScope \<Rightarrow> tree \<Rightarrow> go_error option" where
  "validatePredicate sc expr =
     (if rules ''Or_subexpr'' expr = [] then Some (Errorf ''unsupported predicate %q'' [FStr (GetText expr)])
      else first_err (\<lambda>atom. case predicate_step sc atom of Inl r \<Rightarrow> r | Inr nested \<Rightarrow> validatePredicate sc nested) (predicate_atoms expr))"
  by pat_completeness auto
termination
  by (relation "measure (size \<circ> snd)") (auto dest!: size_predicate_step size_predicate_atom)

declare validatePredicate.simps [simp del]

section \<open>Where predicates stand\<close>

definition predicate_context :: "relation list \<Rightarrow> relation list \<Rightarrow> tree \<Rightarrow> (tree \<times> relation list) option" where
  "predicate_context relations grouped node =
     (if is_rule ''Select_core'' node then
        (if has_token ''WHERE'' node then map_option (\<lambda>e. (e, grouped)) (rule_opt ''Expr'' node) else None)
      else if is_rule ''Join_constraint'' node then
        (if has_token ''ON'' node then map_option (\<lambda>e. (e, relations)) (rule_opt ''Expr'' node) else None)
      else if is_rule ''Update_stmt'' node \<or> is_rule ''Delete_stmt'' node then
        (if has_token ''WHERE'' node then map_option (\<lambda>e. (e, relations)) (rule_opt ''Expr'' node) else None)
      else None)"

fun predicate_loop ::
  "queryBlock \<Rightarrow> type_map \<Rightarrow> (int \<rightharpoonup> ty) \<Rightarrow> int list \<Rightarrow> (tree \<times> relation list) list \<Rightarrow> Diagnostic list" where
  "predicate_loop block bindings subqueries seen [] = []"
| "predicate_loop block bindings subqueries seen ((predicate, relations) # rest) =
     (if List.member seen (start_index predicate) then predicate_loop block bindings subqueries seen rest
      else (if containsAggregate predicate then
          [block_at block (Some predicate) ''aggregate functions are not allowed in WHERE or JOIN predicates; use HAVING after aggregation'']
        else (case validatePredicate ((block_scope block relations bindings)\<lparr>sc_inSubqueries := subqueries\<rparr>) predicate of
            Some e \<Rightarrow> [block_at block (Some predicate) (sprintf ''invalid predicate: %v'' [FErr e])]
          | None \<Rightarrow> []))
        @ predicate_loop block bindings subqueries (start_index predicate # seen) rest)"

definition validatePredicateContexts ::
  "queryBlock \<Rightarrow> tree \<Rightarrow> relation list \<Rightarrow> relation list \<Rightarrow> type_map \<Rightarrow> (int \<rightharpoonup> ty) \<Rightarrow> Diagnostic list" where
  "validatePredicateContexts block root relations groupedRelations bindings subqueries =
     predicate_loop block bindings subqueries []
       (List.map_filter (predicate_context relations groupedRelations) (scopeDescendants root))"

section \<open>Where IN subqueries stand\<close>

definition in_subquery_node :: "tree \<Rightarrow> bool" where
  "in_subquery_node t \<longleftrightarrow> is_rule ''In_expr'' t \<and> inSubquery t \<noteq> None"

definition containsINSubquery :: "tree \<Rightarrow> bool" where
  "containsINSubquery root \<longleftrightarrow> list_ex in_subquery_node (descendants root)"

definition in_misplaced :: string where
  "in_misplaced = ''IN subqueries are supported only in WHERE predicates; they are not yet supported in projections, CASE, IF, or HAVING''"

text \<open>The message for a subquery in a wrong place: the walk up from \<open>child\<close> through its parents.\<close>

fun in_place_err :: "tree \<Rightarrow> tree list \<Rightarrow> string option" where
  "in_place_err child [] = Some in_misplaced"
| "in_place_err child (parent # up) =
     (if is_rule ''Case_expr'' parent \<or> is_rule ''Invoke_expr'' parent \<or> is_rule ''Cast_expr'' parent \<or> is_rule ''Bitcast_expr'' parent then
        Some in_misplaced
      else if is_rule ''Join_constraint'' parent then
        Some ''IN subqueries are supported only in WHERE predicates; JOIN ON membership is unsupported''
      else if is_rule ''Select_core'' parent \<or> is_rule ''Update_stmt'' parent \<or> is_rule ''Delete_stmt'' parent then
        (if has_token ''WHERE'' parent \<and> rule_opt ''Expr'' parent = Some child then None else Some in_misplaced)
      else in_place_err parent up)"

definition validateINSubqueryContexts :: "queryBlock \<Rightarrow> tree \<Rightarrow> Diagnostic list" where
  "validateINSubqueryContexts block root =
     List.map_filter (\<lambda>(up, t). if in_subquery_node t then map_option (block_at block (Some t)) (in_place_err t up) else None) (walk [] root)"

end
