(* ===== verification/Selects.thy ===== *)
theory Selects
  imports Grouping Projections Predicates "HOL-Library.Monad_Syntax"
begin

text \<open>
  One SELECT (\<open>analyzeSelectCore\<close> of \<open>insert_select.go\<close>, \<open>selectRelations\<close> of \<open>semantic.go\<close>,
  \<open>analyzeINSubqueries\<close> of \<open>in_subquery.go\<close>). A SELECT is analyzed inside another one as a source and as an
  IN subquery: the analysis of the inner one is the parameter \<open>rec\<close> of the definitions here, and
  \<open>select_fuel\<close> ties the knot. A run is \<open>None\<close> when the fuel is used up. The locale \<open>inner_selects\<close> holds what
  the inner analysis promises (it returns, and it never changes a type that is bound); it is interpreted on
  \<open>select_fuel\<close>.
\<close>

section \<open>Runs\<close>

type_synonym columns_run = "((Column list \<times> Diagnostic list) \<times> analysis) option"

type_synonym select_run = "queryBlock \<Rightarrow> tree \<Rightarrow> tree option \<Rightarrow> projector \<Rightarrow> analysis \<Rightarrow> columns_run"

definition analyzeSelectRows :: "select_run \<Rightarrow> queryBlock \<Rightarrow> tree \<Rightarrow> projector \<Rightarrow> analysis \<Rightarrow> columns_run" where
  "analyzeSelectRows rec block stmt projection s =
     (let (arms, ds) = selectArms block (Some stmt) in
      if ds \<noteq> [] then Some (([], ds), s)
      else (case arms of
          [(core, partial)] \<Rightarrow> rec block core (Some partial) projection s
        | _ \<Rightarrow> Some (([], [block_at block (Some stmt) ''DML SELECT supports one SELECT input; UNION is not yet supported'']), s)))"

section \<open>FROM and JOIN\<close>

text \<open>The parts of a source, or its diagnostic.\<close>

definition source_parts :: "queryBlock \<Rightarrow> tree \<Rightarrow> Diagnostic + tree \<times> tree" where
  "source_parts block source =
     (case rule_opt ''Named_single_source'' source of
        None \<Rightarrow> Inl (block_at block (Some source) ''unsupported FROM or JOIN source'')
      | Some named \<Rightarrow>
          (case rule_opt ''Hinted_single_source'' named of
             None \<Rightarrow> Inl (block_at block (Some source) ''unsupported FROM or JOIN source'')
           | Some hinted \<Rightarrow>
               (case rule_opt ''Single_source'' hinted of
                  None \<Rightarrow> Inl (block_at block (Some source) ''unsupported FROM or JOIN source'')
                | Some single \<Rightarrow>
                    (case rule_opt ''Pure_column_list'' named of
                       Some list' \<Rightarrow> Inl (block_at block (Some list') ''source column lists are unsupported; use named SELECT columns'')
                     | None \<Rightarrow>
                         if has_rule ''Table_hints'' hinted \<or> has_rule ''Sample_clause'' named \<or> has_rule ''Tablesample_clause'' named
                         then Inl (block_at block (Some source) ''table hints and sampling are not yet supported'')
                         else Inr (named, single)))))"

definition named_table :: "Catalog \<Rightarrow> queryBlock \<Rightarrow> tree \<Rightarrow> tree \<Rightarrow> Diagnostic + Table" where
  "named_table catalog block source key =
     (let name = resolveTablePath (qb_tablePathPrefix block) (tableKeyName key) in
      case findTable catalog name of
        None \<Rightarrow> Inl (block_at block (Some source) (sprintf ''unknown table %q'' [FStr name]))
      | Some table \<Rightarrow>
          (case rule_opt ''View_name'' key of
             None \<Rightarrow> Inr table
           | Some view \<Rightarrow>
               (case rule_opt ''An_id'' view of
                  None \<Rightarrow> Inl (block_at block (Some view) ''VIEW PRIMARY KEY is not yet supported; select the table without VIEW'')
                | Some i \<Rightarrow>
                    (let index = identifier_of (GetText i) in
                     if catalogIndexPosition table index = None then
                       Inl (block_at block (Some view) (sprintf ''unknown index %q on table %q'' [FStr index, FStr name]))
                     else Inr table))))"

definition referenced_table :: "Catalog \<Rightarrow> queryBlock \<Rightarrow> type_map \<Rightarrow> tree \<Rightarrow> tree \<Rightarrow> Diagnostic + Table" where
  "referenced_table catalog block bindings source ref =
     (if has_rule ''Cluster_expr'' ref \<or> has_token ''COMMAT'' ref then
        Inl (block_at block (Some ref) ''cluster-qualified and temporary table references are unsupported'')
      else (case rule_opt ''Bind_parameter'' ref of
          Some parameter \<Rightarrow>
            (let name = bindName (Some parameter) in
             case qb_tabular block name of
               Some table \<Rightarrow> Inr table
             | None \<Rightarrow> Inl (block_at block (Some ref)
                 (if bindings name \<noteq> None then sprintf ''local $%s is scalar; FROM and JOIN require a SELECT binding'' [FStr name]
                  else sprintf ''unknown tabular binding $%s; assign a SELECT before using it in FROM or JOIN'' [FStr name])))
        | None \<Rightarrow>
            (case rule_opt ''Table_key'' ref of
               Some key \<Rightarrow> named_table catalog block source key
             | None \<Rightarrow>
                 (case asTableRelation ref bindings of
                    Inl e \<Rightarrow> Inl (block_at block (Some source) (error_text e))
                  | Inr table \<Rightarrow> Inr table))))"

definition derived_table :: "queryBlock \<Rightarrow> tree \<Rightarrow> Column list \<times> Diagnostic list \<Rightarrow> Diagnostic list + Table" where
  "derived_table block single r =
     (if snd r \<noteq> [] then Inl (snd r)
      else (case tabularTable ''derived'' (fst r) of
          Inl e \<Rightarrow> Inl [block_at block (Some single) (error_text e)]
        | Inr table \<Rightarrow> Inr table))"

definition source_table ::
  "select_run \<Rightarrow> Catalog \<Rightarrow> queryBlock \<Rightarrow> tree \<Rightarrow> tree \<Rightarrow> analysis \<Rightarrow> ((Diagnostic list + Table) \<times> analysis) option" where
  "source_table rec catalog block source single s =
     (case rule_opt ''Select_stmt'' single of
        Some nested \<Rightarrow> do {
          (r, s) \<leftarrow> analyzeSelectRows rec block nested selectProjection s;
          Some (derived_table block single r, s) }
      | None \<Rightarrow> Some (
          (case rule_opt ''Table_ref'' single of
             None \<Rightarrow> Inl [block_at block (Some single) ''unsupported FROM or JOIN source'']
           | Some ref \<Rightarrow>
               (case referenced_table catalog block (st_bindings s) source ref of Inl d \<Rightarrow> Inl [d] | Inr table \<Rightarrow> Inr table)), s))"

definition explicit_alias :: "tree \<Rightarrow> bool" where
  "explicit_alias named \<longleftrightarrow> has_rule ''An_id'' named \<or> has_rule ''An_id_as_compat'' named"

definition single_key :: "tree \<Rightarrow> tree option" where
  "single_key single = sub_rule ''Table_key'' (rule_opt ''Table_ref'' single)"

definition source_alias :: "Table \<Rightarrow> tree \<Rightarrow> tree \<Rightarrow> string" where
  "source_alias table named single =
     (if has_rule ''An_id_as_compat'' named then alias_text ''An_id_as_compat'' named
      else if has_rule ''An_id'' named then alias_text ''An_id'' named
      else (case single_key single of Some key \<Rightarrow> tableKeyName key | None \<Rightarrow> tb_Name table))"

definition missing_alias :: "tree \<Rightarrow> tree \<Rightarrow> tree \<Rightarrow> tree \<Rightarrow> string option" where
  "missing_alias core join named single =
     (if explicit_alias named
         \<or> (length (rules ''Flatten_source'' join) \<le> 1 \<and> length (rules ''Join_source'' core) \<le> 1) then None
      else if has_rule ''Select_stmt'' single then Some ''derived SELECT requires an explicit alias''
      else (case rule_opt ''Table_ref'' single of
          None \<Rightarrow> None
        | Some ref \<Rightarrow>
            if has_rule ''Table_key'' ref \<or> has_rule ''Bind_parameter'' ref then None
            else Some ''AS_TABLE in a join requires an explicit alias; use AS_TABLE($parameter) AS rows''))"

definition clashes :: "Table \<Rightarrow> string \<Rightarrow> bool \<Rightarrow> relation \<Rightarrow> bool" where
  "clashes table alias explicit previous \<longleftrightarrow> rel_alias previous = alias
     \<and> (has_prefix (tb_Name table) ''$'' \<or> has_prefix (tb_Name (rel_table previous)) ''$'' \<or> explicit)"

definition set_optional :: "relation \<Rightarrow> relation" where
  "set_optional rel = rel\<lparr>rel_optional := True\<rparr>"

text \<open>The sides of a join that may have no row: \<open>base\<close> is the first relation of the join, the last one is new.\<close>

definition join_sides :: "nat \<Rightarrow> string \<Rightarrow> relation list \<Rightarrow> relation list" where
  "join_sides base op relations =
     (if str_contains op ''LEFT'' then butlast relations @ [set_optional (last relations)]
      else if str_contains op ''RIGHT'' then take base relations @ map set_optional (drop base (butlast relations)) @ [last relations]
      else if str_contains op ''FULL'' then take base relations @ map set_optional (drop base relations)
      else relations)"

definition join_operator :: "tree \<Rightarrow> nat \<Rightarrow> string" where
  "join_operator join i = (if i = 0 then [] else to_upper (GetText (rules ''Join_op'' join ! (i - 1))))"

text \<open>The relations with the new one, and the diagnostics for it.\<close>

definition add_relation ::
  "queryBlock \<Rightarrow> tree \<Rightarrow> tree \<Rightarrow> nat \<Rightarrow> nat \<Rightarrow> tree \<Rightarrow> tree \<Rightarrow> tree \<Rightarrow> Table \<Rightarrow> relation list \<Rightarrow> relation list \<times> Diagnostic list" where
  "add_relation block core join base i source named single table relations =
     (case missing_alias core join named single of
        Some message \<Rightarrow> (relations, [block_at block (Some source) message])
      | None \<Rightarrow>
          (let alias = source_alias table named single;
               clashing = map (\<lambda>_. block_at block (Some source) (sprintf ''duplicate source alias %q'' [FStr alias]))
                 (filter (clashes table alias (explicit_alias named)) relations);
               rel = new_relation table alias (single_key single \<noteq> None);
               (rel, ds) = (if has_token ''FLATTEN'' source then flattenListRelation block source rel else (rel, []))
           in if ds \<noteq> [] then (relations, clashing @ ds)
              else (join_sides base (join_operator join i)
                (relations @ [if has_token ''FLATTEN'' source then rel\<lparr>rel_physical := False\<rparr> else rel]), clashing)))"

definition add_source ::
  "select_run \<Rightarrow> Catalog \<Rightarrow> queryBlock \<Rightarrow> tree \<Rightarrow> tree \<Rightarrow> nat \<Rightarrow> nat \<times> tree \<Rightarrow> relation list \<Rightarrow> analysis
   \<Rightarrow> ((relation list \<times> Diagnostic list) \<times> analysis) option" where
  "add_source rec catalog block core join base isrc relations s =
     (let (i, source) = isrc in
      case source_parts block source of
        Inl d \<Rightarrow> Some ((relations, [d]), s)
      | Inr (named, single) \<Rightarrow> do {
          (r, s) \<leftarrow> source_table rec catalog block source single s;
          Some ((case r of
              Inl ds \<Rightarrow> (relations, ds)
            | Inr table \<Rightarrow> add_relation block core join base i source named single table relations), s) })"

fun source_loop ::
  "select_run \<Rightarrow> Catalog \<Rightarrow> queryBlock \<Rightarrow> tree \<Rightarrow> tree \<Rightarrow> nat \<Rightarrow> (nat \<times> tree) list \<Rightarrow> relation list \<Rightarrow> analysis
   \<Rightarrow> ((relation list \<times> Diagnostic list) \<times> analysis) option" where
  "source_loop rec catalog block core join base [] relations s = Some ((relations, []), s)"
| "source_loop rec catalog block core join base (isrc # rest) relations s = do {
     ((relations, ds), s) \<leftarrow> add_source rec catalog block core join base isrc relations s;
     ((relations, ds'), s) \<leftarrow> source_loop rec catalog block core join base rest relations s;
     Some ((relations, ds @ ds'), s) }"

definition using_diagnostics :: "queryBlock \<Rightarrow> tree \<Rightarrow> Diagnostic list" where
  "using_diagnostics block join =
     map (\<lambda>c. block_at block (Some c) ''JOIN USING is not yet supported; use an explicit ON condition'')
       (filter (has_token ''USING'') (rules ''Join_constraint'' join))"

fun join_loop ::
  "select_run \<Rightarrow> Catalog \<Rightarrow> queryBlock \<Rightarrow> tree \<Rightarrow> tree list \<Rightarrow> relation list \<Rightarrow> analysis
   \<Rightarrow> ((relation list \<times> Diagnostic list) \<times> analysis) option" where
  "join_loop rec catalog block core [] relations s = Some ((relations, []), s)"
| "join_loop rec catalog block core (join # joins) relations s = do {
     ((relations, ds), s) \<leftarrow>
       source_loop rec catalog block core join (length relations) (List.enumerate 0 (rules ''Flatten_source'' join)) relations s;
     ((relations, ds'), s) \<leftarrow> join_loop rec catalog block core joins relations s;
     Some ((relations, ds @ using_diagnostics block join @ ds'), s) }"

definition selectRelations ::
  "select_run \<Rightarrow> Catalog \<Rightarrow> queryBlock \<Rightarrow> tree \<Rightarrow> analysis \<Rightarrow> ((relation list \<times> Diagnostic list) \<times> analysis) option" where
  "selectRelations rec catalog block core s = do {
     ((relations, ds), s) \<leftarrow> join_loop rec catalog block core (rules ''Join_source'' core) [] s;
     Some ((relations,
       if relations = [] \<and> has_rule ''Join_source'' core \<and> ds = []
       then [block_at block (Some core) ''SELECT without a catalog table is unsupported''] else ds), s) }"

section \<open>IN subqueries\<close>

text \<open>The one SELECT of an IN subquery and its partial, or the message.\<close>

definition in_select :: "tree \<Rightarrow> string + tree \<times> tree" where
  "in_select sub =
     (case (if has_rule ''Cte_with_clause'' sub then [] else rules ''Select_subexpr_intersect'' (rule_of ''Select_subexpr_core'' sub)) of
        [intersect] \<Rightarrow>
          (case rules ''Select_or_expr'' intersect of
             [source] \<Rightarrow>
               (let partial = rule_of ''Select_kind_partial'' source; kind = rule_of ''Select_kind'' partial in
                case rule_opt ''Select_core'' kind of
                  Some core \<Rightarrow>
                    if has_token ''DISCARD'' kind \<or> has_token ''INTO'' kind then
                      Inl ''IN subqueries require a SELECT without DISCARD or INTO RESULT''
                    else Inr (core, partial)
                | None \<Rightarrow> Inl ''IN subqueries require a SELECT without DISCARD or INTO RESULT'')
           | _ \<Rightarrow> Inl ''IN subqueries currently require one SELECT; CTEs, UNION and INTERSECT are unsupported'')
      | _ \<Rightarrow> Inl ''IN subqueries currently require one SELECT; CTEs, UNION and INTERSECT are unsupported'')"

text \<open>A name of the subquery that only the outer SELECT knows.\<close>

definition correlated :: "queryBlock \<Rightarrow> relation list \<Rightarrow> Column list \<Rightarrow> analysis \<Rightarrow> tree \<Rightarrow> Diagnostic list" where
  "correlated block outer columns s core =
     (case (if st_selects s (token_index core) \<noteq> None then
          List.find (\<lambda>ref. st_columns s (token_index (ref_ctx ref)) = None \<and> \<not> output_reference (qb_tree block) columns ref
            \<and> \<not> isl (resolveColumn outer ref)) (columnRefs (qb_tree block) core)
        else None) of
        Some ref \<Rightarrow> [block_at block (Some (ref_ctx ref)) (sprintf
          ''correlated IN subqueries are unsupported: %q may refer to an outer column; use only the subquery's own sources''
          [FStr (qualifiedName ref)])]
      | None \<Rightarrow> [])"

definition in_result ::
  "queryBlock \<Rightarrow> relation list \<Rightarrow> tree \<Rightarrow> tree \<Rightarrow> Column list \<times> Diagnostic list \<Rightarrow> analysis \<Rightarrow> (int \<rightharpoonup> ty)
   \<Rightarrow> (int \<rightharpoonup> ty) \<times> Diagnostic list" where
  "in_result block outer inExpr core r s types =
     (let (columns, ds) = r in
      if ds \<noteq> [] then (types, ds @ correlated block outer columns s core)
      else (case columns of
          [column] \<Rightarrow> (types(token_index inExpr \<mapsto> col_Type column), [])
        | _ \<Rightarrow> (types, [block_at block (Some core)
            ''IN subquery must return exactly one column; use SELECT (key1, key2) for a tuple key''])))"

definition in_subquery ::
  "select_run \<Rightarrow> queryBlock \<Rightarrow> relation list \<Rightarrow> tree \<Rightarrow> (int \<rightharpoonup> ty) \<Rightarrow> analysis
   \<Rightarrow> (((int \<rightharpoonup> ty) \<times> Diagnostic list) \<times> analysis) option" where
  "in_subquery rec block outer inExpr types s =
     (case inSubquery inExpr of
        None \<Rightarrow> Some ((types, []), s)
      | Some sub \<Rightarrow>
          (case in_select sub of
             Inl message \<Rightarrow> Some ((types, [block_at block (Some inExpr) message]), s)
           | Inr (core, partial) \<Rightarrow> do {
               (r, s) \<leftarrow> rec block core (Some partial) selectINProjection s;
               Some (in_result block outer inExpr core r s types, s) }))"

fun in_loop ::
  "select_run \<Rightarrow> queryBlock \<Rightarrow> relation list \<Rightarrow> tree list \<Rightarrow> (int \<rightharpoonup> ty) \<Rightarrow> analysis
   \<Rightarrow> (((int \<rightharpoonup> ty) \<times> Diagnostic list) \<times> analysis) option" where
  "in_loop rec block outer [] types s = Some ((types, []), s)"
| "in_loop rec block outer (inExpr # rest) types s = do {
     ((types, ds), s) \<leftarrow> in_subquery rec block outer inExpr types s;
     ((types, ds'), s) \<leftarrow> in_loop rec block outer rest types s;
     Some ((types, ds @ ds'), s) }"

definition analyzeINSubqueries ::
  "select_run \<Rightarrow> queryBlock \<Rightarrow> tree \<Rightarrow> relation list \<Rightarrow> analysis \<Rightarrow> (((int \<rightharpoonup> ty) \<times> Diagnostic list) \<times> analysis) option" where
  "analyzeINSubqueries rec block root outer s =
     in_loop rec block outer (filter (is_rule ''In_expr'') (scopeDescendants root)) (\<lambda>_. None) s"

section \<open>A SELECT\<close>

definition infer_uses :: "queryBlock \<Rightarrow> tree \<Rightarrow> relation list \<Rightarrow> analysis \<Rightarrow> analysis" where
  "infer_uses block root relations s =
     bind_parameters_of (s\<lparr>st_inferred :=
       inferFromInLists (qb_tree block) root relations (inferFromComparisons (qb_tree block) root relations (st_inferred s))\<rparr>)"

definition infer_contexts :: "tree \<Rightarrow> tree option \<Rightarrow> analysis \<Rightarrow> analysis" where
  "infer_contexts core partial s =
     bind_parameters_of (s\<lparr>st_inferred :=
       inferLimitOffset partial (st_bindings s) (inferFromExpressionContexts core (st_bindings s) (st_inferred s))\<rparr>)"

definition grouping_relation :: "Table \<Rightarrow> relation" where
  "grouping_relation table = (new_relation table [] False)\<lparr>rel_grouping := True\<rparr>"

text \<open>The aliases of GROUP BY are a last relation of their own.\<close>

definition add_grouping ::
  "queryBlock \<Rightarrow> tree \<Rightarrow> relation list \<Rightarrow> analysis \<Rightarrow> (relation list \<times> Diagnostic list) \<times> analysis" where
  "add_grouping block core sources s =
     (let (aliases, ds) = groupingAliases block core sources (st_bindings s) in
      if tb_Columns aliases = [] then ((sources, ds), s)
      else (let relations = sources @ [grouping_relation aliases] in
        ((relations, ds), infer_uses block core relations
          (s\<lparr>st_columns := clearGroupingAliasBindings (qb_tree block) core aliases (st_columns s)\<rparr>))))"

text \<open>The columns of the SELECT and their checks, after everything that is inferred.\<close>

definition select_columns ::
  "queryBlock \<Rightarrow> tree \<Rightarrow> tree option \<Rightarrow> projector \<Rightarrow> relation list \<Rightarrow> (int \<rightharpoonup> ty) \<Rightarrow> analysis
   \<Rightarrow> (Column list \<times> Diagnostic list) \<times> analysis" where
  "select_columns block core partial projection sources subqueries s =
     (let ((relations, gds), s) = add_grouping block core sources s;
          (columns, pds, wildcards) = projection block (st_wildcards s) core relations (st_bindings s);
          (bound, ods) = (if pds = []
            then resolveOrderByProjections block core sources columns (st_columns s) else (st_columns s, []));
          resolved = (case st_selects s (token_index core) of Some b \<Rightarrow> bs_Relations b | None \<Rightarrow> [])
      in ((columns, gds @ validateLimitOffset block partial (st_bindings s) @ pds @ ods
            @ validateColumnReferences block wildcards core relations columns
            @ validatePredicateContexts block core sources relations (st_bindings s) subqueries
            @ validateGrouping block core relations (st_bindings s)),
          s\<lparr>st_columns := bound, st_wildcards := wildcards,
            st_selects := (st_selects s)(token_index core \<mapsto> \<lparr>bs_Relations = resolved, bs_Columns = columns\<rparr>)\<rparr>))"

text \<open>What is done once the sources are known.\<close>

definition select_body ::
  "select_run \<Rightarrow> queryBlock \<Rightarrow> tree \<Rightarrow> tree option \<Rightarrow> projector \<Rightarrow> relation list \<Rightarrow> analysis \<Rightarrow> columns_run" where
  "select_body rec block core partial projection relations s =
     (let (windows, wds) = rowNumberWindows block core relations;
          block = block\<lparr>qb_windows := windows\<rparr>;
          ds = wds @ validateWindowPlacement block core;
          s = infer_uses block core relations (recordColumnBindings (qb_tree block) core relations s)
      in do {
        ((subqueries, ids), s) \<leftarrow> analyzeINSubqueries rec block core relations s;
        if ids \<noteq> [] then Some (([], ds @ ids), s)
        else (let ((columns, cds), s) = select_columns block core partial projection relations subqueries (infer_contexts core partial s)
          in Some ((columns, ds @ cds), s)) })"

definition select_core ::
  "select_run \<Rightarrow> Catalog \<Rightarrow> queryBlock \<Rightarrow> tree \<Rightarrow> tree option \<Rightarrow> projector \<Rightarrow> analysis \<Rightarrow> columns_run" where
  "select_core rec catalog block core partial projection s = do {
     ((relations, ds), s) \<leftarrow> selectRelations rec catalog block core s;
     if ds \<noteq> [] then Some (([], ds), s)
     else if relations = [] \<and> containsAggregate core then
       Some (([], [block_at block (Some core) ''aggregate functions require a FROM source'']), s)
     else if relations = [] \<and> hasWindowCall core then
       Some (([], [block_at block (Some core) ''window functions require a FROM source'']), s)
     else select_body rec block core partial projection relations s }"

fun select_fuel :: "Catalog \<Rightarrow> nat \<Rightarrow> select_run" where
  "select_fuel catalog 0 block core partial projection s = None"
| "select_fuel catalog (Suc n) block core partial projection s =
     select_core (select_fuel catalog n) catalog block core partial projection s"

definition analyzeSelectCore :: "Catalog \<Rightarrow> select_run" where
  "analyzeSelectCore catalog block core partial projection s =
     select_fuel catalog (Suc (size core)) block core partial projection s"

end
