(* ===== verification/Statements.thy ===== *)
theory Statements
  imports Selects
begin

text \<open>
  Data statements (\<open>insert_select.go\<close>, \<open>semantic.go\<close>): a SELECT or union, and INSERT, UPDATE and DELETE with
  values or with a SELECT, up to \<open>analyzeDataStatement\<close>. The result columns are an option, because the source
  distinguishes the slice that is nil.
\<close>

section \<open>The SELECT of a statement\<close>

definition insertSelect :: "tree \<Rightarrow> tree option" where
  "insertSelect statement = sub_rule ''Select_stmt'' (sub_rule ''Values_source'' (rule_opt ''Into_values_source'' statement))"

definition updateSelect :: "tree \<Rightarrow> tree option" where
  "updateSelect statement =
     (if \<not> has_token ''ON'' statement then None
      else sub_rule ''Select_stmt'' (sub_rule ''Values_source'' (rule_opt ''Into_values_source'' statement)))"

definition deleteSelect :: "tree \<Rightarrow> tree option" where
  "deleteSelect statement =
     (if \<not> has_token ''ON'' statement then None
      else sub_rule ''Select_stmt'' (sub_rule ''Values_source'' (rule_opt ''Into_values_source'' statement)))"

section \<open>Columns for a table\<close>

definition required_message :: "Table \<Rightarrow> string list \<Rightarrow> bool \<Rightarrow> Column \<Rightarrow> string option" where
  "required_message target seen inserting column =
     (if List.member seen (col_Name column) \<or> (inserting \<and> col_SequenceGenerated column) then None
      else if List.member (tb_PrimaryKey target) (col_Name column) then
        Some (sprintf ''missing primary key column %q'' [FStr (col_Name column)])
      else if inserting \<and> \<not> IsOptional (col_Type column) then
        Some (sprintf ''missing required column %q; INSERT/UPSERT must provide all NOT NULL columns'' [FStr (col_Name column)])
      else None)"

definition validateRequiredDMLColumns :: "queryBlock \<Rightarrow> tree \<Rightarrow> Table \<Rightarrow> string list \<Rightarrow> bool \<Rightarrow> Diagnostic list" where
  "validateRequiredDMLColumns block context' target seen inserting =
     map (block_at block (Some context')) (List.map_filter (required_message target seen inserting) (tb_Columns target))"

definition unknown_target :: "string \<Rightarrow> string" where
  "unknown_target name =
     sprintf ''unknown target column %q'' [FStr name]
     @ (case last_index (\<lambda>c. c = CHR ''.'') name of
          Some dot \<Rightarrow> if dot + 1 < length name then sprintf ''; use AS %s to map the qualified result'' [FStr (drop (dot + 1) name)] else []
        | None \<Rightarrow> [])"

definition named_message :: "Table \<Rightarrow> Column \<Rightarrow> string option" where
  "named_message target source =
     (let name = ResultName source in
      case tableColumn target name of
        None \<Rightarrow> Some (unknown_target name)
      | Some destination \<Rightarrow>
          if compatibleDMLAssignmentTypes (col_Type source) (col_Type destination) then None
          else Some (sprintf ''source column %q has type %s but target column requires %s''
            [FStr name, FType (col_Type source), FType (col_Type destination)]))"

fun named_loop :: "Table \<Rightarrow> string list \<Rightarrow> Column list \<Rightarrow> string list \<times> string list" where
  "named_loop target seen [] = (seen, [])"
| "named_loop target seen (source # sources) =
     (let name = ResultName source in
      if List.member seen name then
        (let (s, ms) = named_loop target seen sources in (s, sprintf ''duplicate source column %q'' [FStr name] # ms))
      else (let (s, ms) = named_loop target (name # seen) sources in
        (s, (case named_message target source of Some m \<Rightarrow> [m] | None \<Rightarrow> []) @ ms)))"

definition validateNamedDMLColumns :: "queryBlock \<Rightarrow> tree \<Rightarrow> Table \<Rightarrow> Column list \<Rightarrow> bool \<Rightarrow> Diagnostic list" where
  "validateNamedDMLColumns block context' target columns inserting =
     (let (seen, ms) = named_loop target [] columns in
      map (block_at block (Some context')) ms @ validateRequiredDMLColumns block context' target seen inserting)"

text \<open>The columns of a SELECT for the target columns of a list, by position.\<close>

definition positional_message :: "Table \<Rightarrow> string \<Rightarrow> Column \<Rightarrow> string option" where
  "positional_message target name source =
     (case tableColumn target name of
        None \<Rightarrow> Some (sprintf ''unknown column %q'' [FStr name])
      | Some column \<Rightarrow>
          if compatibleDMLAssignmentTypes (col_Type source) (col_Type column) then None
          else Some (sprintf ''SELECT column %q has type %s but target column %q requires %s''
            [FStr (col_Name source), FType (col_Type source), FStr name, FType (col_Type column)]))"

fun positional_loop :: "queryBlock \<Rightarrow> Table \<Rightarrow> string list \<Rightarrow> (tree \<times> Column) list \<Rightarrow> string list \<times> Diagnostic list" where
  "positional_loop block target seen [] = (seen, [])"
| "positional_loop block target seen ((i, source) # rest) =
     (let name = identifier_of (GetText i); (s, ds) = positional_loop block target (name # seen) rest in
      (s, (if List.member seen name then [block_at block (Some i) (sprintf ''duplicate target column %q'' [FStr name])] else [])
        @ (case positional_message target name source of Some m \<Rightarrow> [block_at block (Some i) m] | None \<Rightarrow> []) @ ds))"

definition positional_columns :: "queryBlock \<Rightarrow> tree \<Rightarrow> Table \<Rightarrow> tree list \<Rightarrow> Column list \<Rightarrow> Diagnostic list" where
  "positional_columns block statement target ids columns =
     (if length columns \<noteq> length ids then
        [block_at block (Some statement) (sprintf ''SELECT has %d columns for %d target columns''
          [FNat (length columns), FNat (length ids)])]
      else (let (seen, ds) = positional_loop block target [] (zip ids columns) in
        ds @ validateRequiredDMLColumns block statement target seen True))"

section \<open>INSERT, UPDATE and DELETE with SELECT\<close>

type_synonym diagnostics_run = "(Diagnostic list \<times> analysis) option"

definition insert_core :: "Catalog \<Rightarrow> queryBlock \<Rightarrow> tree \<Rightarrow> Table \<Rightarrow> tree \<Rightarrow> tree \<Rightarrow> analysis \<Rightarrow> diagnostics_run" where
  "insert_core catalog block statement target core partial s =
     (case rule_opt ''Pure_column_list'' (rule_of ''Into_values_source'' statement) of
        None \<Rightarrow> do {
          ((columns, ds), s) \<leftarrow> analyzeSelectCore catalog block core (Some partial) selectProjection s;
          Some (if ds \<noteq> [] then ds else validateNamedDMLColumns block statement target columns True, s) }
      | Some list' \<Rightarrow>
          (case List.find (has_token ''ASTERISK'') (rules ''Result_column'' core) of
             Some result \<Rightarrow> Some ([block_at block (Some result)
               ''INSERT/UPSERT SELECT requires explicit source columns; wildcard column order is not guaranteed''], s)
           | None \<Rightarrow> do {
               ((columns, ds), s) \<leftarrow> analyzeSelectCore catalog block core (Some partial) selectDMLProjection s;
               Some (if ds \<noteq> [] then ds else positional_columns block statement target (rules ''An_id'' list') columns, s) }))"

definition analyzeInsertSelect :: "Catalog \<Rightarrow> queryBlock \<Rightarrow> tree \<Rightarrow> Table \<Rightarrow> analysis \<Rightarrow> diagnostics_run" where
  "analyzeInsertSelect catalog block statement target s =
     (let (arms, ds) = selectArms block (insertSelect statement) in
      if ds \<noteq> [] then Some (ds, s)
      else (case arms of
          [(core, partial)] \<Rightarrow> insert_core catalog block statement target core partial s
        | _ \<Rightarrow> Some ([block_at block (Some statement)
            ''INSERT/UPSERT SELECT supports one SELECT input; UNION is not yet supported''], s)))"

definition analyzeNamedDMLSelect :: "Catalog \<Rightarrow> queryBlock \<Rightarrow> tree \<Rightarrow> tree \<Rightarrow> Table \<Rightarrow> analysis \<Rightarrow> diagnostics_run" where
  "analyzeNamedDMLSelect catalog block stmt context' target s = do {
     ((columns, ds), s) \<leftarrow> analyzeSelectRows (analyzeSelectCore catalog) block stmt selectProjection s;
     Some (if ds \<noteq> [] then ds else validateNamedDMLColumns block context' target columns False, s) }"

section \<open>INSERT and UPDATE with values\<close>

text \<open>Expressions for columns: the diagnostics and what the binds among the expressions infer.\<close>

definition assign ::
  "queryBlock \<Rightarrow> relation list \<Rightarrow> type_map \<Rightarrow> tree \<Rightarrow> Column \<Rightarrow> type_map \<Rightarrow> Diagnostic list \<times> type_map" where
  "assign block relations bindings expr column inferred =
     (let (err, inferred) = validateDMLValue (qb_arguments block) (block_scope block relations bindings) expr column inferred in
      ((case err of Some e \<Rightarrow> [block_at block (Some expr) (error_text e)] | None \<Rightarrow> []), inferred))"

fun value_loop :: "queryBlock \<Rightarrow> Table \<Rightarrow> type_map \<Rightarrow> type_map \<Rightarrow> (tree \<times> tree) list \<Rightarrow> Diagnostic list \<times> type_map" where
  "value_loop block table bindings inferred [] = ([], inferred)"
| "value_loop block table bindings inferred ((i, expr) # rest) =
     (let (ds, inferred) = (case tableColumn table (identifier_of (GetText i)) of
            None \<Rightarrow> ([block_at block (Some i) (sprintf ''unknown column %q'' [FStr (GetText i)])], inferred)
          | Some column \<Rightarrow> assign block [] bindings expr column inferred);
          (ds', inferred) = value_loop block table bindings inferred rest
      in (ds @ ds', inferred))"

fun row_loop :: "queryBlock \<Rightarrow> Table \<Rightarrow> type_map \<Rightarrow> tree list \<Rightarrow> type_map \<Rightarrow> tree list \<Rightarrow> Diagnostic list \<times> type_map" where
  "row_loop block table bindings ids inferred [] = ([], inferred)"
| "row_loop block table bindings ids inferred (row # rest) =
     (let (ds, inferred) = (case rule_opt ''Expr_list'' row of
            None \<Rightarrow> ([], inferred)
          | Some list' \<Rightarrow>
              (let expressions = directExprs list' in
               if length expressions \<noteq> length ids then
                 ([block_at block (Some row) (sprintf ''VALUES has %d expressions for %d target columns''
                    [FNat (length expressions), FNat (length ids)])], inferred)
               else value_loop block table bindings inferred (zip ids expressions)));
          (ds', inferred) = row_loop block table bindings ids inferred rest
      in (ds @ ds', inferred))"

definition inferInsert :: "queryBlock \<Rightarrow> tree \<Rightarrow> Table \<Rightarrow> type_map \<Rightarrow> type_map \<Rightarrow> Diagnostic list \<times> type_map" where
  "inferInsert block statement table bindings inferred =
     (let source = rule_opt ''Into_values_source'' statement in
      case (sub_rule ''Values_stmt'' (sub_rule ''Values_source'' source), sub_rule ''Pure_column_list'' source) of
        (Some vs, Some list') \<Rightarrow>
          row_loop block table bindings (rules ''An_id'' list') inferred (rules ''Values_source_row'' (rule_of ''Values_source_row_list'' vs))
      | _ \<Rightarrow> ([block_at block (Some statement) ''INSERT/UPSERT currently requires an explicit column list and VALUES rows''], inferred))"

fun clause_loop ::
  "queryBlock \<Rightarrow> Table \<Rightarrow> relation list \<Rightarrow> type_map \<Rightarrow> string list \<Rightarrow> type_map \<Rightarrow> tree list \<Rightarrow> Diagnostic list \<times> type_map" where
  "clause_loop block table relations bindings seen inferred [] = ([], inferred)"
| "clause_loop block table relations bindings seen inferred (clause # rest) =
     (case (sub_rule ''Column_name'' (rule_opt ''Set_target'' clause), rule_opt ''Expr'' clause) of
        (Some column_name, Some expr) \<Rightarrow>
          (let name = identifier_of (GetText (rule_of ''An_id'' column_name)) in
           if List.member seen name then
             (let (ds, inferred) = clause_loop block table relations bindings seen inferred rest in
              (block_at block (rule_opt ''Set_target'' clause) (sprintf
                ''duplicate UPDATE SET column %q; combine the expressions into one assignment'' [FStr name]) # ds, inferred))
           else (let (ds, inferred) = (case tableColumn table name of
                   None \<Rightarrow> ([block_at block (Some clause) (sprintf ''unknown column %q'' [FStr name])], inferred)
                 | Some column \<Rightarrow> assign block relations bindings expr column inferred);
                 (ds', inferred) = clause_loop block table relations bindings (name # seen) inferred rest
             in (ds @ ds', inferred)))
      | _ \<Rightarrow> clause_loop block table relations bindings seen inferred rest)"

definition inferUpdate :: "queryBlock \<Rightarrow> tree \<Rightarrow> Table \<Rightarrow> type_map \<Rightarrow> type_map \<Rightarrow> Diagnostic list \<times> type_map" where
  "inferUpdate block statement table bindings inferred =
     (case sub_rule ''Set_clause_list'' (rule_opt ''Set_clause_choice'' statement) of
        None \<Rightarrow> ([block_at block (Some statement) ''only individual UPDATE SET assignments are supported''], inferred)
      | Some list' \<Rightarrow>
          clause_loop block table [new_relation table (simpleTableName (rule_opt ''Simple_table_ref'' statement)) False]
            bindings [] inferred (descendant_rules ''Set_clause'' list'))"

section \<open>RETURNING\<close>

fun returning_columns :: "queryBlock \<Rightarrow> Table \<Rightarrow> tree list \<Rightarrow> Column list \<times> Diagnostic list" where
  "returning_columns block table [] = ([], [])"
| "returning_columns block table (i # ids) =
     (let (cs, ds) = returning_columns block table ids in
      case tableColumn table (identifier_of (GetText i)) of
        None \<Rightarrow> (cs, block_at block (Some i) (sprintf ''unknown RETURNING column %q'' [FStr (GetText i)]) # ds)
      | Some column \<Rightarrow> (column # cs, ds))"

definition returningProjection ::
  "queryBlock \<Rightarrow> wildcardRewrites option \<Rightarrow> tree \<Rightarrow> Table \<Rightarrow> Column list \<times> Diagnostic list \<times> wildcardRewrites option" where
  "returningProjection block wildcards returning table =
     (case token_of ''ASTERISK'' returning of
        Some tok \<Rightarrow> (tb_Columns table, [],
          map_option (\<lambda>w. rewrites_add w tok (map (\<lambda>c. quotedYQLIdentifier (col_Name c)) (tb_Columns table))) wildcards)
      | None \<Rightarrow> (let (cs, ds) = returning_columns block table (rules ''An_id'' returning) in (cs, ds, wildcards)))"

section \<open>A data statement\<close>

type_synonym statement_run = "((Column list option \<times> Diagnostic list) \<times> analysis) option"

definition nonempty :: "'a list \<Rightarrow> 'a list option" where
  "nonempty xs = (if xs = [] then None else Some xs)"

text \<open>The columns of the arms that pass, and whether the statement stops at one that fails.\<close>

fun arm_loop ::
  "Catalog \<Rightarrow> queryBlock \<Rightarrow> (tree \<times> tree) list \<Rightarrow> analysis \<Rightarrow> ((Column list list \<times> Diagnostic list \<times> bool) \<times> analysis) option" where
  "arm_loop catalog block [] s = Some (([], [], False), s)"
| "arm_loop catalog block ((core, partial) # arms) s = do {
     ((columns, ds), s) \<leftarrow> analyzeSelectCore catalog block core (Some partial) selectProjection s;
     if ds \<noteq> [] \<and> columns = [] \<and> containsINSubquery core then Some (([], ds, True), s)
     else do {
       ((cs, ds', stop), s) \<leftarrow> arm_loop catalog block arms s;
       Some ((if ds = [] then columns # cs else cs, ds @ ds', stop), s) } }"

text \<open>A union of several arms is a slice that is not nil, unless an arm repeats a name.\<close>

definition union_columns :: "queryBlock \<Rightarrow> tree \<Rightarrow> Column list list \<Rightarrow> Column list option \<times> Diagnostic list" where
  "union_columns block stmt arms =
     (let (cs, ds) = reconcileUnionColumns block stmt arms in
      (if length arms = 1 \<or> list_ex (\<lambda>arm. snd (arm_columns [] arm) \<noteq> []) arms then nonempty cs else Some cs, ds))"

definition data_select :: "Catalog \<Rightarrow> queryBlock \<Rightarrow> tree \<Rightarrow> analysis \<Rightarrow> statement_run" where
  "data_select catalog block stmt s =
     (let (arms, ads) = selectArms block (Some stmt);
          s = (case arms of
              [(core, partial)] \<Rightarrow> s\<lparr>st_wildcards := map_option (\<lambda>w. w\<lparr>ww_embedCore := Some core\<rparr>) (st_wildcards s)\<rparr>
            | _ \<Rightarrow> s)
      in do {
        ((cs, ds, stop), s) \<leftarrow> arm_loop catalog block arms s;
        if stop \<or> length cs \<noteq> length arms \<or> cs = [] then Some ((None, ads @ ds), s)
        else (let (columns, uds) = union_columns block stmt cs in Some ((columns, ads @ ds @ uds), s)) })"

text \<open>A step of a DML statement gives diagnostics, and whether the statement stops there.\<close>

type_synonym dml_step = "analysis \<Rightarrow> ((Diagnostic list \<times> bool) \<times> analysis) option"

fun run_steps :: "dml_step list \<Rightarrow> dml_step" where
  "run_steps [] s = Some (([], False), s)"
| "run_steps (step # steps) s = do {
     ((ds, stop), s) \<leftarrow> step s;
     if stop then Some ((ds, True), s)
     else do { ((ds', stop), s) \<leftarrow> run_steps steps s; Some ((ds @ ds', stop), s) } }"

definition continue_with :: "Diagnostic list \<times> type_map \<Rightarrow> analysis \<Rightarrow> ((Diagnostic list \<times> bool) \<times> analysis) option" where
  "continue_with r s = Some ((fst r, False), s\<lparr>st_inferred := snd r\<rparr>)"

definition plain_dml :: "queryTree \<Rightarrow> bool" where
  "plain_dml tree \<longleftrightarrow>
     (case qt_insert tree of [i] \<Rightarrow> insertSelect i = None | _ \<Rightarrow> True)
   \<and> (case qt_updates tree of [u] \<Rightarrow> updateSelect u = None | _ \<Rightarrow> True)
   \<and> (case qt_deletes tree of [d] \<Rightarrow> deleteSelect d = None | _ \<Rightarrow> True)"

definition references_step :: "Catalog \<Rightarrow> queryBlock \<Rightarrow> tree \<Rightarrow> queryTree \<Rightarrow> relation list \<Rightarrow> dml_step" where
  "references_step catalog block statement tree relations s =
     (if \<not> plain_dml tree then Some (([], False), s)
      else (let s = recordColumnBindings (qb_tree block) statement relations s;
                refs = validateColumnReferences block (st_wildcards s) statement relations [];
                s = infer_uses block statement relations s
        in do {
          ((subqueries, ds), s) \<leftarrow> analyzeINSubqueries (analyzeSelectCore catalog) block statement relations s;
          if ds \<noteq> [] then Some ((refs @ ds, True), s)
          else Some ((refs @ validatePredicateContexts block statement relations relations (st_bindings s) subqueries, False), s) }))"

definition select_step :: "tree \<Rightarrow> (analysis \<Rightarrow> diagnostics_run) \<Rightarrow> dml_step" where
  "select_step stmt run s = do { (ds, s) \<leftarrow> run s; Some ((ds, ds \<noteq> [] \<and> containsINSubquery stmt), s) }"

definition insert_step :: "Catalog \<Rightarrow> queryBlock \<Rightarrow> Table \<Rightarrow> queryTree \<Rightarrow> dml_step" where
  "insert_step catalog block target tree s =
     (case qt_insert tree of
        [statement] \<Rightarrow>
          (case insertSelect statement of
             Some stmt \<Rightarrow> select_step stmt (analyzeInsertSelect catalog block statement target) s
           | None \<Rightarrow> continue_with (inferInsert block statement target (st_bindings s) (st_inferred s)) s)
      | _ \<Rightarrow> Some (([], False), s))"

text \<open>\<open>UPDATE ON\<close> and \<open>DELETE ON\<close>.\<close>

definition on_step :: "string \<Rightarrow> Catalog \<Rightarrow> queryBlock \<Rightarrow> tree \<Rightarrow> tree \<Rightarrow> Table \<Rightarrow> dml_step" where
  "on_step verb catalog block stmt statement target s =
     (case rule_opt ''Pure_column_list'' (rule_of ''Into_values_source'' statement) of
        Some list' \<Rightarrow> Some (([block_at block (Some list')
          (verb @ '' ON SELECT with an explicit source column list is unsupported'')], False), s)
      | None \<Rightarrow> select_step stmt (analyzeNamedDMLSelect catalog block stmt statement target) s)"

definition update_step :: "Catalog \<Rightarrow> queryBlock \<Rightarrow> Table \<Rightarrow> queryTree \<Rightarrow> dml_step" where
  "update_step catalog block target tree s =
     (case qt_updates tree of
        [statement] \<Rightarrow>
          (case updateSelect statement of
             Some stmt \<Rightarrow> on_step ''UPDATE'' catalog block stmt statement target s
           | None \<Rightarrow>
               if has_token ''ON'' statement then
                 Some (([block_at block (Some statement) ''UPDATE ON currently requires a SELECT source''], False), s)
               else continue_with (inferUpdate block statement target (st_bindings s) (st_inferred s)) s)
      | _ \<Rightarrow> Some (([], False), s))"

definition delete_step :: "Catalog \<Rightarrow> queryBlock \<Rightarrow> Table \<Rightarrow> queryTree \<Rightarrow> dml_step" where
  "delete_step catalog block target tree s =
     (case qt_deletes tree of
        [statement] \<Rightarrow>
          (case deleteSelect statement of
             Some stmt \<Rightarrow> on_step ''DELETE'' catalog block stmt statement target s
           | None \<Rightarrow>
               if has_token ''ON'' statement then
                 Some (([block_at block (Some statement) ''DELETE ON currently requires a SELECT source''], False), s)
               else Some (([], False), s))
      | _ \<Rightarrow> Some (([], False), s))"

text \<open>The target: the table with its alias, the statement, and the diagnostics.\<close>

definition dml_target :: "Catalog \<Rightarrow> queryBlock \<Rightarrow> queryTree \<Rightarrow> (Table \<times> string \<times> tree) option \<times> Diagnostic list" where
  "dml_target catalog block tree =
     (let found = (\<lambda>name statement. case targetTable catalog block name statement of
            (target, ds) \<Rightarrow> (map_option (\<lambda>t. (t, name, statement)) target, ds));
          other = (case qt_updates tree of
              [u] \<Rightarrow> found (simpleTableName (rule_opt ''Simple_table_ref'' u)) u
            | _ \<Rightarrow> (case qt_deletes tree of
                [d] \<Rightarrow> found (simpleTableName (rule_opt ''Simple_table_ref'' d)) d
              | _ \<Rightarrow> (None, [])))
      in case qt_insert tree of [i] \<Rightarrow> found (intoTableName i) i | _ \<Rightarrow> other)"

definition data_modify :: "Catalog \<Rightarrow> queryBlock \<Rightarrow> tree \<Rightarrow> queryTree \<Rightarrow> analysis \<Rightarrow> statement_run" where
  "data_modify catalog block statement tree s =
     (case dml_target catalog block tree of
        (None, ds) \<Rightarrow> Some ((None, ds), s)
      | (Some (target, alias, modified), tds) \<Rightarrow> do {
          ((ds, stop), s) \<leftarrow> run_steps
            [references_step catalog block statement tree [new_relation target alias False],
             insert_step catalog block target tree, update_step catalog block target tree,
             delete_step catalog block target tree] s;
          if stop then Some ((None, tds @ ds), s)
          else (case rule_opt ''Returning_columns_list'' modified of
              None \<Rightarrow> Some ((None, tds @ ds), s)
            | Some returning \<Rightarrow>
                (let (columns, rds, wildcards) = returningProjection block (st_wildcards s) returning target in
                 Some ((nonempty columns, tds @ ds @ rds), s\<lparr>st_wildcards := wildcards\<rparr>))) })"

text \<open>The statement works on a copy of the bindings.\<close>

definition analyzeDataStatement :: "Catalog \<Rightarrow> queryBlock \<Rightarrow> tree \<Rightarrow> analysis \<Rightarrow> statement_run" where
  "analyzeDataStatement catalog block statement s =
     (let tree = collectQueryTree (qb_tree block) statement in do {
        (r, s') \<leftarrow> (case topLevelSelect (qt_statements tree) of
            Some stmt \<Rightarrow> data_select catalog block stmt s
          | None \<Rightarrow> data_modify catalog block statement tree s);
        Some (r, s'\<lparr>st_bindings := st_bindings s\<rparr>) })"

end
