(* ===== verification/Locals.thy ===== *)
theory Locals
  imports Statements GoUnicode
begin

text \<open>
  What surrounds the data statements of a query (\<open>semantic.go\<close>, \<open>lambda.go\<close>, \<open>multi.go\<close>,
  \<open>parameter_lineage.go\<close>): which statements a query may have, the local names that are assigned before the
  data statements, the positions of binds that lambdas bind, the names of several results, and the columns
  that parameters are compared with or assigned to.
\<close>

section \<open>Binds of lambdas\<close>

text \<open>
  The names that are local where the walk is, and the positions of the local binds. A lambda works on a copy
  of the names; within it, an assignment makes its names local from there on.
\<close>

type_synonym local_binds = "string list \<times> int list"

definition add_local :: "tree \<Rightarrow> local_binds \<Rightarrow> local_binds" where
  "add_local parameter acc = (bindName (Some parameter) # fst acc, start_index parameter # snd acc)"

definition local_bind :: "tree \<Rightarrow> local_binds \<Rightarrow> local_binds" where
  "local_bind t acc =
     (if is_rule ''Bind_parameter'' t \<and> List.member (fst acc) (bindName (Some t)) then (fst acc, start_index t # snd acc) else acc)"

definition lambda_inner :: "tree \<Rightarrow> tree option" where
  "lambda_inner t = (case rule_opt ''Lambda_body'' t of Some body \<Rightarrow> Some body | None \<Rightarrow> rule_opt ''Expr'' t)"

definition assigned_lambda :: "tree \<Rightarrow> tree option" where
  "assigned_lambda t = (if is_rule ''Lambda_stmt'' t then rule_opt ''Named_nodes_stmt'' t else None)"

lemma size_lambda_inner: "lambda_inner t = Some u \<Longrightarrow> size u < size t"
  by (auto simp: lambda_inner_def dest: size_rule split: option.splits)

lemma size_lambda_assignment: "assigned_lambda t = Some u \<Longrightarrow> size u < size t"
  by (auto simp: assigned_lambda_def dest: size_rule split: if_splits)

function local_walk :: "tree \<Rightarrow> local_binds \<Rightarrow> local_binds" where
  "local_walk t acc =
     (if is_arrow_lambda t then
        (let inner = fold add_local (lambdaParameters t) acc in
         (fst acc, case lambda_inner t of Some u \<Rightarrow> snd (local_walk u inner) | None \<Rightarrow> snd inner))
      else (case assigned_lambda t of
          Some assignment \<Rightarrow>
            (let acc = (case rule_opt ''Expr'' assignment of Some e \<Rightarrow> local_walk e acc | None \<Rightarrow> acc) in
             case rule_opt ''Bind_parameter_list'' assignment of
               Some list' \<Rightarrow> fold add_local (rules ''Bind_parameter'' list') acc
             | None \<Rightarrow> acc)
        | None \<Rightarrow> fold local_walk (tree_children t) (local_bind t acc)))"
  by pat_completeness auto
termination
  by (relation "measure (size \<circ> fst)") (auto dest!: size_lambda_inner size_lambda_assignment size_rule intro: size_child)

declare local_walk.simps [simp del]

definition lambdaLocalBindPositions :: "tree \<Rightarrow> int list" where
  "lambdaLocalBindPositions root = snd (local_walk root ([], []))"

section \<open>The statements of a query\<close>

datatype statement_kind = Unsupported string | Pragma | Assignment | Data

definition is_data :: "tree \<Rightarrow> bool" where
  "is_data core \<longleftrightarrow> has_rule ''Select_stmt'' core \<or> has_rule ''Into_table_stmt'' core \<or> has_rule ''Update_stmt'' core \<or> has_rule ''Delete_stmt'' core"

definition kind_of_statement :: "tree \<Rightarrow> statement_kind" where
  "kind_of_statement statement =
     (if has_token ''EXPLAIN'' statement then Unsupported ''EXPLAIN is unsupported in named queries''
      else (case rule_opt ''Sql_stmt_core'' statement of
          None \<Rightarrow> Unsupported (sprintf ''unsupported statement in named query: %q'' [FStr (GetText statement)])
        | Some core \<Rightarrow>
            if has_rule ''Pragma_stmt'' core then Pragma
            else if has_rule ''Declare_stmt'' core \<or> has_rule ''Named_nodes_stmt'' core then Assignment
            else if is_data core then Data
            else Unsupported (sprintf ''unsupported statement in named query: %q'' [FStr (GetText statement)])))"

definition refused_statement :: "queryBlock \<Rightarrow> tree \<Rightarrow> Diagnostic option" where
  "refused_statement block statement =
     (case kind_of_statement statement of Unsupported m \<Rightarrow> Some (block_at block (Some statement) m) | _ \<Rightarrow> None)"

definition isDeclarationOnlyExec :: "queryBlock \<Rightarrow> queryTree \<Rightarrow> bool" where
  "isDeclarationOnlyExec block tree \<longleftrightarrow>
     qb_command block = Exec \<and> qt_declares tree \<noteq> [] \<and> length (qt_statements tree) = length (qt_declares tree)"

text \<open>A query without a data statement.\<close>

definition dataless :: "queryBlock \<Rightarrow> queryTree \<Rightarrow> Diagnostic list" where
  "dataless block tree =
     (let missing = [block_message block ''named query requires a SELECT, INSERT/UPSERT, UPDATE, or DELETE statement''] in
      if qb_command block = Exec \<and> qt_declares tree \<noteq> [] then
        (if isDeclarationOnlyExec block tree then []
         else (case List.find (\<lambda>st. has_rule ''Pragma_stmt'' (rule_of ''Sql_stmt_core'' st)) (qt_statements tree) of
             Some statement \<Rightarrow> [block_at block (Some statement) ''PRAGMA is not allowed in a declaration-only query'']
           | None \<Rightarrow> missing))
      else missing)"

definition multi_statements :: "queryBlock \<Rightarrow> tree list \<Rightarrow> Diagnostic list" where
  "multi_statements block datas =
     (case List.find (\<lambda>st. \<not> has_rule ''Select_stmt'' (rule_of ''Sql_stmt_core'' st)) datas of
        Some statement \<Rightarrow> [block_at block (Some statement) '':multi supports only top-level SELECT statements'']
      | None \<Rightarrow>
          if length datas < 2 then [block_message block '':multi requires at least two top-level SELECT statements''] else [])"

definition produces_rows :: "tree \<Rightarrow> bool" where
  "produces_rows core \<longleftrightarrow> has_rule ''Select_stmt'' core
   \<or> list_ex (\<lambda>name. case rule_opt name core of Some t \<Rightarrow> has_rule ''Returning_columns_list'' t | None \<Rightarrow> False)
       [''Into_table_stmt'', ''Update_stmt'', ''Delete_stmt'']"

definition script_message :: "Command \<Rightarrow> nat \<Rightarrow> string option" where
  "script_message command results =
     (if results > 1 then
        Some (sprintf ''multi-statement queries support at most one result-producing statement; found %d'' [FNat results])
      else if command = Each then
        Some ''multi-statement :each is unsupported; use :one or :many to consume the result before returning''
      else if command = ExecRows then Some ''multi-statement :execrows is unsupported; use :exec, :one, or :many''
      else if (command = One \<or> command = Many) \<and> results = 0 then
        Some (sprintf ''command %s requires exactly one result-producing statement in a script'' [FStr command])
      else None)"

text \<open>The first assignment after a data statement, and the first DECLARE after an assignment.\<close>

definition late_assignment :: "tree list \<Rightarrow> tree option" where
  "late_assignment statements =
     List.find (\<lambda>st. kind_of_statement st = Assignment) (dropWhile (\<lambda>st. kind_of_statement st \<noteq> Data) statements)"

definition late_declare :: "queryTree \<Rightarrow> tree option" where
  "late_declare tree =
     (case qt_named tree of
        [] \<Rightarrow> None
      | first' # _ \<Rightarrow> List.find (\<lambda>declaration. token_index declaration > token_index first') (qt_declares tree))"

definition script_statements :: "queryBlock \<Rightarrow> tree list \<Rightarrow> Diagnostic list" where
  "script_statements block datas =
     (if length datas = 1 then []
      else (case script_message (qb_command block) (length (filter (\<lambda>st. produces_rows (rule_of ''Sql_stmt_core'' st)) datas)) of
          Some message \<Rightarrow> [block_at block (Some (hd datas)) message]
        | None \<Rightarrow> []))"

definition validateQueryStatements :: "queryBlock \<Rightarrow> queryTree \<Rightarrow> Diagnostic list" where
  "validateQueryStatements block tree =
     (let statements = qt_statements tree; ds = List.map_filter (refused_statement block) statements;
          datas = filter (\<lambda>st. kind_of_statement st = Data) statements in
      if ds \<noteq> [] then ds
      else if datas = [] then dataless block tree
      else (case late_assignment statements of
          Some statement \<Rightarrow>
            [block_at block (Some statement) ''DECLARE and local assignments must precede all data statements in a script'']
        | None \<Rightarrow>
            (case late_declare tree of
               Some declaration \<Rightarrow> [block_at block (Some declaration) ''DECLARE statements must precede local assignments in a script'']
             | None \<Rightarrow> if qb_command block = Multi then multi_statements block datas else script_statements block datas)))"

section \<open>Local assignments\<close>

record locals =
  lo_positions :: "int list"
  lo_names :: "string list"
  lo_types :: "(string \<times> ty) list"
  lo_tabular :: "string \<rightharpoonup> Table"
  lo_lambdas :: lambda_map

text \<open>The SELECT that is assigned: \<open>None\<close> when the statement assigns no SELECT.\<close>

definition partial_core :: "tree option \<Rightarrow> (tree \<times> tree) res" where
  "partial_core partial =
     (case partial of
        None \<Rightarrow> Inl (Errorf ''tabular local assignments require SELECT without DISCARD or INTO RESULT'' [])
      | Some p \<Rightarrow>
          (case rule_opt ''Select_kind'' p of
             None \<Rightarrow> Inl (Errorf ''tabular local assignments require SELECT without DISCARD or INTO RESULT'' [])
           | Some kind \<Rightarrow>
               if has_token ''DISCARD'' kind \<or> has_token ''INTO'' kind then
                 Inl (Errorf ''tabular local assignments require SELECT without DISCARD or INTO RESULT'' [])
               else (case rule_opt ''Select_core'' kind of
                   None \<Rightarrow> Inl (Errorf ''tabular local assignments require SELECT'' [])
                 | Some core \<Rightarrow> Inr (core, p))))"

definition unparenthesized_core :: "tree \<Rightarrow> (tree \<times> tree) res" where
  "unparenthesized_core unparenthesized =
     (if has_rule ''Cte_with_clause'' unparenthesized then
        Inl (Errorf ''CTEs in tabular local assignments are not yet supported'' [])
      else (let compound = rule_of ''Select_unparenthesized_stmt_core'' unparenthesized in
        case rule_opt ''Select_unparenthesized_stmt_intersect'' compound of
          None \<Rightarrow> Inl (Errorf ''tabular local assignments support one SELECT input'' [])
        | Some intersect \<Rightarrow>
            if has_rule ''Select_stmt_intersect'' compound \<or> has_rule ''Union_op'' compound \<or> has_rule ''Intersect_op'' intersect then
              Inl (Errorf ''tabular local assignments support one SELECT input'' [])
            else partial_core (rule_opt ''Select_kind_partial'' intersect)))"

definition subexpr_core :: "tree \<Rightarrow> (tree \<times> tree) res option" where
  "subexpr_core selected =
     (let compound = rule_of ''Select_subexpr_core'' selected;
          unsupported = Some (Inl (Errorf ''tabular local assignments support one SELECT input without CTE, UNION, or INTERSECT'' [])) in
      if has_rule ''Cte_with_clause'' selected \<or> has_rule ''Union_op'' compound then unsupported
      else (case rules ''Select_subexpr_intersect'' compound of
          [intersect] \<Rightarrow>
            (case rules ''Select_or_expr'' intersect of
               [source] \<Rightarrow>
                 if has_rule ''Intersect_op'' intersect then unsupported
                 else map_option (\<lambda>p. partial_core (Some p)) (rule_opt ''Select_kind_partial'' source)
             | _ \<Rightarrow> unsupported)
        | _ \<Rightarrow> unsupported))"

definition localSelectCore :: "tree \<Rightarrow> (tree \<times> tree) res option" where
  "localSelectCore statement =
     (case rule_opt ''Select_unparenthesized_stmt'' statement of
        Some unparenthesized \<Rightarrow> Some (unparenthesized_core unparenthesized)
      | None \<Rightarrow>
          (case rule_opt ''Expr'' statement of
             None \<Rightarrow> None
           | Some expr \<Rightarrow>
               (case descendant_rules ''Select_subexpr'' expr of
                  [] \<Rightarrow> None
                | selected # _ \<Rightarrow> if sameOrWrappedExpression expr selected then subexpr_core selected else None)))"

definition local_types :: "type_map \<Rightarrow> locals \<Rightarrow> type_map" where
  "local_types declared lo = declared ++ map_of (lo_types lo)"

type_synonym locals_run = "((locals \<times> Diagnostic list) \<times> analysis) option"

definition local_table ::
  "Catalog \<Rightarrow> queryBlock \<Rightarrow> type_map \<Rightarrow> tree \<Rightarrow> string \<Rightarrow> tree \<Rightarrow> tree \<Rightarrow> locals \<Rightarrow> analysis \<Rightarrow> locals_run" where
  "local_table catalog block declared statement name core partial lo s = do {
     ((columns, ds), s') \<leftarrow> analyzeSelectCore catalog (block\<lparr>qb_tabular := lo_tabular lo, qb_lambdas := lo_lambdas lo\<rparr>)
       core (Some partial) selectProjection (s\<lparr>st_bindings := bind_inferred (st_inferred s) (local_types declared lo)\<rparr>);
     Some (if ds \<noteq> [] then (lo, ds)
       else (case tabularTable name columns of
           Inl e \<Rightarrow> (lo, [block_at block (Some statement) (error_text e)])
         | Inr table \<Rightarrow> (lo\<lparr>lo_tabular := (lo_tabular lo)(name \<mapsto> table)\<rparr>, [])),
       s'\<lparr>st_bindings := st_bindings s\<rparr>) }"

definition copied_bind :: "tree \<Rightarrow> string option" where
  "copied_bind expr =
     (case descendant_rules ''Bind_parameter'' expr of
        [b] \<Rightarrow> if sameOrWrappedExpression expr b then Some (bindName (Some b)) else None
      | _ \<Rightarrow> None)"

definition add_lambda :: "string \<Rightarrow> lambdaBinding \<Rightarrow> locals \<Rightarrow> locals" where
  "add_lambda name b lo = lo\<lparr>lo_lambdas := (name, b) # map_delete name (lo_lambdas lo)\<rparr>"

definition add_type :: "string \<Rightarrow> ty \<Rightarrow> locals \<Rightarrow> locals" where
  "add_type name t lo = lo\<lparr>lo_types := lo_types lo @ [(name, t)]\<rparr>"

definition local_scalar :: "queryBlock \<Rightarrow> type_map \<Rightarrow> type_map \<Rightarrow> string \<Rightarrow> tree \<Rightarrow> locals \<Rightarrow> locals \<times> Diagnostic list" where
  "local_scalar block declared inferred name expr lo =
     (let failed = (\<lambda>message. (lo, [block_at block (Some expr) message])) in
      case directLambda expr of
        Some lambda \<Rightarrow>
          (add_type name (mk_kind ''Lambda'')
            (add_lambda name (LambdaBinding lambda (bind_inferred inferred (local_types declared lo)) (lo_lambdas lo)) lo), [])
      | None \<Rightarrow>
          if containsAggregate expr then failed ''aggregate functions are not allowed in scalar local assignments''
          else (case copied_bind expr of
              Some rhs \<Rightarrow>
                (case local_types declared lo rhs of
                   None \<Rightarrow> failed (sprintf ''cannot resolve local $%s from $%s; declare the external parameter first'' [FStr name, FStr rhs])
                 | Some t \<Rightarrow>
                     (let lo' = (case map_of (lo_lambdas lo) rhs of
                          Some b \<Rightarrow> if Kind t = ''Lambda'' then add_lambda name b lo else lo
                        | None \<Rightarrow> lo) in (add_type name t lo', [])))
            | None \<Rightarrow>
                (case resolveExpression ((block_scope block [] (local_types declared lo))\<lparr>sc_lambdas := lo_lambdas lo\<rparr>) (Some expr) of
                   Inl e \<Rightarrow> failed (sprintf ''cannot resolve type of local $%s: %v'' [FStr name, FErr e])
                 | Inr t \<Rightarrow> (add_type name t lo, []))))"

definition local_assignment ::
  "Catalog \<Rightarrow> queryBlock \<Rightarrow> type_map \<Rightarrow> tree \<Rightarrow> string \<Rightarrow> locals \<Rightarrow> analysis \<Rightarrow> locals_run" where
  "local_assignment catalog block declared statement name lo s =
     (let failed = (\<lambda>message. Some ((lo, [block_at block (Some statement) message]), s)) in
      if declared name \<noteq> None then failed (sprintf ''local $%s conflicts with a DECLARE parameter'' [FStr name])
      else if map_of (lo_types lo) name \<noteq> None \<or> lo_tabular lo name \<noteq> None then
        failed (sprintf ''local $%s is assigned more than once'' [FStr name])
      else (case localSelectCore statement of
          Some (Inl e) \<Rightarrow> failed (error_text e)
        | Some (Inr (core, partial)) \<Rightarrow> local_table catalog block declared statement name core partial lo s
        | None \<Rightarrow>
            (case rule_opt ''Expr'' statement of
               None \<Rightarrow> failed ''only scalar expressions or SELECT local assignments are supported''
             | Some expr \<Rightarrow> Some (local_scalar block declared (st_inferred s) name expr lo, s))))"

definition assigned_binds :: "tree \<Rightarrow> tree list" where
  "assigned_binds list' = filter (\<lambda>b. GetStart b \<noteq> None) (descendant_rules ''Bind_parameter'' list')"

fun local_loop :: "Catalog \<Rightarrow> queryBlock \<Rightarrow> type_map \<Rightarrow> tree list \<Rightarrow> locals \<Rightarrow> analysis \<Rightarrow> locals_run" where
  "local_loop catalog block declared [] lo s = Some ((lo, []), s)"
| "local_loop catalog block declared (statement # rest) lo s =
     (case rule_opt ''Bind_parameter_list'' statement of
        None \<Rightarrow> local_loop catalog block declared rest lo s
      | Some list' \<Rightarrow>
          (let lhs = assigned_binds list';
               lo = lo\<lparr>lo_positions := lo_positions lo @ map start_index lhs,
                       lo_names := lo_names lo @ map (\<lambda>b. bindName (Some b)) lhs\<rparr>
           in do {
             ((lo, ds), s) \<leftarrow> (case lhs of
                 [b] \<Rightarrow> local_assignment catalog block declared statement (bindName (Some b)) lo s
               | _ \<Rightarrow> Some ((lo, [block_at block (Some statement) ''only single local assignments are supported'']), s));
             ((lo, ds'), s) \<leftarrow> local_loop catalog block declared rest lo s;
             Some ((lo, ds @ ds'), s) }))"

definition localBindings :: "Catalog \<Rightarrow> queryBlock \<Rightarrow> queryTree \<Rightarrow> type_map \<Rightarrow> analysis \<Rightarrow> locals_run" where
  "localBindings catalog block tree declared s =
     local_loop catalog block declared (qt_named tree)
       \<lparr>lo_positions = [], lo_names = [], lo_types = [], lo_tabular = (\<lambda>_. None), lo_lambdas = []\<rparr> s"

end
