(* ===== verification/Lineage.thy ===== *)
theory Lineage
  imports Locals
begin

text \<open>
  The names of several results (\<open>multi.go\<close>), and the columns that parameters are compared with or assigned
  to (\<open>parameter_lineage.go\<close>), from which generators take type overrides.
\<close>

section \<open>Names of results\<close>

definition validMultiResultName :: "unicode \<Rightarrow> string \<Rightarrow> bool" where
  "validMultiResultName uc name \<longleftrightarrow> IsIdentifier uc name \<and> IsExported uc name"

text \<open>The name after \<open>-- result:\<close>.\<close>

definition result_comment :: "token \<Rightarrow> string option" where
  "result_comment tok =
     (let comment = TrimSpace (tk_Text tok); marker = TrimSpace (trim_prefix comment ''--'') in
      if tk_Type tok = ''COMMENT'' \<and> has_prefix comment ''--'' \<and> has_prefix (to_lower marker) ''result:''
      then Some (TrimSpace (drop (length ''result:'') marker)) else None)"

definition line_start :: "string \<Rightarrow> nat \<Rightarrow> nat" where
  "line_start text start = (case last_index (\<lambda>c. c = CHR 0x0A) (take start text) of Some i \<Rightarrow> i + 1 | None \<Rightarrow> 0)"

definition directly_before :: "string \<Rightarrow> token \<Rightarrow> tree \<Rightarrow> bool" where
  "directly_before text tok statement \<longleftrightarrow>
     (let start = runeByteOffset text (tk_Start tok); stop = runeByteOffset text (tk_Stop tok + 1) in
      TrimSpace (drop (line_start text start) (take start text)) = []
      \<and> TrimSpace (drop stop (take (runeByteOffset text (start_index statement)) text)) = [])"

definition misplaced_result :: "queryBlock \<Rightarrow> token \<Rightarrow> Diagnostic" where
  "misplaced_result block tok =
     \<lparr>dg_Position = token_position block tok, dg_Message = ''result annotation must immediately precede a top-level SELECT''\<rparr>"

text \<open>One annotation names the first SELECT after it.\<close>

definition name_result ::
  "unicode \<Rightarrow> queryBlock \<Rightarrow> tree list \<Rightarrow> token \<Rightarrow> string \<Rightarrow> string list \<Rightarrow> string list \<times> Diagnostic list" where
  "name_result uc block selects tok name names =
     (if \<not> validMultiResultName uc name then
        (names, [\<lparr>dg_Position = token_position block tok, dg_Message =
          sprintf ''invalid result name %q; use an exported identifier after -- result:'' [FStr name]\<rparr>])
      else (let (names, ds) = (case find_index (\<lambda>st. start_index st > tk_Stop tok) selects of
              None \<Rightarrow> (names, [])
            | Some i \<Rightarrow>
                if directly_before (qb_text block) tok (selects ! i) \<and> names ! i = [] then (names[i := name], [])
                else (names, [misplaced_result block tok]))
        in (names, ds @ (if selects = [] \<or> start_index (last selects) \<le> tk_Stop tok then [misplaced_result block tok] else []))))"

fun result_loop ::
  "unicode \<Rightarrow> queryBlock \<Rightarrow> tree list \<Rightarrow> string list \<Rightarrow> token list \<Rightarrow> string list \<times> Diagnostic list" where
  "result_loop uc block selects names [] = (names, [])"
| "result_loop uc block selects names (tok # toks) =
     (case result_comment tok of
        None \<Rightarrow> result_loop uc block selects names toks
      | Some name \<Rightarrow>
          (let (names, ds) = name_result uc block selects tok name names; (names, ds') = result_loop uc block selects names toks
           in (names, ds @ ds')))"

text \<open>A SELECT without an annotation is named by its number.\<close>

fun default_names :: "nat \<Rightarrow> string list \<Rightarrow> string list" where
  "default_names i [] = []"
| "default_names i (name # names) =
     (if name = [] then sprintf ''Result%d'' [FNat (i + 1)] else name) # default_names (i + 1) names"

fun repeated_names :: "string list \<Rightarrow> string list \<Rightarrow> string list" where
  "repeated_names seen [] = []"
| "repeated_names seen (name # names) =
     (if List.member seen name then [name] else []) @ repeated_names (name # seen) names"

definition multiResultNames :: "unicode \<Rightarrow> queryBlock \<Rightarrow> token list \<Rightarrow> queryTree \<Rightarrow> string list \<times> Diagnostic list" where
  "multiResultNames uc block tokens tree =
     (let selects = filter (\<lambda>st. has_rule ''Select_stmt'' (rule_of ''Sql_stmt_core'' st)) (qt_statements tree);
          (names, ds) = result_loop uc block selects (replicate (length selects) []) tokens;
          names = default_names 0 names
      in (names, ds @ map (\<lambda>name. block_message block (sprintf ''result name %q is used more than once'' [FStr name]))
           (repeated_names [] names)))"

section \<open>Columns of parameters\<close>

type_synonym bind_columns = "string \<rightharpoonup> Column list"

definition add_column :: "string \<Rightarrow> Column \<Rightarrow> bind_columns \<Rightarrow> bind_columns" where
  "add_column name column m =
     (case m name of
        None \<Rightarrow> m(name \<mapsto> [column])
      | Some cs \<Rightarrow>
          if list_ex (\<lambda>previous. col_Table previous = col_Table column \<and> col_Name previous = col_Name column) cs then m
          else m(name \<mapsto> cs @ [column]))"

definition between_columns :: "tree \<Rightarrow> (int \<rightharpoonup> ColumnBinding) \<Rightarrow> tree \<Rightarrow> bind_columns \<Rightarrow> bind_columns" where
  "between_columns query columns node m =
     (let first' = rule_of ''Eq_subexpr'' node in
      case columnRefs query first' of
        [ref] \<Rightarrow>
          (case (if sameOrWrappedExpression first' (ref_ctx ref) then columns (token_index (ref_ctx ref)) else None) of
             None \<Rightarrow> m
           | Some binding \<Rightarrow>
               fold (\<lambda>bound. fold (\<lambda>b. add_column (bindName (Some b)) (bc_Column binding))
                   (filter (sameOrWrappedExpression bound) (scope_binds bound)))
                 (rules ''Eq_subexpr'' (rule_of ''Cond_expr'' node)) m)
      | _ \<Rightarrow> m)"

definition comparison_columns :: "tree \<Rightarrow> (int \<rightharpoonup> ColumnBinding) \<Rightarrow> tree \<Rightarrow> bind_columns \<Rightarrow> bind_columns" where
  "comparison_columns query columns root m =
     (case (columnRefs query root, scope_binds root) of
        ([ref], [b]) \<Rightarrow>
          (case columns (token_index (ref_ctx ref)) of
             None \<Rightarrow> m
           | Some binding \<Rightarrow>
               if isDirectComparison root ref b then add_column (bindName (Some b)) (bc_Column binding) m else m)
      | _ \<Rightarrow> m)"

definition compared_columns :: "tree \<Rightarrow> (int \<rightharpoonup> ColumnBinding) \<Rightarrow> tree \<Rightarrow> bind_columns \<Rightarrow> bind_columns" where
  "compared_columns query columns statement =
     fold (\<lambda>node. if is_between node then between_columns query columns node
         else if is_rule ''Xor_subexpr'' node \<or> is_rule ''Eq_subexpr'' node then comparison_columns query columns node
         else id) (descendants statement)"

definition assigned_column :: "Table \<Rightarrow> tree \<Rightarrow> string \<Rightarrow> bind_columns \<Rightarrow> bind_columns" where
  "assigned_column table expr name m =
     (case directBind expr of
        None \<Rightarrow> m
      | Some b \<Rightarrow> (case tableColumn table name of None \<Rightarrow> m | Some column \<Rightarrow> add_column (bindName (Some b)) column m))"

definition row_columns :: "Table \<Rightarrow> tree list \<Rightarrow> tree \<Rightarrow> bind_columns \<Rightarrow> bind_columns" where
  "row_columns table ids row m =
     (case rule_opt ''Expr_list'' row of
        None \<Rightarrow> m
      | Some list' \<Rightarrow>
          (let expressions = directExprs list' in
           if length expressions \<noteq> length ids then m
           else fold (\<lambda>(expr, i). assigned_column table expr (identifier_of (GetText i))) (zip expressions ids) m))"

definition inserted_columns :: "Catalog \<Rightarrow> queryBlock \<Rightarrow> tree \<Rightarrow> bind_columns \<Rightarrow> bind_columns" where
  "inserted_columns catalog block statement m =
     (let source = rule_opt ''Into_values_source'' statement in
      case (findTable catalog (resolveTablePath (qb_tablePathPrefix block) (intoTableName statement)),
            sub_rule ''Pure_column_list'' source,
            sub_rule ''Values_source_row_list'' (sub_rule ''Values_stmt'' (sub_rule ''Values_source'' source))) of
        (Some table, Some ids, Some rows) \<Rightarrow> fold (row_columns table (rules ''An_id'' ids)) (rules ''Values_source_row'' rows) m
      | _ \<Rightarrow> m)"

definition clause_columns :: "Table \<Rightarrow> tree \<Rightarrow> bind_columns \<Rightarrow> bind_columns" where
  "clause_columns table clause m =
     (case (sub_rule ''Column_name'' (rule_opt ''Set_target'' clause), rule_opt ''Expr'' clause) of
        (Some column_name, Some expr) \<Rightarrow> assigned_column table expr (identifier_of (GetText (rule_of ''An_id'' column_name))) m
      | _ \<Rightarrow> m)"

definition updated_columns :: "Catalog \<Rightarrow> queryBlock \<Rightarrow> tree \<Rightarrow> bind_columns \<Rightarrow> bind_columns" where
  "updated_columns catalog block statement m =
     (case (findTable catalog (resolveTablePath (qb_tablePathPrefix block) (simpleTableName (rule_opt ''Simple_table_ref'' statement))),
            sub_rule ''Set_clause_list'' (rule_opt ''Set_clause_choice'' statement)) of
        (Some table, Some list') \<Rightarrow> fold (clause_columns table) (descendant_rules ''Set_clause'' list') m
      | _ \<Rightarrow> m)"

definition parameterColumns :: "Catalog \<Rightarrow> queryBlock \<Rightarrow> queryTree \<Rightarrow> (int \<rightharpoonup> ColumnBinding) \<Rightarrow> bind_columns" where
  "parameterColumns catalog block tree columns =
     fold (updated_columns catalog block) (qt_updates tree)
       (fold (inserted_columns catalog block) (qt_insert tree)
         (fold (compared_columns (qb_tree block) columns) (qt_statements tree) (\<lambda>_. None)))"

end
