(* ===== verification/Queries.thy ===== *)
theory Queries
  imports Lineage
begin

text \<open>
  The analysis of a named query (\<open>analyzeQuery\<close> of \<open>semantic.go\<close>), its expansion into executable text
  (\<open>analyzeExecutableQuery\<close> of \<open>wildcard.go\<close>). The parser and the Unicode tables are parameters.
\<close>

section \<open>Before the data statements\<close>

definition base_query :: "queryBlock \<Rightarrow> AnalyzedQuery" where
  "base_query block =
     \<lparr>aq_Name = qb_name block, aq_Command = qb_command block, aq_SQL = qb_text block, aq_Parameters = [],
      aq_ParameterColumns = (\<lambda>_. None), aq_DeclaredParameters = [], aq_DeclarationOnly = False,
      aq_MultipleStatements = False, aq_ResultSets = [], aq_Source = block_position block\<rparr>"

definition early_diagnostics :: "queryBlock \<Rightarrow> queryTree \<Rightarrow> Diagnostic list \<Rightarrow> Diagnostic list" where
  "early_diagnostics block tree nds =
     (if qb_command block = Multi \<and> nds \<noteq> [] then nds
      else if validateINSubqueryContexts block (qb_tree block) \<noteq> [] then validateINSubqueryContexts block (qb_tree block)
      else if qb_command block = Each \<and> topLevelSelect (qt_statements tree) = None then
        [block_message block '':each requires a SELECT; use :one or :many for DML RETURNING'']
      else [])"

definition declared_binds :: "queryTree \<Rightarrow> string list" where
  "declared_binds tree = rev (remdups (rev (map (\<lambda>d. bindName (rule_opt ''Bind_parameter'' d)) (qt_declares tree))))"

text \<open>A type that an earlier analysis found, where none is declared.\<close>

definition assume_types :: "queryBlock \<Rightarrow> type_map \<Rightarrow> type_map" where
  "assume_types block declared = map_of (qb_assumed block) ++ declared"

definition argument_message :: "sqlcArgument \<Rightarrow> string \<Rightarrow> Diagnostic" where
  "argument_message argument message = \<lparr>dg_Position = sa_position argument, dg_Message = message\<rparr>"

definition narg_conflict :: "type_map \<Rightarrow> string \<times> sqlcArgument \<Rightarrow> Diagnostic option" where
  "narg_conflict declared p =
     (case declared (fst p) of
        None \<Rightarrow> None
      | Some t \<Rightarrow>
          if sa_nullable (snd p) \<and> Kind t \<noteq> [] \<and> \<not> IsOptional t then
            Some (argument_message (snd p) (sprintf
              ''sqlc.narg(%s) requires an Optional parameter type; DECLARE or analyzer.parameters specifies %s'' [FStr (fst p), FType t]))
          else None)"

definition sorted_arguments :: "queryBlock \<Rightarrow> (string \<times> sqlcArgument) list" where
  "sorted_arguments block = sort_key fst (qb_arguments block)"

definition local_conflicts :: "queryBlock \<Rightarrow> string list \<Rightarrow> Diagnostic list" where
  "local_conflicts block names =
     map (\<lambda>(name, argument). argument_message argument (sprintf ''sqlc argument %q conflicts with local $%s'' [FStr name, FStr name]))
       (filter (\<lambda>(name, _). List.member names name) (sorted_arguments block))"

section \<open>The data statements\<close>

record outcome =
  oc_columns :: "Column list"
  oc_sets :: "ResultSet list"
  oc_parameters :: type_map
  oc_count :: nat
  oc_diagnostics :: "Diagnostic list"

definition result_parameter ::
  "int list \<Rightarrow> type_map \<Rightarrow> string list \<Rightarrow> type_map \<Rightarrow> tree \<Rightarrow> type_map \<Rightarrow> type_map" where
  "result_parameter lambdaPositions declared localNames inferred b parameters =
     (let name = bindName (Some b) in
      if List.member lambdaPositions (start_index b) \<or> declared name \<noteq> None \<or> List.member localNames name then parameters
      else parameters(name \<mapsto> (case inferred name of Some t \<Rightarrow> t | None \<Rightarrow> mk_kind [])))"

definition add_results ::
  "queryBlock \<Rightarrow> string list \<Rightarrow> int list \<Rightarrow> type_map \<Rightarrow> string list \<Rightarrow> tree \<Rightarrow> Column list \<Rightarrow> type_map \<Rightarrow> outcome \<Rightarrow> outcome" where
  "add_results block names lambdaPositions declared localNames statement columns inferred oc =
     oc\<lparr>oc_columns := columns,
        oc_sets := (if qb_command block = Multi
          then oc_sets oc @ [\<lparr>rs_Name = names ! length (oc_sets oc), rs_Columns = columns, rs_Embeds = []\<rparr>] else oc_sets oc),
        oc_parameters := (if has_rule ''Select_stmt'' (rule_of ''Sql_stmt_core'' statement)
          then fold (result_parameter lambdaPositions declared localNames inferred)
            (qt_binds (collectQueryTree (qb_tree block) statement)) (oc_parameters oc)
          else oc_parameters oc)\<rparr>"

text \<open>The outcome, and whether the analysis stops at a statement.\<close>

fun statement_loop ::
  "Catalog \<Rightarrow> queryBlock \<Rightarrow> string list \<Rightarrow> int list \<Rightarrow> type_map \<Rightarrow> string list \<Rightarrow> tree list \<Rightarrow> outcome \<Rightarrow> analysis
   \<Rightarrow> ((outcome \<times> bool) \<times> analysis) option" where
  "statement_loop catalog block names lambdaPositions declared localNames [] oc s = Some ((oc, False), s)"
| "statement_loop catalog block names lambdaPositions declared localNames (statement # rest) oc s =
     (if \<not> is_data (rule_of ''Sql_stmt_core'' statement) then
        statement_loop catalog block names lambdaPositions declared localNames rest oc s
      else do {
        ((columns, ds), s) \<leftarrow> analyzeDataStatement catalog block statement s;
        let oc = oc\<lparr>oc_count := Suc (oc_count oc), oc_diagnostics := oc_diagnostics oc @ ds\<rparr>;
        if ds \<noteq> [] \<and> columns = None \<and> containsINSubquery statement then Some ((oc, True), s)
        else (let oc = (case columns of
              Some (c # cs) \<Rightarrow> add_results block names lambdaPositions declared localNames statement (c # cs) (st_inferred s) oc
            | _ \<Rightarrow> oc)
          in statement_loop catalog block names lambdaPositions declared localNames rest oc s) })"

section \<open>After the data statements\<close>

definition embeds_of :: "wildcardRewrites option \<Rightarrow> Embedding list" where
  "embeds_of wildcards = (case wildcards of Some w \<Rightarrow> ww_embeds w | None \<Rightarrow> [])"

definition embed_scripts :: "queryBlock \<Rightarrow> nat \<Rightarrow> wildcardRewrites option \<Rightarrow> Diagnostic list" where
  "embed_scripts block datas wildcards =
     (if datas > 1 \<and> embeds_of wildcards \<noteq> [] then
        [block_message block ''sqlc.embed requires a single row-returning SELECT statement''] else [])"

definition unused_embeds :: "queryBlock \<Rightarrow> token list \<Rightarrow> wildcardRewrites option \<Rightarrow> Diagnostic list" where
  "unused_embeds block tokens wildcards =
     map (\<lambda>(_, tok). \<lparr>dg_Position = token_position block tok,
         dg_Message = ''sqlc.embed must be a direct result expression in a single top-level SELECT''\<rparr>)
       (filter (\<lambda>(name, tok). equal_fold name ''embed''
           \<and> (case wildcards of Some w \<Rightarrow> \<not> List.member (ww_usedEmbeds w) (tk_Start tok) | None \<Rightarrow> True))
         (sqlcMacroCalls tokens))"

definition local_use :: "queryBlock \<Rightarrow> type_map \<Rightarrow> string \<times> ty \<Rightarrow> Diagnostic option" where
  "local_use block inferred p =
     (case inferred (fst p) of
        None \<Rightarrow> None
      | Some used \<Rightarrow>
          if Kind used = [] then
            Some (block_message block (sprintf ''local $%s is constrained by incompatible column types'' [FStr (fst p)]))
          else if \<not> compatibleTypes (snd p) used then
            Some (block_message block (sprintf ''local $%s has type %s but is used with %s'' [FStr (fst p), FType (snd p), FType used]))
          else None)"

text \<open>A bind that names a configured parameter where the name is external.\<close>

definition uses_configured :: "int list \<Rightarrow> string list \<Rightarrow> int list \<Rightarrow> string \<Rightarrow> tree \<Rightarrow> bool" where
  "uses_configured localPositions localNames declarationPositions name b \<longleftrightarrow>
     GetStart b \<noteq> None \<and> bindName (Some b) = name \<and> \<not> List.member localPositions (start_index b)
     \<and> (\<not> List.member localNames name \<or> List.member declarationPositions (start_index b))"

definition unused_configured :: "queryBlock \<Rightarrow> queryTree \<Rightarrow> int list \<Rightarrow> string list \<Rightarrow> int list \<Rightarrow> Diagnostic list" where
  "unused_configured block tree localPositions localNames declarationPositions =
     map (\<lambda>(name, _). block_message block (sprintf
         ''unused parameter $%s in analyzer.parameters for query %q'' [FStr name, FStr (qb_name block)]))
       (filter (\<lambda>(name, _). \<not> list_ex (uses_configured localPositions localNames declarationPositions name) (qt_binds tree))
         (sort_key fst (qb_parameters block)))"

definition changed_parameter :: "queryBlock \<Rightarrow> type_map \<Rightarrow> QueryParameter \<Rightarrow> Diagnostic option" where
  "changed_parameter block before parameter =
     (case before (qp_Name parameter) of
        None \<Rightarrow> None
      | Some previous \<Rightarrow>
          if Equal previous (qp_Type parameter)
             \<or> (nullable_argument (qb_arguments block) (qp_Name parameter)
                \<and> Equal (UnwrapOptional previous) (UnwrapOptional (qp_Type parameter))) then None
          else Some (block_message block (sprintf
            ''parameter $%s changes inferred type from %s to %s after the result statement; add DECLARE before the script to keep its result type stable''
            [FStr (qp_Name parameter), FType previous, FType (qp_Type parameter)])))"

fun nonpersistableType :: "ty \<Rightarrow> bool" where
  "nonpersistableType (Ty kind elem key items members tag precision scale) \<longleftrightarrow>
     has_prefix kind ''Resource<'' \<or> kind = ''Callable'' \<or> kind = ''Lambda'' \<or> kind = ''Tagged''
   \<or> (case elem of Some t \<Rightarrow> nonpersistableType t | None \<Rightarrow> False)
   \<or> (case key of Some t \<Rightarrow> nonpersistableType t | None \<Rightarrow> False)
   \<or> list_ex nonpersistableType items
   \<or> list_ex (\<lambda>(_, t). nonpersistableType t) members"

definition result_column :: "queryBlock \<Rightarrow> Column \<Rightarrow> Diagnostic list" where
  "result_column block column =
     (if Kind (col_Type column) = ''Null'' then
        [block_message block (sprintf
          ''result column %q has unresolved Null type; cast it or combine it with a concrete compatible type'' [FStr (col_Name column)])]
      else [])
     @ (if nonpersistableType (col_Type column) then
        [block_message block (sprintf
          ''result column %q has nonpersistable type %s; serialize it before returning it'' [FStr (col_Name column), FType (col_Type column)])]
      else [])"

definition command_diagnostics :: "queryBlock \<Rightarrow> nat \<Rightarrow> bool \<Rightarrow> Diagnostic list" where
  "command_diagnostics block datas returnsRows =
     (if List.member [One, Many, Each] (qb_command block) \<and> \<not> returnsRows then
        [block_message block (sprintf ''command %s requires a result set'' [FStr (qb_command block)])] else [])
     @ (if ((qb_command block = Exec \<and> datas \<le> 1) \<or> qb_command block = ExecRows) \<and> returnsRows then
        [block_message block (sprintf ''command %s cannot be used with a row-returning statement'' [FStr (qb_command block)])] else [])"

definition result_sets :: "queryBlock \<Rightarrow> outcome \<Rightarrow> wildcardRewrites option \<Rightarrow> ResultSet list" where
  "result_sets block oc wildcards =
     (if qb_command block = Multi then oc_sets oc
      else if oc_columns oc \<noteq> [] then [\<lparr>rs_Name = [], rs_Columns = oc_columns oc, rs_Embeds = embeds_of wildcards\<rparr>]
      else [])"

text \<open>The diagnostics of the whole query before the command is checked, and the parameters.\<close>

definition query_parameters_of ::
  "queryBlock \<Rightarrow> queryTree \<Rightarrow> type_map \<Rightarrow> int list \<Rightarrow> int list \<Rightarrow> locals \<Rightarrow> analysis \<Rightarrow> QueryParameter list \<times> Diagnostic list" where
  "query_parameters_of block tree declared declarationPositions localPositions lo s =
     externalParameters block (qt_binds tree) declared (st_inferred s) declarationPositions localPositions (lo_names lo)"

definition result_columns_of :: "queryBlock \<Rightarrow> outcome \<Rightarrow> Column list" where
  "result_columns_of block oc = (if qb_command block = Multi then concat (map rs_Columns (oc_sets oc)) else oc_columns oc)"

definition finish_query ::
  "Catalog \<Rightarrow> queryBlock \<Rightarrow> token list \<Rightarrow> queryTree \<Rightarrow> type_map \<Rightarrow> int list \<Rightarrow> locals \<Rightarrow> outcome \<Rightarrow> analysis \<Rightarrow> AnalyzedQuery
   \<Rightarrow> AnalyzedQuery \<times> Diagnostic list" where
  "finish_query catalog block tokens tree declared declarationPositions lo oc s query =
     (let wildcards = st_wildcards s; localPositions = lo_positions lo @ lambdaLocalBindPositions (qb_tree block);
          (parameters, pds) = query_parameters_of block tree declared declarationPositions localPositions lo s;
          ds = oc_diagnostics oc @ embed_scripts block (oc_count oc) wildcards @ unused_embeds block tokens wildcards
            @ List.map_filter (local_use block (st_inferred s)) (lo_types lo) @ pds
            @ unused_configured block tree localPositions (lo_names lo) declarationPositions
            @ List.map_filter (changed_parameter block (oc_parameters oc)) parameters
            @ concat (map (result_column block) (result_columns_of block oc))
      in (query\<lparr>aq_MultipleStatements := oc_count oc > 1, aq_Parameters := parameters,
            aq_ParameterColumns := parameterColumns catalog block tree (st_columns s),
            aq_ResultSets := result_sets block oc wildcards\<rparr>,
          ds @ (if ds = [] then command_diagnostics block (oc_count oc) (oc_columns oc \<noteq> []) else [])))"

section \<open>A query\<close>

type_synonym query_run = "((AnalyzedQuery \<times> Diagnostic list) \<times> wildcardRewrites option) option"

definition start_analysis :: "queryBlock \<Rightarrow> analysis" where
  "start_analysis block =
     \<lparr>st_bindings = (\<lambda>_. None), st_inferred = (\<lambda>_. None), st_columns = (\<lambda>_. None), st_selects = (\<lambda>_. None),
      st_relations = [], st_wildcards = qb_wildcards block\<rparr>"

definition statement_phase ::
  "Catalog \<Rightarrow> queryBlock \<Rightarrow> token list \<Rightarrow> queryTree \<Rightarrow> string list \<Rightarrow> AnalyzedQuery \<Rightarrow> query_run" where
  "statement_phase catalog block tokens tree names query =
     (let (declared, declarationPositions, dds) = declarations block tree;
          query = query\<lparr>aq_DeclaredParameters := declared_binds tree\<rparr>;
          (declared, cds) = configuredDeclarations block declared;
          declared = assume_types block declared;
          nds = List.map_filter (narg_conflict declared) (sorted_arguments block)
      in do {
        ((lo, lds), s) \<leftarrow> localBindings catalog block tree declared (start_analysis block);
        let block = block\<lparr>qb_tabular := lo_tabular lo, qb_lambdas := lo_lambdas lo\<rparr>;
        ((oc, stop), s) \<leftarrow> statement_loop catalog block names (lambdaLocalBindPositions (qb_tree block)) declared (lo_names lo)
          (qt_statements tree)
          \<lparr>oc_columns = [], oc_sets = [], oc_parameters = (\<lambda>_. None), oc_count = 0,
           oc_diagnostics = dds @ cds @ nds @ lds @ local_conflicts block (lo_names lo)\<rparr>
          (s\<lparr>st_bindings := local_types declared lo\<rparr>);
        if stop then Some ((query, oc_diagnostics oc), st_wildcards s)
        else Some (finish_query catalog block tokens tree declared declarationPositions lo oc s query, st_wildcards s) })"

definition parsed_query :: "antlr_parser \<Rightarrow> queryBlock \<Rightarrow> (tree \<times> token list) \<times> Diagnostic list" where
  "parsed_query antlr block =
     (case qb_parsed block of
        Some parsed \<Rightarrow> (parsed, [])
      | None \<Rightarrow> parseYQL antlr (qb_file block) (qb_text block) (qb_line block - 1))"

definition analyzeQuery :: "unicode \<Rightarrow> antlr_parser \<Rightarrow> Catalog \<Rightarrow> queryBlock \<Rightarrow> query_run" where
  "analyzeQuery uc antlr catalog block =
     (let ((root, tokens), pds) = parsed_query antlr block; query = base_query block;
          failed = (\<lambda>query ds. Some ((query, ds), qb_wildcards block)) in
      if pds \<noteq> [] then failed query pds
      else (let (prefix, xds) = tablePathPrefix (qb_file block) (qb_line block - 1) root in
        if xds \<noteq> [] then failed query xds
        else (let block = block\<lparr>qb_tree := root, qb_tablePathPrefix := prefix\<rparr>; tree = collectQueryTree root root;
                  sds = validateQueryStatements block tree in
          if sds \<noteq> [] then failed query sds
          else (let query = query\<lparr>aq_DeclarationOnly := isDeclarationOnlyExec block tree\<rparr>;
                    (names, nds) = (if qb_command block = Multi then multiResultNames uc block tokens tree else ([], []));
                    eds = early_diagnostics block tree nds in
            if eds \<noteq> [] then failed query eds else statement_phase catalog block tokens tree names query))))"

section \<open>The executable text\<close>

definition fresh_rewrites :: "queryBlock \<Rightarrow> wildcardRewrites" where
  "fresh_rewrites block =
     \<lparr>ww_source = qb_text block, ww_replacements = [], ww_embeds = [], ww_embedCore = None, ww_usedEmbeds = [], ww_usedEmbedArgs = []\<rparr>"

definition hasOrderedColumns :: "tree \<Rightarrow> bool" where
  "hasOrderedColumns root \<longleftrightarrow>
     list_ex (\<lambda>statement. case rule_opt ''Pragma_stmt'' (rule_of ''Sql_stmt_core'' statement) of
         Some pragma \<Rightarrow> equal_fold (identifier_of (GetText (rule_of ''An_id'' pragma))) ''OrderedColumns''
       | None \<Rightarrow> False) (rules ''Sql_stmt'' (rule_of ''Sql_stmt_list'' root))"

text \<open>The types of nullable arguments that the first analysis finds are assumed by the second one.\<close>

definition assumed_types :: "queryBlock \<Rightarrow> AnalyzedQuery \<Rightarrow> (string \<times> ty) list" where
  "assumed_types block query =
     fold (\<lambda>parameter assumed.
         if nullable_argument (qb_arguments block) (qp_Name parameter)
            \<and> (case map_of (qb_parameters block) (qp_Name parameter) of Some t \<Rightarrow> Kind t = [] | None \<Rightarrow> True)
         then (qp_Name parameter, qp_Type parameter) # assumed else assumed)
       (aq_Parameters query) (qb_assumed block)"

text \<open>With an embedded table the columns must keep their order: the pragma goes after the annotation line.\<close>

definition ordered_columns :: "string \<Rightarrow> wildcardReplacement list \<Rightarrow> (string \<times> wildcardReplacement list) option" where
  "ordered_columns sql replacements =
     map_option (\<lambda>first'.
         let newline = (if first' > 0 \<and> sql ! (first' - 1) = CHR 0x0D then [CHR 0x0D, CHR 0x0A] else [CHR 0x0A]);
             pragma = ''PRAGMA OrderedColumns;'' @ newline in
         (take (first' + 1) sql @ pragma @ drop (first' + 1) sql,
          \<lparr>wr_start = first' + 1, wr_end = first' + 1, wr_text = pragma\<rparr> # replacements))
       (find_index (\<lambda>c. c = CHR 0x0A) sql)"

definition rewritten_block :: "queryBlock \<Rightarrow> string \<Rightarrow> wildcardReplacement list \<Rightarrow> queryBlock" where
  "rewritten_block block sql replacements =
     block\<lparr>qb_sourceMap := (if qb_sourceMap block = [] then []
         else \<lparr>sm_original = qb_text block, sm_rewritten = sql, sm_replacements = replacements\<rparr> # qb_sourceMap block),
       qb_text := sql, qb_parsed := None, qb_wildcards := None\<rparr>"

definition same_column :: "Column \<Rightarrow> Column \<Rightarrow> bool" where
  "same_column column resolved \<longleftrightarrow> ResultName column = ResultName resolved \<and> Equal (col_Type column) (col_Type resolved)"

definition expansion_err :: "AnalyzedQuery \<Rightarrow> AnalyzedQuery \<Rightarrow> string option" where
  "expansion_err query expanded =
     (case (aq_ResultSets query, aq_ResultSets expanded) of
        ([r], [e]) \<Rightarrow>
          if length (rs_Columns r) \<noteq> length (rs_Columns e) then Some ''sqlc.embed expansion changed the result shape''
          else (case find_index (\<lambda>(c, d). \<not> same_column c d) (zip (rs_Columns r) (rs_Columns e)) of
              Some i \<Rightarrow> Some (sprintf ''sqlc.embed expansion changed result column %d'' [FNat (i + 1)])
            | None \<Rightarrow> None)
      | _ \<Rightarrow> Some ''sqlc.embed expansion changed the result shape'')"

definition query_message :: "AnalyzedQuery \<Rightarrow> string \<Rightarrow> Diagnostic" where
  "query_message query message = \<lparr>dg_Position = aq_Source query, dg_Message = message\<rparr>"

type_synonym executable_run = "((AnalyzedQuery \<times> Diagnostic list) \<times> queryBlock) option"

definition expand_query ::
  "unicode \<Rightarrow> antlr_parser \<Rightarrow> Catalog \<Rightarrow> queryBlock \<Rightarrow> AnalyzedQuery \<Rightarrow> wildcardRewrites \<Rightarrow> string \<Rightarrow> wildcardReplacement list
   \<Rightarrow> executable_run" where
  "expand_query uc antlr catalog block query rewrites sql replacements =
     (let block = rewritten_block block sql replacements in do {
        ((expanded, ds), _) \<leftarrow> analyzeQuery uc antlr catalog block;
        if ds \<noteq> [] \<or> ww_embeds rewrites = [] then Some ((expanded, ds), block)
        else Some ((case expansion_err query expanded of
            Some message \<Rightarrow> (query, [query_message query message])
          | None \<Rightarrow> (expanded\<lparr>aq_ResultSets := aq_ResultSets query\<rparr>, [])), block) })"

definition expand_wildcards ::
  "unicode \<Rightarrow> antlr_parser \<Rightarrow> Catalog \<Rightarrow> queryBlock \<Rightarrow> AnalyzedQuery \<Rightarrow> wildcardRewrites \<Rightarrow> executable_run" where
  "expand_wildcards uc antlr catalog block query rewrites =
     (case apply_rewrites rewrites of
        Inl e \<Rightarrow> Some ((query, [query_message query (sprintf ''cannot expand query wildcards: %v'' [FErr e])]), block)
      | Inr sql \<Rightarrow>
          (let replacements = sorted_replacements (ww_replacements rewrites) in
           if ww_embeds rewrites = [] \<or> hasOrderedColumns (fst (fst (parsed_query antlr block))) then
             expand_query uc antlr catalog block query rewrites sql replacements
           else (case ordered_columns sql replacements of
               None \<Rightarrow> Some ((query, [query_message query ''sqlc.embed query requires a newline after its -- name: annotation'']), block)
             | Some (sql, replacements) \<Rightarrow> expand_query uc antlr catalog block query rewrites sql replacements)))"

text \<open>The first analysis and, when it finds types to assume, the second one.\<close>

definition analyze_twice ::
  "unicode \<Rightarrow> antlr_parser \<Rightarrow> Catalog \<Rightarrow> queryBlock \<Rightarrow> (((AnalyzedQuery \<times> Diagnostic list) \<times> wildcardRewrites option) \<times> queryBlock) option" where
  "analyze_twice uc antlr catalog block = do {
     ((query, ds), w) \<leftarrow> analyzeQuery uc antlr catalog block;
     (if ds \<noteq> [] then Some (((query, ds), w), block)
      else (let block = block\<lparr>qb_assumed := assumed_types block query\<rparr> in
        if qb_assumed block = [] then Some (((query, ds), w), block)
        else do { r \<leftarrow> analyzeQuery uc antlr catalog block; Some (r, block) })) }"

definition analyzeExecutableQuery :: "unicode \<Rightarrow> antlr_parser \<Rightarrow> Catalog \<Rightarrow> queryBlock \<Rightarrow> executable_run" where
  "analyzeExecutableQuery uc antlr catalog block = do {
     (((query, ds), w), block) \<leftarrow> analyze_twice uc antlr catalog (block\<lparr>qb_wildcards := Some (fresh_rewrites block)\<rparr>);
     (case w of
        Some rewrites \<Rightarrow>
          if ds \<noteq> [] \<or> ww_replacements rewrites = [] then Some ((query, ds), block)
          else expand_wildcards uc antlr catalog block query rewrites
      | None \<Rightarrow> Some ((query, ds), block)) }"

end
