(* ===== verification/DatabaseChecks.thy ===== *)
theory DatabaseChecks
  imports Queries
begin

text \<open>
  Analysis against a database (\<open>database.go\<close>): the text a query is checked with, the tables that queries
  refer to, and the comparison of a table of the schema with the description that the database gives. The
  connection is a parameter: what it answers to \<open>DescribeTable\<close> and \<open>ValidateQuery\<close>, and what the context
  answers when it is asked the n-th time whether it is canceled.
\<close>

section \<open>Text to check\<close>

definition validation_declare :: "AnalyzedQuery \<Rightarrow> QueryParameter \<Rightarrow> string" where
  "validation_declare query parameter =
     (if IsDeclaredParameter query (qp_Name parameter) then []
      else sprintf ''DECLARE $%s AS %s; '' [FStr (quotedYQLIdentifier (qp_Name parameter)), FType (qp_Type parameter)])"

definition ValidationSQL :: "AnalyzedQuery \<Rightarrow> string" where
  "ValidationSQL query = concat (map (validation_declare query) (sort_key qp_Name (aq_Parameters query))) @ aq_SQL query"

definition queryValidationSQL :: "antlr_parser \<Rightarrow> queryBlock \<Rightarrow> string \<times> Diagnostic list" where
  "queryValidationSQL antlr block =
     (if qb_parameters block = [] then (qb_text block, [])
      else (let ((root, tokens), pds) = parseYQL antlr (qb_file block) (qb_text block) (qb_line block - 1) in
        if pds \<noteq> [] then ([], pds)
        else (let tree = collectQueryTree root root; (declared, positions, dds) = declarations block tree;
                  (configured, cds) = configuredDeclarations block declared in
          if dds @ cds \<noteq> [] then ([], dds @ cds)
          else (ValidationSQL ((base_query block)\<lparr>
                  aq_Parameters := map (\<lambda>(name, t). \<lparr>qp_Name = name, qp_Type = t\<rparr>) (qb_parameters block),
                  aq_DeclaredParameters := declared_binds tree\<rparr>), []))))"

section \<open>Tables that queries refer to\<close>

definition local_names_of :: "queryTree \<Rightarrow> string list" where
  "local_names_of tree =
     concat (map (\<lambda>assignment. case rule_opt ''Bind_parameter_list'' assignment of
         Some list' \<Rightarrow> map (\<lambda>b. bindName (Some b)) (descendant_rules ''Bind_parameter'' list')
       | None \<Rightarrow> []) (qt_named tree))"

text \<open>What one node of the query refers to: a table name, a message, or nothing.\<close>

definition query_reference :: "string list \<Rightarrow> tree \<Rightarrow> (string + string) option" where
  "query_reference localNames ref =
     (if has_rule ''Cluster_expr'' ref \<or> has_token ''COMMAT'' ref then
        Some (Inl ''cluster-qualified and temporary table references are unsupported in database analysis'')
      else (case rule_opt ''Table_key'' ref of
          Some key \<Rightarrow> Some (Inr (tableKeyName key))
        | None \<Rightarrow>
            if (case rule_opt ''Bind_parameter'' ref of Some b \<Rightarrow> List.member localNames (bindName (Some b)) | None \<Rightarrow> False)
               \<or> (case rule_opt ''An_id_expr'' ref of Some i \<Rightarrow> equal_fold (GetText i) ''AS_TABLE'' | None \<Rightarrow> False) then None
            else Some (Inl ''dynamic table references are unsupported; use AS_TABLE($parameter) with DECLARE List<Struct<...>>'')))"

definition simple_reference :: "tree \<Rightarrow> string + string" where
  "simple_reference ref =
     (case rule_opt ''Simple_table_ref_core'' ref of
        None \<Rightarrow> Inl ''only literal table paths are supported in database analysis''
      | Some core \<Rightarrow>
          if \<not> has_rule ''Object_ref'' core \<or> has_rule ''Cluster_expr'' core \<or> has_token ''COMMAT'' core then
            Inl ''only literal table paths are supported in database analysis''
          else Inr (simpleTableName (Some ref)))"

definition supported_source :: "tree \<Rightarrow> bool" where
  "supported_source named \<longleftrightarrow>
     (case sub_rule ''Single_source'' (rule_opt ''Hinted_single_source'' named) of
        None \<Rightarrow> False
      | Some single \<Rightarrow> has_rule ''Table_ref'' single \<or> has_rule ''Select_stmt'' single)"

definition node_reference :: "string list \<Rightarrow> tree \<Rightarrow> (tree \<times> (string + string)) option" where
  "node_reference localNames node =
     (if is_rule ''Select_stmt'' node then
        map_option (\<lambda>cte. (cte, Inl ''CTEs are not yet supported'')) (rule_opt ''Cte_with_clause'' node)
      else if is_rule ''Named_single_source'' node then
        (if supported_source node then None else Some (node, Inl ''unsupported FROM or JOIN source''))
      else if is_rule ''Table_ref'' node then map_option (Pair node) (query_reference localNames node)
      else if is_rule ''Simple_table_ref'' node then Some (node, simple_reference node)
      else None)"

type_synonym references = "(string \<times> Position) list \<times> Diagnostic list"

definition add_reference :: "queryBlock \<Rightarrow> string \<Rightarrow> tree \<times> (string + string) \<Rightarrow> references \<Rightarrow> references" where
  "add_reference block prefix nr acc =
     (case nr of (node, r) \<Rightarrow> (case r of
        Inl message \<Rightarrow> (fst acc, snd acc @ [block_at block (Some node) message])
      | Inr table \<Rightarrow>
          (let name = resolveTablePath prefix table in
           if name = [] \<or> map_of (fst acc) name \<noteq> None then acc
           else (fst acc @ [(name, dg_Position (block_at block (Some node) []))], snd acc))))"

definition block_references :: "queryBlock \<Rightarrow> references \<Rightarrow> references" where
  "block_references block acc =
     (let root = (case qb_parsed block of Some (root, _) \<Rightarrow> root | None \<Rightarrow> no_tree);
          (prefix, xds) = tablePathPrefix (qb_file block) (qb_line block - 1) root in
      if xds \<noteq> [] then (fst acc, snd acc @ xds)
      else (let block = block\<lparr>qb_tree := root\<rparr>; tree = collectQueryTree root root; (declared, positions, dds) = declarations block tree in
        fold (add_reference block prefix) (List.map_filter (node_reference (local_names_of tree)) (descendants root))
          (fst acc, snd acc @ validateQueryStatements block tree @ dds)))"

definition databaseTableReferences :: "queryBlock list \<Rightarrow> references" where
  "databaseTableReferences blocks = fold block_references blocks ([], [])"

section \<open>Descriptions\<close>

fun normal_columns :: "string \<Rightarrow> string list \<Rightarrow> Column list \<Rightarrow> Column list res" where
  "normal_columns name seen [] = Inr []"
| "normal_columns name seen (column # columns) =
     (if col_Name column = [] \<or> List.member seen (col_Name column) then
        Inl (Errorf ''database returned an empty or duplicate column name %q'' [FStr (col_Name column)])
      else if (case parseType (type_String (col_Type column)) of Inl e \<Rightarrow> True | Inr t \<Rightarrow> \<not> Equal t (col_Type column)) then
        Inl (Errorf ''database column %q has unsupported YQL type %s'' [FStr (col_Name column), FType (col_Type column)])
      else and_then (normal_columns name (col_Name column # seen) columns) (\<lambda>cs. Inr (column\<lparr>col_Table := name\<rparr> # cs)))"

definition normalizeDatabaseTable :: "string \<Rightarrow> Table \<Rightarrow> Table res" where
  "normalizeDatabaseTable name table =
     and_then (normal_columns name [] (tb_Columns table)) (\<lambda>columns.
       case List.find (\<lambda>key. \<not> list_ex (\<lambda>c. col_Name c = key) columns) (tb_PrimaryKey table) of
         Some key \<Rightarrow> Inl (Errorf ''database primary key references missing column %q'' [FStr key])
       | None \<Rightarrow> Inr (table\<lparr>tb_Name := name, tb_Columns := columns\<rparr>))"

definition show_strings :: "string list \<Rightarrow> string" where
  "show_strings xs = ''['' @ str_join '' '' xs @ '']''"

definition column_drift :: "Table \<Rightarrow> Column \<Rightarrow> go_error option" where
  "column_drift remote column =
     (case tableColumn remote (col_Name column) of
        None \<Rightarrow> Some (Errorf ''column %q is missing from the database'' [FStr (col_Name column)])
      | Some other \<Rightarrow>
          if \<not> Equal (col_Type column) (col_Type other) then
            Some (Errorf ''column %q has local type %s and database type %s''
              [FStr (col_Name column), FType (col_Type column), FType (col_Type other)])
          else if col_SequenceGenerated column \<noteq> col_SequenceGenerated other then
            Some (Errorf ''column %q has different sequence generation settings'' [FStr (col_Name column)])
          else None)"

definition extra_column :: "Table \<Rightarrow> Column \<Rightarrow> go_error option" where
  "extra_column local' column =
     (if tableColumn local' (col_Name column) = None then
        Some (Errorf ''database column %q is missing from the local schema'' [FStr (col_Name column)]) else None)"

definition key_drift :: "string list \<Rightarrow> string list \<Rightarrow> go_error option" where
  "key_drift local' remote =
     (if local' \<noteq> remote then
        Some (Errorf ''local primary key %v differs from database primary key %v'' [FStr (show_strings local'), FStr (show_strings remote)])
      else None)"

definition index_drift :: "Table \<Rightarrow> Index \<Rightarrow> go_error option" where
  "index_drift remote index =
     (case catalogIndexPosition remote (ix_Name index) of
        None \<Rightarrow> Some (Errorf ''index %q is missing from the database'' [FStr (ix_Name index)])
      | Some position \<Rightarrow>
          (let other = tb_Indexes remote ! position in
           if ix_Kind index \<noteq> ix_Kind other then
             Some (Errorf ''index %q has local kind %s and database kind %s'' [FStr (ix_Name index), FStr (ix_Kind index), FStr (ix_Kind other)])
           else if ix_Columns index \<noteq> ix_Columns other then
             Some (Errorf ''index %q has local key columns %v and database key columns %v''
               [FStr (ix_Name index), FStr (show_strings (ix_Columns index)), FStr (show_strings (ix_Columns other))])
           else if sort (ix_DataColumns index) \<noteq> sort (ix_DataColumns other) then
             Some (Errorf ''index %q has local covering columns %v and database covering columns %v''
               [FStr (ix_Name index), FStr (show_strings (ix_DataColumns index)), FStr (show_strings (ix_DataColumns other))])
           else None))"

definition extra_index :: "Table \<Rightarrow> Index \<Rightarrow> go_error option" where
  "extra_index local' index =
     (if \<not> list_ex (\<lambda>other. ix_Name other = ix_Name index) (tb_Indexes local') then
        Some (Errorf ''database index %q is missing from the local schema'' [FStr (ix_Name index)]) else None)"

definition compareDatabaseTable :: "Table \<Rightarrow> Table \<Rightarrow> go_error option" where
  "compareDatabaseTable local' remote =
     first_err id
       [first_err (column_drift remote) (tb_Columns local'), first_err (extra_column local') (tb_Columns remote),
        key_drift (tb_PrimaryKey local') (tb_PrimaryKey remote),
        first_err (index_drift remote) (tb_Indexes local'), first_err (extra_index local') (tb_Indexes remote)]"

section \<open>The catalog of a database\<close>

record connection =
  cn_DescribeTable :: "string \<Rightarrow> Table res"
  cn_ValidateQuery :: "string \<Rightarrow> go_error option"
  cn_Err :: "nat \<Rightarrow> go_error option"

definition reference_message :: "Position \<Rightarrow> string \<Rightarrow> Diagnostic" where
  "reference_message position message = \<lparr>dg_Position = position, dg_Message = message\<rparr>"

definition described_table :: "connection \<Rightarrow> string \<Rightarrow> Table res" where
  "described_table database name = and_then (cn_DescribeTable database name) (normalizeDatabaseTable name)"

text \<open>\<open>asked\<close> is how often the context was asked before.\<close>

fun describe_loop :: "connection \<Rightarrow> bool \<Rightarrow> nat \<Rightarrow> (string \<times> Position) list \<Rightarrow> Catalog \<times> Diagnostic list \<Rightarrow> Catalog \<times> Diagnostic list" where
  "describe_loop database discover asked [] acc = acc"
| "describe_loop database discover asked ((name, position) # references) acc =
     (case cn_Err database asked of
        Some e \<Rightarrow> (fst acc, [reference_message position (sprintf ''database analysis canceled: %v'' [FErr e])])
      | None \<Rightarrow>
          describe_loop database discover (Suc asked) references
            (case described_table database name of
               Inl e \<Rightarrow> (fst acc, snd acc @ [reference_message position (sprintf ''describe database table %q: %v'' [FStr name, FErr e])])
             | Inr table \<Rightarrow>
                 if discover then ((fst acc)\<lparr>cat_Tables := cat_Tables (fst acc) @ [table]\<rparr>, snd acc)
                 else (case (case findTable (fst acc) name of Some t \<Rightarrow> compareDatabaseTable t table | None \<Rightarrow> None) of
                     Some e \<Rightarrow> (fst acc, snd acc @ [reference_message position (sprintf
                       ''database schema drift for table %q: %v'' [FStr name, FErr e])])
                   | None \<Rightarrow> acc)))"

definition schema_references :: "Source list \<Rightarrow> Catalog \<Rightarrow> (string \<times> Position) list \<Rightarrow> (string \<times> Position) list" where
  "schema_references schema catalog references =
     (case schema of
        [] \<Rightarrow> references
      | first' # _ \<Rightarrow> map (\<lambda>table. (tb_Name table, case map_of references (tb_Name table) of
            Some position \<Rightarrow> position
          | None \<Rightarrow> \<lparr>pos_File = src_Name first', pos_Line = 1, pos_Column = 1\<rparr>)) (cat_Tables catalog))"

definition databaseCatalog ::
  "connection \<Rightarrow> nat \<Rightarrow> Source list \<Rightarrow> Catalog \<Rightarrow> queryBlock list \<Rightarrow> Catalog \<times> Diagnostic list" where
  "databaseCatalog database asked schema catalog blocks =
     (let (references, ds) = databaseTableReferences blocks in
      if ds \<noteq> [] then (catalog, ds)
      else describe_loop database (schema = []) asked (schema_references schema catalog references) (catalog, []))"

section \<open>Drift\<close>

definition same_column_in :: "Table \<Rightarrow> Table \<Rightarrow> string \<Rightarrow> bool" where
  "same_column_in t u name =
     (case (tableColumn t name, tableColumn u name) of
        (None, None) \<Rightarrow> True
      | (Some c, Some d) \<Rightarrow> Equal (col_Type c) (col_Type d) \<and> col_SequenceGenerated c = col_SequenceGenerated d
      | _ \<Rightarrow> False)"

definition named_index :: "Table \<Rightarrow> string \<Rightarrow> Index option" where
  "named_index t name = List.find (\<lambda>i. ix_Name i = name) (tb_Indexes t)"

definition same_index_in :: "Table \<Rightarrow> Table \<Rightarrow> string \<Rightarrow> bool" where
  "same_index_in t u name =
     (case (named_index t name, named_index u name) of
        (None, None) \<Rightarrow> True
      | (Some i, Some j) \<Rightarrow> ix_Kind i = ix_Kind j \<and> ix_Columns i = ix_Columns j \<and> mset (ix_DataColumns i) = mset (ix_DataColumns j)
      | _ \<Rightarrow> False)"

lemma find_distinct:
  "distinct (map key xs) \<Longrightarrow> List.find (\<lambda>x. key x = k) xs = Some x \<longleftrightarrow> x \<in> set xs \<and> key x = k"
  by (induction xs) auto

lemma find_index_find: "map_option ((!) xs) (find_index p xs) = List.find p xs"
  by (induction xs) (auto simp: option.map_comp comp_def)

lemma tableColumn_find: "tableColumn t name = List.find (\<lambda>c. col_Name c = name) (tb_Columns t)"
  unfolding find_index_find [symmetric] by (simp add: tableColumn_def catalogColumnIndex_def)

lemma index_position: "catalogIndexPosition t name = None \<longleftrightarrow> named_index t name = None"
  "catalogIndexPosition t name = Some i \<Longrightarrow> named_index t name = Some (tb_Indexes t ! i)"
  using find_index_find [of "tb_Indexes t" "\<lambda>i. ix_Name i = name"]
  by (auto simp: catalogIndexPosition_def named_index_def simp flip: find_index_find)

lemma find_None_names: "List.find (\<lambda>x. key x = k) xs = None \<longleftrightarrow> k \<notin> key ` set xs"
  by (auto simp: find_None_iff)

lemma sort_eq_mset: "sort xs = sort (ys :: string list) \<longleftrightarrow> mset xs = mset ys"
  by (metis mset_sort properties_for_sort sorted_sort)

lemma columns_agree:
  assumes "distinct (map col_Name (tb_Columns t))"
  shows "(\<forall>c\<in>set (tb_Columns t). column_drift u c = None) \<and> (\<forall>c\<in>set (tb_Columns u). extra_column t c = None)
    \<longleftrightarrow> (\<forall>name. same_column_in t u name)" (is "?l \<longleftrightarrow> ?r")
proof
  assume l: ?l
  show ?r
  proof
    fix name
    show "same_column_in t u name"
    proof (cases "tableColumn t name")
      case None
      then have "tableColumn u name = None"
        using l by (auto simp: extra_column_def tableColumn_find find_None_names)
      with None show ?thesis by (simp add: same_column_in_def)
    next
      case (Some c)
      then have "c \<in> set (tb_Columns t)" "col_Name c = name"
        using find_distinct [OF assms] by (auto simp: tableColumn_find)
      with l have "column_drift u c = None" "col_Name c = name" by auto
      then show ?thesis by (auto simp: column_drift_def same_column_in_def Some split: option.splits if_splits)
    qed
  qed
next
  assume r: ?r
  have "column_drift u c = None" if "c \<in> set (tb_Columns t)" for c
  proof -
    have "tableColumn t (col_Name c) = Some c" using find_distinct [OF assms] that by (simp add: tableColumn_find)
    with r [rule_format, of "col_Name c"] show ?thesis
      by (auto simp: column_drift_def same_column_in_def split: option.splits)
  qed
  moreover have "extra_column t c = None" if "c \<in> set (tb_Columns u)" for c
  proof -
    have "tableColumn u (col_Name c) \<noteq> None" using that by (simp add: tableColumn_find find_None_names)
    with r [rule_format, of "col_Name c"] show ?thesis
      by (auto simp: extra_column_def same_column_in_def split: option.splits)
  qed
  ultimately show ?l by blast
qed

lemma index_drift_None:
  "index_drift u i = None \<longleftrightarrow>
     (case named_index u (ix_Name i) of
        None \<Rightarrow> False
      | Some j \<Rightarrow> ix_Kind i = ix_Kind j \<and> ix_Columns i = ix_Columns j \<and> mset (ix_DataColumns i) = mset (ix_DataColumns j))"
proof (cases "catalogIndexPosition u (ix_Name i)")
  case None
  then have "named_index u (ix_Name i) = None" by (simp add: index_position)
  with None show ?thesis by (simp add: index_drift_def)
next
  case (Some k)
  then show ?thesis by (simp add: index_drift_def index_position(2) [OF Some] Let_def sort_eq_mset)
qed

lemma extra_index_None: "extra_index t i = None \<longleftrightarrow> named_index t (ix_Name i) \<noteq> None"
  by (auto simp: extra_index_def named_index_def find_None_iff list_ex_iff)

lemma indexes_agree:
  assumes "distinct (map ix_Name (tb_Indexes t))"
  shows "(\<forall>i\<in>set (tb_Indexes t). index_drift u i = None) \<and> (\<forall>i\<in>set (tb_Indexes u). extra_index t i = None)
    \<longleftrightarrow> (\<forall>name. same_index_in t u name)" (is "?l \<longleftrightarrow> ?r")
proof
  assume l: ?l
  show ?r
  proof
    fix name
    show "same_index_in t u name"
    proof (cases "named_index t name")
      case None
      have "named_index u name = None"
      proof (rule ccontr)
        assume "named_index u name \<noteq> None"
        then obtain i where "i \<in> set (tb_Indexes u)" "ix_Name i = name"
          by (auto simp: named_index_def dest: block_find_SomeD)
        with l None show False by (auto simp: extra_index_None)
      qed
      with None show ?thesis by (simp add: same_index_in_def)
    next
      case (Some i)
      then have "i \<in> set (tb_Indexes t)" "ix_Name i = name"
        using find_distinct [OF assms] by (auto simp: named_index_def)
      with l have "index_drift u i = None" "ix_Name i = name" by auto
      then show ?thesis by (auto simp: index_drift_None same_index_in_def Some split: option.splits)
    qed
  qed
next
  assume r: ?r
  have "index_drift u i = None" if "i \<in> set (tb_Indexes t)" for i
  proof -
    have "named_index t (ix_Name i) = Some i" using find_distinct [OF assms] that by (simp add: named_index_def)
    with r [rule_format, of "ix_Name i"] show ?thesis
      by (auto simp: index_drift_None same_index_in_def split: option.splits)
  qed
  moreover have "extra_index t i = None" if "i \<in> set (tb_Indexes u)" for i
  proof -
    have "named_index u (ix_Name i) \<noteq> None" using that by (simp add: named_index_def find_None_names)
    then have "named_index t (ix_Name i) \<noteq> None"
      using r [rule_format, of "ix_Name i"] by (auto simp: same_index_in_def split: option.splits)
    then show ?thesis by (simp add: extra_index_None)
  qed
  ultimately show ?l by blast
qed

text \<open>
  C9: A table of the schema, with distinct names of columns and of indexes, agrees with its description by the database exactly when both have the same
  columns by name, with equal types and the same sequence setting, the same primary key in order, and the same
  indexes by name, with the same kind and key columns and the same covering columns in any order. The order of
  columns and of indexes does not count as drift.
\<close>

theorem no_drift:
  assumes "distinct (map col_Name (tb_Columns local'))" "distinct (map ix_Name (tb_Indexes local'))"
  shows "compareDatabaseTable local' remote = None \<longleftrightarrow>
    (\<forall>name. same_column_in local' remote name) \<and> tb_PrimaryKey local' = tb_PrimaryKey remote
    \<and> (\<forall>name. same_index_in local' remote name)"
proof -
  have "compareDatabaseTable local' remote = None \<longleftrightarrow>
      ((\<forall>c\<in>set (tb_Columns local'). column_drift remote c = None) \<and> (\<forall>c\<in>set (tb_Columns remote). extra_column local' c = None))
    \<and> tb_PrimaryKey local' = tb_PrimaryKey remote
    \<and> ((\<forall>i\<in>set (tb_Indexes local'). index_drift remote i = None) \<and> (\<forall>i\<in>set (tb_Indexes remote). extra_index local' i = None))"
    by (auto simp: compareDatabaseTable_def first_err_None key_drift_def)
  then show ?thesis unfolding columns_agree [OF assms(1)] indexes_agree [OF assms(2)] by simp
qed

definition drift_table :: "Column list \<Rightarrow> string list \<Rightarrow> Table" where
  "drift_table columns cover = \<lparr>tb_Name = ''t'', tb_Columns = columns, tb_PrimaryKey = [''id''],
     tb_Indexes = [\<lparr>ix_Name = ''by_name'', ix_Kind = ''GlobalSync'', ix_Columns = [''name''], ix_DataColumns = cover\<rparr>]\<rparr>"

definition drift_local :: Table where
  "drift_local = drift_table [typed_column ''id'' (mk_kind ''Uint64''), typed_column ''name'' (mk_kind ''Utf8'')] [''a'', ''b'']"

definition drift_remote :: Table where
  "drift_remote = drift_table [typed_column ''name'' (mk_kind ''Utf8''), typed_column ''id'' (mk_kind ''Uint64'')] [''b'', ''a'']"

lemma no_drift_witness: "(\<forall>name. same_column_in drift_local drift_remote name) \<and> (\<forall>name. same_index_in drift_local drift_remote name)"
proof -
  have d: "distinct (map col_Name (tb_Columns drift_local))" "distinct (map ix_Name (tb_Indexes drift_local))" by code_simp+
  have "compareDatabaseTable drift_local drift_remote = None" by code_simp
  with no_drift [OF d, of drift_remote] show ?thesis by simp
qed

end
