(* ===== verification/SelectRuns.thy ===== *)
theory SelectRuns
  imports Selects
begin

text \<open>
  Every SELECT is analyzed to the end, and its analysis never changes a type that is bound already: the
  declared and configured types of parameters stand. Both are the contract of the inner analysis in the
  locale \<open>inner_selects\<close>, whose lemmas go through the sources, the IN subqueries and the body of a SELECT.
\<close>

section \<open>What a run keeps\<close>

definition returns :: "analysis \<Rightarrow> ('a \<times> analysis) option \<Rightarrow> bool" where
  "returns s r \<longleftrightarrow> (\<exists>a s'. r = Some (a, s') \<and> st_bindings s \<subseteq>\<^sub>m st_bindings s')"

lemma returns_Some: "st_bindings s \<subseteq>\<^sub>m st_bindings s' \<Longrightarrow> returns s (Some (a, s'))"
  by (simp add: returns_def)

lemma returns_same [simp, intro]: "returns s (Some (a, s))"
  by (rule returns_Some) (rule map_le_refl)

lemma returns_before: "st_bindings s \<subseteq>\<^sub>m st_bindings s' \<Longrightarrow> returns s' r \<Longrightarrow> returns s r"
  unfolding returns_def by (blast intro: map_le_trans)

lemma returns_bind: "returns s m \<Longrightarrow> (\<And>a s'. returns s' (f (a, s'))) \<Longrightarrow> returns s (m \<bind> f)"
  unfolding returns_def by (clarsimp, blast intro: map_le_trans)

lemma bind_inferred_le: "bindings \<subseteq>\<^sub>m bind_inferred inferred bindings"
  by (auto simp: map_le_def bind_inferred_def split: option.splits)

lemma bind_parameters_le: "st_bindings s \<subseteq>\<^sub>m st_bindings (bind_parameters_of s)"
  by (simp add: bind_parameters_of_def bind_inferred_le)

lemma infer_uses_le: "st_bindings s \<subseteq>\<^sub>m st_bindings (infer_uses block root relations s)"
  unfolding infer_uses_def by (rule map_le_trans [OF _ bind_parameters_le]) simp

lemma infer_contexts_le: "st_bindings s \<subseteq>\<^sub>m st_bindings (infer_contexts core partial s)"
  unfolding infer_contexts_def by (rule map_le_trans [OF _ bind_parameters_le]) simp

lemma record_bindings: "st_bindings (recordColumnBindings query root relations s) = st_bindings s"
  by (simp add: recordColumnBindings_def Let_def)

lemma add_grouping_le: "st_bindings s \<subseteq>\<^sub>m st_bindings (snd (add_grouping block core sources s))"
proof -
  have "st_bindings s \<subseteq>\<^sub>m st_bindings (infer_uses block core rs (s\<lparr>st_columns := c\<rparr>))" for rs c
    by (rule map_le_trans [OF _ infer_uses_le]) simp
  then show ?thesis by (simp add: add_grouping_def Let_def split: prod.split)
qed

lemma select_columns_le:
  "st_bindings s \<subseteq>\<^sub>m st_bindings (snd (select_columns block core partial projection sources subqueries s))"
proof -
  obtain relations gds s' where g: "add_grouping block core sources s = ((relations, gds), s')"
    by (metis prod.exhaust)
  have "st_bindings s \<subseteq>\<^sub>m st_bindings s'" using add_grouping_le [of s block core sources] by (simp add: g)
  then show ?thesis by (simp add: select_columns_def g Let_def split: prod.split)
qed

section \<open>Sizes\<close>

lemma no_tree_parts [simp]: "rule_opt n no_tree = None" "rules n no_tree = []"
  by (simp_all add: no_tree_def rule_opt_def rules_def)

lemma size_single: "rules n t = [u] \<Longrightarrow> size u < size t"
  by (rule size_rules [of u n]) simp

lemma size_rule_rule: "rule_opt n (rule_of m t) = Some u \<Longrightarrow> size u < size t"
  by (cases "rule_opt m t") (auto simp: rule_of_def dest!: size_rule)

lemma size_rules_rule: "u \<in> set (rules n (rule_of m t)) \<Longrightarrow> size u < size t"
  by (cases "rule_opt m t") (auto simp: rule_of_def dest!: size_rule size_rules)

lemma size_rule_rule_rule: "rule_opt n (rule_of m (rule_of l t)) = Some u \<Longrightarrow> size u < size t"
  by (cases "rule_opt m (rule_of l t)") (auto simp: rule_of_def [of m] dest!: size_rule size_rule_rule)

lemma size_sub_rule: "sub_rule n (rule_opt m t) = Some u \<Longrightarrow> size u < size t"
  by (cases "rule_opt m t") (auto simp: sub_rule_def dest!: size_rule)

lemma size_select_arm: "select_arm block t = Inr (core, partial) \<Longrightarrow> size core < size t"
  unfolding select_arm_def
  by (auto dest!: size_rule size_single split: if_split_asm list.split_asm option.split_asm)

lemma rights_mem: "x \<in> set (rights xs) \<Longrightarrow> Inr x \<in> set xs"
  by (auto simp: rights_def map_filter_def split: sum.splits)

lemma size_selectArms:
  assumes "(core, partial) \<in> set (fst (selectArms block (Some stmt)))"
  shows "size core < size stmt"
proof -
  obtain stmtCore arm where
    s: "rule_opt ''Select_stmt_core'' stmt = Some stmtCore" and
    a: "arm \<in> set (rules ''Select_stmt_intersect'' stmtCore)" "select_arm block arm = Inr (core, partial)"
    using assms unfolding selectArms_def
    by (auto simp: Let_def sub_rule_def dest!: rights_mem split: option.splits)
  from size_select_arm [OF a(2)] size_rules [OF a(1)] size_rule [OF s] show ?thesis by simp
qed

lemma size_inSubquery:
  assumes "inSubquery t = Some sub"
  shows "size sub < size t"
proof -
  obtain casual lambda where
    "rule_opt ''In_unary_casual_subexpr'' (rule_of ''In_unary_subexpr'' t) = Some casual"
    "sub_rule ''Lambda'' (rule_opt ''In_atom_expr'' casual) = Some lambda"
    "rule_opt ''Select_subexpr'' (rule_of ''Smart_parenthesis'' lambda) = Some sub"
    using assms unfolding inSubquery_def by (auto split: option.splits if_splits)
  from size_rule_rule [OF this(1)] size_sub_rule [OF this(2)] size_rule_rule [OF this(3)] show ?thesis by simp
qed

lemma in_select_parts:
  assumes "in_select sub = Inr (core, partial)"
  obtains intersect source where
    "intersect \<in> set (rules ''Select_subexpr_intersect'' (rule_of ''Select_subexpr_core'' sub))"
    "source \<in> set (rules ''Select_or_expr'' intersect)"
    "rule_opt ''Select_core'' (rule_of ''Select_kind'' (rule_of ''Select_kind_partial'' source)) = Some core"
proof (cases "rules ''Select_subexpr_intersect'' (rule_of ''Select_subexpr_core'' sub)")
  case (Cons intersect xs)
  show ?thesis
  proof (cases "rules ''Select_or_expr'' intersect")
    case (Cons source ys)
    with \<open>_ = intersect # xs\<close> assms show ?thesis
      by (intro that [of intersect source]) (auto simp: in_select_def Let_def split: if_splits list.splits option.splits)
  qed (use Cons assms in \<open>auto simp: in_select_def split: if_splits list.splits\<close>)
qed (use assms in \<open>auto simp: in_select_def split: if_splits\<close>)

lemma size_in_select: "in_select sub = Inr (core, partial) \<Longrightarrow> size core < size sub"
  by (erule in_select_parts) (auto dest!: size_rule_rule_rule size_rules size_rules_rule)

lemma size_scope: "u \<in> set (scopeDescendants t) \<Longrightarrow> size u \<le> size t"
  using scopeDescendants_subset size_descendant by blast

lemma size_source_parts:
  assumes "source_parts block source = Inr (named, single)"
  shows "size single < size source"
  using assms unfolding source_parts_def
  by (auto dest!: size_rule split: option.splits if_splits)

section \<open>The contract\<close>

locale inner_selects =
  fixes rec :: select_run and bound :: nat
  assumes inner: "size core < bound \<Longrightarrow> returns s (rec block core partial projection s)"
begin

lemma rows: "size stmt \<le> bound \<Longrightarrow> returns s (analyzeSelectRows rec block stmt projection s)"
proof -
  assume b: "size stmt \<le> bound"
  obtain arms ds where a: "selectArms block (Some stmt) = (arms, ds)" by fastforce
  have "size core < bound" if "(core, partial) \<in> set arms" for core partial
    using size_selectArms [of core partial block stmt] that b by (simp add: a)
  then show ?thesis by (auto simp: analyzeSelectRows_def a intro: inner split: list.split prod.split)
qed

lemma table_of_source:
  assumes "size single \<le> bound"
  shows "returns s (source_table rec catalog block source single s)"
proof (cases "rule_opt ''Select_stmt'' single")
  case (Some nested)
  with size_rule [OF Some] assms have "returns s (analyzeSelectRows rec block nested selectProjection s)" by (intro rows) simp
  then show ?thesis unfolding source_table_def by (auto simp: Some intro!: returns_bind)
qed (simp add: source_table_def)

lemma source: "size (snd isrc) \<le> bound \<Longrightarrow> returns s (add_source rec catalog block core join base isrc relations s)"
  by (cases isrc)
     (auto simp: add_source_def split: sum.split intro!: returns_bind table_of_source dest!: size_source_parts)

lemma sources:
  "\<forall>isrc\<in>set isrcs. size (snd isrc) \<le> bound \<Longrightarrow> returns s (source_loop rec catalog block core join base isrcs relations s)"
  by (induction isrcs arbitrary: relations s) (auto intro!: returns_bind source)

lemma joins:
  "\<forall>join\<in>set js. size join \<le> bound \<Longrightarrow> returns s (join_loop rec catalog block core js relations s)"
proof (induction js arbitrary: relations s)
  case (Cons join js)
  have "\<forall>isrc\<in>set (List.enumerate 0 (rules ''Flatten_source'' join)). size (snd isrc) \<le> bound"
    using Cons.prems by (auto simp: enumerate_eq_zip dest!: set_zip_rightD size_rules)
  with Cons show ?case by (auto intro!: returns_bind sources)
qed simp

lemma relations: "size core \<le> bound \<Longrightarrow> returns s (selectRelations rec catalog block core s)"
  unfolding selectRelations_def by (auto intro!: returns_bind joins dest!: size_rules)

lemma in_subqueries_step:
  assumes "size inExpr \<le> bound"
  shows "returns s (in_subquery rec block outer inExpr types s)"
proof (cases "inSubquery inExpr")
  case (Some sub)
  show ?thesis
  proof (cases "in_select sub")
    case (Inr r)
    with size_in_select [of sub "fst r" "snd r"] size_inSubquery [OF Some] assms have "size (fst r) < bound" by simp
    then show ?thesis by (auto simp: in_subquery_def Some Inr split: prod.split intro!: returns_bind inner)
  qed (simp add: in_subquery_def Some)
qed (simp add: in_subquery_def)

lemma in_subqueries_loop:
  "\<forall>t\<in>set ts. size t \<le> bound \<Longrightarrow> returns s (in_loop rec block outer ts types s)"
  by (induction ts arbitrary: types s) (auto intro!: returns_bind in_subqueries_step)

lemma in_subqueries: "size root \<le> bound \<Longrightarrow> returns s (analyzeINSubqueries rec block root outer s)"
  unfolding analyzeINSubqueries_def by (rule in_subqueries_loop) (auto dest!: size_scope)

lemma body_end:
  assumes "select_columns block core partial projection relations subqueries (infer_contexts core partial s) = (r, s')"
  shows "returns s (Some (x, s'))"
proof -
  have "st_bindings s \<subseteq>\<^sub>m st_bindings (snd (select_columns block core partial projection relations subqueries (infer_contexts core partial s)))"
    by (rule map_le_trans [OF infer_contexts_le select_columns_le])
  with assms show ?thesis by (simp add: returns_Some)
qed

lemma body:
  assumes "size core \<le> bound"
  shows "returns s (select_body rec block core partial projection relations s)"
proof -
  obtain windows wds where w: "rowNumberWindows block core relations = (windows, wds)" by fastforce
  let ?b = "block\<lparr>qb_windows := windows\<rparr>"
  have u: "st_bindings s \<subseteq>\<^sub>m st_bindings (infer_uses ?b core relations (recordColumnBindings (qb_tree ?b) core relations s))"
    by (rule map_le_trans [OF _ infer_uses_le]) (simp add: record_bindings)
  show ?thesis unfolding select_body_def w
    by (simp only: Let_def prod.case)
       (rule returns_before [OF u], rule returns_bind [OF in_subqueries [OF assms]],
        auto split: prod.split intro: body_end)
qed

lemma core: "size core \<le> bound \<Longrightarrow> returns s (select_core rec catalog block core partial projection s)"
  unfolding select_core_def by (auto intro!: returns_bind relations body)

end

lemma select_fuel_returns: "size core < n \<Longrightarrow> returns s (select_fuel catalog n block core partial projection s)"
proof (induction n arbitrary: block core partial projection s)
  case (Suc n)
  then have l: "inner_selects (select_fuel catalog n) n" by unfold_locales
  from Suc.prems inner_selects.core [OF l] show ?case by simp
qed simp

interpretation fuelled_selects: inner_selects "select_fuel catalog n" n for catalog n
  by unfold_locales (rule select_fuel_returns)

text \<open>
  C4: The analysis of a SELECT always returns, however deep it nests SELECTs in its sources and IN subqueries,
  and it leaves every type that is bound before as it is: what it infers from comparisons, LIMIT, concatenations
  and groupings only adds bindings.
\<close>

theorem analyzeSelectCore_returns:
  "\<exists>columns ds s'. analyzeSelectCore catalog block core partial projection s = Some ((columns, ds), s')
     \<and> st_bindings s \<subseteq>\<^sub>m st_bindings s'"
  using fuelled_selects.inner [of core "Suc (size core)" s catalog block partial projection]
  by (auto simp: returns_def analyzeSelectCore_def)

end
