(* ===== verification/QueryRuns.thy ===== *)
theory QueryRuns
  imports SelectRuns Queries
begin

text \<open>
  Every query is analyzed to the end: the runs of the statements, of the query and of its expansion are never \<open>None\<close>.
\<close>

section \<open>The analysis returns\<close>

definition finishes :: "'a option \<Rightarrow> bool" where
  "finishes r \<longleftrightarrow> r \<noteq> None"

lemma finishes_Some [simp, intro]: "finishes (Some x)"
  by (simp add: finishes_def)

lemma finishes_bind: "finishes m \<Longrightarrow> (\<And>x. finishes (f x)) \<Longrightarrow> finishes (m \<bind> f)"
  by (auto simp: finishes_def)

lemma select_finishes [intro]: "finishes (analyzeSelectCore catalog block core partial projection s)"
  using fuelled_selects.inner [of core "Suc (size core)" s catalog block partial projection]
  by (auto simp: finishes_def returns_def analyzeSelectCore_def)

lemma any_inner_select: "inner_selects (analyzeSelectCore catalog) bound"
  unfolding analyzeSelectCore_def by unfold_locales (rule fuelled_selects.inner, simp)

interpretation any_selects: inner_selects "analyzeSelectCore catalog" bound for catalog bound
  by (rule any_inner_select)

lemma returns_finishes: "returns s r \<Longrightarrow> finishes r"
  by (auto simp: returns_def finishes_def)

lemma rows_finish [intro]: "finishes (analyzeSelectRows (analyzeSelectCore catalog) block stmt projection s)"
  by (rule returns_finishes [OF any_selects.rows [of stmt "size stmt"]]) simp

lemma in_subqueries_finish [intro]: "finishes (analyzeINSubqueries (analyzeSelectCore catalog) block root outer s)"
  by (rule returns_finishes [OF any_selects.in_subqueries [of root "size root"]]) simp

lemma insert_select_finishes [intro]: "finishes (analyzeInsertSelect catalog block statement target s)"
  by (auto simp: analyzeInsertSelect_def insert_core_def Let_def intro!: finishes_bind split: prod.split list.split option.split)

lemma named_select_finishes [intro]: "finishes (analyzeNamedDMLSelect catalog block stmt context' target s)"
  by (auto simp: analyzeNamedDMLSelect_def intro!: finishes_bind split: prod.split)

lemma arm_loop_finishes [intro]: "finishes (arm_loop catalog block arms s)"
proof (induction arms arbitrary: s)
  case (Cons arm arms)
  show ?case by (cases arm) (auto intro!: finishes_bind Cons.IH split: prod.split)
qed simp

lemma data_select_finishes [intro]: "finishes (data_select catalog block stmt s)"
  by (auto simp: data_select_def Let_def intro!: finishes_bind split: prod.split)

lemma run_steps_finish: "\<forall>step\<in>set steps. \<forall>s. finishes (step s) \<Longrightarrow> finishes (run_steps steps s)"
  by (induction steps arbitrary: s) (auto intro!: finishes_bind split: prod.split)

lemma references_step_finishes [intro]: "finishes (references_step catalog block statement tree relations s)"
  by (auto simp: references_step_def Let_def intro!: finishes_bind split: prod.split)

lemma select_step_finishes: "(\<And>s. finishes (run s)) \<Longrightarrow> finishes (select_step stmt run s)"
  by (auto simp: select_step_def intro!: finishes_bind split: prod.split)

lemma continue_with_finishes [intro]: "finishes (continue_with r s)"
  by (simp add: continue_with_def)

lemma insert_step_finishes [intro]: "finishes (insert_step catalog block target tree s)"
  by (auto simp: insert_step_def intro!: select_step_finishes split: list.split option.split)

lemma on_step_finishes [intro]: "finishes (on_step verb catalog block stmt statement target s)"
  by (auto simp: on_step_def intro!: select_step_finishes split: option.split)

lemma update_step_finishes [intro]: "finishes (update_step catalog block target tree s)"
  by (auto simp: update_step_def split: list.split option.split)

lemma delete_step_finishes [intro]: "finishes (delete_step catalog block target tree s)"
  by (auto simp: delete_step_def split: list.split option.split)

lemma data_modify_finishes [intro]: "finishes (data_modify catalog block statement tree s)"
  by (auto simp: data_modify_def Let_def intro!: finishes_bind insert_step_finishes update_step_finishes delete_step_finishes split: prod.split option.split)

lemma data_statement_finishes [intro]: "finishes (analyzeDataStatement catalog block statement s)"
  by (auto simp: analyzeDataStatement_def Let_def intro!: finishes_bind split: prod.split option.split)

lemma local_table_finishes [intro]: "finishes (local_table catalog block declared statement name core partial lo s)"
  by (auto simp: local_table_def intro!: finishes_bind split: prod.split)

lemma local_assignment_finishes [intro]: "finishes (local_assignment catalog block declared statement name lo s)"
  by (auto simp: local_assignment_def Let_def split: prod.split option.split sum.split)

lemma local_loop_finishes [intro]: "finishes (local_loop catalog block declared statements lo s)"
proof (induction statements arbitrary: lo s)
  case (Cons statement statements)
  then show ?case by (auto simp: Let_def intro!: finishes_bind split: prod.split option.split list.split)
qed simp

lemma statement_loop_finishes [intro]:
  "finishes (statement_loop catalog block names lambdaPositions declared localNames statements oc s)"
proof (induction statements arbitrary: oc s)
  case (Cons statement statements)
  then show ?case by (auto simp: Let_def intro!: finishes_bind split: prod.split)
qed simp

lemma statement_phase_finishes [intro]: "finishes (statement_phase catalog block tokens tree names query)"
  by (auto simp: statement_phase_def localBindings_def Let_def intro!: finishes_bind split: prod.split)

lemma analyzeQuery_finishes [intro]: "finishes (analyzeQuery uc antlr catalog block)"
  by (auto simp: analyzeQuery_def Let_def split: prod.split)

lemma expand_query_finishes [intro]: "finishes (expand_query uc antlr catalog block query rewrites sql replacements)"
  by (auto simp: expand_query_def Let_def intro!: finishes_bind split: prod.split)

lemma expand_wildcards_finishes [intro]: "finishes (expand_wildcards uc antlr catalog block query rewrites)"
  by (auto simp: expand_wildcards_def Let_def split: sum.split option.split prod.split)

lemma analyze_twice_finishes [intro]: "finishes (analyze_twice uc antlr catalog block)"
  by (auto simp: analyze_twice_def Let_def intro!: finishes_bind split: prod.split)

lemma executable_finishes [intro]: "finishes (analyzeExecutableQuery uc antlr catalog block)"
  by (auto simp: analyzeExecutableQuery_def intro!: finishes_bind split: prod.split option.split)

text \<open>
  C3: The analysis of a query always returns: whatever the parser makes of the text, \<open>analyzeExecutableQuery\<close>
  gives a query with diagnostics and the block it ends with. Nested SELECTs, IN subqueries, local SELECTs and
  the second and third analysis of the rewritten text included, no run uses up its fuel.
\<close>

theorem analyzeExecutableQuery_returns:
  "\<exists>query ds block'. analyzeExecutableQuery uc antlr catalog block = Some ((query, ds), block')"
  using executable_finishes [of uc antlr catalog block] by (auto simp: finishes_def)

end
