(* ===== verification/AnalyzeProject.thy ===== *)
theory AnalyzeProject
  imports DatabaseChecks QueryRuns
begin

text \<open>
  The analysis of a project (\<open>analyze\<close> of \<open>analyzer.go\<close>): the registry, the catalog of the schema files, the
  queries of the query files, the checks against a database when there is a connection, and the analysis of
  each query. The result is returned also when there are errors, as in the source.
\<close>

section \<open>Collecting the queries\<close>

record AnalyzerOptions =
  op_Functions :: "Signature list"
  op_Parameters :: "(string \<times> (string \<times> ty) list) list"

record environment =
  ev_packages :: packages
  ev_lexer :: antlr_lexer
  ev_parser :: antlr_parser
  ev_unicode :: unicode

definition twice_declared :: "queryBlock \<Rightarrow> Position \<Rightarrow> Diagnostic" where
  "twice_declared block first' =
     block_message block (sprintf ''query %q is declared more than once (first declaration at %s:%d:%d)''
       [FStr (qb_name block), FStr (pos_File first'), FInt (pos_Line first'), FInt (pos_Column first')])"

text \<open>The blocks whose names are new after \<open>strings.ToLower\<close>.\<close>

fun claim_queries ::
  "unicode \<Rightarrow> (string \<times> Position) list \<Rightarrow> queryBlock list \<Rightarrow> (string \<times> Position) list \<times> queryBlock list \<times> Diagnostic list" where
  "claim_queries uc seen [] = (seen, [], [])"
| "claim_queries uc seen (block # blocks) =
     (let key = strings_ToLower uc (qb_name block) in
      case map_of seen key of
        Some first' \<Rightarrow> (let (seen, bs, ds) = claim_queries uc seen blocks in (seen, bs, twice_declared block first' # ds))
      | None \<Rightarrow> (let (seen, bs, ds) = claim_queries uc ((key, block_position block) # seen) blocks in (seen, block # bs, ds)))"

fun collect_blocks ::
  "environment \<Rightarrow> registry \<Rightarrow> (string \<times> Position) list \<Rightarrow> Source list \<Rightarrow> queryBlock list \<times> Diagnostic list" where
  "collect_blocks env functions seen [] = ([], [])"
| "collect_blocks env functions seen (source # sources) =
     (let (blocks, bds) = queryBlocks (ev_packages env) (ev_lexer env) source;
          (seen, bs, ds) = claim_queries (ev_unicode env) seen (map (\<lambda>b. b\<lparr>qb_functions := functions\<rparr>) blocks);
          (bs', ds') = collect_blocks env functions seen sources
      in (bs @ bs', bds @ ds @ ds'))"

definition unknown_query :: "AnalyzerOptions \<Rightarrow> queryBlock list \<Rightarrow> string option" where
  "unknown_query options blocks =
     map_option fst (List.find (\<lambda>(name, _). \<not> list_ex (\<lambda>b. qb_name b = name) blocks) (sort_key fst (op_Parameters options)))"

definition configured_parameters :: "AnalyzerOptions \<Rightarrow> queryBlock \<Rightarrow> queryBlock" where
  "configured_parameters options block =
     block\<lparr>qb_parameters := (case map_of (op_Parameters options) (qb_name block) of Some ps \<Rightarrow> ps | None \<Rightarrow> [])\<rparr>"

fun lower_blocks :: "environment \<Rightarrow> queryBlock list \<Rightarrow> queryBlock list \<times> Diagnostic list" where
  "lower_blocks env [] = ([], [])"
| "lower_blocks env (block # blocks) =
     (let (ds, lowered) = lowerSQLCArguments (ev_lexer env) block; (bs, ds') = lower_blocks env blocks in
      (if ds = [] then lowered # bs else bs, ds @ ds'))"

section \<open>Checks against a database\<close>

definition failed_validation :: "Position \<Rightarrow> go_error option \<Rightarrow> Diagnostic list" where
  "failed_validation position err =
     (case err of Some e \<Rightarrow> [reference_message position (sprintf ''database query validation failed: %v'' [FErr e])] | None \<Rightarrow> [])"

text \<open>The text of a block is valid in the database, or the diagnostics.\<close>

definition validate_block :: "environment \<Rightarrow> connection \<Rightarrow> queryBlock \<Rightarrow> Position \<Rightarrow> Diagnostic list" where
  "validate_block env database block position =
     (let (sql, vds) = queryValidationSQL (ev_parser env) block in
      if vds \<noteq> [] then originalDiagnostics block vds else failed_validation position (cn_ValidateQuery database sql))"

fun validate_loop ::
  "environment \<Rightarrow> connection \<Rightarrow> nat \<Rightarrow> queryBlock list \<Rightarrow> queryBlock list \<times> Diagnostic list \<times> nat" where
  "validate_loop env database asked [] = ([], [], asked)"
| "validate_loop env database asked (block # blocks) =
     (let (embedded, pds, block) = containsEmbedMacro (ev_parser env) block in
      if pds \<noteq> [] \<or> embedded then
        (let (bs, ds, n) = validate_loop env database asked blocks in (block # bs, originalDiagnostics block pds @ ds, n))
      else (case cn_Err database asked of
          Some e \<Rightarrow> (block # blocks, [block_message block (sprintf ''database analysis canceled: %v'' [FErr e])], Suc asked)
        | None \<Rightarrow>
            (let (bs, ds, n) = validate_loop env database (Suc asked) blocks in
             (block # bs, validate_block env database block (block_position block) @ ds, n))))"

text \<open>The blocks, the catalog and the diagnostics after the checks against the database.\<close>

definition database_phase ::
  "environment \<Rightarrow> connection option \<Rightarrow> Source list \<Rightarrow> Catalog \<Rightarrow> queryBlock list \<Rightarrow> Diagnostic list
   \<Rightarrow> queryBlock list \<times> Catalog \<times> Diagnostic list" where
  "database_phase env database schema catalog blocks ds =
     (case database of
        None \<Rightarrow> (blocks, catalog, ds)
      | Some cn \<Rightarrow>
          if ds \<noteq> [] then (blocks, catalog, ds)
          else (let (blocks, vds, asked) = validate_loop env cn 0 blocks in
            if vds \<noteq> [] then (blocks, catalog, vds)
            else (let (catalog, cds) = databaseCatalog cn asked schema catalog blocks in
              (blocks, catalog, originalBlockDiagnostics blocks cds))))"

section \<open>Analyzing the queries\<close>

text \<open>A query with embedded tables is checked again as it is executed.\<close>

definition embedded_query :: "AnalyzedQuery \<Rightarrow> bool" where
  "embedded_query query \<longleftrightarrow> (case aq_ResultSets query of r # _ \<Rightarrow> rs_Embeds r \<noteq> [] | [] \<Rightarrow> False)"

definition recheck :: "environment \<Rightarrow> connection option \<Rightarrow> queryBlock \<Rightarrow> AnalyzedQuery \<Rightarrow> Diagnostic list" where
  "recheck env database block query =
     (case database of
        None \<Rightarrow> []
      | Some cn \<Rightarrow>
          if embedded_query query then validate_block env cn (block\<lparr>qb_text := aq_SQL query\<rparr>) (aq_Source query) else [])"

fun analyze_blocks ::
  "environment \<Rightarrow> connection option \<Rightarrow> Catalog \<Rightarrow> queryBlock list \<Rightarrow> (AnalyzedQuery list \<times> Diagnostic list) option" where
  "analyze_blocks env database catalog [] = Some ([], [])"
| "analyze_blocks env database catalog (block # blocks) = do {
     ((query, qds), block) \<leftarrow> analyzeExecutableQuery (ev_unicode env) (ev_parser env) catalog block;
     (qs, ds) \<leftarrow> analyze_blocks env database catalog blocks;
     (let own = (if qds \<noteq> [] then originalDiagnostics block qds else recheck env database block query) in
      Some (if own = [] then query # qs else qs, own @ ds)) }"

definition join_errors :: "string list \<Rightarrow> go_error option" where
  "join_errors messages = (if messages = [] then None else Some (GoError (str_join [CHR 0x0A] messages)))"

definition project_result_of :: "Catalog \<Rightarrow> AnalyzedQuery list \<Rightarrow> Diagnostic list \<Rightarrow> AnalysisResult \<times> go_error option" where
  "project_result_of catalog queries ds =
     (let ds = uniqueDiagnostics ds in
      (\<lparr>ar_Catalog = catalog, ar_Queries = queries, ar_Diagnostics = ds\<rparr>, join_errors (map Diagnostic_Error ds)))"

definition analyze_queries ::
  "environment \<Rightarrow> connection option \<Rightarrow> Source list \<Rightarrow> AnalyzerOptions \<Rightarrow> Catalog \<Rightarrow> queryBlock list \<Rightarrow> Diagnostic list
   \<Rightarrow> (AnalysisResult \<times> go_error option) option" where
  "analyze_queries env database schema options catalog blocks ds =
     (let (blocks, lds) = lower_blocks env (map (configured_parameters options) blocks);
          (blocks, catalog, ds) = database_phase env database schema catalog blocks (ds @ lds) in
      if database \<noteq> None \<and> ds \<noteq> [] then Some (project_result_of catalog [] ds)
      else do {
        (queries, ads) \<leftarrow> analyze_blocks env database catalog blocks;
        Some (project_result_of catalog queries (ds @ ads)) })"

definition analyze ::
  "environment \<Rightarrow> connection option \<Rightarrow> Source list \<Rightarrow> Source list \<Rightarrow> AnalyzerOptions \<Rightarrow> (AnalysisResult \<times> go_error option) option" where
  "analyze env database schema queries options =
     (case NewRegistry (op_Functions options) of
        Inl e \<Rightarrow> Some (\<lparr>ar_Catalog = \<lparr>cat_Tables = []\<rparr>, ar_Queries = [], ar_Diagnostics = []\<rparr>, Some e)
      | Inr functions \<Rightarrow>
          (let (catalog, sds) = buildCatalog (ev_parser env) schema in
           if sds \<noteq> [] then Some (project_result_of catalog [] sds)
           else (let (blocks, ds) = collect_blocks env functions [] queries in
             case unknown_query options blocks of
               Some name \<Rightarrow> Some (\<lparr>ar_Catalog = catalog, ar_Queries = [], ar_Diagnostics = ds\<rparr>,
                 join_errors (map Diagnostic_Error ds @ [sprintf ''analyzer.parameters references unknown query %q'' [FStr name]]))
             | None \<Rightarrow> analyze_queries env database schema options catalog blocks ds)))"

definition AnalyzeWithOptions ::
  "environment \<Rightarrow> Source list \<Rightarrow> Source list \<Rightarrow> AnalyzerOptions \<Rightarrow> (AnalysisResult \<times> go_error option) option" where
  "AnalyzeWithOptions env schema queries options = analyze env None schema queries options"

definition AnalyzeWithDatabase ::
  "environment \<Rightarrow> Source list \<Rightarrow> Source list \<Rightarrow> AnalyzerOptions \<Rightarrow> connection option \<Rightarrow> (AnalysisResult \<times> go_error option) option" where
  "AnalyzeWithDatabase env schema queries options database =
     (if database = None then
        Some (\<lparr>ar_Catalog = \<lparr>cat_Tables = []\<rparr>, ar_Queries = [], ar_Diagnostics = []\<rparr>,
          Some (Errorf ''database analysis requires a database connection'' []))
      else analyze env database schema queries options)"

text \<open>A type of the configuration is read with the grammar of DECLARE.\<close>

definition ParseType :: "antlr_parser \<Rightarrow> string \<Rightarrow> ty res" where
  "ParseType antlr text =
     (let ((root, _), ds) = parseYQL antlr ''function signature'' (''DECLARE $signature_type AS '' @ text @ '';'') 0;
          tree = collectQueryTree root root in
      case ds of
        d # _ \<Rightarrow> Inl (Errorf ''invalid YQL type %q: %s'' [FStr text, FStr (dg_Message d)])
      | [] \<Rightarrow>
          if length (qt_statements tree) \<noteq> 1 then Inl (Errorf ''expected one YQL type, got %q'' [FStr text])
          else (case qt_declares tree of
              [declaration] \<Rightarrow> parseType (GetText (rule_of ''Type_name'' declaration))
            | _ \<Rightarrow> Inl (Errorf ''expected one YQL type, got %q'' [FStr text])))"

section \<open>What an accepted project is\<close>

lemma analyze_blocks_finishes [intro]: "finishes (analyze_blocks env database catalog blocks)"
proof (induction blocks)
  case (Cons block blocks)
  obtain query ds block' where q: "analyzeExecutableQuery (ev_unicode env) (ev_parser env) catalog block = Some ((query, ds), block')"
    using executable_finishes by (metis finishes_def not_None_eq prod.exhaust)
  from Cons obtain qs ds' where "analyze_blocks env database catalog blocks = Some (qs, ds')" by (auto simp: finishes_def)
  with q show ?case by (simp add: Let_def finishes_def)
qed simp

lemma claim_queries_distinct:
  "claim_queries uc seen blocks = (seen', bs, ds) \<Longrightarrow>
     distinct (map (strings_ToLower uc \<circ> qb_name) bs) \<and> set (map (strings_ToLower uc \<circ> qb_name) bs) \<inter> fst ` set seen = {}
     \<and> fst ` set seen' = fst ` set seen \<union> set (map (strings_ToLower uc \<circ> qb_name) bs)"
proof (induction blocks arbitrary: seen bs ds)
  case (Cons block blocks)
  show ?case
  proof (cases "map_of seen (strings_ToLower uc (qb_name block))")
    case None
    obtain bs1 ds1 where r: "claim_queries uc ((strings_ToLower uc (qb_name block), block_position block) # seen) blocks = (seen', bs1, ds1)"
      using Cons.prems None by (auto simp: Let_def split: prod.splits)
    with Cons.prems None have bs: "bs = block # bs1" by (auto simp: Let_def)
    from Cons.IH [OF r] None show ?thesis by (auto simp: bs map_of_eq_None_iff)
  next
    case (Some p)
    obtain ds1 where r: "claim_queries uc seen blocks = (seen', bs, ds1)"
      using Cons.prems Some by (auto simp: Let_def split: prod.splits)
    from Cons.IH [OF r] show ?thesis .
  qed
qed simp

lemma collect_blocks_distinct:
  "collect_blocks env functions seen sources = (bs, ds) \<Longrightarrow>
     distinct (map (strings_ToLower (ev_unicode env) \<circ> qb_name) bs) \<and> set (map (strings_ToLower (ev_unicode env) \<circ> qb_name) bs) \<inter> fst ` set seen = {}"
proof (induction sources arbitrary: seen bs ds)
  case (Cons source sources)
  obtain blocks bds where q: "queryBlocks (ev_packages env) (ev_lexer env) source = (blocks, bds)" by fastforce
  obtain seen' bs1 ds1 where c: "claim_queries (ev_unicode env) seen (map (\<lambda>b. b\<lparr>qb_functions := functions\<rparr>) blocks) = (seen', bs1, ds1)"
    by (metis prod.exhaust)
  obtain bs2 ds2 where r: "collect_blocks env functions seen' sources = (bs2, ds2)" by fastforce
  have bs: "bs = bs1 @ bs2" using Cons.prems by (simp add: q c r)
  from claim_queries_distinct [OF c] Cons.IH [OF r] show ?case by (auto simp: bs comp_def)
qed simp

end
