(* ===== verification/ParameterTypes.thy ===== *)
theory ParameterTypes
  imports Inference
begin

text \<open>
  What inference promises: the type inferred from the uses of a parameter depends on the set of the uses
  only, and the parameters of an accepted query are exactly the binds that are not local, each with a type
  that fits its uses.
\<close>

section \<open>The uses of a parameter\<close>

definition agree :: "ty set \<Rightarrow> bool" where
  "agree ts \<longleftrightarrow> (\<forall>t\<in>ts. \<forall>u\<in>ts. Equal (UnwrapOptional t) (UnwrapOptional u))"

text \<open>The declarative reading of inference: contradictory uses, or the type of a use, optional if all uses are.\<close>

definition joins :: "ty set \<Rightarrow> ty \<Rightarrow> bool" where
  "joins ts r = (if agree ts then r \<in> ts \<and> (IsOptional r \<longleftrightarrow> (\<forall>t\<in>ts. IsOptional t)) else r = mk_kind [])"

lemma valid_Kind: "valid t \<Longrightarrow> Kind t \<noteq> []"
  by (cases rule: valid_cases) (auto simp: is_scalar_kind_def supportedScalarKinds_def resource_kind_def has_prefix_def)

lemma Equal_Unwrap:
  assumes "Equal t u"
  shows "IsOptional t = IsOptional u" "Equal (UnwrapOptional t) (UnwrapOptional u)"
proof -
  show o: "IsOptional t = IsOptional u" using EqualD(1) [OF assms] by (simp add: IsOptional_def)
  have "rel_option Equal (Elem t) (Elem u)" by (rule EqualD(5) [OF assms])
  with o assms show "Equal (UnwrapOptional t) (UnwrapOptional u)"
    by (cases "Elem t"; cases "Elem u") (auto simp: UnwrapOptional_def)
qed

lemma agree_insert:
  assumes "agree ts" "r \<in> ts" "\<forall>u\<in>insert t ts. valid u"
  shows "agree (insert t ts) \<longleftrightarrow> Equal (UnwrapOptional r) (UnwrapOptional t)"
proof
  assume "agree (insert t ts)"
  with assms(2) show "Equal (UnwrapOptional r) (UnwrapOptional t)" by (simp add: agree_def)
next
  assume e: "Equal (UnwrapOptional r) (UnwrapOptional t)"
  have v: "valid (UnwrapOptional u)" if "u \<in> insert t ts" for u by (rule valid_UnwrapOptional [OF bspec [OF assms(3) that]])
  have to_t: "Equal (UnwrapOptional u) (UnwrapOptional t)" if "u \<in> insert t ts" for u
    using that assms(1,2) e v [of t] by (auto simp: agree_def intro: Equal_trans valid_Equal_refl)
  have from_t: "Equal (UnwrapOptional t) (UnwrapOptional u)" if "u \<in> insert t ts" for u
    using to_t [OF that] v [OF that] v [of t] by (blast intro: valid_Equal_sym)
  show "agree (insert t ts)"
    unfolding agree_def using to_t from_t by (blast intro: Equal_trans)
qed

lemma agree_mono: "agree (insert t ts) \<Longrightarrow> agree ts"
  by (simp add: agree_def)

definition join_use :: "ty option \<Rightarrow> ty \<Rightarrow> ty" where
  "join_use previous t =
     (case previous of
        None \<Rightarrow> t
      | Some p \<Rightarrow>
          if Equal p t then t else if Kind p = [] then p
          else if Equal (UnwrapOptional p) (UnwrapOptional t) then (if IsOptional p \<and> \<not> IsOptional t then t else p)
          else mk_kind [])"

lemma inferParameter_at: "inferParameter m n t = m(n \<mapsto> join_use (m n) t)"
  by (cases "m n") (auto simp: inferParameter_def join_use_def fun_eq_iff)

lemma joins_first: "valid t \<Longrightarrow> joins {t} (join_use None t)"
  by (simp add: joins_def agree_def join_use_def valid_Equal_refl valid_UnwrapOptional)

lemma joins_step:
  assumes "joins ts r" "\<forall>u\<in>insert t ts. valid u"
  shows "joins (insert t ts) (join_use (Some r) t)"
proof (cases "agree ts")
  case False
  then have "r = mk_kind []" "\<not> agree (insert t ts)" using assms(1) agree_mono by (auto simp: joins_def)
  moreover have "\<not> Equal (mk_kind []) t" using assms(2) valid_Kind [of t] EqualD(1) [of "mk_kind []" t] by auto
  ultimately show ?thesis by (simp add: joins_def join_use_def)
next
  case True
  then have r: "r \<in> ts" "IsOptional r \<longleftrightarrow> (\<forall>t\<in>ts. IsOptional t)" using assms(1) by (simp_all add: joins_def)
  have k: "Kind r \<noteq> []" using r(1) assms(2) by (blast dest: valid_Kind)
  note a = agree_insert [OF True r(1) assms(2)]
  show ?thesis
  proof (cases "Equal r t")
    case True
    with a r Equal_Unwrap [OF True] show ?thesis by (auto simp: joins_def join_use_def)
  next
    case False
    with a r k show ?thesis by (auto simp: joins_def join_use_def)
  qed
qed

lemma fold_uses:
  assumes "\<forall>p\<in>set uses. valid (snd p)" "case m name of None \<Rightarrow> ts = {} | Some r \<Rightarrow> joins ts r" "\<forall>t\<in>ts. valid t"
  shows "case fold (\<lambda>(n, t) m. inferParameter m n t) uses m name of
      None \<Rightarrow> ts \<union> {t. (name, t) \<in> set uses} = {} | Some r \<Rightarrow> joins (ts \<union> {t. (name, t) \<in> set uses}) r"
  using assms
proof (induction uses arbitrary: m ts)
  case (Cons p uses)
  obtain n t where p: "p = (n, t)" by (cases p)
  have v: "valid t" "\<forall>p\<in>set uses. valid (snd p)" using Cons.prems(1) p by simp_all
  show ?case
  proof (cases "n = name")
    case False
    then have e: "inferParameter m n t name = m name" "{u. (name, u) \<in> set (p # uses)} = {u. (name, u) \<in> set uses}"
      by (auto simp: inferParameter_at p)
    from Cons.IH [OF v(2), where m = "inferParameter m n t" and ts = ts] Cons.prems(2,3) show ?thesis
      unfolding e(2) by (simp add: p e(1))
  next
    case True
    have j: "joins (insert t ts) (join_use (m name) t)"
    proof (cases "m name")
      case None
      with Cons.prems(2) joins_first [OF v(1)] show ?thesis by simp
    next
      case (Some r)
      with Cons.prems(2,3) v(1) show ?thesis by (auto intro: joins_step)
    qed
    have s: "ts \<union> {u. (name, u) \<in> set (p # uses)} = insert t ts \<union> {u. (name, u) \<in> set uses}" using True p by auto
    from Cons.IH [OF v(2), where m = "inferParameter m n t" and ts = "insert t ts"] j Cons.prems(3) v(1) True
    show ?thesis unfolding s by (simp add: inferParameter_at p)
  qed
qed (auto split: option.splits)

text \<open>
  C8: the type inferred for a parameter is determined by the set of its uses, not by their order or number:
  no type without a use; the mark of a contradiction exactly when two uses differ in more than Optional; else
  the type of one of the uses, which is Optional exactly when every use is.
\<close>

theorem inferred_from_uses:
  assumes "\<forall>p\<in>set uses. valid (snd p)"
  shows "case fold (\<lambda>(n, t) m. inferParameter m n t) uses (\<lambda>_. None) name of
      None \<Rightarrow> {t. (name, t) \<in> set uses} = {} | Some r \<Rightarrow> joins {t. (name, t) \<in> set uses} r"
  using fold_uses [OF assms, where m = "\<lambda>_. None" and ts = "{}" and name = name] by (auto split: option.splits)

lemma inferred_from_uses_witness:
  "joins {t. (''a'', t) \<in> set [(''a'', Optional (mk_kind ''Utf8'')), (''b'', mk_kind ''Bool''), (''a'', mk_kind ''Utf8'')]} (mk_kind ''Utf8'')"
proof -
  have "fold (\<lambda>(n, t) m. inferParameter m n t) [(''a'', Optional (mk_kind ''Utf8'')), (''b'', mk_kind ''Bool''), (''a'', mk_kind ''Utf8'')]
      (\<lambda>_. None) ''a'' = Some (mk_kind ''Utf8'')"
    by code_simp
  moreover have "\<forall>p\<in>set [(''a'', Optional (mk_kind ''Utf8'')), (''b'', mk_kind ''Bool''), (''a'', mk_kind ''Utf8'')]. valid (snd p)"
    by code_simp
  ultimately show ?thesis
    using inferred_from_uses [of "[(''a'', Optional (mk_kind ''Utf8'')), (''b'', mk_kind ''Bool''), (''a'', mk_kind ''Utf8'')]" "''a''"]
    by simp
qed

section \<open>External parameters\<close>

lemma external_loop_ok:
  assumes "external_loop block declared inferred external seen binds = (ps, [])"
  shows "distinct (map qp_Name ps)
    \<and> set (map qp_Name ps) = (\<lambda>b. bindName (Some b)) ` {b \<in> set binds. external b} - set seen
    \<and> (\<forall>p\<in>set ps. external_type block declared inferred (qp_Name p) = Inr (qp_Type p))"
  using assms
proof (induction binds arbitrary: seen ps)
  case (Cons bind binds)
  let ?name = "bindName (Some bind)"
  show ?case
  proof (cases "\<not> external bind \<or> List.member seen ?name")
    case True
    with Cons.prems have "external_loop block declared inferred external seen binds = (ps, [])" by simp
    from Cons.IH [OF this] True show ?thesis by auto
  next
    case False
    obtain qs ds where q: "external_loop block declared inferred external (?name # seen) binds = (qs, ds)" by fastforce
    with False Cons.prems obtain t where t: "external_type block declared inferred ?name = Inr t"
      and ps: "ps = \<lparr>qp_Name = ?name, qp_Type = t\<rparr> # qs" and d: "ds = []"
      by (auto simp: Let_def split: sum.splits)
    from Cons.IH [OF q [unfolded d]] False t ps show ?thesis by auto
  qed
qed auto

text \<open>
  The type of a parameter with the type that it is declared with or that its uses have: for \<open>sqlc.narg\<close>
  the Optional of it. It fits a use when they are compatible, for \<open>sqlc.narg\<close> when they differ in Optional only.
\<close>

definition parameter_type :: "bool \<Rightarrow> ty \<Rightarrow> ty" where
  "parameter_type nullable t = (if nullable \<and> \<not> IsOptional t then Optional t else t)"

definition fits_use :: "bool \<Rightarrow> ty \<Rightarrow> ty \<Rightarrow> bool" where
  "fits_use nullable t used =
     (if nullable then Equal (UnwrapOptional t) (UnwrapOptional used) else compatibleTypes t used)"

lemma external_type_exact:
  "external_type block declared inferred name = Inr t \<longleftrightarrow>
     (\<exists>u. (case declared name of Some d \<Rightarrow> Some d | None \<Rightarrow> inferred name) = Some u \<and> Kind u \<noteq> []
        \<and> t = parameter_type (nullable_argument (qb_arguments block) name) u
        \<and> (\<forall>used. inferred name = Some used \<longrightarrow> fits_use (nullable_argument (qb_arguments block) name) t used))"
  by (auto simp: external_type_def parameter_type_def fits_use_def Let_def split: option.splits if_splits)

lemma parameter_type_Kind: "Kind u \<noteq> [] \<Longrightarrow> Kind (parameter_type nullable u) \<noteq> []"
  by (simp add: parameter_type_def)

lemma external_type_ok: "external_type block declared inferred name = Inr t \<Longrightarrow> Kind t \<noteq> []"
  by (auto simp: external_type_exact parameter_type_Kind)

text \<open>
  C7: when the parameters of a query are accepted, they are exactly its binds that are not local, each name
  once. The type of each is the one it is declared with, or else the one inferred from its uses, which
  is no contradiction, made Optional for \<open>sqlc.narg\<close> when it is not; and it fits the type inferred from the uses, if
  there is one: it is compatible with it, or for \<open>sqlc.narg\<close> equal to it but for Optional.
\<close>

theorem external_parameters:
  assumes "externalParameters block binds declared inferred declarationPositions localPositions localNames = (ps, [])"
  shows "distinct (map qp_Name ps)
    \<and> set (map qp_Name ps)
        = (\<lambda>b. bindName (Some b)) ` {b \<in> set binds. external_bind declarationPositions localPositions localNames b}
    \<and> (\<forall>p\<in>set ps. let name = qp_Name p; nullable = nullable_argument (qb_arguments block) name in
         \<exists>u. (case declared name of Some d \<Rightarrow> Some d | None \<Rightarrow> inferred name) = Some u \<and> Kind u \<noteq> []
           \<and> qp_Type p = parameter_type nullable u
           \<and> (\<forall>used. inferred name = Some used \<longrightarrow> fits_use nullable (qp_Type p) used))"
  using external_loop_ok [OF assms [unfolded externalParameters_def]]
  by (simp only: external_type_exact Let_def set_sort) (simp add: external_type_exact)

definition bind_a :: tree where
  "bind_a = (let tok = \<lparr>tk_Type = ''DOLLAR'', tk_Text = ''$a'', tk_Start = 7, tk_Stop = 8, tk_Line = 1, tk_Column = 7, tk_Index = 2,
     tk_Hidden = False\<rparr> in Node ''Bind_parameter'' (Some tok) (Some tok) [Leaf tok])"

definition plain_packages :: packages where
  "plain_packages = \<lparr>pk_group_names = (\<lambda>_. Inr [[]]), pk_parse_float = (\<lambda>_ _. True), pk_fold = (\<lambda>r. r)\<rparr>"

lemma external_parameters_witness:
  "external_bind [] [] [] bind_a \<and> bindName (Some bind_a) = ''a''
   \<and> (\<lambda>b. bindName (Some b)) ` {b \<in> set [bind_a, bind_a]. external_bind [] [] [] b} = {''a''}"
proof -
  have b: "bindName (Some bind_a) = ''a''" "external_bind [] [] [] bind_a" by code_simp+
  have t: "external_type (empty_block plain_packages) (\<lambda>_. None) [''a'' \<mapsto> mk_kind ''Utf8''] ''a'' = Inr (mk_kind ''Utf8'')"
    by (simp add: external_type_def empty_block_def nullable_argument_def compatibleTypes_def valid_Equal_refl)
  have "externalParameters (empty_block plain_packages) [bind_a, bind_a] (\<lambda>_. None) [''a'' \<mapsto> mk_kind ''Utf8''] [] [] []
      = ([\<lparr>qp_Name = ''a'', qp_Type = mk_kind ''Utf8''\<rparr>], [])"
    by (simp add: externalParameters_def b t)
  from external_parameters [OF this] b show ?thesis by simp
qed

end
