(* ===== verification/Annotations.thy ===== *)
theory Annotations
  imports AnalyzerText
begin

text \<open>
  Annotations are read by the analyzer (\<open>parseAnnotation\<close>) and taken off by the generators
  (\<open>WithoutQueryAnnotation\<close>), by two functions in two packages. What one reads the other removes, and
  nothing else; and what \<open>QueryAnnotation\<close> writes is read back.
\<close>

section \<open>Trimming and fields\<close>

lemma rune_prefix_Nil: "rune_prefix rs [] = None"
  by (auto simp: rune_prefix_def find_None_iff has_prefix_iff)

lemma trim_right_Nil: "trim_right [] = []"
  unfolding trim_right_def by (subst drop_runes.simps) (simp add: rune_prefix_Nil)

lemma trim_visible:
  assumes "byte c \<notin> space_bytes" "byte d \<notin> space_bytes"
  shows "TrimSpace (c # s @ [d]) = c # s @ [d]"
  using trim_right_append [OF assms(2), of "c # s" "[]"] trim_left_stop [OF assms(1), of "s @ [d]"]
  by (simp add: TrimSpace_def trim_right_Nil)

lemma trim_blank: "TrimSpace (CHR '' '' # s) = TrimSpace s"
  by (simp add: TrimSpace_def trim_left_space)

lemma fields_visible: "byte c \<notin> space_bytes \<Longrightarrow> str_fields w (c # cs) = str_fields (w @ [c]) cs"
  by (subst str_fields.simps) (subst rune_prefix_None, auto dest: space_runes_bytes)

lemma fields_blank: "str_fields w (CHR '' '' # cs) = (if w = [] then [] else [w]) @ str_fields [] cs"
  by (subst str_fields.simps) (simp add: rune_prefix_space)

lemma fields_end: "str_fields w [] = (if w = [] then [] else [w])"
  by (subst str_fields.simps) (simp add: rune_prefix_Nil)

text \<open>A text without white space anywhere, and how the fields show it.\<close>

fun spaceless :: "string \<Rightarrow> bool" where
  "spaceless [] = True"
| "spaceless (c # cs) \<longleftrightarrow> rune_prefix space_runes (c # cs) = None \<and> spaceless cs"

lemma rune_prefix_SomeD: "rune_prefix rs s = Some r \<Longrightarrow> r \<noteq> [] \<and> length r \<le> length s"
  by (auto simp: rune_prefix_def find_Some_iff has_prefix_iff)

lemma str_fields_length: "length (concat (str_fields w s)) \<le> length w + length s"
proof (induction w s rule: str_fields.induct)
  case (1 w s)
  show ?case
  proof (cases "rune_prefix space_runes s")
    case (Some r)
    have "length (concat (str_fields [] (drop (length r) s))) \<le> length s" using 1(2) [OF Some] by simp
    with Some show ?thesis by (subst str_fields.simps) simp
  next
    case None
    with 1(1) show ?thesis by (subst str_fields.simps) (cases s, auto)
  qed
qed

lemma fields_spaceless: "str_fields w s = [w @ s] \<Longrightarrow> spaceless s"
proof (induction s arbitrary: w)
  case (Cons c cs)
  have n: "rune_prefix space_runes (c # cs) = None"
  proof (rule ccontr)
    assume "rune_prefix space_runes (c # cs) \<noteq> None"
    then obtain r where r: "rune_prefix space_runes (c # cs) = Some r" by auto
    have "str_fields w (c # cs) = (if w = [] then [] else [w]) @ str_fields [] (drop (length r) (c # cs))"
      using r by (subst str_fields.simps) simp
    then have "length (concat (str_fields w (c # cs))) \<le> length w + (length (c # cs) - length r)"
      using str_fields_length [of "[]" "drop (length r) (c # cs)"] by simp
    moreover have "0 < length r" using rune_prefix_SomeD [OF r] by simp
    ultimately show False by (simp add: Cons.prems del: length_greater_0_conv)
  qed
  then have "str_fields w (c # cs) = str_fields (w @ [c]) cs" by (subst str_fields.simps) simp
  with Cons.IH [of "w @ [c]"] Cons.prems n show ?case by simp
qed simp

text \<open>A blank is no part of a longer space, so what stands before one decides alone.\<close>

lemma blank_alone: "r \<in> set space_runes \<Longrightarrow> CHR '' '' \<in> set r \<Longrightarrow> length r = 1"
proof -
  have "list_all (\<lambda>r. length r = 1 \<or> \<not> List.member r (CHR '' '')) space_runes" by code_simp
  then show "r \<in> set space_runes \<Longrightarrow> CHR '' '' \<in> set r \<Longrightarrow> length r = 1" by (auto simp: list_all_iff)
qed

lemma rune_prefix_blank:
  assumes "s \<noteq> []"
  shows "rune_prefix space_runes (s @ CHR '' '' # t) = rune_prefix space_runes s"
proof -
  have "has_prefix (s @ CHR '' '' # t) r = has_prefix s r" if r: "r \<in> set space_runes" for r
  proof (cases "length r \<le> length s")
    case False
    have "\<not> has_prefix (s @ CHR '' '' # t) r"
    proof
      assume "has_prefix (s @ CHR '' '' # t) r"
      then have "r = take (length r) (s @ CHR '' '' # t)" by (simp add: has_prefix_def)
      with False have "CHR '' '' \<in> set r" by (metis in_set_conv_nth not_le nth_append_length nth_take)
      with blank_alone [OF r] False assms show False by (cases s) auto
    qed
    with False show ?thesis by (auto simp: has_prefix_def)
  qed (simp add: has_prefix_def)
  then show ?thesis unfolding rune_prefix_def by (intro find_cong) auto
qed

lemma fields_word: "spaceless s \<Longrightarrow> w @ s \<noteq> [] \<Longrightarrow> str_fields w (s @ CHR '' '' # t) = (w @ s) # str_fields [] t"
proof (induction s arbitrary: w)
  case (Cons c cs)
  have "rune_prefix space_runes ((c # cs) @ CHR '' '' # t) = None" using Cons.prems(1) rune_prefix_blank [of "c # cs" t] by simp
  then have "str_fields w ((c # cs) @ CHR '' '' # t) = str_fields (w @ [c]) (cs @ CHR '' '' # t)"
    by (subst str_fields.simps) simp
  with Cons.IH [of "w @ [c]"] Cons.prems show ?case by simp
qed (simp add: fields_blank)

lemma fields_of_visible: "\<forall>c\<in>set s. byte c \<notin> space_bytes \<Longrightarrow> w @ s \<noteq> [] \<Longrightarrow> str_fields w s = [w @ s]"
  by (induction s arbitrary: w) (simp_all add: fields_visible fields_end)

section \<open>Commands\<close>

lemma command_visible:
  assumes "List.member commands c"
  shows "\<forall>x\<in>set c. byte x \<notin> space_bytes" "c \<noteq> []"
proof -
  have "list_all (\<lambda>c. c \<noteq> [] \<and> list_all (\<lambda>x. byte x \<notin> space_bytes) c) commands" by code_simp
  with assms show "\<forall>x\<in>set c. byte x \<notin> space_bytes" "c \<noteq> []" by (auto simp: list_all_iff)
qed

text \<open>A text that ends in a command is not trimmed on the right.\<close>

lemma trim_right_command:
  assumes "List.member commands c"
  shows "trim_right (s @ c) = s @ c"
proof -
  obtain d x where c: "c = d @ [x]" using command_visible(2) [OF assms] by (cases c rule: rev_cases) auto
  then have "byte x \<notin> space_bytes" using command_visible(1) [OF assms] by simp
  from trim_right_append [OF this, of "s @ d" "[]"] show ?thesis by (simp add: c trim_right_Nil)
qed

lemma trim_left_word:
  assumes "spaceless s" "s \<noteq> []"
  shows "trim_left (s @ CHR '' '' # t) = s @ CHR '' '' # t"
proof -
  have "rune_prefix space_runes (s @ CHR '' '' # t) = None"
    using rune_prefix_blank [OF assms(2)] assms by (cases s) auto
  then show ?thesis unfolding trim_left_def by (subst drop_runes.simps) simp
qed

section \<open>Writing and reading an annotation\<close>

text \<open>What \<open>parseAnnotation\<close> answers for a line that is no annotation.\<close>

definition no_annotation :: "string \<times> Command \<times> bool \<times> string" where
  "no_annotation = ([], [], False, [])"

lemma annotation_read:
  assumes "Fields_of (aq_Name q) = [aq_Name q]" "List.member commands (aq_Command q)"
  shows "parseAnnotation (QueryAnnotation q) = (aq_Name q, aq_Command q, True, [])"
proof -
  let ?n = "aq_Name q" and ?c = "aq_Command q"
  have n: "spaceless ?n" "?n \<noteq> []"
    using assms(1) fields_spaceless [of "[]" ?n] by (auto simp: Fields_of_def fields_end split: if_splits)
  have q: "QueryAnnotation q = ''-- name: '' @ ?n @ '' '' @ ?c" by (simp add: QueryAnnotation_def)
  have r: "trim_right (s @ ?n @ '' '' @ ?c) = s @ ?n @ '' '' @ ?c" for s
    using trim_right_command [OF assms(2), of "s @ ?n @ '' ''"] by simp
  have t1: "TrimSpace (QueryAnnotation q) = ''-- name: '' @ ?n @ '' '' @ ?c"
    using trim_left_stop [of "CHR ''-''" "''- name: '' @ ?n @ '' '' @ ?c"] r [of "''-- name: ''"]
    by (simp add: q TrimSpace_def space_bytes_def byte_def)
  have t2: "TrimSpace ('' name: '' @ ?n @ '' '' @ ?c) = ''name: '' @ ?n @ '' '' @ ?c"
    using trim_left_stop [of "CHR ''n''" "''ame: '' @ ?n @ '' '' @ ?c"] r [of "''name: ''"]
    by (simp add: TrimSpace_def trim_left_space space_bytes_def byte_def)
  have t3: "TrimSpace ('' '' @ ?n @ '' '' @ ?c) = ?n @ '' '' @ ?c"
    using trim_left_word [OF n, of ?c] r [of "[]"] by (simp add: TrimSpace_def trim_left_space)
  have f: "Fields_of (?n @ '' '' @ ?c) = [?n, ?c]"
    using fields_word [OF n(1), of "[]" ?c] n(2) fields_of_visible [OF command_visible(1) [OF assms(2)], of "[]"] command_visible(2) [OF assms(2)]
    by (simp add: Fields_of_def)
  have h: "has_prefix (''-- name: '' @ x) ''--''" "trim_prefix (''-- name: '' @ x) ''--'' = '' name: '' @ x"
      "\<not> has_prefix (to_lower (''name: '' @ x)) ''sqlc''" "has_prefix (to_lower (''name: '' @ x)) ''name:''"
      "drop (length ''name:'') (''name: '' @ x) = '' '' @ x" for x
    by (simp_all add: has_prefix_def trim_prefix_def byte_def ascii_lower_def)
  show ?thesis
    by (simp only: parseAnnotation_def Let_def t1 t2 t3 f h assms(2) not_True_eq_False not_False_eq_True if_True if_False list.case)
qed

section \<open>Removing an annotation\<close>

text \<open>The answer for the fields after \<open>name:\<close> is never \<open>no_annotation\<close>: it is the annotation or a message.\<close>

definition annotation_fields :: "string list \<Rightarrow> string \<times> Command \<times> bool \<times> string" where
  "annotation_fields fs =
     (case fs of
        [name, command] \<Rightarrow>
          (if List.member commands command then (name, command, True, [])
           else ([], [], False, sprintf ''unsupported query command %q'' [FStr command]))
      | _ \<Rightarrow> ([], [], False, ''invalid query annotation; expected -- name: QueryName :one|:many|:multi|:each|:exec|:execrows''))"

lemma annotation_fields_answer: "annotation_fields fs \<noteq> no_annotation"
  by (simp add: annotation_fields_def no_annotation_def split: list.split)

lemma parseAnnotation_steps:
  "parseAnnotation line =
     (case cut_prefix (TrimSpace line) ''--'' of
        None \<Rightarrow> no_annotation
      | Some comment \<Rightarrow>
          if has_prefix (to_lower (annotation_comment comment)) ''name:''
          then annotation_fields (Fields_of (TrimSpace (drop (length ''name:'') (annotation_comment comment))))
          else no_annotation)"
proof (cases "has_prefix (TrimSpace line) ''--''")
  case True
  then have "cut_prefix (TrimSpace line) ''--'' = Some (trim_prefix (TrimSpace line) ''--'')"
    by (simp only: cut_prefix_def trim_prefix_def if_True)
  with True show ?thesis
    by (simp only: parseAnnotation_def Let_def annotation_comment_def annotation_fields_def no_annotation_def not_True_eq_False
        if_False option.case) (cases "has_prefix (to_lower (annotation_comment (trim_prefix (TrimSpace line) ''--''))) ''name:''",
        simp_all only: annotation_comment_def Let_def if_True if_False not_True_eq_False not_False_eq_True)
next
  case False
  then have "cut_prefix (TrimSpace line) ''--'' = None" by (simp only: cut_prefix_def if_False)
  with False show ?thesis by (simp only: parseAnnotation_def Let_def no_annotation_def not_False_eq_True if_True option.case)
qed

lemma annotation_comment_read:
  "parseAnnotation line = no_annotation \<longleftrightarrow>
     (case cut_prefix (TrimSpace line) ''--'' of None \<Rightarrow> True
      | Some comment \<Rightarrow> \<not> has_prefix (to_lower (annotation_comment comment)) ''name:'')"
  unfolding parseAnnotation_steps by (simp add: annotation_fields_answer split: option.split)

text \<open>
  C40: the first line of a text is taken off exactly when the analyzer reads it as an annotation, rightly or
  wrongly written, and then the lines after it are left as they are; any other text, and a text of one line, is left
  as it is. The annotation that is written for a query whose name is one word and whose command is one of the six
  is read as that name and that command.
\<close>

theorem annotation_removed:
  "WithoutQueryAnnotation sql =
     (case str_cut [CHR 0x0A] sql of
        None \<Rightarrow> sql
      | Some (line, rest) \<Rightarrow> if parseAnnotation line = no_annotation then sql else rest)
   \<and> (Fields_of (aq_Name q) = [aq_Name q] \<and> List.member commands (aq_Command q) \<longrightarrow>
        parseAnnotation (QueryAnnotation q) = (aq_Name q, aq_Command q, True, []))"
proof
  show "WithoutQueryAnnotation sql = (case str_cut [CHR 0x0A] sql of
      None \<Rightarrow> sql | Some (line, rest) \<Rightarrow> if parseAnnotation line = no_annotation then sql else rest)"
    unfolding WithoutQueryAnnotation_def annotation_comment_read by (auto split: option.split)
qed (use annotation_read in blast)

lemma annotation_removed_witness:
  "parseAnnotation ''-- name: GetAuthor :one'' = (''GetAuthor'', '':one'', True, [])
   \<and> WithoutQueryAnnotation (''-- name: GetAuthor :one'' @ [CHR 0x0A] @ ''SELECT 1'') = ''SELECT 1''"
proof -
  have q: "QueryAnnotation sample_query = ''-- name: GetAuthor :one''" "aq_Name sample_query = ''GetAuthor''" "aq_Command sample_query = '':one''"
    by (simp_all add: QueryAnnotation_def sample_query_def One_def)
  have f: "Fields_of ''GetAuthor'' = [''GetAuthor'']"
    unfolding Fields_of_def by (simp add: fields_of_visible space_bytes_def byte_def)
  have c: "List.member commands '':one''" by code_simp
  have p: "parseAnnotation ''-- name: GetAuthor :one'' = (''GetAuthor'', '':one'', True, [])"
    using annotation_removed [of "[]" sample_query] f c 
    by (simp only: q simp_thms)
  have "str_cut [CHR 0x0A] (''-- name: GetAuthor :one'' @ [CHR 0x0A] @ ''SELECT 1'') = Some (''-- name: GetAuthor :one'', ''SELECT 1'')"
    using str_cut_char [of "CHR 0x0A" "''-- name: GetAuthor :one''" "''SELECT 1''"] by simp
  with annotation_removed [of "''-- name: GetAuthor :one'' @ [CHR 0x0A] @ ''SELECT 1''" sample_query] p
  show ?thesis by (simp only: option.case prod.case) (simp add: no_annotation_def)
qed

end
