(* ===== verification/AcceptedQueries.thy ===== *)
theory AcceptedQueries
  imports AnalyzeProject ParameterTypes Annotations
begin

text \<open>
  What holds of the queries that a project is generated from: the queries that are analyzed without a
  diagnostic, one at a time and after the expansion of wildcards, and all queries of a project.
\<close>

section \<open>Accepted queries\<close>

text \<open>What a result column must be: not of the type Null, and of a type that may leave the database.\<close>

definition returnable :: "Column \<Rightarrow> bool" where
  "returnable column \<longleftrightarrow> Kind (col_Type column) \<noteq> ''Null'' \<and> \<not> nonpersistableType (col_Type column)"

text \<open>
  The result sets that a command admits: a result set has columns; only :multi has more than one; :one, :many and
  :each have one; :execrows has none, nor has an :exec of a single statement. An :exec of several
  statements may have one, whose rows the generated code discards.
\<close>

definition results_ok :: "Command \<Rightarrow> bool \<Rightarrow> ResultSet list \<Rightarrow> bool" where
  "results_ok command script sets \<longleftrightarrow>
     list_all (\<lambda>rs. rs_Columns rs \<noteq> []) sets
   \<and> (command \<noteq> Multi \<longrightarrow> length sets \<le> 1)
   \<and> (List.member [One, Many, Each] command \<longrightarrow> length sets = 1)
   \<and> ((command = Exec \<and> \<not> script) \<or> command = ExecRows \<longrightarrow> sets = [])"

definition accepted :: "AnalyzedQuery \<Rightarrow> bool" where
  "accepted q \<longleftrightarrow>
     list_all (\<lambda>p. Kind (qp_Type p) \<noteq> []) (aq_Parameters q) \<and> distinct (map qp_Name (aq_Parameters q))
   \<and> list_all returnable (concat (map rs_Columns (aq_ResultSets q)))
   \<and> results_ok (aq_Command q) (aq_MultipleStatements q) (aq_ResultSets q)"

lemma result_column_None: "result_column block column = [] \<longleftrightarrow> returnable column"
  by (simp add: result_column_def returnable_def)

lemma result_sets_columns:
  "list_all p (concat (map rs_Columns (result_sets block oc w))) \<longleftrightarrow> list_all p (result_columns_of block oc)"
  by (simp add: result_sets_def result_columns_of_def)

definition sets_ok :: "outcome \<Rightarrow> bool" where
  "sets_ok oc \<longleftrightarrow> list_all (\<lambda>rs. rs_Columns rs \<noteq> []) (oc_sets oc)"

lemma command_ok:
  assumes "command_diagnostics block n (oc_columns oc \<noteq> []) = []" "sets_ok oc"
  shows "results_ok (qb_command block) (n > 1) (result_sets block oc w)"
  using assms
  by (auto simp: results_ok_def sets_ok_def command_diagnostics_def result_sets_def One_def Many_def Each_def Multi_def Exec_def ExecRows_def split: if_splits)

lemma finish_query_ok:
  assumes "finish_query catalog block tokens tree declared declarationPositions lo oc s query = (q, [])"
    and "aq_Command query = qb_command block" "sets_ok oc"
  shows "accepted q \<and> aq_Name q = aq_Name query \<and> aq_Command q = aq_Command query"
proof -
  let ?positions = "lo_positions lo @ lambdaLocalBindPositions (qb_tree block)"
  obtain parameters pds where
    p: "query_parameters_of block tree declared declarationPositions ?positions lo s = (parameters, pds)" by fastforce
  have q: "aq_Parameters q = parameters" "aq_ResultSets q = result_sets block oc (st_wildcards s)"
      "aq_MultipleStatements q \<longleftrightarrow> oc_count oc > 1" "aq_Name q = aq_Name query" "aq_Command q = aq_Command query"
    and d: "pds = []" "\<forall>c\<in>set (result_columns_of block oc). result_column block c = []"
      "command_diagnostics block (oc_count oc) (oc_columns oc \<noteq> []) = []"
    using assms(1) by (auto simp: finish_query_def Let_def p split: if_splits)
  note e = external_loop_ok [OF p [unfolded query_parameters_of_def externalParameters_def d(1)]]
  have "list_all (\<lambda>x. Kind (qp_Type x) \<noteq> []) parameters" using e external_type_ok by (auto simp: list_all_iff)
  moreover have "list_all returnable (concat (map rs_Columns (result_sets block oc (st_wildcards s))))"
    using d(2) unfolding result_sets_columns by (simp add: list_all_iff result_column_None)
  ultimately show ?thesis using e command_ok [OF d(3) assms(3)] assms(2) by (simp add: accepted_def q)
qed

lemma statement_loop_stops:
  assumes "statement_loop catalog block names lambdaPositions declared localNames statements oc s = Some ((oc', True), s')"
  shows "oc_diagnostics oc' \<noteq> []"
  using assms
proof (induction statements arbitrary: oc s)
  case (Cons statement statements)
  then show ?case
    by (auto simp: Let_def bind_eq_Some_conv split: if_splits prod.splits)
qed simp

lemma statement_loop_sets:
  assumes "statement_loop catalog block names lambdaPositions declared localNames statements oc s = Some ((oc', stop), s')" "sets_ok oc"
  shows "sets_ok oc'"
  using assms
proof (induction statements arbitrary: oc s)
  case (Cons statement statements)
  show ?case
  proof (cases "is_data (rule_of ''Sql_stmt_core'' statement)")
    case False
    with Cons show ?thesis by simp
  next
    case True
    with Cons.prems(1) obtain columns ds s1 where d: "analyzeDataStatement catalog block statement s = Some ((columns, ds), s1)"
      by (auto simp: bind_eq_Some_conv)
    let ?oc = "oc\<lparr>oc_count := Suc (oc_count oc), oc_diagnostics := oc_diagnostics oc @ ds\<rparr>"
    let ?next = "case columns of
        Some (c # cs) \<Rightarrow> add_results block names lambdaPositions declared localNames statement (c # cs) (st_inferred s1) ?oc
      | _ \<Rightarrow> ?oc"
    have n: "sets_ok ?oc" "sets_ok ?next"
      using Cons.prems(2) by (auto simp: sets_ok_def add_results_def split: option.split list.split)
    from Cons.prems(1) True d
    have "(if ds \<noteq> [] \<and> columns = None \<and> containsINSubquery statement then Some ((?oc, True), s1)
        else statement_loop catalog block names lambdaPositions declared localNames statements ?next s1) = Some ((oc', stop), s')"
      by (simp add: Let_def cong: if_cong split del: if_split)
    with n Cons.IH show ?thesis by (auto split: if_splits)
  qed
qed simp

lemma statement_phase_ok:
  assumes "statement_phase catalog block tokens tree names query = Some ((q, []), w)" "aq_Command query = qb_command block"
  shows "accepted q \<and> aq_Name q = aq_Name query \<and> aq_Command q = aq_Command query"
proof -
  obtain declared positions dds where d: "declarations block tree = (declared, positions, dds)" by (metis prod.exhaust)
  obtain declared1 cds where c: "configuredDeclarations block declared = (declared1, cds)" by fastforce
  let ?declared = "assume_types block declared1" and ?query = "query\<lparr>aq_DeclaredParameters := declared_binds tree\<rparr>"
  obtain lo lds s1 where l: "localBindings catalog block tree ?declared (start_analysis block) = Some ((lo, lds), s1)"
    using assms(1) by (auto simp: statement_phase_def Let_def d c bind_eq_Some_conv)
  let ?block = "block\<lparr>qb_tabular := lo_tabular lo, qb_lambdas := lo_lambdas lo\<rparr>"
  let ?start = "\<lparr>oc_columns = [], oc_sets = [], oc_parameters = (\<lambda>_. None), oc_count = 0,
      oc_diagnostics = dds @ cds @ List.map_filter (narg_conflict ?declared) (sorted_arguments block) @ lds @ local_conflicts ?block (lo_names lo)\<rparr>"
  obtain oc stop s2 where r: "statement_loop catalog ?block names (lambdaLocalBindPositions (qb_tree ?block)) ?declared (lo_names lo)
        (qt_statements tree) ?start (s1\<lparr>st_bindings := local_types ?declared lo\<rparr>) = Some ((oc, stop), s2)"
    and q: "(if stop then Some ((?query, oc_diagnostics oc), st_wildcards s2)
        else Some (finish_query catalog ?block tokens tree ?declared positions lo oc s2 ?query, st_wildcards s2)) = Some ((q, []), w)"
    using assms(1) by (auto simp: statement_phase_def Let_def d c l bind_eq_Some_conv simp del: statement_loop.simps)
  have "\<not> stop"
  proof
    assume stop
    with r have "oc_diagnostics oc \<noteq> []" by (intro statement_loop_stops) simp
    with q \<open>stop\<close> show False by simp
  qed
  with q have "finish_query catalog ?block tokens tree ?declared positions lo oc s2 ?query = (q, [])" by simp
  moreover have "sets_ok oc" using statement_loop_sets [OF r] by (simp add: sets_ok_def)
  ultimately show ?thesis using finish_query_ok [of catalog ?block] assms(2) by fastforce
qed

lemma base_query_fields [simp]: "aq_Name (base_query block) = qb_name block" "aq_Command (base_query block) = qb_command block"
  by (simp_all add: base_query_def)

lemma analyzeQuery_ok:
  assumes "analyzeQuery uc antlr catalog block = Some ((q, []), w)"
  shows "accepted q \<and> aq_Name q = qb_name block \<and> aq_Command q = qb_command block"
proof -
  obtain root tokens pds where parsed: "parsed_query antlr block = ((root, tokens), pds)" by (metis prod.exhaust)
  obtain block1 tree names query where
    b: "statement_phase catalog block1 tokens tree names query = Some ((q, []), w)" "qb_command block1 = qb_command block"
      "aq_Name query = qb_name block" "aq_Command query = qb_command block"
    using assms by (fastforce simp: analyzeQuery_def Let_def parsed split: prod.splits if_splits)
  from statement_phase_ok [OF b(1)] b(2-4) show ?thesis by simp
qed

lemma expand_query_ok:
  assumes "expand_query uc antlr catalog block query rewrites sql replacements = Some ((q, []), block')"
    and query: "accepted query" "aq_Command query = qb_command block"
  shows "accepted q \<and> aq_Name q = qb_name block \<and> aq_Command q = qb_command block"
proof -
  let ?block = "rewritten_block block sql replacements"
  obtain expanded ds w where a: "analyzeQuery uc antlr catalog ?block = Some ((expanded, ds), w)"
    and r: "if ds \<noteq> [] \<or> ww_embeds rewrites = [] then (q, []) = (expanded, ds)
      else (q, []) = (case expansion_err query expanded of
          Some message \<Rightarrow> (query, [query_message query message])
        | None \<Rightarrow> (expanded\<lparr>aq_ResultSets := aq_ResultSets query\<rparr>, []))"
    using assms(1) by (auto simp: expand_query_def Let_def bind_eq_Some_conv split: if_splits)
  have d: "ds = []" using r by (auto split: if_splits option.splits)
  from analyzeQuery_ok [OF a [unfolded d]]
  have e: "accepted expanded" "aq_Name expanded = qb_name block" "aq_Command expanded = qb_command block"
    by (simp_all add: rewritten_block_def)
  show ?thesis
  proof (cases "ww_embeds rewrites = []")
    case True
    with r e d show ?thesis by simp
  next
    case False
    with r d have n: "expansion_err query expanded = None" "q = expanded\<lparr>aq_ResultSets := aq_ResultSets query\<rparr>"
      by (auto split: option.splits)
    then have "aq_ResultSets query \<noteq> []" "aq_ResultSets expanded \<noteq> []"
      by (auto simp: expansion_err_def split: list.splits)
    with e query n(2) show ?thesis by (auto simp: accepted_def results_ok_def)
  qed
qed

lemma expand_wildcards_ok:
  assumes "expand_wildcards uc antlr catalog block query rewrites = Some ((q, []), block')" "accepted query" "aq_Command query = qb_command block"
  shows "accepted q \<and> aq_Name q = qb_name block \<and> aq_Command q = qb_command block"
  using assms expand_query_ok by (fastforce simp: expand_wildcards_def Let_def split: sum.splits if_splits option.splits)

lemma analyze_twice_ok:
  assumes "analyze_twice uc antlr catalog block = Some (((q, ds), w), b)"
  shows "qb_name b = qb_name block \<and> qb_command b = qb_command block
    \<and> (ds = [] \<longrightarrow> accepted q \<and> aq_Name q = qb_name block \<and> aq_Command q = qb_command block)"
  using assms by (auto simp: analyze_twice_def Let_def bind_eq_Some_conv split: if_splits dest!: analyzeQuery_ok)

lemma executable_ok:
  assumes "analyzeExecutableQuery uc antlr catalog block = Some ((q, []), block')"
  shows "accepted q \<and> aq_Name q = qb_name block \<and> aq_Command q = qb_command block"
proof -
  obtain query ds w b where
    a: "analyze_twice uc antlr catalog (block\<lparr>qb_wildcards := Some (fresh_rewrites block)\<rparr>) = Some (((query, ds), w), b)" and
    r: "(case w of
         Some rewrites \<Rightarrow>
           if ds \<noteq> [] \<or> ww_replacements rewrites = [] then Some ((query, ds), b)
           else expand_wildcards uc antlr catalog b query rewrites
       | None \<Rightarrow> Some ((query, ds), b)) = Some ((q, []), block')"
    using assms by (auto simp: analyzeExecutableQuery_def bind_eq_Some_conv)
  from analyze_twice_ok [OF a] have n: "qb_name b = qb_name block" "qb_command b = qb_command block"
    and k: "ds = [] \<Longrightarrow> accepted query \<and> aq_Name query = qb_name block \<and> aq_Command query = qb_command block"
    by simp_all
  show ?thesis
  proof (cases "ds = []")
    case True
    note k = k [OF True]
    show ?thesis
    proof (cases w)
      case (Some rw)
      with r True k n show ?thesis
        using expand_wildcards_ok [of uc antlr catalog b query rw q block'] by (auto split: if_splits)
    qed (use r k in simp)
  next
    case False
    with r show ?thesis by (auto split: option.splits)
  qed
qed

text \<open>
  C2: A query that is analyzed without a diagnostic is ready for the generators: its parameters have pairwise
  distinct names and known types, no result column is of the type Null or of a type that may not leave the
  database, and its result sets are those its command admits: each has columns, only :multi has more than one, :one, :many
  and :each have exactly one, :execrows and an :exec of a single statement have none (an :exec script may have one).
\<close>

theorem query_accepted:
  assumes "analyzeQuery uc antlr catalog block = Some ((q, []), w)"
  shows "accepted q \<and> aq_Name q = qb_name block \<and> aq_Command q = qb_command block"
  using analyzeQuery_ok [OF assms] .

section \<open>Accepted projects\<close>

text \<open>Names of some of the blocks, none of them more often than before.\<close>

definition fewer_names :: "string list \<Rightarrow> string list \<Rightarrow> bool" where
  "fewer_names xs ys \<longleftrightarrow> mset xs \<subseteq># mset ys"

lemma fewer_names_intros [intro]:
  "fewer_names [] ys" "fewer_names xs ys \<Longrightarrow> fewer_names xs (y # ys)" "fewer_names xs ys \<Longrightarrow> fewer_names (y # xs) (y # ys)"
  by (auto simp: fewer_names_def intro: subset_mset.order_trans)

lemma fewer_names_distinct:
  assumes "fewer_names xs ys" "distinct (map f ys)"
  shows "distinct (map f xs)"
proof -
  have "mset (map f xs) \<subseteq># mset (map f ys)" using assms(1) by (simp add: fewer_names_def image_mset_subseteq_mono)
  then obtain zs where z: "mset (map f ys) = mset (map f xs @ zs)" by (metis mset_append ex_mset mset_subset_eq_exists_conv)
  with assms(2) have "distinct (map f xs @ zs)" by (metis mset_eq_imp_distinct_iff)
  then show ?thesis by simp
qed

lemma lower_name: "lowerSQLCArguments lexer block = (ds, lowered) \<Longrightarrow> qb_name lowered = qb_name block"
  by (auto simp: lowerSQLCArguments_def Let_def split: if_splits)

lemma lower_blocks_names: "fewer_names (map qb_name (fst (lower_blocks env blocks))) (map qb_name blocks)"
proof (induction blocks)
  case (Cons block blocks)
  then show ?case by (auto simp: Let_def lower_name split: prod.split)
qed auto

lemma embed_name: "containsEmbedMacro antlr block = (e, ds, b) \<Longrightarrow> qb_name b = qb_name block"
  by (auto simp: containsEmbedMacro_def Let_def split: prod.splits if_splits)

lemma validate_loop_names: "map qb_name (fst (validate_loop env database asked blocks)) = map qb_name blocks"
proof (induction blocks arbitrary: asked)
  case (Cons block blocks)
  obtain e pds b where c: "containsEmbedMacro (ev_parser env) block = (e, pds, b)" by (metis prod.exhaust)
  from Cons [of asked] Cons [of "Suc asked"] embed_name [OF c] show ?case
    by (auto simp: Let_def c split: prod.split option.split)
qed simp

lemma database_phase_names: "map qb_name (fst (database_phase env database schema catalog blocks ds)) = map qb_name blocks"
proof (cases database)
  case (Some cn)
  show ?thesis using validate_loop_names [of env cn 0 blocks]
    by (auto simp: database_phase_def Some Let_def split: prod.splits)
qed (simp add: database_phase_def)

lemma analyze_blocks_ok:
  assumes "analyze_blocks env database catalog blocks = Some (qs, ds)"
  shows "list_all accepted qs \<and> fewer_names (map aq_Name qs) (map qb_name blocks)"
  using assms
proof (induction blocks arbitrary: qs ds)
  case (Cons block blocks)
  obtain query qds b where q: "analyzeExecutableQuery (ev_unicode env) (ev_parser env) catalog block = Some ((query, qds), b)"
    using executable_finishes by (metis finishes_def not_None_eq prod.exhaust)
  obtain qs1 ds1 where r: "analyze_blocks env database catalog blocks = Some (qs1, ds1)"
    using Cons.prems q by (auto simp: bind_eq_Some_conv)
  note IH = Cons.IH [OF r]
  let ?own = "if qds \<noteq> [] then originalDiagnostics b qds else recheck env database b query"
  have qs: "qs = (if ?own = [] then query # qs1 else qs1)" using Cons.prems by (simp add: q r Let_def)
  show ?case
  proof (cases "?own = []")
    case True
    then have "qds = []" by (auto simp: originalDiagnostics_def split: if_splits)
    from executable_ok [OF q [unfolded this]] IH True qs show ?thesis by auto
  next
    case False
    with IH qs show ?thesis by auto
  qed
qed auto

lemma no_error: "join_errors (map f ds) = None \<longleftrightarrow> ds = []"
  by (simp add: join_errors_def)

text \<open>
  C1: When the analysis of a project ends without an error, there is no diagnostic, every query is accepted,
  and no two queries have the same name, also after \<open>strings.ToLower\<close> (for any Unicode tables); with or without
  a database, and whatever the lexer and the parser make of the files.
\<close>

theorem project_accepted:
  assumes "analyze env database schema queries options = Some (result, None)"
  shows "ar_Diagnostics result = [] \<and> list_all accepted (ar_Queries result)
    \<and> distinct (map (strings_ToLower (ev_unicode env) \<circ> aq_Name) (ar_Queries result))"
proof -
  obtain fs where f: "NewRegistry (op_Functions options) = Inr fs"
    using assms by (auto simp: analyze_def split: sum.splits)
  obtain catalog sds where c: "buildCatalog (ev_parser env) schema = (catalog, sds)" by fastforce
  obtain blocks ds where b: "collect_blocks env fs [] queries = (blocks, ds)" by fastforce
  have sds: "sds = []" using assms
    by (auto simp: analyze_def f c project_result_of_def Let_def no_error split: if_splits)
      (metis no_error uniqueDiagnostics_set set_empty)
  have q: "analyze_queries env database schema options catalog blocks ds = Some (result, None)"
    using assms by (auto simp: analyze_def f c sds b join_errors_def split: option.splits)
  obtain lowered lds where l: "lower_blocks env (map (configured_parameters options) blocks) = (lowered, lds)" by fastforce
  obtain blocks2 catalog2 ds2 where p: "database_phase env database schema catalog lowered (ds @ lds) = (blocks2, catalog2, ds2)"
    by (metis prod.exhaust)
  have u: "uniqueDiagnostics xs = [] \<longleftrightarrow> xs = []" for xs by (metis set_empty uniqueDiagnostics_set)
  have ok: "\<not> (database \<noteq> None \<and> ds2 \<noteq> [])"
    using q by (auto simp: analyze_queries_def l p project_result_of_def Let_def no_error u split: if_split_asm)
  then obtain qs ads where a: "analyze_blocks env database catalog2 blocks2 = Some (qs, ads)"
    and r: "project_result_of catalog2 qs (ds2 @ ads) = (result, None)"
    using q by (auto simp: analyze_queries_def l p bind_eq_Some_conv)
  from r have result: "ar_Diagnostics result = []" "ar_Queries result = qs"
    by (auto simp: project_result_of_def Let_def no_error u)
  have "fewer_names (map qb_name lowered) (map qb_name blocks)"
    using lower_blocks_names [of env "map (configured_parameters options) blocks"]
    by (simp add: l configured_parameters_def comp_def)
  moreover have "map qb_name blocks2 = map qb_name lowered"
    using database_phase_names [of env database schema catalog lowered "ds @ lds"] by (simp add: p)
  moreover note analyze_blocks_ok [OF a]
  ultimately have n: "list_all accepted qs" "fewer_names (map aq_Name qs) (map qb_name blocks)"
    by (auto simp: fewer_names_def intro: subset_mset.order_trans)
  have "distinct (map (strings_ToLower (ev_unicode env)) (map qb_name blocks))" using collect_blocks_distinct [OF b] by (simp add: comp_def)
  from fewer_names_distinct [OF n(2) this] n(1) result show ?thesis by (simp add: comp_def)
qed

section \<open>Samples\<close>

definition leaf_at :: "string \<Rightarrow> string \<Rightarrow> int \<Rightarrow> tree" where
  "leaf_at kind text i = Leaf \<lparr>tk_Type = kind, tk_Text = text, tk_Start = i, tk_Stop = i, tk_Line = 1, tk_Column = i,
     tk_Index = i, tk_Hidden = False\<rparr>"

definition node_at :: "string \<Rightarrow> tree list \<Rightarrow> tree" where
  "node_at name ts = Node name (GetStart (hd ts)) (GetStop (last ts)) ts"

text \<open>\<open>DECLARE $x AS Uint64;\<close>\<close>

definition sample_bound :: tree where
  "sample_bound = node_at ''Bind_parameter'' [leaf_at ''DOLLAR'' ''$'' 1, leaf_at ''ID_PLAIN'' ''x'' 2]"

definition sample_declare :: tree where
  "sample_declare = node_at ''Declare_stmt'' [sample_bound, node_at ''Type_name'' [leaf_at ''ID_PLAIN'' ''Uint64'' 4]]"

definition sample_statement :: tree where
  "sample_statement = node_at ''Sql_stmt'' [node_at ''Sql_stmt_core'' [sample_declare]]"

definition sample_script :: tree where
  "sample_script = node_at ''Sql_query'' [node_at ''Sql_stmt_list'' [sample_statement]]"

definition sample_queries :: queryTree where
  "sample_queries = \<lparr>qt_statements = [sample_statement], qt_declares = [sample_declare], qt_named = [], qt_insert = [],
     qt_updates = [], qt_deletes = [], qt_binds = [sample_bound]\<rparr>"

definition declares :: "queryBlock \<Rightarrow> bool" where
  "declares b \<longleftrightarrow> qb_command b = Exec \<and> qb_tree b = sample_script \<and> qb_parameters b = [] \<and> qb_assumed b = [] \<and> qb_arguments b = []"

lemma sample_queries: "collectQueryTree sample_script sample_script = sample_queries"
  by code_simp

lemma sample_parts:
  "qt_statements sample_queries = [sample_statement]" "qt_declares sample_queries = [sample_declare]"
  "qt_named sample_queries = []" "qt_insert sample_queries = []"
  "qt_updates sample_queries = []" "qt_binds sample_queries = [sample_bound]"
  by (simp_all add: sample_queries_def)

lemma sample_values:
  "lambdaLocalBindPositions sample_script = []" "bindName (Some sample_bound) = ''x''" "start_index sample_bound = 1"
  "GetStart sample_bound \<noteq> None" "\<not> is_data (rule_of ''Sql_stmt_core'' sample_statement)" "sqlcMacroCalls [] = []"
  "kind_of_statement sample_statement = Assignment" "filter (in_subquery_node \<circ> snd) (walk [] sample_script) = []"
  by code_simp+

lemma sample_checks:
  assumes "declares b"
  shows "validateQueryStatements b sample_queries = []" "early_diagnostics b sample_queries [] = []"
proof -
  have "validateINSubqueryContexts b sample_script = []"
    using sample_values(8) by (auto simp: validateINSubqueryContexts_def map_filter_def filter_empty_conv comp_def)
  with assms show "early_diagnostics b sample_queries [] = []"
    by (simp add: early_diagnostics_def declares_def Exec_def Each_def)
  show "validateQueryStatements b sample_queries = []"
    using assms by (simp add: validateQueryStatements_def sample_parts refused_statement_def sample_values map_filter_def
      dataless_def isDeclarationOnlyExec_def declares_def)
qed

lemma sample_declarations:
  "declarations b sample_queries = ([''x'' \<mapsto> mk_kind ''Uint64''], [1], [])"
proof -
  have t: "GetText (rule_of ''Type_name'' sample_declare) = ''Uint64''" "bindName (rule_opt ''Bind_parameter'' sample_declare) = ''x''"
    "map_option tk_Start (Option.bind (rule_opt ''Bind_parameter'' sample_declare) GetStart) = Some 1"
    "parseType ''Uint64'' = Inr (mk_kind ''Uint64'')"
    by code_simp+
  show ?thesis using t(3)
    by (auto simp: declarations_def sample_parts Let_def t(1,2,4) split: option.splits)
qed

lemma sample_body:
  assumes "declares b"
  shows "\<exists>q. statement_phase catalog b [] sample_queries [] query = Some ((q, []), qb_wildcards b) \<and> map qp_Name (aq_Parameters q) = [''x'']"
  using assms
  by (simp add: statement_phase_def sample_declarations Let_def localBindings_def configuredDeclarations_def assume_types_def
     sorted_arguments_def narg_conflict_def local_conflicts_def finish_query_def query_parameters_of_def externalParameters_def
     sample_parts sample_values start_analysis_def external_bind_def external_type_def nullable_argument_def
     embed_scripts_def unused_embeds_def unused_configured_def changed_parameter_def result_columns_of_def command_diagnostics_def
     map_filter_def declares_def Exec_def One_def Many_def Each_def ExecRows_def Multi_def)

lemma sample_analysis:
  assumes "parsed_query antlr block = ((sample_script, []), [])" "tablePathPrefix (qb_file block) (qb_line block - 1) sample_script = ([], [])"
    and d: "declares (block\<lparr>qb_tree := sample_script, qb_tablePathPrefix := []\<rparr>)"
  shows "\<exists>q. analyzeQuery uc antlr catalog block = Some ((q, []), qb_wildcards block) \<and> map qp_Name (aq_Parameters q) = [''x'']"
proof -
  let ?b = "block\<lparr>qb_tree := sample_script, qb_tablePathPrefix := []\<rparr>"
  have m: "qb_command block \<noteq> Multi" using d by (simp add: declares_def Exec_def Multi_def)
  from sample_body [OF d, of catalog "(base_query block)\<lparr>aq_DeclarationOnly := isDeclarationOnlyExec ?b sample_queries\<rparr>"]
  show ?thesis
    by (simp add: analyzeQuery_def assms(1,2) Let_def sample_queries sample_checks [OF d] m)
qed

definition sample_block :: queryBlock where
  "sample_block = (empty_block plain_packages)\<lparr>qb_name := ''Clear'', qb_command := Exec, qb_line := 1,
     qb_parsed := Some (sample_script, [])\<rparr>"

definition ascii_tables :: unicode where
  "ascii_tables = \<lparr>uc_letter = \<lambda>_. False, uc_digit = \<lambda>_. False, uc_is_upper = \<lambda>_. False, uc_upper = \<lambda>r. r,
     uc_lower = \<lambda>r. r, uc_title = \<lambda>r. r, uc_space = \<lambda>_. False\<rparr>"

lemma sample_prefixes: "tablePathPrefix [] 0 sample_script = ([], [])" "tablePathPrefix ''q.sql'' 0 sample_script = ([], [])"
  by code_simp+

lemma query_accepted_witness:
  "\<exists>q w. analyzeQuery ascii_tables (\<lambda>_. (no_tree, [], [])) \<lparr>cat_Tables = []\<rparr> sample_block = Some ((q, []), w)
     \<and> map qp_Name (aq_Parameters q) = [''x''] \<and> accepted q \<and> aq_Name q = ''Clear''"
proof -
  obtain q w where a: "analyzeQuery ascii_tables (\<lambda>_. (no_tree, [], [])) \<lparr>cat_Tables = []\<rparr> sample_block = Some ((q, []), w)"
      "map qp_Name (aq_Parameters q) = [''x'']"
    using sample_analysis [of "\<lambda>_. (no_tree, [], [])" sample_block ascii_tables "\<lparr>cat_Tables = []\<rparr>"]
    by (auto simp: parsed_query_def sample_block_def empty_block_def declares_def sample_prefixes)
  from query_accepted [OF a(1)] a show ?thesis by (simp add: sample_block_def)
qed

definition sample_text :: string where
  "sample_text = ''-- name: Clear :exec''"

definition sample_tokens :: "token list" where
  "sample_tokens = [\<lparr>tk_Type = ''COMMENT'', tk_Text = sample_text, tk_Start = 0, tk_Stop = 19, tk_Line = 1, tk_Column = 0,
     tk_Index = 0, tk_Hidden = True\<rparr>]"

definition sample_environment :: environment where
  "sample_environment = \<lparr>ev_packages = plain_packages, ev_lexer = (\<lambda>_. (sample_tokens, [])),
     ev_parser = (\<lambda>_. (sample_script, [], [])), ev_unicode = ascii_tables\<rparr>"

definition sample_source :: Source where
  "sample_source = \<lparr>src_Name = ''q.sql'', src_Text = sample_text\<rparr>"

definition sample_named :: queryBlock where
  "sample_named = (empty_block plain_packages)\<lparr>qb_name := ''Clear'', qb_command := '':exec'', qb_file := ''q.sql'', qb_line := 1,
     qb_text := sample_text, qb_functions := empty_registry\<rparr>"

lemma sample_environment_parts:
  "ev_lexer sample_environment x = (sample_tokens, [])" "ev_parser sample_environment x = (sample_script, [], [])"
  "ev_packages sample_environment = plain_packages" "ev_unicode sample_environment = ascii_tables"
  by (simp_all add: sample_environment_def)

lemma sample_trims:
  "TrimSpace sample_text = sample_text"
  "TrimSpace '' name: Clear :exec'' = ''name: Clear :exec''"
  "TrimSpace '' Clear :exec'' = ''Clear :exec''"
  using trim_visible [of "CHR ''-''" "CHR ''c''" "''- name: Clear :exe''"] trim_visible [of "CHR ''n''" "CHR ''c''" "''ame: Clear :exe''"]
    trim_visible [of "CHR ''C''" "CHR ''c''" "''lear :exe''"]
  by (simp_all add: sample_text_def trim_blank space_bytes_def byte_def)

lemma sample_annotation: "parseAnnotation sample_text = (''Clear'', '':exec'', True, [])"
proof -
  have f: "str_fields [] ''Clear :exec'' = [''Clear'', '':exec'']"
    by (simp add: fields_visible fields_blank fields_end space_bytes_def byte_def)
  have t: "trim_prefix sample_text ''--'' = '' name: Clear :exec''" "has_prefix sample_text ''--''"
      "\<not> has_prefix (to_lower ''name: Clear :exec'') ''sqlc''" "has_prefix (to_lower ''name: Clear :exec'') ''name:''"
      "drop (length ''name:'') ''name: Clear :exec'' = '' Clear :exec''" "List.member commands '':exec''"
    by code_simp+
  show ?thesis
    by (simp only: parseAnnotation_def Let_def sample_trims t Fields_of_def f not_True_eq_False not_False_eq_True if_True if_False
      list.case)
qed

lemma sample_collected: "collect_blocks sample_environment empty_registry [] [sample_source] = ([sample_named], [])"
proof -
  have k: "annotation_token (hd sample_tokens)"
    by (simp add: annotation_token_def sample_tokens_def sample_trims) (simp add: sample_text_def has_prefix_def)
  have a: "annotation_loop sample_source [] [] False sample_tokens =
      ([\<lparr>an_name = ''Clear'', an_command = '':exec'', an_start = 0, an_line = 1\<rparr>], [], False)"
    using k by (simp add: sample_tokens_def sample_annotation significant_def Let_def runeByteOffset_def)
  have "queryBlocks plain_packages (ev_lexer sample_environment) sample_source
      = ([(empty_block plain_packages)\<lparr>qb_name := ''Clear'', qb_command := '':exec'', qb_file := ''q.sql'', qb_line := 1,
          qb_text := sample_text\<rparr>], [])"
    by (simp add: queryBlocks_def sample_environment_parts a Let_def) (simp add: sample_source_def sample_trims)
  then show ?thesis by (simp add: sample_named_def Let_def sample_environment_parts)
qed

lemma project_accepted_witness:
  "\<exists>result. analyze sample_environment None [] [sample_source] \<lparr>op_Functions = [], op_Parameters = []\<rparr> = Some (result, None)
     \<and> map aq_Name (ar_Queries result) = [''Clear''] \<and> list_all accepted (ar_Queries result)"
proof -
  let ?fresh = "sample_named\<lparr>qb_wildcards := Some (fresh_rewrites sample_named)\<rparr>"
  have n: "\<not> str_contains (to_lower sample_text) ''sqlc''" by code_simp
  have low: "lower_blocks sample_environment [sample_named] = ([sample_named], [])"
    by (simp add: lowerSQLCArguments_def sample_named_def n)
  have conf: "configured_parameters \<lparr>op_Functions = [], op_Parameters = []\<rparr> sample_named = sample_named"
    by (simp add: configured_parameters_def sample_named_def empty_block_def)
  obtain q where a: "analyzeQuery ascii_tables (ev_parser sample_environment) \<lparr>cat_Tables = []\<rparr> ?fresh
      = Some ((q, []), Some (fresh_rewrites sample_named))"
    using sample_analysis [of "ev_parser sample_environment" ?fresh ascii_tables "\<lparr>cat_Tables = []\<rparr>"]
    by (auto simp: parsed_query_def parseYQL_def sample_environment_parts sample_named_def empty_block_def declares_def Exec_def
        sample_prefixes)
  have s: "assumed_types ?fresh q = []"
  proof -
    have "fold (\<lambda>p acc. acc) ps acc = acc" for ps :: "QueryParameter list" and acc :: "(string \<times> ty) list"
      by (induction ps arbitrary: acc) simp_all
    then show ?thesis by (simp add: assumed_types_def nullable_argument_def sample_named_def empty_block_def)
  qed
  have fr: "ww_replacements (fresh_rewrites sample_named) = []" by (simp add: fresh_rewrites_def)
  obtain b where e: "analyzeExecutableQuery ascii_tables (ev_parser sample_environment) \<lparr>cat_Tables = []\<rparr> sample_named = Some ((q, []), b)"
    using fr by (simp add: analyzeExecutableQuery_def analyze_twice_def a s Let_def)
  have name: "aq_Name q = ''Clear''" using analyzeQuery_ok [OF a] by (simp add: sample_named_def)
  obtain result where r: "analyze sample_environment None [] [sample_source] \<lparr>op_Functions = [], op_Parameters = []\<rparr> = Some (result, None)"
      "ar_Queries result = [q]"
    by (simp add: analyze_def NewRegistry_def buildCatalog_def sample_collected unknown_query_def analyze_queries_def conf low
        database_phase_def e sample_environment_parts recheck_def project_result_of_def uniqueDiagnostics_def join_errors_def Let_def
        del: collect_blocks.simps lower_blocks.simps)
  from project_accepted [OF r(1)] r name show ?thesis by auto
qed

end
