(* ===== verification/Spec2Isabelle.thy ===== *)
theory Spec2Isabelle
  imports CommonOrder Registry Config Metadata Literals GolangGenerate SchemaCatalog TypeSoundness SourceMaps CatalogMemory AcceptedQueries
begin

text \<open>
  A verification development of sqlc-ydb, a compiler from annotated YQL queries to typed code in nine
  languages. The program reads a configuration (\<open>internal/config\<close>), splits and analyses the schema
  and query files (\<open>internal/source\<close>, \<open>internal/analyzer\<close>), resolves the type of every built-in
  and user function call (\<open>internal/yql/builtins\<close>), and hands the analysed queries
  (\<open>internal/model\<close>) to a code generator (\<open>internal/codegen\<close>).

  \<^bold>\<open>Conventions.\<close> A Go struct is a record with the struct's fields under a short prefix, a Go error is
  its message (\<open>go_error\<close>), a pair \<open>(T, error)\<close> is \<open>'a res = go_error + 'a\<close>, and every early return is
  an \<open>Inl\<close>. \<open>Errorf\<close> formats the messages of the source, so they can be compared with it literally. A
  loop is a recursive function that takes the loop's variables; a \<open>switch\<close> on strings is \<open>switch\<close>. A
  Go string is a list of bytes. What is not under the repository is a parameter of the definitions
  that use it: the group names of a regular expression (\<open>rx\<close>), \<open>url.Parse\<close>, \<open>time.ParseDuration\<close>,
  \<open>constraint.Parse\<close>, the YAML decoder, the environment, the file system.

  \<^bold>\<open>Theories.\<close>
  \<^item> \<open>Prelude\<close>, \<open>GoStrings\<close>, \<open>GoPaths\<close>: errors and results, formatting, \<open>strings\<close>, \<open>unicode/utf8\<close>,
    \<open>path/filepath\<close> as the program uses them; the collection \<open>result_simps\<close> reads off how a sequence
    of calls succeeded.
  \<^item> \<open>GoTypes\<close>, \<open>Metadata\<close> (\<open>model/model.go\<close>): the type model with its structural equality and
    spelling; the records of catalogs and queries and the annotations of queries.
  \<^item> \<open>CommonTypes\<close>, \<open>CommonOrder\<close> (\<open>builtins/common.go\<close>): the types that may take part in
    resolution, and the common type, with its declarative reading and its independence of order.
  \<^item> \<open>NumericTypes\<close> (\<open>arithmetic.go\<close>, \<open>cast.go\<close>), \<open>Coalesce\<close> (\<open>coalesce.go\<close>): the numeric rules, read
    as statements about the values of machine words, and COALESCE.
  \<^item> \<open>Calls\<close>: call arguments, signatures and the locales \<open>resolver_table\<close> and \<open>signature_table\<close>,
    which state what each module of functions promises; they are interpreted on the tables of
    \<open>CoreFunctions\<close>, \<open>StringUdf\<close>, \<open>DateTimeUdf\<close>, \<open>Specialized\<close>, \<open>Yson\<close>, \<open>Libraries\<close> and the registry.
  \<^item> \<open>Signatures\<close> (\<open>signatures.go\<close>): validating, comparing and matching overloaded signatures.
  \<^item> \<open>Collections\<close> (\<open>collection.go\<close>), \<open>CoreFunctions\<close> (\<open>resolve.go\<close>), \<open>StringUdf\<close>, \<open>DateTimeUdf\<close>,
    \<open>Specialized\<close>, \<open>Yson\<close>, \<open>Libraries\<close> (the files \<open>udf_*.go\<close>, \<open>yson_json.go\<close>, \<open>libraries.go\<close>):
    the resolvers, one definition per function of the source.
  \<^item> \<open>Registry\<close>: \<open>NewRegistry\<close>, \<open>ResolveCall\<close> and the order in which the tables are asked.
  \<^item> \<open>ConfigOptions\<close> (\<open>config/options.go\<close>), \<open>DatabaseConfig\<close> (\<open>config/database.go\<close>), \<open>Config\<close>
    (\<open>config/config.go\<close>): the generators with their runtimes, the database settings, and \<open>Parse\<close>.
  \<^item> \<open>GoRunes\<close>, \<open>GoUnicode\<close>: the parts of \<open>strconv\<close>, \<open>unicode\<close> and \<open>strings\<close> on runes that the program
    uses; the tables of package \<open>unicode\<close> are the record \<open>unicode\<close>, a parameter.
  \<^item> \<open>Literals\<close> (\<open>analyzer/literal.go\<close>): types and values of literals from their text.
  \<^item> \<open>GolangTypes\<close>, \<open>GolangOverrides\<close>, \<open>GolangNames\<close>, \<open>GolangValidate\<close>, \<open>GolangModels\<close>,
    \<open>GolangQueries\<close>, \<open>GolangFiles\<close>, \<open>GolangGenerate\<close> (\<open>codegen/golang\<close>): the Go generator, from the type
    mapping to the text of every file. A declaration is a pair of its name and its text; a writer that
    appends to a buffer is a function that returns what it appends.

  \<^item> \<open>SyntaxTree\<close>, \<open>AnalyzerText\<close>, \<open>TablePaths\<close>: the parse trees and tokens that the analyzer reads, with
    the accessors of the generated parser; names, bindings and query annotations; prefix pragmas and
    the paths of tables (\<open>analyzer.go\<close>, \<open>table_paths.go\<close>). The parser is the parameter \<open>antlr\<close>.
    \<open>Annotations\<close> compares the two functions that recognise an annotation.
  \<^item> \<open>YqlTypes\<close>, \<open>SchemaCatalog\<close>, \<open>CatalogMemory\<close> (\<open>catalog.go\<close>, \<open>catalog_indexes.go\<close>): the reader of YQL types,
    the statements of the schema files with the catalog they build, and ALTER TABLE on Go slices in memory.
  \<^item> \<open>ExprTree\<close>, \<open>Expressions\<close> (\<open>expression.go\<close>, \<open>arithmetic.go\<close>, \<open>boolean.go\<close>, \<open>lambda.go\<close>, \<open>member.go\<close>,
    \<open>in_subquery.go\<close>, \<open>predicate.go\<close>, \<open>window.go\<close>, parts of \<open>semantic.go\<close>): what the analyzer reads off a parse
    tree, and the types of expressions. The mutually recursive functions take the two entries
    \<open>resolveExpression\<close> and \<open>resolveScalarNode\<close> as the parameter \<open>rs\<close>; \<open>resolve_fuel\<close> closes the recursion.
    \<open>ExpressionTypes\<close> and \<open>TypeSoundness\<close> state the contracts of \<open>rs\<close> as the locales \<open>total_resolver\<close> and
    \<open>typed_resolver\<close> and discharge them for \<open>resolve_fuel\<close>. \<open>GetParent\<close> is a search in the tree of the query.
  \<^item> \<open>QueryText\<close>, \<open>SourceMaps\<close> (\<open>analyzer.go\<close>, \<open>sqlc_macro.go\<close>, \<open>wildcard.go\<close>): the named queries of a file, the
    \<open>sqlc\<close> macros, replacing spans of the text and the way back from the rewritten to the original text.
  \<^item> \<open>Inference\<close>, \<open>ParameterTypes\<close> (\<open>semantic.go\<close>, \<open>select_semantic.go\<close>, \<open>dml_expression.go\<close>): declared, configured
    and external parameters, and the types that their uses give them.
  \<^item> \<open>Relations\<close>, \<open>Grouping\<close>, \<open>Projections\<close>, \<open>Predicates\<close> (the files \<open>flatten.go\<close>, \<open>embed.go\<close>, \<open>order_by.go\<close>,
    \<open>projection_names.go\<close>, \<open>predicate.go\<close> and parts of others): the clauses of a SELECT, one after the other.
  \<^item> \<open>Selects\<close>, \<open>SelectRuns\<close> (\<open>insert_select.go\<close>, \<open>in_subquery.go\<close>, \<open>selectRelations\<close>): the analysis of a SELECT, which
    is nested in sources and IN subqueries. The analysis of the inner SELECT is the parameter \<open>rec\<close>, its contract
    the locale \<open>inner_selects\<close>, and \<open>select_fuel\<close> closes the recursion. What the source changes in place, the maps
    \<open>bindings\<close> and \<open>inferred\<close>, the column bindings and the rewrites, is the record \<open>analysis\<close>, passed along.
  \<^item> \<open>Statements\<close>, \<open>Locals\<close>, \<open>Lineage\<close>, \<open>Queries\<close>, \<open>QueryRuns\<close> (\<open>semantic.go\<close>, \<open>insert_select.go\<close>, \<open>multi.go\<close>,
    \<open>parameter_lineage.go\<close>, \<open>wildcard.go\<close>): data statements, the statements around them, and a whole query.
  \<^item> \<open>DatabaseChecks\<close>, \<open>AnalyzeProject\<close>, \<open>AcceptedQueries\<close> (\<open>database.go\<close>, \<open>analyzer.go\<close>, \<open>options.go\<close>): the checks
    against a database, which is the record \<open>connection\<close>, the analysis of a project from the text of its files,
    and what holds of its result. Lexer, parser and Unicode tables are the record \<open>environment\<close>.

  \<^bold>\<open>What is shown.\<close> Resolution is type sound: whatever a call resolves to is a well formed type that
  may take part in resolution again, and it is Null only where Null came in. User signatures are
  unambiguous, can be registered in any order, never shadow a built-in name, and the test for
  overlaps misses nothing. The numeric rules lose no value where they claim to lose none. Keys,
  structs, dictionaries and resources round-trip. A configuration is accepted exactly when it has the
  declarative form, and is then a fixpoint of the checks; the expansion of variables always returns.
  A literal has the type that holds its value. The types
  of a schema are those whose spelling reads back; the catalog that any schema files build is well
  formed, ALTER TABLE works on a copy in memory, so that a statement that fails leaves no trace in the catalog, and table
  paths are clean and absolute. The line that the generators take off a query is the one the analyzer read as its annotation.
  Typing an expression returns whatever the tree, and a type it returns is well formed (for parameters
  with valid types, thus where no named local lambda is among the bindings: its pseudo-type Lambda is
  none). The analysis of a SELECT and of a whole query always returns, and a SELECT never changes a type that
  is bound. Rewriting keeps every byte outside the replaced spans, and a diagnostic on the rewritten text is
  reported where the author wrote the byte. The type inferred for a parameter depends on the set of its uses
  only. A query that is accepted has distinct parameters of known types, columns that may leave the database,
  and results that fit its command; so has every query of a project that is analyzed without an error, under a
  name of its own. A table agrees with the database exactly when columns, key and indexes are the same by
  name. The Go package written after a successful validation
  declares no name twice, writes for parameters and columns only types that exist, and imports the packages of its
  overrides under the aliases it uses.

  \<^bold>\<open>Termination.\<close> Every recursion on types is by size, the overlap test by the number of parameters
  left. \<open>expand_loop\<close> is a partial function whose termination is a theorem. The fuel of
  \<open>utf8_valid_fuel\<close> and \<open>quote_body\<close> is the number of bytes, of which each step uses one at least,
  that of \<open>select_fuel\<close> one more than the size of the SELECT, in which every nested SELECT is smaller,
  that of \<open>resolve\<close> the size of the expression and of all lambdas in scope (\<open>resolve_measure\<close>),
  that of \<open>read_type\<close> the number of bytes of the type's text and one more (\<open>parse_type_total\<close>).

  \<^bold>\<open>Not modelled.\<close> The generators of the languages other than Go; the database client and the
  command line, which are input and output. In the modelled files, the field \<open>Syntax\<close> of an analysed query,
  which hands the parse tree to the jOOQ generator, is left out. \<open>strconv.Quote\<close> is exact for printable
  runes only. \<open>to_lower\<close> and \<open>equal_fold\<close> are used where one side is ASCII text, for which they are exact; where both
  sides are names of the user, \<open>strings_ToLower\<close> and \<open>EqualFold\<close> go by runes and Unicode tables. Slices are values, but
  for the tables of \<open>CatalogMemory\<close>.
\<close>

section \<open>Sample data of the witnesses\<close>

definition no_groups :: "string \<Rightarrow> string list res" where
  "no_groups = (\<lambda>_. Inr [[]])"

lemma no_groups_ok: "group_names_ok no_groups"
  by (simp add: group_names_ok_def no_groups_def)

definition udf_uint :: Signature where
  "udf_uint = mk_signature ''My::F'' [req_p ''Uint64'', named_p ''x'' ''Bool''] (mk_kind ''String'')"

definition udf_text :: Signature where
  "udf_text = mk_signature ''My::F'' [auto_p ''Utf8''] (mk_kind ''Int64'')"

definition udf_registry :: registry where
  "udf_registry = (\<lambda>name. if name = ''My::F'' then [udf_uint, udf_text] else [])"

lemma udf_registry_new: "NewRegistry [udf_uint, udf_text] = Inr udf_registry"
proof -
  have "isl (NewRegistry [udf_uint, udf_text]) = False" by code_simp
  then obtain r where r: "NewRegistry [udf_uint, udf_text] = Inr r" by (cases "NewRegistry [udf_uint, udf_text]") simp_all
  from NewRegistry_contents [OF r] have "r = udf_registry"
    by (auto simp: udf_registry_def udf_uint_def udf_text_def fun_eq_iff)
  with r show ?thesis by simp
qed

section \<open>Resolution of calls\<close>

text \<open>
  C10: the type that ResolveCall returns for a call is a type that may itself take part in
  resolution (a concrete type or Null, well formed at every depth), whatever the function,
  if the argument types may and the user signatures were accepted by NewRegistry.
\<close>

theorem resolve_call_valid:
  assumes "NewRegistry ss = Inr r" "group_names_ok rx" "\<forall>a\<in>set args. valid (arg_Type a)"
    "ResolveCall rx r name args = Inr t"
  shows "valid t"
  by (rule sound_result_valid [OF sound_resD [OF ResolveCall_sound [OF assms(2) NewRegistry_ok [OF assms(1)] assms(3)] assms(4)]])

lemma resolve_call_valid_witness: "valid (mk_kind ''String'')"
  by (rule resolve_call_valid [OF udf_registry_new no_groups_ok, of "[plain_argument (mk_kind ''Uint64'')]" "''My::F''"])
    (simp, code_simp)

text \<open>
  C11: Null does not come out of a call: if no argument type is Optional<Null>, the result of
  ResolveCall is not Null, for every function and every accepted set of user signatures.
\<close>

theorem resolve_call_not_null:
  assumes "NewRegistry ss = Inr r" "group_names_ok rx" "\<forall>a\<in>set args. valid (arg_Type a)"
    "Optional (mk_kind ''Null'') \<notin> arg_Type ` set args" "ResolveCall rx r name args = Inr t"
  shows "Kind t \<noteq> ''Null''"
  using sound_resD [OF ResolveCall_sound [OF assms(2) NewRegistry_ok [OF assms(1)] assms(3)] assms(5)] assms(4)
  by (auto simp: sound_result_def)

lemma resolve_call_not_null_witness: "Kind (mk_kind ''Int64'') \<noteq> ''Null''"
  by (rule resolve_call_not_null [OF udf_registry_new no_groups_ok,
      of "[plain_argument (mk_kind ''Null''), plain_argument (mk_kind ''Int64'')]" "''Nvl''"])
    (simp, simp add: Optional_def, code_simp)

text \<open>
  C14: overloads accepted by NewRegistry are unambiguous: a call whose argument types alone
  decide (no literal that could be converted, no Null) matches at most one of the overloads
  of a name, so it never ends in the error of an ambiguous call.
\<close>

theorem registry_unambiguous:
  assumes "NewRegistry ss = Inr r" "\<forall>a\<in>set args. decided_argument a"
  shows "length (fst (match_overloads args (r name))) \<le> 1"
  by (rule checked_registry.match_overloads_length [OF checked_registry.intro [OF NewRegistry_ok [OF assms(1)]] assms(2)])

lemma registry_unambiguous_witness:
  "length (fst (match_overloads [plain_argument (mk_kind ''Uint64'')] (udf_registry ''My::F''))) \<le> 1"
  by (rule registry_unambiguous [OF udf_registry_new])
    (simp add: decided_argument_def base_or_zero_def baseType_base)

text \<open>
  What NewRegistry stores: under every name exactly the given signatures of that name, in
  the given order; each of them passed validation, none is under a known built-in name, and no
  earlier one overlaps a later one.
\<close>

lemma registry_contents:
  assumes "NewRegistry ss = Inr r"
  shows "r name = filter (\<lambda>s. sig_Name s = name) ss
    \<and> (\<forall>s\<in>set (r name). validateSignature s = None \<and> \<not> isKnownFunction name)
    \<and> sorted_wrt (\<lambda>s s'. \<not> signaturesOverlap s s') (r name)"
  using NewRegistry_contents [OF assms] NewRegistry_ok [OF assms] by (simp add: registry_ok_def)

lemma registry_contents_witness:
  "validateSignature udf_text = None \<and> \<not> signaturesOverlap udf_uint udf_text"
  using registry_contents [OF udf_registry_new, of "''My::F''"]
  by (simp add: udf_registry_def)

text \<open>
  User signatures do not shadow the package: for a known name a registry built by
  NewRegistry resolves every call as the registry without user signatures does.
\<close>

lemma known_not_shadowed:
  assumes "NewRegistry ss = Inr r" "isKnownFunction name"
  shows "ResolveCall rx r name args = ResolveCall rx empty_registry name args"
  by (rule ResolveCall_known [OF NewRegistry_ok [OF assms(1)] assms(2)])

lemma known_not_shadowed_witness:
  "ResolveCall no_groups udf_registry ''Sum'' [] = ResolveCall no_groups empty_registry ''Sum'' []"
  by (rule known_not_shadowed [OF udf_registry_new]) code_simp

text \<open>
  C21: a name that is neither known to the package nor declared by the user is refused, whatever
  the arguments.
\<close>

theorem unknown_refused:
  assumes "NewRegistry ss = Inr r" "\<not> isKnownFunction name" "name \<notin> sig_Name ` set ss"
  shows "\<exists>e. ResolveCall rx r name args = Inl e"
proof -
  have "r name = []" using NewRegistry_contents [OF assms(1)] assms(3) by (auto simp: filter_empty_conv)
  then have "ResolveCall rx r name args = check_then (first_err (named_argument_err name) args)
      (Inl (Errorf ''unsupported YQL function %q'' [FStr name]))"
    unfolding ResolveCall_unknown [OF assms(2)] by simp
  then show ?thesis unfolding check_then_def by (simp split: option.splits)
qed

lemma unknown_refused_witness: "\<exists>e. ResolveCall no_groups udf_registry ''My::G'' [] = Inl e"
  by (rule unknown_refused [OF udf_registry_new]) (code_simp, code_simp)

text \<open>
  A call of a user function is resolved by the user's overloads of that name and by nothing
  else: names, literals and optional arguments are matched against exactly those signatures.
\<close>

lemma user_call_resolved:
  assumes "NewRegistry ss = Inr r" "s \<in> set ss"
  shows "ResolveCall rx r (sig_Name s) args =
    resolveSignatures (sig_Name s) args (filter (\<lambda>u. sig_Name u = sig_Name s) ss)"
proof -
  have c: "r (sig_Name s) = filter (\<lambda>u. sig_Name u = sig_Name s) ss" by (rule NewRegistry_contents [OF assms(1)])
  with assms(2) have s: "s \<in> set (r (sig_Name s))" by simp
  then have n: "r (sig_Name s) \<noteq> []" by (metis empty_iff empty_set)
  have k: "\<not> isKnownFunction (sig_Name s)"
    using NewRegistry_ok [OF assms(1)] s unfolding registry_ok_def by blast
  show ?thesis unfolding ResolveCall_unknown [OF k] if_P [OF n] by (rule arg_cong [OF c])
qed

lemma user_call_resolved_witness:
  "ResolveCall no_groups udf_registry (sig_Name udf_text) [plain_argument (mk_kind ''Utf8'')] =
    resolveSignatures (sig_Name udf_text) [plain_argument (mk_kind ''Utf8'')]
      (filter (\<lambda>u. sig_Name u = sig_Name udf_text) [udf_uint, udf_text])"
  by (rule user_call_resolved [OF udf_registry_new]) simp

text \<open>
  C15: NewRegistry accepts a list of signatures exactly when each passes validation under a name that
  is not built in, no two have the same shape, and no two of one name overlap.
\<close>

theorem new_registry_accepts:
  "(\<exists>r. NewRegistry ss = Inr r) \<longleftrightarrow>
     list_all (\<lambda>s. \<not> isKnownFunction (sig_Name s) \<and> validateSignature s = None) ss
   \<and> distinct (map signatureShape ss)
   \<and> sorted_wrt (\<lambda>u s. \<not> (sig_Name u = sig_Name s \<and> signaturesOverlap u s)) ss"
  by (rule NewRegistry_accepts)

text \<open>
  C16: the order in which a user declares functions does not matter: a permutation of an accepted list
  is accepted, and ResolveCall gives a call of any function, built in or declared, a type exactly when it did, and the same one.
\<close>

theorem registration_order:
  assumes "NewRegistry ss = Inr r" "mset us = mset ss"
  shows "\<exists>q. NewRegistry us = Inr q
    \<and> (\<forall>rx name args t. ResolveCall rx q name args = Inr t \<longleftrightarrow> ResolveCall rx r name args = Inr t)"
proof -
  obtain q where q: "NewRegistry us = Inr q" "\<forall>name. mset (q name) = mset (r name)"
    using NewRegistry_permute [OF assms] by blast
  have "ResolveCall rx q name args = Inr t \<longleftrightarrow> ResolveCall rx r name args = Inr t" for rx name args t
    using ResolveCall_mset [of q name r] q(2) by blast
  with q(1) show ?thesis by blast
qed

lemma registration_order_witness:
  "\<exists>q. NewRegistry [udf_text, udf_uint] = Inr q
     \<and> (\<forall>rx args t. ResolveCall rx q (sig_Name udf_text) args = Inr t \<longleftrightarrow> ResolveCall rx udf_registry (sig_Name udf_text) args = Inr t)"
  using registration_order [OF udf_registry_new, of "[udf_text, udf_uint]"] by (simp add: add_mset_commute) blast

section \<open>SQL built-ins\<close>

text \<open>
  UNWRAP takes exactly one Optional off: what it returns for an optional of a valid type is that
  type, so Optional<Optional<T>> becomes Optional<T> and Optional<Null> becomes Null.
\<close>

theorem unwrap_optional:
  assumes "valid t"
  shows "Resolve rx ''Unwrap'' [Optional t] = Inr t"
proof -
  have "to_upper ''Unwrap'' = ''UNWRAP''" by code_simp
  then have "lookupCore ''Unwrap'' = Some resolveUnwrap" by (simp add: lookupCore_def core_functions_def)
  moreover have "\<not> equal_fold ''Unwrap'' ''AsStruct''" "\<not> isDocumentedYson ''Unwrap''"
      "standardSignatures ''Unwrap'' = []" "stringUnicodeUrlSignatures ''Unwrap'' = []"
      "\<not> isSpecializedCallName ''Unwrap''" "\<not> isCoalesce ''Unwrap''" "\<not> IsHistogramAggregate ''Unwrap''"
      "\<not> str_contains ''Unwrap'' ''::''"
    by code_simp+
  moreover have "resolveUnwrap [Optional t] = Inr t"
    using assms by (simp add: resolveUnwrap_def)
  ultimately show ?thesis
    by (simp add: Resolve_def ResolveCall_def resolveYsonCall_def resolveSpecializedCall_def isSpecializedCallName_def
        empty_registry_def named_argument_err_def plain_argument_def plain_type_def resolveLegacy_def
        resolveHistogramAggregate_def)
qed

lemma unwrap_optional_witness: "Resolve no_groups ''Unwrap'' [Optional (mk_kind ''Null'')] = Inr (mk_kind ''Null'')"
  by (rule unwrap_optional) simp

section \<open>Signatures\<close>

text \<open>
  C20: overload resolution succeeds with a type exactly when one of the overloads matches the
  call with that type and no other overload matches it.
\<close>

theorem resolve_signatures_unique:
  "resolveSignatures name args ss = Inr t \<longleftrightarrow>
    (\<exists>us s vs. ss = us @ s # vs \<and> matchSignature args s = Inr t
       \<and> list_all (\<lambda>u. isl (matchSignature args u)) (us @ vs))"
  (is "?l \<longleftrightarrow> ?r")
proof
  assume ?l
  then obtain s where f: "filter (\<lambda>s. \<not> isl (matchSignature args s)) ss = [s]" and t: "projr (matchSignature args s) = t"
    by (auto simp: resolveSignatures_Inr match_overloads_fst map_eq_Cons_conv)
  from f obtain us vs where "ss = us @ s # vs" "\<forall>u\<in>set us \<union> set vs. isl (matchSignature args u)"
      "\<not> isl (matchSignature args s)"
    by (fastforce simp: filter_eq_Cons_iff eq_commute [of "[]"] filter_empty_conv)
  moreover from this(3) t have "matchSignature args s = Inr t" by (cases "matchSignature args s") simp_all
  ultimately show ?r by (fastforce simp: list_all_iff)
next
  assume ?r
  then obtain us s vs where ss: "ss = us @ s # vs" and s: "matchSignature args s = Inr t"
    and n: "\<forall>u\<in>set us. isl (matchSignature args u)" "\<forall>u\<in>set vs. isl (matchSignature args u)"
    by (auto simp: list_all_iff)
  from n have "filter (\<lambda>s. \<not> isl (matchSignature args s)) us = []" "filter (\<lambda>s. \<not> isl (matchSignature args s)) vs = []"
    by (simp_all add: filter_empty_conv)
  with ss s show ?l by (simp add: resolveSignatures_Inr match_overloads_fst)
qed

text \<open>
  C19: two signatures that match one and the same call, decided by its types, are reported as
  overlapping by the test NewRegistry makes: the test misses no ambiguity of that kind.
\<close>

theorem overlap_complete:
  assumes "matchSignature args l = Inr t" "matchSignature args r = Inr u" "\<forall>a\<in>set args. decided_argument a"
  shows "signaturesOverlap l r"
  by (rule matches_overlap [OF assms])

lemma overlap_complete_witness: "signaturesOverlap udf_uint udf_uint"
proof -
  have "matchSignature [plain_argument (mk_kind ''Uint64'')] udf_uint = Inr (mk_kind ''String'')" by code_simp
  from overlap_complete [OF this this] show ?thesis
    by (simp add: decided_argument_def base_or_zero_def baseType_base)
qed

text \<open>
  C26: the types that a user signature may declare: well formed, no Null at any depth, no
  Optional directly inside an Optional, and dictionary keys that are legal at any depth.
\<close>

theorem signature_type_accepted:
  "validateSignatureType t False = None \<longleftrightarrow>
    valid t \<and> (\<forall>u. part_of u t \<longrightarrow> Kind u \<noteq> ''Null''
      \<and> (Kind u = ''Optional'' \<longrightarrow> (\<exists>e. Elem u = Some e \<and> Kind e \<noteq> ''Optional''))
      \<and> (Kind u = ''Dict'' \<longrightarrow> (\<exists>k. Key u = Some k \<and> validateDictionaryKey k = None)))"
  by (simp add: validateSignatureType_None signature_part_def)

lemma signature_type_accepted_witness:
  "validateSignatureType (mk_list (mk_kind ''Null'')) False \<noteq> None"
proof -
  have "part_of (mk_kind ''Null'') (mk_list (mk_kind ''Null''))" by (rule part_Elem [OF part_self]) simp
  then show ?thesis by (auto simp: signature_type_accepted)
qed

text \<open>
  A function name is accepted exactly when it is a sequence of YQL identifiers joined
  by two colons.
\<close>

lemma function_identifier:
  "IsFunctionIdentifier s \<longleftrightarrow>
     (\<exists>parts. parts \<noteq> [] \<and> list_all IsParameterIdentifier parts \<and> s = str_join ''::'' parts)"
  by (rule IsFunctionIdentifier_iff)

end
